(* ===== verification/Imc_Prelude.thy ===== *)
theory Imc_Prelude
  imports Main "HOL-Library.Word" "HOL-Library.Signed_Division"
begin

text \<open>
  Shared vocabulary of the development: the names of the machine types, the
  result type in which a run of the modelled code either faults or returns a
  value, the little-endian view of a 64-bit word that \<^verbatim>\<open>memcpy\<close> gives the
  simulator, and the collections that gather the unfolding rules of each layer:

    \<^item> \<open>imc_defs\<close>: the in-memory operations on values;
    \<^item> \<open>mem_defs\<close>: access to the backing store of the simulated memory;
    \<^item> \<open>field_defs\<close>: bit fields of instruction words;
    \<^item> \<open>opc_defs\<close>: the opcode table and its matching functions.
\<close>

unbundle bit_operations_syntax

named_theorems imc_defs \<open>unfolding rules of the in-memory operations\<close>
named_theorems mem_defs \<open>unfolding rules of the backing-store accesses\<close>
named_theorems field_defs \<open>unfolding rules of the instruction fields\<close>
named_theorems opc_defs \<open>unfolding rules of the opcode table\<close>

type_synonym u8 = "8 word"
type_synonym u32 = "32 word"
type_synonym u64 = "64 word"
type_synonym addr = "64 word"
type_synonym tick = "nat"

section \<open>Runs that may fault\<close>

text \<open>
  What ends a run of the simulator in the middle of an operation: an integer
  division by zero (the host traps), a signed overflow (undefined behaviour of
  C++), an access outside the host buffer that backs the memory, a failing
  \<^verbatim>\<open>assert\<close>, and a \<^verbatim>\<open>panic\<close>.
\<close>

datatype host_fault =
    Div_by_zero
  | Signed_overflow
  | Out_of_range
  | Assert_failed
  | Panic

type_synonym 'a run = "host_fault + 'a"

definition rbind :: "'e + 'a \<Rightarrow> ('a \<Rightarrow> 'e + 'b) \<Rightarrow> 'e + 'b" where
  "rbind m f = (case m of Inl e \<Rightarrow> Inl e | Inr v \<Rightarrow> f v)"

lemma rbind_simps [simp]:
  "rbind (Inl e) f = Inl e"
  "rbind (Inr v) f = f v"
  by (simp_all add: rbind_def)

lemma rbind_Inr_iff: "rbind m f = Inr v \<longleftrightarrow> (\<exists>u. m = Inr u \<and> f u = Inr v)"
  by (cases m) auto

lemma rbind_Inl_iff: "rbind m f = Inl e \<longleftrightarrow> m = Inl e \<or> (\<exists>u. m = Inr u \<and> f u = Inl e)"
  by (cases m) auto

lemma rbind_assoc: "rbind (rbind m f) g = rbind m (\<lambda>v. rbind (f v) g)"
  by (cases m) auto

section \<open>Little-endian bytes\<close>

primrec le_bytes :: "nat \<Rightarrow> u64 \<Rightarrow> u8 list" where
  "le_bytes 0 w = []"
| "le_bytes (Suc n) w = ucast w # le_bytes n (drop_bit 8 w)"

primrec le_word :: "u8 list \<Rightarrow> u64" where
  "le_word [] = 0"
| "le_word (b # bs) = ucast b OR push_bit 8 (le_word bs)"

lemma length_le_bytes [simp]: "length (le_bytes n w) = n"
  by (induction n arbitrary: w) auto

lemma le_word_le_bytes_take_bit: "le_word (le_bytes n w) = take_bit (8 * n) w"
proof (induction n arbitrary: w)
  case 0
  show ?case by simp
next
  case (Suc n)
  have "le_word (le_bytes (Suc n) w)
      = ucast (ucast w :: u8) OR push_bit 8 (take_bit (8 * n) (drop_bit 8 w))"
    by (simp add: Suc)
  also have "\<dots> = take_bit (8 * Suc n) w"
    by (rule bit_eqI) (auto simp: bit_simps)
  finally show ?case .
qed

lemma le_word_le_bytes [simp]: "le_word (le_bytes 8 w) = w"
  by (simp add: le_word_le_bytes_take_bit take_bit_word_eq_self)

end
