(* ===== verification/Host_Store.thy ===== *)
theory Host_Store
  imports Imc_Prelude
begin

text \<open>
  The host array that backs a simulated memory, and the contract its eight-byte
  cells keep. The contract is the locale \<open>cell_store\<close>: a load or store of a valid
  cell succeeds, a store is seen by the next load of its cell and by no cell
  that is disjoint from it. What a read-compute-write sequence does to the store is
  proved once in the locale and obtained for the host array by interpretation.
\<close>

section \<open>The contract of a store of cells\<close>

locale cell_store =
  fixes load :: "'m \<Rightarrow> 'a \<Rightarrow> 'e + 'v"
    and store :: "'m \<Rightarrow> 'a \<Rightarrow> 'v \<Rightarrow> 'e + 'm"
    and valid :: "'m \<Rightarrow> 'a \<Rightarrow> bool"
    and disj :: "'a \<Rightarrow> 'a \<Rightarrow> bool"
  assumes load_valid: "valid m a \<Longrightarrow> \<exists>v. load m a = Inr v"
    and store_valid: "valid m a \<Longrightarrow> \<exists>m'. store m a v = Inr m'"
    and store_keeps_valid: "store m a v = Inr m' \<Longrightarrow> valid m' b = valid m b"
    and load_same: "store m a v = Inr m' \<Longrightarrow> load m' a = Inr v"
    and load_other: "store m a v = Inr m' \<Longrightarrow> disj a b \<Longrightarrow> load m' b = load m b"
begin

text \<open>
  A store after any computation on loaded values: the destination holds the
  result and every disjoint cell is as before, whether or not the destination is
  one of the cells that were read.
\<close>

lemma store_result:
  assumes "valid m d"
  shows "\<exists>m'. store m d r = Inr m' \<and> load m' d = Inr r \<and>
              (\<forall>x. disj d x \<longrightarrow> load m' x = load m x) \<and> (\<forall>x. valid m' x = valid m x)"
  using store_valid [OF assms, of r] load_same load_other store_keeps_valid by blast

lemma compute3:
  assumes "load m a = Inr va" "load m b = Inr vb" "load m c = Inr vc" "valid m d"
    and "f va vb vc = Inr r"
  shows "\<exists>m'. rbind (load m a) (\<lambda>va. rbind (load m b) (\<lambda>vb. rbind (load m c) (\<lambda>vc.
                 rbind (f va vb vc) (\<lambda>r. store m d r)))) = Inr m' \<and> load m' d = Inr r \<and>
              (\<forall>x. disj d x \<longrightarrow> load m' x = load m x) \<and> (\<forall>x. valid m' x = valid m x)"
  using store_result [OF assms(4), of r] by (simp add: assms(1-3,5))

lemma compute2:
  assumes "load m a = Inr va" "load m b = Inr vb" "valid m d" and "f va vb = Inr r"
  shows "\<exists>m'. rbind (load m a) (\<lambda>va. rbind (load m b) (\<lambda>vb.
                 rbind (f va vb) (\<lambda>r. store m d r))) = Inr m' \<and> load m' d = Inr r \<and>
              (\<forall>x. disj d x \<longrightarrow> load m' x = load m x) \<and> (\<forall>x. valid m' x = valid m x)"
  using store_result [OF assms(3), of r] by (simp add: assms(1,2,4))

end

section \<open>The host buffer behind a simulated memory\<close>

text \<open>
  The backing store of a memory is a host array of bytes; the simulated address
  \<open>a\<close> lives at the offset \<open>a - base\<close>, a subtraction of unsigned 64-bit
  values. An access that does not fit the array faults.
\<close>

definition host_load :: "addr \<Rightarrow> u8 list \<Rightarrow> addr \<Rightarrow> u64 run" where
  [mem_defs]: "host_load base mem a =
     (let off = unat (a - base)
      in if off + 8 \<le> length mem then Inr (le_word (take 8 (drop off mem)))
         else Inl Out_of_range)"

definition host_store :: "addr \<Rightarrow> u8 list \<Rightarrow> addr \<Rightarrow> u64 \<Rightarrow> u8 list run" where
  [mem_defs]: "host_store base mem a v =
     (let off = unat (a - base)
      in if off + 8 \<le> length mem
         then Inr (take off mem @ le_bytes 8 v @ drop (off + 8) mem)
         else Inl Out_of_range)"

definition in_store :: "addr \<Rightarrow> u8 list \<Rightarrow> addr \<Rightarrow> bool" where
  "in_store base mem a \<longleftrightarrow> unat (a - base) + 8 \<le> length mem"

text \<open>Two eight-byte cells of the store that share no byte.\<close>

definition cells_disjoint :: "addr \<Rightarrow> addr \<Rightarrow> addr \<Rightarrow> bool" where
  "cells_disjoint base a b \<longleftrightarrow>
     unat (a - base) + 8 \<le> unat (b - base) \<or> unat (b - base) + 8 \<le> unat (a - base)"

lemma host_load_in_store:
  "in_store base mem a \<Longrightarrow> \<exists>v. host_load base mem a = Inr v"
  by (simp add: in_store_def host_load_def Let_def)

lemma host_load_Inr_in_store: "host_load base mem a = Inr v \<Longrightarrow> in_store base mem a"
  by (auto simp: in_store_def host_load_def Let_def split: if_splits)

lemma host_load_not_in_store:
  "\<not> in_store base mem a \<Longrightarrow> host_load base mem a = Inl Out_of_range"
  by (auto simp: in_store_def host_load_def Let_def)

lemma host_store_in_store:
  "in_store base mem a \<Longrightarrow> \<exists>mem'. host_store base mem a v = Inr mem' \<and> length mem' = length mem"
  by (simp add: in_store_def host_store_def Let_def)

lemma host_store_not_in_store:
  "\<not> in_store base mem a \<Longrightarrow> host_store base mem a v = Inl Out_of_range"
  by (auto simp: in_store_def host_store_def Let_def)

lemma host_store_length: "host_store base mem a v = Inr mem' \<Longrightarrow> length mem' = length mem"
  by (auto simp: host_store_def Let_def split: if_splits)

lemma host_load_store_same:
  assumes "host_store base mem a v = Inr mem'"
  shows "host_load base mem' a = Inr v"
proof -
  let ?off = "unat (a - base)"
  from assms have fits: "?off + 8 \<le> length mem"
    and mem': "mem' = take ?off mem @ le_bytes 8 v @ drop (?off + 8) mem"
    by (auto simp: host_store_def Let_def split: if_splits)
  from fits have "drop ?off mem' = le_bytes 8 v @ drop (?off + 8) mem"
    by (simp add: mem')
  with fits mem' show ?thesis by (simp add: host_load_def Let_def)
qed

lemma drop_take_store:
  assumes "off + 8 \<le> length xs" and "length bs = 8"
    and "o' + 8 \<le> off \<or> off + 8 \<le> o'"
  shows "take 8 (drop o' (take off xs @ bs @ drop (off + 8) xs)) = take 8 (drop o' xs)"
  using assms(3)
proof
  assume "o' + 8 \<le> off"
  with assms(1) show ?thesis by (simp add: drop_take)
next
  assume "off + 8 \<le> o'"
  with assms(1,2) show ?thesis by (simp add: min_def)
qed

lemma host_load_store_other:
  assumes st: "host_store base mem a v = Inr mem'" and "cells_disjoint base a b"
  shows "host_load base mem' b = host_load base mem b"
proof -
  let ?off = "unat (a - base)"
  from st have fits: "?off + 8 \<le> length mem"
    and mem': "mem' = take ?off mem @ le_bytes 8 v @ drop (?off + 8) mem"
    by (auto simp: host_store_def Let_def split: if_splits)
  from assms(2) have "unat (b - base) + 8 \<le> ?off \<or> ?off + 8 \<le> unat (b - base)"
    by (auto simp: cells_disjoint_def)
  with fits have "take 8 (drop (unat (b - base)) mem') = take 8 (drop (unat (b - base)) mem)"
    unfolding mem' by (intro drop_take_store) simp_all
  moreover have "length mem' = length mem"
    using st by (rule host_store_length)
  ultimately show ?thesis by (simp add: host_load_def Let_def)
qed

section \<open>The host array keeps the contract\<close>

interpretation host: cell_store "host_load base" "host_store base" "in_store base" "cells_disjoint base"
  for base
proof (unfold_locales, goal_cases)
  case (1 m a)
  then show ?case by (rule host_load_in_store)
next
  case (2 m a v)
  then show ?case using host_store_in_store [of base m a v] by blast
next
  case (3 m a v m' b)
  then show ?case by (simp add: in_store_def host_store_length)
next
  case (4 m a v m')
  then show ?case by (rule host_load_store_same)
next
  case (5 m a v m' b)
  then show ?case by (rule host_load_store_other)
qed

end
