(* ===== verification/Imc_Ops.thy ===== *)
theory Imc_Ops
  imports Imc_Prelude
begin

text \<open>
  The arithmetic of the in-memory operations, on values already loaded from the
  backing store: what \<^verbatim>\<open>SimpleMemory::recvTimingReq\<close>,
  \<^verbatim>\<open>SimpleMemory::recvFunctional\<close> and \<^verbatim>\<open>PIMCtrl::recvTimingReq\<close> compute between
  the two \<^verbatim>\<open>memcpy\<close> groups of each branch. \<^verbatim>\<open>uint64_t\<close> values are \<open>u64\<close> and wrap;
  \<^verbatim>\<open>int64_t\<close> and \<^verbatim>\<open>int\<close> values are words read by \<open>sint\<close>, and a result that does
  not fit is the fault \<open>Signed_overflow\<close>.
\<close>

section \<open>Signed machine arithmetic\<close>

definition s64 :: "int \<Rightarrow> u64 run" where
  [imc_defs]: "s64 i = (if - (2 ^ 63) \<le> i \<and> i < 2 ^ 63 then Inr (word_of_int i) else Inl Signed_overflow)"

definition s32 :: "int \<Rightarrow> u32 run" where
  [imc_defs]: "s32 i = (if - (2 ^ 31) \<le> i \<and> i < 2 ^ 31 then Inr (word_of_int i) else Inl Signed_overflow)"

text \<open>The C remainder on \<^verbatim>\<open>int64_t\<close>: truncating, trapping on zero and on \<^verbatim>\<open>INT64_MIN % -1\<close>.\<close>

definition srem64 :: "u64 \<Rightarrow> u64 \<Rightarrow> u64 run" where
  [imc_defs]: "srem64 x y =
     (if y = 0 then Inl Div_by_zero
      else if sint x = - (2 ^ 63) \<and> sint y = -1 then Inl Signed_overflow
      else Inr (word_of_int (sint x smod sint y)))"

section \<open>The operations\<close>

definition imc_addmod :: "u64 \<Rightarrow> u64 \<Rightarrow> u64 \<Rightarrow> u64 run" where
  [imc_defs]: "imc_addmod val_a val_b val_c =
     (if val_c = 0 then Inl Div_by_zero else Inr ((val_a + val_b) mod val_c))"

definition imc_submod :: "u64 \<Rightarrow> u64 \<Rightarrow> u64 \<Rightarrow> u64 run" where
  [imc_defs]: "imc_submod val_a val_b val_c =
     rbind (s64 (sint val_a - sint val_b)) (\<lambda>sub.
     rbind (srem64 sub val_c) (\<lambda>m.
     rbind (s64 (sint m + sint val_c)) (\<lambda>m'.
     srem64 m' val_c)))"

definition imc_mulmod :: "u64 \<Rightarrow> u64 \<Rightarrow> u64 \<Rightarrow> u64 run" where
  [imc_defs]: "imc_mulmod val_a val_b val_c =
     (if val_c = 0 then Inl Div_by_zero else Inr ((val_a * val_b) mod val_c))"

definition imc_mulimc :: "u64 \<Rightarrow> u64 \<Rightarrow> u64 run" where
  [imc_defs]: "imc_mulimc val_a val_b = Inr (val_a * val_b)"

definition imc_cmpimc :: "u64 \<Rightarrow> u64 \<Rightarrow> u64 run" where
  [imc_defs]: "imc_cmpimc val_a val_b = Inr (if val_a = val_b then 1 else 0)"

text \<open>
  The loop of the modular inverse. \<^verbatim>\<open>val_a\<close> and \<^verbatim>\<open>val_b\<close> are \<^verbatim>\<open>uint64_t\<close>; \<^verbatim>\<open>q\<close>,
  \<^verbatim>\<open>t\<close>, \<^verbatim>\<open>x0\<close> and \<^verbatim>\<open>x1\<close> are \<^verbatim>\<open>int\<close>. So \<^verbatim>\<open>q = val_a / val_b\<close> keeps the low 32 bits
  of the quotient, and \<^verbatim>\<open>t = val_b; val_a = t\<close> keeps the low 32 bits of \<^verbatim>\<open>val_b\<close> and
  sign-extends them. The second operand shrinks in every round.
\<close>

function imc_inv_loop :: "u64 \<Rightarrow> u64 \<Rightarrow> u32 \<Rightarrow> u32 \<Rightarrow> u32 run" where
  "imc_inv_loop val_a val_b x0 x1 =
     (if val_a > 1 then
        (if val_b = 0 then Inl Div_by_zero
         else
           let q = ucast (val_a div val_b) :: u32;
               t = ucast val_b :: u32
           in rbind (s32 (sint q * sint x0)) (\<lambda>p.
              rbind (s32 (sint x1 - sint p)) (\<lambda>x0'.
              imc_inv_loop (scast t) (val_a mod val_b) x0' x0)))
      else Inr x1)"
  by pat_completeness auto
termination
proof (relation "measure (\<lambda>(val_a, val_b, x0, x1). unat val_b)", goal_cases)
  case 1
  show ?case by simp
next
  case (2 val_a val_b x0 x1)
  then have "val_a mod val_b < val_b"
    by (simp add: word_less_nat_alt unat_mod unat_gt_0)
  then show ?case by (simp add: word_less_nat_alt)
qed

declare imc_inv_loop.simps [simp del]

definition imc_invmod :: "u64 \<Rightarrow> u64 \<Rightarrow> u64 run" where
  "imc_invmod val_a val_b =
     (let m0 = ucast val_b :: u32
      in if val_b = 1 then Inr 0
         else rbind (imc_inv_loop val_a val_b 0 1) (\<lambda>x1.
              if sint x1 < 0 then rbind (s32 (sint x1 + sint m0)) (\<lambda>x. Inr (scast x))
              else Inr (scast x1)))"

section \<open>Facts about the signed arithmetic\<close>

lemma s32_Inr: "- (2 ^ 31) \<le> i \<Longrightarrow> i < 2 ^ 31 \<Longrightarrow> s32 i = Inr (word_of_int i)"
  by (simp add: s32_def)

lemma s64_Inr: "- (2 ^ 63) \<le> i \<Longrightarrow> i < 2 ^ 63 \<Longrightarrow> s64 i = Inr (word_of_int i)"
  by (simp add: s64_def)

lemma sint_of_int_32 [simp]: "- (2 ^ 31) \<le> i \<Longrightarrow> i < 2 ^ 31 \<Longrightarrow> sint (word_of_int i :: u32) = i"
  by (simp add: signed_of_int signed_take_bit_int_eq_self_iff)

lemma sint_of_int_64 [simp]: "- (2 ^ 63) \<le> i \<Longrightarrow> i < 2 ^ 63 \<Longrightarrow> sint (word_of_int i :: u64) = i"
  by (simp add: signed_of_int signed_take_bit_int_eq_self_iff)

lemma s32_bounded:
  assumes "\<bar>i\<bar> \<le> N" and "N < 2 ^ 31"
  shows "s32 i = Inr (word_of_int i)" and "sint (word_of_int i :: u32) = i"
  using assms by (auto intro!: s32_Inr sint_of_int_32 simp del: sint_of_int_32)

lemma sint_range_64: "- (2 ^ 63) \<le> sint (w :: u64) \<and> sint w < 2 ^ 63"
  using sint_greater_eq [of w] sint_less [of w] by simp

lemma sint_range_32: "- (2 ^ 31) \<le> sint (w :: u32) \<and> sint w < 2 ^ 31"
  using sint_greater_eq [of w] sint_less [of w] by simp

lemma neg_numeral_le_uint [simp]: "- numeral k \<le> uint (w :: 'a::len word)"
  by (rule order_trans [of _ 0]) simp_all

lemma sint_eq_uint_32: "uint (w :: u32) < 2 ^ 31 \<Longrightarrow> sint w = uint w"
  by (simp add: sint_uint signed_take_bit_int_eq_self_iff)

lemma sint_eq_uint_64: "uint (w :: u64) < 2 ^ 63 \<Longrightarrow> sint w = uint w"
  by (simp add: sint_uint signed_take_bit_int_eq_self_iff)

lemma sint_ucast_small: "uint (w :: u64) < 2 ^ 31 \<Longrightarrow> sint (ucast w :: u32) = uint w"
  by (simp add: signed_ucast_eq signed_take_bit_int_eq_self_iff)

lemma scast_word_of_int: "scast (x :: u32) = (word_of_int (sint x) :: u64)"
  by (rule scast_eq)

lemma uint_scast_nonneg:
  assumes "0 \<le> sint (x :: u32)"
  shows "uint (scast x :: u64) = sint x"
proof -
  have "sint x < 2 ^ 64" using sint_range_32 [of x] by simp
  with assms have "take_bit 64 (sint x) = sint x"
    by (simp only: take_bit_int_eq_self_iff)
  moreover have "uint (scast x :: u64) = take_bit 64 (sint x)"
    by (simp only: scast_word_of_int unsigned_of_int) simp
  ultimately show ?thesis by simp
qed

lemma scast_ucast_small: "uint (w :: u64) < 2 ^ 31 \<Longrightarrow> scast (ucast w :: u32) = w"
  by (simp only: scast_word_of_int sint_ucast_small word_of_int_uint)

section \<open>The loop computes Bezout coefficients\<close>

text \<open>
  Between two rounds on the inputs \<open>A\<close> and \<open>N\<close>: each of the two remainders is
  its coefficient times \<open>A\<close> modulo \<open>N\<close>, the coefficients have opposite signs, and
  their cross sum with the remainders is exactly \<open>N\<close>, which bounds them.
\<close>

definition bezout_inv :: "int \<Rightarrow> int \<Rightarrow> int \<Rightarrow> int \<Rightarrow> int \<Rightarrow> int \<Rightarrow> bool" where
  "bezout_inv A N a b x0 x1 \<longleftrightarrow>
     0 < a \<and> 0 \<le> b \<and> b \<le> N \<and> N dvd x1 * A - a \<and> N dvd x0 * A - b \<and>
     \<bar>x0\<bar> * a + \<bar>x1\<bar> * b = N \<and> x0 * x1 \<le> 0 \<and> \<bar>x1\<bar> < N"

lemma bezout_inv_init: "0 < A \<Longrightarrow> 1 < N \<Longrightarrow> bezout_inv A N A N 0 1"
  by (simp add: bezout_inv_def)

lemma abs_diff_opposite:
  fixes x y q :: int
  assumes "x * y \<le> 0" and "0 \<le> q"
  shows "\<bar>y - q * x\<bar> = \<bar>y\<bar> + q * \<bar>x\<bar>"
proof (cases "x = 0")
  case False
  then consider "0 < x" "y \<le> 0" | "x < 0" "0 \<le> y"
    using assms(1) by (auto simp: mult_le_0_iff)
  then show ?thesis
  proof cases
    case 1
    with assms(2) have "0 \<le> q * x" by simp
    with 1 show ?thesis by simp
  next
    case 2
    with assms(2) have "q * x \<le> 0" by (simp add: mult_le_0_iff)
    with 2 show ?thesis by simp
  qed
qed simp

text \<open>The cross sum of coefficients and operands stays the modulus, and bounds the new coefficient.\<close>

lemma bezout_cross:
  fixes a b x0 x1 N :: int
  assumes "\<bar>x0\<bar> * a + \<bar>x1\<bar> * b = N" "x0 * x1 \<le> 0" "0 \<le> a div b"
  shows "\<bar>x1 - (a div b) * x0\<bar> = \<bar>x1\<bar> + (a div b) * \<bar>x0\<bar>" "\<bar>x1 - (a div b) * x0\<bar> * b + \<bar>x0\<bar> * (a mod b) = N"
proof -
  let ?q = "a div b"
  have qr: "a = ?q * b + a mod b" by simp
  show abs: "\<bar>x1 - ?q * x0\<bar> = \<bar>x1\<bar> + ?q * \<bar>x0\<bar>" using assms(2,3) by (rule abs_diff_opposite)
  have "\<bar>x1 - ?q * x0\<bar> * b + \<bar>x0\<bar> * (a mod b) = \<bar>x1\<bar> * b + \<bar>x0\<bar> * (?q * b + a mod b)"
    unfolding abs by (simp only: distrib_left distrib_right mult.assoc mult.left_commute add.assoc mult.commute)
  with assms(1) qr show "\<bar>x1 - ?q * x0\<bar> * b + \<bar>x0\<bar> * (a mod b) = N" by simp
qed

lemma bezout_bounds:
  fixes a b x0 x1 N :: int
  assumes "\<bar>x1 - q * x0\<bar> = \<bar>x1\<bar> + q * \<bar>x0\<bar>" "\<bar>x1 - q * x0\<bar> * b + \<bar>x0\<bar> * r = N" "0 < b" "0 \<le> r" "0 \<le> q"
  shows "\<bar>x1 - q * x0\<bar> \<le> N" "\<bar>q * x0\<bar> \<le> N" "x0 = 0 \<or> q \<le> N"
proof -
  have "\<bar>x1 - q * x0\<bar> \<le> \<bar>x1 - q * x0\<bar> * b" using assms(3) by (simp add: mult_le_cancel_left1)
  moreover have "0 \<le> \<bar>x0\<bar> * r" using assms(4) by simp
  ultimately show le: "\<bar>x1 - q * x0\<bar> \<le> N" using assms(2) by linarith
  show qx: "\<bar>q * x0\<bar> \<le> N" using le assms(1,5) by (simp add: abs_mult)
  show "x0 = 0 \<or> q \<le> N"
  proof (cases "x0 = 0")
    case False
    then have "q * 1 \<le> q * \<bar>x0\<bar>" using assms(5) by (intro mult_left_mono) auto
    with qx assms(5) show ?thesis by (simp add: abs_mult)
  qed simp
qed

lemma bezout_inv_step:
  assumes inv: "bezout_inv A N a b x0 x1" and a: "1 < a" and b: "b \<noteq> 0"
  shows "bezout_inv A N b (a mod b) (x1 - (a div b) * x0) x0"
    and "\<bar>x1 - (a div b) * x0\<bar> \<le> N" and "\<bar>(a div b) * x0\<bar> \<le> N"
    and "x0 = 0 \<or> a div b \<le> N"
proof -
  let ?q = "a div b"
  from inv a b have pos: "0 < b" "b \<le> N" "0 \<le> ?q" and dv: "N dvd x1 * A - a" "N dvd x0 * A - b"
    and sum: "\<bar>x0\<bar> * a + \<bar>x1\<bar> * b = N" and sg: "x0 * x1 \<le> 0"
    by (auto simp: bezout_inv_def pos_imp_zdiv_nonneg_iff)
  note cross = bezout_cross [OF sum sg pos(3)]
  have "N dvd (x1 * A - a) - ?q * (x0 * A - b)" using dv by simp
  moreover have "(x1 * A - a) - ?q * (x0 * A - b) = (x1 - ?q * x0) * A - a mod b"
    by (simp add: algebra_simps minus_mult_div_eq_mod)
  ultimately have dv': "N dvd (x1 - ?q * x0) * A - a mod b" by simp
  have "2 * \<bar>x0\<bar> \<le> \<bar>x0\<bar> * a" using mult_left_mono [of 2 a "\<bar>x0\<bar>"] a by (simp add: mult.commute)
  moreover have "0 \<le> \<bar>x1\<bar> * b" using pos(1) by simp
  ultimately have x0: "\<bar>x0\<bar> < N" using sum pos(1,2) by linarith
  have "(x1 - ?q * x0) * x0 = x0 * x1 - ?q * (x0 * x0)" by (simp add: algebra_simps)
  moreover have "0 \<le> ?q * (x0 * x0)" using pos(3) zero_le_square [of x0] by (rule mult_nonneg_nonneg)
  ultimately have sg': "(x1 - ?q * x0) * x0 \<le> 0" using sg by linarith
  have "a mod b < b" "0 \<le> a mod b" using pos(1) by simp_all
  with pos(2) have rem: "0 \<le> a mod b" "a mod b \<le> N" by linarith+
  from pos(1) rem dv(2) dv' cross(2) sg' x0
  show "bezout_inv A N b (a mod b) (x1 - ?q * x0) x0"
    by (simp add: bezout_inv_def)
  show "\<bar>x1 - ?q * x0\<bar> \<le> N" "\<bar>?q * x0\<bar> \<le> N" "x0 = 0 \<or> ?q \<le> N"
    by (rule bezout_bounds [OF cross pos(1) rem(1) pos(3)])+
qed

lemma inv_loop_exit: "\<not> 1 < a \<Longrightarrow> imc_inv_loop a b x0 x1 = Inr x1"
  by (simp add: imc_inv_loop.simps)

lemma inv_loop_div_zero: "1 < a \<Longrightarrow> imc_inv_loop a 0 x0 x1 = Inl Div_by_zero"
  by (simp add: imc_inv_loop.simps)

text \<open>One round under the invariant: nothing overflows and nothing is truncated.\<close>

lemma inv_loop_round:
  assumes inv: "bezout_inv A N (uint a) (uint b) (sint x0) (sint x1)"
    and N: "N < 2 ^ 31" and a: "1 < a" and b: "b \<noteq> 0"
  shows "\<exists>x0'. sint x0' = sint x1 - (uint a div uint b) * sint x0 \<and>
           imc_inv_loop a b x0 x1 = imc_inv_loop b (a mod b) x0' x0"
proof -
  let ?q = "uint a div uint b"
  from a have a': "1 < uint a" by (simp add: word_less_def)
  from b have b': "uint b \<noteq> 0" by (simp add: uint_0_iff)
  note step = bezout_inv_step [OF inv a' b']
  have bN: "uint b < 2 ^ 31" using inv N by (simp add: bezout_inv_def)
  have q: "sint (ucast (a div b) :: u32) * sint x0 = ?q * sint x0"
  proof (cases "sint x0 = 0")
    case False
    with step(4) N have "uint (a div b) < 2 ^ 31" by (simp add: uint_div)
    then show ?thesis by (simp add: sint_ucast_small uint_div)
  qed simp
  note p = s32_bounded [OF step(3) N]
  let ?x = "sint x1 - ?q * sint x0"
  note x = s32_bounded [OF step(2) N]
  have "imc_inv_loop a b x0 x1 = imc_inv_loop b (a mod b) (word_of_int ?x) x0"
    using a b by (subst imc_inv_loop.simps)
      (simp only: Let_def q p x scast_ucast_small [OF bN] rbind_simps if_True if_False)
  with x(2) show ?thesis by blast
qed

lemma inv_loop_coprime:
  assumes "bezout_inv A N (uint a) (uint b) (sint x0) (sint x1)" and "N < 2 ^ 31"
    and "coprime (uint a) (uint b)"
  shows "\<exists>x. imc_inv_loop a b x0 x1 = Inr x \<and> \<bar>sint x\<bar> < N \<and> N dvd sint x * A - 1"
  using assms
proof (induction "unat b" arbitrary: a b x0 x1 rule: less_induct)
  case less
  note inv = less.prems(1) and N = less.prems(2)
  show ?case
  proof (cases "1 < a")
    case False
    with inv have "uint a = 1"
      by (auto simp: bezout_inv_def word_less_def)
    with inv show ?thesis
      by (intro exI [of _ x1]) (simp add: bezout_inv_def inv_loop_exit [OF False])
  next
    case True
    then have a': "1 < uint a" by (simp add: word_less_def)
    have b: "b \<noteq> 0"
    proof
      assume "b = 0"
      with less.prems(3) a' show False by simp
    qed
    then have b': "uint b \<noteq> 0" by (simp add: uint_0_iff)
    obtain x0' where x0': "sint x0' = sint x1 - (uint a div uint b) * sint x0"
      and eq: "imc_inv_loop a b x0 x1 = imc_inv_loop b (a mod b) x0' x0"
      using inv_loop_round [OF inv N True b] by blast
    have "unat (a mod b) < unat b" using b by (simp add: unat_mod unat_gt_0)
    moreover have "bezout_inv A N (uint b) (uint (a mod b)) (sint x0') (sint x0)"
      unfolding x0' uint_mod by (rule bezout_inv_step(1) [OF inv a' b'])
    moreover have "coprime (uint b) (uint (a mod b))"
      using less.prems(3) b' by (simp add: uint_mod coprime_commute)
    ultimately show ?thesis unfolding eq using N by (intro less.hyps)
  qed
qed

lemma inv_loop_common_factor:
  assumes "bezout_inv A N (uint a) (uint b) (sint x0) (sint x1)" and "N < 2 ^ 31"
    and "\<not> coprime (uint a) (uint b)"
  shows "imc_inv_loop a b x0 x1 = Inl Div_by_zero"
  using assms
proof (induction "unat b" arbitrary: a b x0 x1 rule: less_induct)
  case less
  note inv = less.prems(1) and N = less.prems(2)
  have "uint a \<noteq> 1"
  proof
    assume "uint a = 1"
    with less.prems(3) show False by simp
  qed
  with inv have a': "1 < uint a" by (simp add: bezout_inv_def)
  then have a: "1 < a" by (simp add: word_less_def)
  show ?case
  proof (cases "b = 0")
    case True
    with a show ?thesis by (simp add: inv_loop_div_zero)
  next
    case False
    then have b': "uint b \<noteq> 0" by (simp add: uint_0_iff)
    obtain x0' where x0': "sint x0' = sint x1 - (uint a div uint b) * sint x0"
      and eq: "imc_inv_loop a b x0 x1 = imc_inv_loop b (a mod b) x0' x0"
      using inv_loop_round [OF inv N a False] by blast
    have "unat (a mod b) < unat b" using False by (simp add: unat_mod unat_gt_0)
    moreover have "bezout_inv A N (uint b) (uint (a mod b)) (sint x0') (sint x0)"
      unfolding x0' uint_mod by (rule bezout_inv_step(1) [OF inv a' b'])
    moreover have "\<not> coprime (uint b) (uint (a mod b))"
      using less.prems(3) b' by (simp add: uint_mod coprime_commute)
    ultimately show ?thesis unfolding eq using N by (intro less.hyps)
  qed
qed

section \<open>What the operations compute\<close>

lemma word_mod_nat: "unat (x mod y) = unat x mod unat (y :: u64)"
  by (rule unat_mod)

lemma addmod_exact:
  assumes "val_c \<noteq> 0" and "unat val_a + unat val_b < 2 ^ 64"
  shows "\<exists>r. imc_addmod val_a val_b val_c = Inr r \<and>
             unat r = (unat val_a + unat val_b) mod unat val_c"
  using assms by (simp add: imc_addmod_def unat_mod unat_word_ariths)

lemma mulmod_exact:
  assumes "val_c \<noteq> 0" and "unat val_a * unat val_b < 2 ^ 64"
  shows "\<exists>r. imc_mulmod val_a val_b val_c = Inr r \<and>
             unat r = (unat val_a * unat val_b) mod unat val_c"
  using assms by (simp add: imc_mulmod_def unat_mod unat_word_ariths)

lemma smod_nonneg: "0 \<le> x \<Longrightarrow> 0 < c \<Longrightarrow> x smod c = x mod (c :: int)"
  by (cases "x = 0") (simp_all add: signed_modulo_int_def)

lemma abs_smod_less: "0 < c \<Longrightarrow> \<bar>s smod c\<bar> < (c :: int)"
  by (simp add: signed_modulo_int_def abs_mult abs_sgn_eq)

lemma smod_add_smod:
  fixes s c :: int
  assumes "0 < c"
  shows "(s smod c + c) smod c = s mod c"
proof -
  have r: "s smod c = s mod c \<or> s smod c = s mod c - c"
    by (auto simp: signed_modulo_int_eq_modulo_int [of s c])
  have bounds: "0 \<le> s mod c" "s mod c < c" using assms by simp_all
  from r show ?thesis
  proof
    assume "s smod c = s mod c"
    with bounds show ?thesis using assms by (simp add: smod_nonneg)
  next
    assume "s smod c = s mod c - c"
    with bounds show ?thesis using assms by (simp add: smod_nonneg)
  qed
qed

lemma srem64_pos:
  assumes "0 < sint y"
  shows "srem64 x y = Inr (word_of_int (sint x smod sint y))"
    and "sint (word_of_int (sint x smod sint y) :: u64) = sint x smod sint y"
proof -
  from assms have "y \<noteq> 0" "sint y \<noteq> -1" by auto
  then show "srem64 x y = Inr (word_of_int (sint x smod sint y))"
    by (simp add: srem64_def)
  have "\<bar>sint x smod sint y\<bar> < sint y"
    using assms by (rule abs_smod_less)
  with sint_range_64 [of y] show "sint (word_of_int (sint x smod sint y) :: u64) = sint x smod sint y"
    by (intro sint_of_int_64) auto
qed

lemma submod_exact:
  assumes c: "0 < sint val_c" "sint val_c \<le> 2 ^ 62"
    and d: "- (2 ^ 63) \<le> sint val_a - sint val_b" "sint val_a - sint val_b < 2 ^ 63"
  shows "\<exists>r. imc_submod val_a val_b val_c = Inr r \<and>
             sint r = (sint val_a - sint val_b) mod sint val_c"
proof -
  let ?s = "sint val_a - sint val_b" and ?c = "sint val_c"
  let ?m = "?s smod ?c"
  have m: "- ?c < ?m" "?m < ?c"
    using abs_smod_less [OF c(1), of ?s] by auto
  have sub: "s64 ?s = Inr (word_of_int ?s)" "sint (word_of_int ?s :: u64) = ?s"
    using d by (simp_all only: s64_Inr sint_of_int_64)
  have "- (2 ^ 63) \<le> ?m + ?c" "?m + ?c < 2 ^ 63" using m c by auto
  then have add: "s64 (?m + ?c) = Inr (word_of_int (?m + ?c))"
    "sint (word_of_int (?m + ?c) :: u64) = ?m + ?c"
    by (simp_all only: s64_Inr sint_of_int_64)
  note rem1 = srem64_pos [OF c(1), of "word_of_int ?s", unfolded sub(2)]
  note rem2 = srem64_pos [OF c(1), of "word_of_int (?m + ?c)", unfolded add(2)]
  have "imc_submod val_a val_b val_c = Inr (word_of_int ((?m + ?c) smod ?c))"
    by (simp only: imc_submod_def sub(1) rbind_simps rem1 add(1) rem2(1))
  moreover have "sint (word_of_int ((?m + ?c) smod ?c) :: u64) = ?s mod ?c"
    by (simp only: rem2(2)) (rule smod_add_smod [OF c(1)])
  ultimately show ?thesis by blast
qed

lemma invmod_inverse:
  assumes co: "coprime (uint val_a) (uint val_b)" and n: "1 < uint val_b" "uint val_b < 2 ^ 31"
  shows "\<exists>r. imc_invmod val_a val_b = Inr r \<and> 0 < uint r \<and> uint r < uint val_b \<and>
             uint val_a * uint r mod uint val_b = 1"
proof -
  let ?N = "uint val_b" and ?A = "uint val_a"
  have "?A \<noteq> 0" using co n(1) by auto
  then have "0 < ?A" by (simp add: order_less_le)
  then have "bezout_inv ?A ?N ?A ?N (sint (0::u32)) (sint (1::u32))"
    using n(1) by (simp add: bezout_inv_init)
  then obtain x where run: "imc_inv_loop val_a val_b 0 1 = Inr x"
    and bound: "\<bar>sint x\<bar> < ?N" and dv: "?N dvd sint x * ?A - 1"
    using inv_loop_coprime [OF _ n(2) co] by blast
  have ne1: "val_b \<noteq> 1" using n(1) by auto
  define y where "y = (if sint x < 0 then sint x + ?N else sint x)"
  have "?N dvd y * ?A - 1"
  proof (cases "sint x < 0")
    case True
    have "?N dvd (sint x * ?A - 1) + ?N * ?A" using dv by simp
    then show ?thesis using True by (simp add: y_def algebra_simps)
  qed (use dv in \<open>simp add: y_def\<close>)
  then have inv: "?A * y mod ?N = 1"
    using n(1) by (metis mod_eq_dvd_iff mod_pos_pos_trivial mult.commute zero_le_one)
  have y0: "y \<noteq> 0" using inv n(1) by auto
  have y: "0 < y" "y < ?N" using bound y0 by (auto simp: y_def split: if_splits)
  have "\<exists>r. imc_invmod val_a val_b = Inr r \<and> uint r = y"
  proof (cases "sint x < 0")
    case True
    have m0: "sint (ucast val_b :: u32) = ?N" using n(2) by (rule sint_ucast_small)
    from y n(2) have "\<bar>sint x + ?N\<bar> \<le> ?N" using True by (simp add: y_def)
    note fit = s32_bounded [OF this n(2)]
    have "imc_invmod val_a val_b = Inr (scast (word_of_int (sint x + ?N) :: u32))"
      using True ne1 by (simp only: imc_invmod_def Let_def run m0 fit(1) rbind_simps if_True if_False)
    moreover have "uint (scast (word_of_int (sint x + ?N) :: u32) :: u64) = y"
      using y(1) True by (subst uint_scast_nonneg; simp only: fit(2)) (simp_all add: y_def)
    ultimately show ?thesis by blast
  next
    case False
    then have "imc_invmod val_a val_b = Inr (scast x)"
      using ne1 by (simp add: imc_invmod_def run)
    moreover have "uint (scast x :: u64) = y" using False by (simp add: y_def uint_scast_nonneg)
    ultimately show ?thesis by blast
  qed
  with y inv show ?thesis by auto
qed

lemma invmod_not_coprime:
  assumes "\<not> coprime (uint val_a) (uint val_b)" and "val_a \<noteq> 0"
    and n: "1 < uint val_b" "uint val_b < 2 ^ 31"
  shows "imc_invmod val_a val_b = Inl Div_by_zero"
proof -
  have "0 < uint val_a" using assms(2) by (simp add: order_less_le uint_0_iff)
  then have "bezout_inv (uint val_a) (uint val_b) (uint val_a) (uint val_b) (sint (0::u32)) (sint (1::u32))"
    using n(1) by (simp add: bezout_inv_init)
  then have "imc_inv_loop val_a val_b 0 1 = Inl Div_by_zero"
    using n(2) assms(1) by (rule inv_loop_common_factor)
  then show ?thesis using n(1) by (auto simp: imc_invmod_def)
qed

lemma invmod_of_zero: "n \<noteq> 1 \<Longrightarrow> imc_invmod 0 n = Inr 1"
  by (simp add: imc_invmod_def inv_loop_exit)

end
