(* ===== verification/Gem5_Packet.thy ===== *)
theory Gem5_Packet
  imports Imc_Prelude
begin

text \<open>
  Requests and packets of the simulator's memory system: the command set of
  \<^verbatim>\<open>MemCmd\<close> with its attribute table, the request flags (among them the six that
  mark an in-memory operation), and the packet fields the memory controllers
  read or write.
\<close>

section \<open>Commands and their attributes\<close>

datatype (plugins only: code) mem_cmd =
    InvalidCmd
  | ReadReq
  | ReadResp
  | ReadRespWithInvalidate
  | WriteReq
  | WriteResp
  | WriteCompleteResp
  | WritebackDirty
  | WritebackClean
  | WriteClean
  | CleanEvict
  | SoftPFReq
  | SoftPFExReq
  | HardPFReq
  | SoftPFResp
  | HardPFResp
  | WriteLineReq
  | UpgradeReq
  | SCUpgradeReq
  | UpgradeResp
  | SCUpgradeFailReq
  | UpgradeFailResp
  | ReadExReq
  | ReadExResp
  | ReadCleanReq
  | ReadSharedReq
  | LoadLockedReq
  | StoreCondReq
  | StoreCondFailReq
  | StoreCondResp
  | LockedRMWReadReq
  | LockedRMWReadResp
  | LockedRMWWriteReq
  | LockedRMWWriteResp
  | SwapReq
  | SwapResp
  | MemFenceReq
  | MemSyncReq
  | MemSyncResp
  | MemFenceResp
  | CleanSharedReq
  | CleanSharedResp
  | CleanInvalidReq
  | CleanInvalidResp
  | InvalidDestError
  | BadAddressError
  | ReadError
  | WriteError
  | FunctionalReadError
  | FunctionalWriteError
  | PrintReq
  | FlushReq
  | InvalidateReq
  | InvalidateResp
  | HTMReq
  | HTMReqResp
  | HTMAbort
  | TlbiExtSync

datatype mem_attr =
    IsRead | IsWrite | IsUpgrade | IsInvalidate | IsClean | NeedsWritable
  | IsRequest | IsResponse | NeedsResponse | IsEviction | IsSWPrefetch
  | IsHWPrefetch | IsLlsc | IsLockedRMW | HasData | IsError | IsPrint
  | IsFlush | FromCache

primrec commandInfo :: "mem_cmd \<Rightarrow> mem_attr list \<times> mem_cmd" where
  "commandInfo InvalidCmd = ([], InvalidCmd)"
| "commandInfo ReadReq = ([IsRead, IsRequest, NeedsResponse], ReadResp)"
| "commandInfo ReadResp = ([IsRead, IsResponse, HasData], InvalidCmd)"
| "commandInfo ReadRespWithInvalidate = ([IsRead, IsResponse, HasData, IsInvalidate], InvalidCmd)"
| "commandInfo WriteReq = ([IsWrite, NeedsWritable, IsRequest, NeedsResponse, HasData], WriteResp)"
| "commandInfo WriteResp = ([IsWrite, IsResponse], InvalidCmd)"
| "commandInfo WriteCompleteResp = ([IsWrite, IsResponse], InvalidCmd)"
| "commandInfo WritebackDirty = ([IsWrite, IsRequest, IsEviction, HasData, FromCache], InvalidCmd)"
| "commandInfo WritebackClean = ([IsWrite, IsRequest, IsEviction, HasData, FromCache], InvalidCmd)"
| "commandInfo WriteClean = ([IsWrite, IsRequest, HasData, FromCache], InvalidCmd)"
| "commandInfo CleanEvict = ([IsRequest, IsEviction, FromCache], InvalidCmd)"
| "commandInfo SoftPFReq = ([IsRead, IsRequest, IsSWPrefetch, NeedsResponse], SoftPFResp)"
| "commandInfo SoftPFExReq = ([IsRead, NeedsWritable, IsInvalidate, IsRequest, IsSWPrefetch, NeedsResponse], SoftPFResp)"
| "commandInfo HardPFReq = ([IsRead, IsRequest, IsHWPrefetch, NeedsResponse, FromCache], HardPFResp)"
| "commandInfo SoftPFResp = ([IsRead, IsResponse, IsSWPrefetch, HasData], InvalidCmd)"
| "commandInfo HardPFResp = ([IsRead, IsResponse, IsHWPrefetch, HasData], InvalidCmd)"
| "commandInfo WriteLineReq = ([IsWrite, NeedsWritable, IsRequest, NeedsResponse, HasData], WriteResp)"
| "commandInfo UpgradeReq = ([IsInvalidate, NeedsWritable, IsUpgrade, IsRequest, NeedsResponse, FromCache], UpgradeResp)"
| "commandInfo SCUpgradeReq = ([IsInvalidate, NeedsWritable, IsUpgrade, IsLlsc, IsRequest, NeedsResponse, FromCache], UpgradeResp)"
| "commandInfo UpgradeResp = ([IsUpgrade, IsResponse], InvalidCmd)"
| "commandInfo SCUpgradeFailReq = ([IsRead, NeedsWritable, IsInvalidate, IsLlsc, IsRequest, NeedsResponse, FromCache], UpgradeFailResp)"
| "commandInfo UpgradeFailResp = ([IsRead, IsResponse, HasData], InvalidCmd)"
| "commandInfo ReadExReq = ([IsRead, NeedsWritable, IsInvalidate, IsRequest, NeedsResponse, FromCache], ReadExResp)"
| "commandInfo ReadExResp = ([IsRead, IsResponse, HasData], InvalidCmd)"
| "commandInfo ReadCleanReq = ([IsRead, IsRequest, NeedsResponse, FromCache], ReadResp)"
| "commandInfo ReadSharedReq = ([IsRead, IsRequest, NeedsResponse, FromCache], ReadResp)"
| "commandInfo LoadLockedReq = ([IsRead, IsLlsc, IsRequest, NeedsResponse], ReadResp)"
| "commandInfo StoreCondReq = ([IsWrite, NeedsWritable, IsLlsc, IsRequest, NeedsResponse, HasData], StoreCondResp)"
| "commandInfo StoreCondFailReq = ([IsWrite, NeedsWritable, IsLlsc, IsRequest, NeedsResponse, HasData], StoreCondResp)"
| "commandInfo StoreCondResp = ([IsWrite, IsLlsc, IsResponse], InvalidCmd)"
| "commandInfo LockedRMWReadReq = ([IsRead, IsLockedRMW, NeedsWritable, IsRequest, NeedsResponse], LockedRMWReadResp)"
| "commandInfo LockedRMWReadResp = ([IsRead, IsLockedRMW, NeedsWritable, IsResponse, HasData], InvalidCmd)"
| "commandInfo LockedRMWWriteReq = ([IsWrite, IsLockedRMW, NeedsWritable, IsRequest, NeedsResponse, HasData], LockedRMWWriteResp)"
| "commandInfo LockedRMWWriteResp = ([IsWrite, IsLockedRMW, NeedsWritable, IsResponse], InvalidCmd)"
| "commandInfo SwapReq = ([IsRead, IsWrite, NeedsWritable, IsRequest, HasData, NeedsResponse], SwapResp)"
| "commandInfo SwapResp = ([IsRead, IsWrite, IsResponse, HasData], InvalidCmd)"
| "commandInfo MemFenceReq = ([IsRequest, NeedsResponse], MemFenceResp)"
| "commandInfo MemSyncReq = ([IsRequest, NeedsResponse], MemSyncResp)"
| "commandInfo MemSyncResp = ([IsResponse], InvalidCmd)"
| "commandInfo MemFenceResp = ([IsResponse], InvalidCmd)"
| "commandInfo CleanSharedReq = ([IsRequest, IsClean, NeedsResponse, FromCache], CleanSharedResp)"
| "commandInfo CleanSharedResp = ([IsResponse, IsClean], InvalidCmd)"
| "commandInfo CleanInvalidReq = ([IsRequest, IsInvalidate, IsClean, NeedsResponse, FromCache], CleanInvalidResp)"
| "commandInfo CleanInvalidResp = ([IsResponse, IsInvalidate, IsClean], InvalidCmd)"
| "commandInfo InvalidDestError = ([IsResponse, IsError], InvalidCmd)"
| "commandInfo BadAddressError = ([IsResponse, IsError], InvalidCmd)"
| "commandInfo ReadError = ([IsRead, IsResponse, IsError], InvalidCmd)"
| "commandInfo WriteError = ([IsWrite, IsResponse, IsError], InvalidCmd)"
| "commandInfo FunctionalReadError = ([IsRead, IsResponse, IsError], InvalidCmd)"
| "commandInfo FunctionalWriteError = ([IsWrite, IsResponse, IsError], InvalidCmd)"
| "commandInfo PrintReq = ([IsRequest, IsPrint], InvalidCmd)"
| "commandInfo FlushReq = ([IsRequest, IsFlush, NeedsWritable], InvalidCmd)"
| "commandInfo InvalidateReq = ([IsInvalidate, IsRequest, NeedsWritable, NeedsResponse, FromCache], InvalidateResp)"
| "commandInfo InvalidateResp = ([IsInvalidate, IsResponse], InvalidCmd)"
| "commandInfo HTMReq = ([IsRead, IsRequest, NeedsResponse], HTMReqResp)"
| "commandInfo HTMReqResp = ([IsRead, IsResponse], InvalidCmd)"
| "commandInfo HTMAbort = ([IsRead, IsRequest], InvalidCmd)"
| "commandInfo TlbiExtSync = ([IsRequest], InvalidCmd)"

definition testCmdAttrib :: "mem_cmd \<Rightarrow> mem_attr \<Rightarrow> bool" where
  "testCmdAttrib c a \<longleftrightarrow> a \<in> set (fst (commandInfo c))"

definition responseCommand :: "mem_cmd \<Rightarrow> mem_cmd" where
  "responseCommand c = snd (commandInfo c)"

section \<open>Request flags\<close>

definition INST_FETCH :: u64 where "INST_FETCH = 0x100"
definition KERNEL :: u64 where "KERNEL = 0x1000"
definition MEM_SWAP_COND :: u64 where "MEM_SWAP_COND = 0x800000"
definition SECURE :: u64 where "SECURE = 0x10000000"
definition ATOMIC_RETURN_OP :: u64 where "ATOMIC_RETURN_OP = 0x40000000"
definition ATOMIC_NO_RETURN_OP :: u64 where "ATOMIC_NO_RETURN_OP = 0x80000000"

definition ADDMOD :: u64 where "ADDMOD = 0x0001000000000000"
definition MULMOD :: u64 where "MULMOD = 0x0010000000000000"
definition MULIMC :: u64 where "MULIMC = 0x0100000000000000"
definition INVMOD :: u64 where "INVMOD = 0x1000000000000000"
definition SUBMOD :: u64 where "SUBMOD = 0x0000000010000000"
definition CMPIMC :: u64 where "CMPIMC = 0x0000000000001000"

lemmas flag_values = INST_FETCH_def KERNEL_def MEM_SWAP_COND_def SECURE_def
  ATOMIC_RETURN_OP_def ATOMIC_NO_RETURN_OP_def
  ADDMOD_def MULMOD_def MULIMC_def INVMOD_def SUBMOD_def CMPIMC_def

text \<open>\<^verbatim>\<open>Flags::isSet\<close>: some bit of the mask is set.\<close>

definition flag_isSet :: "u64 \<Rightarrow> u64 \<Rightarrow> bool" where
  "flag_isSet fl m \<longleftrightarrow> fl AND m \<noteq> 0"

section \<open>Packets\<close>

text \<open>
  The request a packet carries is folded into it: its flags, the context that
  issued it, and the extra data word a store-conditional or a conditional swap
  uses. The atomic operation of an AMO is a function on the bytes it updates.
\<close>

record packet =
  p_cmd :: mem_cmd
  p_addr :: addr
  p_size :: nat
  p_secure :: bool
  p_flags :: u64
  p_context :: nat
  p_extra :: u64
  p_data :: "u8 list"
  p_atomic :: "(u8 list \<Rightarrow> u8 list) option"
  p_cacheResponding :: bool
  p_headerDelay :: tick
  p_payloadDelay :: tick

abbreviation p_is :: "packet \<Rightarrow> mem_attr \<Rightarrow> bool" where
  "p_is p a \<equiv> testCmdAttrib (p_cmd p) a"

definition req_isAtomic :: "packet \<Rightarrow> bool" where
  "req_isAtomic p \<longleftrightarrow> flag_isSet (p_flags p) ATOMIC_RETURN_OP \<or> flag_isSet (p_flags p) ATOMIC_NO_RETURN_OP"

definition req_isCondSwap :: "packet \<Rightarrow> bool" where
  "req_isCondSwap p \<longleftrightarrow> flag_isSet (p_flags p) MEM_SWAP_COND"

definition req_isInstFetch :: "packet \<Rightarrow> bool" where
  "req_isInstFetch p \<longleftrightarrow> flag_isSet (p_flags p) INST_FETCH"

definition req_isSecure :: "u64 \<Rightarrow> bool" where
  "req_isSecure fl \<longleftrightarrow> flag_isSet fl SECURE"

definition matchAddr :: "packet \<Rightarrow> packet \<Rightarrow> bool" where
  "matchAddr q p \<longleftrightarrow> p_addr q = p_addr p \<and> p_secure q = p_secure p"

text \<open>\<^verbatim>\<open>makeResponse\<close> asserts that the command is a request that wants a response.\<close>

definition makeResponse :: "packet \<Rightarrow> packet run" where
  "makeResponse p =
     (if p_is p NeedsResponse \<and> p_is p IsRequest
      then Inr (p\<lparr>p_cmd := responseCommand (p_cmd p)\<rparr>)
      else Inl Assert_failed)"

section \<open>Facts about the command table\<close>

lemma needs_response_is_request: "testCmdAttrib c NeedsResponse \<Longrightarrow> testCmdAttrib c IsRequest"
  by (cases c) (simp_all add: testCmdAttrib_def)

lemma response_of_request:
  "testCmdAttrib c NeedsResponse \<Longrightarrow>
     testCmdAttrib (responseCommand c) IsResponse \<and> \<not> testCmdAttrib (responseCommand c) IsRequest"
  by (cases c) (simp_all add: testCmdAttrib_def responseCommand_def)

lemma makeResponse_ok:
  "p_is p NeedsResponse \<Longrightarrow> makeResponse p = Inr (p\<lparr>p_cmd := responseCommand (p_cmd p)\<rparr>)"
  by (simp add: makeResponse_def needs_response_is_request)

lemma makeResponse_Inr:
  "makeResponse p = Inr p' \<Longrightarrow>
     p' = p\<lparr>p_cmd := responseCommand (p_cmd p)\<rparr> \<and> p_is p' IsResponse"
  by (auto simp: makeResponse_def response_of_request split: if_splits)

lemma matchAddr_refl [simp]: "matchAddr p p"
  by (simp add: matchAddr_def)

lemma matchAddr_sym: "matchAddr p q = matchAddr q p"
  by (auto simp: matchAddr_def)

lemma matchAddr_trans: "matchAddr p q \<Longrightarrow> matchAddr q r \<Longrightarrow> matchAddr p r"
  by (auto simp: matchAddr_def)

end
