(* ===== verification/Simple_Memory.thy ===== *)
theory Simple_Memory
  imports Host_Store Imc_Ops Gem5_Packet
begin

text \<open>
  The memory controller \<^verbatim>\<open>SimpleMemory\<close> (and \<^verbatim>\<open>PIMCtrl\<close>, whose request path is the
  same text) on top of \<^verbatim>\<open>AbstractMemory\<close>: the backing store, the list of locked
  addresses, the in-memory operations, the response queue and the handlers that
  the port and the event queue call. A handler takes the controller's state and
  returns the new one, or the fault that stops the simulation.
\<close>

section \<open>State\<close>

text \<open>
  The memory has a real backing store (\<^verbatim>\<open>null=False\<close>) and an address range that is
  not interleaved. The time a packet occupies the memory, \<^verbatim>\<open>getSize() * bandwidth\<close>
  in floating point, is the function \<open>duration\<close> of the configuration; an event of
  the event queue is the tick it is scheduled at, or \<open>None\<close>. What the controller
  sends through its port is recorded in \<open>sentResps\<close>, \<open>retriesSent\<close> and
  \<open>drainSignalled\<close>, and the responses it puts into its queue, in the order in which
  the requests were taken, in \<open>queuedResps\<close>.
\<close>

record mem_ctrl =
  rangeStart :: addr
  pmem :: "u8 list"
  writeable :: bool
  lockedAddrList :: "(addr \<times> nat) list"
  duration :: "nat \<Rightarrow> tick"
  isBusy :: bool
  retryReq :: bool
  retryResp :: bool
  packetQueue :: "(packet \<times> tick) list"
  releaseEvent :: "tick option"
  dequeueEvent :: "tick option"
  curTick :: tick
  pendingDelete :: "packet option"
  draining :: bool
  queuedResps :: "packet list"
  sentResps :: "packet list"
  retriesSent :: nat
  drainSignalled :: bool

section \<open>Access to the backing store\<close>

definition range_subset :: "mem_ctrl \<Rightarrow> packet \<Rightarrow> bool" where
  "range_subset s p \<longleftrightarrow>
     unat (rangeStart s) \<le> unat (p_addr p) \<and>
     unat (p_addr p) + p_size p \<le> unat (rangeStart s) + length (pmem s)"

definition host_offset :: "mem_ctrl \<Rightarrow> packet \<Rightarrow> nat" where
  "host_offset s p = unat (p_addr p - rangeStart s)"

definition store_bytes :: "mem_ctrl \<Rightarrow> packet \<Rightarrow> u8 list" where
  "store_bytes s p = take (p_size p) (drop (host_offset s p) (pmem s))"

definition put_bytes :: "mem_ctrl \<Rightarrow> nat \<Rightarrow> u8 list \<Rightarrow> mem_ctrl" where
  "put_bytes s off bs = s\<lparr>pmem := take off (pmem s) @ bs @ drop (off + length bs) (pmem s)\<rparr>"

definition LockedAddr_mask :: "addr \<Rightarrow> addr" where
  "LockedAddr_mask a = a AND NOT 0xf"

fun track_update :: "(addr \<times> nat) list \<Rightarrow> addr \<Rightarrow> nat \<Rightarrow> (addr \<times> nat) list option" where
  "track_update [] a c = None"
| "track_update ((x, k) # ls) a c =
     (if k = c then Some ((a, k) # ls) else map_option (Cons (x, k)) (track_update ls a c))"

definition trackLoadLocked :: "mem_ctrl \<Rightarrow> packet \<Rightarrow> mem_ctrl" where
  "trackLoadLocked s p =
     (let a = LockedAddr_mask (p_addr p)
      in s\<lparr>lockedAddrList :=
            (case track_update (lockedAddrList s) a (p_context p) of
               Some ls \<Rightarrow> ls
             | None \<Rightarrow> (a, p_context p) # lockedAddrList s)\<rparr>)"

text \<open>
  A store succeeds unless it is a store-conditional without a matching lock; a
  store that succeeds drops every lock on its address.
\<close>

definition checkLockedAddrList :: "mem_ctrl \<Rightarrow> packet \<Rightarrow> bool \<times> mem_ctrl \<times> packet" where
  "checkLockedAddrList s p =
     (let a = LockedAddr_mask (p_addr p);
          isLLSC = p_is p IsLlsc;
          allowStore = (\<not> isLLSC \<or> (a, p_context p) \<in> set (lockedAddrList s));
          p' = (if isLLSC then p\<lparr>p_extra := if allowStore then 1 else 0\<rparr> else p);
          s' = (if allowStore
                then s\<lparr>lockedAddrList := filter (\<lambda>(x, k). x \<noteq> a) (lockedAddrList s)\<rparr> else s)
      in (allowStore, s', p'))"

definition writeOK :: "mem_ctrl \<Rightarrow> packet \<Rightarrow> bool \<times> mem_ctrl \<times> packet" where
  "writeOK s p =
     (if \<not> writeable s then (False, s, p)
      else if lockedAddrList s = [] then
        (\<not> p_is p IsLlsc, s, if p_is p IsLlsc then p\<lparr>p_extra := 0\<rparr> else p)
      else checkLockedAddrList s p)"

text \<open>The three data-moving arms of \<^verbatim>\<open>access\<close>.\<close>

definition access_swap :: "mem_ctrl \<Rightarrow> packet \<Rightarrow> (mem_ctrl \<times> packet) run" where
  "access_swap s p =
     (let old = store_bytes s p; off = host_offset s p
      in if req_isAtomic p then
           (case p_atomic p of
              None \<Rightarrow> Inl Panic
            | Some f \<Rightarrow>
                if length (f old) = length old
                then Inr (put_bytes s off (f old), p\<lparr>p_data := old\<rparr>) else Inl Out_of_range)
         else if length (p_data p) < p_size p then Inl Out_of_range
         else
           let new = take (p_size p) (p_data p); p' = p\<lparr>p_data := old\<rparr>
           in if req_isCondSwap p then
                (if p_size p = 8 then
                   if le_bytes 8 (p_extra p) = old then Inr (put_bytes s off new, p') else Inr (s, p')
                 else if p_size p = 4 then
                   if le_bytes 4 (p_extra p) = old then Inr (put_bytes s off new, p') else Inr (s, p')
                 else Inl Panic)
              else Inr (put_bytes s off new, p'))"

definition access_read :: "mem_ctrl \<Rightarrow> packet \<Rightarrow> (mem_ctrl \<times> packet) run" where
  "access_read s p =
     (if p_is p IsWrite then Inl Assert_failed
      else if p_is p IsLlsc \<and> p_is p FromCache then Inl Assert_failed
      else
        let s' = (if p_is p IsLlsc then trackLoadLocked s p else s)
        in Inr (s', p\<lparr>p_data := store_bytes s p\<rparr>))"

definition access_write :: "mem_ctrl \<Rightarrow> packet \<Rightarrow> (mem_ctrl \<times> packet) run" where
  "access_write s p =
     (let (ok, s', p') = writeOK s p
      in if \<not> ok then Inr (s', p')
         else if length (p_data p) < p_size p then Inl Out_of_range
         else if req_isInstFetch p then Inl Assert_failed
         else Inr (put_bytes s' (host_offset s p) (take (p_size p) (p_data p)), p'))"

text \<open>The chain of commands inside \<^verbatim>\<open>access\<close>, then \<^verbatim>\<open>access\<close> with its guards and the response.\<close>

definition access_arm :: "mem_ctrl \<Rightarrow> packet \<Rightarrow> (mem_ctrl \<times> packet) run" where
  "access_arm s p =
     (if p_cmd p = SwapReq then
        (if \<not> req_isAtomic p \<and> req_isInstFetch p
         then rbind (access_swap s p) (\<lambda>_. Inl Assert_failed)
         else access_swap s p)
      else if p_is p IsRead then access_read s p
      else if p_is p IsInvalidate \<or> p_is p IsClean then
        (if p_is p IsWrite then Inl Assert_failed else Inr (s, p))
      else if p_is p IsWrite then access_write s p
      else Inl Panic)"

definition mem_access :: "mem_ctrl \<Rightarrow> packet \<Rightarrow> (mem_ctrl \<times> packet) run" where
  "mem_access s p =
     (if p_cacheResponding p then Inr (s, p)
      else if p_cmd p = CleanEvict \<or> p_cmd p = WritebackClean then Inr (s, p)
      else if \<not> range_subset s p then Inl Assert_failed
      else
        rbind (access_arm s p) (\<lambda>(s', p').
          if p_is p' NeedsResponse then rbind (makeResponse p') (\<lambda>p''. Inr (s', p''))
          else Inr (s', p')))"

section \<open>In-memory operations\<close>

text \<open>
  The payload of an in-memory request is an array of physical addresses. Every
  operand address is read from it first, then the operands are loaded from the
  store, and the result is written back.
\<close>

definition pkt_operand :: "u8 list \<Rightarrow> nat \<Rightarrow> u64 run" where
  "pkt_operand data i =
     (if 8 * i + 8 \<le> length data then Inr (le_word (take 8 (drop (8 * i) data)))
      else Inl Out_of_range)"

definition imc_ternary ::
  "(u64 \<Rightarrow> u64 \<Rightarrow> u64 \<Rightarrow> u64 run) \<Rightarrow> addr \<Rightarrow> u8 list \<Rightarrow> u8 list \<Rightarrow> u8 list run" where
  "imc_ternary f base mem data =
     rbind (pkt_operand data 0) (\<lambda>addr_a.
     rbind (pkt_operand data 1) (\<lambda>addr_b.
     rbind (pkt_operand data 2) (\<lambda>addr_c.
     rbind (pkt_operand data 3) (\<lambda>addr_d.
     rbind (host_load base mem addr_a) (\<lambda>val_a.
     rbind (host_load base mem addr_b) (\<lambda>val_b.
     rbind (host_load base mem addr_c) (\<lambda>val_c.
     rbind (f val_a val_b val_c) (\<lambda>result.
     host_store base mem addr_d result))))))))"

definition imc_binary ::
  "(u64 \<Rightarrow> u64 \<Rightarrow> u64 run) \<Rightarrow> addr \<Rightarrow> u8 list \<Rightarrow> u8 list \<Rightarrow> u8 list run" where
  "imc_binary f base mem data =
     rbind (pkt_operand data 0) (\<lambda>addr_a.
     rbind (pkt_operand data 1) (\<lambda>addr_b.
     rbind (pkt_operand data 2) (\<lambda>addr_c.
     rbind (host_load base mem addr_a) (\<lambda>val_a.
     rbind (host_load base mem addr_b) (\<lambda>val_b.
     rbind (f val_a val_b) (\<lambda>result.
     host_store base mem addr_c result))))))"

text \<open>The chain of flag tests; \<open>None\<close> when the request is an ordinary one.\<close>

definition imc_dispatch :: "u64 \<Rightarrow> addr \<Rightarrow> u8 list \<Rightarrow> u8 list \<Rightarrow> u8 list run option" where
  "imc_dispatch fl base mem data =
     (if flag_isSet fl ADDMOD then Some (imc_ternary imc_addmod base mem data)
      else if flag_isSet fl SUBMOD then Some (imc_ternary imc_submod base mem data)
      else if flag_isSet fl MULMOD then Some (imc_ternary imc_mulmod base mem data)
      else if flag_isSet fl MULIMC then Some (imc_binary imc_mulimc base mem data)
      else if flag_isSet fl INVMOD then Some (imc_binary imc_invmod base mem data)
      else if flag_isSet fl CMPIMC then Some (imc_binary imc_cmpimc base mem data)
      else None)"

section \<open>Events\<close>

text \<open>
  Scheduling asserts that the event is not yet scheduled and that its tick does
  not lie in the past; \<^verbatim>\<open>reschedule\<close> moves a scheduled event, or with its last
  argument set schedules it afresh.
\<close>

definition schedule_release :: "mem_ctrl \<Rightarrow> tick \<Rightarrow> mem_ctrl run" where
  "schedule_release s w =
     (if releaseEvent s = None \<and> curTick s \<le> w then Inr (s\<lparr>releaseEvent := Some w\<rparr>)
      else Inl Assert_failed)"

definition schedule_dequeue :: "mem_ctrl \<Rightarrow> tick \<Rightarrow> mem_ctrl run" where
  "schedule_dequeue s w =
     (if dequeueEvent s = None \<and> curTick s \<le> w then Inr (s\<lparr>dequeueEvent := Some w\<rparr>)
      else Inl Assert_failed)"

definition reschedule_dequeue :: "mem_ctrl \<Rightarrow> tick \<Rightarrow> mem_ctrl run" where
  "reschedule_dequeue s w =
     (if curTick s \<le> w then Inr (s\<lparr>dequeueEvent := Some w\<rparr>) else Inl Assert_failed)"

section \<open>The response queue\<close>

text \<open>
  The insertion walks back from the last element while it is not at the first
  one, the new packet is to leave earlier and the addresses differ, and inserts
  behind the element it stops at. On an empty list the walk stays on the list's
  end, so the packet becomes the only element.
\<close>

fun queue_slot :: "(packet \<times> tick) list \<Rightarrow> packet \<Rightarrow> tick \<Rightarrow> nat \<Rightarrow> nat" where
  "queue_slot q p w 0 = 0"
| "queue_slot q p w (Suc i) =
     (if w < snd (q ! Suc i) \<and> \<not> matchAddr (fst (q ! Suc i)) p then queue_slot q p w i else Suc i)"

definition queue_insert :: "(packet \<times> tick) list \<Rightarrow> packet \<Rightarrow> tick \<Rightarrow> (packet \<times> tick) list" where
  "queue_insert q p w =
     (if q = [] then [(p, w)]
      else let i = queue_slot q p w (length q - 1)
           in take (Suc i) q @ [(p, w)] @ drop (Suc i) q)"

section \<open>Handlers\<close>

text \<open>
  \<^verbatim>\<open>getLatency\<close> adds a random share of the variance to the latency; the value it
  returns is the argument \<open>lat\<close> of the handlers that call it.
\<close>

definition recvAtomic :: "mem_ctrl \<Rightarrow> packet \<Rightarrow> (mem_ctrl \<times> packet) run" where
  "recvAtomic s p = (if p_cacheResponding p then Inl Panic else mem_access s p)"

text \<open>The part of the timing handler behind the in-memory branches.\<close>

definition timing_access :: "mem_ctrl \<Rightarrow> packet \<Rightarrow> tick \<Rightarrow> tick \<Rightarrow> mem_ctrl run" where
  "timing_access s p receive_delay lat =
     (let needsResponse = p_is p NeedsResponse
      in rbind (recvAtomic s p) (\<lambda>(s', p').
         if needsResponse then
           (if \<not> p_is p' IsResponse then Inl Assert_failed
            else
              let w = curTick s' + receive_delay + lat;
                  s'' = s'\<lparr>packetQueue := queue_insert (packetQueue s') p' w, queuedResps := queuedResps s' @ [p']\<rparr>
              in if \<not> retryResp s'' \<and> dequeueEvent s'' = None
                 then schedule_dequeue s'' (snd (last (packetQueue s'')))
                 else Inr s'')
         else Inr (s'\<lparr>pendingDelete := Some p'\<rparr>)))"

definition recvTimingReq :: "mem_ctrl \<Rightarrow> packet \<Rightarrow> tick \<Rightarrow> (mem_ctrl \<times> bool) run" where
  "recvTimingReq s p lat =
     (if p_cacheResponding p then Inl Panic
      else if \<not> (p_is p IsRead \<or> p_is p IsWrite) then Inl Panic
      else if retryReq s then Inr (s, False)
      else if isBusy s then Inr (s\<lparr>retryReq := True\<rparr>, False)
      else
        let receive_delay = p_headerDelay p + p_payloadDelay p;
            p1 = p\<lparr>p_headerDelay := 0, p_payloadDelay := 0\<rparr>;
            dur = duration s (p_size p1)
        in rbind (if dur \<noteq> 0
                  then rbind (schedule_release s (curTick s + dur)) (\<lambda>s'. Inr (s'\<lparr>isBusy := True\<rparr>))
                  else Inr s) (\<lambda>s1.
           case imc_dispatch (p_flags p1) (rangeStart s1) (pmem s1) (p_data p1) of
             Some r \<Rightarrow> rbind r (\<lambda>mem'. Inr (s1\<lparr>pmem := mem'\<rparr>, True))
           | None \<Rightarrow> rbind (timing_access s1 p1 receive_delay lat) (\<lambda>s2. Inr (s2, True))))"

text \<open>
  What the peer does inside a call through the port. A call to \<^verbatim>\<open>sendTimingResp\<close> or \<^verbatim>\<open>sendRetryReq\<close> may
  come back into the controller before it returns: the peer may send further requests, each
  with the latency drawn for it. They are answered by the handler above, on the state the
  controller has at that moment.
\<close>

type_synonym arrivals = "(packet \<times> tick) list"

fun recv_requests :: "mem_ctrl \<Rightarrow> arrivals \<Rightarrow> mem_ctrl run" where
  "recv_requests s [] = Inr s"
| "recv_requests s ((p, lat) # reqs) = rbind (recvTimingReq s p lat) (\<lambda>(s', ok). recv_requests s' reqs)"

text \<open>
  The release event fires: it is no longer scheduled when its handler runs. The retry is the
  handler's last call, so the first part ends with whether it is made.
\<close>

definition release_start :: "mem_ctrl \<Rightarrow> (mem_ctrl \<times> bool) run" where
  "release_start s =
     (if \<not> isBusy s then Inl Assert_failed
      else
        let s1 = s\<lparr>isBusy := False\<rparr>
        in if retryReq s1 then Inr (s1\<lparr>retryReq := False, retriesSent := Suc (retriesSent s1)\<rparr>, True)
           else Inr (s1, False))"

definition release :: "mem_ctrl \<Rightarrow> arrivals \<Rightarrow> mem_ctrl run" where
  "release s reqs =
     rbind (release_start s) (\<lambda>(s1, retry). if retry then recv_requests s1 reqs else Inr s1)"

text \<open>
  The first element of the queue is handed to the peer, which sends the requests \<open>reqs\<close> before it
  answers; \<open>accepted\<close> is its answer. During the call the element is still in the queue, the old
  value of \<^verbatim>\<open>retryResp\<close> still stands, and the requests may schedule the dequeue event. What is
  removed afterwards is the element that is first by then.
\<close>

definition dequeue :: "mem_ctrl \<Rightarrow> arrivals \<Rightarrow> bool \<Rightarrow> mem_ctrl run" where
  "dequeue s reqs accepted =
     (case packetQueue s of
        [] \<Rightarrow> Inl Assert_failed
      | deferred_pkt # _ \<Rightarrow>
          rbind (recv_requests s reqs) (\<lambda>s0.
          let s1 = s0\<lparr>retryResp := \<not> accepted\<rparr>
          in if accepted then
               let s2 = s1\<lparr>sentResps := sentResps s1 @ [fst deferred_pkt], packetQueue := tl (packetQueue s1)\<rparr>
               in case packetQueue s2 of
                    [] \<Rightarrow> Inr (if draining s2 then s2\<lparr>drainSignalled := True\<rparr> else s2)
                  | (p', t') # q' \<Rightarrow> reschedule_dequeue s2 (max t' (curTick s2))
             else Inr s1))"

definition recvRespRetry :: "mem_ctrl \<Rightarrow> arrivals \<Rightarrow> bool \<Rightarrow> mem_ctrl run" where
  "recvRespRetry s reqs accepted = (if \<not> retryResp s then Inl Assert_failed else dequeue s reqs accepted)"

datatype drain_state = Draining | Drained

definition drain :: "mem_ctrl \<Rightarrow> drain_state" where
  "drain s = (if packetQueue s \<noteq> [] then Draining else Drained)"

end
