(* ===== verification/Mem_Ctrl_Props.thy ===== *)
theory Mem_Ctrl_Props
  imports Simple_Memory
begin

text \<open>
  What the memory controller guarantees. First the response queue: its insertion
  is an instance of the locale \<open>keyed_queue\<close>, whose law is that packets of the same
  address leave in the order they came. Then the in-memory operations on the
  backing store, obtained from the contract of the store. Then what an access
  to the store leaves alone.
\<close>

section \<open>The response queue\<close>

locale keyed_queue =
  fixes enq :: "'q \<Rightarrow> 'x \<Rightarrow> 'q"
    and items :: "'q \<Rightarrow> 'x list"
    and same :: "'x \<Rightarrow> 'x \<Rightarrow> bool"
  assumes same_refl: "same x x"
    and same_sym: "same x y \<Longrightarrow> same y x"
    and same_trans: "same x y \<Longrightarrow> same y z \<Longrightarrow> same x z"
    and enq_same: "filter (same x) (items (enq q x)) = filter (same x) (items q) @ [x]"
    and enq_other: "\<not> same y x \<Longrightarrow> filter (same y) (items (enq q x)) = filter (same y) (items q)"
begin

lemma same_fun_eq: "same y x \<Longrightarrow> same y = same x"
  by (rule ext) (blast intro: same_sym same_trans)

lemma enq_filter:
  "filter (same y) (items (enq q x)) = filter (same y) (items q) @ (if same y x then [x] else [])"
  using enq_same [of x q] enq_other [of y x q] same_fun_eq [of y x] by (cases "same y x") simp_all

text \<open>A burst of arrivals: per key, the queue holds them in the order of arrival.\<close>

lemma enqs_filter:
  "filter (same y) (items (foldl enq q xs)) = filter (same y) (items q) @ filter (same y) xs"
  by (induction xs arbitrary: q) (simp_all add: enq_filter)

end

lemma queue_slot_le: "queue_slot q p w n \<le> n"
  by (induction n) auto

lemma queue_slot_skips:
  "queue_slot q p w n < j \<Longrightarrow> j \<le> n \<Longrightarrow> w < snd (q ! j) \<and> \<not> matchAddr (fst (q ! j)) p"
proof (induction n)
  case 0
  then show ?case by simp
next
  case (Suc n)
  then show ?case by (cases "j = Suc n") (auto split: if_splits)
qed

text \<open>The queue is cut at one place; nothing behind the cut has the packet's address.\<close>

lemma queue_insert_cut:
  obtains l r where "q = l @ r" "queue_insert q p w = l @ (p, w) # r"
    "\<And>x. x \<in> set r \<Longrightarrow> w < snd x \<and> \<not> matchAddr (fst x) p" "q \<noteq> [] \<Longrightarrow> l \<noteq> []"
proof (cases "q = []")
  case True
  then show ?thesis by (intro that [of "[]" "[]"]) (simp_all add: queue_insert_def)
next
  case False
  let ?i = "queue_slot q p w (length q - 1)"
  show ?thesis
  proof (rule that [of "take (Suc ?i) q" "drop (Suc ?i) q"])
    show "queue_insert q p w = take (Suc ?i) q @ (p, w) # drop (Suc ?i) q"
      using False by (simp add: queue_insert_def Let_def)
    show "w < snd x \<and> \<not> matchAddr (fst x) p" if x: "x \<in> set (drop (Suc ?i) q)" for x
    proof -
      from x obtain k where "k < length q - Suc ?i" and "x = q ! (Suc ?i + k)"
        by (auto simp: in_set_conv_nth)
      then show ?thesis using queue_slot_skips [of q p w "length q - 1" "Suc ?i + k"] by auto
    qed
  qed (use False in simp_all)
qed

definition same_addr :: "packet \<times> tick \<Rightarrow> packet \<times> tick \<Rightarrow> bool" where
  "same_addr x y \<longleftrightarrow> matchAddr (fst x) (fst y)"

interpretation resp_queue: keyed_queue "\<lambda>q x. queue_insert q (fst x) (snd x)" "\<lambda>q. q" same_addr
proof (unfold_locales, goal_cases)
  case (1 x)
  show ?case by (simp add: same_addr_def)
next
  case (2 x y)
  then show ?case by (simp add: same_addr_def matchAddr_sym)
next
  case (3 x y z)
  then show ?case by (auto simp: same_addr_def intro: matchAddr_trans)
next
  case (4 x q)
  obtain l r where cut: "q = l @ r" "queue_insert q (fst x) (snd x) = l @ x # r"
    and skip: "\<And>y. y \<in> set r \<Longrightarrow> snd x < snd y \<and> \<not> matchAddr (fst y) (fst x)"
    using queue_insert_cut [of q "fst x" "snd x"] by (metis prod.collapse)
  have "filter (same_addr x) r = []"
    using skip by (auto simp: same_addr_def matchAddr_sym filter_empty_conv)
  with cut show ?case by (simp add: same_addr_def)
next
  case (5 y x q)
  obtain l r where "q = l @ r" "queue_insert q (fst x) (snd x) = l @ x # r"
    using queue_insert_cut [of q "fst x" "snd x"] by (metis prod.collapse)
  with 5 show ?case by simp
qed

lemma queue_insert_not_Nil [simp]: "queue_insert q p w \<noteq> []"
  by (rule queue_insert_cut [of q p w]) simp

lemma set_queue_insert: "set (queue_insert q p w) = insert (p, w) (set q)"
  by (rule queue_insert_cut [of q p w]) auto

section \<open>In-memory operations on the store\<close>

text \<open>The payload the decoder builds: the addresses of the operands, eight bytes each.\<close>

definition operands_payload :: "addr list \<Rightarrow> u8 list" where
  "operands_payload as = concat (map (le_bytes 8) as)"

lemma length_operands_payload [simp]: "length (operands_payload as) = 8 * length as"
  by (induction as) (simp_all add: operands_payload_def)

lemma drop_operands_payload: "drop (8 * i) (operands_payload as) = operands_payload (drop i as)"
proof (induction as arbitrary: i)
  case Nil
  show ?case by (simp add: operands_payload_def)
next
  case (Cons a as)
  then show ?case by (cases i) (simp_all add: operands_payload_def)
qed

lemma pkt_operand_payload: "i < length as \<Longrightarrow> pkt_operand (operands_payload as) i = Inr (as ! i)"
proof -
  assume i: "i < length as"
  then have "drop i as = as ! i # drop (Suc i) as" by (simp add: Cons_nth_drop_Suc)
  then have "take 8 (drop (8 * i) (operands_payload as)) = le_bytes 8 (as ! i)"
    by (simp add: drop_operands_payload) (simp add: operands_payload_def)
  with i show ?thesis by (simp add: pkt_operand_def)
qed

lemma imc_ternary_ok:
  assumes "host_load base mem a = Inr va" "host_load base mem b = Inr vb"
    and "host_load base mem c = Inr vc" "in_store base mem d" "f va vb vc = Inr r"
  shows "\<exists>mem'. imc_ternary f base mem (operands_payload [a, b, c, d]) = Inr mem' \<and>
           host_load base mem' d = Inr r \<and>
           (\<forall>x. cells_disjoint base d x \<longrightarrow> host_load base mem' x = host_load base mem x) \<and>
           (\<forall>x. in_store base mem' x = in_store base mem x)"
  using host.compute3 [where f = f, OF assms] by (simp add: imc_ternary_def pkt_operand_payload)

lemma imc_binary_ok:
  assumes "host_load base mem a = Inr va" "host_load base mem b = Inr vb"
    and "in_store base mem c" "f va vb = Inr r"
  shows "\<exists>mem'. imc_binary f base mem (operands_payload [a, b, c]) = Inr mem' \<and>
           host_load base mem' c = Inr r \<and>
           (\<forall>x. cells_disjoint base c x \<longrightarrow> host_load base mem' x = host_load base mem x) \<and>
           (\<forall>x. in_store base mem' x = in_store base mem x)"
  using host.compute2 [where f = f, OF assms] by (simp add: imc_binary_def pkt_operand_payload)

lemma imc_ternary_length: "imc_ternary f base mem data = Inr mem' \<Longrightarrow> length mem' = length mem"
  by (auto simp: imc_ternary_def rbind_Inr_iff dest: host_store_length)

lemma imc_binary_length: "imc_binary f base mem data = Inr mem' \<Longrightarrow> length mem' = length mem"
  by (auto simp: imc_binary_def rbind_Inr_iff dest: host_store_length)

lemma imc_dispatch_length: "imc_dispatch fl base mem data = Some (Inr mem') \<Longrightarrow> length mem' = length mem"
  by (auto simp: imc_dispatch_def imc_ternary_length imc_binary_length split: if_splits)

lemma imc_dispatch_flags:
  "imc_dispatch ADDMOD base mem data = Some (imc_ternary imc_addmod base mem data)"
  "imc_dispatch SUBMOD base mem data = Some (imc_ternary imc_submod base mem data)"
  "imc_dispatch MULMOD base mem data = Some (imc_ternary imc_mulmod base mem data)"
  "imc_dispatch MULIMC base mem data = Some (imc_binary imc_mulimc base mem data)"
  "imc_dispatch INVMOD base mem data = Some (imc_binary imc_invmod base mem data)"
  "imc_dispatch CMPIMC base mem data = Some (imc_binary imc_cmpimc base mem data)"
  by (simp_all add: imc_dispatch_def flag_isSet_def flag_values)

section \<open>What an access leaves alone\<close>

definition store_update :: "mem_ctrl \<Rightarrow> mem_ctrl \<Rightarrow> bool" where
  "store_update s s' \<longleftrightarrow>
     (\<exists>m l. s' = s\<lparr>pmem := m, lockedAddrList := l\<rparr> \<and> length m = length (pmem s))"

lemma store_update_refl [simp]: "store_update s s"
  unfolding store_update_def by (intro exI [of _ "pmem s"] exI [of _ "lockedAddrList s"]) simp

lemma store_update_locks [simp]: "store_update s (s\<lparr>lockedAddrList := l\<rparr>)"
  unfolding store_update_def by (intro exI [of _ "pmem s"] exI [of _ l]) simp

lemma store_update_pmem: "length m = length (pmem s) \<Longrightarrow> store_update s (s\<lparr>pmem := m\<rparr>)"
  unfolding store_update_def by (intro exI [of _ m] exI [of _ "lockedAddrList s"]) simp

lemma store_update_trans: "store_update s s' \<Longrightarrow> store_update s' s'' \<Longrightarrow> store_update s s''"
  unfolding store_update_def by force

lemma put_bytes_store_update:
  "off + length bs \<le> length (pmem s) \<Longrightarrow> store_update s (put_bytes s off bs)"
  unfolding put_bytes_def by (rule store_update_pmem) simp

lemma writeOK_cases:
  obtains (no) p' where "writeOK s p = (False, s, p')" "p_cmd p' = p_cmd p"
  | (yes) l p' where "writeOK s p = (True, s\<lparr>lockedAddrList := l\<rparr>, p')" "p_cmd p' = p_cmd p"
proof (cases "writeable s \<and> lockedAddrList s \<noteq> []")
  case True
  then have "writeOK s p = checkLockedAddrList s p" by (simp add: writeOK_def)
  with that show ?thesis
    by (cases "\<not> p_is p IsLlsc \<or> (LockedAddr_mask (p_addr p), p_context p) \<in> set (lockedAddrList s)")
      (simp_all add: checkLockedAddrList_def Let_def)
next
  case False
  show ?thesis
  proof (cases "writeable s \<and> \<not> p_is p IsLlsc")
    case True
    with False show ?thesis by (intro yes [of "lockedAddrList s" p]) (simp_all add: writeOK_def)
  next
    case no_sc: False
    let ?p = "if writeable s then p\<lparr>p_extra := 0\<rparr> else p"
    from False no_sc show ?thesis by (intro no [of ?p]) (auto simp: writeOK_def)
  qed
qed

lemma host_offset_range:
  assumes "range_subset s p"
  shows "host_offset s p + p_size p \<le> length (pmem s)"
proof -
  from assms have le: "rangeStart s \<le> p_addr p"
    by (simp add: range_subset_def word_le_nat_alt)
  then have "host_offset s p = unat (p_addr p) - unat (rangeStart s)"
    by (simp add: host_offset_def unat_sub)
  with assms show ?thesis by (auto simp: range_subset_def)
qed

lemma length_store_bytes: "range_subset s p \<Longrightarrow> length (store_bytes s p) = p_size p"
  using host_offset_range [of s p] by (simp add: store_bytes_def)

text \<open>Each arm of an access changes the store and the locks only, and no command.\<close>

lemma access_swap_frame:
  assumes "access_swap s p = Inr (s', p')" and "range_subset s p"
  shows "store_update s s' \<and> p_cmd p' = p_cmd p"
proof -
  have put: "store_update s (put_bytes s (host_offset s p) bs)" if "length bs = p_size p" for bs
    using that host_offset_range [OF assms(2)] by (intro put_bytes_store_update) simp
  from assms show ?thesis
    by (auto simp: access_swap_def Let_def length_store_bytes put split: if_splits option.splits)
qed

lemma access_read_frame:
  assumes "access_read s p = Inr (s', p')"
  shows "store_update s s' \<and> p_cmd p' = p_cmd p"
  using assms by (auto simp: access_read_def trackLoadLocked_def Let_def split: if_splits)

lemma access_write_frame:
  assumes "access_write s p = Inr (s', p')" and "range_subset s p"
  shows "store_update s s' \<and> p_cmd p' = p_cmd p"
proof (cases rule: writeOK_cases [of s p])
  case (no p1)
  with assms(1) show ?thesis by (simp add: access_write_def)
next
  case (yes l p1)
  let ?s = "s\<lparr>lockedAddrList := l\<rparr>"
  from assms(1) yes have "s' = put_bytes ?s (host_offset s p) (take (p_size p) (p_data p))"
    and "p' = p1" and "p_size p \<le> length (p_data p)"
    by (auto simp: access_write_def split: if_splits)
  moreover have "store_update ?s (put_bytes ?s (host_offset s p) (take (p_size p) (p_data p)))"
    using host_offset_range [OF assms(2)] by (intro put_bytes_store_update) (simp add: min_def)
  ultimately show ?thesis
    using yes(2) store_update_trans [OF store_update_locks [of s l]] by blast
qed

lemma access_arm_frame:
  assumes "access_arm s p = Inr (s', p')" and "range_subset s p"
  shows "store_update s s' \<and> p_cmd p' = p_cmd p"
  using assms access_swap_frame [of s p s' p'] access_read_frame [of s p s' p']
    access_write_frame [of s p s' p']
  by (auto simp: access_arm_def rbind_Inr_iff split: if_splits)

lemma eviction_needs_no_response:
  "\<not> testCmdAttrib CleanEvict NeedsResponse" "\<not> testCmdAttrib WritebackClean NeedsResponse"
  by (simp_all add: testCmdAttrib_def)

lemma mem_access_frame:
  assumes acc: "mem_access s p = Inr (s', p')" and "\<not> p_cacheResponding p"
  shows "store_update s s'" and "p_is p NeedsResponse \<Longrightarrow> p_is p' IsResponse"
proof -
  have "store_update s s' \<and> (p_is p NeedsResponse \<longrightarrow> p_is p' IsResponse)"
  proof (cases "p_cmd p = CleanEvict \<or> p_cmd p = WritebackClean")
    case True
    with assms show ?thesis by (auto simp: mem_access_def eviction_needs_no_response)
  next
    case False
    with assms have rs: "range_subset s p"
      and run: "rbind (access_arm s p) (\<lambda>(s', p').
          if p_is p' NeedsResponse then rbind (makeResponse p') (\<lambda>p''. Inr (s', p''))
          else Inr (s', p')) = Inr (s', p')"
      by (auto simp: mem_access_def split: if_splits)
    from run obtain s1 p1 where arm: "access_arm s p = Inr (s1, p1)"
      and resp: "(if p_is p1 NeedsResponse then rbind (makeResponse p1) (\<lambda>p''. Inr (s1, p''))
          else Inr (s1, p1)) = Inr (s', p')"
      by (auto simp: rbind_Inr_iff)
    note frame = access_arm_frame [OF arm rs]
    show ?thesis
    proof (cases "p_is p1 NeedsResponse")
      case True
      with resp frame show ?thesis
        by (auto simp: rbind_Inr_iff dest: makeResponse_Inr)
    next
      case False
      with resp frame show ?thesis by simp
    qed
  qed
  then show "store_update s s'" and "p_is p NeedsResponse \<Longrightarrow> p_is p' IsResponse" by blast+
qed

end
