(* ===== verification/Mem_Ctrl_Machine.thy ===== *)
theory Mem_Ctrl_Machine
  imports Mem_Ctrl_Props
begin

text \<open>
  The handlers of the memory controller as the steps of a state machine. The peer
  behind the port is arbitrary: it sends requests when it likes, also from inside the
  controller's own calls to it, and takes or refuses a response as it likes. The
  invariants rule out every failing assertion of the event code and every stuck response,
  and relate what has been sent and what is queued to the order of arrival.
\<close>

section \<open>Steps\<close>

text \<open>
  A request arrives, a scheduled event fires at its tick, the peer that refused a
  response asks for it again, the drain manager calls, or time passes, but never beyond
  a scheduled event.
\<close>

inductive ctrl_step :: "mem_ctrl \<Rightarrow> mem_ctrl \<Rightarrow> bool" where
  request: "recvTimingReq s p lat = Inr (s', ok) \<Longrightarrow> ctrl_step s s'"
| release_fires: "releaseEvent s = Some (curTick s) \<Longrightarrow>
     release (s\<lparr>releaseEvent := None\<rparr>) reqs = Inr s' \<Longrightarrow> ctrl_step s s'"
| dequeue_fires: "dequeueEvent s = Some (curTick s) \<Longrightarrow>
     dequeue (s\<lparr>dequeueEvent := None\<rparr>) reqs accepted = Inr s' \<Longrightarrow> ctrl_step s s'"
| resp_retry: "retryResp s \<Longrightarrow> recvRespRetry s reqs accepted = Inr s' \<Longrightarrow> ctrl_step s s'"
| drain_request: "ctrl_step s (s\<lparr>draining := (drain s = Draining)\<rparr>)"
| time_passes: "curTick s \<le> t \<Longrightarrow> (\<forall>e. releaseEvent s = Some e \<longrightarrow> t \<le> e) \<Longrightarrow>
     (\<forall>e. dequeueEvent s = Some e \<longrightarrow> t \<le> e) \<Longrightarrow> ctrl_step s (s\<lparr>curTick := t\<rparr>)"

inductive_cases ctrl_stepE: "ctrl_step s s'"

text \<open>At the start nothing is outstanding: what has been queued has been sent.\<close>

definition ctrl_init :: "mem_ctrl \<Rightarrow> bool" where
  "ctrl_init s \<longleftrightarrow> \<not> isBusy s \<and> \<not> retryReq s \<and> \<not> retryResp s \<and> packetQueue s = [] \<and>
     releaseEvent s = None \<and> dequeueEvent s = None \<and> queuedResps s = sentResps s"

inductive ctrl_reachable :: "mem_ctrl \<Rightarrow> bool" where
  start: "ctrl_init s \<Longrightarrow> ctrl_reachable s"
| step: "ctrl_reachable s \<Longrightarrow> ctrl_step s s' \<Longrightarrow> ctrl_reachable s'"

section \<open>The effect of a request\<close>

text \<open>
  On the response side a request that is taken either changes nothing, or adds one
  response to the queue and schedules the event that sends it unless one is due or the peer
  will ask.
\<close>

definition resp_same :: "mem_ctrl \<Rightarrow> mem_ctrl \<Rightarrow> bool" where
  "resp_same s s' \<longleftrightarrow> packetQueue s' = packetQueue s \<and> queuedResps s' = queuedResps s \<and>
     dequeueEvent s' = dequeueEvent s"

definition resp_added :: "mem_ctrl \<Rightarrow> mem_ctrl \<Rightarrow> bool" where
  "resp_added s s' \<longleftrightarrow>
     (\<exists>r w. packetQueue s' = queue_insert (packetQueue s) r w \<and> queuedResps s' = queuedResps s @ [r] \<and>
        p_is r IsResponse) \<and>
     (if \<not> retryResp s \<and> dequeueEvent s = None
      then \<exists>e. dequeueEvent s' = Some e \<and> curTick s \<le> e else dequeueEvent s' = dequeueEvent s)"

definition resp_frame :: "mem_ctrl \<Rightarrow> mem_ctrl \<Rightarrow> bool" where
  "resp_frame s s' \<longleftrightarrow> retryResp s' = retryResp s \<and> sentResps s' = sentResps s \<and> curTick s' = curTick s \<and>
     rangeStart s' = rangeStart s \<and> length (pmem s') = length (pmem s) \<and> retriesSent s' = retriesSent s \<and>
     (resp_same s s' \<or> resp_added s s')"

text \<open>
  The request side: a retry is owed only while the memory is busy, and the memory is busy
  exactly while its release is scheduled, not in the past.
\<close>

definition req_inv :: "mem_ctrl \<Rightarrow> bool" where
  "req_inv s \<longleftrightarrow> (retryReq s \<longrightarrow> isBusy s) \<and> (isBusy s \<longleftrightarrow> releaseEvent s \<noteq> None) \<and>
     (\<forall>e. releaseEvent s = Some e \<longrightarrow> curTick s \<le> e)"

lemma resp_frame_refl: "resp_frame s s"
  by (simp add: resp_frame_def resp_same_def)

lemma timing_access_cases:
  assumes run: "timing_access s p d lat = Inr s'"
  obtains s1 p1 where "recvAtomic s p = Inr (s1, p1)" "store_update s s1"
    "p_is p NeedsResponse \<Longrightarrow> p_is p1 IsResponse \<and>
       (let s2 = s1\<lparr>packetQueue := queue_insert (packetQueue s) p1 (curTick s + d + lat), queuedResps := queuedResps s @ [p1]\<rparr>
        in if \<not> retryResp s \<and> dequeueEvent s = None
           then schedule_dequeue s2 (snd (last (packetQueue s2))) = Inr s' else s' = s2)"
    "\<not> p_is p NeedsResponse \<Longrightarrow> s' = s1\<lparr>pendingDelete := Some p1\<rparr>"
proof -
  from run obtain s1 p1 where acc: "recvAtomic s p = Inr (s1, p1)"
    and rest: "(if p_is p NeedsResponse then
           (if \<not> p_is p1 IsResponse then Inl Assert_failed
            else
              let w = curTick s1 + d + lat;
                  s'' = s1\<lparr>packetQueue := queue_insert (packetQueue s1) p1 w, queuedResps := queuedResps s1 @ [p1]\<rparr>
              in if \<not> retryResp s'' \<and> dequeueEvent s'' = None
                 then schedule_dequeue s'' (snd (last (packetQueue s'')))
                 else Inr s'')
         else Inr (s1\<lparr>pendingDelete := Some p1\<rparr>)) = Inr s'"
    by (auto simp: timing_access_def rbind_Inr_iff Let_def split: prod.splits)
  from acc have "\<not> p_cacheResponding p" and "mem_access s p = Inr (s1, p1)"
    by (auto simp: recvAtomic_def split: if_splits)
  from mem_access_frame(1) [OF this(2,1)] have upd: "store_update s s1" .
  from acc upd rest show thesis
    by (intro that [of s1 p1]) (auto simp: Let_def store_update_def split: if_splits)
qed

lemma timing_access_effect:
  assumes run: "timing_access s p d lat = Inr s'"
  shows "resp_frame s s' \<and> retryReq s' = retryReq s \<and> req_inv s' = req_inv s"
proof (rule timing_access_cases [OF run])
  fix s1 p1
  assume upd: "store_update s s1"
    and resp: "p_is p NeedsResponse \<Longrightarrow> p_is p1 IsResponse \<and>
       (let s2 = s1\<lparr>packetQueue := queue_insert (packetQueue s) p1 (curTick s + d + lat), queuedResps := queuedResps s @ [p1]\<rparr>
        in if \<not> retryResp s \<and> dequeueEvent s = None
           then schedule_dequeue s2 (snd (last (packetQueue s2))) = Inr s' else s' = s2)"
    and no: "\<not> p_is p NeedsResponse \<Longrightarrow> s' = s1\<lparr>pendingDelete := Some p1\<rparr>"
  show ?thesis
  proof (cases "p_is p NeedsResponse")
    case True
    from resp [OF True] upd have "resp_added s s'"
      by (auto simp: resp_added_def store_update_def Let_def schedule_dequeue_def split: if_splits)
    with resp [OF True] upd show ?thesis
      by (auto simp: resp_frame_def req_inv_def store_update_def Let_def schedule_dequeue_def split: if_splits)
  next
    case False
    from no [OF False] upd show ?thesis
      by (auto simp: resp_frame_def resp_same_def req_inv_def store_update_def)
  qed
qed

lemma recvTimingReq_effect:
  assumes run: "recvTimingReq s p lat = Inr (s', ok)"
  shows "resp_frame s s'" and "retryReq s \<Longrightarrow> retryReq s'" and "req_inv s \<Longrightarrow> req_inv s'"
proof -
  have "resp_frame s s' \<and> (retryReq s \<longrightarrow> retryReq s') \<and> (req_inv s \<longrightarrow> req_inv s')"
  proof (cases "retryReq s \<or> isBusy s")
    case True
    with run show ?thesis
      by (auto simp: recvTimingReq_def resp_frame_def resp_same_def req_inv_def split: if_splits)
  next
    case False
    let ?p = "p\<lparr>p_headerDelay := 0, p_payloadDelay := 0\<rparr>"
    from False run obtain s1 where
      s1: "(if duration s (p_size ?p) \<noteq> 0
            then rbind (schedule_release s (curTick s + duration s (p_size ?p)))
                   (\<lambda>s'. Inr (s'\<lparr>isBusy := True\<rparr>))
            else Inr s) = Inr s1"
      and rest: "(case imc_dispatch (p_flags ?p) (rangeStart s1) (pmem s1) (p_data ?p) of
               Some r \<Rightarrow> rbind r (\<lambda>mem'. Inr (s1\<lparr>pmem := mem'\<rparr>, True))
             | None \<Rightarrow> rbind (timing_access s1 ?p (p_headerDelay p + p_payloadDelay p) lat)
                         (\<lambda>s2. Inr (s2, True))) = Inr (s', ok)"
      by (auto simp: recvTimingReq_def Let_def rbind_Inr_iff split: if_splits)
    from s1 False have taken: "s1 = s \<or> s1 = s\<lparr>releaseEvent := Some (curTick s + duration s (p_size ?p)), isBusy := True\<rparr>"
      and inv1: "req_inv s \<Longrightarrow> req_inv s1"
      by (auto simp: req_inv_def schedule_release_def rbind_Inr_iff split: if_splits)
    have whole: "resp_frame s s'" if "resp_frame s1 s'"
      using that taken by (auto simp: resp_frame_def resp_same_def resp_added_def)
    show ?thesis
    proof (cases "imc_dispatch (p_flags ?p) (rangeStart s1) (pmem s1) (p_data ?p)")
      case None
      with rest have "timing_access s1 ?p (p_headerDelay p + p_payloadDelay p) lat = Inr s'"
        by (auto simp: rbind_Inr_iff)
      from timing_access_effect [OF this] whole inv1 False show ?thesis by auto
    next
      case (Some r)
      with rest obtain mem' where s': "s' = s1\<lparr>pmem := mem'\<rparr>" and r: "r = Inr mem'"
        by (auto simp: rbind_Inr_iff)
      with Some have "length mem' = length (pmem s1)" by (auto dest: imc_dispatch_length)
      with s' have "resp_frame s1 s'" by (simp add: resp_frame_def resp_same_def)
      with whole inv1 s' False show ?thesis by (auto simp: req_inv_def)
    qed
  qed
  then show "resp_frame s s'" and "retryReq s \<Longrightarrow> retryReq s'" and "req_inv s \<Longrightarrow> req_inv s'" by blast+
qed

text \<open>A property of states that every taken request keeps is kept by the requests of a call.\<close>

lemma recv_requests_induct [consumes 1, case_names init request]:
  assumes "recv_requests s reqs = Inr s'" "P s"
    and "\<And>s p lat s' ok. P s \<Longrightarrow> recvTimingReq s p lat = Inr (s', ok) \<Longrightarrow> P s'"
  shows "P s'"
  using assms(1,2)
proof (induction reqs arbitrary: s)
  case (Cons x reqs)
  then show ?case using assms(3) by (cases x) (fastforce simp: rbind_Inr_iff)
qed simp

section \<open>The invariant\<close>

text \<open>
  Beside the request side: a response that waits has an event scheduled for it or a peer
  that promised to ask again, and an event is scheduled or a promise given only for a response
  that waits. Both hold at once only when the peer sent a request from inside the call it
  then refused, and then at least two responses wait. Events lie in the future, and the queue
  holds responses.
\<close>

definition ctrl_inv :: "mem_ctrl \<Rightarrow> bool" where
  "ctrl_inv s \<longleftrightarrow>
     (retryReq s \<longrightarrow> isBusy s) \<and>
     (isBusy s \<longleftrightarrow> releaseEvent s \<noteq> None) \<and>
     (packetQueue s \<noteq> [] \<longleftrightarrow> dequeueEvent s \<noteq> None \<or> retryResp s) \<and>
     (dequeueEvent s \<noteq> None \<and> retryResp s \<longrightarrow> 2 \<le> length (packetQueue s)) \<and>
     (\<forall>e. releaseEvent s = Some e \<longrightarrow> curTick s \<le> e) \<and>
     (\<forall>e. dequeueEvent s = Some e \<longrightarrow> curTick s \<le> e) \<and>
     (\<forall>x \<in> set (packetQueue s). p_is (fst x) IsResponse)"

text \<open>Inside a call that hands the response \<open>x\<close> to the peer.\<close>

definition sending :: "packet \<times> tick \<Rightarrow> mem_ctrl \<Rightarrow> bool" where
  "sending x s \<longleftrightarrow> req_inv s \<and> (\<exists>q. packetQueue s = x # q) \<and>
     (dequeueEvent s \<noteq> None \<longrightarrow> 2 \<le> length (packetQueue s)) \<and>
     (\<forall>e. dequeueEvent s = Some e \<longrightarrow> curTick s \<le> e) \<and>
     (\<forall>x \<in> set (packetQueue s). p_is (fst x) IsResponse)"

lemma ctrl_inv_req: "ctrl_inv s \<Longrightarrow> req_inv s"
  by (auto simp: ctrl_inv_def req_inv_def)

lemma ctrl_inv_init: "ctrl_init s \<Longrightarrow> ctrl_inv s"
  by (simp add: ctrl_init_def ctrl_inv_def)

lemma queue_insert_Cons: "\<exists>q'. queue_insert (x # q) p w = x # q' \<and> length q' = Suc (length q)"
proof (rule queue_insert_cut [of "x # q" p w])
  fix l r
  assume "x # q = l @ r" "queue_insert (x # q) p w = l @ (p, w) # r" "x # q \<noteq> [] \<Longrightarrow> l \<noteq> []"
  then show ?thesis by (cases l) auto
qed

lemma length_queue_insert: "length (queue_insert q p w) = Suc (length q)"
  by (rule queue_insert_cut [of q p w]) auto

lemma recvTimingReq_resp:
  assumes "recvTimingReq s p lat = Inr (s', ok)"
  obtains (same) "resp_same s s'"
  | (added) r w where "packetQueue s' = queue_insert (packetQueue s) r w" "queuedResps s' = queuedResps s @ [r]"
      "p_is r IsResponse" "retryResp s \<or> dequeueEvent s \<noteq> None" "dequeueEvent s' = dequeueEvent s"
  | (scheduled) r w e where "packetQueue s' = queue_insert (packetQueue s) r w" "queuedResps s' = queuedResps s @ [r]"
      "p_is r IsResponse" "\<not> retryResp s" "dequeueEvent s = None" "dequeueEvent s' = Some e" "curTick s \<le> e"
  using recvTimingReq_effect(1) [OF assms] by (auto simp: resp_frame_def resp_added_def split: if_splits)

lemma recvTimingReq_frame:
  assumes "recvTimingReq s p lat = Inr (s', ok)"
  shows "retryResp s' = retryResp s" "sentResps s' = sentResps s" "curTick s' = curTick s"
    "rangeStart s' = rangeStart s" "length (pmem s') = length (pmem s)" "retriesSent s' = retriesSent s"
  using recvTimingReq_effect(1) [OF assms] unfolding resp_frame_def by blast+

lemma ctrl_inv_iff:
  "ctrl_inv s \<longleftrightarrow> req_inv s \<and> (packetQueue s \<noteq> [] \<longleftrightarrow> dequeueEvent s \<noteq> None \<or> retryResp s) \<and>
     (dequeueEvent s \<noteq> None \<and> retryResp s \<longrightarrow> 2 \<le> length (packetQueue s)) \<and>
     (\<forall>e. dequeueEvent s = Some e \<longrightarrow> curTick s \<le> e) \<and> (\<forall>x \<in> set (packetQueue s). p_is (fst x) IsResponse)"
  unfolding ctrl_inv_def req_inv_def by blast

lemma recvTimingReq_inv:
  assumes inv: "ctrl_inv s" and run: "recvTimingReq s p lat = Inr (s', ok)"
  shows "ctrl_inv s'"
proof -
  note req = recvTimingReq_effect(3) [OF run ctrl_inv_req [OF inv]] and frame = recvTimingReq_frame(1,3) [OF run]
  from run show ?thesis
  proof (cases rule: recvTimingReq_resp)
    case same
    with inv req frame show ?thesis by (simp add: ctrl_inv_iff resp_same_def)
  next
    case (added r w)
    with inv req frame show ?thesis by (auto simp: ctrl_inv_iff set_queue_insert length_queue_insert)
  next
    case (scheduled r w e)
    with inv req frame show ?thesis by (simp add: ctrl_inv_iff set_queue_insert)
  qed
qed

lemma recvTimingReq_sending:
  assumes inv: "sending x s" and run: "recvTimingReq s p lat = Inr (s', ok)"
  shows "sending x s'"
proof -
  from inv obtain q where q: "packetQueue s = x # q" and r: "req_inv s" unfolding sending_def by blast
  note req = recvTimingReq_effect(3) [OF run r] and frame = recvTimingReq_frame(1,3) [OF run]
  from run show ?thesis
  proof (cases rule: recvTimingReq_resp)
    case same
    with inv req frame show ?thesis by (simp add: sending_def resp_same_def)
  next
    case (added r w)
    with inv req frame q queue_insert_Cons [of x q r w] show ?thesis
      by (simp add: sending_def set_queue_insert length_queue_insert) blast
  next
    case (scheduled r w e)
    with inv req frame q queue_insert_Cons [of x q r w] show ?thesis
      by (simp add: sending_def set_queue_insert length_queue_insert) blast
  qed
qed

lemma recv_requests_inv: "recv_requests s reqs = Inr s' \<Longrightarrow> ctrl_inv s \<Longrightarrow> ctrl_inv s'"
  by (erule recv_requests_induct) (auto intro: recvTimingReq_inv)

lemma recv_requests_sending: "recv_requests s reqs = Inr s' \<Longrightarrow> sending x s \<Longrightarrow> sending x s'"
  by (erule recv_requests_induct) (auto intro: recvTimingReq_sending)

lemma ctrl_inv_sending:
  assumes "ctrl_inv s" "packetQueue s = x # q"
  shows "sending x (s\<lparr>dequeueEvent := None\<rparr>)" and "retryResp s \<Longrightarrow> sending x s"
  using assms by (auto simp: ctrl_inv_def sending_def req_inv_def)

section \<open>The handlers return\<close>

text \<open>
  The handlers the controller schedules for itself or its peer calls meet no failing
  assertion, whatever the peer does, if the requests it sends meanwhile are taken or refused
  without a fault of their own; and they keep the invariant.
\<close>

lemma release_start_inv:
  assumes "ctrl_inv s" "releaseEvent s = Some e"
  shows "\<exists>s1 retry. release_start (s\<lparr>releaseEvent := None\<rparr>) = Inr (s1, retry) \<and> ctrl_inv s1 \<and> \<not> isBusy s1"
  using assms by (cases "retryReq s") (auto simp: release_start_def ctrl_inv_def Let_def)

lemma dequeue_sending:
  assumes sending: "sending x s" and run: "recv_requests s reqs = Inr s0"
  shows "\<exists>s'. dequeue s reqs accepted = Inr s' \<and> ctrl_inv s'"
proof -
  from sending obtain q where q: "packetQueue s = x # q" by (auto simp: sending_def)
  from recv_requests_sending [OF run sending] obtain q0
    where s0: "sending x s0" "packetQueue s0 = x # q0" unfolding sending_def by blast
  show ?thesis
  proof (cases "accepted \<and> q0 \<noteq> []")
    case True
    then obtain p' t' q' where q0: "q0 = (p', t') # q'" by (cases q0) auto
    with q s0 True run show ?thesis
      by (auto simp: dequeue_def Let_def reschedule_dequeue_def sending_def req_inv_def ctrl_inv_def)
  next
    case False
    with q s0 run show ?thesis
      by (auto simp: dequeue_def Let_def sending_def req_inv_def ctrl_inv_def)
  qed
qed

lemma dequeue_Inr:
  assumes "dequeue s reqs accepted = Inr s'"
  obtains x q s0 where "packetQueue s = x # q" "recv_requests s reqs = Inr s0"
  using assms by (auto simp: dequeue_def rbind_Inr_iff split: list.splits)

lemma ctrl_inv_step: "ctrl_step s s' \<Longrightarrow> ctrl_inv s \<Longrightarrow> ctrl_inv s'"
proof (induction rule: ctrl_step.induct)
  case (request s p lat s' ok)
  then show ?case using recvTimingReq_inv by blast
next
  case (release_fires s reqs s')
  obtain s1 retry where "release_start (s\<lparr>releaseEvent := None\<rparr>) = Inr (s1, retry)" "ctrl_inv s1"
    using release_start_inv [OF release_fires(3,1)] by blast
  with release_fires(2) recv_requests_inv [of s1 reqs s'] show ?case
    by (auto simp: release_def split: if_splits)
next
  case (dequeue_fires s reqs accepted s')
  obtain x q s0 where "packetQueue (s\<lparr>dequeueEvent := None\<rparr>) = x # q"
    and run: "recv_requests (s\<lparr>dequeueEvent := None\<rparr>) reqs = Inr s0"
    using dequeue_Inr [OF dequeue_fires(2)] by blast
  then have "packetQueue s = x # q" by simp
  from dequeue_sending [OF ctrl_inv_sending(1) [OF dequeue_fires(3) this] run, of accepted] dequeue_fires(2)
  show ?case by auto
next
  case (resp_retry s reqs accepted s')
  then have d: "dequeue s reqs accepted = Inr s'" by (simp add: recvRespRetry_def)
  obtain x q s0 where q: "packetQueue s = x # q" and run: "recv_requests s reqs = Inr s0"
    using dequeue_Inr [OF d] by blast
  from dequeue_sending [OF ctrl_inv_sending(2) [OF resp_retry(3) q resp_retry(1)] run, of accepted] d
  show ?case by auto
next
  case (drain_request s)
  then show ?case by (auto simp: ctrl_inv_def)
next
  case (time_passes s t)
  then show ?case by (auto simp: ctrl_inv_def)
qed

lemma ctrl_inv_steps: "ctrl_step\<^sup>*\<^sup>* s s' \<Longrightarrow> ctrl_inv s \<Longrightarrow> ctrl_inv s'"
  by (induction rule: rtranclp_induct) (auto intro: ctrl_inv_step)

lemma ctrl_inv_reachable: "ctrl_reachable s \<Longrightarrow> ctrl_inv s"
  by (induction rule: ctrl_reachable.induct) (auto intro: ctrl_inv_init ctrl_inv_step)

section \<open>Requests that the memory can always answer\<close>

text \<open>
  A plain read or write inside the address range, with a payload of its size and none of the
  flags of the in-memory operations. Whatever the controller is doing, it is taken or refused.
\<close>

definition plain_request :: "mem_ctrl \<Rightarrow> packet \<Rightarrow> bool" where
  "plain_request s p \<longleftrightarrow> (p_cmd p = ReadReq \<or> p_cmd p = WriteReq \<and> p_size p \<le> length (p_data p) \<and> \<not> req_isInstFetch p) \<and>
     \<not> p_cacheResponding p \<and> range_subset s p \<and>
     list_all (\<lambda>f. \<not> flag_isSet (p_flags p) f) [ADDMOD, SUBMOD, MULMOD, MULIMC, INVMOD, CMPIMC]"

lemma plain_attrs:
  "testCmdAttrib ReadReq IsRead" "testCmdAttrib ReadReq NeedsResponse" "\<not> testCmdAttrib ReadReq IsWrite"
  "\<not> testCmdAttrib ReadReq IsLlsc" "testCmdAttrib WriteReq IsWrite" "testCmdAttrib WriteReq NeedsResponse"
  "\<not> testCmdAttrib WriteReq IsRead" "\<not> testCmdAttrib WriteReq IsInvalidate" "\<not> testCmdAttrib WriteReq IsClean"
  "\<not> testCmdAttrib WriteReq IsLlsc"
  by (simp_all add: testCmdAttrib_def)

lemma plain_access_arm:
  assumes "plain_request s p"
  shows "\<exists>s' p'. access_arm s p = Inr (s', p')"
proof (cases "p_cmd p = ReadReq")
  case True
  then show ?thesis by (simp add: access_arm_def access_read_def plain_attrs)
next
  case False
  with assms have "p_cmd p = WriteReq" "p_size p \<le> length (p_data p)" "\<not> req_isInstFetch p"
    by (auto simp: plain_request_def)
  then show ?thesis
    by (simp add: access_arm_def access_write_def plain_attrs split: prod.splits)
qed

lemma plain_access:
  assumes "plain_request s p"
  shows "\<exists>s' p'. recvAtomic s p = Inr (s', p') \<and> p_is p NeedsResponse \<and> p_is p' IsResponse"
proof -
  obtain s1 p1 where arm: "access_arm s p = Inr (s1, p1)" using plain_access_arm [OF assms] by blast
  from assms have p: "\<not> p_cacheResponding p" "range_subset s p" "p_cmd p = ReadReq \<or> p_cmd p = WriteReq"
    by (auto simp: plain_request_def)
  from access_arm_frame [OF arm p(2)] p(3) have "p_is p NeedsResponse" "p_is p1 NeedsResponse"
    by (auto simp: plain_attrs)
  with arm p makeResponse_ok [of p1] show ?thesis
    by (auto simp: recvAtomic_def mem_access_def response_of_request)
qed

lemma last_queue_insert: "w \<le> snd (last (queue_insert q p w))"
proof (rule queue_insert_cut [of q p w])
  fix l r
  assume cut: "queue_insert q p w = l @ (p, w) # r" and "\<And>x. x \<in> set r \<Longrightarrow> w < snd x \<and> \<not> matchAddr (fst x) p"
  then have "r \<noteq> [] \<Longrightarrow> w < snd (last r)" by (metis last_in_set)
  with cut show ?thesis by (cases "r = []") simp_all
qed

lemma plain_timing_access:
  assumes "plain_request s p"
  shows "\<exists>s'. timing_access s p d lat = Inr s'"
proof -
  obtain s1 p1 where acc: "recvAtomic s p = Inr (s1, p1)" and n: "p_is p NeedsResponse" "p_is p1 IsResponse"
    using plain_access [OF assms] by blast
  from acc have "\<not> p_cacheResponding p" and "mem_access s p = Inr (s1, p1)"
    by (auto simp: recvAtomic_def split: if_splits)
  from mem_access_frame(1) [OF this(2,1)] obtain m l where s1: "s1 = s\<lparr>pmem := m, lockedAddrList := l\<rparr>"
    by (auto simp: store_update_def)
  have "curTick s \<le> snd (last (queue_insert (packetQueue s) p1 (curTick s + d + lat)))"
    using last_queue_insert [of "curTick s + d + lat"] by (rule order_trans [rotated]) simp
  with acc n s1 show ?thesis by (simp add: timing_access_def Let_def schedule_dequeue_def)
qed

lemma plain_request_answered:
  assumes "req_inv s" "plain_request s p"
  shows "\<exists>s' ok. recvTimingReq s p lat = Inr (s', ok)"
proof (cases "retryReq s \<or> isBusy s")
  case True
  with assms(2) show ?thesis by (auto simp: recvTimingReq_def plain_request_def plain_attrs)
next
  case False
  let ?p = "p\<lparr>p_headerDelay := 0, p_payloadDelay := 0\<rparr>"
  from assms(2) have p: "\<not> p_cacheResponding p" "p_is p IsRead \<or> p_is p IsWrite"
    by (auto simp: plain_request_def plain_attrs)
  have none: "imc_dispatch (p_flags p) base mem data = None" for base mem data
    using assms(2) by (simp add: plain_request_def imc_dispatch_def)
  have plain: "plain_request s1 ?p" if "rangeStart s1 = rangeStart s" "pmem s1 = pmem s" for s1
    using assms(2) that by (simp add: plain_request_def range_subset_def req_isInstFetch_def)
  let ?d = "p_headerDelay p + p_payloadDelay p"
    and ?t = "s\<lparr>releaseEvent := Some (curTick s + duration s (p_size p)), isBusy := True\<rparr>"
  obtain s1 s2 where "timing_access s ?p ?d lat = Inr s1" "timing_access ?t ?p ?d lat = Inr s2"
    using plain_timing_access [OF plain] by fastforce
  moreover from False assms(1) have "releaseEvent s = None" by (simp add: req_inv_def)
  ultimately show ?thesis
    using False p none
    by (cases "duration s (p_size p) = 0") (auto simp: recvTimingReq_def Let_def schedule_release_def)
qed

lemma plain_request_cong:
  "rangeStart s' = rangeStart s \<Longrightarrow> length (pmem s') = length (pmem s) \<Longrightarrow> plain_request s' p = plain_request s p"
  by (simp add: plain_request_def range_subset_def)

lemma plain_requests_answered:
  assumes "req_inv s" "list_all (\<lambda>(p, lat). plain_request s p) reqs"
  shows "\<exists>s'. recv_requests s reqs = Inr s'"
  using assms
proof (induction reqs arbitrary: s)
  case (Cons x reqs)
  obtain p lat where x: "x = (p, lat)" by (cases x)
  with Cons.prems obtain s1 ok where run: "recvTimingReq s p lat = Inr (s1, ok)"
    using plain_request_answered by fastforce
  have "plain_request s1 p = plain_request s p" for p
    using recvTimingReq_frame(4,5) [OF run] by (rule plain_request_cong)
  with Cons.prems recvTimingReq_effect(3) [OF run] Cons.IH [of s1] run show ?case by (simp add: x)
qed simp

lemma release_plain:
  assumes inv: "ctrl_inv s" "releaseEvent s = Some e" and plain: "list_all (\<lambda>(p, lat). plain_request s p) reqs"
  shows "\<exists>s'. release (s\<lparr>releaseEvent := None\<rparr>) reqs = Inr s' \<and> ctrl_inv s'"
proof -
  obtain s1 retry where s1: "release_start (s\<lparr>releaseEvent := None\<rparr>) = Inr (s1, retry)" "ctrl_inv s1"
    using release_start_inv [OF inv] by blast
  then have "rangeStart s1 = rangeStart s" "pmem s1 = pmem s"
    by (auto simp: release_start_def Let_def split: if_splits)
  then have "plain_request s1 = plain_request s" by (intro ext plain_request_cong) simp_all
  with plain have "list_all (\<lambda>(p, lat). plain_request s1 p) reqs" by simp
  from plain_requests_answered [OF ctrl_inv_req [OF s1(2)] this] obtain s2 where "recv_requests s1 reqs = Inr s2" by blast
  with s1 recv_requests_inv [of s1 reqs s2] show ?thesis by (simp add: release_def)
qed

lemma dequeue_plain:
  assumes "sending x s" "list_all (\<lambda>(p, lat). plain_request s p) reqs"
  shows "\<exists>s'. dequeue s reqs accepted = Inr s' \<and> ctrl_inv s'"
proof -
  from assms(1) have "req_inv s" by (simp add: sending_def)
  from plain_requests_answered [OF this assms(2)] obtain s0 where "recv_requests s reqs = Inr s0" by blast
  from dequeue_sending [OF assms(1) this] show ?thesis .
qed

section \<open>The order of the responses\<close>

text \<open>
  For each address, the responses sent so far followed by those that wait are the responses
  queued, in the order of the requests.
\<close>

definition in_order :: "mem_ctrl \<Rightarrow> bool" where
  "in_order s \<longleftrightarrow> (\<forall>x. filter (matchAddr x) (queuedResps s) =
     filter (matchAddr x) (sentResps s) @ filter (matchAddr x) (map fst (packetQueue s)))"

lemma filter_queue_insert:
  "filter (matchAddr x) (map fst (queue_insert q r w)) = filter (matchAddr x) (map fst q @ [r])"
proof -
  have fst: "filter (matchAddr x) (map fst xs) = map fst (filter (same_addr (x, 0)) xs)" for xs
    by (auto simp: filter_map same_addr_def intro!: arg_cong [where f = "map fst"] filter_cong)
  show ?thesis using resp_queue.enq_filter [of "(x, 0)" q "(r, w)"]
    by (simp add: fst) (simp add: same_addr_def)
qed

lemma recvTimingReq_in_order:
  assumes "in_order s" and run: "recvTimingReq s p lat = Inr (s', ok)"
  shows "in_order s'"
  using run
proof (cases rule: recvTimingReq_resp)
  case same
  with assms(1) recvTimingReq_frame(2) [OF run] show ?thesis by (simp add: in_order_def resp_same_def)
qed (use assms(1) recvTimingReq_frame(2) [OF run] in \<open>simp_all add: in_order_def filter_queue_insert\<close>)

lemma recv_requests_in_order: "recv_requests s reqs = Inr s' \<Longrightarrow> in_order s \<Longrightarrow> in_order s'"
  by (erule recv_requests_induct) (auto intro: recvTimingReq_in_order)

text \<open>The response recorded for a request has the address of the request.\<close>

lemma access_arm_addr: "access_arm s p = Inr (s', p') \<Longrightarrow> p_addr p' = p_addr p \<and> p_secure p' = p_secure p"
  by (auto simp: access_arm_def access_swap_def access_read_def access_write_def writeOK_def checkLockedAddrList_def
      Let_def rbind_Inr_iff split: if_splits option.splits prod.splits)

lemma recvAtomic_addr: "recvAtomic s p = Inr (s', p') \<Longrightarrow> matchAddr p' p"
  by (auto simp: recvAtomic_def mem_access_def matchAddr_def rbind_Inr_iff split: if_splits
      dest!: access_arm_addr makeResponse_Inr)

lemma timing_access_log:
  assumes "timing_access s p d lat = Inr s'"
  shows "queuedResps s' = queuedResps s \<or> (\<exists>r. queuedResps s' = queuedResps s @ [r] \<and> matchAddr r p)"
proof (rule timing_access_cases [OF assms], goal_cases)
  case (1 s1 p1)
  then show ?case
    by (cases "p_is p NeedsResponse")
      (auto simp: store_update_def Let_def schedule_dequeue_def dest!: recvAtomic_addr split: if_splits)
qed

lemma recvTimingReq_log:
  assumes "recvTimingReq s p lat = Inr (s', ok)"
  shows "queuedResps s' = queuedResps s \<or> ok \<and> (\<exists>r. queuedResps s' = queuedResps s @ [r] \<and> matchAddr r p)"
proof (cases "retryReq s \<or> isBusy s")
  case True
  with assms show ?thesis by (auto simp: recvTimingReq_def split: if_splits)
next
  case False
  with assms show ?thesis
    by (auto simp: recvTimingReq_def Let_def rbind_Inr_iff schedule_release_def matchAddr_def
        split: if_splits option.splits dest!: timing_access_log)
qed

text \<open>What is removed after the call is what was sent in it.\<close>

lemma dequeue_in_order:
  assumes "in_order s" "sending x s" "dequeue s reqs accepted = Inr s'"
  shows "in_order s'"
proof -
  obtain s0 where run: "recv_requests s reqs = Inr s0" using dequeue_Inr [OF assms(3)] by blast
  from assms(2) obtain q where q: "packetQueue s = x # q" unfolding sending_def by blast
  from recv_requests_sending [OF run assms(2)] obtain q0 where q0: "packetQueue s0 = x # q0"
    unfolding sending_def by blast
  from recv_requests_in_order [OF run assms(1)] have "in_order s0" .
  then have ord: "\<forall>y. filter (matchAddr y) (queuedResps s0) =
      filter (matchAddr y) (sentResps s0 @ [fst x]) @ filter (matchAddr y) (map fst q0)"
    by (simp add: in_order_def q0)
  show ?thesis
  proof (cases accepted)
    case True
    with assms(3) run q q0 ord show ?thesis
      by (auto simp: dequeue_def Let_def in_order_def reschedule_dequeue_def split: list.splits if_splits)
  next
    case False
    with assms(3) run q \<open>in_order s0\<close> show ?thesis by (auto simp: dequeue_def Let_def in_order_def)
  qed
qed

lemma in_order_step: "ctrl_step s s' \<Longrightarrow> ctrl_inv s \<Longrightarrow> in_order s \<Longrightarrow> in_order s'"
proof (induction rule: ctrl_step.induct)
  case (request s p lat s' ok)
  then show ?case using recvTimingReq_in_order by blast
next
  case (release_fires s reqs s')
  obtain s1 retry where s1: "release_start (s\<lparr>releaseEvent := None\<rparr>) = Inr (s1, retry)"
    using release_start_inv [OF release_fires(3,1)] by blast
  with release_fires(4) have "in_order s1"
    by (auto simp: release_start_def in_order_def Let_def split: if_splits)
  with s1 release_fires(2) recv_requests_in_order [of s1 reqs s'] show ?case
    by (auto simp: release_def split: if_splits)
next
  case (dequeue_fires s reqs accepted s')
  let ?s = "s\<lparr>dequeueEvent := None\<rparr>"
  obtain x q where "packetQueue ?s = x # q" using dequeue_Inr [OF dequeue_fires(2)] by blast
  then have "packetQueue s = x # q" by simp
  from ctrl_inv_sending(1) [OF dequeue_fires(3) this] dequeue_in_order [of ?s x reqs accepted s'] dequeue_fires(2,4)
  show ?case by (simp add: in_order_def)
next
  case (resp_retry s reqs accepted s')
  then have d: "dequeue s reqs accepted = Inr s'" by (simp add: recvRespRetry_def)
  obtain x q where "packetQueue s = x # q" using dequeue_Inr [OF d] by blast
  from ctrl_inv_sending(2) [OF resp_retry(3) this resp_retry(1)] dequeue_in_order [OF resp_retry(4) _ d]
  show ?case by blast
qed (simp_all add: in_order_def)

lemma in_order_reachable: "ctrl_reachable s \<Longrightarrow> in_order s"
proof (induction rule: ctrl_reachable.induct)
  case (start s)
  then show ?case by (simp add: ctrl_init_def in_order_def)
next
  case (step s s')
  then show ?case using in_order_step ctrl_inv_reachable by blast
qed

section \<open>The retry that is owed\<close>

text \<open>A retry that is owed stays owed until it is sent.\<close>

lemma recv_requests_retry:
  assumes "recv_requests s reqs = Inr s'"
  shows "retriesSent s' = retriesSent s" and "retryReq s \<Longrightarrow> retryReq s'"
proof -
  from assms have "retriesSent s' = retriesSent s \<and> (retryReq s \<longrightarrow> retryReq s')"
  proof (rule recv_requests_induct)
    fix s1 p lat s2 ok
    assume "retriesSent s1 = retriesSent s \<and> (retryReq s \<longrightarrow> retryReq s1)" "recvTimingReq s1 p lat = Inr (s2, ok)"
    then show "retriesSent s2 = retriesSent s \<and> (retryReq s \<longrightarrow> retryReq s2)"
      using recvTimingReq_frame(6) recvTimingReq_effect(2) by metis
  qed simp
  then show "retriesSent s' = retriesSent s" and "retryReq s \<Longrightarrow> retryReq s'" by blast+
qed

lemma dequeue_retry:
  assumes "dequeue s reqs accepted = Inr s'"
  shows "retriesSent s' = retriesSent s" and "retryReq s \<Longrightarrow> retryReq s'"
proof -
  obtain s0 where run: "recv_requests s reqs = Inr s0" using dequeue_Inr [OF assms] by blast
  with assms have "retriesSent s' = retriesSent s0" "retryReq s' = retryReq s0"
    by (auto simp: dequeue_def Let_def reschedule_dequeue_def split: list.splits if_splits)
  with recv_requests_retry [OF run] show "retriesSent s' = retriesSent s" and "retryReq s \<Longrightarrow> retryReq s'" by simp_all
qed

lemma retry_step:
  "ctrl_step s s' \<Longrightarrow> retriesSent s \<le> retriesSent s' \<and> (retryReq s \<and> retriesSent s' = retriesSent s \<longrightarrow> retryReq s')"
proof (induction rule: ctrl_step.induct)
  case (request s p lat s' ok)
  then show ?case using recvTimingReq_frame(6) recvTimingReq_effect(2) by (metis order_refl)
next
  case (release_fires s reqs s')
  then obtain s1 retry where s1: "release_start (s\<lparr>releaseEvent := None\<rparr>) = Inr (s1, retry)"
    and "if retry then recv_requests s1 reqs = Inr s' else s' = s1"
    by (auto simp: release_def rbind_Inr_iff split: if_splits)
  then have "retriesSent s' = retriesSent s1" using recv_requests_retry(1) by (cases retry) auto
  with s1 show ?case by (auto simp: release_start_def Let_def split: if_splits)
next
  case (dequeue_fires s reqs accepted s')
  then show ?case using dequeue_retry [OF dequeue_fires(2)] by simp
next
  case (resp_retry s reqs accepted s')
  then show ?case using dequeue_retry [of s reqs accepted s'] by (simp add: recvRespRetry_def)
qed simp_all

lemma retry_stays_owed:
  assumes "ctrl_step\<^sup>*\<^sup>* s s'" "retryReq s" "retriesSent s' = retriesSent s"
  shows "retryReq s'"
proof -
  from assms(1) have "retriesSent s \<le> retriesSent s' \<and> (retriesSent s' = retriesSent s \<longrightarrow> retryReq s')"
  proof (induction rule: rtranclp_induct)
    case base
    then show ?case using assms(2) by simp
  next
    case (step s1 s2)
    then show ?case using retry_step [OF step(2)] by linarith
  qed
  with assms(3) show ?thesis by simp
qed

end
