(* ===== verification/Imc_Requests.thy ===== *)
theory Imc_Requests
  imports Mem_Ctrl_Machine
begin

text \<open>
  What a client of the memory controller observes: the effect of each in-memory
  request on the backing store, the order in which responses of one address
  leave, the requests a busy memory refuses, and that the handlers the event queue and the
  peer call never meet a failing assertion.
\<close>

section \<open>In-memory requests\<close>

text \<open>
  An in-memory request is a write whose flags select the operation and whose
  payload is the list of operand addresses. \<open>stores_result\<close> says what it does:
  it is accepted, the destination cell holds the result, every cell disjoint
  from it and the response queue are as before.
\<close>

definition imc_request :: "packet \<Rightarrow> u64 \<Rightarrow> addr list \<Rightarrow> bool" where
  "imc_request p fl as \<longleftrightarrow>
     p_cmd p = WriteReq \<and> \<not> p_cacheResponding p \<and> p_flags p = fl \<and> p_data p = operands_payload as"

definition cell :: "mem_ctrl \<Rightarrow> addr \<Rightarrow> u64 run" where
  "cell s a = host_load (rangeStart s) (pmem s) a"

definition stores_result :: "mem_ctrl \<Rightarrow> packet \<Rightarrow> tick \<Rightarrow> addr \<Rightarrow> u64 \<Rightarrow> bool" where
  "stores_result s p lat d r \<longleftrightarrow>
     (\<exists>s'. recvTimingReq s p lat = Inr (s', True) \<and> cell s' d = Inr r \<and>
        (\<forall>x. cells_disjoint (rangeStart s) d x \<longrightarrow> cell s' x = cell s x) \<and>
        packetQueue s' = packetQueue s \<and> sentResps s' = sentResps s)"

lemma WriteReq_attrs [simp]:
  "testCmdAttrib WriteReq IsWrite" "testCmdAttrib WriteReq NeedsResponse"
  "\<not> testCmdAttrib WriteReq IsRead"
  by (simp_all add: testCmdAttrib_def)

lemma idle_no_retry: "ctrl_inv s \<Longrightarrow> \<not> isBusy s \<Longrightarrow> \<not> retryReq s \<and> releaseEvent s = None"
  by (auto simp: ctrl_inv_def)

text \<open>What an idle controller does with a request whose flags select an operation.\<close>

lemma recvTimingReq_dispatched:
  assumes "ctrl_inv s" "\<not> isBusy s" "\<not> p_cacheResponding p" "p_is p IsRead \<or> p_is p IsWrite"
    and disp: "imc_dispatch (p_flags p) (rangeStart s) (pmem s) (p_data p) = Some r"
  shows "\<exists>s1. recvTimingReq s p lat = rbind r (\<lambda>mem'. Inr (s1\<lparr>pmem := mem'\<rparr>, True)) \<and>
    rangeStart s1 = rangeStart s \<and> packetQueue s1 = packetQueue s \<and> queuedResps s1 = queuedResps s \<and>
    sentResps s1 = sentResps s \<and> dequeueEvent s1 = dequeueEvent s"
  using idle_no_retry [OF assms(1,2)] assms(2-4) disp
  by (cases "duration s (p_size p) = 0")
    (auto simp: recvTimingReq_def Let_def schedule_release_def)

lemma recvTimingReq_imc:
  assumes "ctrl_inv s" "\<not> isBusy s" "imc_request p fl as"
    and "imc_dispatch fl (rangeStart s) (pmem s) (operands_payload as) = Some r"
  shows "\<exists>s1. recvTimingReq s p lat = rbind r (\<lambda>mem'. Inr (s1\<lparr>pmem := mem'\<rparr>, True)) \<and>
              rangeStart s1 = rangeStart s \<and> packetQueue s1 = packetQueue s \<and> sentResps s1 = sentResps s"
  using recvTimingReq_dispatched [OF assms(1,2), of p r lat] assms(3,4) unfolding imc_request_def
  by fastforce

lemma stores_result_ternary:
  assumes inv: "ctrl_inv s" and idle: "\<not> isBusy s" and req: "imc_request p fl [a, b, c, d]"
    and disp: "\<And>base mem data. imc_dispatch fl base mem data = Some (imc_ternary f base mem data)"
    and ops: "cell s a = Inr va" "cell s b = Inr vb" "cell s c = Inr vc"
    and dest: "in_store (rangeStart s) (pmem s) d" and f: "f va vb vc = Inr r"
  shows "stores_result s p lat d r"
proof -
  obtain mem' where "imc_ternary f (rangeStart s) (pmem s) (operands_payload [a, b, c, d]) = Inr mem'"
    and "host_load (rangeStart s) mem' d = Inr r"
    and "\<forall>x. cells_disjoint (rangeStart s) d x \<longrightarrow>
            host_load (rangeStart s) mem' x = host_load (rangeStart s) (pmem s) x"
    using imc_ternary_ok [where f = f, OF ops [unfolded cell_def] dest f] by blast
  with recvTimingReq_imc [OF inv idle req disp, of lat] show ?thesis
    by (auto simp: stores_result_def cell_def)
qed

lemma stores_result_binary:
  assumes inv: "ctrl_inv s" and idle: "\<not> isBusy s" and req: "imc_request p fl [a, b, d]"
    and disp: "\<And>base mem data. imc_dispatch fl base mem data = Some (imc_binary f base mem data)"
    and ops: "cell s a = Inr va" "cell s b = Inr vb"
    and dest: "in_store (rangeStart s) (pmem s) d" and f: "f va vb = Inr r"
  shows "stores_result s p lat d r"
proof -
  obtain mem' where "imc_binary f (rangeStart s) (pmem s) (operands_payload [a, b, d]) = Inr mem'"
    and "host_load (rangeStart s) mem' d = Inr r"
    and "\<forall>x. cells_disjoint (rangeStart s) d x \<longrightarrow>
            host_load (rangeStart s) mem' x = host_load (rangeStart s) (pmem s) x"
    using imc_binary_ok [where f = f, OF ops [unfolded cell_def] dest f] by blast
  with recvTimingReq_imc [OF inv idle req disp, of lat] show ?thesis
    by (auto simp: stores_result_def cell_def)
qed

section \<open>A concrete memory for the witnesses\<close>

text \<open>A memory of sixteen cells at address 0x100 with a four-tick transfer time, and requests to it.\<close>

definition sample_ctrl :: "u64 list \<Rightarrow> mem_ctrl" where
  "sample_ctrl vs = \<lparr>rangeStart = 0x100, pmem = concat (map (le_bytes 8) vs), writeable = True,
     lockedAddrList = [], duration = (\<lambda>n. 4), isBusy = False, retryReq = False, retryResp = False,
     packetQueue = [], releaseEvent = None, dequeueEvent = None, curTick = 0, pendingDelete = None,
     draining = False, queuedResps = [], sentResps = [], retriesSent = 0, drainSignalled = False\<rparr>"

definition sample_packet :: "mem_cmd \<Rightarrow> u64 \<Rightarrow> addr \<Rightarrow> u8 list \<Rightarrow> packet" where
  "sample_packet cmd fl a data = \<lparr>p_cmd = cmd, p_addr = a, p_size = length data, p_secure = False,
     p_flags = fl, p_context = 0, p_extra = 0, p_data = data, p_atomic = None,
     p_cacheResponding = False, p_headerDelay = 0, p_payloadDelay = 0\<rparr>"

lemma sample_reachable: "ctrl_reachable (sample_ctrl vs)"
  by (rule ctrl_reachable.start) (simp add: ctrl_init_def sample_ctrl_def)

lemma sample_idle: "\<not> isBusy (sample_ctrl vs)"
  by (simp add: sample_ctrl_def)

lemma sample_request: "imc_request (sample_packet WriteReq fl a (operands_payload as)) fl as"
  by (simp add: imc_request_def sample_packet_def)

lemma sample_cells:
  "cell (sample_ctrl [v0, v1, v2, v3]) 0x100 = Inr v0"
  "cell (sample_ctrl [v0, v1, v2, v3]) 0x108 = Inr v1"
  "cell (sample_ctrl [v0, v1, v2, v3]) 0x110 = Inr v2"
  by (simp_all add: cell_def sample_ctrl_def host_load_def)

lemma sample_dest: "in_store (rangeStart (sample_ctrl [v0, v1, v2, v3])) (pmem (sample_ctrl [v0, v1, v2, v3])) 0x118"
  by (simp add: in_store_def sample_ctrl_def)

lemmas sample_facts = sample_reachable sample_idle sample_request sample_cells sample_dest

section \<open>The effect of the operations\<close>

text \<open>
  C6. Addmod. On an idle controller, an accepted request with operands at \<open>a\<close>, \<open>b\<close>
  and modulus at \<open>c\<close> leaves \<open>(a + b) mod c\<close>, the sum of the naturals, at \<open>d\<close> and
  touches nothing disjoint from \<open>d\<close>, provided the modulus is not zero and the sum fits 64 bits.
\<close>

theorem addmod_request:
  assumes "ctrl_reachable s" "\<not> isBusy s" "imc_request p ADDMOD [a, b, c, d]"
    and "cell s a = Inr va" "cell s b = Inr vb" "cell s c = Inr vc"
    and "in_store (rangeStart s) (pmem s) d"
    and "vc \<noteq> 0" "unat va + unat vb < 2 ^ 64"
  shows "\<exists>r. stores_result s p lat d r \<and> unat r = (unat va + unat vb) mod unat vc"
  using addmod_exact [OF assms(8,9)] assms(7)
    stores_result_ternary [where f = imc_addmod,
      OF ctrl_inv_reachable [OF assms(1)] assms(2,3) imc_dispatch_flags(1) assms(4-6)]
  by blast

theorem addmod_request_witness:
  "\<exists>r. stores_result (sample_ctrl [5, 9, 11, 0])
          (sample_packet WriteReq ADDMOD 0x100100 (operands_payload [0x100, 0x108, 0x110, 0x118])) 0 0x118 r \<and>
       unat r = (unat (5::u64) + unat (9::u64)) mod unat (11::u64)"
  by (rule addmod_request [OF sample_reachable sample_idle sample_request sample_cells sample_dest]) simp_all

text \<open>
  C5. Submod. With signed operands whose difference fits 64 bits and a modulus
  between 1 and \<open>2^62\<close>, the destination holds the residue of \<open>a - b\<close>, between 0 and
  \<open>c - 1\<close>, also when \<open>a < b\<close>.
\<close>

theorem submod_request:
  assumes "ctrl_reachable s" "\<not> isBusy s" "imc_request p SUBMOD [a, b, c, d]"
    and "cell s a = Inr va" "cell s b = Inr vb" "cell s c = Inr vc"
    and "in_store (rangeStart s) (pmem s) d"
    and "0 < sint vc" "sint vc \<le> 2 ^ 62"
    and "- (2 ^ 63) \<le> sint va - sint vb" "sint va - sint vb < 2 ^ 63"
  shows "\<exists>r. stores_result s p lat d r \<and> sint r = (sint va - sint vb) mod sint vc"
  using submod_exact [OF assms(8-11)] assms(7)
    stores_result_ternary [where f = imc_submod,
      OF ctrl_inv_reachable [OF assms(1)] assms(2,3) imc_dispatch_flags(2) assms(4-6)]
  by blast

theorem submod_request_witness:
  "\<exists>r. stores_result (sample_ctrl [5, 9, 11, 0])
          (sample_packet WriteReq SUBMOD 0x100100 (operands_payload [0x100, 0x108, 0x110, 0x118])) 0 0x118 r \<and>
       sint r = (sint (5::u64) - sint (9::u64)) mod sint (11::u64)"
  by (rule submod_request [OF sample_reachable sample_idle sample_request sample_cells sample_dest]) simp_all

text \<open>
  C7. Mulmod. The destination holds \<open>(a * b) mod c\<close>, the product of the naturals,
  provided the modulus is not zero and the product fits 64 bits.
\<close>

theorem mulmod_request:
  assumes "ctrl_reachable s" "\<not> isBusy s" "imc_request p MULMOD [a, b, c, d]"
    and "cell s a = Inr va" "cell s b = Inr vb" "cell s c = Inr vc"
    and "in_store (rangeStart s) (pmem s) d"
    and "vc \<noteq> 0" "unat va * unat vb < 2 ^ 64"
  shows "\<exists>r. stores_result s p lat d r \<and> unat r = (unat va * unat vb) mod unat vc"
  using mulmod_exact [OF assms(8,9)] assms(7)
    stores_result_ternary [where f = imc_mulmod,
      OF ctrl_inv_reachable [OF assms(1)] assms(2,3) imc_dispatch_flags(3) assms(4-6)]
  by blast

theorem mulmod_request_witness:
  "\<exists>r. stores_result (sample_ctrl [5, 9, 11, 0])
          (sample_packet WriteReq MULMOD 0x100100 (operands_payload [0x100, 0x108, 0x110, 0x118])) 0 0x118 r \<and>
       unat r = (unat (5::u64) * unat (9::u64)) mod unat (11::u64)"
  by (rule mulmod_request [OF sample_reachable sample_idle sample_request sample_cells sample_dest]) simp_all

text \<open>
  C3. Invmod. For coprime operands and a modulus \<open>n\<close> with \<open>1 < n < 2^31\<close> the request is
  accepted and leaves the inverse in the range \<open>1 .. n - 1\<close>.
\<close>

theorem invmod_request:
  assumes "ctrl_reachable s" "\<not> isBusy s" "imc_request p INVMOD [a, b, d]"
    and "cell s a = Inr va" "cell s b = Inr vn"
    and "in_store (rangeStart s) (pmem s) d"
    and "coprime (uint va) (uint vn)" "1 < uint vn" "uint vn < 2 ^ 31"
  shows "\<exists>r. stores_result s p lat d r \<and> 0 < uint r \<and> uint r < uint vn \<and>
             uint va * uint r mod uint vn = 1"
  using invmod_inverse [OF assms(7-9)] assms(6)
    stores_result_binary [where f = imc_invmod,
      OF ctrl_inv_reachable [OF assms(1)] assms(2,3) imc_dispatch_flags(5) assms(4,5)]
  by blast

lemma coprime_3_19: "coprime (3 :: int) 19"
proof (rule coprimeI)
  fix c :: int
  assume "c dvd 3" "c dvd 19"
  then have "c dvd 19 - 6 * 3" by (intro dvd_diff dvd_mult)
  then show "is_unit c" by simp
qed

theorem invmod_request_witness:
  "\<exists>r. stores_result (sample_ctrl [3, 19, 0, 0])
          (sample_packet WriteReq INVMOD 0x100100 (operands_payload [0x100, 0x108, 0x118])) 0 0x118 r \<and>
       0 < uint r \<and> uint r < uint (19::u64) \<and> uint (3::u64) * uint r mod uint (19::u64) = 1"
  by (rule invmod_request [OF sample_reachable sample_idle sample_request sample_cells(1,2) sample_dest])
    (simp_all add: coprime_3_19)

lemma not_coprime_6_9: "\<not> coprime (6 :: int) 9"
  by (rule not_coprimeI [of 3]) simp_all

text \<open>
  C18. An operand that is not zero and shares a factor with the modulus has no inverse: the
  request ends in a division by zero on the host, and nothing is written.
\<close>

theorem invmod_request_not_coprime:
  assumes "ctrl_reachable s" "\<not> isBusy s" "imc_request p INVMOD [a, b, d]"
    and "cell s a = Inr va" "cell s b = Inr vn"
    and "\<not> coprime (uint va) (uint vn)" "va \<noteq> 0" "1 < uint vn" "uint vn < 2 ^ 31"
  shows "recvTimingReq s p lat = Inl Div_by_zero"
proof -
  have "imc_binary imc_invmod (rangeStart s) (pmem s) (operands_payload [a, b, d]) = Inl Div_by_zero"
    using assms(4,5) invmod_not_coprime [OF assms(6-9)]
    by (simp add: imc_binary_def pkt_operand_payload cell_def)
  with recvTimingReq_imc [OF ctrl_inv_reachable [OF assms(1)] assms(2,3) imc_dispatch_flags(5), of lat]
  show ?thesis by auto
qed

theorem invmod_request_not_coprime_witness:
  "recvTimingReq (sample_ctrl [6, 9, 0, 0])
     (sample_packet WriteReq INVMOD 0x100100 (operands_payload [0x100, 0x108, 0x118])) 0 = Inl Div_by_zero"
  by (rule invmod_request_not_coprime [OF sample_reachable sample_idle sample_request sample_cells(1,2)])
    (simp_all add: not_coprime_6_9)

text \<open>C19. Mulimc leaves the low 64 bits of the product, for all operand values.\<close>

theorem mulimc_request:
  assumes "ctrl_reachable s" "\<not> isBusy s" "imc_request p MULIMC [a, b, d]"
    and "cell s a = Inr va" "cell s b = Inr vb" "in_store (rangeStart s) (pmem s) d"
  shows "\<exists>r. stores_result s p lat d r \<and> unat r = (unat va * unat vb) mod 2 ^ 64"
  using stores_result_binary [where f = imc_mulimc,
      OF ctrl_inv_reachable [OF assms(1)] assms(2,3) imc_dispatch_flags(4) assms(4-6) imc_mulimc_def]
  by (auto simp: unat_word_ariths intro!: exI [of _ "va * vb"])

theorem mulimc_request_witness:
  "\<exists>r. stores_result (sample_ctrl [6, 9, 0, 0])
          (sample_packet WriteReq MULIMC 0x100100 (operands_payload [0x100, 0x108, 0x118])) 0 0x118 r \<and>
       unat r = (unat (6::u64) * unat (9::u64)) mod 2 ^ 64"
  by (rule mulimc_request [OF sample_reachable sample_idle sample_request sample_cells(1,2) sample_dest])

text \<open>C20. Cmpimc leaves 1 when the operands are equal and 0 otherwise.\<close>

theorem cmpimc_request:
  assumes "ctrl_reachable s" "\<not> isBusy s" "imc_request p CMPIMC [a, b, d]"
    and "cell s a = Inr va" "cell s b = Inr vb" "in_store (rangeStart s) (pmem s) d"
  shows "stores_result s p lat d (if va = vb then 1 else 0)"
  by (rule stores_result_binary [where f = imc_cmpimc,
        OF ctrl_inv_reachable [OF assms(1)] assms(2,3) imc_dispatch_flags(6) assms(4-6) imc_cmpimc_def])

theorem cmpimc_request_witness:
  "stores_result (sample_ctrl [6, 9, 0, 0])
     (sample_packet WriteReq CMPIMC 0x100100 (operands_payload [0x100, 0x108, 0x118])) 0 0x118
     (if (6::u64) = 9 then 1 else 0)"
  by (rule cmpimc_request [OF sample_reachable sample_idle sample_request sample_cells(1,2) sample_dest])

section \<open>Scheduling\<close>

text \<open>
  C4. Responses of one address (and security state) leave in the order in which their requests
  were taken, whatever their latencies and whatever the peer does: in every reachable state the
  responses of an address that have been sent, followed by those that wait, are exactly the
  responses recorded for that address when the requests were taken; and taking a request records
  at most one response, at the end, with the address of the request.
\<close>

theorem responses_keep_address_order:
  assumes "ctrl_reachable s"
  shows "filter (matchAddr x) (queuedResps s) =
           filter (matchAddr x) (sentResps s) @ filter (matchAddr x) (map fst (packetQueue s)) \<and>
         (\<forall>p lat s' ok. recvTimingReq s p lat = Inr (s', ok) \<longrightarrow>
            queuedResps s' = queuedResps s \<or> ok \<and> (\<exists>r. queuedResps s' = queuedResps s @ [r] \<and> matchAddr r p))"
  using in_order_reachable [OF assms] recvTimingReq_log unfolding in_order_def by blast


text \<open>
  C13. No response is stranded and no retry forgotten: in every reachable state a
  waiting response has a dequeue event at a tick that is not in the past or a peer that was
  refused and will ask again, and a requester that was turned away is owed a retry by a
  release event that is still to come.
\<close>

theorem nothing_is_stranded:
  assumes "ctrl_reachable s"
  shows "(packetQueue s \<noteq> [] \<longrightarrow> retryResp s \<or> (\<exists>e. dequeueEvent s = Some e \<and> curTick s \<le> e)) \<and>
         (retryReq s \<longrightarrow> (\<exists>e. releaseEvent s = Some e \<and> curTick s \<le> e))"
  using ctrl_inv_reachable [OF assms] by (auto simp: ctrl_inv_def)

text \<open>The states of the witnesses: a memory that has taken a read, with its response queued.\<close>

definition sample_busy :: mem_ctrl where
  "sample_busy = (case recvTimingReq (sample_ctrl [5, 9, 11, 0])
       (sample_packet WriteReq 0 0x100 (le_bytes 8 7)) 3 of
     Inl e \<Rightarrow> sample_ctrl [] | Inr (s, ok) \<Rightarrow> s)"

lemma sample_busy_run:
  "recvTimingReq (sample_ctrl [5, 9, 11, 0]) (sample_packet WriteReq 0 0x100 (le_bytes 8 7)) 3 =
     Inr (sample_busy, True)"
  by (simp add: sample_busy_def sample_ctrl_def sample_packet_def recvTimingReq_def Let_def
      schedule_release_def imc_dispatch_def flag_isSet_def timing_access_def recvAtomic_def
      mem_access_def range_subset_def access_arm_def access_write_def writeOK_def
      req_isInstFetch_def testCmdAttrib_def makeResponse_def responseCommand_def queue_insert_def
      schedule_dequeue_def put_bytes_def)

lemma sample_busy_reachable: "ctrl_reachable sample_busy"
  using ctrl_reachable.step [OF sample_reachable ctrl_step.request [OF sample_busy_run]] .

lemma sample_busy_fields:
  "releaseEvent sample_busy = Some 4" "dequeueEvent sample_busy = Some 3"
  "isBusy sample_busy" "packetQueue sample_busy \<noteq> []" "\<not> retryReq sample_busy"
  "\<exists>r. queuedResps sample_busy = [r]"
  by (simp_all add: sample_busy_def sample_ctrl_def sample_packet_def recvTimingReq_def Let_def
      schedule_release_def imc_dispatch_def flag_isSet_def timing_access_def recvAtomic_def
      mem_access_def range_subset_def access_arm_def access_write_def writeOK_def
      req_isInstFetch_def testCmdAttrib_def makeResponse_def responseCommand_def queue_insert_def
      schedule_dequeue_def put_bytes_def)





theorem responses_keep_address_order_witness:
  "\<exists>r. queuedResps sample_busy = [r] \<and> filter (matchAddr r) (sentResps sample_busy) @
     filter (matchAddr r) (map fst (packetQueue sample_busy)) = [r]"
proof -
  obtain r where "queuedResps sample_busy = [r]" using sample_busy_fields(6) by blast
  with responses_keep_address_order [OF sample_busy_reachable, of r] show ?thesis by (intro exI [of _ r]) simp
qed

theorem nothing_is_stranded_witness:
  "retryResp sample_busy \<or> (\<exists>e. dequeueEvent sample_busy = Some e \<and> curTick sample_busy \<le> e)"
  using nothing_is_stranded [OF sample_busy_reachable] sample_busy_fields by blast

lemma busy_refuses:
  assumes "isBusy s" "\<not> p_cacheResponding p" "p_is p IsRead \<or> p_is p IsWrite"
  shows "recvTimingReq s p lat = Inr (s\<lparr>retryReq := True\<rparr>, False)"
  using assms by (cases "retryReq s") (auto simp: recvTimingReq_def)

text \<open>
  C21. A busy memory refuses every request, in-memory ones included, and the refusal changes
  nothing but the note that a retry is owed: the operation is not performed, and it happens
  only if the requester sends it again.
\<close>

theorem busy_request_is_refused:
  assumes "isBusy s" "\<not> p_cacheResponding p" "p_is p IsRead \<or> p_is p IsWrite"
  shows "recvTimingReq s p lat = Inr (s\<lparr>retryReq := True\<rparr>, False)"
  by (rule busy_refuses [OF assms])

theorem busy_request_is_refused_witness:
  "recvTimingReq sample_busy
     (sample_packet WriteReq ADDMOD 0x100100 (operands_payload [0x100, 0x108, 0x110, 0x118])) 0 =
   Inr (sample_busy\<lparr>retryReq := True\<rparr>, False)"
  by (rule busy_request_is_refused [OF sample_busy_fields(3)])
    (simp_all add: sample_packet_def testCmdAttrib_def)

text \<open>An access does not look at the scheduling part of the state, so taking the memory busy first makes no difference to it.\<close>

abbreviation taken :: "tick \<Rightarrow> mem_ctrl \<Rightarrow> mem_ctrl" where
  "taken e s \<equiv> s\<lparr>releaseEvent := Some e, isBusy := True\<rparr>"

abbreviation on_result :: "(mem_ctrl \<Rightarrow> mem_ctrl) \<Rightarrow> (mem_ctrl \<times> packet) run \<Rightarrow> (mem_ctrl \<times> packet) run" where
  "on_result f r \<equiv> rbind r (\<lambda>(s, p). Inr (f s, p))"

lemma put_bytes_taken: "put_bytes (taken e s) off bs = taken e (put_bytes s off bs)"
  by (simp add: put_bytes_def)

lemma store_view_taken:
  "store_bytes (taken e s) p = store_bytes s p" "host_offset (taken e s) p = host_offset s p"
  "range_subset (taken e s) p = range_subset s p"
  "trackLoadLocked (taken e s) p = taken e (trackLoadLocked s p)"
  by (simp_all add: store_bytes_def host_offset_def range_subset_def trackLoadLocked_def Let_def
      split: option.split)

lemma writeOK_taken: "writeOK (taken e s) p = (case writeOK s p of (ok, s', p') \<Rightarrow> (ok, taken e s', p'))"
  by (simp add: writeOK_def checkLockedAddrList_def Let_def)

lemma access_swap_taken: "access_swap (taken e s) p = on_result (taken e) (access_swap s p)"
  by (simp add: access_swap_def Let_def store_view_taken put_bytes_taken split: option.split)

lemma access_read_taken: "access_read (taken e s) p = on_result (taken e) (access_read s p)"
  by (simp add: access_read_def Let_def store_view_taken)

lemma access_write_taken: "access_write (taken e s) p = on_result (taken e) (access_write s p)"
  by (simp add: access_write_def writeOK_taken store_view_taken put_bytes_taken split: prod.split)

lemma access_arm_taken: "access_arm (taken e s) p = on_result (taken e) (access_arm s p)"
  by (simp add: access_arm_def access_swap_taken access_read_taken access_write_taken rbind_assoc
      case_prod_unfold)

lemma mem_access_taken: "mem_access (taken e s) p = on_result (taken e) (mem_access s p)"
  by (auto simp: mem_access_def access_arm_taken store_view_taken rbind_assoc rbind_def
      split: sum.splits prod.splits)

lemma recvAtomic_taken: "recvAtomic (taken e s) p = on_result (taken e) (recvAtomic s p)"
  by (simp add: recvAtomic_def mem_access_taken)

lemma timing_access_ok:
  assumes inv: "ctrl_inv s" and acc: "recvAtomic s p = Inr (s1, p1)"
  shows "\<exists>s'. timing_access s p d lat = Inr s' \<and> pmem s' = pmem s1 \<and>
           lockedAddrList s' = lockedAddrList s1 \<and>
           packetQueue s' = (if p_is p NeedsResponse
             then queue_insert (packetQueue s) p1 (curTick s + d + lat) else packetQueue s)"
proof -
  have no: "\<not> p_cacheResponding p" and acc': "mem_access s p = Inr (s1, p1)"
    using acc by (auto simp: recvAtomic_def split: if_splits)
  obtain m l where s1: "s1 = s\<lparr>pmem := m, lockedAddrList := l\<rparr>"
    using mem_access_frame(1) [OF acc' no] by (auto simp: store_update_def)
  note resp = mem_access_frame(2) [OF acc' no]
  show ?thesis
  proof (cases "p_is p NeedsResponse \<and> \<not> retryResp s \<and> dequeueEvent s = None")
    case True
    then have "packetQueue s = []" using inv by (auto simp: ctrl_inv_def)
    with True acc s1 resp show ?thesis
      by (simp add: timing_access_def Let_def schedule_dequeue_def queue_insert_def)
  next
    case False
    with acc s1 resp show ?thesis by (auto simp: timing_access_def Let_def)
  qed
qed

lemma ctrl_inv_taken: "ctrl_inv s \<Longrightarrow> curTick s \<le> e \<Longrightarrow> ctrl_inv (taken e s)"
  by (auto simp: ctrl_inv_def)

text \<open>
  C22. An idle controller in a reachable state takes every ordinary access that the
  store can perform: the call returns true, the store and its locks change as the atomic access
  says, and an access that wants a response has exactly that response added to the queue, to
  leave after the delay it came with and the latency of the memory.
\<close>

theorem ordinary_request_is_served:
  assumes "ctrl_reachable s" "\<not> isBusy s" "p_is p IsRead \<or> p_is p IsWrite"
    and "imc_dispatch (p_flags p) (rangeStart s) (pmem s) (p_data p) = None"
    and acc: "recvAtomic s (p\<lparr>p_headerDelay := 0, p_payloadDelay := 0\<rparr>) = Inr (s1, p1)"
  shows "\<exists>s'. recvTimingReq s p lat = Inr (s', True) \<and> pmem s' = pmem s1 \<and>
           lockedAddrList s' = lockedAddrList s1 \<and>
           packetQueue s' = (if p_is p NeedsResponse
             then queue_insert (packetQueue s) p1 (curTick s + (p_headerDelay p + p_payloadDelay p) + lat)
             else packetQueue s)"
proof -
  let ?p = "p\<lparr>p_headerDelay := 0, p_payloadDelay := 0\<rparr>"
  let ?e = "curTick s + duration s (p_size p)"
  note inv = ctrl_inv_reachable [OF assms(1)]
  note idle = idle_no_retry [OF inv assms(2)]
  have no: "\<not> p_cacheResponding p"
    using acc by (auto simp: recvAtomic_def split: if_splits)
  show ?thesis
  proof (cases "duration s (p_size p) = 0")
    case True
    with timing_access_ok [OF inv acc, of "p_headerDelay p + p_payloadDelay p" lat] assms(2-4) idle no
    show ?thesis by (auto simp: recvTimingReq_def Let_def)
  next
    case False
    from acc have "recvAtomic (taken ?e s) ?p = Inr (taken ?e s1, p1)"
      by (simp only: recvAtomic_taken) simp
    with timing_access_ok [OF ctrl_inv_taken [OF inv], of ?e ?p "taken ?e s1" p1
        "p_headerDelay p + p_payloadDelay p" lat] False assms(2-4) idle no
    show ?thesis by (auto simp: recvTimingReq_def Let_def schedule_release_def)
  qed
qed

theorem ordinary_request_is_served_witness:
  "\<exists>s' s1 p1. recvTimingReq (sample_ctrl [5, 9, 11, 0]) (sample_packet WriteReq 0 0x100 (le_bytes 8 7)) 3 = Inr (s', True) \<and>
     recvAtomic (sample_ctrl [5, 9, 11, 0]) (sample_packet WriteReq 0 0x100 (le_bytes 8 7)) = Inr (s1, p1) \<and>
     pmem s' = pmem s1 \<and> packetQueue s' = [(p1, 3)]"
proof -
  let ?s = "sample_ctrl [5, 9, 11, 0]" and ?p = "sample_packet WriteReq 0 0x100 (le_bytes 8 7)"
  have p: "?p\<lparr>p_headerDelay := 0, p_payloadDelay := 0\<rparr> = ?p" by (simp add: sample_packet_def)
  have rw: "p_is ?p IsRead \<or> p_is ?p IsWrite" by (simp add: sample_packet_def)
  have ord: "imc_dispatch (p_flags ?p) (rangeStart ?s) (pmem ?s) (p_data ?p) = None"
    by (simp add: sample_packet_def imc_dispatch_def flag_isSet_def)
  have fields: "packetQueue ?s = []" "curTick ?s = 0" "p_headerDelay ?p = 0" "p_payloadDelay ?p = 0"
    "p_is ?p NeedsResponse"
    by (simp_all add: sample_ctrl_def sample_packet_def)
  obtain s1 p1 where acc: "recvAtomic ?s ?p = Inr (s1, p1)"
    using sample_busy_run by (cases "recvAtomic ?s ?p")
      (auto simp: sample_ctrl_def sample_packet_def recvAtomic_def mem_access_def range_subset_def
        access_arm_def access_write_def writeOK_def req_isInstFetch_def flag_isSet_def
        testCmdAttrib_def makeResponse_def)
  obtain s' where "recvTimingReq ?s ?p 3 = Inr (s', True)" "pmem s' = pmem s1" "packetQueue s' = [(p1, 3)]"
    using ordinary_request_is_served [OF sample_reachable sample_idle rw ord, unfolded p, OF acc, of 3] fields
    by (auto simp: queue_insert_def)
  with acc show ?thesis by blast
qed

end
