(* ===== verification/Gem5_Request.thy ===== *)
theory Gem5_Request
  imports Gem5_Packet
begin

text \<open>
  Request objects (\<^verbatim>\<open>mem/request.hh\<close>) as far as address translation uses them: a request is made with a
  physical or a virtual address, a translation records the physical address, and a set of private
  flags says which of the fields are valid. Time stamps, identifiers and statistics are left out.
\<close>

section \<open>Flags of validity\<close>

definition VALID_SIZE :: "16 word" where "VALID_SIZE = 0x0001"
definition VALID_PADDR :: "16 word" where "VALID_PADDR = 0x0002"
definition VALID_VADDR :: "16 word" where "VALID_VADDR = 0x0004"
definition VALID_PC :: "16 word" where "VALID_PC = 0x0010"
definition VALID_CONTEXT_ID :: "16 word" where "VALID_CONTEXT_ID = 0x0020"

definition STICKY_PRIVATE_FLAGS :: "16 word" where "STICKY_PRIVATE_FLAGS = VALID_CONTEXT_ID"

definition STICKY_FLAGS :: u64 where "STICKY_FLAGS = INST_FETCH"

lemmas valid_values = VALID_SIZE_def VALID_PADDR_def VALID_VADDR_def VALID_PC_def VALID_CONTEXT_ID_def
  STICKY_PRIVATE_FLAGS_def

section \<open>Requests\<close>

record mem_request =
  r_paddr :: addr
  r_vaddr :: addr
  r_size :: nat
  r_flags :: u64
  r_private :: "16 word"

text \<open>The constructor for physical requests; the virtual address keeps its initial value, \<^verbatim>\<open>MaxAddr\<close>.\<close>

definition Request_phys :: "addr \<Rightarrow> nat \<Rightarrow> u64 \<Rightarrow> mem_request" where
  "Request_phys paddr sz flags =
     \<lparr>r_paddr = paddr, r_vaddr = - 1, r_size = sz, r_flags = flags, r_private = VALID_PADDR OR VALID_SIZE\<rparr>"

definition setVirt :: "mem_request \<Rightarrow> addr \<Rightarrow> nat \<Rightarrow> u64 \<Rightarrow> mem_request" where
  "setVirt r vaddr sz flags =
     r\<lparr>r_vaddr := vaddr, r_size := sz,
       r_flags := (r_flags r AND STICKY_FLAGS) OR flags,
       r_private := (r_private r AND STICKY_PRIVATE_FLAGS) OR (VALID_VADDR OR VALID_SIZE OR VALID_PC)\<rparr>"

definition setPaddr :: "mem_request \<Rightarrow> addr \<Rightarrow> mem_request" where
  "setPaddr r paddr = r\<lparr>r_paddr := paddr, r_private := r_private r OR VALID_PADDR\<rparr>"

definition hasPaddr :: "mem_request \<Rightarrow> bool" where
  "hasPaddr r \<longleftrightarrow> r_private r AND VALID_PADDR \<noteq> 0"

definition getPaddr :: "mem_request \<Rightarrow> addr run" where
  "getPaddr r = (if hasPaddr r then Inr (r_paddr r) else Inl Assert_failed)"

section \<open>What the flags say\<close>

lemma hasPaddr_bit: "hasPaddr r \<longleftrightarrow> bit (r_private r) 1"
  using and_exp_eq_0_iff_not_bit [of "r_private r" 1] by (simp add: hasPaddr_def VALID_PADDR_def)

lemma getPaddr_setPaddr [simp]: "getPaddr (setPaddr r pa) = Inr pa"
  by (simp add: getPaddr_def hasPaddr_bit setPaddr_def valid_values bit_simps)

lemma getPaddr_Request_phys [simp]: "getPaddr (Request_phys pa sz flags) = Inr pa"
  by (simp add: getPaddr_def hasPaddr_bit Request_phys_def valid_values)

text \<open>A request that is given a virtual address forgets the physical one, whatever it was made with.\<close>

lemma getPaddr_setVirt [simp]: "getPaddr (setVirt r va sz flags) = Inl Assert_failed"
  by (simp add: getPaddr_def hasPaddr_bit setVirt_def valid_values bit_simps)

lemma setVirt_vaddr [simp]: "r_vaddr (setVirt r va sz flags) = va"
  by (simp add: setVirt_def)

end
