(* ===== verification/Imc_Decode.thy ===== *)
theory Imc_Decode
  imports Imc_Requests Gem5_Request
begin

text \<open>
  The in-memory instructions in the simulated processor: the part of the decoder (\<^verbatim>\<open>arch/riscv/isa/decoder.isa\<close>) that
  recognises them, and their execution, which translates the addresses in the operand registers and sends the memory a write
  whose flags name the operation and whose payload is the translated addresses.

  The translation of the MMU is a parameter: the physical address it records in the request, if it records one. The fault
  it returns beside that is stored in a variable that the execution never reads. The registers are read as they are; register 0 reads as zero in
  the register file that the parameter stands for.
\<close>

section \<open>Fields\<close>

definition insn_bits_of :: "nat \<Rightarrow> nat \<Rightarrow> u64 \<Rightarrow> nat" where
  "insn_bits_of hi lo w = unat (take_bit (hi + 1 - lo) (drop_bit lo w))"

definition QUADRANT :: "u64 \<Rightarrow> nat" where "QUADRANT w = insn_bits_of 1 0 w"
definition OPCODE5 :: "u64 \<Rightarrow> nat" where "OPCODE5 w = insn_bits_of 6 2 w"
definition FUNCT3 :: "u64 \<Rightarrow> nat" where "FUNCT3 w = insn_bits_of 14 12 w"
definition FUNCT2 :: "u64 \<Rightarrow> nat" where "FUNCT2 w = insn_bits_of 26 25 w"
definition FUNCT7 :: "u64 \<Rightarrow> nat" where "FUNCT7 w = insn_bits_of 31 25 w"
definition RS1 :: "u64 \<Rightarrow> nat" where "RS1 w = insn_bits_of 19 15 w"
definition RS2 :: "u64 \<Rightarrow> nat" where "RS2 w = insn_bits_of 24 20 w"
definition RS3 :: "u64 \<Rightarrow> nat" where "RS3 w = insn_bits_of 31 27 w"
definition RS4 :: "u64 \<Rightarrow> nat" where "RS4 w = insn_bits_of 11 7 w"

section \<open>Decoding\<close>

datatype imc_inst = Addmod | Mulmod | Submod | Mulimc | Invmod | Cmpimc

text \<open>
  The branch of the decoder for opcode 2, formats \<^verbatim>\<open>R4Op\<close> and \<^verbatim>\<open>ROp2\<close>; other instructions give nothing. The registers
  are in the order in which the execution reads them.
\<close>

definition imc_opcode :: "u64 \<Rightarrow> imc_inst option" where
  "imc_opcode w =
     (if QUADRANT w \<noteq> 3 \<or> OPCODE5 w \<noteq> 0x02 then None
      else if FUNCT3 w = 0x0 then
        (if FUNCT2 w = 0x01 then Some Addmod else if FUNCT2 w = 0x02 then Some Mulmod
         else if FUNCT2 w = 0x03 then Some Submod else None)
      else if FUNCT3 w = 0x01 then
        (if FUNCT7 w = 0x03 then Some Mulimc else if FUNCT7 w = 0x04 then Some Invmod
         else if FUNCT7 w = 0x05 then Some Cmpimc else None)
      else None)"

definition imc_four :: "imc_inst \<Rightarrow> bool" where
  "imc_four i \<longleftrightarrow> i \<in> {Addmod, Mulmod, Submod}"

definition imc_regs :: "imc_inst \<Rightarrow> u64 \<Rightarrow> nat list" where
  "imc_regs i w = (if imc_four i then [RS1 w, RS2 w, RS3 w, RS4 w] else [RS1 w, RS2 w, RS4 w])"

fun imc_flag :: "imc_inst \<Rightarrow> u64" where
  "imc_flag Addmod = ADDMOD"
| "imc_flag Mulmod = MULMOD"
| "imc_flag Submod = SUBMOD"
| "imc_flag Mulimc = MULIMC"
| "imc_flag Invmod = INVMOD"
| "imc_flag Cmpimc = CMPIMC"

section \<open>Execution\<close>

text \<open>
  Each operand address becomes a request, first with the address as a physical one, then by \<^verbatim>\<open>setVirt\<close> as a virtual one;
  the requests are translated, and then their physical addresses are read, all in the order of the operands.
\<close>

definition operand_request :: "addr \<Rightarrow> mem_request" where
  "operand_request a = setVirt (Request_phys a 8 0) a 8 0"

definition translateAtomic :: "(addr \<rightharpoonup> addr) \<Rightarrow> mem_request \<Rightarrow> mem_request" where
  "translateAtomic mmu r = (case mmu (r_vaddr r) of Some pa \<Rightarrow> setPaddr r pa | None \<Rightarrow> r)"

fun getPaddrs :: "mem_request list \<Rightarrow> addr list run" where
  "getPaddrs [] = Inr []"
| "getPaddrs (r # rs) = rbind (getPaddr r) (\<lambda>pa. rbind (getPaddrs rs) (\<lambda>pas. Inr (pa # pas)))"

definition translate_all :: "(addr \<rightharpoonup> addr) \<Rightarrow> addr list \<Rightarrow> addr list run" where
  "translate_all mmu as = getPaddrs (map (translateAtomic mmu) (map operand_request as))"

abbreviation (input) IMC_ADDR :: addr where "IMC_ADDR \<equiv> 0x00100100"

definition imc_packet :: "nat \<Rightarrow> imc_inst \<Rightarrow> addr list \<Rightarrow> packet" where
  "imc_packet ctx i operands =
     \<lparr>p_cmd = WriteReq, p_addr = IMC_ADDR, p_size = 8 * length operands, p_secure = req_isSecure (imc_flag i),
      p_flags = imc_flag i, p_context = ctx, p_extra = 0, p_data = operands_payload operands, p_atomic = None,
      p_cacheResponding = False, p_headerDelay = 0, p_payloadDelay = 0\<rparr>"

text \<open>
  The execution on a processor whose data port leads to the memory. What \<^verbatim>\<open>sendTimingReq\<close> returns is dropped: an instruction
  that a busy memory refuses is lost.
\<close>

definition imc_execute ::
  "(addr \<rightharpoonup> addr) \<Rightarrow> nat \<Rightarrow> (nat \<Rightarrow> u64) \<Rightarrow> u64 \<Rightarrow> mem_ctrl \<Rightarrow> tick \<Rightarrow> mem_ctrl run option" where
  "imc_execute mmu ctx regs w s lat =
     map_option (\<lambda>i.
       rbind (translate_all mmu (map regs (imc_regs i w))) (\<lambda>operands.
       rbind (recvTimingReq s (imc_packet ctx i operands) lat) (\<lambda>(s', accepted). Inr s')))
     (imc_opcode w)"

section \<open>What an instruction does\<close>

lemma getPaddr_operand:
  "getPaddr (translateAtomic mmu (operand_request a)) = (case mmu a of Some pa \<Rightarrow> Inr pa | None \<Rightarrow> Inl Assert_failed)"
  by (simp add: translateAtomic_def operand_request_def split: option.split)

lemma translate_all_simps [simp]:
  "translate_all mmu [] = Inr []"
  "translate_all mmu (a # as) =
     (case mmu a of None \<Rightarrow> Inl Assert_failed | Some pa \<Rightarrow> rbind (translate_all mmu as) (\<lambda>pas. Inr (pa # pas)))"
  by (simp_all add: translate_all_def getPaddr_operand split: option.split)

lemma translate_all_Inr: "translate_all mmu as = Inr pas \<longleftrightarrow> list_all2 (\<lambda>a pa. mmu a = Some pa) as pas"
  by (induction as arbitrary: pas) (auto simp: list_all2_Cons1 rbind_Inr_iff split: option.splits)

lemma imc_short_payload:
  assumes "length data < 24"
  shows "imc_ternary f base mem data = Inl Out_of_range" "imc_binary g base mem data = Inl Out_of_range"
  using assms by (auto simp: imc_ternary_def imc_binary_def pkt_operand_def)

lemma imc_packet_request: "imc_request (imc_packet ctx i operands) (imc_flag i) operands"
  by (simp add: imc_request_def imc_packet_def)

lemma imc_execute_stores:
  assumes "imc_opcode w = Some i" "list_all2 (\<lambda>a pa. mmu a = Some pa) (map regs (imc_regs i w)) operands"
    and "stores_result s (imc_packet ctx i operands) lat d r"
  shows "\<exists>s'. imc_execute mmu ctx regs w s lat = Some (Inr s') \<and> cell s' d = Inr r \<and>
    (\<forall>x. cells_disjoint (rangeStart s) d x \<longrightarrow> cell s' x = cell s x)"
  using assms translate_all_Inr [of mmu "map regs (imc_regs i w)" operands]
  by (auto simp: imc_execute_def stores_result_def)

text \<open>
  C33. An in-memory instruction one of whose operand addresses has no translation stops the simulation on the assertion in
  \<^verbatim>\<open>getPaddr\<close>: neither is the fault of the translation raised in the simulated program, nor is the untranslated address, with
  which the request was first made, sent to the memory. The operands are all the register fields of the instruction: three of
  them for \<^verbatim>\<open>mulimc\<close>, \<^verbatim>\<open>invmod\<close> and \<^verbatim>\<open>cmpimc\<close>, and a fourth for \<^verbatim>\<open>addmod\<close>, \<^verbatim>\<open>mulmod\<close> and \<^verbatim>\<open>submod\<close>.
\<close>

theorem untranslated_operand_asserts:
  assumes "imc_opcode w = Some i" "mmu (regs r) = None"
    and "r \<in> {RS1 w, RS2 w, RS4 w} \<or> i \<in> {Addmod, Mulmod, Submod} \<and> r = RS3 w"
  shows "imc_execute mmu ctx regs w s lat = Some (Inl Assert_failed)"
proof -
  have "translate_all mmu as = Inl Assert_failed" if "a \<in> set as" "mmu a = None" for a as
    using that by (induction as) (auto split: option.splits)
  moreover have "regs r \<in> set (map regs (imc_regs i w))"
    using assms(3) by (auto simp: imc_regs_def imc_four_def)
  ultimately have "translate_all mmu (map regs (imc_regs i w)) = Inl Assert_failed" using assms(2) by blast
  with assms(1) show ?thesis by (simp add: imc_execute_def)
qed

lemmas field_eval = QUADRANT_def OPCODE5_def FUNCT3_def FUNCT2_def FUNCT7_def RS1_def RS2_def RS3_def RS4_def
  insn_bits_of_def take_bit_eq_mask mask_eq_exp_minus_1

lemma sample_opcode: "imc_opcode 0x6ac5850b = Some Addmod" "imc_regs Addmod 0x6ac5850b = [11, 12, 13, 10]"
  by (simp_all add: imc_opcode_def imc_regs_def imc_four_def field_eval)

text \<open>Only the address in the third source register, \<^verbatim>\<open>a3\<close>, has no translation.\<close>

theorem untranslated_operand_asserts_witness:
  "imc_execute (\<lambda>a. if a = 13 then None else Some 0x100) 0 of_nat 0x6ac5850b (sample_ctrl [1, 2, 3, 4]) 0 = Some (Inl Assert_failed)"
  by (rule untranslated_operand_asserts [OF sample_opcode(1), of _ _ 13]) (simp_all add: field_eval)

text \<open>
  C35. The flag of \<^verbatim>\<open>Submod\<close> is the flag of secure requests, and that of \<^verbatim>\<open>Cmpimc\<close> the one of requests in kernel mode. An idle
  memory therefore never performs a secure or a kernel access: whatever its other flags are, it is dispatched to an in-memory
  operation, reads beyond its payload if that is shorter than three addresses, and if it is taken, no response is queued for it
  and none is scheduled, although the requester waits for one.
\<close>

theorem secure_and_kernel_accesses_are_lost:
  assumes "ctrl_reachable s" "\<not> isBusy s" "\<not> p_cacheResponding p" "p_is p IsRead \<or> p_is p IsWrite"
    and "flag_isSet (p_flags p) SECURE \<or> flag_isSet (p_flags p) KERNEL"
  shows "(length (p_data p) < 24 \<longrightarrow> recvTimingReq s p lat = Inl Out_of_range) \<and>
    (\<forall>s' ok. recvTimingReq s p lat = Inr (s', ok) \<longrightarrow>
       ok \<and> packetQueue s' = packetQueue s \<and> queuedResps s' = queuedResps s \<and> dequeueEvent s' = dequeueEvent s)"
proof -
  have short: "imc_dispatch (p_flags p) base mem data = Some (Inl Out_of_range)" if "length data < 24" for base mem data
    using assms(5) imc_short_payload [OF that] by (auto simp: imc_dispatch_def SUBMOD_def SECURE_def CMPIMC_def KERNEL_def)
  have "imc_dispatch (p_flags p) (rangeStart s) (pmem s) (p_data p) \<noteq> None"
    using assms(5) by (auto simp: imc_dispatch_def SUBMOD_def SECURE_def CMPIMC_def KERNEL_def)
  then obtain r where r: "imc_dispatch (p_flags p) (rangeStart s) (pmem s) (p_data p) = Some r" by blast
  from recvTimingReq_dispatched [OF ctrl_inv_reachable [OF assms(1)] assms(2-4) r, of lat] obtain s1 where
    "recvTimingReq s p lat = rbind r (\<lambda>mem'. Inr (s1\<lparr>pmem := mem'\<rparr>, True))"
    and "packetQueue s1 = packetQueue s" "queuedResps s1 = queuedResps s" "dequeueEvent s1 = dequeueEvent s" by blast
  with short [of "p_data p"] r show ?thesis by (auto simp: rbind_Inr_iff)
qed

text \<open>A secure read of eight bytes, in an otherwise idle memory.\<close>

theorem secure_and_kernel_accesses_are_lost_witness:
  "recvTimingReq (sample_ctrl [5, 9, 11, 0]) (sample_packet ReadReq SECURE 0x100 (le_bytes 8 0)) 3 = Inl Out_of_range"
  using secure_and_kernel_accesses_are_lost [OF sample_reachable sample_idle, of "sample_packet ReadReq SECURE 0x100 (le_bytes 8 0)"
      "[5, 9, 11, 0]" 3]
  by (simp add: sample_packet_def flag_isSet_def flag_values testCmdAttrib_def)

end
