(* ===== verification/Imc_Cpu.thy ===== *)
theory Imc_Cpu
  imports Imc_Decode
begin

text \<open>
  The data port of the timing processor (\<^verbatim>\<open>cpu/simple/timing.cc\<close>) on a memory that may be busy: the packet it
  keeps while it waits for a retry, its status, and the handler of the retry; and what becomes of an in-memory
  instruction, which sends its packet past this bookkeeping. Packets of split accesses and accesses to
  local registers of the processor are left out.
\<close>

section \<open>The data port\<close>

datatype cpu_state =
    Idle | Running | Faulting | ITBWaitResponse | IcacheRetry | IcacheWaitResponse | IcacheWaitSwitch
  | DTBWaitResponse | DcacheRetry | DcacheWaitResponse | DcacheWaitSwitch

record timing_cpu =
  cpu_status :: cpu_state
  dcache_pkt :: "packet option"

text \<open>An ordinary store: the packet is kept in \<^verbatim>\<open>dcache_pkt\<close> until the memory has taken it.\<close>

definition handleWritePacket :: "timing_cpu \<Rightarrow> mem_ctrl \<Rightarrow> tick \<Rightarrow> (timing_cpu \<times> mem_ctrl) run" where
  "handleWritePacket c s lat =
     (case dcache_pkt c of
        None \<Rightarrow> Inl Out_of_range
      | Some p \<Rightarrow>
          rbind (recvTimingReq s p lat) (\<lambda>(s', ok).
            if \<not> ok then Inr (c\<lparr>cpu_status := DcacheRetry\<rparr>, s')
            else Inr (c\<lparr>cpu_status := DcacheWaitResponse, dcache_pkt := None\<rparr>, s')))"

definition recvReqRetry :: "timing_cpu \<Rightarrow> mem_ctrl \<Rightarrow> tick \<Rightarrow> (timing_cpu \<times> mem_ctrl) run" where
  "recvReqRetry c s lat =
     (case dcache_pkt c of
        None \<Rightarrow> Inl Assert_failed
      | Some tmp \<Rightarrow>
          if cpu_status c \<noteq> DcacheRetry then Inl Assert_failed
          else
            rbind (recvTimingReq s tmp lat) (\<lambda>(s', ok).
              if ok then Inr (c\<lparr>cpu_status := DcacheWaitResponse, dcache_pkt := None\<rparr>, s')
              else Inr (c, s')))"

text \<open>The release event of a memory whose port leads to the processor: the retry it owes is delivered to the handler.\<close>

definition release_to_cpu :: "timing_cpu \<Rightarrow> mem_ctrl \<Rightarrow> tick \<Rightarrow> (timing_cpu \<times> mem_ctrl) run" where
  "release_to_cpu c s lat =
     rbind (release_start s) (\<lambda>(s1, retry). if retry then recvReqRetry c s1 lat else Inr (c, s1))"

text \<open>The execution of an in-memory instruction leaves the port's bookkeeping alone.\<close>

definition execute_imc ::
  "(addr \<rightharpoonup> addr) \<Rightarrow> nat \<Rightarrow> (nat \<Rightarrow> u64) \<Rightarrow> u64 \<Rightarrow> timing_cpu \<Rightarrow> mem_ctrl \<Rightarrow> tick \<Rightarrow> (timing_cpu \<times> mem_ctrl) run option" where
  "execute_imc mmu ctx regs w c s lat = map_option (\<lambda>r. rbind r (\<lambda>s'. Inr (c, s'))) (imc_execute mmu ctx regs w s lat)"

section \<open>A refused instruction\<close>

lemma execute_imc_busy:
  assumes "imc_opcode w = Some i" "list_all2 (\<lambda>a pa. mmu a = Some pa) (map regs (imc_regs i w)) operands" "isBusy s"
  shows "execute_imc mmu ctx regs w c s lat = Some (Inr (c, s\<lparr>retryReq := True\<rparr>))"
proof -
  have "recvTimingReq s (imc_packet ctx i operands) lat = Inr (s\<lparr>retryReq := True\<rparr>, False)"
    using assms(3) by (rule busy_refuses) (simp_all add: imc_packet_def)
  with assms(1,2) translate_all_Inr [of mmu "map regs (imc_regs i w)" operands] show ?thesis
    by (simp add: execute_imc_def imc_execute_def)
qed

lemma release_to_cpu_owed:
  assumes "isBusy s" "retryReq s" "cpu_status c \<noteq> DcacheRetry"
  shows "release_to_cpu c s lat = Inl Assert_failed"
  using assms by (simp add: release_to_cpu_def release_start_def recvReqRetry_def split: option.split)

text \<open>
  An ordinary store that a busy memory refuses is kept, and the retry sends it again.
\<close>

lemma refused_store_is_repeated:
  assumes "dcache_pkt c = Some p" "isBusy s" "\<not> p_cacheResponding p" "p_is p IsWrite"
  shows "handleWritePacket c s lat = Inr (c\<lparr>cpu_status := DcacheRetry\<rparr>, s\<lparr>retryReq := True\<rparr>)"
    and "isBusy s2 \<Longrightarrow> retryReq s2 \<Longrightarrow> release_to_cpu (c\<lparr>cpu_status := DcacheRetry\<rparr>) s2 lat2 =
      rbind (recvTimingReq (s2\<lparr>isBusy := False, retryReq := False, retriesSent := Suc (retriesSent s2)\<rparr>) p lat2) (\<lambda>(s', ok).
        Inr (if ok then c\<lparr>cpu_status := DcacheWaitResponse, dcache_pkt := None\<rparr> else c\<lparr>cpu_status := DcacheRetry\<rparr>, s'))"
  using assms busy_refuses [OF assms(2,3), of lat]
  by (simp_all add: handleWritePacket_def release_to_cpu_def release_start_def recvReqRetry_def if_distrib [of Inr] if_distrib [of "\<lambda>c. (c, s')" for s']
      cong: if_cong split: prod.split)

text \<open>
  C34. An in-memory instruction that a busy memory refuses is not performed and not repeated, and it brings the simulation
  down: the memory is left as it was but for the retry it now owes, the processor keeps no packet for it, and when the release
  event that follows delivers the retry, after any steps of the memory that have sent no retry yet, the processor's handler
  meets an assertion that fails unless an ordinary access of the processor happens to wait for a retry at that moment.
\<close>

theorem refused_instruction_stops_simulation:
  assumes "imc_opcode w = Some i" "list_all2 (\<lambda>a pa. mmu a = Some pa) (map regs (imc_regs i w)) operands"
    and "ctrl_reachable s" "isBusy s"
  shows "\<exists>s1. execute_imc mmu ctx regs w c s lat = Some (Inr (c, s1)) \<and> pmem s1 = pmem s \<and> packetQueue s1 = packetQueue s \<and>
    (\<exists>e. releaseEvent s1 = Some e \<and> curTick s1 \<le> e) \<and>
    (\<forall>s2 (c2 :: timing_cpu) lat2. ctrl_step\<^sup>*\<^sup>* s1 s2 \<and> retriesSent s2 = retriesSent s1 \<and> releaseEvent s2 = Some (curTick s2) \<and>
       cpu_status c2 \<noteq> DcacheRetry \<longrightarrow> release_to_cpu c2 (s2\<lparr>releaseEvent := None\<rparr>) lat2 = Inl Assert_failed)"
proof (intro exI conjI allI impI)
  let ?s1 = "s\<lparr>retryReq := True\<rparr>"
  show "execute_imc mmu ctx regs w c s lat = Some (Inr (c, ?s1))" by (rule execute_imc_busy [OF assms(1,2,4)])
  show "releaseEvent ?s1 = Some (the (releaseEvent s))" "curTick ?s1 \<le> the (releaseEvent s)"
    using ctrl_inv_reachable [OF assms(3)] assms(4) by (auto simp: ctrl_inv_def)
  fix s2 and c2 :: timing_cpu and lat2
  assume run: "ctrl_step\<^sup>*\<^sup>* ?s1 s2 \<and> retriesSent s2 = retriesSent ?s1 \<and> releaseEvent s2 = Some (curTick s2) \<and>
    cpu_status c2 \<noteq> DcacheRetry"
  have "ctrl_inv ?s1" using ctrl_inv_reachable [OF assms(3)] assms(4) by (simp add: ctrl_inv_def)
  then have "ctrl_inv s2" using run ctrl_inv_steps by blast
  then have "isBusy s2" using run by (auto simp: ctrl_inv_def)
  moreover have "retryReq s2" using retry_stays_owed [of ?s1 s2] run by simp
  ultimately show "release_to_cpu c2 (s2\<lparr>releaseEvent := None\<rparr>) lat2 = Inl Assert_failed"
    using release_to_cpu_owed [of "s2\<lparr>releaseEvent := None\<rparr>" c2] run by simp
qed simp_all

text \<open>
  The witness: an \<^verbatim>\<open>addmod\<close> while the memory is busy with a write. At tick 3 the peer refuses the response of the write, at
  tick 4 the release event fires.
\<close>

definition sample_late :: mem_ctrl where
  "sample_late = sample_busy\<lparr>retryReq := True, curTick := 4, dequeueEvent := None, retryResp := True\<rparr>"

lemma sample_late_steps: "ctrl_step\<^sup>*\<^sup>* (sample_busy\<lparr>retryReq := True\<rparr>) sample_late"
proof -
  let ?s = "sample_busy\<lparr>retryReq := True\<rparr>"
  have now: "curTick sample_busy = 0" using recvTimingReq_frame(3) [OF sample_busy_run] by (simp add: sample_ctrl_def)
  let ?s3 = "?s\<lparr>curTick := 3\<rparr>"
  let ?s3' = "?s3\<lparr>dequeueEvent := None, retryResp := True\<rparr>"
  have "ctrl_step ?s ?s3" by (rule ctrl_step.time_passes) (simp_all add: now sample_busy_fields)
  moreover have "ctrl_step ?s3 ?s3'"
    by (rule ctrl_step.dequeue_fires [where reqs = "[]" and accepted = False])
      (use sample_busy_fields(2,4) in \<open>auto simp: dequeue_def Let_def split: list.split\<close>)
  moreover have "ctrl_step ?s3' (?s3'\<lparr>curTick := 4\<rparr>)" by (rule ctrl_step.time_passes) (simp_all add: sample_busy_fields)
  moreover have "?s3'\<lparr>curTick := 4\<rparr> = sample_late" by (simp add: sample_late_def)
  ultimately show ?thesis by (metis converse_rtranclp_into_rtranclp rtranclp.rtrancl_refl)
qed

abbreviation (input) sample_cpu :: timing_cpu where
  "sample_cpu \<equiv> \<lparr>cpu_status = Running, dcache_pkt = None\<rparr>"

theorem refused_instruction_stops_simulation_witness:
  "execute_imc Some 0 (\<lambda>n. 0x100) 0x6ac5850b sample_cpu sample_busy 0 = Some (Inr (sample_cpu, sample_busy\<lparr>retryReq := True\<rparr>)) \<and>
   release_to_cpu sample_cpu (sample_late\<lparr>releaseEvent := None\<rparr>) 0 = Inl Assert_failed"
proof -
  have tr: "list_all2 (\<lambda>a pa. Some a = Some pa) (map (\<lambda>n. 0x100) (imc_regs Addmod 0x6ac5850b)) [0x100, 0x100, 0x100, 0x100]"
    by (simp add: sample_opcode(2))
  note busy = sample_busy_fields(3)
  have run: "execute_imc Some 0 (\<lambda>n. 0x100) 0x6ac5850b sample_cpu sample_busy 0 = Some (Inr (sample_cpu, sample_busy\<lparr>retryReq := True\<rparr>))"
    by (rule execute_imc_busy [OF sample_opcode(1) tr busy])
  have late: "retriesSent sample_late = retriesSent (sample_busy\<lparr>retryReq := True\<rparr>)" "releaseEvent sample_late = Some (curTick sample_late)"
    by (simp_all add: sample_late_def sample_busy_fields)
  from refused_instruction_stops_simulation [OF sample_opcode(1) tr sample_busy_reachable busy, of 0 sample_cpu 0] run
    sample_late_steps late show ?thesis by auto
qed

end
