(* ===== verification/Mem_Functional.thy ===== *)
theory Mem_Functional
  imports Imc_Requests
begin

text \<open>
  The functional path of the memory controller (\<^verbatim>\<open>recvFunctional\<close> of \<^verbatim>\<open>mem/simple_mem.cc\<close> with \<^verbatim>\<open>functionalAccess\<close> and
  \<^verbatim>\<open>trySatisfyFunctional\<close>): debuggers and loaders use it to access the memory without taking time. An in-memory request is
  executed as on the timing path; an ordinary one accesses the store and is then compared with every queued response, which
  gives its bytes to a read and takes the bytes of a write.

  The tracking of valid bytes of a packet is an argument of its own. The labels of print requests and what they print are
  not part of the model.
\<close>

section \<open>Access\<close>

definition functionalAccess :: "mem_ctrl \<Rightarrow> packet \<Rightarrow> (mem_ctrl \<times> packet) run" where
  "functionalAccess s p =
     (if \<not> range_subset s p then Inl Assert_failed
      else if p_is p IsRead then
        rbind (makeResponse (p\<lparr>p_data := store_bytes s p\<rparr>)) (\<lambda>p'. Inr (s, p'))
      else if p_is p IsWrite then
        (if length (p_data p) < p_size p then Inl Out_of_range
         else rbind (makeResponse p) (\<lambda>p'. Inr (put_bytes s (host_offset s p) (take (p_size p) (p_data p)), p')))
      else if p_is p IsPrint then Inr (s, p)
      else Inl Panic)"

section \<open>Queued responses\<close>

definition overwrite :: "'a list \<Rightarrow> nat \<Rightarrow> 'a list \<Rightarrow> 'a list" where
  "overwrite xs off ys = take off xs @ ys @ drop (off + length ys) xs"

text \<open>
  The packet is compared with another one: the result holds the packet, its valid bytes, the other packet, and whether the
  packet is complete. The ends of the ranges are inclusive and computed on addresses.
\<close>

definition trySatisfyFunctional :: "packet \<Rightarrow> bool list \<Rightarrow> packet \<Rightarrow> (packet \<times> bool list \<times> packet \<times> bool) run" where
  "trySatisfyFunctional p valid other =
     (let func_start = p_addr p; func_end = p_addr p + of_nat (p_size p) - 1;
          val_start = p_addr other; val_end = val_start + of_nat (p_size other) - 1
      in if p_secure other \<noteq> p_secure p \<or> func_start > val_end \<or> val_start > func_end then Inr (p, valid, other, False)
         else if p_is p IsPrint then (if p_is other HasData then Inl Assert_failed else Inr (p, valid, other, False))
         else if \<not> p_is other HasData then Inr (p, valid, other, False)
         else
           let val_offset = unat (if func_start > val_start then func_start - val_start else 0);
               func_offset = unat (if func_start < val_start then val_start - func_start else 0);
               overlap_size = unat (min val_end func_end + 1 - max val_start func_start)
           in if length (p_data p) < func_offset + overlap_size \<or> length (p_data other) < val_offset + overlap_size
                then Inl Out_of_range
              else if p_is p IsRead then
                let bytesValid = (if valid = [] then replicate (p_size p) False else valid);
                    all_bytes_valid = list_all id (take func_offset bytesValid) \<and>
                      list_all id (drop (func_offset + overlap_size) bytesValid)
                in Inr (p\<lparr>p_data := overwrite (p_data p) func_offset (take overlap_size (drop val_offset (p_data other)))\<rparr>,
                     overwrite bytesValid func_offset (replicate overlap_size True), other, all_bytes_valid)
              else if p_is p IsWrite then
                Inr (p, valid,
                  other\<lparr>p_data := overwrite (p_data other) val_offset (take overlap_size (drop func_offset (p_data p)))\<rparr>, False)
              else Inl Panic)"

fun satisfy_loop :: "packet \<Rightarrow> bool list \<Rightarrow> (packet \<times> tick) list \<Rightarrow> (packet \<times> bool list \<times> (packet \<times> tick) list) run" where
  "satisfy_loop p valid [] = Inr (p, valid, [])"
| "satisfy_loop p valid ((other, t) # q) =
     rbind (trySatisfyFunctional p valid other) (\<lambda>(p', valid', other', complete).
       if complete then Inr (p', valid', (other', t) # q)
       else rbind (satisfy_loop p' valid' q) (\<lambda>(p'', valid'', q'). Inr (p'', valid'', (other', t) # q')))"

section \<open>The handler\<close>

definition recvFunctional :: "mem_ctrl \<Rightarrow> packet \<Rightarrow> bool list \<Rightarrow> (mem_ctrl \<times> packet \<times> bool list) run" where
  "recvFunctional s p valid =
     (case imc_dispatch (p_flags p) (rangeStart s) (pmem s) (p_data p) of
        Some r \<Rightarrow> rbind r (\<lambda>mem'. rbind (makeResponse p) (\<lambda>p'. Inr (s\<lparr>pmem := mem'\<rparr>, p', valid)))
      | None \<Rightarrow>
          rbind (functionalAccess s p) (\<lambda>(s', p').
          rbind (satisfy_loop p' valid (packetQueue s')) (\<lambda>(p'', valid', q). Inr (s'\<lparr>packetQueue := q\<rparr>, p'', valid'))))"

section \<open>Overlap of two packets\<close>

text \<open>A packet whose bytes lie in the address space; the response covers byte \<open>i\<close> of the packet.\<close>

definition in_space :: "packet \<Rightarrow> bool" where
  "in_space p \<longleftrightarrow> 0 < p_size p \<and> p_size p < 2 ^ 64 \<and> unat (p_addr p) + p_size p \<le> 2 ^ 64"

definition covers :: "packet \<Rightarrow> packet \<Rightarrow> nat \<Rightarrow> bool" where
  "covers p q i \<longleftrightarrow> p_secure q = p_secure p \<and> p_is q HasData \<and>
     unat (p_addr q) \<le> unat (p_addr p) + i \<and> unat (p_addr p) + i < unat (p_addr q) + p_size q"

definition byte_of :: "packet \<Rightarrow> packet \<Rightarrow> nat \<Rightarrow> u8" where
  "byte_of p q i = p_data q ! (unat (p_addr p) + i - unat (p_addr q))"

definition payload_ok :: "packet \<Rightarrow> bool" where
  "payload_ok q \<longleftrightarrow> in_space q \<and> (p_is q HasData \<longrightarrow> length (p_data q) = p_size q)"

lemma last_byte:
  assumes "in_space p"
  shows "unat (p_addr p + of_nat (p_size p) - 1) = unat (p_addr p) + p_size p - 1"
proof -
  from assms have b: "unat (p_addr p) + (p_size p - 1) < 2 ^ 64" "0 < p_size p" by (auto simp: in_space_def)
  have "p_addr p + of_nat (p_size p) - 1 = p_addr p + of_nat (p_size p - 1)" using b(2) by (simp add: of_nat_diff)
  also have "unat \<dots> = unat (p_addr p) + (p_size p - 1)"
  proof -
    have "unat (of_nat (p_size p - 1) :: u64) = p_size p - 1" using b(1) by (simp add: unsigned_of_nat take_bit_nat_eq_self)
    then show ?thesis using b(1) by (subst unat_add_lem [THEN iffD1]) simp_all
  qed
  finally show ?thesis using b(2) by simp
qed

lemma nth_overwrite:
  assumes "off + length ys \<le> length xs" "i < length xs"
  shows "overwrite xs off ys ! i = (if off \<le> i \<and> i < off + length ys then ys ! (i - off) else xs ! i)"
    "length (overwrite xs off ys) = length xs"
  using assms by (auto simp: overwrite_def nth_append)

lemma unat_min_max: "unat (min a b) = min (unat a) (unat (b :: u64))" "unat (max a b) = max (unat a) (unat b)"
  by (simp_all add: min_def max_def word_le_nat_alt)

lemma overlap_nat:
  assumes "in_space p" "in_space q"
    and "\<not> p_addr p > p_addr q + of_nat (p_size q) - 1" "\<not> p_addr q > p_addr p + of_nat (p_size p) - 1"
  shows "unat (min (p_addr q + of_nat (p_size q) - 1) (p_addr p + of_nat (p_size p) - 1) + 1 - max (p_addr q) (p_addr p)) =
    min (unat (p_addr q) + p_size q) (unat (p_addr p) + p_size p) - max (unat (p_addr q)) (unat (p_addr p))"
proof -
  let ?x = "min (p_addr q + of_nat (p_size q) - 1) (p_addr p + of_nat (p_size p) - 1)"
  let ?y = "max (p_addr q) (p_addr p)"
  have s: "0 < p_size p" "0 < p_size q" "p_size p < 2 ^ 64" using assms(1,2) by (auto simp: in_space_def)
  have x: "unat ?x = min (unat (p_addr q) + p_size q - 1) (unat (p_addr p) + p_size p - 1)"
    by (simp only: unat_min_max last_byte [OF assms(1)] last_byte [OF assms(2)])
  have y: "unat ?y = max (unat (p_addr q)) (unat (p_addr p))" by (simp only: unat_min_max)
  have le: "unat ?y \<le> unat ?x" using assms(3,4) s unfolding x y
    by (auto simp: word_less_nat_alt last_byte [OF assms(1)] last_byte [OF assms(2)])
  have d: "unat (?x - ?y) = unat ?x - unat ?y" using le by (simp add: unat_sub word_le_nat_alt)
  have "unat (?x - ?y) + 1 < 2 ^ 64" using s unfolding d x y by simp
  then have "unat ((?x - ?y) + 1) = unat (?x - ?y) + 1" by (subst unat_add_lem [THEN iffD1]) simp_all
  moreover have "?x + 1 - ?y = (?x - ?y) + 1" by (simp only: diff_add_eq)
  ultimately have "unat (?x + 1 - ?y) = unat ?x - unat ?y + 1" by (simp only: d)
  moreover have "unat ?x - unat ?y + 1 =
      min (unat (p_addr q) + p_size q) (unat (p_addr p) + p_size p) - max (unat (p_addr q)) (unat (p_addr p))"
    using le s unfolding x y by (auto simp: min_def max_def)
  ultimately show ?thesis by (simp only:)
qed

lemma offset_nat: "unat (if a < b then b - a else (0 :: u64)) = unat b - unat a"
  by (simp add: unat_sub word_less_nat_alt word_le_nat_alt)

lemma beyond:
  assumes "in_space p" "in_space q"
  shows "p_addr p > p_addr q + of_nat (p_size q) - 1 \<longleftrightarrow> unat (p_addr q) + p_size q \<le> unat (p_addr p)"
    "p_addr q > p_addr p + of_nat (p_size p) - 1 \<longleftrightarrow> unat (p_addr p) + p_size p \<le> unat (p_addr q)"
proof -
  have "0 < p_size p" "0 < p_size q" using assms by (auto simp: in_space_def)
  then show "p_addr p > p_addr q + of_nat (p_size q) - 1 \<longleftrightarrow> unat (p_addr q) + p_size q \<le> unat (p_addr p)"
    "p_addr q > p_addr p + of_nat (p_size p) - 1 \<longleftrightarrow> unat (p_addr p) + p_size p \<le> unat (p_addr q)"
    by (auto simp: word_less_nat_alt last_byte [OF assms(1)] last_byte [OF assms(2)])
qed

text \<open>A response that has no byte in common with the packet leaves it as it is.\<close>

lemma try_apart:
  assumes "in_space p" "in_space q" "\<not> p_is p IsPrint"
    and "p_secure q \<noteq> p_secure p \<or> unat (p_addr q) + p_size q \<le> unat (p_addr p) \<or> unat (p_addr p) + p_size p \<le> unat (p_addr q) \<or>
      \<not> p_is q HasData"
  shows "trySatisfyFunctional p valid q = Inr (p, valid, q, False)"
proof (cases "p_secure q \<noteq> p_secure p \<or> unat (p_addr q) + p_size q \<le> unat (p_addr p) \<or> unat (p_addr p) + p_size p \<le> unat (p_addr q)")
  case True
  then show ?thesis unfolding trySatisfyFunctional_def Let_def beyond [OF assms(1,2)] by (simp only: if_True)
next
  case False
  with assms(4) have "\<not> p_is q HasData" by blast
  with False assms(3) show ?thesis
    unfolding trySatisfyFunctional_def Let_def beyond [OF assms(1,2)] by (simp only: if_True if_False not_False_eq_True)
qed

text \<open>
  A response that shares bytes with the packet: \<open>k\<close> bytes from offset \<open>f\<close> of the packet and offset \<open>v\<close> of the response on.
\<close>

definition apart :: "packet \<Rightarrow> packet \<Rightarrow> bool" where
  "apart p q \<longleftrightarrow> p_secure q \<noteq> p_secure p \<or> unat (p_addr q) + p_size q \<le> unat (p_addr p) \<or>
     unat (p_addr p) + p_size p \<le> unat (p_addr q) \<or> \<not> p_is q HasData"

lemma apart_covers: "apart p q \<Longrightarrow> i < p_size p \<Longrightarrow> \<not> covers p q i"
  by (auto simp: apart_def covers_def)

lemma try_overlap:
  assumes "in_space p" "payload_ok q" "\<not> p_is p IsPrint" "\<not> apart p q" "p_size p \<le> length (p_data p)"
  obtains f k v where "f + k \<le> p_size p" "v + k \<le> p_size q" "length (p_data q) = p_size q"
    "\<And>i. i < p_size p \<Longrightarrow> covers p q i \<longleftrightarrow> f \<le> i \<and> i < f + k"
    "\<And>i. f \<le> i \<Longrightarrow> unat (p_addr p) + i - unat (p_addr q) = v + (i - f)"
    "\<And>valid. trySatisfyFunctional p valid q =
       (let bytesValid = (if valid = [] then replicate (p_size p) False else valid) in
        if p_is p IsRead then
          Inr (p\<lparr>p_data := overwrite (p_data p) f (take k (drop v (p_data q)))\<rparr>, overwrite bytesValid f (replicate k True), q,
            list_all id (take f bytesValid) \<and> list_all id (drop (f + k) bytesValid))
        else if p_is p IsWrite then Inr (p, valid, q\<lparr>p_data := overwrite (p_data q) v (take k (drop f (p_data p)))\<rparr>, False)
        else Inl Panic)"
proof -
  let ?A = "unat (p_addr p)" and ?B = "unat (p_addr q)" and ?n = "p_size p" and ?m = "p_size q"
  have q: "in_space q" using assms(2) by (simp add: payload_ok_def)
  note gt = beyond [OF assms(1) q]
  have meet: "p_secure q = p_secure p" "\<not> ?B + ?m \<le> ?A" "\<not> ?A + ?n \<le> ?B" "p_is q HasData" using assms(4) by (auto simp: apart_def)
  define v f k where "v = ?A - ?B" and "f = ?B - ?A" and "k = min (?B + ?m) (?A + ?n) - max ?B ?A"
  have k: "f + k \<le> ?n" "v + k \<le> ?m" using meet by (auto simp: v_def f_def k_def)
  have len: "length (p_data q) = ?m" using assms(2) meet(4) by (simp add: payload_ok_def)
  have e: "unat (min (p_addr q + of_nat ?m - 1) (p_addr p + of_nat ?n - 1) + 1 - max (p_addr q) (p_addr p)) = k"
    unfolding k_def by (rule overlap_nat [OF assms(1) q]) (use meet in \<open>simp_all add: gt\<close>)
  have room: "\<not> (length (p_data p) < f + k \<or> length (p_data q) < v + k)" using k len assms(5) by simp
  show thesis
  proof (rule that [OF k len])
    show "covers p q i \<longleftrightarrow> f \<le> i \<and> i < f + k" if "i < ?n" for i
      using meet that unfolding covers_def f_def k_def by (simp add: min_def max_def) linarith
    show "?A + i - ?B = v + (i - f)" if "f \<le> i" for i using that unfolding v_def f_def by arith
    show "trySatisfyFunctional p valid q =
       (let bytesValid = (if valid = [] then replicate (p_size p) False else valid) in
        if p_is p IsRead then
          Inr (p\<lparr>p_data := overwrite (p_data p) f (take k (drop v (p_data q)))\<rparr>, overwrite bytesValid f (replicate k True), q,
            list_all id (take f bytesValid) \<and> list_all id (drop (f + k) bytesValid))
        else if p_is p IsWrite then Inr (p, valid, q\<lparr>p_data := overwrite (p_data q) v (take k (drop f (p_data p)))\<rparr>, False)
        else Inl Panic)" for valid
      using meet assms(3) room
      unfolding trySatisfyFunctional_def Let_def gt e offset_nat v_def [symmetric] f_def [symmetric]
      by (simp only: if_True if_False not_False_eq_True de_Morgan_disj not_not simp_thms)
  qed
qed

text \<open>What the comparison does to a read, byte by byte.\<close>

definition known :: "bool list \<Rightarrow> nat \<Rightarrow> bool" where
  "known valid i \<longleftrightarrow> valid \<noteq> [] \<and> valid ! i"

lemma payload_space: "payload_ok q \<Longrightarrow> in_space q"
  by (simp add: payload_ok_def)

lemma overwrite_marks:
  assumes "f + k \<le> length bv" "0 < length bv"
  shows "length (overwrite bv f (replicate k True)) = length bv"
    "\<And>i. i < length bv \<Longrightarrow> known (overwrite bv f (replicate k True)) i \<longleftrightarrow> bv ! i \<or> f \<le> i \<and> i < f + k"
    "list_all id (take f bv) \<and> list_all id (drop (f + k) bv) \<Longrightarrow> \<forall>i < length bv. known (overwrite bv f (replicate k True)) i"
proof -
  show len: "length (overwrite bv f (replicate k True)) = length bv" using assms by (simp add: nth_overwrite(2) [of _ _ _ 0])
  then have "overwrite bv f (replicate k True) \<noteq> []" using assms(2) by auto
  then show kn: "known (overwrite bv f (replicate k True)) i \<longleftrightarrow> bv ! i \<or> f \<le> i \<and> i < f + k" if "i < length bv" for i
    using that assms(1) by (auto simp: known_def nth_overwrite)
  assume c: "list_all id (take f bv) \<and> list_all id (drop (f + k) bv)"
  have "bv ! i" if "i < length bv" "\<not> (f \<le> i \<and> i < f + k)" for i
  proof (cases "i < f")
    case True
    with c that(1) show ?thesis by (auto simp: list_all_length)
  next
    case False
    with that have "drop (f + k) bv ! (i - (f + k)) = bv ! i" "i - (f + k) < length (drop (f + k) bv)" by auto
    with c show ?thesis by (metis id_apply list_all_length)
  qed
  then show "\<forall>i < length bv. known (overwrite bv f (replicate k True)) i" using kn by blast
qed

lemma try_read:
  assumes "in_space p" "payload_ok q" "p_is p IsRead" "\<not> p_is p IsPrint" "length (p_data p) = p_size p"
    and "valid = [] \<or> length valid = p_size p"
  obtains p' valid' complete where "trySatisfyFunctional p valid q = Inr (p', valid', q, complete)"
    "p' = p\<lparr>p_data := p_data p'\<rparr>" "length (p_data p') = p_size p" "valid' = [] \<or> length valid' = p_size p"
    "\<And>i. i < p_size p \<Longrightarrow> p_data p' ! i = (if covers p q i then byte_of p q i else p_data p ! i)"
    "\<And>i. i < p_size p \<Longrightarrow> known valid' i \<longleftrightarrow> known valid i \<or> covers p q i"
    "complete \<Longrightarrow> \<forall>i < p_size p. known valid' i"
proof (cases "apart p q")
  case True
  show thesis
    by (rule that [of p valid False])
      (use assms(4-6) apart_covers [OF True] True in \<open>simp_all add: try_apart [OF assms(1) payload_space [OF assms(2)]] apart_def\<close>)
next
  case False
  let ?n = "p_size p"
  have le: "?n \<le> length (p_data p)" using assms(5) by simp
  obtain f k v where k: "f + k \<le> ?n" "v + k \<le> p_size q" "length (p_data q) = p_size q"
    and cov: "\<And>i. i < ?n \<Longrightarrow> covers p q i \<longleftrightarrow> f \<le> i \<and> i < f + k"
    and off: "\<And>i. f \<le> i \<Longrightarrow> unat (p_addr p) + i - unat (p_addr q) = v + (i - f)"
    and t: "\<And>valid. trySatisfyFunctional p valid q =
       (let bytesValid = (if valid = [] then replicate (p_size p) False else valid) in
        if p_is p IsRead then
          Inr (p\<lparr>p_data := overwrite (p_data p) f (take k (drop v (p_data q)))\<rparr>, overwrite bytesValid f (replicate k True), q,
            list_all id (take f bytesValid) \<and> list_all id (drop (f + k) bytesValid))
        else if p_is p IsWrite then Inr (p, valid, q\<lparr>p_data := overwrite (p_data q) v (take k (drop f (p_data p)))\<rparr>, False)
        else Inl Panic)"
    by (rule try_overlap [OF assms(1,2,4) False le]) (rule that)
  define bv where "bv = (if valid = [] then replicate ?n False else valid)"
  define d where "d = take k (drop v (p_data q))"
  have n: "0 < ?n" "length bv = ?n" "length d = k" using assms(1,6) k(2,3) by (auto simp: in_space_def bv_def d_def)
  have kv: "known valid i \<longleftrightarrow> bv ! i" if "i < ?n" for i using that by (auto simp: known_def bv_def)
  note mark = overwrite_marks [of f k bv, unfolded n(2), OF k(1) n(1)]
  show thesis
  proof (rule that)
    show "trySatisfyFunctional p valid q = Inr (p\<lparr>p_data := overwrite (p_data p) f d\<rparr>, overwrite bv f (replicate k True), q,
        list_all id (take f bv) \<and> list_all id (drop (f + k) bv))"
      using assms(3) by (simp only: t Let_def if_True bv_def d_def)
    show "length (p_data (p\<lparr>p_data := overwrite (p_data p) f d\<rparr>)) = ?n" using k(1) n assms(5) by (simp add: nth_overwrite(2) [of _ _ _ 0])
    show "overwrite bv f (replicate k True) = [] \<or> length (overwrite bv f (replicate k True)) = ?n" using mark(1) by simp
    fix i
    assume i: "i < ?n"
    show "p_data (p\<lparr>p_data := overwrite (p_data p) f d\<rparr>) ! i = (if covers p q i then byte_of p q i else p_data p ! i)"
      using i k n assms(5) by (auto simp: cov off nth_overwrite byte_of_def d_def)
    show "known (overwrite bv f (replicate k True)) i \<longleftrightarrow> known valid i \<or> covers p q i" using mark(2) i by (auto simp: cov kv)
  qed (use mark(3) in simp_all)
qed

section \<open>Reads\<close>

lemma satisfy_loop_read:
  assumes "in_space p" "\<forall>x \<in> set q. payload_ok (fst x)" "p_is p IsRead" "\<not> p_is p IsPrint" "length (p_data p) = p_size p"
    and "valid = [] \<or> length valid = p_size p"
  shows "\<exists>p' valid'. satisfy_loop p valid q = Inr (p', valid', q) \<and> p' = p\<lparr>p_data := p_data p'\<rparr> \<and> length (p_data p') = p_size p \<and>
    (\<forall>i < p_size p.
       p_data p' ! i = p_data p ! i \<and> (known valid i \<or> (\<forall>x \<in> set q. \<not> covers p (fst x) i)) \<or>
       (\<exists>x \<in> set q. covers p (fst x) i \<and> p_data p' ! i = byte_of p (fst x) i))"
  using assms
proof (induction q arbitrary: p valid)
  case Nil
  then show ?case by auto
next
  case (Cons x q)
  obtain r t where x: "x = (r, t)" by (cases x)
  have "payload_ok r" using Cons(3) by (simp add: x)
  from try_read [OF Cons(2) this Cons(4-7)] obtain p1 v1 complete where
    t: "trySatisfyFunctional p valid r = Inr (p1, v1, r, complete)"
    and p1: "p1 = p\<lparr>p_data := p_data p1\<rparr>" "length (p_data p1) = p_size p" and v1: "v1 = [] \<or> length v1 = p_size p"
    and b: "\<And>i. i < p_size p \<Longrightarrow> p_data p1 ! i = (if covers p r i then byte_of p r i else p_data p ! i)"
    and kn: "\<And>i. i < p_size p \<Longrightarrow> known v1 i \<longleftrightarrow> known valid i \<or> covers p r i"
    and all: "complete \<Longrightarrow> \<forall>i < p_size p. known v1 i" by blast
  have same: "covers p1 y i = covers p y i" "byte_of p1 y i = byte_of p y i" "in_space p1 = in_space p" "p_size p1 = p_size p"
    "p_cmd p1 = p_cmd p" for y i
    by (subst p1(1), simp add: covers_def byte_of_def in_space_def)+
  show ?case
  proof (cases complete)
    case True
    then have "satisfy_loop p valid (x # q) = Inr (p1, v1, x # q)" using t by (simp add: x)
    moreover have "p_data p1 ! i = p_data p ! i \<and> known valid i \<or> covers p r i \<and> p_data p1 ! i = byte_of p r i" if "i < p_size p" for i
      using b [OF that] kn [OF that] all [OF True] that by auto
    ultimately show ?thesis using p1 x by (intro exI [of _ p1] exI [of _ v1]) auto
  next
    case False
    have "\<forall>x \<in> set q. payload_ok (fst x)" using Cons(3) by simp
    with Cons(1) [of p1 v1] Cons(2,4,5) p1(2) v1 obtain p' v' where
      l: "satisfy_loop p1 v1 q = Inr (p', v', q)" "p' = p1\<lparr>p_data := p_data p'\<rparr>" "length (p_data p') = p_size p"
      and IH: "\<And>i. i < p_size p \<Longrightarrow>
        p_data p' ! i = p_data p1 ! i \<and> (known v1 i \<or> (\<forall>x \<in> set q. \<not> covers p (fst x) i)) \<or>
        (\<exists>x \<in> set q. covers p (fst x) i \<and> p_data p' ! i = byte_of p (fst x) i)"
      unfolding same by blast
    have "satisfy_loop p valid (x # q) = Inr (p', v', x # q)" using False t l(1) by (simp add: x)
    moreover have "p' = p\<lparr>p_data := p_data p'\<rparr>" by (subst l(2), subst p1(1)) simp
    moreover have "p_data p' ! i = p_data p ! i \<and> (known valid i \<or> (\<forall>y \<in> set (x # q). \<not> covers p (fst y) i)) \<or>
       (\<exists>y \<in> set (x # q). covers p (fst y) i \<and> p_data p' ! i = byte_of p (fst y) i)" if "i < p_size p" for i
      using IH [OF that] b [OF that] kn [OF that] by (cases "covers p r i") (auto simp: x)
    ultimately show ?thesis using l(3) by blast
  qed
qed

section \<open>Writes\<close>

lemma try_write:
  assumes "in_space p" "payload_ok q" "p_is p IsWrite" "\<not> p_is p IsRead" "\<not> p_is p IsPrint" "p_size p \<le> length (p_data p)"
  obtains q' where "trySatisfyFunctional p valid q = Inr (p, valid, q', False)"
    "q' = q\<lparr>p_data := p_data q'\<rparr>" "length (p_data q') = length (p_data q)"
    "\<And>i. i < p_size p \<Longrightarrow> covers p q i \<Longrightarrow> byte_of p q' i = p_data p ! i"
proof (cases "apart p q")
  case True
  show thesis
    by (rule that [of q])
      (use apart_covers [OF True] True in \<open>simp_all add: try_apart [OF assms(1) payload_space [OF assms(2)] assms(5)] apart_def\<close>)
next
  case False
  obtain f k v where k: "f + k \<le> p_size p" "v + k \<le> p_size q" "length (p_data q) = p_size q"
    and cov: "\<And>i. i < p_size p \<Longrightarrow> covers p q i \<longleftrightarrow> f \<le> i \<and> i < f + k"
    and off: "\<And>i. f \<le> i \<Longrightarrow> unat (p_addr p) + i - unat (p_addr q) = v + (i - f)"
    and t: "\<And>valid. trySatisfyFunctional p valid q =
       (let bytesValid = (if valid = [] then replicate (p_size p) False else valid) in
        if p_is p IsRead then
          Inr (p\<lparr>p_data := overwrite (p_data p) f (take k (drop v (p_data q)))\<rparr>, overwrite bytesValid f (replicate k True), q,
            list_all id (take f bytesValid) \<and> list_all id (drop (f + k) bytesValid))
        else if p_is p IsWrite then Inr (p, valid, q\<lparr>p_data := overwrite (p_data q) v (take k (drop f (p_data p)))\<rparr>, False)
        else Inl Panic)"
    by (rule try_overlap [OF assms(1,2,5) False assms(6)]) (rule that)
  have d: "length (take k (drop f (p_data p))) = k" using k(1) assms(6) by simp
  have q: "0 < p_size q" using assms(2) by (simp add: payload_ok_def in_space_def)
  show thesis
  proof (rule that)
    show "trySatisfyFunctional p valid q = Inr (p, valid, q\<lparr>p_data := overwrite (p_data q) v (take k (drop f (p_data p)))\<rparr>, False)"
      using assms(3,4) by (simp only: t Let_def if_True if_False)
    show "length (p_data (q\<lparr>p_data := overwrite (p_data q) v (take k (drop f (p_data p)))\<rparr>)) = length (p_data q)"
      using k(2,3) d q by (simp add: nth_overwrite(2) [of _ _ _ 0])
    show "byte_of p (q\<lparr>p_data := overwrite (p_data q) v (take k (drop f (p_data p)))\<rparr>) i = p_data p ! i" if "i < p_size p" "covers p q i" for i
    proof -
      have i: "f \<le> i" "i < f + k" using that cov by blast+
      then obtain j where j: "i = f + j" "j < k" by (metis le_iff_add nat_add_left_cancel_less)
      then have "overwrite (p_data q) v (take k (drop f (p_data p))) ! (v + j) = p_data p ! i"
        using nth_overwrite(1) [of v "take k (drop f (p_data p))" "p_data q" "v + j"] k d assms(6) by simp
      then show ?thesis using off [OF i(1)] j by (simp add: byte_of_def)
    qed
  qed simp
qed

lemma satisfy_loop_write:
  assumes "in_space p" "\<forall>x \<in> set q. payload_ok (fst x)" "p_is p IsWrite" "\<not> p_is p IsRead" "\<not> p_is p IsPrint" "p_size p \<le> length (p_data p)"
  shows "\<exists>q'. satisfy_loop p valid q = Inr (p, valid, q') \<and> (\<forall>x \<in> set q'. payload_ok (fst x)) \<and>
    (\<forall>x \<in> set q'. \<forall>i < p_size p. covers p (fst x) i \<longrightarrow> byte_of p (fst x) i = p_data p ! i)"
  using assms(2)
proof (induction q)
  case (Cons x q)
  obtain r t where x: "x = (r, t)" by (cases x)
  have r: "payload_ok r" using Cons(2) by (simp add: x)
  from try_write [OF assms(1) r assms(3-6)] obtain r' where t: "trySatisfyFunctional p valid r = Inr (p, valid, r', False)"
    and r': "r' = r\<lparr>p_data := p_data r'\<rparr>" "length (p_data r') = length (p_data r)"
    and b: "\<And>i. i < p_size p \<Longrightarrow> covers p r i \<Longrightarrow> byte_of p r' i = p_data p ! i" by blast
  have "covers p r' i = covers p r i" for i by (subst r'(1)) (simp add: covers_def)
  moreover have "payload_ok r'" using r r'(2) by (subst r'(1)) (simp add: payload_ok_def in_space_def)
  moreover from Cons obtain q' where "satisfy_loop p valid q = Inr (p, valid, q')" "\<forall>x \<in> set q'. payload_ok (fst x)"
    "\<forall>x \<in> set q'. \<forall>i < p_size p. covers p (fst x) i \<longrightarrow> byte_of p (fst x) i = p_data p ! i" by auto
  ultimately show ?case using t b by (intro exI [of _ "(r', t) # q'"]) (simp add: x)
qed simp

section \<open>Commands\<close>

lemma read_response:
  "testCmdAttrib c IsRead \<Longrightarrow> testCmdAttrib c NeedsResponse \<Longrightarrow>
     testCmdAttrib (responseCommand c) IsRead \<and> \<not> testCmdAttrib (responseCommand c) IsPrint"
  by (cases c) (simp_all add: testCmdAttrib_def responseCommand_def)

lemma write_response:
  "testCmdAttrib c IsWrite \<Longrightarrow> \<not> testCmdAttrib c IsRead \<Longrightarrow> testCmdAttrib c NeedsResponse \<Longrightarrow>
     testCmdAttrib (responseCommand c) IsWrite \<and> \<not> testCmdAttrib (responseCommand c) IsRead \<and>
     \<not> testCmdAttrib (responseCommand c) IsPrint"
  by (cases c) (simp_all add: testCmdAttrib_def responseCommand_def)

text \<open>A response carries data only when its request reads.\<close>

lemma data_response:
  "testCmdAttrib c NeedsResponse \<Longrightarrow> testCmdAttrib (responseCommand c) HasData \<Longrightarrow> testCmdAttrib c IsRead"
  by (cases c) (simp_all add: testCmdAttrib_def responseCommand_def)

definition ordinary :: "packet \<Rightarrow> bool" where
  "ordinary p \<longleftrightarrow> imc_dispatch (p_flags p) 0 [] [] = None"

lemma ordinary_dispatch: "ordinary p \<Longrightarrow> imc_dispatch (p_flags p) base mem data = None"
  by (auto simp: ordinary_def imc_dispatch_def split: if_splits)

section \<open>Handlers\<close>

lemma functional_read_run:
  assumes "p_is p IsRead" "p_is p NeedsResponse" "ordinary p" "range_subset s p" "in_space p"
    and "\<forall>x \<in> set (packetQueue s). payload_ok (fst x)"
  shows "\<exists>p' valid'. recvFunctional s p [] = Inr (s, p', valid') \<and> p_is p' IsResponse \<and> length (p_data p') = p_size p \<and>
    (\<forall>i < p_size p.
       if \<exists>x \<in> set (packetQueue s). covers p (fst x) i
       then \<exists>x \<in> set (packetQueue s). covers p (fst x) i \<and> p_data p' ! i = byte_of p (fst x) i
       else p_data p' ! i = store_bytes s p ! i)"
proof -
  let ?p = "p\<lparr>p_data := store_bytes s p, p_cmd := responseCommand (p_cmd p)\<rparr>"
  have acc: "functionalAccess s p = Inr (s, ?p)" using assms(1,2,4) by (simp add: functionalAccess_def makeResponse_ok)
  have same: "covers ?p y i = covers p y i" "byte_of ?p y i = byte_of p y i" "in_space ?p = in_space p" "p_size ?p = p_size p" for y i
    by (simp_all add: covers_def byte_of_def in_space_def)
  have cmd: "p_is ?p IsRead" "\<not> p_is ?p IsPrint" using read_response [OF assms(1,2)] by simp_all
  have "length (p_data ?p) = p_size ?p" using length_store_bytes [OF assms(4)] by simp
  with satisfy_loop_read [of ?p "packetQueue s" "[]"] assms(5,6) cmd obtain p' valid' where
    l: "satisfy_loop ?p [] (packetQueue s) = Inr (p', valid', packetQueue s)" "p' = ?p\<lparr>p_data := p_data p'\<rparr>" "length (p_data p') = p_size p"
    and b: "\<And>i. i < p_size p \<Longrightarrow>
       p_data p' ! i = store_bytes s p ! i \<and> (\<forall>x \<in> set (packetQueue s). \<not> covers p (fst x) i) \<or>
       (\<exists>x \<in> set (packetQueue s). covers p (fst x) i \<and> p_data p' ! i = byte_of p (fst x) i)"
    unfolding same by (auto simp: known_def)
  have "recvFunctional s p [] = Inr (s, p', valid')" using acc l(1) by (simp add: recvFunctional_def ordinary_dispatch [OF assms(3)])
  moreover have "p_is p' IsResponse" by (subst l(2)) (simp add: response_of_request [OF assms(2)])
  ultimately show ?thesis using l(3) b by auto
qed

lemma functional_write_run:
  assumes "p_is p IsWrite" "\<not> p_is p IsRead" "p_is p NeedsResponse" "ordinary p" "range_subset s p" "in_space p"
    and "p_size p \<le> length (p_data p)" "\<forall>x \<in> set (packetQueue s). payload_ok (fst x)"
  shows "\<exists>q'. recvFunctional s p [] =
      Inr ((put_bytes s (host_offset s p) (take (p_size p) (p_data p)))\<lparr>packetQueue := q'\<rparr>, p\<lparr>p_cmd := responseCommand (p_cmd p)\<rparr>, []) \<and>
    (\<forall>x \<in> set q'. payload_ok (fst x)) \<and>
    (\<forall>x \<in> set q'. \<forall>i < p_size p. covers p (fst x) i \<longrightarrow> byte_of p (fst x) i = p_data p ! i)"
proof -
  let ?p = "p\<lparr>p_cmd := responseCommand (p_cmd p)\<rparr>" and ?s = "put_bytes s (host_offset s p) (take (p_size p) (p_data p))"
  have acc: "functionalAccess s p = Inr (?s, ?p)" using assms(1-3,5,7) by (simp add: functionalAccess_def makeResponse_ok)
  have same: "covers ?p y i = covers p y i" "byte_of ?p y i = byte_of p y i" "in_space ?p = in_space p" "p_size ?p = p_size p"
    "p_data ?p = p_data p" for y i by (simp_all add: covers_def byte_of_def in_space_def)
  have cmd: "p_is ?p IsWrite" "\<not> p_is ?p IsRead" "\<not> p_is ?p IsPrint" using write_response [OF assms(1-3)] by simp_all
  have "packetQueue ?s = packetQueue s" by (simp add: put_bytes_def)
  with satisfy_loop_write [of ?p "packetQueue s" "[]", unfolded same, OF assms(6,8) cmd assms(7)] acc show ?thesis
    by (auto simp: recvFunctional_def ordinary_dispatch [OF assms(4)])
qed

lemma writeOK_packet:
  assumes "writeOK s p = (ok, s', p')" shows "p_addr p' = p_addr p" "p_size p' = p_size p"
  using assms by (auto simp: writeOK_def checkLockedAddrList_def Let_def split: if_splits)

lemma access_arm_payload:
  assumes "access_arm s p = Inr (s', p')" "range_subset s p"
  shows "p_addr p' = p_addr p \<and> p_size p' = p_size p \<and> (p_is p IsRead \<longrightarrow> length (p_data p') = p_size p)"
proof -
  have swap: ?thesis if "access_swap s p = Inr (s', p')"
    using that length_store_bytes [OF assms(2)] by (auto simp: access_swap_def Let_def split: if_splits option.splits)
  have read: ?thesis if "access_read s p = Inr (s', p')"
    using that length_store_bytes [OF assms(2)] by (auto simp: access_read_def Let_def split: if_splits)
  have "p_addr p' = p_addr p \<and> p_size p' = p_size p" if "access_write s p = Inr (s', p')"
    using that by (auto simp: access_write_def dest: writeOK_packet split: if_splits prod.splits)
  with swap read assms(1) show ?thesis by (auto simp: access_arm_def rbind_Inr_iff split: if_splits)
qed

lemma mem_access_payload:
  assumes "mem_access s p = Inr (s', p')" "p_is p NeedsResponse" "\<not> p_cacheResponding p" "in_space p"
  shows "payload_ok p'"
proof -
  have no: "p_cmd p \<noteq> CleanEvict" "p_cmd p \<noteq> WritebackClean" using assms(2) by (auto simp: testCmdAttrib_def)
  with assms(1,3) obtain s1 p1 where range: "range_subset s p" and arm: "access_arm s p = Inr (s1, p1)"
    and resp: "(if p_is p1 NeedsResponse then rbind (makeResponse p1) (\<lambda>p''. Inr (s1, p'')) else Inr (s1, p1)) = Inr (s', p')"
    by (auto simp: mem_access_def rbind_Inr_iff split: if_splits)
  have cmd: "p_cmd p1 = p_cmd p" using access_arm_frame [OF arm range] by simp
  with resp assms(2) have p': "p' = p1\<lparr>p_cmd := responseCommand (p_cmd p)\<rparr>"
    by (auto simp: rbind_Inr_iff dest!: makeResponse_Inr)
  show ?thesis using access_arm_payload [OF arm range] data_response [OF assms(2)] assms(4)
    by (simp add: p' payload_ok_def in_space_def)
qed

text \<open>The responses that timing requests queue carry their whole payload.\<close>

lemma recvTimingReq_payloads:
  assumes "recvTimingReq s p lat = Inr (s', ok)" "in_space p" "\<forall>x \<in> set (packetQueue s). payload_ok (fst x)"
  shows "\<forall>x \<in> set (packetQueue s'). payload_ok (fst x)"
proof -
  have frame: "packetQueue s1 = packetQueue s2" if "mem_access s2 p1 = Inr (s1, p2)" "\<not> p_cacheResponding p1" for s1 s2 p1 p2
    using mem_access_frame(1) [OF that] by (auto simp: store_update_def)
  have access: "\<forall>x \<in> set (packetQueue s2). payload_ok (fst x)"
    if "timing_access s1 p1 d lat = Inr s2" "in_space p1" "\<forall>x \<in> set (packetQueue s1). payload_ok (fst x)" for s1 p1 d s2
    using that frame mem_access_payload
    by (fastforce simp: timing_access_def recvAtomic_def rbind_Inr_iff Let_def set_queue_insert schedule_dequeue_def split: if_splits prod.splits)
  show ?thesis
  proof (cases "imc_dispatch (p_flags p) (rangeStart s) (pmem s) (p_data p)")
    case None
    let ?p = "p\<lparr>p_headerDelay := 0, p_payloadDelay := 0\<rparr>"
    from None assms(1) have "packetQueue s' = packetQueue s \<or>
        (\<exists>s1 d. packetQueue s1 = packetQueue s \<and> timing_access s1 ?p d lat = Inr s')"
      by (auto simp: recvTimingReq_def Let_def rbind_Inr_iff schedule_release_def split: if_splits)
    moreover have "in_space ?p" using assms(2) by (simp add: in_space_def)
    ultimately show ?thesis using access assms(3) by metis
  next
    case (Some r)
    with assms show ?thesis by (auto simp: recvTimingReq_def Let_def rbind_Inr_iff schedule_release_def split: if_splits)
  qed
qed

section \<open>Samples\<close>

text \<open>
  The state after a timing read of a cell that held 5 and a timing write of 7 to it, on a memory that is never busy: the response
  of the read is still queued.
\<close>

definition stale_ctrl :: mem_ctrl where
  "stale_ctrl = (sample_ctrl [7, 9, 11, 0])\<lparr>duration := \<lambda>n. 0, dequeueEvent := Some 3,
     packetQueue := [(sample_packet ReadResp 0 0x100 (le_bytes 8 5), 3), (sample_packet WriteResp 0 0x100 (le_bytes 8 7), 3)],
     queuedResps := [sample_packet ReadResp 0 0x100 (le_bytes 8 5), sample_packet WriteResp 0 0x100 (le_bytes 8 7)]\<rparr>"

lemmas sample_run_defs = sample_ctrl_def sample_packet_def recvTimingReq_def Let_def imc_dispatch_def flag_isSet_def timing_access_def
  recvAtomic_def mem_access_def range_subset_def access_arm_def access_write_def access_read_def writeOK_def req_isInstFetch_def
  testCmdAttrib_def makeResponse_def responseCommand_def queue_insert_def schedule_dequeue_def put_bytes_def store_bytes_def host_offset_def

lemma stale_run:
  "\<exists>s. recvTimingReq ((sample_ctrl [5, 9, 11, 0])\<lparr>duration := \<lambda>n. 0\<rparr>) (sample_packet ReadReq 0 0x100 (replicate 8 0)) 3 = Inr (s, True) \<and>
     recvTimingReq s (sample_packet WriteReq 0 0x100 (le_bytes 8 7)) 3 = Inr (stale_ctrl, True)"
  by (simp add: stale_ctrl_def sample_run_defs)

lemma stale_payloads: "\<forall>x \<in> set (packetQueue stale_ctrl). payload_ok (fst x)"
  by (simp add: stale_ctrl_def sample_packet_def payload_ok_def in_space_def)

lemma sample_access:
  assumes "length d = 8"
  shows "ordinary (sample_packet c 0 0x100 d)" "range_subset stale_ctrl (sample_packet c 0 0x100 d)" "in_space (sample_packet c 0 0x100 d)"
  using assms by (simp_all add: ordinary_def imc_dispatch_def flag_isSet_def sample_packet_def stale_ctrl_def sample_ctrl_def range_subset_def in_space_def)

section \<open>Properties\<close>

text \<open>
  C39. What a functional write stores, a functional read of the same bytes returns, whatever responses are queued: the write
  also reaches the queued responses that the read prefers to the store.
\<close>

theorem functional_write_then_read:
  assumes "p_is w IsWrite" "\<not> p_is w IsRead" "p_is w NeedsResponse" "ordinary w" "range_subset s w" "in_space w"
    and "p_size w \<le> length (p_data w)" "\<forall>x \<in> set (packetQueue s). payload_ok (fst x)"
    and "p_is r IsRead" "p_is r NeedsResponse" "ordinary r"
    and "p_addr r = p_addr w" "p_size r = p_size w" "p_secure r = p_secure w"
  shows "\<exists>s1 w' r' valid. recvFunctional s w [] = Inr (s1, w', []) \<and> recvFunctional s1 r [] = Inr (s1, r', valid) \<and>
    p_data r' = take (p_size w) (p_data w)"
proof -
  let ?d = "take (p_size w) (p_data w)"
  from functional_write_run [OF assms(1-8)] obtain q' where
    run: "recvFunctional s w [] = Inr ((put_bytes s (host_offset s w) ?d)\<lparr>packetQueue := q'\<rparr>, w\<lparr>p_cmd := responseCommand (p_cmd w)\<rparr>, [])"
    and ok: "\<forall>x \<in> set q'. payload_ok (fst x)"
    and new: "\<forall>x \<in> set q'. \<forall>i < p_size w. covers w (fst x) i \<longrightarrow> byte_of w (fst x) i = p_data w ! i" by blast
  let ?s = "(put_bytes s (host_offset s w) ?d)\<lparr>packetQueue := q'\<rparr>"
  have len: "length ?d = p_size w" using assms(7) by simp
  note off = host_offset_range [OF assms(5)]
  have same: "covers r y i = covers w y i" "byte_of r y i = byte_of w y i" "in_space r = in_space w" for y i
    using assms(12-14) by (simp_all add: covers_def byte_of_def in_space_def)
  have range: "range_subset ?s r" using assms(5,12,13) off len by (simp add: range_subset_def put_bytes_def)
  have store: "store_bytes ?s r = ?d"
    using assms(12,13) off len by (simp add: store_bytes_def host_offset_def put_bytes_def)
  have queue: "packetQueue ?s = q'" by simp
  from functional_read_run [OF assms(9-11) range, unfolded same queue store assms(13), OF assms(6) ok] obtain r' valid where
    read: "recvFunctional ?s r [] = Inr (?s, r', valid)" "length (p_data r') = p_size w"
    and b: "\<And>i. i < p_size w \<Longrightarrow> if \<exists>x \<in> set q'. covers w (fst x) i
       then \<exists>x \<in> set q'. covers w (fst x) i \<and> p_data r' ! i = byte_of w (fst x) i else p_data r' ! i = ?d ! i"
    by blast
  have "p_data r' ! i = ?d ! i" if "i < p_size w" for i
    using b [OF that] new that len by (auto split: if_splits)
  then have "p_data r' = ?d" using read(2) len by (intro nth_equalityI) simp_all
  with run read(1) show ?thesis by blast
qed

theorem functional_write_then_read_witness:
  "\<exists>s1 w' r' valid. recvFunctional stale_ctrl (sample_packet WriteReq 0 0x100 (le_bytes 8 3)) [] = Inr (s1, w', []) \<and>
     recvFunctional s1 (sample_packet ReadReq 0 0x100 (replicate 8 0)) [] = Inr (s1, r', valid) \<and> p_data r' = le_bytes 8 3"
proof -
  let ?w = "sample_packet WriteReq 0 0x100 (le_bytes 8 3)" and ?r = "sample_packet ReadReq 0 0x100 (replicate 8 0)"
  have f: "p_is ?w IsWrite" "\<not> p_is ?w IsRead" "p_is ?w NeedsResponse" "p_size ?w \<le> length (p_data ?w)" "p_is ?r IsRead" "p_is ?r NeedsResponse"
    "p_addr ?r = p_addr ?w" "p_size ?r = p_size ?w" "p_secure ?r = p_secure ?w" "take (p_size ?w) (p_data ?w) = le_bytes 8 3"
    by (simp_all add: sample_packet_def testCmdAttrib_def)
  have a: "ordinary ?w" "range_subset stale_ctrl ?w" "in_space ?w" "ordinary ?r" by (rule sample_access; simp)+
  show ?thesis
    by (rule functional_write_then_read [OF f(1-3) a(1-3) f(4) stale_payloads f(5,6) a(4) f(7-9), unfolded f(10)])
qed

text \<open>
  C40. A functional read prefers the queue to the store: it returns, for every byte, the byte of a queued response that carries it,
  and the byte of the store only when no queued response does. A response that waits since before a later write makes the
  read return the old byte.
\<close>

theorem functional_read_prefers_queue:
  assumes "p_is p IsRead" "p_is p NeedsResponse" "ordinary p" "range_subset s p" "in_space p"
    and "\<forall>x \<in> set (packetQueue s). payload_ok (fst x)"
  shows "\<exists>p' valid'. recvFunctional s p [] = Inr (s, p', valid') \<and> p_is p' IsResponse \<and> length (p_data p') = p_size p \<and>
    (\<forall>i < p_size p.
       if \<exists>x \<in> set (packetQueue s). covers p (fst x) i
       then \<exists>x \<in> set (packetQueue s). covers p (fst x) i \<and> p_data p' ! i = byte_of p (fst x) i
       else p_data p' ! i = store_bytes s p ! i)"
  by (rule functional_read_run [OF assms])

theorem functional_read_prefers_queue_witness:
  "store_bytes stale_ctrl (sample_packet ReadReq 0 0x100 (replicate 8 0)) = le_bytes 8 7 \<and>
   (\<exists>p' valid'. recvFunctional stale_ctrl (sample_packet ReadReq 0 0x100 (replicate 8 0)) [] = Inr (stale_ctrl, p', valid') \<and>
      p_data p' = le_bytes 8 5)"
proof -
  let ?p = "sample_packet ReadReq 0 0x100 (replicate 8 0)" and ?q = "sample_packet ReadResp 0 0x100 (le_bytes 8 5)"
  have f: "p_is ?p IsRead" "p_is ?p NeedsResponse" by (simp_all add: sample_packet_def testCmdAttrib_def)
  have a: "ordinary ?p" "range_subset stale_ctrl ?p" "in_space ?p" by (rule sample_access; simp)+
  have n: "p_size ?p = 8" by (simp add: sample_packet_def)
  have c: "(\<exists>x \<in> set (packetQueue stale_ctrl). covers ?p (fst x) i \<and> P x) \<longleftrightarrow> P (?q, 3)" if "i < 8" for i P
    using that by (simp add: stale_ctrl_def covers_def sample_packet_def testCmdAttrib_def)
  have b: "byte_of ?p ?q i = le_bytes 8 5 ! i" for i by (simp add: byte_of_def sample_packet_def)
  from functional_read_prefers_queue [OF f a stale_payloads] obtain p' valid' where
    r: "recvFunctional stale_ctrl ?p [] = Inr (stale_ctrl, p', valid')" "length (p_data p') = 8"
    "\<And>i. i < 8 \<Longrightarrow> p_data p' ! i = le_bytes 8 5 ! i"
    unfolding n using c [of _ "\<lambda>x. True"] c b by (auto split: if_splits)
  then have "p_data p' = le_bytes 8 5" by (intro nth_equalityI) simp_all
  moreover have "store_bytes stale_ctrl ?p = le_bytes 8 7"
    by (simp add: store_bytes_def host_offset_def stale_ctrl_def sample_ctrl_def sample_packet_def)
  ultimately show ?thesis using r(1) by blast
qed

end
