(* ===== verification/Riscv_Ext.thy ===== *)
theory Riscv_Ext
  imports Imc_Prelude "HOL-Library.List_Lexorder" "HOL-Library.Product_Lexorder"
begin

text \<open>
  The sorted list of ISA extensions that the assembler, the linker and the disassembler keep
  (\<^verbatim>\<open>bfd/elfxx-riscv.c\<close>): the order of extension names, the search in the list, insertion and removal. The order
  is shown to be that of a key, and the list operations to be those of a set of keys.

  A read outside \<^verbatim>\<open>riscv_ext_order\<close> is undefined behaviour and is modelled as a fault.
\<close>

section \<open>Characters\<close>

definition ISDIGIT :: "char \<Rightarrow> bool" where
  "ISDIGIT c \<longleftrightarrow> 48 \<le> (of_char c :: int) \<and> (of_char c :: int) \<le> 57"

definition ISUPPER :: "char \<Rightarrow> bool" where
  "ISUPPER c \<longleftrightarrow> 65 \<le> (of_char c :: int) \<and> (of_char c :: int) \<le> 90"

text \<open>The code of a letter, in lower case.\<close>

definition tolower :: "char \<Rightarrow> int" where
  "tolower c = (if ISUPPER c then of_char c + 32 else of_char c)"

fun strcasecmp :: "string \<Rightarrow> string \<Rightarrow> int" where
  "strcasecmp [] [] = 0"
| "strcasecmp [] (d # ds) = - tolower d"
| "strcasecmp (c # cs) [] = tolower c"
| "strcasecmp (c # cs) (d # ds) =
     (if tolower c = tolower d then strcasecmp cs ds else tolower c - tolower d)"

section \<open>Classes and order of extensions\<close>

datatype riscv_prefix_ext_class =
    RV_ISA_CLASS_Z
  | RV_ISA_CLASS_S
  | RV_ISA_CLASS_ZXM
  | RV_ISA_CLASS_X
  | RV_ISA_CLASS_SINGLE

fun class_number :: "riscv_prefix_ext_class \<Rightarrow> int" where
  "class_number RV_ISA_CLASS_Z = 1"
| "class_number RV_ISA_CLASS_S = 2"
| "class_number RV_ISA_CLASS_ZXM = 3"
| "class_number RV_ISA_CLASS_X = 4"
| "class_number RV_ISA_CLASS_SINGLE = 5"

definition parse_config :: "(riscv_prefix_ext_class \<times> string) list" where
  "parse_config =
     [(RV_ISA_CLASS_ZXM, ''zxm''), (RV_ISA_CLASS_Z, ''z''), (RV_ISA_CLASS_S, ''s''), (RV_ISA_CLASS_X, ''x'')]"

definition riscv_get_prefix_class :: "string \<Rightarrow> riscv_prefix_ext_class" where
  "riscv_get_prefix_class arch =
     (case find (\<lambda>(c, p). take (length p) arch = p) parse_config of
        Some (c, p) \<Rightarrow> c
      | None \<Rightarrow> RV_ISA_CLASS_SINGLE)"

definition riscv_ext_canonical_order :: string where
  "riscv_ext_canonical_order = ''eigmafdqlcbkjtpvnh''"

definition riscv_init_ext_order :: "int list" where
  "riscv_init_ext_order =
     snd (fold (\<lambda>c (order, a). (order + 1, a[nat (of_char c - 97) := order]))
       riscv_ext_canonical_order (1, replicate 26 0))"

text \<open>The access \<^verbatim>\<open>riscv_ext_order[(*s - 'a')]\<close>.\<close>

definition ext_order :: "string \<Rightarrow> int run" where
  "ext_order s =
     (let i = (case s of [] \<Rightarrow> 0 | c # cs \<Rightarrow> of_char c) - 97
      in if 0 \<le> i \<and> i < 26 then Inr (riscv_init_ext_order ! nat i) else Inl Out_of_range)"

definition riscv_compare_subsets :: "string \<Rightarrow> string \<Rightarrow> int run" where
  "riscv_compare_subsets subset1 subset2 =
     rbind (ext_order subset1) (\<lambda>o1. rbind (ext_order subset2) (\<lambda>o2.
       if o1 > 0 \<and> o2 > 0 then Inr (o1 - o2)
       else
         let class1 = riscv_get_prefix_class subset1;
             class2 = riscv_get_prefix_class subset2;
             order1 = (if class1 \<noteq> RV_ISA_CLASS_SINGLE then - class_number class1 else o1);
             order2 = (if class2 \<noteq> RV_ISA_CLASS_SINGLE then - class_number class2 else o2)
         in if order1 = order2 then
              (if class1 = RV_ISA_CLASS_Z then
                 rbind (ext_order (tl subset1)) (\<lambda>z1. rbind (ext_order (tl subset2)) (\<lambda>z2.
                   if z1 \<noteq> z2 then Inr (z1 - z2)
                   else Inr (strcasecmp (tl (tl subset1)) (tl (tl subset2)))))
               else Inr (strcasecmp (tl subset1) (tl subset2)))
            else Inr (order2 - order1)))"

section \<open>The list of extensions\<close>

record riscv_subset =
  sub_name :: string
  major_version :: int
  minor_version :: int

text \<open>
  The list hangs from \<^verbatim>\<open>head\<close>; \<^verbatim>\<open>tail\<close> is its last node. The out-parameter \<^verbatim>\<open>current\<close> is the position of a node,
  or \<^verbatim>\<open>NULL\<close>.
\<close>

fun lookup_loop :: "riscv_subset list \<Rightarrow> string \<Rightarrow> nat option \<Rightarrow> nat \<Rightarrow> (bool \<times> nat option) run" where
  "lookup_loop [] name pre_s i = Inr (False, pre_s)"
| "lookup_loop (s # ss) name pre_s i =
     rbind (riscv_compare_subsets (sub_name s) name) (\<lambda>cmp.
       if cmp = 0 then Inr (True, Some i)
       else if cmp > 0 then Inr (False, pre_s)
       else lookup_loop ss name (Some i) (Suc i))"

definition riscv_lookup_subset :: "riscv_subset list \<Rightarrow> string \<Rightarrow> (bool \<times> nat option) run" where
  "riscv_lookup_subset subset_list name =
     (if subset_list \<noteq> [] then
        rbind (riscv_compare_subsets (sub_name (last subset_list)) name) (\<lambda>cmp.
          if cmp < 0 then Inr (False, Some (length subset_list - 1))
          else lookup_loop subset_list name None 0)
      else lookup_loop subset_list name None 0)"

definition riscv_add_subset :: "riscv_subset list \<Rightarrow> string \<Rightarrow> int \<Rightarrow> int \<Rightarrow> riscv_subset list run" where
  "riscv_add_subset subset_list name major minor =
     rbind (riscv_lookup_subset subset_list name) (\<lambda>(found, current).
       if found then Inr subset_list
       else
         let new = \<lparr>sub_name = name, major_version = major, minor_version = minor\<rparr>
         in Inr (case current of
              Some i \<Rightarrow> take (Suc i) subset_list @ new # drop (Suc i) subset_list
            | None \<Rightarrow> new # subset_list))"

fun riscv_remove_subset :: "riscv_subset list \<Rightarrow> string \<Rightarrow> riscv_subset list" where
  "riscv_remove_subset [] name = []"
| "riscv_remove_subset (s # ss) name =
     (if sub_name s = name then ss else s # riscv_remove_subset ss name)"

definition riscv_subset_supports :: "riscv_subset list \<Rightarrow> string \<Rightarrow> bool run" where
  "riscv_subset_supports subset_list feature = rbind (riscv_lookup_subset subset_list feature) (\<lambda>r. Inr (fst r))"

section \<open>Keys\<close>

lemma riscv_init_ext_order_code [code]:
  "riscv_init_ext_order =
     [5, 11, 10, 7, 1, 6, 3, 18, 2, 13, 12, 9, 4, 17, 0, 15, 8, 0, 0, 14, 0, 16, 0, 0, 0, 0]"
  by (simp add: riscv_init_ext_order_def riscv_ext_canonical_order_def numeral_nat)

text \<open>A name that the comparison can read: both its order and, for a \<^verbatim>\<open>z\<close> extension, that of its second letter.\<close>

definition wf_ext :: "string \<Rightarrow> bool" where
  "wf_ext s \<longleftrightarrow>
     (\<exists>v. ext_order s = Inr v) \<and>
     (riscv_get_prefix_class s = RV_ISA_CLASS_Z \<longrightarrow> (\<exists>v. ext_order (tl s) = Inr v)) \<and>
     CHR 0x00 \<notin> set s"

definition order_of :: "string \<Rightarrow> int" where
  "order_of s = (case ext_order s of Inr v \<Rightarrow> v | Inl e \<Rightarrow> 0)"

definition ext_key :: "string \<Rightarrow> int \<times> int \<times> int list" where
  "ext_key s =
     (case riscv_get_prefix_class s of
        RV_ISA_CLASS_SINGLE \<Rightarrow>
          (if order_of s > 0 then (order_of s, 0, []) else (100, 0, map tolower (tl s)))
      | RV_ISA_CLASS_Z \<Rightarrow> (101, order_of (tl s), map tolower (tl (tl s)))
      | c \<Rightarrow> (100 + class_number c, 0, map tolower (tl s)))"

lemma ext_order_wf: "wf_ext s \<Longrightarrow> ext_order s = Inr (order_of s)"
  by (auto simp: wf_ext_def order_of_def)

lemma ext_order_tl_wf:
  "wf_ext s \<Longrightarrow> riscv_get_prefix_class s = RV_ISA_CLASS_Z \<Longrightarrow> ext_order (tl s) = Inr (order_of (tl s))"
  by (auto simp: wf_ext_def order_of_def)

lemma order_of_range: "0 \<le> order_of s \<and> order_of s \<le> 18"
proof -
  have "\<forall>v \<in> set riscv_init_ext_order. 0 \<le> v \<and> v \<le> 18"
    by (simp add: riscv_init_ext_order_code)
  moreover have "length riscv_init_ext_order = 26"
    by (simp add: riscv_init_ext_order_code)
  ultimately show ?thesis
    by (auto simp: order_of_def ext_order_def Let_def split: list.splits)
qed

lemma prefix_class_order:
  "riscv_get_prefix_class s \<noteq> RV_ISA_CLASS_SINGLE \<Longrightarrow> order_of s = 0"
  by (cases s)
    (auto simp: riscv_get_prefix_class_def parse_config_def order_of_def ext_order_def riscv_init_ext_order_code
      split: if_splits)

lemma tolower_pos: "c \<noteq> CHR 0x00 \<Longrightarrow> 0 < tolower c"
proof -
  assume c: "c \<noteq> CHR 0x00"
  have "(of_char c :: nat) \<noteq> of_char (CHR 0x00)" using c by (simp only: of_char_eq_iff not_False_eq_True)
  then have "0 < (of_char c :: nat)" by simp
  then have "0 < (of_char c :: int)" by (metis of_nat_0_less_iff of_nat_of_char)
  then show ?thesis by (simp add: tolower_def)
qed

lemma strcasecmp_sign:
  "CHR 0x00 \<notin> set s \<Longrightarrow> CHR 0x00 \<notin> set t \<Longrightarrow>
     (strcasecmp s t < 0 \<longleftrightarrow> map tolower s < map tolower t) \<and> (strcasecmp s t = 0 \<longleftrightarrow> map tolower s = map tolower t)"
proof (induction s t rule: strcasecmp.induct)
  case (2 d ds)
  then show ?case using tolower_pos [of d] by auto
next
  case (3 c cs)
  then show ?case using tolower_pos [of c] by auto
qed auto

lemma no_nul_tl: "CHR 0x00 \<notin> set s \<Longrightarrow> CHR 0x00 \<notin> set (tl s)"
  by (cases s) auto

text \<open>The comparison of two readable names is the order of their keys.\<close>

lemma compare_subsets_key:
  assumes "wf_ext s" "wf_ext t"
  obtains d where "riscv_compare_subsets s t = Inr d"
    "d < 0 \<longleftrightarrow> ext_key s < ext_key t" "d = 0 \<longleftrightarrow> ext_key s = ext_key t"
proof -
  have nul: "CHR 0x00 \<notin> set (tl s)" "CHR 0x00 \<notin> set (tl t)"
    "CHR 0x00 \<notin> set (tl (tl s))" "CHR 0x00 \<notin> set (tl (tl t))"
    using assms by (auto simp: wf_ext_def intro!: no_nul_tl)
  note r = order_of_range [of s] order_of_range [of t] prefix_class_order [of s] prefix_class_order [of t]
  have "\<exists>d. riscv_compare_subsets s t = Inr d \<and> (d < 0 \<longleftrightarrow> ext_key s < ext_key t) \<and> (d = 0 \<longleftrightarrow> ext_key s = ext_key t)"
    using r strcasecmp_sign [OF nul(1,2)] strcasecmp_sign [OF nul(3,4)] assms
    by (cases "riscv_get_prefix_class s"; cases "riscv_get_prefix_class t")
      (auto simp: riscv_compare_subsets_def ext_key_def Let_def ext_order_wf ext_order_tl_wf)
  then show thesis using that by blast
qed

section \<open>The list as a set of keys\<close>

abbreviation node_key :: "riscv_subset \<Rightarrow> int \<times> int \<times> int list" where
  "node_key s \<equiv> ext_key (sub_name s)"

abbreviation ext_keys :: "riscv_subset list \<Rightarrow> (int \<times> int \<times> int list) set" where
  "ext_keys L \<equiv> node_key ` set L"

text \<open>The invariant: readable names, in strictly ascending order.\<close>

definition subsets_ok :: "riscv_subset list \<Rightarrow> bool" where
  "subsets_ok L \<longleftrightarrow> (\<forall>s \<in> set L. wf_ext (sub_name s)) \<and> sorted_wrt (\<lambda>s t. node_key s < node_key t) L"

lemma subsets_ok_Nil [simp]: "subsets_ok []"
  by (simp add: subsets_ok_def)

lemma subsets_ok_Cons:
  "subsets_ok (s # L) \<longleftrightarrow> wf_ext (sub_name s) \<and> (\<forall>t \<in> set L. node_key s < node_key t) \<and> subsets_ok L"
  by (auto simp: subsets_ok_def)

lemma subsets_ok_append:
  "subsets_ok (K @ L) \<longleftrightarrow> subsets_ok K \<and> subsets_ok L \<and> (\<forall>s \<in> set K. \<forall>t \<in> set L. node_key s < node_key t)"
  by (auto simp: subsets_ok_def sorted_wrt_append)

abbreviation below :: "string \<Rightarrow> riscv_subset list \<Rightarrow> nat" where
  "below n L \<equiv> length (takeWhile (\<lambda>s. node_key s < ext_key n) L)"

lemma lookup_loop_spec:
  assumes "subsets_ok L" "wf_ext n"
  shows "lookup_loop L n pre i =
     Inr (if ext_key n \<in> ext_keys L then (True, Some (i + below n L))
          else (False, if below n L = 0 then pre else Some (i + below n L - 1)))"
  using assms(1)
proof (induction L arbitrary: pre i)
  case Nil
  show ?case by simp
next
  case (Cons s L)
  then have s: "wf_ext (sub_name s)" and L: "subsets_ok L" "\<forall>t \<in> set L. node_key s < node_key t"
    by (auto simp: subsets_ok_Cons)
  obtain d where d: "riscv_compare_subsets (sub_name s) n = Inr d"
    "d < 0 \<longleftrightarrow> node_key s < ext_key n" "d = 0 \<longleftrightarrow> node_key s = ext_key n"
    using s assms(2) by (rule compare_subsets_key)
  consider "d = 0" | "d > 0" | "d < 0" by linarith
  then show ?case
  proof cases
    case 1
    with d show ?thesis by auto
  next
    case 2
    with d have "ext_key n < node_key s" by (metis less_irrefl neqE order_less_not_sym)
    with L have "ext_key n \<notin> ext_keys L" by (auto dest: less_trans)
    with 2 d show ?thesis by auto
  next
    case 3
    with d Cons.IH [OF L(1)] show ?thesis by auto
  qed
qed

lemma lookup_spec:
  assumes ok: "subsets_ok L" and wf: "wf_ext n"
  shows "riscv_lookup_subset L n =
     Inr (if ext_key n \<in> ext_keys L then (True, Some (below n L))
          else (False, if below n L = 0 then None else Some (below n L - 1)))"
proof (cases "L = []")
  case True
  then show ?thesis by (simp add: riscv_lookup_subset_def)
next
  case False
  then obtain K l where L: "L = K @ [l]" by (metis append_butlast_last_id)
  with ok have l: "wf_ext (sub_name l)" "\<forall>t \<in> set K. node_key t < node_key l"
    by (auto simp: subsets_ok_append subsets_ok_Cons)
  obtain d where d: "riscv_compare_subsets (sub_name l) n = Inr d" "d < 0 \<longleftrightarrow> node_key l < ext_key n"
    using l(1) wf by (rule compare_subsets_key)
  show ?thesis
  proof (cases "d < 0")
    case True
    with d l have less: "\<forall>t \<in> set L. node_key t < ext_key n" by (auto simp: L dest: less_trans)
    then have "takeWhile (\<lambda>s. node_key s < ext_key n) L = L" by (simp add: takeWhile_eq_all_conv)
    moreover have "ext_key n \<notin> ext_keys L" using less by auto
    ultimately show ?thesis using True d by (simp add: riscv_lookup_subset_def L)
  next
    case False
    with d show ?thesis
      using lookup_loop_spec [OF ok wf, of None 0] by (simp add: riscv_lookup_subset_def L)
  qed
qed

lemma supports_spec:
  "subsets_ok L \<Longrightarrow> wf_ext n \<Longrightarrow> riscv_subset_supports L n = Inr (ext_key n \<in> ext_keys L)"
  by (simp add: riscv_subset_supports_def lookup_spec)

text \<open>Insertion puts the new node between the smaller and the greater ones.\<close>

lemma add_spec:
  assumes ok: "subsets_ok L" and wf: "wf_ext n"
  shows "riscv_add_subset L n ma mi =
     Inr (if ext_key n \<in> ext_keys L then L
          else takeWhile (\<lambda>s. node_key s < ext_key n) L @ \<lparr>sub_name = n, major_version = ma, minor_version = mi\<rparr>
                 # dropWhile (\<lambda>s. node_key s < ext_key n) L)"
proof -
  have "take (below n L) L = takeWhile (\<lambda>s. node_key s < ext_key n) L"
    "drop (below n L) L = dropWhile (\<lambda>s. node_key s < ext_key n) L"
    by (simp_all add: takeWhile_eq_take [symmetric] dropWhile_eq_drop [symmetric])
  moreover have "below n L = 0 \<Longrightarrow> dropWhile (\<lambda>s. node_key s < ext_key n) L = L"
    by (metis append_Nil length_0_conv takeWhile_dropWhile_id)
  ultimately show ?thesis
    unfolding riscv_add_subset_def lookup_spec [OF ok wf] by (auto simp: Let_def)
qed

lemma subsets_ok_insert:
  assumes ok: "subsets_ok L" and wf: "wf_ext (sub_name x)" and new: "node_key x \<notin> ext_keys L"
  shows "subsets_ok (takeWhile (\<lambda>s. node_key s < node_key x) L @ x # dropWhile (\<lambda>s. node_key s < node_key x) L)"
    (is "subsets_ok (?K @ x # ?M)")
proof -
  have split: "L = ?K @ ?M" by simp
  have parts: "subsets_ok ?K" "subsets_ok ?M" "\<forall>s \<in> set ?K. \<forall>t \<in> set ?M. node_key s < node_key t"
    using ok split subsets_ok_append by metis+
  have K: "\<forall>s \<in> set ?K. node_key s < node_key x" by (auto dest: set_takeWhileD)
  have M: "\<forall>t \<in> set ?M. node_key x < node_key t"
  proof (cases ?M)
    case (Cons m M)
    then have "\<not> node_key m < node_key x" by (simp add: dropWhile_eq_Cons_conv)
    moreover have "m \<in> set L" using Cons by (metis list.set_intros(1) set_dropWhileD)
    then have "node_key m \<noteq> node_key x" using new by (metis image_eqI)
    ultimately have "node_key x < node_key m" by (simp add: less_le not_less)
    then show ?thesis using parts(2) by (auto simp: Cons subsets_ok_Cons dest: less_trans)
  next
    case Nil
    then show ?thesis by (simp only: list.set ball_empty)
  qed
  show ?thesis
    unfolding subsets_ok_append subsets_ok_Cons list.set ball_simps using parts wf K M by blast
qed

lemma add_ok:
  assumes "subsets_ok L" "wf_ext n"
  obtains L' where "riscv_add_subset L n ma mi = Inr L'" "subsets_ok L'"
    "ext_keys L' = insert (ext_key n) (ext_keys L)" "set L \<subseteq> set L'"
    "set L' \<subseteq> insert \<lparr>sub_name = n, major_version = ma, minor_version = mi\<rparr> (set L)"
proof (cases "ext_key n \<in> ext_keys L")
  case True
  with assms that [of L] show ?thesis by (auto simp: add_spec)
next
  case False
  let ?x = "\<lparr>sub_name = n, major_version = ma, minor_version = mi\<rparr>"
  let ?L = "takeWhile (\<lambda>s. node_key s < node_key ?x) L @ ?x # dropWhile (\<lambda>s. node_key s < node_key ?x) L"
  have "set ?L = insert ?x (set L)"
    by (metis Un_insert_right list.simps(15) set_append takeWhile_dropWhile_id)
  moreover have "subsets_ok ?L"
    by (rule subsets_ok_insert) (use assms False in auto)
  ultimately show ?thesis
    using that [of ?L] False assms by (auto simp: add_spec)
qed

lemma remove_subset: "set (riscv_remove_subset L n) \<subseteq> set L"
  by (induction L) auto

lemma remove_ok: "subsets_ok L \<Longrightarrow> subsets_ok (riscv_remove_subset L n)"
proof (induction L)
  case (Cons s L)
  then show ?case using remove_subset [of L n] by (auto simp: subsets_ok_Cons)
qed simp

end
