(* ===== verification/Riscv_Fields.thy ===== *)
theory Riscv_Fields
  imports Imc_Prelude
begin

text \<open>
  Bit fields of instruction words (\<^verbatim>\<open>include/opcode/riscv.h\<close>): the macros that extract a field, and the theory of immediates that are
  scattered over a word. A layout lists the pieces of an immediate; the locales \<open>unsigned_codec\<close> and \<open>signed_codec\<close> say that a pair of
  macros encodes and decodes along a layout, and give the round trip, the locality of the field and the values that the
  field can hold.
\<close>

type_synonym insn_t = "64 word"

definition RV_X :: "u64 \<Rightarrow> nat \<Rightarrow> nat \<Rightarrow> u64" where
  [field_defs]: "RV_X x s n = (drop_bit s x) AND mask n"

definition RV_IMM_SIGN :: "u64 \<Rightarrow> u64" where
  [field_defs]: "RV_IMM_SIGN x = - (drop_bit 31 x AND 1)"

definition RV_IMM_SIGN_N :: "u64 \<Rightarrow> nat \<Rightarrow> nat \<Rightarrow> u64" where
  [field_defs]: "RV_IMM_SIGN_N x s n = - (drop_bit (s + n - 1) x AND 1)"

definition RV_X_SIGNED :: "u64 \<Rightarrow> nat \<Rightarrow> nat \<Rightarrow> u64" where
  [field_defs]: "RV_X_SIGNED x s n = RV_X x s n OR push_bit n (- RV_X x (s + n - 1) 1)"

section \<open>Scattered fields\<close>

type_synonym layout = "(nat \<times> nat \<times> nat) list"

definition scatter :: "layout \<Rightarrow> u64 \<Rightarrow> u64" where
  "scatter l x = foldr (\<lambda>(s, n, d) w. push_bit d (RV_X x s n) OR w) l 0"

definition gather :: "layout \<Rightarrow> u64 \<Rightarrow> u64" where
  "gather l w = foldr (\<lambda>(s, n, d) x. push_bit s (RV_X w d n) OR x) l 0"

definition src_mask :: "layout \<Rightarrow> u64" where
  "src_mask l = foldr (\<lambda>(s, n, d) w. push_bit s (mask n) OR w) l 0"

definition dst_mask :: "layout \<Rightarrow> u64" where
  "dst_mask l = foldr (\<lambda>(s, n, d) w. push_bit d (mask n) OR w) l 0"

fun layout_ok :: "layout \<Rightarrow> bool" where
  "layout_ok [] = True"
| "layout_ok ((s, n, d) # l) \<longleftrightarrow> s + n \<le> 64 \<and> d + n \<le> 64 \<and>
     list_all (\<lambda>(s', n', d'). (s + n \<le> s' \<or> s' + n' \<le> s) \<and> (d + n \<le> d' \<or> d' + n' \<le> d)) l \<and> layout_ok l"

lemma bit_RV_X: "bit (RV_X x s n) i \<longleftrightarrow> i < n \<and> bit x (s + i)"
  by (auto simp: RV_X_def bit_simps dest: bit_imp_le_length)

lemma bit_scatter:
  "bit (scatter l x) i \<longleftrightarrow> i < 64 \<and> (\<exists>(s, n, d) \<in> set l. d \<le> i \<and> i < d + n \<and> bit x (s + (i - d)))"
  by (induction l) (auto simp: scatter_def bit_simps bit_RV_X)

lemma bit_gather:
  "bit (gather l w) i \<longleftrightarrow> i < 64 \<and> (\<exists>(s, n, d) \<in> set l. s \<le> i \<and> i < s + n \<and> bit w (d + (i - s)))"
  by (induction l) (auto simp: gather_def bit_simps bit_RV_X)

lemma bit_src_mask: "bit (src_mask l) i \<longleftrightarrow> i < 64 \<and> (\<exists>(s, n, d) \<in> set l. s \<le> i \<and> i < s + n)"
  by (induction l) (auto simp: src_mask_def bit_simps)

lemma bit_dst_mask: "bit (dst_mask l) i \<longleftrightarrow> i < 64 \<and> (\<exists>(s, n, d) \<in> set l. d \<le> i \<and> i < d + n)"
  by (induction l) (auto simp: dst_mask_def bit_simps)

lemma layout_bounds: "layout_ok l \<Longrightarrow> (s, n, d) \<in> set l \<Longrightarrow> s + n \<le> 64 \<and> d + n \<le> 64"
  by (induction l rule: layout_ok.induct) auto

lemma layout_dst_unique:
  "layout_ok l \<Longrightarrow> (s, n, d) \<in> set l \<Longrightarrow> (s', n', d') \<in> set l \<Longrightarrow>
   d \<le> i \<Longrightarrow> i < d + n \<Longrightarrow> d' \<le> i \<Longrightarrow> i < d' + n' \<Longrightarrow> s = s' \<and> n = n' \<and> d = d'"
  by (induction l rule: layout_ok.induct) (fastforce simp: list_all_iff)+

lemma layout_src_unique:
  "layout_ok l \<Longrightarrow> (s, n, d) \<in> set l \<Longrightarrow> (s', n', d') \<in> set l \<Longrightarrow>
   s \<le> i \<Longrightarrow> i < s + n \<Longrightarrow> s' \<le> i \<Longrightarrow> i < s' + n' \<Longrightarrow> s = s' \<and> n = n' \<and> d = d'"
  by (induction l rule: layout_ok.induct) (fastforce simp: list_all_iff)+

lemma bit_scatterI:
  "(s, n, d) \<in> set l \<Longrightarrow> j < n \<Longrightarrow> d + j < 64 \<Longrightarrow> bit x (s + j) \<Longrightarrow> bit (scatter l x) (d + j)"
  unfolding bit_scatter by (intro conjI bexI [of _ "(s, n, d)"]) simp_all

lemma gather_scatter:
  assumes "layout_ok l"
  shows "gather l (scatter l x) = x AND src_mask l"
proof (rule bit_word_eqI)
  fix i
  assume "i < LENGTH(64)"
  then have i: "i < 64" by simp
  show "bit (gather l (scatter l x)) i = bit (x AND src_mask l) i"
  proof
    assume "bit (gather l (scatter l x)) i"
    then obtain s n d where a: "(s, n, d) \<in> set l" "s \<le> i" "i < s + n"
      and b: "bit (scatter l x) (d + (i - s))" by (auto simp: bit_gather)
    from b obtain s' n' d' where c: "(s', n', d') \<in> set l" "d' \<le> d + (i - s)" "d + (i - s) < d' + n'"
      and e: "bit x (s' + (d + (i - s) - d'))" by (auto simp: bit_scatter)
    have "s = s' \<and> n = n' \<and> d = d'"
      using layout_dst_unique [OF assms a(1) c(1), of "d + (i - s)"] a c by auto
    with e a i show "bit (x AND src_mask l) i" by (auto simp: bit_simps bit_src_mask)
  next
    assume "bit (x AND src_mask l) i"
    then obtain s n d where a: "(s, n, d) \<in> set l" "s \<le> i" "i < s + n" and x: "bit x i"
      by (auto simp: bit_simps bit_src_mask)
    from layout_bounds [OF assms a(1)] a have "d + (i - s) < 64" by auto
    with a x have "bit (scatter l x) (d + (i - s))"
      by (intro bit_scatterI [OF a(1)]) auto
    with a i show "bit (gather l (scatter l x)) i" unfolding bit_gather by blast
  qed
qed

text \<open>Read backwards, a layout gathers where it scattered.\<close>

definition flip :: "layout \<Rightarrow> layout" where
  "flip l = map (\<lambda>(s, n, d). (d, n, s)) l"

lemma flip_flip [simp]: "flip (flip l) = l"
  by (induction l) (auto simp: flip_def)

lemma gather_flip: "gather (flip l) = scatter l"
  by (rule ext) (induction l; auto simp: gather_def scatter_def flip_def)

lemma src_mask_flip: "src_mask (flip l) = dst_mask l"
  by (induction l) (auto simp: src_mask_def dst_mask_def flip_def)

lemma layout_ok_flip: "layout_ok l \<Longrightarrow> layout_ok (flip l)"
  by (induction l rule: layout_ok.induct) (auto simp: flip_def list_all_iff)

lemma scatter_gather: "layout_ok l \<Longrightarrow> scatter l (gather l w) = w AND dst_mask l"
  using gather_scatter [OF layout_ok_flip, of l w] gather_flip [of "flip l"]
  by (simp add: gather_flip src_mask_flip)

lemma bit_dst_maskI: "(s, n, d) \<in> set l \<Longrightarrow> j < n \<Longrightarrow> d + j < 64 \<Longrightarrow> bit (dst_mask l) (d + j)"
  unfolding bit_dst_mask by (intro conjI bexI [of _ "(s, n, d)"]) simp_all

lemma gather_local: "gather l (w AND dst_mask l) = gather l w"
proof (rule bit_word_eqI)
  fix i
  have "bit (w AND dst_mask l) (d + (i - s)) = bit w (d + (i - s))"
    if "(s, n, d) \<in> set l" "s \<le> i" "i < s + n" for s n d
    using that bit_dst_maskI [of s n d l "i - s"] bit_imp_le_length [of w "d + (i - s)"]
    by (auto simp: bit_simps)
  then show "bit (gather l (w AND dst_mask l)) i = bit (gather l w) i"
    unfolding bit_gather by (intro conj_cong bex_cong refl) auto
qed

lemma scatter_within: "scatter l x AND dst_mask l = scatter l x"
  by (rule bit_word_eqI) (auto simp: bit_scatter bit_simps bit_dst_mask)

lemma scatter_signed_take_bit:
  assumes "list_all (\<lambda>(s, n, d). s + n \<le> Suc k) l"
  shows "scatter l (signed_take_bit k x) = scatter l x"
proof (rule bit_word_eqI)
  fix i
  have "bit (signed_take_bit k x) (s + (i - d)) = bit x (s + (i - d))"
    if t: "(s, n, d) \<in> set l" "d \<le> i" "i < d + n" for s n d
  proof -
    from t(1) assms have "s + n \<le> Suc k" by (auto simp: list_all_iff)
    with t have "s + (i - d) \<le> k" by linarith
    then show ?thesis by (auto simp: bit_signed_take_bit_iff min_def dest: bit_imp_le_length)
  qed
  then show "bit (scatter l (signed_take_bit k x)) i = bit (scatter l x) i"
    unfolding bit_scatter by (intro conj_cong bex_cong refl) auto
qed

section \<open>Codecs\<close>

text \<open>Replace the bits of a field, as the assembler and the linker do: \<^verbatim>\<open>word &= ~mask; word |= value\<close>.\<close>

definition put_field :: "u64 \<Rightarrow> u64 \<Rightarrow> u64 \<Rightarrow> u64" where
  "put_field fmask w v = (w AND NOT fmask) OR v"

locale field_codec =
  fixes enc ext :: "u64 \<Rightarrow> u64" and fmask :: u64
  assumes enc_ext: "enc (ext w) = w AND fmask"
    and enc_within: "enc x AND fmask = enc x"
    and ext_local: "ext (w AND fmask) = ext w"
begin

lemma ext_enc_ext: "ext (enc (ext w)) = ext w"
  by (simp add: enc_ext ext_local)

lemma enc_bits: "bit (enc x) i \<Longrightarrow> bit fmask i"
  by (metis bit_and_iff enc_within)

lemma put_in_field: "put_field fmask w (enc x) AND fmask = enc x"
  by (rule bit_eqI) (auto simp: put_field_def bit_simps dest: enc_bits)

lemma put_outside: "put_field fmask w (enc x) AND NOT fmask = w AND NOT fmask"
  by (rule bit_eqI) (auto simp: put_field_def bit_simps dest: enc_bits)

lemma put_ext: "put_field fmask w (enc (ext w)) = w"
  by (rule bit_eqI) (auto simp: put_field_def enc_ext bit_simps dest: bit_imp_le_length)

lemma ext_put: "ext (enc x) = x \<Longrightarrow> ext (put_field fmask w (enc x)) = x"
  using ext_local [of "put_field fmask w (enc x)"] by (simp add: put_in_field)

lemma ext_put_other:
  assumes "field_codec enc' ext' fmask'" "fmask AND fmask' = 0"
  shows "ext' (put_field fmask w (enc x)) = ext' w"
proof -
  have "put_field fmask w (enc x) AND fmask' = w AND fmask'"
    by (rule bit_eqI) (use assms(2) in \<open>auto simp: put_field_def bit_simps bit_eq_iff dest: enc_bits\<close>)
  then show ?thesis using field_codec.ext_local [OF assms(1)] by metis
qed

end

text \<open>A field described by a layout, read back unsigned or extended from its top bit.\<close>

locale layout_codec =
  fixes l :: layout and enc ext :: "u64 \<Rightarrow> u64"
  assumes ok: "layout_ok l"
    and enc_scatter: "enc x = scatter l x"

locale unsigned_codec = layout_codec +
  assumes ext_gather: "ext w = gather l w"

locale signed_codec = layout_codec +
  fixes sb :: nat
  assumes sb_top: "list_all (\<lambda>(s, n, d). s + n \<le> Suc sb) l"
    and ext_gather: "ext w = signed_take_bit sb (gather l w)"

sublocale unsigned_codec \<subseteq> field_codec enc ext "dst_mask l"
  by unfold_locales
    (simp_all add: enc_scatter ext_gather scatter_gather [OF ok] scatter_within gather_local)

sublocale signed_codec \<subseteq> field_codec enc ext "dst_mask l"
  by unfold_locales
    (simp_all add: enc_scatter ext_gather scatter_gather [OF ok] scatter_within gather_local
      scatter_signed_take_bit [OF sb_top])

text \<open>
  The values a field can hold: with source bits \<open>a\<close> to \<open>sb\<close>, the multiples of
  \<open>2^a\<close> in the signed or unsigned range of \<open>sb + 1\<close> bits.
\<close>

lemma sint_signed_take_bit: "k < 64 \<Longrightarrow> sint (signed_take_bit k (x :: u64)) = signed_take_bit k (sint x)"
proof (rule bit_eqI)
  fix n
  assume "k < 64"
  then consider "k < 63" | "k = 63" by linarith
  then show "bit (sint (signed_take_bit k x)) n = bit (signed_take_bit k (sint x)) n"
    by cases (auto simp: bit_simps min_def)
qed

lemma signed_take_bit_self_iff:
  "k < 64 \<Longrightarrow> signed_take_bit k (x :: u64) = x \<longleftrightarrow> - (2 ^ k) \<le> sint x \<and> sint x < 2 ^ k"
  using sint_signed_take_bit [of k x] signed_take_bit_int_eq_self_iff [of k "sint x"]
  by (metis signed_word_eqI)

lemma signed_take_bit_masked:
  assumes "a \<le> k" "k < 64"
  shows "signed_take_bit k (x AND push_bit a (mask (Suc k - a))) = (x :: u64) \<longleftrightarrow>
           take_bit a x = 0 \<and> signed_take_bit k x = x"
proof
  assume e: "signed_take_bit k (x AND push_bit a (mask (Suc k - a))) = x"
  have b: "bit x i \<longleftrightarrow> i < 64 \<and> a \<le> min i k \<and> bit x (min i k)" for i
    using assms arg_cong [OF e, of "\<lambda>w. bit w i"] by (auto simp: bit_simps min_def split: if_splits)
  show "take_bit a x = 0 \<and> signed_take_bit k x = x"
  proof
    have "\<not> bit x i" if "i < a" for i using b [of i] that by auto
    then show "take_bit a x = 0" by (auto simp: bit_eq_iff bit_simps)
    have "bit (signed_take_bit k x) i = bit x i" if "i < 64" for i
    proof -
      have "bit (signed_take_bit k x) i \<longleftrightarrow> bit x (min i k)" using that by (simp add: bit_simps min.commute)
      moreover have "bit x (min i k) \<Longrightarrow> a \<le> min i k"
        by (drule iffD1 [OF b]) simp
      ultimately show ?thesis using b [of i] that by blast
    qed
    then show "signed_take_bit k x = x" by (intro bit_word_eqI) simp
  qed
next
  assume r: "take_bit a x = 0 \<and> signed_take_bit k x = x"
  have low: "a \<le> i" if "bit x i" for i
    using that r bit_take_bit_iff [of a x i] by (cases "i < a") simp_all
  have hi: "bit x i \<longleftrightarrow> bit x k" if "k \<le> i" "i < 64" for i
    using that r bit_signed_take_bit_iff [of k x i] by (simp add: min_def)
  show "signed_take_bit k (x AND push_bit a (mask (Suc k - a))) = x"
  proof (rule bit_word_eqI)
    fix i
    assume "i < LENGTH(64)"
    then show "bit (signed_take_bit k (x AND push_bit a (mask (Suc k - a)))) i = bit x i"
      using assms low [of "min i k"] hi [of i]
      by (cases "i \<le> k") (auto simp: bit_simps min_def not_le)
  qed
qed

context signed_codec
begin

lemma holds_iff:
  assumes "src_mask l = push_bit a (mask (Suc sb - a))" "a \<le> sb" "sb < 64"
  shows "ext (enc x) = x \<longleftrightarrow> take_bit a x = 0 \<and> - (2 ^ sb) \<le> sint x \<and> sint x < 2 ^ sb"
  by (simp add: enc_scatter ext_gather gather_scatter [OF ok] assms(1)
      signed_take_bit_masked [OF assms(2,3)] signed_take_bit_self_iff [OF assms(3)])

end

context unsigned_codec
begin

lemma holds_iff:
  assumes "src_mask l = push_bit a (mask (k - a))" "a \<le> k" "k \<le> 64"
  shows "ext (enc x) = x \<longleftrightarrow> take_bit a x = 0 \<and> take_bit k x = x"
proof -
  have "x AND push_bit a (mask (k - a)) = x \<longleftrightarrow> take_bit a x = 0 \<and> take_bit k x = x"
    using assms(2,3) by (auto simp: bit_eq_iff bit_simps dest: bit_imp_le_length)
      (metis not_less diff_less_mono)+
  then show ?thesis by (simp add: enc_scatter ext_gather gather_scatter [OF ok] assms(1))
qed

end

section \<open>Sign bits\<close>

text \<open>The sign macros yield a word of copies of one bit; shifted above a gathered field they extend it.\<close>

lemma bit_RV_IMM_SIGN: "bit (RV_IMM_SIGN w) i \<longleftrightarrow> i < 64 \<and> bit w 31"
proof -
  have "drop_bit 31 w AND 1 = (if bit w 31 then 1 else 0)"
    by (rule bit_eqI) (auto simp: bit_simps intro: gr0I)
  then show ?thesis by (simp add: RV_IMM_SIGN_def bit_simps)
qed

lemma bit_neg_RV_X1: "bit (- RV_X w d 1) i \<longleftrightarrow> i < 64 \<and> bit w d"
proof -
  have "RV_X w d 1 = (if bit w d then 1 else 0)"
    by (rule bit_eqI) (auto simp: bit_RV_X bit_simps intro: gr0I)
  then show ?thesis by (simp add: bit_simps)
qed

lemma bit_gather_above:
  "list_all (\<lambda>(s, n, d). s + n \<le> k) l \<Longrightarrow> k \<le> i \<Longrightarrow> \<not> bit (gather l w) i"
  by (auto simp: bit_gather list_all_iff)

lemma bit_gather_append: "bit (gather (l @ m) w) i \<longleftrightarrow> bit (gather l w) i \<or> bit (gather m w) i"
  by (auto simp: bit_gather)

text \<open>The sign bit is a segment of its own, or the top bit of the last segment.\<close>

lemma signed_extract_own:
  assumes "sb < 64" "list_all (\<lambda>(s, n, d). s + n \<le> sb) l"
    and "\<And>i. bit S i \<longleftrightarrow> i < 64 \<and> bit w d"
  shows "gather l w OR push_bit sb S = signed_take_bit sb (gather (l @ [(sb, 1, d)]) w)"
proof (rule bit_word_eqI)
  fix i
  assume i: "i < LENGTH(64)"
  have single: "bit (gather [(sb, 1, d)] w) j \<longleftrightarrow> j = sb \<and> bit w d" for j
    using assms(1) by (auto simp: bit_gather)
  show "bit (gather l w OR push_bit sb S) i = bit (signed_take_bit sb (gather (l @ [(sb, 1, d)]) w)) i"
  proof (cases "i < sb")
    case True
    then show ?thesis using i assms(3) single
      by (simp add: bit_signed_take_bit_iff bit_or_iff bit_push_bit_iff bit_gather_append min_def)
  next
    case False
    then show ?thesis using i assms(1,3) single bit_gather_above [OF assms(2)]
      by (simp add: bit_signed_take_bit_iff bit_or_iff bit_push_bit_iff bit_gather_append min_def
          less_imp_diff_less)
  qed
qed

lemma signed_extract_top:
  assumes "Suc sb < 64" "layout_ok l" "list_all (\<lambda>(s, n, d). s + n \<le> Suc sb) l"
    and "(s, n, d) \<in> set l" "s + n = Suc sb" "0 < n"
    and "\<And>i. bit S i \<longleftrightarrow> i < 64 \<and> bit w (d + (n - 1))"
  shows "gather l w OR push_bit (Suc sb) S = signed_take_bit sb (gather l w)"
proof (rule bit_word_eqI)
  fix i
  assume i: "i < LENGTH(64)"
  have "bit (gather l w) sb \<longleftrightarrow> bit w (d + (sb - s))"
  proof
    assume "bit (gather l w) sb"
    then obtain s' n' d' where "(s', n', d') \<in> set l" "s' \<le> sb" "sb < s' + n'" "bit w (d' + (sb - s'))"
      by (auto simp: bit_gather)
    with layout_src_unique [OF assms(2,4), of s' n' d' sb] assms(5,6) show "bit w (d + (sb - s))" by auto
  next
    assume "bit w (d + (sb - s))"
    with assms show "bit (gather l w) sb"
      unfolding bit_gather by (intro conjI bexI [OF _ assms(4)]) auto
  qed
  then have t: "bit (gather l w) sb \<longleftrightarrow> bit w (d + (n - 1))"
    using assms(5,6) by (metis Suc_diff_1 add_Suc_right diff_add_inverse nat.inject)
  have p: "bit (push_bit (Suc sb) S) i \<longleftrightarrow> Suc sb \<le> i \<and> bit w (d + (n - 1))"
    unfolding bit_push_bit_iff assms(7) using i by auto
  show "bit (gather l w OR push_bit (Suc sb) S) i = bit (signed_take_bit sb (gather l w)) i"
  proof (cases "i \<le> sb")
    case True
    then show ?thesis using i unfolding bit_signed_take_bit_iff bit_or_iff p by (simp add: min_def)
  next
    case False
    then show ?thesis using i t bit_gather_above [OF assms(3), of i w]
      unfolding bit_signed_take_bit_iff bit_or_iff p by (simp add: min_def)
  qed
qed

end
