(* ===== verification/Riscv_Imm.thy ===== *)
theory Riscv_Imm
  imports Riscv_Fields
begin

text \<open>
  The immediate formats of the instruction set, macro by macro of
  \<^verbatim>\<open>include/opcode/riscv.h\<close>: how an immediate is scattered over the instruction word
  (\<^verbatim>\<open>ENCODE\<close>), how it is read back (\<^verbatim>\<open>EXTRACT\<close>), and which values a format can hold (\<^verbatim>\<open>VALID\<close>).
  Every pair is an instance of the field contract, so each format has the round
  trip, the frame and the range of its values.
\<close>

section \<open>Extraction\<close>

definition EXTRACT_ITYPE_IMM :: "u64 \<Rightarrow> u64" where
  [field_defs]: "EXTRACT_ITYPE_IMM x = RV_X x 20 12 OR push_bit 12 (RV_IMM_SIGN x)"

definition EXTRACT_STYPE_IMM :: "u64 \<Rightarrow> u64" where
  [field_defs]: "EXTRACT_STYPE_IMM x =
     RV_X x 7 5 OR push_bit 5 (RV_X x 25 7) OR push_bit 12 (RV_IMM_SIGN x)"

definition EXTRACT_BTYPE_IMM :: "u64 \<Rightarrow> u64" where
  [field_defs]: "EXTRACT_BTYPE_IMM x =
     push_bit 1 (RV_X x 8 4) OR push_bit 5 (RV_X x 25 6) OR push_bit 11 (RV_X x 7 1) OR
     push_bit 12 (RV_IMM_SIGN x)"

definition EXTRACT_UTYPE_IMM :: "u64 \<Rightarrow> u64" where
  [field_defs]: "EXTRACT_UTYPE_IMM x = push_bit 12 (RV_X x 12 20) OR push_bit 32 (RV_IMM_SIGN x)"

definition EXTRACT_JTYPE_IMM :: "u64 \<Rightarrow> u64" where
  [field_defs]: "EXTRACT_JTYPE_IMM x =
     push_bit 1 (RV_X x 21 10) OR push_bit 11 (RV_X x 20 1) OR push_bit 12 (RV_X x 12 8) OR
     push_bit 20 (RV_IMM_SIGN x)"

definition EXTRACT_CITYPE_IMM :: "u64 \<Rightarrow> u64" where
  [field_defs]: "EXTRACT_CITYPE_IMM x = RV_X x 2 5 OR push_bit 5 (- RV_X x 12 1)"

definition EXTRACT_CITYPE_LUI_IMM :: "u64 \<Rightarrow> u64" where
  [field_defs]: "EXTRACT_CITYPE_LUI_IMM x = push_bit 12 (EXTRACT_CITYPE_IMM x)"

definition EXTRACT_CITYPE_ADDI16SP_IMM :: "u64 \<Rightarrow> u64" where
  [field_defs]: "EXTRACT_CITYPE_ADDI16SP_IMM x =
     push_bit 4 (RV_X x 6 1) OR push_bit 5 (RV_X x 2 1) OR push_bit 6 (RV_X x 5 1) OR
     push_bit 7 (RV_X x 3 2) OR push_bit 9 (- RV_X x 12 1)"

definition EXTRACT_CITYPE_LWSP_IMM :: "u64 \<Rightarrow> u64" where
  [field_defs]: "EXTRACT_CITYPE_LWSP_IMM x =
     push_bit 2 (RV_X x 4 3) OR push_bit 5 (RV_X x 12 1) OR push_bit 6 (RV_X x 2 2)"

definition EXTRACT_CITYPE_LDSP_IMM :: "u64 \<Rightarrow> u64" where
  [field_defs]: "EXTRACT_CITYPE_LDSP_IMM x =
     push_bit 3 (RV_X x 5 2) OR push_bit 5 (RV_X x 12 1) OR push_bit 6 (RV_X x 2 3)"

definition EXTRACT_CSSTYPE_IMM :: "u64 \<Rightarrow> u64" where
  [field_defs]: "EXTRACT_CSSTYPE_IMM x = RV_X x 7 6"

definition EXTRACT_CSSTYPE_SWSP_IMM :: "u64 \<Rightarrow> u64" where
  [field_defs]: "EXTRACT_CSSTYPE_SWSP_IMM x = push_bit 2 (RV_X x 9 4) OR push_bit 6 (RV_X x 7 2)"

definition EXTRACT_CSSTYPE_SDSP_IMM :: "u64 \<Rightarrow> u64" where
  [field_defs]: "EXTRACT_CSSTYPE_SDSP_IMM x = push_bit 3 (RV_X x 10 3) OR push_bit 6 (RV_X x 7 3)"

definition EXTRACT_CIWTYPE_IMM :: "u64 \<Rightarrow> u64" where
  [field_defs]: "EXTRACT_CIWTYPE_IMM x = RV_X x 5 8"

definition EXTRACT_CIWTYPE_ADDI4SPN_IMM :: "u64 \<Rightarrow> u64" where
  [field_defs]: "EXTRACT_CIWTYPE_ADDI4SPN_IMM x =
     push_bit 2 (RV_X x 6 1) OR push_bit 3 (RV_X x 5 1) OR push_bit 4 (RV_X x 11 2) OR
     push_bit 6 (RV_X x 7 4)"

definition EXTRACT_CLTYPE_IMM :: "u64 \<Rightarrow> u64" where
  [field_defs]: "EXTRACT_CLTYPE_IMM x = RV_X x 5 2 OR push_bit 2 (RV_X x 10 3)"

definition EXTRACT_CLTYPE_LW_IMM :: "u64 \<Rightarrow> u64" where
  [field_defs]: "EXTRACT_CLTYPE_LW_IMM x =
     push_bit 2 (RV_X x 6 1) OR push_bit 3 (RV_X x 10 3) OR push_bit 6 (RV_X x 5 1)"

definition EXTRACT_CLTYPE_LD_IMM :: "u64 \<Rightarrow> u64" where
  [field_defs]: "EXTRACT_CLTYPE_LD_IMM x = push_bit 3 (RV_X x 10 3) OR push_bit 6 (RV_X x 5 2)"

definition EXTRACT_CBTYPE_IMM :: "u64 \<Rightarrow> u64" where
  [field_defs]: "EXTRACT_CBTYPE_IMM x =
     push_bit 1 (RV_X x 3 2) OR push_bit 3 (RV_X x 10 2) OR push_bit 5 (RV_X x 2 1) OR
     push_bit 6 (RV_X x 5 2) OR push_bit 8 (- RV_X x 12 1)"

definition EXTRACT_CJTYPE_IMM :: "u64 \<Rightarrow> u64" where
  [field_defs]: "EXTRACT_CJTYPE_IMM x =
     push_bit 1 (RV_X x 3 3) OR push_bit 4 (RV_X x 11 1) OR push_bit 5 (RV_X x 2 1) OR
     push_bit 6 (RV_X x 7 1) OR push_bit 7 (RV_X x 6 1) OR push_bit 8 (RV_X x 9 2) OR
     push_bit 10 (RV_X x 8 1) OR push_bit 11 (- RV_X x 12 1)"

definition EXTRACT_RVV_VI_IMM :: "u64 \<Rightarrow> u64" where
  [field_defs]: "EXTRACT_RVV_VI_IMM x = RV_X x 15 5 OR push_bit 5 (- RV_X x 19 1)"

definition EXTRACT_RVV_VI_UIMM :: "u64 \<Rightarrow> u64" where
  [field_defs]: "EXTRACT_RVV_VI_UIMM x = RV_X x 15 5"

definition EXTRACT_RVV_VI_UIMM6 :: "u64 \<Rightarrow> u64" where
  [field_defs]: "EXTRACT_RVV_VI_UIMM6 x = RV_X x 15 5 OR push_bit 5 (RV_X x 26 1)"

definition EXTRACT_RVV_OFFSET :: "u64 \<Rightarrow> u64" where
  [field_defs]: "EXTRACT_RVV_OFFSET x = RV_X x 29 3"

definition EXTRACT_RVV_VB_IMM :: "u64 \<Rightarrow> u64" where
  [field_defs]: "EXTRACT_RVV_VB_IMM x = RV_X x 20 10"

definition EXTRACT_RVV_VC_IMM :: "u64 \<Rightarrow> u64" where
  [field_defs]: "EXTRACT_RVV_VC_IMM x = RV_X x 20 11"

definition EXTRACT_ZCB_BYTE_UIMM :: "u64 \<Rightarrow> u64" where
  [field_defs]: "EXTRACT_ZCB_BYTE_UIMM x = RV_X x 6 1 OR push_bit 1 (RV_X x 5 1)"

definition EXTRACT_ZCB_HALFWORD_UIMM :: "u64 \<Rightarrow> u64" where
  [field_defs]: "EXTRACT_ZCB_HALFWORD_UIMM x = push_bit 1 (RV_X x 5 1)"

definition EXTRACT_ZCMP_SPIMM :: "u64 \<Rightarrow> u64" where
  [field_defs]: "EXTRACT_ZCMP_SPIMM x = push_bit 4 (RV_X x 2 2)"

definition EXTRACT_CV_IS2_UIMM5 :: "u64 \<Rightarrow> u64" where
  [field_defs]: "EXTRACT_CV_IS2_UIMM5 x = RV_X x 20 5"

definition EXTRACT_CV_IS3_UIMM5 :: "u64 \<Rightarrow> u64" where
  [field_defs]: "EXTRACT_CV_IS3_UIMM5 x = RV_X x 25 5"

definition EXTRACT_CV_BI_IMM5 :: "u64 \<Rightarrow> u64" where
  [field_defs]: "EXTRACT_CV_BI_IMM5 x = RV_X x 20 5 OR push_bit 5 (RV_IMM_SIGN_N x 20 5)"

section \<open>Encoding\<close>

definition ENCODE_ITYPE_IMM :: "u64 \<Rightarrow> u64" where
  [field_defs]: "ENCODE_ITYPE_IMM x = push_bit 20 (RV_X x 0 12)"

definition ENCODE_STYPE_IMM :: "u64 \<Rightarrow> u64" where
  [field_defs]: "ENCODE_STYPE_IMM x = push_bit 7 (RV_X x 0 5) OR push_bit 25 (RV_X x 5 7)"

definition ENCODE_BTYPE_IMM :: "u64 \<Rightarrow> u64" where
  [field_defs]: "ENCODE_BTYPE_IMM x =
     push_bit 8 (RV_X x 1 4) OR push_bit 25 (RV_X x 5 6) OR push_bit 7 (RV_X x 11 1) OR
     push_bit 31 (RV_X x 12 1)"

definition ENCODE_UTYPE_IMM :: "u64 \<Rightarrow> u64" where
  [field_defs]: "ENCODE_UTYPE_IMM x = push_bit 12 (RV_X x 12 20)"

definition ENCODE_JTYPE_IMM :: "u64 \<Rightarrow> u64" where
  [field_defs]: "ENCODE_JTYPE_IMM x =
     push_bit 21 (RV_X x 1 10) OR push_bit 20 (RV_X x 11 1) OR push_bit 12 (RV_X x 12 8) OR
     push_bit 31 (RV_X x 20 1)"

definition ENCODE_CITYPE_IMM :: "u64 \<Rightarrow> u64" where
  [field_defs]: "ENCODE_CITYPE_IMM x = push_bit 2 (RV_X x 0 5) OR push_bit 12 (RV_X x 5 1)"

definition ENCODE_CITYPE_LUI_IMM :: "u64 \<Rightarrow> u64" where
  [field_defs]: "ENCODE_CITYPE_LUI_IMM x = ENCODE_CITYPE_IMM (drop_bit 12 x)"

definition ENCODE_CITYPE_ADDI16SP_IMM :: "u64 \<Rightarrow> u64" where
  [field_defs]: "ENCODE_CITYPE_ADDI16SP_IMM x =
     push_bit 6 (RV_X x 4 1) OR push_bit 2 (RV_X x 5 1) OR push_bit 5 (RV_X x 6 1) OR
     push_bit 3 (RV_X x 7 2) OR push_bit 12 (RV_X x 9 1)"

definition ENCODE_CITYPE_LWSP_IMM :: "u64 \<Rightarrow> u64" where
  [field_defs]: "ENCODE_CITYPE_LWSP_IMM x =
     push_bit 4 (RV_X x 2 3) OR push_bit 12 (RV_X x 5 1) OR push_bit 2 (RV_X x 6 2)"

definition ENCODE_CITYPE_LDSP_IMM :: "u64 \<Rightarrow> u64" where
  [field_defs]: "ENCODE_CITYPE_LDSP_IMM x =
     push_bit 5 (RV_X x 3 2) OR push_bit 12 (RV_X x 5 1) OR push_bit 2 (RV_X x 6 3)"

definition ENCODE_CSSTYPE_IMM :: "u64 \<Rightarrow> u64" where
  [field_defs]: "ENCODE_CSSTYPE_IMM x = push_bit 7 (RV_X x 0 6)"

definition ENCODE_CSSTYPE_SWSP_IMM :: "u64 \<Rightarrow> u64" where
  [field_defs]: "ENCODE_CSSTYPE_SWSP_IMM x = push_bit 9 (RV_X x 2 4) OR push_bit 7 (RV_X x 6 2)"

definition ENCODE_CSSTYPE_SDSP_IMM :: "u64 \<Rightarrow> u64" where
  [field_defs]: "ENCODE_CSSTYPE_SDSP_IMM x = push_bit 10 (RV_X x 3 3) OR push_bit 7 (RV_X x 6 3)"

definition ENCODE_CIWTYPE_IMM :: "u64 \<Rightarrow> u64" where
  [field_defs]: "ENCODE_CIWTYPE_IMM x = push_bit 5 (RV_X x 0 8)"

definition ENCODE_CIWTYPE_ADDI4SPN_IMM :: "u64 \<Rightarrow> u64" where
  [field_defs]: "ENCODE_CIWTYPE_ADDI4SPN_IMM x =
     push_bit 6 (RV_X x 2 1) OR push_bit 5 (RV_X x 3 1) OR push_bit 11 (RV_X x 4 2) OR
     push_bit 7 (RV_X x 6 4)"

definition ENCODE_CLTYPE_IMM :: "u64 \<Rightarrow> u64" where
  [field_defs]: "ENCODE_CLTYPE_IMM x = push_bit 5 (RV_X x 0 2) OR push_bit 10 (RV_X x 2 3)"

definition ENCODE_CLTYPE_LW_IMM :: "u64 \<Rightarrow> u64" where
  [field_defs]: "ENCODE_CLTYPE_LW_IMM x =
     push_bit 6 (RV_X x 2 1) OR push_bit 10 (RV_X x 3 3) OR push_bit 5 (RV_X x 6 1)"

definition ENCODE_CLTYPE_LD_IMM :: "u64 \<Rightarrow> u64" where
  [field_defs]: "ENCODE_CLTYPE_LD_IMM x = push_bit 10 (RV_X x 3 3) OR push_bit 5 (RV_X x 6 2)"

definition ENCODE_CBTYPE_IMM :: "u64 \<Rightarrow> u64" where
  [field_defs]: "ENCODE_CBTYPE_IMM x =
     push_bit 3 (RV_X x 1 2) OR push_bit 10 (RV_X x 3 2) OR push_bit 2 (RV_X x 5 1) OR
     push_bit 5 (RV_X x 6 2) OR push_bit 12 (RV_X x 8 1)"

definition ENCODE_CJTYPE_IMM :: "u64 \<Rightarrow> u64" where
  [field_defs]: "ENCODE_CJTYPE_IMM x =
     push_bit 3 (RV_X x 1 3) OR push_bit 11 (RV_X x 4 1) OR push_bit 2 (RV_X x 5 1) OR
     push_bit 7 (RV_X x 6 1) OR push_bit 6 (RV_X x 7 1) OR push_bit 9 (RV_X x 8 2) OR
     push_bit 8 (RV_X x 10 1) OR push_bit 12 (RV_X x 11 1)"

definition ENCODE_RVV_VB_IMM :: "u64 \<Rightarrow> u64" where
  [field_defs]: "ENCODE_RVV_VB_IMM x = push_bit 20 (RV_X x 0 10)"

definition ENCODE_RVV_VC_IMM :: "u64 \<Rightarrow> u64" where
  [field_defs]: "ENCODE_RVV_VC_IMM x = push_bit 20 (RV_X x 0 11)"

definition ENCODE_RVV_VI_UIMM6 :: "u64 \<Rightarrow> u64" where
  [field_defs]: "ENCODE_RVV_VI_UIMM6 x = push_bit 15 (RV_X x 0 5) OR push_bit 26 (RV_X x 5 1)"

definition ENCODE_ZCB_BYTE_UIMM :: "u64 \<Rightarrow> u64" where
  [field_defs]: "ENCODE_ZCB_BYTE_UIMM x = push_bit 6 (RV_X x 0 1) OR push_bit 5 (RV_X x 1 1)"

definition ENCODE_ZCB_HALFWORD_UIMM :: "u64 \<Rightarrow> u64" where
  [field_defs]: "ENCODE_ZCB_HALFWORD_UIMM x = push_bit 5 (RV_X x 1 1)"

definition ENCODE_ZCMP_SPIMM :: "u64 \<Rightarrow> u64" where
  [field_defs]: "ENCODE_ZCMP_SPIMM x = push_bit 2 (RV_X x 4 2)"

definition ENCODE_CV_IS2_UIMM5 :: "u64 \<Rightarrow> u64" where
  [field_defs]: "ENCODE_CV_IS2_UIMM5 x = push_bit 20 (RV_X x 0 5)"

definition ENCODE_CV_IS3_UIMM5 :: "u64 \<Rightarrow> u64" where
  [field_defs]: "ENCODE_CV_IS3_UIMM5 x = push_bit 25 (RV_X x 0 5)"

section \<open>Validity\<close>

definition VALID_ITYPE_IMM :: "u64 \<Rightarrow> bool" where
  [field_defs]: "VALID_ITYPE_IMM x \<longleftrightarrow> EXTRACT_ITYPE_IMM (ENCODE_ITYPE_IMM x) = x"

definition VALID_STYPE_IMM :: "u64 \<Rightarrow> bool" where
  [field_defs]: "VALID_STYPE_IMM x \<longleftrightarrow> EXTRACT_STYPE_IMM (ENCODE_STYPE_IMM x) = x"

definition VALID_BTYPE_IMM :: "u64 \<Rightarrow> bool" where
  [field_defs]: "VALID_BTYPE_IMM x \<longleftrightarrow> EXTRACT_BTYPE_IMM (ENCODE_BTYPE_IMM x) = x"

definition VALID_UTYPE_IMM :: "u64 \<Rightarrow> bool" where
  [field_defs]: "VALID_UTYPE_IMM x \<longleftrightarrow> EXTRACT_UTYPE_IMM (ENCODE_UTYPE_IMM x) = x"

definition VALID_JTYPE_IMM :: "u64 \<Rightarrow> bool" where
  [field_defs]: "VALID_JTYPE_IMM x \<longleftrightarrow> EXTRACT_JTYPE_IMM (ENCODE_JTYPE_IMM x) = x"

definition VALID_CITYPE_IMM :: "u64 \<Rightarrow> bool" where
  [field_defs]: "VALID_CITYPE_IMM x \<longleftrightarrow> EXTRACT_CITYPE_IMM (ENCODE_CITYPE_IMM x) = x"

definition VALID_CITYPE_LUI_IMM :: "u64 \<Rightarrow> bool" where
  [field_defs]: "VALID_CITYPE_LUI_IMM x \<longleftrightarrow>
     ENCODE_CITYPE_LUI_IMM x \<noteq> 0 \<and>
     EXTRACT_CITYPE_LUI_IMM (ENCODE_CITYPE_LUI_IMM x) = x"

definition VALID_CITYPE_ADDI16SP_IMM :: "u64 \<Rightarrow> bool" where
  [field_defs]: "VALID_CITYPE_ADDI16SP_IMM x \<longleftrightarrow>
     ENCODE_CITYPE_ADDI16SP_IMM x \<noteq> 0 \<and>
     EXTRACT_CITYPE_ADDI16SP_IMM (ENCODE_CITYPE_ADDI16SP_IMM x) = x"

definition VALID_CITYPE_LWSP_IMM :: "u64 \<Rightarrow> bool" where
  [field_defs]: "VALID_CITYPE_LWSP_IMM x \<longleftrightarrow> EXTRACT_CITYPE_LWSP_IMM (ENCODE_CITYPE_LWSP_IMM x) = x"

definition VALID_CITYPE_LDSP_IMM :: "u64 \<Rightarrow> bool" where
  [field_defs]: "VALID_CITYPE_LDSP_IMM x \<longleftrightarrow> EXTRACT_CITYPE_LDSP_IMM (ENCODE_CITYPE_LDSP_IMM x) = x"

definition VALID_CSSTYPE_IMM :: "u64 \<Rightarrow> bool" where
  [field_defs]: "VALID_CSSTYPE_IMM x \<longleftrightarrow> EXTRACT_CSSTYPE_IMM (ENCODE_CSSTYPE_IMM x) = x"

definition VALID_CSSTYPE_SWSP_IMM :: "u64 \<Rightarrow> bool" where
  [field_defs]: "VALID_CSSTYPE_SWSP_IMM x \<longleftrightarrow> EXTRACT_CSSTYPE_SWSP_IMM (ENCODE_CSSTYPE_SWSP_IMM x) = x"

definition VALID_CSSTYPE_SDSP_IMM :: "u64 \<Rightarrow> bool" where
  [field_defs]: "VALID_CSSTYPE_SDSP_IMM x \<longleftrightarrow> EXTRACT_CSSTYPE_SDSP_IMM (ENCODE_CSSTYPE_SDSP_IMM x) = x"

definition VALID_CIWTYPE_IMM :: "u64 \<Rightarrow> bool" where
  [field_defs]: "VALID_CIWTYPE_IMM x \<longleftrightarrow> EXTRACT_CIWTYPE_IMM (ENCODE_CIWTYPE_IMM x) = x"

definition VALID_CIWTYPE_ADDI4SPN_IMM :: "u64 \<Rightarrow> bool" where
  [field_defs]: "VALID_CIWTYPE_ADDI4SPN_IMM x \<longleftrightarrow>
     EXTRACT_CIWTYPE_ADDI4SPN_IMM (ENCODE_CIWTYPE_ADDI4SPN_IMM x) = x"

definition VALID_CLTYPE_IMM :: "u64 \<Rightarrow> bool" where
  [field_defs]: "VALID_CLTYPE_IMM x \<longleftrightarrow> EXTRACT_CLTYPE_IMM (ENCODE_CLTYPE_IMM x) = x"

definition VALID_CLTYPE_LW_IMM :: "u64 \<Rightarrow> bool" where
  [field_defs]: "VALID_CLTYPE_LW_IMM x \<longleftrightarrow> EXTRACT_CLTYPE_LW_IMM (ENCODE_CLTYPE_LW_IMM x) = x"

definition VALID_CLTYPE_LD_IMM :: "u64 \<Rightarrow> bool" where
  [field_defs]: "VALID_CLTYPE_LD_IMM x \<longleftrightarrow> EXTRACT_CLTYPE_LD_IMM (ENCODE_CLTYPE_LD_IMM x) = x"

definition VALID_CBTYPE_IMM :: "u64 \<Rightarrow> bool" where
  [field_defs]: "VALID_CBTYPE_IMM x \<longleftrightarrow> EXTRACT_CBTYPE_IMM (ENCODE_CBTYPE_IMM x) = x"

definition VALID_CJTYPE_IMM :: "u64 \<Rightarrow> bool" where
  [field_defs]: "VALID_CJTYPE_IMM x \<longleftrightarrow> EXTRACT_CJTYPE_IMM (ENCODE_CJTYPE_IMM x) = x"

definition VALID_RVV_VB_IMM :: "u64 \<Rightarrow> bool" where
  [field_defs]: "VALID_RVV_VB_IMM x \<longleftrightarrow> EXTRACT_RVV_VB_IMM (ENCODE_RVV_VB_IMM x) = x"

definition VALID_RVV_VC_IMM :: "u64 \<Rightarrow> bool" where
  [field_defs]: "VALID_RVV_VC_IMM x \<longleftrightarrow> EXTRACT_RVV_VC_IMM (ENCODE_RVV_VC_IMM x) = x"

definition VALID_ZCB_BYTE_UIMM :: "u64 \<Rightarrow> bool" where
  [field_defs]: "VALID_ZCB_BYTE_UIMM x \<longleftrightarrow> EXTRACT_ZCB_BYTE_UIMM (ENCODE_ZCB_BYTE_UIMM x) = x"

definition VALID_ZCB_HALFWORD_UIMM :: "u64 \<Rightarrow> bool" where
  [field_defs]: "VALID_ZCB_HALFWORD_UIMM x \<longleftrightarrow> EXTRACT_ZCB_HALFWORD_UIMM (ENCODE_ZCB_HALFWORD_UIMM x) = x"

definition VALID_ZCMP_SPIMM :: "u64 \<Rightarrow> bool" where
  [field_defs]: "VALID_ZCMP_SPIMM x \<longleftrightarrow> EXTRACT_ZCMP_SPIMM (ENCODE_ZCMP_SPIMM x) = x"

section \<open>The formats are fields\<close>

interpretation itype_imm: signed_codec "[(0, 12, 20)]" ENCODE_ITYPE_IMM EXTRACT_ITYPE_IMM 11
proof (unfold_locales, goal_cases)
  case (4 w)
  have "EXTRACT_ITYPE_IMM w = gather [(0, 12, 20)] w OR push_bit (Suc 11) (RV_IMM_SIGN w)"
    by (simp add: EXTRACT_ITYPE_IMM_def gather_def or.assoc)
  also have "\<dots> = signed_take_bit 11 (gather [(0, 12, 20)] w)"
    by (rule signed_extract_top [of _ _ 0 12 20]) (simp_all add: bit_RV_IMM_SIGN)
  finally show ?case .
qed (simp_all add: scatter_def ENCODE_ITYPE_IMM_def or.assoc)

interpretation stype_imm: signed_codec "[(0, 5, 7), (5, 7, 25)]" ENCODE_STYPE_IMM EXTRACT_STYPE_IMM 11
proof (unfold_locales, goal_cases)
  case (4 w)
  have "EXTRACT_STYPE_IMM w = gather [(0, 5, 7), (5, 7, 25)] w OR push_bit (Suc 11) (RV_IMM_SIGN w)"
    by (simp add: EXTRACT_STYPE_IMM_def gather_def or.assoc)
  also have "\<dots> = signed_take_bit 11 (gather [(0, 5, 7), (5, 7, 25)] w)"
    by (rule signed_extract_top [of _ _ 5 7 25]) (simp_all add: bit_RV_IMM_SIGN)
  finally show ?case .
qed (simp_all add: scatter_def ENCODE_STYPE_IMM_def or.assoc)

interpretation btype_imm: signed_codec "[(1, 4, 8), (5, 6, 25), (11, 1, 7), (12, 1, 31)]" ENCODE_BTYPE_IMM EXTRACT_BTYPE_IMM 12
proof (unfold_locales, goal_cases)
  case (4 w)
  have "EXTRACT_BTYPE_IMM w = gather [(1, 4, 8), (5, 6, 25), (11, 1, 7)] w OR push_bit 12 (RV_IMM_SIGN w)"
    by (simp add: EXTRACT_BTYPE_IMM_def gather_def or.assoc)
  then show ?case
    using signed_extract_own [of 12 "[(1, 4, 8), (5, 6, 25), (11, 1, 7)]" "RV_IMM_SIGN w" w 31, OF _ _ bit_RV_IMM_SIGN] by simp
qed (simp_all add: scatter_def ENCODE_BTYPE_IMM_def or.assoc)

interpretation utype_imm: signed_codec "[(12, 20, 12)]" ENCODE_UTYPE_IMM EXTRACT_UTYPE_IMM 31
proof (unfold_locales, goal_cases)
  case (4 w)
  have "EXTRACT_UTYPE_IMM w = gather [(12, 20, 12)] w OR push_bit (Suc 31) (RV_IMM_SIGN w)"
    by (simp add: EXTRACT_UTYPE_IMM_def gather_def or.assoc)
  also have "\<dots> = signed_take_bit 31 (gather [(12, 20, 12)] w)"
    by (rule signed_extract_top [of _ _ 12 20 12]) (simp_all add: bit_RV_IMM_SIGN)
  finally show ?case .
qed (simp_all add: scatter_def ENCODE_UTYPE_IMM_def or.assoc)

interpretation jtype_imm: signed_codec "[(1, 10, 21), (11, 1, 20), (12, 8, 12), (20, 1, 31)]" ENCODE_JTYPE_IMM EXTRACT_JTYPE_IMM 20
proof (unfold_locales, goal_cases)
  case (4 w)
  have "EXTRACT_JTYPE_IMM w = gather [(1, 10, 21), (11, 1, 20), (12, 8, 12)] w OR push_bit 20 (RV_IMM_SIGN w)"
    by (simp add: EXTRACT_JTYPE_IMM_def gather_def or.assoc)
  then show ?case
    using signed_extract_own [of 20 "[(1, 10, 21), (11, 1, 20), (12, 8, 12)]" "RV_IMM_SIGN w" w 31, OF _ _ bit_RV_IMM_SIGN] by simp
qed (simp_all add: scatter_def ENCODE_JTYPE_IMM_def or.assoc)

interpretation citype_imm: signed_codec "[(0, 5, 2), (5, 1, 12)]" ENCODE_CITYPE_IMM EXTRACT_CITYPE_IMM 5
proof (unfold_locales, goal_cases)
  case (4 w)
  have "EXTRACT_CITYPE_IMM w = gather [(0, 5, 2)] w OR push_bit 5 (- RV_X w 12 1)"
    by (simp add: EXTRACT_CITYPE_IMM_def gather_def or.assoc)
  then show ?case
    using signed_extract_own [of 5 "[(0, 5, 2)]" "- RV_X w 12 1" w 12, OF _ _ bit_neg_RV_X1] by simp
qed (simp_all add: scatter_def ENCODE_CITYPE_IMM_def or.assoc)

interpretation citype_lui_imm: signed_codec "[(12, 5, 2), (17, 1, 12)]" ENCODE_CITYPE_LUI_IMM EXTRACT_CITYPE_LUI_IMM 17
proof (unfold_locales, goal_cases)
  case (4 w)
  have "EXTRACT_CITYPE_LUI_IMM w = gather [(12, 5, 2)] w OR push_bit 17 (- RV_X w 12 1)"
    by (simp add: EXTRACT_CITYPE_LUI_IMM_def EXTRACT_CITYPE_IMM_def gather_def push_bit_or)
  then show ?case using signed_extract_own [of 17 "[(12, 5, 2)]" "- RV_X w 12 1" w 12, OF _ _ bit_neg_RV_X1] by simp
next
  case (2 x)
  have "RV_X (drop_bit 12 x) s n = RV_X x (12 + s) n" for s n
    by (simp add: RV_X_def add.commute)
  then show ?case by (simp add: ENCODE_CITYPE_LUI_IMM_def ENCODE_CITYPE_IMM_def scatter_def)
qed simp_all

interpretation citype_addi16sp_imm: signed_codec "[(4, 1, 6), (5, 1, 2), (6, 1, 5), (7, 2, 3), (9, 1, 12)]" ENCODE_CITYPE_ADDI16SP_IMM EXTRACT_CITYPE_ADDI16SP_IMM 9
proof (unfold_locales, goal_cases)
  case (4 w)
  have "EXTRACT_CITYPE_ADDI16SP_IMM w = gather [(4, 1, 6), (5, 1, 2), (6, 1, 5), (7, 2, 3)] w OR push_bit 9 (- RV_X w 12 1)"
    by (simp add: EXTRACT_CITYPE_ADDI16SP_IMM_def gather_def or.assoc)
  then show ?case
    using signed_extract_own [of 9 "[(4, 1, 6), (5, 1, 2), (6, 1, 5), (7, 2, 3)]" "- RV_X w 12 1" w 12, OF _ _ bit_neg_RV_X1] by simp
qed (simp_all add: scatter_def ENCODE_CITYPE_ADDI16SP_IMM_def or.assoc)

interpretation citype_lwsp_imm: unsigned_codec "[(2, 3, 4), (5, 1, 12), (6, 2, 2)]" ENCODE_CITYPE_LWSP_IMM EXTRACT_CITYPE_LWSP_IMM
  by unfold_locales (simp_all add: scatter_def gather_def ENCODE_CITYPE_LWSP_IMM_def EXTRACT_CITYPE_LWSP_IMM_def or.assoc)

interpretation citype_ldsp_imm: unsigned_codec "[(3, 2, 5), (5, 1, 12), (6, 3, 2)]" ENCODE_CITYPE_LDSP_IMM EXTRACT_CITYPE_LDSP_IMM
  by unfold_locales (simp_all add: scatter_def gather_def ENCODE_CITYPE_LDSP_IMM_def EXTRACT_CITYPE_LDSP_IMM_def or.assoc)

interpretation csstype_imm: unsigned_codec "[(0, 6, 7)]" ENCODE_CSSTYPE_IMM EXTRACT_CSSTYPE_IMM
  by unfold_locales (simp_all add: scatter_def gather_def ENCODE_CSSTYPE_IMM_def EXTRACT_CSSTYPE_IMM_def or.assoc)

interpretation csstype_swsp_imm: unsigned_codec "[(2, 4, 9), (6, 2, 7)]" ENCODE_CSSTYPE_SWSP_IMM EXTRACT_CSSTYPE_SWSP_IMM
  by unfold_locales (simp_all add: scatter_def gather_def ENCODE_CSSTYPE_SWSP_IMM_def EXTRACT_CSSTYPE_SWSP_IMM_def or.assoc)

interpretation csstype_sdsp_imm: unsigned_codec "[(3, 3, 10), (6, 3, 7)]" ENCODE_CSSTYPE_SDSP_IMM EXTRACT_CSSTYPE_SDSP_IMM
  by unfold_locales (simp_all add: scatter_def gather_def ENCODE_CSSTYPE_SDSP_IMM_def EXTRACT_CSSTYPE_SDSP_IMM_def or.assoc)

interpretation ciwtype_imm: unsigned_codec "[(0, 8, 5)]" ENCODE_CIWTYPE_IMM EXTRACT_CIWTYPE_IMM
  by unfold_locales (simp_all add: scatter_def gather_def ENCODE_CIWTYPE_IMM_def EXTRACT_CIWTYPE_IMM_def or.assoc)

interpretation ciwtype_addi4spn_imm: unsigned_codec "[(2, 1, 6), (3, 1, 5), (4, 2, 11), (6, 4, 7)]" ENCODE_CIWTYPE_ADDI4SPN_IMM EXTRACT_CIWTYPE_ADDI4SPN_IMM
  by unfold_locales (simp_all add: scatter_def gather_def ENCODE_CIWTYPE_ADDI4SPN_IMM_def EXTRACT_CIWTYPE_ADDI4SPN_IMM_def or.assoc)

interpretation cltype_imm: unsigned_codec "[(0, 2, 5), (2, 3, 10)]" ENCODE_CLTYPE_IMM EXTRACT_CLTYPE_IMM
  by unfold_locales (simp_all add: scatter_def gather_def ENCODE_CLTYPE_IMM_def EXTRACT_CLTYPE_IMM_def or.assoc)

interpretation cltype_lw_imm: unsigned_codec "[(2, 1, 6), (3, 3, 10), (6, 1, 5)]" ENCODE_CLTYPE_LW_IMM EXTRACT_CLTYPE_LW_IMM
  by unfold_locales (simp_all add: scatter_def gather_def ENCODE_CLTYPE_LW_IMM_def EXTRACT_CLTYPE_LW_IMM_def or.assoc)

interpretation cltype_ld_imm: unsigned_codec "[(3, 3, 10), (6, 2, 5)]" ENCODE_CLTYPE_LD_IMM EXTRACT_CLTYPE_LD_IMM
  by unfold_locales (simp_all add: scatter_def gather_def ENCODE_CLTYPE_LD_IMM_def EXTRACT_CLTYPE_LD_IMM_def or.assoc)

interpretation cbtype_imm: signed_codec "[(1, 2, 3), (3, 2, 10), (5, 1, 2), (6, 2, 5), (8, 1, 12)]" ENCODE_CBTYPE_IMM EXTRACT_CBTYPE_IMM 8
proof (unfold_locales, goal_cases)
  case (4 w)
  have "EXTRACT_CBTYPE_IMM w = gather [(1, 2, 3), (3, 2, 10), (5, 1, 2), (6, 2, 5)] w OR push_bit 8 (- RV_X w 12 1)"
    by (simp add: EXTRACT_CBTYPE_IMM_def gather_def or.assoc)
  then show ?case
    using signed_extract_own [of 8 "[(1, 2, 3), (3, 2, 10), (5, 1, 2), (6, 2, 5)]" "- RV_X w 12 1" w 12, OF _ _ bit_neg_RV_X1] by simp
qed (simp_all add: scatter_def ENCODE_CBTYPE_IMM_def or.assoc)

interpretation cjtype_imm: signed_codec "[(1, 3, 3), (4, 1, 11), (5, 1, 2), (6, 1, 7), (7, 1, 6), (8, 2, 9), (10, 1, 8), (11, 1, 12)]" ENCODE_CJTYPE_IMM EXTRACT_CJTYPE_IMM 11
proof (unfold_locales, goal_cases)
  case (4 w)
  have "EXTRACT_CJTYPE_IMM w = gather [(1, 3, 3), (4, 1, 11), (5, 1, 2), (6, 1, 7), (7, 1, 6), (8, 2, 9), (10, 1, 8)] w OR push_bit 11 (- RV_X w 12 1)"
    by (simp add: EXTRACT_CJTYPE_IMM_def gather_def or.assoc)
  then show ?case
    using signed_extract_own [of 11 "[(1, 3, 3), (4, 1, 11), (5, 1, 2), (6, 1, 7), (7, 1, 6), (8, 2, 9), (10, 1, 8)]" "- RV_X w 12 1" w 12, OF _ _ bit_neg_RV_X1] by simp
qed (simp_all add: scatter_def ENCODE_CJTYPE_IMM_def or.assoc)

interpretation rvv_vb_imm: unsigned_codec "[(0, 10, 20)]" ENCODE_RVV_VB_IMM EXTRACT_RVV_VB_IMM
  by unfold_locales (simp_all add: scatter_def gather_def ENCODE_RVV_VB_IMM_def EXTRACT_RVV_VB_IMM_def or.assoc)

interpretation rvv_vc_imm: unsigned_codec "[(0, 11, 20)]" ENCODE_RVV_VC_IMM EXTRACT_RVV_VC_IMM
  by unfold_locales (simp_all add: scatter_def gather_def ENCODE_RVV_VC_IMM_def EXTRACT_RVV_VC_IMM_def or.assoc)

interpretation rvv_vi_uimm6: unsigned_codec "[(0, 5, 15), (5, 1, 26)]" ENCODE_RVV_VI_UIMM6 EXTRACT_RVV_VI_UIMM6
  by unfold_locales (simp_all add: scatter_def gather_def ENCODE_RVV_VI_UIMM6_def EXTRACT_RVV_VI_UIMM6_def or.assoc)

interpretation zcb_byte_uimm: unsigned_codec "[(0, 1, 6), (1, 1, 5)]" ENCODE_ZCB_BYTE_UIMM EXTRACT_ZCB_BYTE_UIMM
  by unfold_locales (simp_all add: scatter_def gather_def ENCODE_ZCB_BYTE_UIMM_def EXTRACT_ZCB_BYTE_UIMM_def or.assoc)

interpretation zcb_halfword_uimm: unsigned_codec "[(1, 1, 5)]" ENCODE_ZCB_HALFWORD_UIMM EXTRACT_ZCB_HALFWORD_UIMM
  by unfold_locales (simp_all add: scatter_def gather_def ENCODE_ZCB_HALFWORD_UIMM_def EXTRACT_ZCB_HALFWORD_UIMM_def or.assoc)

interpretation zcmp_spimm: unsigned_codec "[(4, 2, 2)]" ENCODE_ZCMP_SPIMM EXTRACT_ZCMP_SPIMM
  by unfold_locales (simp_all add: scatter_def gather_def ENCODE_ZCMP_SPIMM_def EXTRACT_ZCMP_SPIMM_def or.assoc)

interpretation cv_is2_uimm5: unsigned_codec "[(0, 5, 20)]" ENCODE_CV_IS2_UIMM5 EXTRACT_CV_IS2_UIMM5
  by unfold_locales (simp_all add: scatter_def gather_def ENCODE_CV_IS2_UIMM5_def EXTRACT_CV_IS2_UIMM5_def or.assoc)

interpretation cv_is3_uimm5: unsigned_codec "[(0, 5, 25)]" ENCODE_CV_IS3_UIMM5 EXTRACT_CV_IS3_UIMM5
  by unfold_locales (simp_all add: scatter_def gather_def ENCODE_CV_IS3_UIMM5_def EXTRACT_CV_IS3_UIMM5_def or.assoc)

end
