(* ===== verification/Riscv_Opc.thy ===== *)
theory Riscv_Opc
  imports Riscv_Imm
begin

text \<open>
  The data of the RISC-V opcode library (\<^verbatim>\<open>opcodes/riscv-opc.c\<close> and
  \<^verbatim>\<open>include/opcode/riscv.h\<close>): instruction length, operand fields, the record of
  a table entry, the functions that decide whether a word is an instance of an
  entry, the register names, and the stack adjustment of the push and pop instructions.
\<close>

section \<open>Length of an instruction\<close>

definition riscv_insn_length :: "insn_t \<Rightarrow> nat" where
  [opc_defs]: "riscv_insn_length insn =
     (if insn AND 0x3 \<noteq> 0x3 then 2
      else if insn AND 0x1f \<noteq> 0x1f then 4
      else if insn AND 0x3f = 0x1f then 6
      else if insn AND 0x7f = 0x3f then 8
      else if insn AND 0x7f = 0x7f \<and> insn AND 0x7000 \<noteq> 0x7000
        then 10 + unat (drop_bit 11 insn AND 0xe)
      else 2)"

section \<open>Operand fields\<close>

text \<open>A field \<^verbatim>\<open>F\<close> is the pair of \<^verbatim>\<open>OP_MASK_F\<close> and \<^verbatim>\<open>OP_SH_F\<close>.\<close>

type_synonym op_field = "u64 \<times> nat"

abbreviation (input) OP_OP :: op_field where "OP_OP \<equiv> (0x7f, 0)"
abbreviation (input) OP_RS2 :: op_field where "OP_RS2 \<equiv> (0x1f, 20)"
abbreviation (input) OP_RS1 :: op_field where "OP_RS1 \<equiv> (0x1f, 15)"
abbreviation (input) OP_RS3 :: op_field where "OP_RS3 \<equiv> (0x1f, 27)"
abbreviation (input) OP_RD :: op_field where "OP_RD \<equiv> (0x1f, 7)"
abbreviation (input) OP_SHAMT :: op_field where "OP_SHAMT \<equiv> (0x3f, 20)"
abbreviation (input) OP_SHAMTW :: op_field where "OP_SHAMTW \<equiv> (0x1f, 20)"
abbreviation (input) OP_RM :: op_field where "OP_RM \<equiv> (0x7, 12)"
abbreviation (input) OP_PRED :: op_field where "OP_PRED \<equiv> (0xf, 24)"
abbreviation (input) OP_SUCC :: op_field where "OP_SUCC \<equiv> (0xf, 20)"
abbreviation (input) OP_AQ :: op_field where "OP_AQ \<equiv> (0x1, 26)"
abbreviation (input) OP_RL :: op_field where "OP_RL \<equiv> (0x1, 25)"
abbreviation (input) OP_CSR :: op_field where "OP_CSR \<equiv> (0xfff, 20)"
abbreviation (input) OP_FUNCT3 :: op_field where "OP_FUNCT3 \<equiv> (0x7, 12)"
abbreviation (input) OP_FUNCT7 :: op_field where "OP_FUNCT7 \<equiv> (0x7f, 25)"
abbreviation (input) OP_FUNCT2 :: op_field where "OP_FUNCT2 \<equiv> (0x3, 25)"
abbreviation (input) OP_OP2 :: op_field where "OP_OP2 \<equiv> (0x3, 0)"
abbreviation (input) OP_CRS2 :: op_field where "OP_CRS2 \<equiv> (0x1f, 2)"
abbreviation (input) OP_CRS1S :: op_field where "OP_CRS1S \<equiv> (0x7, 7)"
abbreviation (input) OP_CRS2S :: op_field where "OP_CRS2S \<equiv> (0x7, 2)"
abbreviation (input) OP_CFUNCT6 :: op_field where "OP_CFUNCT6 \<equiv> (0x3f, 10)"
abbreviation (input) OP_CFUNCT4 :: op_field where "OP_CFUNCT4 \<equiv> (0xf, 12)"
abbreviation (input) OP_CFUNCT3 :: op_field where "OP_CFUNCT3 \<equiv> (0x7, 13)"
abbreviation (input) OP_CFUNCT2 :: op_field where "OP_CFUNCT2 \<equiv> (0x3, 5)"
abbreviation (input) OP_BS :: op_field where "OP_BS \<equiv> (0x3, 30)"
abbreviation (input) OP_RNUM :: op_field where "OP_RNUM \<equiv> (0xf, 20)"
abbreviation (input) OP_VD :: op_field where "OP_VD \<equiv> (0x1f, 7)"
abbreviation (input) OP_VS1 :: op_field where "OP_VS1 \<equiv> (0x1f, 15)"
abbreviation (input) OP_VS2 :: op_field where "OP_VS2 \<equiv> (0x1f, 20)"
abbreviation (input) OP_VIMM :: op_field where "OP_VIMM \<equiv> (0x1f, 15)"
abbreviation (input) OP_VMASK :: op_field where "OP_VMASK \<equiv> (0x1, 25)"
abbreviation (input) OP_VFUNCT6 :: op_field where "OP_VFUNCT6 \<equiv> (0x3f, 26)"
abbreviation (input) OP_VLMUL :: op_field where "OP_VLMUL \<equiv> (0x7, 0)"
abbreviation (input) OP_VSEW :: op_field where "OP_VSEW \<equiv> (0x7, 3)"
abbreviation (input) OP_VTA :: op_field where "OP_VTA \<equiv> (0x1, 6)"
abbreviation (input) OP_VMA :: op_field where "OP_VMA \<equiv> (0x1, 7)"
abbreviation (input) OP_VWD :: op_field where "OP_VWD \<equiv> (0x1, 26)"
abbreviation (input) OP_XTHEADVLMUL :: op_field where "OP_XTHEADVLMUL \<equiv> (0x3, 0)"
abbreviation (input) OP_XTHEADVSEW :: op_field where "OP_XTHEADVSEW \<equiv> (0x7, 2)"
abbreviation (input) OP_XTHEADVEDIV :: op_field where "OP_XTHEADVEDIV \<equiv> (0x3, 5)"
abbreviation (input) OP_XTHEADVTYPE_RES :: op_field where "OP_XTHEADVTYPE_RES \<equiv> (0xf, 7)"
abbreviation (input) OP_REG_LIST :: op_field where "OP_REG_LIST \<equiv> (0xf, 4)"
abbreviation (input) OP_XSO2 :: op_field where "OP_XSO2 \<equiv> (0x3, 26)"
abbreviation (input) OP_XSO1 :: op_field where "OP_XSO1 \<equiv> (0x1, 26)"

definition INSERT_BITS :: "insn_t \<Rightarrow> u64 \<Rightarrow> op_field \<Rightarrow> insn_t" where
  [opc_defs]: "INSERT_BITS str value f =
     (str AND NOT (push_bit (snd f) (fst f))) OR push_bit (snd f) (value AND fst f)"

definition EXTRACT_BITS :: "insn_t \<Rightarrow> op_field \<Rightarrow> u64" where
  [opc_defs]: "EXTRACT_BITS str f = drop_bit (snd f) str AND fst f"

text \<open>\<^verbatim>\<open>EXTRACT_OPERAND\<close> narrows to \<^verbatim>\<open>unsigned int\<close>; every mask fits in 32 bits.\<close>

definition EXTRACT_OPERAND :: "op_field \<Rightarrow> insn_t \<Rightarrow> nat" where
  [opc_defs]: "EXTRACT_OPERAND f insn = unat (EXTRACT_BITS insn f) mod 2 ^ 32"

abbreviation field_mask :: "op_field \<Rightarrow> insn_t" where
  "field_mask f \<equiv> push_bit (snd f) (fst f)"

section \<open>Table entries\<close>

text \<open>The classes of instructions, by the position of \<^verbatim>\<open>enum riscv_insn_class\<close>.\<close>

abbreviation (input) INSN_CLASS_NONE :: nat where "INSN_CLASS_NONE \<equiv> 0"
abbreviation (input) INSN_CLASS_I :: nat where "INSN_CLASS_I \<equiv> 1"
abbreviation (input) INSN_CLASS_C :: nat where "INSN_CLASS_C \<equiv> 2"
abbreviation (input) INSN_CLASS_M :: nat where "INSN_CLASS_M \<equiv> 3"
abbreviation (input) INSN_CLASS_F :: nat where "INSN_CLASS_F \<equiv> 4"
abbreviation (input) INSN_CLASS_D :: nat where "INSN_CLASS_D \<equiv> 5"
abbreviation (input) INSN_CLASS_Q :: nat where "INSN_CLASS_Q \<equiv> 6"
abbreviation (input) INSN_CLASS_F_AND_C :: nat where "INSN_CLASS_F_AND_C \<equiv> 7"
abbreviation (input) INSN_CLASS_D_AND_C :: nat where "INSN_CLASS_D_AND_C \<equiv> 8"
abbreviation (input) INSN_CLASS_ZICOND :: nat where "INSN_CLASS_ZICOND \<equiv> 9"
abbreviation (input) INSN_CLASS_ZICSR :: nat where "INSN_CLASS_ZICSR \<equiv> 10"
abbreviation (input) INSN_CLASS_ZIFENCEI :: nat where "INSN_CLASS_ZIFENCEI \<equiv> 11"
abbreviation (input) INSN_CLASS_ZIHINTNTL :: nat where "INSN_CLASS_ZIHINTNTL \<equiv> 12"
abbreviation (input) INSN_CLASS_ZIHINTNTL_AND_C :: nat where "INSN_CLASS_ZIHINTNTL_AND_C \<equiv> 13"
abbreviation (input) INSN_CLASS_ZIHINTPAUSE :: nat where "INSN_CLASS_ZIHINTPAUSE \<equiv> 14"
abbreviation (input) INSN_CLASS_ZIMOP :: nat where "INSN_CLASS_ZIMOP \<equiv> 15"
abbreviation (input) INSN_CLASS_ZMMUL :: nat where "INSN_CLASS_ZMMUL \<equiv> 16"
abbreviation (input) INSN_CLASS_ZAAMO :: nat where "INSN_CLASS_ZAAMO \<equiv> 17"
abbreviation (input) INSN_CLASS_ZALRSC :: nat where "INSN_CLASS_ZALRSC \<equiv> 18"
abbreviation (input) INSN_CLASS_ZAWRS :: nat where "INSN_CLASS_ZAWRS \<equiv> 19"
abbreviation (input) INSN_CLASS_F_INX :: nat where "INSN_CLASS_F_INX \<equiv> 20"
abbreviation (input) INSN_CLASS_D_INX :: nat where "INSN_CLASS_D_INX \<equiv> 21"
abbreviation (input) INSN_CLASS_Q_INX :: nat where "INSN_CLASS_Q_INX \<equiv> 22"
abbreviation (input) INSN_CLASS_ZFH_INX :: nat where "INSN_CLASS_ZFH_INX \<equiv> 23"
abbreviation (input) INSN_CLASS_ZFHMIN :: nat where "INSN_CLASS_ZFHMIN \<equiv> 24"
abbreviation (input) INSN_CLASS_ZFHMIN_INX :: nat where "INSN_CLASS_ZFHMIN_INX \<equiv> 25"
abbreviation (input) INSN_CLASS_ZFHMIN_AND_D_INX :: nat where "INSN_CLASS_ZFHMIN_AND_D_INX \<equiv> 26"
abbreviation (input) INSN_CLASS_ZFHMIN_AND_Q_INX :: nat where "INSN_CLASS_ZFHMIN_AND_Q_INX \<equiv> 27"
abbreviation (input) INSN_CLASS_ZFBFMIN :: nat where "INSN_CLASS_ZFBFMIN \<equiv> 28"
abbreviation (input) INSN_CLASS_ZFA :: nat where "INSN_CLASS_ZFA \<equiv> 29"
abbreviation (input) INSN_CLASS_D_AND_ZFA :: nat where "INSN_CLASS_D_AND_ZFA \<equiv> 30"
abbreviation (input) INSN_CLASS_Q_AND_ZFA :: nat where "INSN_CLASS_Q_AND_ZFA \<equiv> 31"
abbreviation (input) INSN_CLASS_ZFH_AND_ZFA :: nat where "INSN_CLASS_ZFH_AND_ZFA \<equiv> 32"
abbreviation (input) INSN_CLASS_ZFH_OR_ZVFH_AND_ZFA :: nat where "INSN_CLASS_ZFH_OR_ZVFH_AND_ZFA \<equiv> 33"
abbreviation (input) INSN_CLASS_ZBA :: nat where "INSN_CLASS_ZBA \<equiv> 34"
abbreviation (input) INSN_CLASS_ZBB :: nat where "INSN_CLASS_ZBB \<equiv> 35"
abbreviation (input) INSN_CLASS_ZBC :: nat where "INSN_CLASS_ZBC \<equiv> 36"
abbreviation (input) INSN_CLASS_ZBS :: nat where "INSN_CLASS_ZBS \<equiv> 37"
abbreviation (input) INSN_CLASS_ZBKB :: nat where "INSN_CLASS_ZBKB \<equiv> 38"
abbreviation (input) INSN_CLASS_ZBKC :: nat where "INSN_CLASS_ZBKC \<equiv> 39"
abbreviation (input) INSN_CLASS_ZBKX :: nat where "INSN_CLASS_ZBKX \<equiv> 40"
abbreviation (input) INSN_CLASS_ZKND :: nat where "INSN_CLASS_ZKND \<equiv> 41"
abbreviation (input) INSN_CLASS_ZKNE :: nat where "INSN_CLASS_ZKNE \<equiv> 42"
abbreviation (input) INSN_CLASS_ZKNH :: nat where "INSN_CLASS_ZKNH \<equiv> 43"
abbreviation (input) INSN_CLASS_ZKSED :: nat where "INSN_CLASS_ZKSED \<equiv> 44"
abbreviation (input) INSN_CLASS_ZKSH :: nat where "INSN_CLASS_ZKSH \<equiv> 45"
abbreviation (input) INSN_CLASS_ZBB_OR_ZBKB :: nat where "INSN_CLASS_ZBB_OR_ZBKB \<equiv> 46"
abbreviation (input) INSN_CLASS_ZBC_OR_ZBKC :: nat where "INSN_CLASS_ZBC_OR_ZBKC \<equiv> 47"
abbreviation (input) INSN_CLASS_ZKND_OR_ZKNE :: nat where "INSN_CLASS_ZKND_OR_ZKNE \<equiv> 48"
abbreviation (input) INSN_CLASS_V :: nat where "INSN_CLASS_V \<equiv> 49"
abbreviation (input) INSN_CLASS_ZVEF :: nat where "INSN_CLASS_ZVEF \<equiv> 50"
abbreviation (input) INSN_CLASS_ZVBB :: nat where "INSN_CLASS_ZVBB \<equiv> 51"
abbreviation (input) INSN_CLASS_ZVBC :: nat where "INSN_CLASS_ZVBC \<equiv> 52"
abbreviation (input) INSN_CLASS_ZVFBFMIN :: nat where "INSN_CLASS_ZVFBFMIN \<equiv> 53"
abbreviation (input) INSN_CLASS_ZVFBFWMA :: nat where "INSN_CLASS_ZVFBFWMA \<equiv> 54"
abbreviation (input) INSN_CLASS_ZVKB :: nat where "INSN_CLASS_ZVKB \<equiv> 55"
abbreviation (input) INSN_CLASS_ZVKG :: nat where "INSN_CLASS_ZVKG \<equiv> 56"
abbreviation (input) INSN_CLASS_ZVKNED :: nat where "INSN_CLASS_ZVKNED \<equiv> 57"
abbreviation (input) INSN_CLASS_ZVKNHA_OR_ZVKNHB :: nat where "INSN_CLASS_ZVKNHA_OR_ZVKNHB \<equiv> 58"
abbreviation (input) INSN_CLASS_ZVKSED :: nat where "INSN_CLASS_ZVKSED \<equiv> 59"
abbreviation (input) INSN_CLASS_ZVKSH :: nat where "INSN_CLASS_ZVKSH \<equiv> 60"
abbreviation (input) INSN_CLASS_ZCB :: nat where "INSN_CLASS_ZCB \<equiv> 61"
abbreviation (input) INSN_CLASS_ZCB_AND_ZBA :: nat where "INSN_CLASS_ZCB_AND_ZBA \<equiv> 62"
abbreviation (input) INSN_CLASS_ZCB_AND_ZBB :: nat where "INSN_CLASS_ZCB_AND_ZBB \<equiv> 63"
abbreviation (input) INSN_CLASS_ZCB_AND_ZMMUL :: nat where "INSN_CLASS_ZCB_AND_ZMMUL \<equiv> 64"
abbreviation (input) INSN_CLASS_ZCMOP :: nat where "INSN_CLASS_ZCMOP \<equiv> 65"
abbreviation (input) INSN_CLASS_ZCMP :: nat where "INSN_CLASS_ZCMP \<equiv> 66"
abbreviation (input) INSN_CLASS_SVINVAL :: nat where "INSN_CLASS_SVINVAL \<equiv> 67"
abbreviation (input) INSN_CLASS_ZICBOM :: nat where "INSN_CLASS_ZICBOM \<equiv> 68"
abbreviation (input) INSN_CLASS_ZICBOP :: nat where "INSN_CLASS_ZICBOP \<equiv> 69"
abbreviation (input) INSN_CLASS_ZICBOZ :: nat where "INSN_CLASS_ZICBOZ \<equiv> 70"
abbreviation (input) INSN_CLASS_ZABHA :: nat where "INSN_CLASS_ZABHA \<equiv> 71"
abbreviation (input) INSN_CLASS_ZACAS :: nat where "INSN_CLASS_ZACAS \<equiv> 72"
abbreviation (input) INSN_CLASS_ZABHA_AND_ZACAS :: nat where "INSN_CLASS_ZABHA_AND_ZACAS \<equiv> 73"
abbreviation (input) INSN_CLASS_H :: nat where "INSN_CLASS_H \<equiv> 74"
abbreviation (input) INSN_CLASS_XCVMAC :: nat where "INSN_CLASS_XCVMAC \<equiv> 75"
abbreviation (input) INSN_CLASS_XCVALU :: nat where "INSN_CLASS_XCVALU \<equiv> 76"
abbreviation (input) INSN_CLASS_XCVELW :: nat where "INSN_CLASS_XCVELW \<equiv> 77"
abbreviation (input) INSN_CLASS_XCVBI :: nat where "INSN_CLASS_XCVBI \<equiv> 78"
abbreviation (input) INSN_CLASS_XCVMEM :: nat where "INSN_CLASS_XCVMEM \<equiv> 79"
abbreviation (input) INSN_CLASS_XTHEADBA :: nat where "INSN_CLASS_XTHEADBA \<equiv> 80"
abbreviation (input) INSN_CLASS_XTHEADBB :: nat where "INSN_CLASS_XTHEADBB \<equiv> 81"
abbreviation (input) INSN_CLASS_XTHEADBS :: nat where "INSN_CLASS_XTHEADBS \<equiv> 82"
abbreviation (input) INSN_CLASS_XTHEADCMO :: nat where "INSN_CLASS_XTHEADCMO \<equiv> 83"
abbreviation (input) INSN_CLASS_XTHEADCONDMOV :: nat where "INSN_CLASS_XTHEADCONDMOV \<equiv> 84"
abbreviation (input) INSN_CLASS_XTHEADFMEMIDX :: nat where "INSN_CLASS_XTHEADFMEMIDX \<equiv> 85"
abbreviation (input) INSN_CLASS_XTHEADFMV :: nat where "INSN_CLASS_XTHEADFMV \<equiv> 86"
abbreviation (input) INSN_CLASS_XTHEADINT :: nat where "INSN_CLASS_XTHEADINT \<equiv> 87"
abbreviation (input) INSN_CLASS_XTHEADMAC :: nat where "INSN_CLASS_XTHEADMAC \<equiv> 88"
abbreviation (input) INSN_CLASS_XTHEADMEMIDX :: nat where "INSN_CLASS_XTHEADMEMIDX \<equiv> 89"
abbreviation (input) INSN_CLASS_XTHEADMEMPAIR :: nat where "INSN_CLASS_XTHEADMEMPAIR \<equiv> 90"
abbreviation (input) INSN_CLASS_XTHEADSYNC :: nat where "INSN_CLASS_XTHEADSYNC \<equiv> 91"
abbreviation (input) INSN_CLASS_XTHEADVECTOR :: nat where "INSN_CLASS_XTHEADVECTOR \<equiv> 92"
abbreviation (input) INSN_CLASS_XTHEADZVAMO :: nat where "INSN_CLASS_XTHEADZVAMO \<equiv> 93"
abbreviation (input) INSN_CLASS_XVENTANACONDOPS :: nat where "INSN_CLASS_XVENTANACONDOPS \<equiv> 94"
abbreviation (input) INSN_CLASS_XSFVCP :: nat where "INSN_CLASS_XSFVCP \<equiv> 95"
abbreviation (input) INSN_CLASS_XSFCEASE :: nat where "INSN_CLASS_XSFCEASE \<equiv> 96"

text \<open>The functions a table entry may name in \<^verbatim>\<open>match_func\<close>.\<close>

datatype match_fn =
    MF_opcode
  | MF_rs1_eq_rs2
  | MF_rs2_rd_even
  | MF_rd_nonzero
  | MF_rs1_nonzero
  | MF_c_add
  | MF_c_add_with_hint
  | MF_c_nop
  | MF_c_addi16sp
  | MF_c_lui
  | MF_c_lui_with_hint
  | MF_c_addi4spn
  | MF_c_slli
  | MF_slli_as_c_slli
  | MF_c_slli64
  | MF_srxi_as_c_srxi
  | MF_vs1_eq_vs2
  | MF_vd_eq_vs1_eq_vs2
  | MF_th_load_inc
  | MF_th_load_pair

record riscv_opcode =
  op_name :: string
  xlen_requirement :: nat
  insn_class :: nat
  op_args :: string
  op_match :: insn_t
  op_mask :: insn_t
  match_func :: "match_fn option"
  pinfo :: u64

definition opc ::
  "string \<Rightarrow> nat \<Rightarrow> nat \<Rightarrow> string \<Rightarrow> insn_t \<Rightarrow> insn_t \<Rightarrow> match_fn option \<Rightarrow> u64 \<Rightarrow> riscv_opcode" where
  "opc n x c a mt mk f p = \<lparr>op_name = n, xlen_requirement = x, insn_class = c, op_args = a,
     op_match = mt, op_mask = mk, match_func = f, pinfo = p\<rparr>"

abbreviation (input) INSN_ALIAS :: u64 where "INSN_ALIAS \<equiv> 0x1"
abbreviation (input) INSN_MACRO :: u64 where "INSN_MACRO \<equiv> 0xffffffff"

section \<open>Matching\<close>

abbreviation (input) MASK_RD :: insn_t where "MASK_RD \<equiv> field_mask OP_RD"
abbreviation (input) MASK_RS1 :: insn_t where "MASK_RS1 \<equiv> field_mask OP_RS1"
abbreviation (input) MASK_RS2 :: insn_t where "MASK_RS2 \<equiv> field_mask OP_RS2"
abbreviation (input) MASK_CRS2 :: insn_t where "MASK_CRS2 \<equiv> field_mask OP_CRS2"
abbreviation (input) MASK_VD :: insn_t where "MASK_VD \<equiv> field_mask OP_VD"
abbreviation (input) MASK_VS1 :: insn_t where "MASK_VS1 \<equiv> field_mask OP_VS1"
abbreviation (input) MASK_VS2 :: insn_t where "MASK_VS2 \<equiv> field_mask OP_VS2"

definition match_opcode :: "riscv_opcode \<Rightarrow> insn_t \<Rightarrow> bool" where
  [opc_defs]: "match_opcode op insn \<longleftrightarrow> (insn XOR op_match op) AND op_mask op = 0"

definition match_rs1_eq_rs2 :: "riscv_opcode \<Rightarrow> insn_t \<Rightarrow> bool" where
  [opc_defs]: "match_rs1_eq_rs2 op insn \<longleftrightarrow>
     (let rs1 = drop_bit 15 (insn AND MASK_RS1); rs2 = drop_bit 20 (insn AND MASK_RS2)
      in match_opcode op insn \<and> rs1 = rs2)"

definition match_rs2_rd_even :: "riscv_opcode \<Rightarrow> insn_t \<Rightarrow> bool" where
  [opc_defs]: "match_rs2_rd_even op insn \<longleftrightarrow>
     (let rs2 = drop_bit 20 (insn AND MASK_RS2); rd = drop_bit 7 (insn AND MASK_RD)
      in rs2 AND 1 = 0 \<and> rd AND 1 = 0 \<and> match_opcode op insn)"

definition match_rd_nonzero :: "riscv_opcode \<Rightarrow> insn_t \<Rightarrow> bool" where
  [opc_defs]: "match_rd_nonzero op insn \<longleftrightarrow>
     (pinfo op = INSN_MACRO \<or> match_opcode op insn) \<and> insn AND MASK_RD \<noteq> 0"

definition match_rs1_nonzero :: "riscv_opcode \<Rightarrow> insn_t \<Rightarrow> bool" where
  [opc_defs]: "match_rs1_nonzero op insn \<longleftrightarrow> insn AND MASK_RS1 \<noteq> 0"

definition match_c_add :: "riscv_opcode \<Rightarrow> insn_t \<Rightarrow> bool" where
  [opc_defs]: "match_c_add op insn \<longleftrightarrow> match_rd_nonzero op insn \<and> insn AND MASK_CRS2 \<noteq> 0"

definition match_c_add_with_hint :: "riscv_opcode \<Rightarrow> insn_t \<Rightarrow> bool" where
  [opc_defs]: "match_c_add_with_hint op insn \<longleftrightarrow> match_opcode op insn \<and> insn AND MASK_CRS2 \<noteq> 0"

definition match_c_nop :: "riscv_opcode \<Rightarrow> insn_t \<Rightarrow> bool" where
  [opc_defs]: "match_c_nop op insn \<longleftrightarrow> match_opcode op insn \<and> drop_bit 7 (insn AND MASK_RD) = 0"

definition match_c_addi16sp :: "riscv_opcode \<Rightarrow> insn_t \<Rightarrow> bool" where
  [opc_defs]: "match_c_addi16sp op insn \<longleftrightarrow> match_opcode op insn \<and> drop_bit 7 (insn AND MASK_RD) = 2"

definition match_c_lui :: "riscv_opcode \<Rightarrow> insn_t \<Rightarrow> bool" where
  [opc_defs]: "match_c_lui op insn \<longleftrightarrow>
     match_rd_nonzero op insn \<and> drop_bit 7 (insn AND MASK_RD) \<noteq> 2 \<and> EXTRACT_CITYPE_LUI_IMM insn \<noteq> 0"

definition match_c_lui_with_hint :: "riscv_opcode \<Rightarrow> insn_t \<Rightarrow> bool" where
  [opc_defs]: "match_c_lui_with_hint op insn \<longleftrightarrow>
     match_opcode op insn \<and> drop_bit 7 (insn AND MASK_RD) \<noteq> 2 \<and> EXTRACT_CITYPE_LUI_IMM insn \<noteq> 0"

definition match_c_addi4spn :: "riscv_opcode \<Rightarrow> insn_t \<Rightarrow> bool" where
  [opc_defs]: "match_c_addi4spn op insn \<longleftrightarrow> match_opcode op insn \<and> EXTRACT_CIWTYPE_ADDI4SPN_IMM insn \<noteq> 0"

definition match_c_slli :: "riscv_opcode \<Rightarrow> insn_t \<Rightarrow> bool" where
  [opc_defs]: "match_c_slli op insn \<longleftrightarrow> match_opcode op insn \<and> EXTRACT_CITYPE_IMM insn \<noteq> 0"

definition match_slli_as_c_slli :: "riscv_opcode \<Rightarrow> insn_t \<Rightarrow> bool" where
  [opc_defs]: "match_slli_as_c_slli op insn \<longleftrightarrow> match_rd_nonzero op insn \<and> EXTRACT_CITYPE_IMM insn \<noteq> 0"

definition match_c_slli64 :: "riscv_opcode \<Rightarrow> insn_t \<Rightarrow> bool" where
  [opc_defs]: "match_c_slli64 op insn \<longleftrightarrow> match_opcode op insn \<and> EXTRACT_CITYPE_IMM insn = 0"

definition match_srxi_as_c_srxi :: "riscv_opcode \<Rightarrow> insn_t \<Rightarrow> bool" where
  [opc_defs]: "match_srxi_as_c_srxi op insn \<longleftrightarrow> match_opcode op insn \<and> EXTRACT_CITYPE_IMM insn \<noteq> 0"

definition match_vs1_eq_vs2 :: "riscv_opcode \<Rightarrow> insn_t \<Rightarrow> bool" where
  [opc_defs]: "match_vs1_eq_vs2 op insn \<longleftrightarrow>
     (let vs1 = drop_bit 15 (insn AND MASK_VS1); vs2 = drop_bit 20 (insn AND MASK_VS2)
      in match_opcode op insn \<and> vs1 = vs2)"

definition match_vd_eq_vs1_eq_vs2 :: "riscv_opcode \<Rightarrow> insn_t \<Rightarrow> bool" where
  [opc_defs]: "match_vd_eq_vs1_eq_vs2 op insn \<longleftrightarrow>
     (let vd = drop_bit 7 (insn AND MASK_VD); vs1 = drop_bit 15 (insn AND MASK_VS1);
          vs2 = drop_bit 20 (insn AND MASK_VS2)
      in match_opcode op insn \<and> vd = vs1 \<and> vs1 = vs2)"

definition match_th_load_inc :: "riscv_opcode \<Rightarrow> insn_t \<Rightarrow> bool" where
  [opc_defs]: "match_th_load_inc op insn \<longleftrightarrow>
     (let rd = drop_bit 7 (insn AND MASK_RD); rs1 = drop_bit 15 (insn AND MASK_RS1)
      in rd \<noteq> rs1 \<and> match_opcode op insn)"

definition match_th_load_pair :: "riscv_opcode \<Rightarrow> insn_t \<Rightarrow> bool" where
  [opc_defs]: "match_th_load_pair op insn \<longleftrightarrow>
     (let rd1 = drop_bit 7 (insn AND MASK_RD); rd2 = drop_bit 20 (insn AND MASK_RS2);
          rs = drop_bit 15 (insn AND MASK_RS1)
      in rd1 \<noteq> rd2 \<and> rd1 \<noteq> rs \<and> rd2 \<noteq> rs \<and> match_opcode op insn)"

text \<open>The call through the pointer of an entry.\<close>

fun call_match_fn :: "match_fn \<Rightarrow> riscv_opcode \<Rightarrow> insn_t \<Rightarrow> bool" where
  "call_match_fn MF_opcode = match_opcode"
| "call_match_fn MF_rs1_eq_rs2 = match_rs1_eq_rs2"
| "call_match_fn MF_rs2_rd_even = match_rs2_rd_even"
| "call_match_fn MF_rd_nonzero = match_rd_nonzero"
| "call_match_fn MF_rs1_nonzero = match_rs1_nonzero"
| "call_match_fn MF_c_add = match_c_add"
| "call_match_fn MF_c_add_with_hint = match_c_add_with_hint"
| "call_match_fn MF_c_nop = match_c_nop"
| "call_match_fn MF_c_addi16sp = match_c_addi16sp"
| "call_match_fn MF_c_lui = match_c_lui"
| "call_match_fn MF_c_lui_with_hint = match_c_lui_with_hint"
| "call_match_fn MF_c_addi4spn = match_c_addi4spn"
| "call_match_fn MF_c_slli = match_c_slli"
| "call_match_fn MF_slli_as_c_slli = match_slli_as_c_slli"
| "call_match_fn MF_c_slli64 = match_c_slli64"
| "call_match_fn MF_srxi_as_c_srxi = match_srxi_as_c_srxi"
| "call_match_fn MF_vs1_eq_vs2 = match_vs1_eq_vs2"
| "call_match_fn MF_vd_eq_vs1_eq_vs2 = match_vd_eq_vs1_eq_vs2"
| "call_match_fn MF_th_load_inc = match_th_load_inc"
| "call_match_fn MF_th_load_pair = match_th_load_pair"

section \<open>Names\<close>

definition riscv_gpr_names_numeric :: "string list" where
  "riscv_gpr_names_numeric =
     [''x0'', ''x1'', ''x2'', ''x3'', ''x4'', ''x5'', ''x6'', ''x7'',
      ''x8'', ''x9'', ''x10'', ''x11'', ''x12'', ''x13'', ''x14'', ''x15'',
      ''x16'', ''x17'', ''x18'', ''x19'', ''x20'', ''x21'', ''x22'', ''x23'',
      ''x24'', ''x25'', ''x26'', ''x27'', ''x28'', ''x29'', ''x30'', ''x31'']"

definition riscv_gpr_names_abi :: "string list" where
  "riscv_gpr_names_abi =
     [''zero'', ''ra'', ''sp'', ''gp'', ''tp'', ''t0'', ''t1'', ''t2'',
      ''s0'', ''s1'', ''a0'', ''a1'', ''a2'', ''a3'', ''a4'', ''a5'',
      ''a6'', ''a7'', ''s2'', ''s3'', ''s4'', ''s5'', ''s6'', ''s7'',
      ''s8'', ''s9'', ''s10'', ''s11'', ''t3'', ''t4'', ''t5'', ''t6'']"

definition riscv_fpr_names_numeric :: "string list" where
  "riscv_fpr_names_numeric =
     [''f0'', ''f1'', ''f2'', ''f3'', ''f4'', ''f5'', ''f6'', ''f7'',
      ''f8'', ''f9'', ''f10'', ''f11'', ''f12'', ''f13'', ''f14'', ''f15'',
      ''f16'', ''f17'', ''f18'', ''f19'', ''f20'', ''f21'', ''f22'', ''f23'',
      ''f24'', ''f25'', ''f26'', ''f27'', ''f28'', ''f29'', ''f30'', ''f31'']"

definition riscv_fpr_names_abi :: "string list" where
  "riscv_fpr_names_abi =
     [''ft0'', ''ft1'', ''ft2'', ''ft3'', ''ft4'', ''ft5'', ''ft6'', ''ft7'',
      ''fs0'', ''fs1'', ''fa0'', ''fa1'', ''fa2'', ''fa3'', ''fa4'', ''fa5'',
      ''fa6'', ''fa7'', ''fs2'', ''fs3'', ''fs4'', ''fs5'', ''fs6'', ''fs7'',
      ''fs8'', ''fs9'', ''fs10'', ''fs11'', ''ft8'', ''ft9'', ''ft10'', ''ft11'']"

definition riscv_rm :: "string option list" where
  "riscv_rm =
     [Some ''rne'', Some ''rtz'', Some ''rdn'', Some ''rup'', Some ''rmm'', None, None, Some ''dyn'']"

definition riscv_pred_succ :: "string option list" where
  "riscv_pred_succ =
     [None, Some ''w'', Some ''r'', Some ''rw'', Some ''o'', Some ''ow'', Some ''or'', Some ''orw'',
      Some ''i'', Some ''iw'', Some ''ir'', Some ''irw'', Some ''io'', Some ''iow'', Some ''ior'', Some ''iorw'']"

definition riscv_vecr_names_numeric :: "string list" where
  "riscv_vecr_names_numeric =
     [''v0'', ''v1'', ''v2'', ''v3'', ''v4'', ''v5'', ''v6'', ''v7'',
      ''v8'', ''v9'', ''v10'', ''v11'', ''v12'', ''v13'', ''v14'', ''v15'',
      ''v16'', ''v17'', ''v18'', ''v19'', ''v20'', ''v21'', ''v22'', ''v23'',
      ''v24'', ''v25'', ''v26'', ''v27'', ''v28'', ''v29'', ''v30'', ''v31'']"

definition riscv_vecm_names_numeric :: "string list" where
  "riscv_vecm_names_numeric =
     [''v0.t'']"

definition riscv_vsew :: "string option list" where
  "riscv_vsew =
     [Some ''e8'', Some ''e16'', Some ''e32'', Some ''e64'', None, None, None, None]"

definition riscv_vlmul :: "string option list" where
  "riscv_vlmul =
     [Some ''m1'', Some ''m2'', Some ''m4'', Some ''m8'', None, Some ''mf8'', Some ''mf4'', Some ''mf2'']"

definition riscv_vta :: "string list" where
  "riscv_vta =
     [''tu'', ''ta'']"

definition riscv_vma :: "string list" where
  "riscv_vma =
     [''mu'', ''ma'']"

definition riscv_th_vlen :: "string list" where
  "riscv_th_vlen =
     [''m1'', ''m2'', ''m4'', ''m8'']"

definition riscv_th_vediv :: "string list" where
  "riscv_th_vediv =
     [''d1'', ''d2'', ''d4'', ''d8'']"

definition riscv_fli_symval :: "string option list" where
  "riscv_fli_symval =
     [None, Some ''min'', None, None, None, None, None, None,
      None, None, None, None, None, None, None, None,
      None, None, None, None, None, None, None, None,
      None, None, None, None, None, None, Some ''inf'', Some ''nan'']"

section \<open>Stack adjustment of push and pop\<close>

text \<open>\<^verbatim>\<open>unsigned\<close> arithmetic: a register list below 3 wraps at 32 bits.\<close>

definition riscv_get_sp_base :: "insn_t \<Rightarrow> u32 \<Rightarrow> u32" where
  "riscv_get_sp_base opcode xlen =
     (let reg_size = xlen div 8;
          reg_list = ucast (EXTRACT_BITS opcode OP_REG_LIST) :: u32;
          min_sp_adj = (reg_list - 3) * reg_size + (if reg_list = 15 then reg_size else 0)
      in (min_sp_adj div 16 + (if min_sp_adj mod 16 \<noteq> 0 then 1 else 0)) * 16)"

end
