(* ===== verification/Riscv_Arch.thy ===== *)
theory Riscv_Arch
  imports Riscv_Ext Riscv_Opc
begin

text \<open>
  The parser of ISA strings (\<^verbatim>\<open>bfd/elfxx-riscv.c\<close>): the tables of known and of implied extensions, versions, the
  parser proper, the conflicts, the updates of \<^verbatim>\<open>.option arch\<close>, the printed form, and the features an
  instruction class asks for.

  A pointer into a string is the rest of the string. Calls of the error handler are collected in the state.
  Reads outside an array and signed overflow are faults.
\<close>

abbreviation (input) RISCV_UNKNOWN_VERSION :: int where "RISCV_UNKNOWN_VERSION \<equiv> -1"

abbreviation (input) ISA_SPEC_CLASS_NONE :: nat where "ISA_SPEC_CLASS_NONE \<equiv> 0"
abbreviation (input) ISA_SPEC_CLASS_2P2 :: nat where "ISA_SPEC_CLASS_2P2 \<equiv> 1"
abbreviation (input) ISA_SPEC_CLASS_20190608 :: nat where "ISA_SPEC_CLASS_20190608 \<equiv> 2"
abbreviation (input) ISA_SPEC_CLASS_20191213 :: nat where "ISA_SPEC_CLASS_20191213 \<equiv> 3"
abbreviation (input) ISA_SPEC_CLASS_DRAFT :: nat where "ISA_SPEC_CLASS_DRAFT \<equiv> 4"

section \<open>Tables\<close>

datatype check_func = Check_always | Check_for_i

fun call_check_func :: "check_func \<Rightarrow> riscv_subset \<Rightarrow> bool" where
  "call_check_func Check_always s = True"
| "call_check_func Check_for_i s =
     (major_version s < 2 \<or> major_version s = 2 \<and> minor_version s < 1)"

record riscv_supported_ext =
  ext_name :: string
  isa_spec_class :: nat
  ext_major :: int
  ext_minor :: int
  default_enable :: bool

definition supported :: "string \<Rightarrow> nat \<Rightarrow> int \<Rightarrow> int \<Rightarrow> bool \<Rightarrow> riscv_supported_ext" where
  "supported n c ma mi d =
     \<lparr>ext_name = n, isa_spec_class = c, ext_major = ma, ext_minor = mi, default_enable = d\<rparr>"

definition riscv_implicit_subsets :: "(string \<times> string \<times> check_func) list" where
  "riscv_implicit_subsets = [
      (''g'', ''+i,+m,+a,+f,+d,+zicsr,+zifencei'', Check_always), (''e'', ''+i'', Check_always),
      (''i'', ''+zicsr,+zifencei'', Check_for_i), (''zicntr'', ''+zicsr'', Check_always),
      (''zihpm'', ''+zicsr'', Check_always), (''m'', ''+zmmul'', Check_always),
      (''zabha'', ''+a'', Check_always), (''zacas'', ''+a'', Check_always),
      (''a'', ''+zaamo,+zalrsc'', Check_always), (''xsfvcp'', ''+zve32x'', Check_always),
      (''v'', ''+zve64d,+zvl128b'', Check_always), (''zvfh'', ''+zvfhmin,+zfhmin'', Check_always),
      (''zvfhmin'', ''+zve32f'', Check_always), (''zvfbfwma'', ''+zve32f,+zfbfmin'', Check_always),
      (''zvfbfmin'', ''+zve32f'', Check_always), (''zve64d'', ''+d,+zve64f'', Check_always),
      (''zve64f'', ''+zve32f,+zve64x,+zvl64b'', Check_always),
      (''zve32f'', ''+f,+zve32x,+zvl32b'', Check_always), (''zve64x'', ''+zve32x,+zvl64b'', Check_always),
      (''zve32x'', ''+zvl32b,+zicsr'', Check_always), (''zvl65536b'', ''+zvl32768b'', Check_always),
      (''zvl32768b'', ''+zvl16384b'', Check_always), (''zvl16384b'', ''+zvl8192b'', Check_always),
      (''zvl8192b'', ''+zvl4096b'', Check_always), (''zvl4096b'', ''+zvl2048b'', Check_always),
      (''zvl2048b'', ''+zvl1024b'', Check_always), (''zvl1024b'', ''+zvl512b'', Check_always),
      (''zvl512b'', ''+zvl256b'', Check_always), (''zvl256b'', ''+zvl128b'', Check_always),
      (''zvl128b'', ''+zvl64b'', Check_always), (''zvl64b'', ''+zvl32b'', Check_always),
      (''zcb'', ''+zca'', Check_always), (''zcd'', ''+d,+zca'', Check_always),
      (''zcf'', ''+f,+zca'', Check_always), (''zcmp'', ''+zca'', Check_always),
      (''zcmop'', ''+zca'', Check_always), (''shcounterenw'', ''+h'', Check_always),
      (''shgatpa'', ''+h'', Check_always), (''shtvala'', ''+h'', Check_always),
      (''shvsatpa'', ''+h'', Check_always), (''shvstvala'', ''+h'', Check_always),
      (''shvstvecd'', ''+h'', Check_always), (''h'', ''+zicsr'', Check_always),
      (''zhinx'', ''+zhinxmin'', Check_always), (''zhinxmin'', ''+zfinx'', Check_always),
      (''q'', ''+d'', Check_always), (''zqinx'', ''+zdinx'', Check_always), (''d'', ''+f'', Check_always),
      (''zdinx'', ''+zfinx'', Check_always), (''zfa'', ''+f'', Check_always),
      (''zfbfmin'', ''+zfhmin'', Check_always), (''zfh'', ''+zfhmin'', Check_always),
      (''zfhmin'', ''+f'', Check_always), (''zfinx'', ''+zicsr'', Check_always),
      (''f'', ''+zicsr'', Check_always), (''b'', ''+zba,+zbb,+zbs'', Check_always),
      (''zk'', ''+zkn,+zkr,+zkt'', Check_always),
      (''zkn'', ''+zbkb,+zbkc,+zbkx,+zkne,+zknd,+zknh'', Check_always),
      (''zks'', ''+zbkb,+zbkc,+zbkx,+zksed,+zksh'', Check_always), (''zvbb'', ''+zvkb'', Check_always),
      (''zvkng'', ''+zvkn,+zvkg'', Check_always), (''zvknc'', ''+zvkn,+zvbc'', Check_always),
      (''zvkn'', ''+zvkned,+zvknhb,+zvkb,+zvkt'', Check_always), (''zvksg'', ''+zvks,+zvkg'', Check_always),
      (''zvksc'', ''+zvks,+zvbc'', Check_always), (''zvks'', ''+zvksed,+zvksh,+zvkb,+zvkt'', Check_always),
      (''smaia'', ''+ssaia'', Check_always), (''smcsrind'', ''+sscsrind'', Check_always),
      (''smcntrpmf'', ''+zicsr'', Check_always), (''smstateen'', ''+ssstateen'', Check_always),
      (''smepmp'', ''+zicsr'', Check_always), (''ssaia'', ''+zicsr'', Check_always),
      (''sscsrind'', ''+zicsr'', Check_always), (''sscofpmf'', ''+zicsr'', Check_always),
      (''sscounterenw'', ''+zicsr'', Check_always), (''ssstateen'', ''+zicsr'', Check_always),
      (''sstc'', ''+zicsr'', Check_always), (''sstvala'', ''+zicsr'', Check_always),
      (''sstvecd'', ''+zicsr'', Check_always), (''ssu64xl'', ''+zicsr'', Check_always),
      (''svade'', ''+zicsr'', Check_always), (''svadu'', ''+zicsr'', Check_always),
      (''svbare'', ''+zicsr'', Check_always)]"

definition riscv_supported_std_ext :: "riscv_supported_ext list" where
  "riscv_supported_std_ext = [
      supported ''e'' ISA_SPEC_CLASS_20191213 1 9 False, supported ''e'' ISA_SPEC_CLASS_20190608 1 9 False,
      supported ''e'' ISA_SPEC_CLASS_2P2 1 9 False, supported ''i'' ISA_SPEC_CLASS_20191213 2 1 False,
      supported ''i'' ISA_SPEC_CLASS_20190608 2 1 False, supported ''i'' ISA_SPEC_CLASS_2P2 2 0 False,
      supported ''g'' ISA_SPEC_CLASS_NONE RISCV_UNKNOWN_VERSION RISCV_UNKNOWN_VERSION True,
      supported ''m'' ISA_SPEC_CLASS_20191213 2 0 False, supported ''m'' ISA_SPEC_CLASS_20190608 2 0 False,
      supported ''m'' ISA_SPEC_CLASS_2P2 2 0 False, supported ''a'' ISA_SPEC_CLASS_20191213 2 1 False,
      supported ''a'' ISA_SPEC_CLASS_20190608 2 0 False, supported ''a'' ISA_SPEC_CLASS_2P2 2 0 False,
      supported ''f'' ISA_SPEC_CLASS_20191213 2 2 False, supported ''f'' ISA_SPEC_CLASS_20190608 2 2 False,
      supported ''f'' ISA_SPEC_CLASS_2P2 2 0 False, supported ''d'' ISA_SPEC_CLASS_20191213 2 2 False,
      supported ''d'' ISA_SPEC_CLASS_20190608 2 2 False, supported ''d'' ISA_SPEC_CLASS_2P2 2 0 False,
      supported ''q'' ISA_SPEC_CLASS_20191213 2 2 False, supported ''q'' ISA_SPEC_CLASS_20190608 2 2 False,
      supported ''q'' ISA_SPEC_CLASS_2P2 2 0 False, supported ''c'' ISA_SPEC_CLASS_20191213 2 0 False,
      supported ''c'' ISA_SPEC_CLASS_20190608 2 0 False, supported ''c'' ISA_SPEC_CLASS_2P2 2 0 False,
      supported ''b'' ISA_SPEC_CLASS_DRAFT 1 0 False, supported ''v'' ISA_SPEC_CLASS_DRAFT 1 0 False,
      supported ''h'' ISA_SPEC_CLASS_DRAFT 1 0 False]"

definition riscv_supported_std_z_ext :: "riscv_supported_ext list" where
  "riscv_supported_std_z_ext = [
      supported ''zic64b'' ISA_SPEC_CLASS_DRAFT 1 0 False,
      supported ''ziccamoa'' ISA_SPEC_CLASS_DRAFT 1 0 False,
      supported ''ziccif'' ISA_SPEC_CLASS_DRAFT 1 0 False,
      supported ''zicclsm'' ISA_SPEC_CLASS_DRAFT 1 0 False,
      supported ''ziccrse'' ISA_SPEC_CLASS_DRAFT 1 0 False,
      supported ''zicbom'' ISA_SPEC_CLASS_DRAFT 1 0 False, supported ''zicbop'' ISA_SPEC_CLASS_DRAFT 1 0 False,
      supported ''zicboz'' ISA_SPEC_CLASS_DRAFT 1 0 False, supported ''zicond'' ISA_SPEC_CLASS_DRAFT 1 0 False,
      supported ''zicntr'' ISA_SPEC_CLASS_DRAFT 2 0 False,
      supported ''zicsr'' ISA_SPEC_CLASS_20191213 2 0 False,
      supported ''zicsr'' ISA_SPEC_CLASS_20190608 2 0 False,
      supported ''zifencei'' ISA_SPEC_CLASS_20191213 2 0 False,
      supported ''zifencei'' ISA_SPEC_CLASS_20190608 2 0 False,
      supported ''zihintntl'' ISA_SPEC_CLASS_DRAFT 1 0 False,
      supported ''zihintpause'' ISA_SPEC_CLASS_DRAFT 2 0 False,
      supported ''zihpm'' ISA_SPEC_CLASS_DRAFT 2 0 False, supported ''zimop'' ISA_SPEC_CLASS_DRAFT 1 0 False,
      supported ''zmmul'' ISA_SPEC_CLASS_DRAFT 1 0 False, supported ''za64rs'' ISA_SPEC_CLASS_DRAFT 1 0 False,
      supported ''za128rs'' ISA_SPEC_CLASS_DRAFT 1 0 False, supported ''zaamo'' ISA_SPEC_CLASS_DRAFT 1 0 False,
      supported ''zabha'' ISA_SPEC_CLASS_DRAFT 1 0 False, supported ''zacas'' ISA_SPEC_CLASS_DRAFT 1 0 False,
      supported ''zalrsc'' ISA_SPEC_CLASS_DRAFT 1 0 False, supported ''zawrs'' ISA_SPEC_CLASS_DRAFT 1 0 False,
      supported ''zfbfmin'' ISA_SPEC_CLASS_DRAFT 1 0 False, supported ''zfa'' ISA_SPEC_CLASS_DRAFT 1 0 False,
      supported ''zfh'' ISA_SPEC_CLASS_DRAFT 1 0 False, supported ''zfhmin'' ISA_SPEC_CLASS_DRAFT 1 0 False,
      supported ''zfinx'' ISA_SPEC_CLASS_DRAFT 1 0 False, supported ''zdinx'' ISA_SPEC_CLASS_DRAFT 1 0 False,
      supported ''zqinx'' ISA_SPEC_CLASS_DRAFT 1 0 False, supported ''zhinx'' ISA_SPEC_CLASS_DRAFT 1 0 False,
      supported ''zhinxmin'' ISA_SPEC_CLASS_DRAFT 1 0 False, supported ''zbb'' ISA_SPEC_CLASS_DRAFT 1 0 False,
      supported ''zba'' ISA_SPEC_CLASS_DRAFT 1 0 False, supported ''zbc'' ISA_SPEC_CLASS_DRAFT 1 0 False,
      supported ''zbs'' ISA_SPEC_CLASS_DRAFT 1 0 False, supported ''zbkb'' ISA_SPEC_CLASS_DRAFT 1 0 False,
      supported ''zbkc'' ISA_SPEC_CLASS_DRAFT 1 0 False, supported ''zbkx'' ISA_SPEC_CLASS_DRAFT 1 0 False,
      supported ''zk'' ISA_SPEC_CLASS_DRAFT 1 0 False, supported ''zkn'' ISA_SPEC_CLASS_DRAFT 1 0 False,
      supported ''zknd'' ISA_SPEC_CLASS_DRAFT 1 0 False, supported ''zkne'' ISA_SPEC_CLASS_DRAFT 1 0 False,
      supported ''zknh'' ISA_SPEC_CLASS_DRAFT 1 0 False, supported ''zkr'' ISA_SPEC_CLASS_DRAFT 1 0 False,
      supported ''zks'' ISA_SPEC_CLASS_DRAFT 1 0 False, supported ''zksed'' ISA_SPEC_CLASS_DRAFT 1 0 False,
      supported ''zksh'' ISA_SPEC_CLASS_DRAFT 1 0 False, supported ''zkt'' ISA_SPEC_CLASS_DRAFT 1 0 False,
      supported ''zve32x'' ISA_SPEC_CLASS_DRAFT 1 0 False, supported ''zve32f'' ISA_SPEC_CLASS_DRAFT 1 0 False,
      supported ''zve64x'' ISA_SPEC_CLASS_DRAFT 1 0 False, supported ''zve64f'' ISA_SPEC_CLASS_DRAFT 1 0 False,
      supported ''zve64d'' ISA_SPEC_CLASS_DRAFT 1 0 False, supported ''zvbb'' ISA_SPEC_CLASS_DRAFT 1 0 False,
      supported ''zvbc'' ISA_SPEC_CLASS_DRAFT 1 0 False, supported ''zvfbfmin'' ISA_SPEC_CLASS_DRAFT 1 0 False,
      supported ''zvfbfwma'' ISA_SPEC_CLASS_DRAFT 1 0 False, supported ''zvfh'' ISA_SPEC_CLASS_DRAFT 1 0 False,
      supported ''zvfhmin'' ISA_SPEC_CLASS_DRAFT 1 0 False, supported ''zvkb'' ISA_SPEC_CLASS_DRAFT 1 0 False,
      supported ''zvkg'' ISA_SPEC_CLASS_DRAFT 1 0 False, supported ''zvkn'' ISA_SPEC_CLASS_DRAFT 1 0 False,
      supported ''zvkng'' ISA_SPEC_CLASS_DRAFT 1 0 False, supported ''zvknc'' ISA_SPEC_CLASS_DRAFT 1 0 False,
      supported ''zvkned'' ISA_SPEC_CLASS_DRAFT 1 0 False, supported ''zvknha'' ISA_SPEC_CLASS_DRAFT 1 0 False,
      supported ''zvknhb'' ISA_SPEC_CLASS_DRAFT 1 0 False, supported ''zvksed'' ISA_SPEC_CLASS_DRAFT 1 0 False,
      supported ''zvksh'' ISA_SPEC_CLASS_DRAFT 1 0 False, supported ''zvks'' ISA_SPEC_CLASS_DRAFT 1 0 False,
      supported ''zvksg'' ISA_SPEC_CLASS_DRAFT 1 0 False, supported ''zvksc'' ISA_SPEC_CLASS_DRAFT 1 0 False,
      supported ''zvkt'' ISA_SPEC_CLASS_DRAFT 1 0 False, supported ''zvl32b'' ISA_SPEC_CLASS_DRAFT 1 0 False,
      supported ''zvl64b'' ISA_SPEC_CLASS_DRAFT 1 0 False,
      supported ''zvl128b'' ISA_SPEC_CLASS_DRAFT 1 0 False,
      supported ''zvl256b'' ISA_SPEC_CLASS_DRAFT 1 0 False,
      supported ''zvl512b'' ISA_SPEC_CLASS_DRAFT 1 0 False,
      supported ''zvl1024b'' ISA_SPEC_CLASS_DRAFT 1 0 False,
      supported ''zvl2048b'' ISA_SPEC_CLASS_DRAFT 1 0 False,
      supported ''zvl4096b'' ISA_SPEC_CLASS_DRAFT 1 0 False,
      supported ''zvl8192b'' ISA_SPEC_CLASS_DRAFT 1 0 False,
      supported ''zvl16384b'' ISA_SPEC_CLASS_DRAFT 1 0 False,
      supported ''zvl32768b'' ISA_SPEC_CLASS_DRAFT 1 0 False,
      supported ''zvl65536b'' ISA_SPEC_CLASS_DRAFT 1 0 False,
      supported ''ztso'' ISA_SPEC_CLASS_DRAFT 1 0 False, supported ''zca'' ISA_SPEC_CLASS_DRAFT 1 0 False,
      supported ''zcb'' ISA_SPEC_CLASS_DRAFT 1 0 False, supported ''zcf'' ISA_SPEC_CLASS_DRAFT 1 0 False,
      supported ''zcd'' ISA_SPEC_CLASS_DRAFT 1 0 False, supported ''zcmop'' ISA_SPEC_CLASS_DRAFT 1 0 False,
      supported ''zcmp'' ISA_SPEC_CLASS_DRAFT 1 0 False]"

definition riscv_supported_std_s_ext :: "riscv_supported_ext list" where
  "riscv_supported_std_s_ext = [
      supported ''shcounterenw'' ISA_SPEC_CLASS_DRAFT 1 0 False,
      supported ''shgatpa'' ISA_SPEC_CLASS_DRAFT 1 0 False,
      supported ''shtvala'' ISA_SPEC_CLASS_DRAFT 1 0 False,
      supported ''shvsatpa'' ISA_SPEC_CLASS_DRAFT 1 0 False,
      supported ''shvstvala'' ISA_SPEC_CLASS_DRAFT 1 0 False,
      supported ''shvstvecd'' ISA_SPEC_CLASS_DRAFT 1 0 False,
      supported ''smaia'' ISA_SPEC_CLASS_DRAFT 1 0 False,
      supported ''smcsrind'' ISA_SPEC_CLASS_DRAFT 1 0 False,
      supported ''smcntrpmf'' ISA_SPEC_CLASS_DRAFT 1 0 False,
      supported ''smepmp'' ISA_SPEC_CLASS_DRAFT 1 0 False,
      supported ''smstateen'' ISA_SPEC_CLASS_DRAFT 1 0 False,
      supported ''ssaia'' ISA_SPEC_CLASS_DRAFT 1 0 False, supported ''ssccptr'' ISA_SPEC_CLASS_DRAFT 1 0 False,
      supported ''sscsrind'' ISA_SPEC_CLASS_DRAFT 1 0 False,
      supported ''sscofpmf'' ISA_SPEC_CLASS_DRAFT 1 0 False,
      supported ''sscounterenw'' ISA_SPEC_CLASS_DRAFT 1 0 False,
      supported ''ssstateen'' ISA_SPEC_CLASS_DRAFT 1 0 False,
      supported ''sstc'' ISA_SPEC_CLASS_DRAFT 1 0 False, supported ''sstvala'' ISA_SPEC_CLASS_DRAFT 1 0 False,
      supported ''sstvecd'' ISA_SPEC_CLASS_DRAFT 1 0 False,
      supported ''ssu64xl'' ISA_SPEC_CLASS_DRAFT 1 0 False, supported ''svade'' ISA_SPEC_CLASS_DRAFT 1 0 False,
      supported ''svadu'' ISA_SPEC_CLASS_DRAFT 1 0 False, supported ''svbare'' ISA_SPEC_CLASS_DRAFT 1 0 False,
      supported ''svinval'' ISA_SPEC_CLASS_DRAFT 1 0 False,
      supported ''svnapot'' ISA_SPEC_CLASS_DRAFT 1 0 False, supported ''svpbmt'' ISA_SPEC_CLASS_DRAFT 1 0 False]"

definition riscv_supported_std_zxm_ext :: "riscv_supported_ext list" where
  "riscv_supported_std_zxm_ext = []"

definition riscv_supported_vendor_x_ext :: "riscv_supported_ext list" where
  "riscv_supported_vendor_x_ext = [
      supported ''xcvmac'' ISA_SPEC_CLASS_DRAFT 1 0 False, supported ''xcvalu'' ISA_SPEC_CLASS_DRAFT 1 0 False,
      supported ''xcvelw'' ISA_SPEC_CLASS_DRAFT 1 0 False, supported ''xcvbi'' ISA_SPEC_CLASS_DRAFT 1 0 False,
      supported ''xcvmem'' ISA_SPEC_CLASS_DRAFT 1 0 False,
      supported ''xtheadba'' ISA_SPEC_CLASS_DRAFT 1 0 False,
      supported ''xtheadbb'' ISA_SPEC_CLASS_DRAFT 1 0 False,
      supported ''xtheadbs'' ISA_SPEC_CLASS_DRAFT 1 0 False,
      supported ''xtheadcmo'' ISA_SPEC_CLASS_DRAFT 1 0 False,
      supported ''xtheadcondmov'' ISA_SPEC_CLASS_DRAFT 1 0 False,
      supported ''xtheadfmemidx'' ISA_SPEC_CLASS_DRAFT 1 0 False,
      supported ''xtheadfmv'' ISA_SPEC_CLASS_DRAFT 1 0 False,
      supported ''xtheadint'' ISA_SPEC_CLASS_DRAFT 1 0 False,
      supported ''xtheadmac'' ISA_SPEC_CLASS_DRAFT 1 0 False,
      supported ''xtheadmemidx'' ISA_SPEC_CLASS_DRAFT 1 0 False,
      supported ''xtheadmempair'' ISA_SPEC_CLASS_DRAFT 1 0 False,
      supported ''xtheadsync'' ISA_SPEC_CLASS_DRAFT 1 0 False,
      supported ''xtheadvector'' ISA_SPEC_CLASS_DRAFT 1 0 False,
      supported ''xtheadzvamo'' ISA_SPEC_CLASS_DRAFT 1 0 False,
      supported ''xventanacondops'' ISA_SPEC_CLASS_DRAFT 1 0 False,
      supported ''xsfvcp'' ISA_SPEC_CLASS_DRAFT 1 0 False,
      supported ''xsfcease'' ISA_SPEC_CLASS_DRAFT 1 0 False]"

definition riscv_all_supported_ext :: "riscv_supported_ext list list" where
  "riscv_all_supported_ext =
     [riscv_supported_std_ext, riscv_supported_std_z_ext, riscv_supported_std_s_ext,
      riscv_supported_std_zxm_ext, riscv_supported_vendor_x_ext]"

fun class_table :: "riscv_prefix_ext_class \<Rightarrow> riscv_supported_ext list" where
  "class_table RV_ISA_CLASS_ZXM = riscv_supported_std_zxm_ext"
| "class_table RV_ISA_CLASS_Z = riscv_supported_std_z_ext"
| "class_table RV_ISA_CLASS_S = riscv_supported_std_s_ext"
| "class_table RV_ISA_CLASS_X = riscv_supported_vendor_x_ext"
| "class_table RV_ISA_CLASS_SINGLE = riscv_supported_std_ext"

definition riscv_known_prefixed_ext :: "string \<Rightarrow> riscv_supported_ext list \<Rightarrow> bool" where
  "riscv_known_prefixed_ext ext known_exts \<longleftrightarrow> list_ex (\<lambda>e. ext_name e = ext) known_exts"

definition riscv_recognized_prefixed_ext :: "string \<Rightarrow> bool" where
  "riscv_recognized_prefixed_ext ext =
     (case riscv_get_prefix_class ext of
        RV_ISA_CLASS_Z \<Rightarrow> riscv_known_prefixed_ext ext riscv_supported_std_z_ext
      | RV_ISA_CLASS_ZXM \<Rightarrow> riscv_known_prefixed_ext ext riscv_supported_std_zxm_ext
      | RV_ISA_CLASS_S \<Rightarrow> riscv_known_prefixed_ext ext riscv_supported_std_s_ext
      | RV_ISA_CLASS_X \<Rightarrow> ext \<noteq> ''x''
      | RV_ISA_CLASS_SINGLE \<Rightarrow> False)"

section \<open>State of the parser\<close>

text \<open>The calls of the error handler, with the names they print.\<close>

datatype arch_error =
    First_extension string
  | Unknown_standard string char
  | Number_p string string
  | Unknown_prefixed string string
  | Must_separate string
  | X_needs_version string
  | No_default_version string
  | Uppercase string
  | Must_begin_rv string
  | E_without_h nat
  | No_q nat
  | Zcmp_zcd
  | No_zcf nat
  | Zfinx_f
  | Xtheadvector_v
  | Zvl_needs_zve
  | Update_number_p bool string
  | Update_unknown bool string string
  | Update_base bool string string

record riscv_rps =
  subset_list :: "riscv_subset list"
  rps_xlen :: nat
  isa_spec :: nat
  check_unknown_prefixed_ext :: bool
  rps_errors :: "arch_error list"

definition report :: "arch_error \<Rightarrow> riscv_rps \<Rightarrow> riscv_rps" where
  "report e rps = rps\<lparr>rps_errors := rps_errors rps @ [e]\<rparr>"

definition riscv_get_default_ext_version :: "nat \<Rightarrow> string \<Rightarrow> int \<Rightarrow> int \<Rightarrow> int \<times> int" where
  "riscv_get_default_ext_version spec name major minor =
     (if spec = ISA_SPEC_CLASS_NONE then (major, minor)
      else case find (\<lambda>e. ext_name e = name \<and>
                        (isa_spec_class e = ISA_SPEC_CLASS_DRAFT \<or> isa_spec_class e = spec))
                 (class_table (riscv_get_prefix_class name)) of
             Some e \<Rightarrow> (ext_major e, ext_minor e)
           | None \<Rightarrow> (major, minor))"

definition riscv_parse_add_subset ::
  "riscv_rps \<Rightarrow> string \<Rightarrow> int \<Rightarrow> int \<Rightarrow> bool \<Rightarrow> riscv_rps run" where
  "riscv_parse_add_subset rps name major minor implicit =
     (let (ma, mi) =
            (if major = RISCV_UNKNOWN_VERSION \<or> minor = RISCV_UNKNOWN_VERSION
             then riscv_get_default_ext_version (isa_spec rps) name major minor else (major, minor))
      in if \<not> implicit \<and> (ma = RISCV_UNKNOWN_VERSION \<or> mi = RISCV_UNKNOWN_VERSION) then
           Inr (if take 1 name = ''x'' then report (X_needs_version name) rps
                else if name \<noteq> ''zicsr'' \<and> name \<noteq> ''zifencei'' then report (No_default_version name) rps
                else rps)
         else rbind (riscv_add_subset (subset_list rps) name ma mi) (\<lambda>L. Inr (rps\<lparr>subset_list := L\<rparr>)))"

section \<open>Versions\<close>

text \<open>The loop of \<^verbatim>\<open>riscv_parsing_subset_version\<close>: the rest, the last number, whether it is the major one, the major one.\<close>

fun version_loop :: "string \<Rightarrow> int \<Rightarrow> bool \<Rightarrow> int \<Rightarrow> (string \<times> int \<times> bool \<times> int) run" where
  "version_loop [] version major_p major = Inr ([], version, major_p, major)"
| "version_loop (c # cs) version major_p major =
     (if c = CHR ''p'' then
        (if cs \<noteq> [] \<and> ISDIGIT (hd cs) then version_loop cs 0 False version
         else Inr (c # cs, version, major_p, major))
      else if ISDIGIT c then
        (let v = version * 10 + (of_char c - 48)
         in if v < 2 ^ 31 then version_loop cs v major_p major else Inl Signed_overflow)
      else Inr (c # cs, version, major_p, major))"

definition riscv_parsing_subset_version :: "string \<Rightarrow> (string \<times> int \<times> int) run" where
  "riscv_parsing_subset_version p =
     rbind (version_loop p 0 True 0) (\<lambda>(rest, version, major_p, major).
       let (ma, mi) = (if major_p then (version, 0) else (major, version))
       in Inr (if ma = 0 \<and> mi = 0 then (rest, RISCV_UNKNOWN_VERSION, RISCV_UNKNOWN_VERSION) else (rest, ma, mi)))"

text \<open>
  The scan back over \<^verbatim>\<open><major>p<minor>\<close>, on the reversed text: how many characters belong to the version. A \<open>p\<close> at
  the very start of the text makes the code read the byte before it.
\<close>

fun version_scan :: "string \<Rightarrow> bool \<Rightarrow> bool \<Rightarrow> nat run" where
  "version_scan [] any minor = Inr 0"
| "version_scan (c # cs) any minor =
     (if ISDIGIT c then rbind (version_scan cs True minor) (\<lambda>n. Inr (Suc n))
      else if any \<and> \<not> minor \<and> c = CHR ''p'' then
        (case cs of
           [] \<Rightarrow> Inl Out_of_range
         | d # ds \<Rightarrow> if ISDIGIT d then rbind (version_scan cs any True) (\<lambda>n. Inr (Suc n)) else Inr 0)
      else Inr 0)"

section \<open>The parser\<close>

text \<open>
  One extension at the start of \<^verbatim>\<open>p\<close>: the length of its name, or the error that ends the parse.
\<close>

definition ext_name_length :: "string \<Rightarrow> string \<Rightarrow> (arch_error + nat) run" where
  "ext_name_length arch p =
     (if riscv_get_prefix_class p = RV_ISA_CLASS_SINGLE then
        rbind (ext_order p) (\<lambda>order. Inr (if order = 0 then Inl (Unknown_standard arch (hd p)) else Inr 1))
      else
        let item = takeWhile (\<lambda>c. c \<noteq> CHR ''_'') p
        in rbind (version_scan (rev item) False False) (\<lambda>n.
             let q = length item - n
             in Inr (if 2 \<le> q \<and> p ! (q - 1) = CHR ''p'' \<and> ISDIGIT (p ! (q - 2))
                     then Inl (Number_p arch (take q p)) else Inr q)))"

text \<open>The body of the loop: the state after one extension and the rest, or the state in which the parse has failed.\<close>

definition parse_one_ext ::
  "string \<Rightarrow> string \<Rightarrow> riscv_rps \<Rightarrow> (riscv_rps + riscv_rps \<times> string) run" where
  "parse_one_ext arch p rps =
     rbind (ext_name_length arch p) (\<lambda>r. case r of
       Inl e \<Rightarrow> Inr (Inl (report e rps))
     | Inr q \<Rightarrow>
         rbind (riscv_parsing_subset_version (drop q p)) (\<lambda>(rest, major, minor).
           let name = take q p; single = (riscv_get_prefix_class p = RV_ISA_CLASS_SINGLE); g = (single \<and> name = ''g'')
           in if \<not> single \<and> check_unknown_prefixed_ext rps \<and> \<not> riscv_recognized_prefixed_ext name
              then Inr (Inl (report (Unknown_prefixed arch name) rps))
              else
                rbind (if g then riscv_parse_add_subset rps name RISCV_UNKNOWN_VERSION RISCV_UNKNOWN_VERSION True
                       else riscv_parse_add_subset rps name major minor False) (\<lambda>rps'.
                  Inr (if \<not> single \<and> rest \<noteq> [] \<and> hd rest \<noteq> CHR ''_''
                       then Inl (report (Must_separate arch) rps')
                       else Inr (rps', rest)))))"

lemma version_loop_length: "version_loop p v b m = Inr (rest, r) \<Longrightarrow> length rest \<le> length p"
  by (induction p v b m rule: version_loop.induct) (auto simp: Let_def split: if_splits)

lemma subset_version_length:
  "riscv_parsing_subset_version p = Inr (rest, r) \<Longrightarrow> length rest \<le> length p"
  by (auto simp: riscv_parsing_subset_version_def rbind_Inr_iff Let_def dest: version_loop_length split: if_splits)

lemma version_scan_stops:
  "version_scan (s @ [c]) any minor = Inr n \<Longrightarrow> \<not> ISDIGIT c \<Longrightarrow> n \<le> length s"
proof (induction s arbitrary: any minor n)
  case Nil
  then show ?case by (auto split: if_splits)
next
  case (Cons a s)
  then show ?case by (auto simp: rbind_Inr_iff split: if_splits list.splits)
qed

lemma prefix_class_hd:
  "riscv_get_prefix_class p \<noteq> RV_ISA_CLASS_SINGLE \<Longrightarrow> \<exists>c cs. p = c # cs \<and> c \<in> {CHR ''z'', CHR ''s'', CHR ''x''}"
  by (cases p) (auto simp: riscv_get_prefix_class_def parse_config_def split: if_splits)

lemma ext_name_length_pos: "ext_name_length arch p = Inr (Inr q) \<Longrightarrow> 0 < q"
proof (cases "riscv_get_prefix_class p = RV_ISA_CLASS_SINGLE")
  case True
  then show "ext_name_length arch p = Inr (Inr q) \<Longrightarrow> 0 < q"
    by (auto simp: ext_name_length_def rbind_Inr_iff split: if_splits)
next
  case False
  then obtain c cs where p: "p = c # cs" "c \<in> {CHR ''z'', CHR ''s'', CHR ''x''}"
    using prefix_class_hd by blast
  then have c: "c \<noteq> CHR ''_''" "\<not> ISDIGIT c" by (auto simp: ISDIGIT_def)
  assume "ext_name_length arch p = Inr (Inr q)"
  then obtain n where n: "version_scan (rev (takeWhile (\<lambda>c. c \<noteq> CHR ''_'') cs) @ [c]) False False = Inr n"
    "q = Suc (length (takeWhile (\<lambda>c. c \<noteq> CHR ''_'') cs)) - n"
    using False p(1) c(1) by (auto simp: ext_name_length_def rbind_Inr_iff Let_def split: if_splits)
  from version_scan_stops [OF n(1) c(2)] n(2) show "0 < q" by simp
qed

lemma parse_one_ext_shorter:
  assumes "parse_one_ext arch p rps = Inr (Inr (rps', rest))" and "p \<noteq> []"
  shows "length rest < length p"
proof -
  obtain r where r: "ext_name_length arch p = Inr r"
    using assms(1) by (cases "ext_name_length arch p") (auto simp: parse_one_ext_def)
  then obtain q where q: "ext_name_length arch p = Inr (Inr q)"
    using assms(1) by (cases r) (auto simp: parse_one_ext_def)
  then obtain v where v: "riscv_parsing_subset_version (drop q p) = Inr v"
    using assms(1) by (auto simp: parse_one_ext_def rbind_Inr_iff)
  obtain rest' ma mi where "v = (rest', ma, mi)" by (cases v)
  with assms(1) q v have r: "riscv_parsing_subset_version (drop q p) = Inr (rest, ma, mi)"
    by (auto simp: parse_one_ext_def rbind_Inr_iff Let_def split: if_splits)
  have "length rest \<le> length p - q" using subset_version_length [OF r] by simp
  with ext_name_length_pos [OF q] assms(2) show ?thesis by (cases p) auto
qed

lemma rbind_cong [fundef_cong]:
  "m = m' \<Longrightarrow> (\<And>v. m' = Inr v \<Longrightarrow> f v = f' v) \<Longrightarrow> rbind m f = rbind m' f'"
  by (cases m') auto

function parse_ext_loop :: "string \<Rightarrow> string \<Rightarrow> riscv_rps \<Rightarrow> (bool \<times> riscv_rps) run" where
  "parse_ext_loop arch p rps =
     (if p = [] then Inr (True, rps)
      else if hd p = CHR ''_'' then parse_ext_loop arch (tl p) rps
      else rbind (parse_one_ext arch p rps) (\<lambda>r. case r of
             Inl rps' \<Rightarrow> Inr (False, rps')
           | Inr (rps', rest) \<Rightarrow> parse_ext_loop arch rest rps'))"
  by pat_completeness auto
termination
  by (relation "measure (\<lambda>(arch, p, rps). length p)") (auto dest: parse_one_ext_shorter)

declare parse_ext_loop.simps [simp del]

definition riscv_parse_extensions :: "riscv_rps \<Rightarrow> string \<Rightarrow> string \<Rightarrow> (bool \<times> riscv_rps) run" where
  "riscv_parse_extensions rps arch p =
     (if take 1 p \<noteq> ''e'' \<and> take 1 p \<noteq> ''i'' \<and> take 1 p \<noteq> ''g''
      then Inr (False, report (First_extension arch) rps)
      else parse_ext_loop arch p rps)"

section \<open>Updates\<close>

text \<open>
  One item \<^verbatim>\<open>+ext\<close> or \<^verbatim>\<open>-ext\<close> after its sign: the length of its name, or the error. The flag says that the caller is
  \<^verbatim>\<open>.option arch\<close> rather than the table of implied extensions.
\<close>

definition item_name_length :: "bool \<Rightarrow> string \<Rightarrow> string \<Rightarrow> (arch_error + nat) run" where
  "item_name_length opt exts s =
     (let item = takeWhile (\<lambda>c. c \<noteq> CHR '','') s; len = length item
      in rbind (version_scan (rev item) False False) (\<lambda>n.
           let q = (if len = 0 then 0 else if n = len then 1 else len - n)
           in if len > 1 \<and> s ! (q - 1) = CHR ''p'' then
                (if q < 2 then Inl Out_of_range
                 else Inr (if ISDIGIT (s ! (q - 2)) then Inl (Update_number_p opt exts) else Inr q))
              else Inr (Inr q)))"

definition known_item :: "riscv_rps \<Rightarrow> string \<Rightarrow> bool run" where
  "known_item rps name =
     (if name = [] then Inr False
      else if length name = 1 then rbind (ext_order name) (\<lambda>order. Inr (order \<noteq> 0))
      else Inr (\<not> check_unknown_prefixed_ext rps \<or> riscv_recognized_prefixed_ext name))"

definition update_one ::
  "bool \<Rightarrow> string \<Rightarrow> bool \<Rightarrow> string \<Rightarrow> riscv_rps \<Rightarrow> (riscv_rps + riscv_rps \<times> string) run" where
  "update_one opt exts removed s rps =
     rbind (item_name_length opt exts s) (\<lambda>r. case r of
       Inl e \<Rightarrow> Inr (Inl (report e rps))
     | Inr q \<Rightarrow>
         rbind (riscv_parsing_subset_version (drop q s)) (\<lambda>(rest, major, minor).
           let name = take q s
           in rbind (known_item rps name) (\<lambda>known.
                if \<not> known then Inr (Inl (report (Update_unknown opt name exts) rps))
                else if opt \<and> name \<in> {''i'', ''e'', ''g''} then Inr (Inl (report (Update_base opt name exts) rps))
                else if removed then
                  Inr (Inr (rps\<lparr>subset_list := riscv_remove_subset (subset_list rps) name\<rparr>, rest))
                else
                  rbind (riscv_lookup_subset (subset_list rps) name) (\<lambda>(found, current).
                    if found then Inr (Inr (rps, rest))
                    else rbind (riscv_parse_add_subset rps name major minor True) (\<lambda>rps'. Inr (Inr (rps', rest)))))))"

lemma update_one_length:
  assumes "update_one opt exts removed s rps = Inr (Inr (rps', rest))"
  shows "length rest \<le> length s"
proof -
  obtain r where r: "item_name_length opt exts s = Inr r"
    using assms by (cases "item_name_length opt exts s") (auto simp: update_one_def)
  then obtain q where q: "item_name_length opt exts s = Inr (Inr q)"
    using assms by (cases r) (auto simp: update_one_def)
  then obtain v where v: "riscv_parsing_subset_version (drop q s) = Inr v"
    using assms by (auto simp: update_one_def rbind_Inr_iff)
  obtain rest' ma mi where "v = (rest', ma, mi)" by (cases v)
  with assms q v have "riscv_parsing_subset_version (drop q s) = Inr (rest, ma, mi)"
    by (auto simp: update_one_def rbind_Inr_iff Let_def split: if_splits)
  from subset_version_length [OF this] show ?thesis by simp
qed

text \<open>
  The loop over the items. Text without a sign is a full ISA string: the list is released and the parser, an
  argument here, starts over. The first component of the result is the value of an early return, if there is one.
\<close>

function update_loop ::
  "(string \<Rightarrow> riscv_rps \<Rightarrow> (bool \<times> riscv_rps) run) \<Rightarrow> bool \<Rightarrow> string \<Rightarrow> string \<Rightarrow>
     riscv_rps \<Rightarrow> (bool option \<times> riscv_rps) run" where
  "update_loop full opt exts p rps =
     (if take 1 p = ''+'' \<or> take 1 p = ''-'' then
        rbind (update_one opt exts (take 1 p = ''-'') (tl p) rps) (\<lambda>r. case r of
          Inl rps' \<Rightarrow> Inr (Some False, rps')
        | Inr (rps', rest) \<Rightarrow>
            if take 1 rest = '','' then update_loop full opt exts (tl rest) rps' else Inr (None, rps'))
      else rbind (full p (rps\<lparr>subset_list := []\<rparr>)) (\<lambda>(b, rps'). Inr (Some b, rps')))"
  by pat_completeness auto
termination
proof (relation "measure (\<lambda>(full, opt, exts, p, rps). length p)", goal_cases)
  case (2 full opt exts p rps v w rps' rest)
  then have "p \<noteq> []" "rest \<noteq> []" by auto
  with 2 update_one_length [of opt exts "take 1 p = ''-''" "tl p" rps rps' rest] show ?case
    by (cases p; cases rest) auto
qed simp

declare update_loop.simps [simp del]

section \<open>Implied extensions and conflicts\<close>

text \<open>
  The text of a rule has a sign before every item, so the parser is never started over from the table; the fault
  stands for that branch, and \<open>implicit_never_restarts\<close> below shows that it is not met.
\<close>

definition riscv_update_subset1_implicit :: "riscv_rps \<Rightarrow> string \<Rightarrow> riscv_rps run" where
  "riscv_update_subset1_implicit rps exts =
     rbind (update_loop (\<lambda>p r. Inl Panic) False exts exts rps) (\<lambda>r. Inr (snd r))"

definition add_implicit_step ::
  "string \<times> string \<times> check_func \<Rightarrow> riscv_rps \<Rightarrow> riscv_rps run" where
  "add_implicit_step t rps =
     (case t of (ext, exts, check) \<Rightarrow>
        rbind (riscv_lookup_subset (subset_list rps) ext) (\<lambda>(found, current).
          if found \<and> call_check_func check (subset_list rps ! the current)
          then riscv_update_subset1_implicit rps exts else Inr rps))"

fun add_implicit_loop ::
  "(string \<times> string \<times> check_func) list \<Rightarrow> riscv_rps \<Rightarrow> riscv_rps run" where
  "add_implicit_loop [] rps = Inr rps"
| "add_implicit_loop (t # ts) rps = rbind (add_implicit_step t rps) (add_implicit_loop ts)"

definition riscv_parse_add_implicit_subsets :: "riscv_rps \<Rightarrow> riscv_rps run" where
  "riscv_parse_add_implicit_subsets rps = add_implicit_loop riscv_implicit_subsets rps"

text \<open>Conjunction of two runs, the second only when the first holds.\<close>

definition run_and :: "bool run \<Rightarrow> bool run \<Rightarrow> bool run" where
  "run_and a b = rbind a (\<lambda>x. if x then b else Inr False)"

definition run_or :: "bool run \<Rightarrow> bool run \<Rightarrow> bool run" where
  "run_or a b = rbind a (\<lambda>x. if x then Inr True else b)"

definition conflict ::
  "bool run \<Rightarrow> arch_error \<Rightarrow> bool \<times> riscv_rps \<Rightarrow> (bool \<times> riscv_rps) run" where
  "conflict test e st = rbind test (\<lambda>b. Inr (if b then (False, report e (snd st)) else st))"

definition old_q :: "riscv_subset list \<Rightarrow> bool run" where
  "old_q L = rbind (riscv_lookup_subset L ''q'') (\<lambda>(found, current).
     Inr (found \<and> (let s = L ! the current
                   in major_version s < 2 \<or> major_version s = 2 \<and> minor_version s < 2)))"

definition riscv_parse_check_conflicts :: "riscv_rps \<Rightarrow> (bool \<times> riscv_rps) run" where
  "riscv_parse_check_conflicts rps =
     (let L = subset_list rps; xlen = rps_xlen rps; has = riscv_subset_supports L
      in rbind (conflict (run_and (has ''e'') (has ''h'')) (E_without_h xlen) (True, rps)) (\<lambda>st.
         rbind (conflict (run_and (old_q L) (Inr (xlen < 64))) (No_q xlen) st) (\<lambda>st.
         rbind (conflict (run_and (has ''zcmp'') (has ''zcd'')) Zcmp_zcd st) (\<lambda>st.
         rbind (conflict (run_and (has ''zcf'') (Inr (xlen > 32))) (No_zcf xlen) st) (\<lambda>st.
         rbind (conflict (run_and (has ''zfinx'') (has ''f'')) Zfinx_f st) (\<lambda>st.
         rbind (conflict (run_and (has ''xtheadvector'') (has ''v'')) Xtheadvector_v st) (\<lambda>st.
         conflict (Inr (list_ex (\<lambda>s. take 3 (sub_name s) = ''zvl'') L \<and>
                        \<not> list_ex (\<lambda>s. take 3 (sub_name s) = ''zve'') L)) Zvl_needs_zve st)))))))"

section \<open>Entry points\<close>

fun default_arch_loop :: "riscv_supported_ext list \<Rightarrow> riscv_rps \<Rightarrow> riscv_rps run" where
  "default_arch_loop [] rps = Inr rps"
| "default_arch_loop (e # es) rps =
     rbind (if default_enable e
            then riscv_parse_add_subset rps (ext_name e) RISCV_UNKNOWN_VERSION RISCV_UNKNOWN_VERSION (ext_name e = ''g'')
            else Inr rps) (default_arch_loop es)"

definition riscv_set_default_arch :: "riscv_rps \<Rightarrow> riscv_rps run" where
  "riscv_set_default_arch rps = default_arch_loop (concat riscv_all_supported_ext) rps"

definition add_implicit_and_check :: "riscv_rps \<Rightarrow> (bool \<times> riscv_rps) run" where
  "add_implicit_and_check rps = rbind (riscv_parse_add_implicit_subsets rps) riscv_parse_check_conflicts"

text \<open>No string (\<^verbatim>\<open>NULL\<close>) asks for the default architecture.\<close>

definition riscv_parse_subset :: "riscv_rps \<Rightarrow> string option \<Rightarrow> (bool \<times> riscv_rps) run" where
  "riscv_parse_subset rps arch =
     (case arch of
        None \<Rightarrow> rbind (riscv_set_default_arch rps) add_implicit_and_check
      | Some a \<Rightarrow>
          if list_ex ISUPPER a then Inr (False, report (Uppercase a) rps)
          else if take 4 a \<noteq> ''rv32'' \<and> take 4 a \<noteq> ''rv64'' then
            Inr (False, if a \<noteq> [] then report (Must_begin_rv a) rps else rps)
          else
            rbind (riscv_parse_extensions (rps\<lparr>rps_xlen := (if take 4 a = ''rv32'' then 32 else 64)\<rparr>) a (drop 4 a))
              (\<lambda>(ok, rps'). if ok then add_implicit_and_check rps' else Inr (False, rps')))"

definition riscv_update_subset :: "riscv_rps \<Rightarrow> string \<Rightarrow> (bool \<times> riscv_rps) run" where
  "riscv_update_subset rps str =
     rbind (update_loop (\<lambda>p r. riscv_parse_subset r (Some p)) True str str rps) (\<lambda>(early, rps').
       case early of Some b \<Rightarrow> Inr (b, rps') | None \<Rightarrow> add_implicit_and_check rps')"

section \<open>The printed form\<close>

function estimate_digit_loop :: "int \<Rightarrow> nat" where
  "estimate_digit_loop num = (if num \<le> 0 then 0 else Suc (estimate_digit_loop (num div 10)))"
  by pat_completeness auto
termination
  by (relation "measure nat") auto

declare estimate_digit_loop.simps [simp del]

text \<open>The parameter is \<^verbatim>\<open>unsigned\<close>: an unknown version is a number of ten digits.\<close>

definition riscv_estimate_digit :: "int \<Rightarrow> nat" where
  "riscv_estimate_digit num = (let n = num mod 2 ^ 32 in if n = 0 then 1 else estimate_digit_loop n)"

fun riscv_estimate_arch_strlen1 :: "riscv_subset list \<Rightarrow> nat" where
  "riscv_estimate_arch_strlen1 [] = 6"
| "riscv_estimate_arch_strlen1 (s # ss) =
     riscv_estimate_arch_strlen1 ss + length (sub_name s) + riscv_estimate_digit (major_version s) + 1
       + riscv_estimate_digit (minor_version s) + 1"

text \<open>The conversions \<^verbatim>\<open>%u\<close> and \<^verbatim>\<open>%d\<close>.\<close>

function dec_str :: "int \<Rightarrow> string" where
  "dec_str n = (if n < 10 then [char_of (48 + n)] else dec_str (n div 10) @ [char_of (48 + n mod 10)])"
  by pat_completeness auto
termination
  by (relation "measure nat") auto

declare dec_str.simps [simp del]

definition int_str :: "int \<Rightarrow> string" where
  "int_str i = (if i < 0 then ''-'' @ dec_str (- i) else dec_str i)"

text \<open>The loop that passes over nodes which are not printed.\<close>

fun arch_str_skip :: "riscv_subset \<Rightarrow> riscv_subset list \<Rightarrow> riscv_subset list" where
  "arch_str_skip s [] = []"
| "arch_str_skip s (t # ts) =
     (if sub_name s = ''e'' \<and> sub_name t = ''i'' \<or> major_version t = RISCV_UNKNOWN_VERSION
        \<or> minor_version t = RISCV_UNKNOWN_VERSION
      then arch_str_skip t ts else t # ts)"

lemma arch_str_skip_length: "length (arch_str_skip s ts) \<le> length ts"
  by (induction s ts rule: arch_str_skip.induct) auto

definition subset_text :: "riscv_subset \<Rightarrow> string" where
  "subset_text s =
     (if strcasecmp (sub_name s) ''i'' = 0 \<or> strcasecmp (sub_name s) ''e'' = 0 then [] else ''_'')
       @ sub_name s @ int_str (major_version s) @ ''p'' @ int_str (minor_version s)"

text \<open>
  \<^verbatim>\<open>snprintf\<close> cuts the text to the buffer; \<^verbatim>\<open>strncat\<close> appends it and a terminator to \<^verbatim>\<open>attr_str\<close>, which has the same
  size, and faults when they do not fit.
\<close>

function riscv_arch_str1 :: "riscv_subset list \<Rightarrow> string \<Rightarrow> nat \<Rightarrow> string run" where
  "riscv_arch_str1 [] attr_str bufsz = Inr attr_str"
| "riscv_arch_str1 (s # ss) attr_str bufsz =
     (let buf = take (bufsz - 1) (subset_text s); attr = attr_str @ buf
      in if length attr + 1 > bufsz then Inl Out_of_range
         else riscv_arch_str1 (arch_str_skip s ss) attr bufsz)"
  by pat_completeness auto
termination
  by (relation "measure (\<lambda>(ss, a, b). length ss)") (auto simp: le_imp_less_Suc arch_str_skip_length)

definition riscv_arch_str :: "nat \<Rightarrow> riscv_subset list \<Rightarrow> string run" where
  "riscv_arch_str xlen L =
     (let arch_str_len = riscv_estimate_arch_strlen1 L
      in riscv_arch_str1 L (take (arch_str_len - 1) (''rv'' @ dec_str (int xlen))) arch_str_len)"

section \<open>Features of an instruction class\<close>

datatype feature = Has string | Both feature feature | Either feature feature

fun has_feature :: "riscv_subset list \<Rightarrow> feature \<Rightarrow> bool run" where
  "has_feature L (Has ext) = riscv_subset_supports L ext"
| "has_feature L (Both f g) = run_and (has_feature L f) (has_feature L g)"
| "has_feature L (Either f g) = run_or (has_feature L f) (has_feature L g)"

definition insn_class_features :: "(nat \<times> feature) list" where
  "insn_class_features = [
      (INSN_CLASS_I, Has ''i''), (INSN_CLASS_ZICBOM, Has ''zicbom''), (INSN_CLASS_ZICBOP, Has ''zicbop''),
      (INSN_CLASS_ZICBOZ, Has ''zicboz''), (INSN_CLASS_ZICOND, Has ''zicond''),
      (INSN_CLASS_ZICSR, Has ''zicsr''), (INSN_CLASS_ZIFENCEI, Has ''zifencei''),
      (INSN_CLASS_ZIHINTNTL, Has ''zihintntl''),
      (INSN_CLASS_ZIHINTNTL_AND_C, Both (Has ''zihintntl'') (Either (Has ''c'') (Has ''zca''))),
      (INSN_CLASS_ZIHINTPAUSE, Has ''zihintpause''), (INSN_CLASS_ZIMOP, Has ''zimop''),
      (INSN_CLASS_M, Has ''m''), (INSN_CLASS_ZMMUL, Has ''zmmul''), (INSN_CLASS_ZAAMO, Has ''zaamo''),
      (INSN_CLASS_ZABHA, Has ''zabha''), (INSN_CLASS_ZACAS, Has ''zacas''),
      (INSN_CLASS_ZABHA_AND_ZACAS, Both (Has ''zabha'') (Has ''zacas'')), (INSN_CLASS_ZALRSC, Has ''zalrsc''),
      (INSN_CLASS_ZAWRS, Has ''zawrs''), (INSN_CLASS_F, Has ''f''), (INSN_CLASS_D, Has ''d''),
      (INSN_CLASS_Q, Has ''q''), (INSN_CLASS_C, Either (Has ''c'') (Has ''zca'')),
      (INSN_CLASS_F_AND_C, Both (Has ''f'') (Either (Has ''c'') (Has ''zcf''))),
      (INSN_CLASS_D_AND_C, Both (Has ''d'') (Either (Has ''c'') (Has ''zcd''))),
      (INSN_CLASS_F_INX, Either (Has ''f'') (Has ''zfinx'')),
      (INSN_CLASS_D_INX, Either (Has ''d'') (Has ''zdinx'')),
      (INSN_CLASS_Q_INX, Either (Has ''q'') (Has ''zqinx'')),
      (INSN_CLASS_ZFH_INX, Either (Has ''zfh'') (Has ''zhinx'')), (INSN_CLASS_ZFHMIN, Has ''zfhmin''),
      (INSN_CLASS_ZFHMIN_INX, Either (Has ''zfhmin'') (Has ''zhinxmin'')),
      (INSN_CLASS_ZFHMIN_AND_D_INX, Either (Both (Has ''zfhmin'') (Has ''d'')) (Both (Has ''zhinxmin'') (Has ''zdinx''))),
      (INSN_CLASS_ZFHMIN_AND_Q_INX, Either (Both (Has ''zfhmin'') (Has ''q'')) (Both (Has ''zhinxmin'') (Has ''zqinx''))),
      (INSN_CLASS_ZFBFMIN, Has ''zfbfmin''), (INSN_CLASS_ZFA, Has ''zfa''),
      (INSN_CLASS_D_AND_ZFA, Both (Has ''d'') (Has ''zfa'')),
      (INSN_CLASS_Q_AND_ZFA, Both (Has ''q'') (Has ''zfa'')),
      (INSN_CLASS_ZFH_AND_ZFA, Both (Has ''zfh'') (Has ''zfa'')),
      (INSN_CLASS_ZFH_OR_ZVFH_AND_ZFA, Both (Either (Has ''zfh'') (Has ''zvfh'')) (Has ''zfa'')),
      (INSN_CLASS_ZBA, Has ''zba''), (INSN_CLASS_ZBB, Has ''zbb''), (INSN_CLASS_ZBC, Has ''zbc''),
      (INSN_CLASS_ZBS, Has ''zbs''), (INSN_CLASS_ZBKB, Has ''zbkb''), (INSN_CLASS_ZBKC, Has ''zbkc''),
      (INSN_CLASS_ZBKX, Has ''zbkx''), (INSN_CLASS_ZBB_OR_ZBKB, Either (Has ''zbb'') (Has ''zbkb'')),
      (INSN_CLASS_ZBC_OR_ZBKC, Either (Has ''zbc'') (Has ''zbkc'')), (INSN_CLASS_ZKND, Has ''zknd''),
      (INSN_CLASS_ZKNE, Has ''zkne''), (INSN_CLASS_ZKNH, Has ''zknh''),
      (INSN_CLASS_ZKND_OR_ZKNE, Either (Has ''zknd'') (Has ''zkne'')), (INSN_CLASS_ZKSED, Has ''zksed''),
      (INSN_CLASS_ZKSH, Has ''zksh''),
      (INSN_CLASS_V, Either (Either (Has ''v'') (Has ''zve64x'')) (Has ''zve32x'')),
      (INSN_CLASS_ZVEF, Either (Either (Either (Has ''v'') (Has ''zve64d'')) (Has ''zve64f'')) (Has ''zve32f'')),
      (INSN_CLASS_ZVBB, Has ''zvbb''), (INSN_CLASS_ZVBC, Has ''zvbc''),
      (INSN_CLASS_ZVFBFMIN, Has ''zvfbfmin''), (INSN_CLASS_ZVFBFWMA, Has ''zvfbfwma''),
      (INSN_CLASS_ZVKB, Has ''zvkb''), (INSN_CLASS_ZVKG, Has ''zvkg''), (INSN_CLASS_ZVKNED, Has ''zvkned''),
      (INSN_CLASS_ZVKNHA_OR_ZVKNHB, Either (Has ''zvknha'') (Has ''zvknhb'')),
      (INSN_CLASS_ZVKSED, Has ''zvksed''), (INSN_CLASS_ZVKSH, Has ''zvksh''), (INSN_CLASS_ZCB, Has ''zcb''),
      (INSN_CLASS_ZCB_AND_ZBB, Both (Has ''zcb'') (Has ''zbb'')),
      (INSN_CLASS_ZCB_AND_ZBA, Both (Has ''zcb'') (Has ''zba'')),
      (INSN_CLASS_ZCB_AND_ZMMUL, Both (Has ''zcb'') (Has ''zmmul'')), (INSN_CLASS_ZCMOP, Has ''zcmop''),
      (INSN_CLASS_ZCMP, Has ''zcmp''), (INSN_CLASS_SVINVAL, Has ''svinval''), (INSN_CLASS_H, Has ''h''),
      (INSN_CLASS_XCVMAC, Has ''xcvmac''), (INSN_CLASS_XCVALU, Has ''xcvalu''),
      (INSN_CLASS_XCVELW, Has ''xcvelw''), (INSN_CLASS_XCVBI, Has ''xcvbi''),
      (INSN_CLASS_XCVMEM, Has ''xcvmem''), (INSN_CLASS_XTHEADBA, Has ''xtheadba''),
      (INSN_CLASS_XTHEADBB, Has ''xtheadbb''), (INSN_CLASS_XTHEADBS, Has ''xtheadbs''),
      (INSN_CLASS_XTHEADCMO, Has ''xtheadcmo''), (INSN_CLASS_XTHEADCONDMOV, Has ''xtheadcondmov''),
      (INSN_CLASS_XTHEADFMEMIDX, Has ''xtheadfmemidx''), (INSN_CLASS_XTHEADFMV, Has ''xtheadfmv''),
      (INSN_CLASS_XTHEADINT, Has ''xtheadint''), (INSN_CLASS_XTHEADMAC, Has ''xtheadmac''),
      (INSN_CLASS_XTHEADMEMIDX, Has ''xtheadmemidx''), (INSN_CLASS_XTHEADMEMPAIR, Has ''xtheadmempair''),
      (INSN_CLASS_XTHEADSYNC, Has ''xtheadsync''), (INSN_CLASS_XTHEADVECTOR, Has ''xtheadvector''),
      (INSN_CLASS_XTHEADZVAMO, Has ''xtheadzvamo''), (INSN_CLASS_XVENTANACONDOPS, Has ''xventanacondops''),
      (INSN_CLASS_XSFVCP, Has ''xsfvcp''), (INSN_CLASS_XSFCEASE, Has ''xsfcease'')]"

text \<open>A class outside the table is reported as an internal error and is not supported.\<close>

definition riscv_multi_subset_supports :: "riscv_subset list \<Rightarrow> nat \<Rightarrow> bool run" where
  "riscv_multi_subset_supports L cls =
     (case map_of insn_class_features cls of Some f \<Rightarrow> has_feature L f | None \<Rightarrow> Inr False)"

end
