(* ===== verification/Arch_Closure.thy ===== *)
theory Arch_Closure
  imports Riscv_Arch
begin

text \<open>
  What the ISA-string parser keeps of the list of extensions: it stays sorted and readable, and the single pass
  over the table of implied extensions closes it under the table.
\<close>

section \<open>Names that enter the list\<close>

lemma known_prefixed_wf:
  "list_all (\<lambda>e. wf_ext (ext_name e)) (riscv_supported_std_z_ext @ riscv_supported_std_s_ext)"
proof -
  have "list_all (\<lambda>e. let n = ext_name e in
          case ext_order n of Inl f \<Rightarrow> False | Inr v \<Rightarrow> (case ext_order (tl n) of Inl f \<Rightarrow> False | Inr v \<Rightarrow> list_all (\<lambda>c. c \<noteq> CHR 0x00) n))
        (riscv_supported_std_z_ext @ riscv_supported_std_s_ext)"
    by code_simp
  then show ?thesis
    by (rule list.pred_mono_strong) (auto simp: wf_ext_def Let_def list_all_iff split: sum.splits)
qed

lemma recognized_wf:
  assumes "riscv_recognized_prefixed_ext n" "CHR 0x00 \<notin> set n"
  shows "wf_ext n"
proof (cases "riscv_get_prefix_class n = RV_ISA_CLASS_X")
  case True
  then obtain cs where "n = CHR ''x'' # cs"
    by (cases n) (auto simp: riscv_get_prefix_class_def parse_config_def split: if_splits)
  with True assms show ?thesis by (auto simp: wf_ext_def ext_order_def)
next
  case False
  then have "\<exists>e \<in> set (riscv_supported_std_z_ext @ riscv_supported_std_s_ext). ext_name e = n"
    using assms(1)
    by (auto simp: riscv_recognized_prefixed_ext_def riscv_known_prefixed_ext_def list_ex_iff
        riscv_supported_std_zxm_ext_def split: riscv_prefix_ext_class.splits)
  then show ?thesis using known_prefixed_wf by (auto simp: list_all_iff)
qed

lemma single_class_take: "riscv_get_prefix_class p = RV_ISA_CLASS_SINGLE \<Longrightarrow> riscv_get_prefix_class (take 1 p) = RV_ISA_CLASS_SINGLE"
  by (cases p) (auto simp: riscv_get_prefix_class_def parse_config_def split: if_splits)

lemma ext_order_take: "ext_order (take 1 p) = ext_order p"
  by (cases p) (auto simp: ext_order_def)

lemma single_wf:
  "riscv_get_prefix_class p = RV_ISA_CLASS_SINGLE \<Longrightarrow> ext_order p = Inr v \<Longrightarrow> CHR 0x00 \<notin> set p \<Longrightarrow> wf_ext (take 1 p)"
  using single_class_take [of p] ext_order_take [of p] by (auto simp: wf_ext_def dest: in_set_takeD)

section \<open>Operations of the parser on the list\<close>

lemma report_simps [simp]:
  "subset_list (report e rps) = subset_list rps"
  "check_unknown_prefixed_ext (report e rps) = check_unknown_prefixed_ext rps"
  "isa_spec (report e rps) = isa_spec rps"
  "rps_xlen (report e rps) = rps_xlen rps"
  by (simp_all add: report_def)

text \<open>A parser state whose list is in order.\<close>

definition arch_ok :: "riscv_rps \<Rightarrow> bool" where
  "arch_ok rps \<longleftrightarrow> subsets_ok (subset_list rps)"

lemma arch_ok_report [simp]: "arch_ok (report e rps) = arch_ok rps"
  by (simp add: arch_ok_def)

lemma arch_ok_update [simp]: "arch_ok (rps\<lparr>subset_list := L\<rparr>) = subsets_ok L"
  by (simp add: arch_ok_def)

lemma parse_add_subset_ok:
  assumes "arch_ok rps" "wf_ext n"
  obtains rps' where "riscv_parse_add_subset rps n ma mi imp = Inr rps'" "arch_ok rps'"
    "check_unknown_prefixed_ext rps' = check_unknown_prefixed_ext rps"
    "set (subset_list rps) \<subseteq> set (subset_list rps')"
    "imp \<Longrightarrow> ext_keys (subset_list rps') = insert (ext_key n) (ext_keys (subset_list rps))"
proof -
  obtain a i where v: "(if ma = -1 \<or> mi = -1 then riscv_get_default_ext_version (isa_spec rps) n ma mi else (ma, mi)) = (a, i)"
    by (cases "if ma = -1 \<or> mi = -1 then riscv_get_default_ext_version (isa_spec rps) n ma mi else (ma, mi)")
  obtain L' where L': "riscv_add_subset (subset_list rps) n a i = Inr L'" "subsets_ok L'"
    "ext_keys L' = insert (ext_key n) (ext_keys (subset_list rps))" "set (subset_list rps) \<subseteq> set L'"
    using assms add_ok [of "subset_list rps" n a i] unfolding arch_ok_def by metis
  show ?thesis
  proof (cases "\<not> imp \<and> (a = -1 \<or> i = -1)")
    case True
    with v assms that show ?thesis by (auto simp: riscv_parse_add_subset_def)
  next
    case False
    with v L' that [of "rps\<lparr>subset_list := L'\<rparr>"] show ?thesis by (auto simp: riscv_parse_add_subset_def)
  qed
qed

lemma parse_one_ext_ok:
  assumes ok: "arch_ok rps" and chk: "check_unknown_prefixed_ext rps" and nul: "CHR 0x00 \<notin> set p"
    and run: "parse_one_ext arch p rps = Inr r"
  shows "case r of Inl rps' \<Rightarrow> arch_ok rps'
                 | Inr (rps', rest) \<Rightarrow> arch_ok rps' \<and> check_unknown_prefixed_ext rps'"
proof -
  obtain e where e: "ext_name_length arch p = Inr e"
    using run by (cases "ext_name_length arch p") (auto simp: parse_one_ext_def)
  show ?thesis
  proof (cases e)
    case (Inl err)
    with run e ok show ?thesis by (auto simp: parse_one_ext_def)
  next
    case (Inr q)
    then obtain v where v: "riscv_parsing_subset_version (drop q p) = Inr v"
      using run e by (auto simp: parse_one_ext_def rbind_Inr_iff)
    obtain rest ma mi where vv: "v = (rest, ma, mi)" by (cases v)
    let ?single = "riscv_get_prefix_class p = RV_ISA_CLASS_SINGLE"
    have wf: "wf_ext (take q p)" if "?single \<or> riscv_recognized_prefixed_ext (take q p)"
      using that
    proof
      assume s: ?single
      then obtain w where "ext_order p = Inr w" "q = 1"
        using e Inr by (auto simp: ext_name_length_def rbind_Inr_iff split: if_splits)
      with s nul show ?thesis using single_wf [of p w] by simp
    qed (use nul in \<open>auto intro: recognized_wf dest: in_set_takeD\<close>)
    show ?thesis
    proof (cases "?single \<or> riscv_recognized_prefixed_ext (take q p)")
      case False
      with run e Inr v vv ok chk show ?thesis by (auto simp: parse_one_ext_def Let_def)
    next
      case True
      let ?add = "if ?single \<and> take q p = ''g'' then riscv_parse_add_subset rps (take q p) (-1) (-1) True
                  else riscv_parse_add_subset rps (take q p) ma mi False"
      obtain rps' where rps': "?add = Inr rps'" "arch_ok rps'" "check_unknown_prefixed_ext rps'"
        using parse_add_subset_ok [OF ok wf [OF True]] chk by metis
      with run e Inr v vv True show ?thesis
        by (auto simp: parse_one_ext_def Let_def split: if_splits)
    qed
  qed
qed

lemma version_loop_set: "version_loop p v b m = Inr (rest, w) \<Longrightarrow> set rest \<subseteq> set p"
  by (induction p v b m rule: version_loop.induct) (auto simp: Let_def split: if_splits)

lemma subset_version_set: "riscv_parsing_subset_version p = Inr (rest, w) \<Longrightarrow> set rest \<subseteq> set p"
  by (auto simp: riscv_parsing_subset_version_def rbind_Inr_iff Let_def dest!: version_loop_set split: if_splits)

lemma parse_one_ext_rest:
  assumes "parse_one_ext arch p rps = Inr (Inr (rps', rest))"
  shows "set rest \<subseteq> set p"
proof -
  obtain r where r: "ext_name_length arch p = Inr r"
    using assms by (cases "ext_name_length arch p") (auto simp: parse_one_ext_def)
  then obtain q where q: "ext_name_length arch p = Inr (Inr q)"
    using assms by (cases r) (auto simp: parse_one_ext_def)
  then obtain v where v: "riscv_parsing_subset_version (drop q p) = Inr v"
    using assms by (auto simp: parse_one_ext_def rbind_Inr_iff)
  obtain rest' ma mi where "v = (rest', ma, mi)" by (cases v)
  with assms q v have "riscv_parsing_subset_version (drop q p) = Inr (rest, ma, mi)"
    by (auto simp: parse_one_ext_def rbind_Inr_iff Let_def split: if_splits)
  from subset_version_set [OF this] show ?thesis using set_drop_subset [of q p] by blast
qed

lemma parse_ext_loop_simps [simp]:
  "parse_ext_loop arch [] rps = Inr (True, rps)"
  "parse_ext_loop arch (CHR ''_'' # p) rps = parse_ext_loop arch p rps"
  by (subst parse_ext_loop.simps, simp)+

lemma parse_ext_loop_ok:
  "arch_ok rps \<Longrightarrow> check_unknown_prefixed_ext rps \<Longrightarrow> CHR 0x00 \<notin> set p \<Longrightarrow>
     parse_ext_loop arch p rps = Inr (b, rps') \<Longrightarrow> arch_ok rps'"
proof (induction arch p rps rule: parse_ext_loop.induct)
  case (1 arch p rps)
  show ?case
  proof (cases "p = [] \<or> hd p = CHR ''_''")
    case True
    with 1 show ?thesis by (cases p) auto
  next
    case False
    then have step: "parse_ext_loop arch p rps = rbind (parse_one_ext arch p rps)
        (\<lambda>r. case r of Inl rps' \<Rightarrow> Inr (False, rps') | Inr (rps', rest) \<Rightarrow> parse_ext_loop arch rest rps')"
      by (simp add: parse_ext_loop.simps [of arch p rps])
    with 1(6) obtain r where r: "parse_one_ext arch p rps = Inr r" by (auto simp: rbind_Inr_iff)
    note one = parse_one_ext_ok [OF 1(3-5) r]
    show ?thesis
    proof (cases r)
      case (Inl a)
      with one r step 1(6) show ?thesis by simp
    next
      case (Inr c)
      obtain rps1 rest where c: "c = (rps1, rest)" by (cases c)
      have "CHR 0x00 \<notin> set rest" using parse_one_ext_rest r Inr c 1(5) by blast
      with one r step Inr c 1(6) False show ?thesis using 1(2) by auto
    qed
  qed
qed

section \<open>One pass over rules\<close>

text \<open>
  A store of nodes, and rules that add the keys on their right when a node with the key on their left passes the
  guard. Where no rule adds the left side of a rule up to itself, one pass closes the store.
\<close>

locale rule_pass =
  fixes nodes :: "'l \<Rightarrow> 'n set"
    and key :: "'n \<Rightarrow> 'k"
    and ok :: "'l \<Rightarrow> bool"
    and lhs :: "'r \<Rightarrow> 'k"
    and rhs :: "'r \<Rightarrow> 'k set"
    and guard :: "'r \<Rightarrow> 'n \<Rightarrow> bool"
    and usable :: "'r \<Rightarrow> bool"
    and fire :: "'r \<Rightarrow> 'l \<Rightarrow> 'l run"
  assumes fire_law:
    "ok l \<Longrightarrow> usable r \<Longrightarrow>
       \<exists>l'. fire r l = Inr l' \<and> ok l' \<and> nodes l \<subseteq> nodes l' \<and> key ` (nodes l' - nodes l) \<subseteq> rhs r \<and>
            ((\<exists>n \<in> nodes l. key n = lhs r \<and> guard r n) \<longrightarrow> rhs r \<subseteq> key ` nodes l')"
begin

primrec pass :: "'r list \<Rightarrow> 'l \<Rightarrow> 'l run" where
  "pass [] l = Inr l"
| "pass (r # rs) l = rbind (fire r l) (pass rs)"

definition closed :: "'l \<Rightarrow> 'r \<Rightarrow> bool" where
  "closed l r \<longleftrightarrow> (\<forall>n \<in> nodes l. key n = lhs r \<and> guard r n \<longrightarrow> rhs r \<subseteq> key ` nodes l)"

text \<open>No right side of a rule of the second list is a left side of the first list or of a rule up to itself.\<close>

primrec forward :: "'k set \<Rightarrow> 'r list \<Rightarrow> bool" where
  "forward done [] = True"
| "forward done (r # rs) \<longleftrightarrow> rhs r \<inter> insert (lhs r) done = {} \<and> forward (insert (lhs r) done) rs"

lemma fire_closed:
  assumes ok: "ok l" and r: "usable r" and rs: "\<forall>q \<in> set rs. closed l q" and new: "rhs r \<inter> insert (lhs r) (lhs ` set rs) = {}"
  obtains l' where "fire r l = Inr l'" "ok l'" "nodes l \<subseteq> nodes l'" "\<forall>q \<in> insert r (set rs). closed l' q"
proof -
  obtain l' where l': "fire r l = Inr l'" "ok l'" "nodes l \<subseteq> nodes l'" "key ` (nodes l' - nodes l) \<subseteq> rhs r"
    "(\<exists>n \<in> nodes l. key n = lhs r \<and> guard r n) \<longrightarrow> rhs r \<subseteq> key ` nodes l'"
    using fire_law [OF ok r] by blast
  have old: "n \<in> nodes l" if "n \<in> nodes l'" "key n = lhs q" "q \<in> insert r (set rs)" for n q
    using that l'(4) new by blast
  have "closed l' q" if q: "q \<in> insert r (set rs)" for q
    unfolding closed_def
  proof (intro ballI impI, elim conjE)
    fix n
    assume n: "n \<in> nodes l'" "key n = lhs q" "guard q n"
    with old q have "n \<in> nodes l" by blast
    then show "rhs q \<subseteq> key ` nodes l'"
      using n q rs l'(3,5) unfolding closed_def by (metis image_mono insertE subset_trans)
  qed
  with l' that show thesis by blast
qed

lemma pass_closed:
  "ok l \<Longrightarrow> \<forall>r \<in> set rs. usable r \<Longrightarrow> \<forall>q \<in> set before. closed l q \<Longrightarrow> forward (lhs ` set before) rs \<Longrightarrow>
     \<exists>l'. pass rs l = Inr l' \<and> ok l' \<and> nodes l \<subseteq> nodes l' \<and> (\<forall>q \<in> set before \<union> set rs. closed l' q)"
proof (induction rs arbitrary: l before)
  case Nil
  then show ?case by simp
next
  case (Cons r rs)
  obtain l1 where l1: "fire r l = Inr l1" "ok l1" "nodes l \<subseteq> nodes l1" "\<forall>q \<in> insert r (set before). closed l1 q"
    by (rule fire_closed [of l r before]) (use Cons.prems in auto)
  with Cons.IH [of l1 "r # before"] Cons.prems show ?case by (auto dest: subset_trans)
qed

end

section \<open>The rules of the table\<close>

text \<open>The names a rule adds, read from its text as \<^verbatim>\<open>riscv_update_subset1\<close> reads them.\<close>

definition rule_name :: "string \<Rightarrow> bool" where
  "rule_name n \<longleftrightarrow>
     list_all (\<lambda>c. c \<noteq> CHR 0x00) n \<and>
     (if length n = 1 then (case ext_order n of Inr v \<Rightarrow> v \<noteq> 0 | Inl e \<Rightarrow> False)
      else riscv_recognized_prefixed_ext n)"

definition rule_item :: "string \<Rightarrow> (string \<times> string) option" where
  "rule_item s =
     (case item_name_length False [] s of
        Inr (Inr q) \<Rightarrow>
          (case riscv_parsing_subset_version (drop q s) of
             Inr (rest, ma, mi) \<Rightarrow>
               if ma = -1 \<and> mi = -1 \<and> rule_name (take q s) then Some (take q s, rest) else None
           | Inl e \<Rightarrow> None)
      | r \<Rightarrow> None)"

fun rule_items :: "nat \<Rightarrow> string \<Rightarrow> string list option" where
  "rule_items 0 p = None"
| "rule_items (Suc k) p =
     (if take 1 p = ''+'' then
        (case rule_item (tl p) of
           None \<Rightarrow> None
         | Some (n, rest) \<Rightarrow> if take 1 rest = '','' then map_option ((#) n) (rule_items k (tl rest)) else Some [n])
      else None)"

text \<open>No rule has more than eight items.\<close>

abbreviation items :: "string \<Rightarrow> string list" where
  "items exts \<equiv> the (rule_items 8 exts)"

lemma item_name_length_any:
  "item_name_length False [] s = Inr (Inr q) \<Longrightarrow> item_name_length opt exts s = Inr (Inr q)"
  by (auto simp: item_name_length_def rbind_Inr_iff Let_def split: if_splits)

lemma rule_name_wf:
  assumes "rule_name n"
  shows "wf_ext n" "known_item rps n = Inr True"
proof -
  have nul: "CHR 0x00 \<notin> set n" using assms unfolding rule_name_def list_all_iff by blast
  have "wf_ext n \<and> known_item rps n = Inr True"
  proof (cases "length n = 1")
    case True
    with assms obtain v where v: "ext_order n = Inr v" "v \<noteq> 0" by (auto simp: rule_name_def split: sum.splits)
    then have "riscv_get_prefix_class n = RV_ISA_CLASS_SINGLE"
      using prefix_class_order [of n] by (auto simp: order_of_def)
    with v True nul show ?thesis by (auto simp: wf_ext_def known_item_def)
  next
    case False
    with assms have r: "riscv_recognized_prefixed_ext n" by (simp add: rule_name_def)
    have wf: "wf_ext n" by (rule recognized_wf [OF r nul])
    then have "n \<noteq> []" by (auto simp: wf_ext_def ext_order_def)
    with False r wf show ?thesis by (auto simp: known_item_def)
  qed
  then show "wf_ext n" "known_item rps n = Inr True" by simp_all
qed

lemma rule_itemE:
  assumes "rule_item s = Some (n, rest)"
  obtains q where "item_name_length False [] s = Inr (Inr q)" "riscv_parsing_subset_version (drop q s) = Inr (rest, -1, -1)"
    "n = take q s" "rule_name n"
proof -
  obtain r where r: "item_name_length False [] s = Inr r"
    using assms by (cases "item_name_length False [] s") (auto simp: rule_item_def)
  then obtain q where q: "item_name_length False [] s = Inr (Inr q)"
    using assms by (cases r) (auto simp: rule_item_def)
  then obtain v where v: "riscv_parsing_subset_version (drop q s) = Inr v"
    using assms by (cases "riscv_parsing_subset_version (drop q s)") (auto simp: rule_item_def)
  obtain rest' ma mi where "v = (rest', ma, mi)" by (cases v)
  with assms q v that [of q] show thesis by (auto simp: rule_item_def split: if_splits)
qed

lemma rule_item_wf: "rule_item s = Some (n, rest) \<Longrightarrow> wf_ext n"
  by (elim rule_itemE) (simp add: rule_name_wf)

lemma update_one_rule:
  assumes "rule_item s = Some (n, rest)"
  shows "update_one False exts False s rps =
     rbind (riscv_lookup_subset (subset_list rps) n) (\<lambda>(found, current).
       if found then Inr (Inr (rps, rest))
       else rbind (riscv_parse_add_subset rps n (-1) (-1) True) (\<lambda>rps'. Inr (Inr (rps', rest))))"
  using assms
proof (rule rule_itemE)
  fix q
  assume q: "item_name_length False [] s = Inr (Inr q)" "riscv_parsing_subset_version (drop q s) = Inr (rest, -1, -1)"
    "n = take q s" "rule_name n"
  from q(2) item_name_length_any [OF q(1), of False exts] rule_name_wf(2) [OF q(4), of rps] show ?thesis
    unfolding q(3) by (simp add: update_one_def Let_def)
qed

lemma update_one_adds:
  assumes item: "rule_item s = Some (n, rest)" and ok: "arch_ok rps"
  obtains rps' where "update_one False exts False s rps = Inr (Inr (rps', rest))" "arch_ok rps'"
    "set (subset_list rps) \<subseteq> set (subset_list rps')"
    "ext_keys (subset_list rps') = insert (ext_key n) (ext_keys (subset_list rps))"
proof (cases "ext_key n \<in> ext_keys (subset_list rps)")
  have wf: "wf_ext n" using item by (rule rule_item_wf)
  note look = update_one_rule [OF item, of exts rps] lookup_spec [OF ok [unfolded arch_ok_def] wf]
  {
    case True
    with that [of rps] ok look show thesis by auto
  next
    case False
    obtain rps' where "riscv_parse_add_subset rps n (-1) (-1) True = Inr rps'" "arch_ok rps'"
      "set (subset_list rps) \<subseteq> set (subset_list rps')"
      "ext_keys (subset_list rps') = insert (ext_key n) (ext_keys (subset_list rps))"
      using parse_add_subset_ok [OF ok wf] by metis
    with that [of rps'] False look show thesis by auto
  }
qed

lemma rule_items_wf: "rule_items k p = Some ns \<Longrightarrow> \<forall>n \<in> set ns. wf_ext n"
proof (induction k p arbitrary: ns rule: rule_items.induct)
  case (2 k p)
  then obtain n rest where item: "rule_item (tl p) = Some (n, rest)"
    by (auto split: if_splits option.splits)
  with 2 rule_item_wf [OF item] show ?case by (auto split: if_splits)
qed simp

lemma update_loop_adds:
  "rule_items k p = Some ns \<Longrightarrow> arch_ok rps \<Longrightarrow>
     \<exists>rps'. update_loop full False exts p rps = Inr (None, rps') \<and> arch_ok rps' \<and>
            set (subset_list rps) \<subseteq> set (subset_list rps') \<and>
            ext_keys (subset_list rps') = ext_key ` set ns \<union> ext_keys (subset_list rps)"
proof (induction k p arbitrary: ns rps rule: rule_items.induct)
  case (1 p)
  then show ?case by simp
next
  case (2 k p)
  then have plus: "take 1 p = ''+''" by (simp split: if_splits)
  with 2(2) obtain n rest where item: "rule_item (tl p) = Some (n, rest)"
    by (auto split: option.splits)
  obtain rps1 where one: "update_one False exts False (tl p) rps = Inr (Inr (rps1, rest))" "arch_ok rps1"
    "set (subset_list rps) \<subseteq> set (subset_list rps1)"
    "ext_keys (subset_list rps1) = insert (ext_key n) (ext_keys (subset_list rps))"
    using item 2(3) by (rule update_one_adds)
  have step: "update_loop full False exts p rps =
      (if take 1 rest = '','' then update_loop full False exts (tl rest) rps1 else Inr (None, rps1))"
    using plus one(1) by (subst update_loop.simps) simp
  show ?case
  proof (cases "take 1 rest = '',''")
    case True
    then obtain ms where ms: "rule_items k (tl rest) = Some ms" "ns = n # ms"
      using 2(2) plus item by auto
    obtain rps' where "update_loop full False exts (tl rest) rps1 = Inr (None, rps')" "arch_ok rps'"
      "set (subset_list rps1) \<subseteq> set (subset_list rps')"
      "ext_keys (subset_list rps') = ext_key ` set ms \<union> ext_keys (subset_list rps1)"
      using 2(1) [OF plus item refl True ms(1) one(2)] by blast
    with True ms one step show ?thesis by auto
  next
    case False
    with 2(2) plus item one step show ?thesis by auto
  qed
qed

section \<open>The pass over the table\<close>

type_synonym implied_rule = "string \<times> string \<times> check_func"

fun rule_lhs :: "implied_rule \<Rightarrow> int \<times> int \<times> int list" where
  "rule_lhs (ext, exts, check) = ext_key ext"

fun rule_rhs :: "implied_rule \<Rightarrow> (int \<times> int \<times> int list) set" where
  "rule_rhs (ext, exts, check) = ext_key ` set (items exts)"

fun rule_guard :: "implied_rule \<Rightarrow> riscv_subset \<Rightarrow> bool" where
  "rule_guard (ext, exts, check) s = call_check_func check s"

fun rule_usable :: "implied_rule \<Rightarrow> bool" where
  "rule_usable (ext, exts, check) \<longleftrightarrow> wf_ext ext \<and> rule_items 8 exts \<noteq> None"

lemma node_key_inj: "subsets_ok L \<Longrightarrow> s \<in> set L \<Longrightarrow> t \<in> set L \<Longrightarrow> node_key s = node_key t \<Longrightarrow> s = t"
  by (induction L) (auto simp: subsets_ok_Cons)

lemma lookup_node:
  assumes "subsets_ok L" "wf_ext n" "s \<in> set L" "node_key s = ext_key n"
  shows "riscv_lookup_subset L n = Inr (True, Some (below n L))" "L ! below n L = s"
proof -
  have mem: "ext_key n \<in> ext_keys L" using assms(3,4) by (metis image_eqI)
  then show "riscv_lookup_subset L n = Inr (True, Some (below n L))" using assms by (simp add: lookup_spec)
  obtain xs ys where L: "L = xs @ s # ys" using assms(3) by (meson split_list)
  then have "takeWhile (\<lambda>x. node_key x < ext_key n) L = xs"
    using assms(1,4) by (auto simp: subsets_ok_append subsets_ok_Cons takeWhile_append2 takeWhile_eq_all_conv)
  then show "L ! below n L = s" by (simp add: L)
qed

interpretation implied: rule_pass "\<lambda>rps. set (subset_list rps)" node_key arch_ok rule_lhs rule_rhs rule_guard
  rule_usable add_implicit_step
proof
  fix rps :: riscv_rps and r :: implied_rule
  assume ok: "arch_ok rps" and u: "rule_usable r"
  obtain ext exts check where r: "r = (ext, exts, check)" by (cases r)
  let ?L = "subset_list rps"
  have wf: "wf_ext ext" and L: "subsets_ok ?L" using u ok r by (simp_all add: arch_ok_def)
  obtain ns where ns: "rule_items 8 exts = Some ns" using u r by auto
  show "\<exists>l'. add_implicit_step r rps = Inr l' \<and> arch_ok l' \<and> set ?L \<subseteq> set (subset_list l') \<and>
            node_key ` (set (subset_list l') - set ?L) \<subseteq> rule_rhs r \<and>
            ((\<exists>n \<in> set ?L. node_key n = rule_lhs r \<and> rule_guard r n) \<longrightarrow> rule_rhs r \<subseteq> ext_keys (subset_list l'))"
  proof (cases "\<exists>n \<in> set ?L. node_key n = rule_lhs r \<and> rule_guard r n")
    case True
    then obtain n where n: "n \<in> set ?L" "node_key n = ext_key ext" "call_check_func check n" using r by auto
    obtain rps' where rps': "update_loop (\<lambda>p r. Inl Panic) False exts exts rps = Inr (None, rps')" "arch_ok rps'"
      "set ?L \<subseteq> set (subset_list rps')" "ext_keys (subset_list rps') = ext_key ` set ns \<union> ext_keys ?L"
      using update_loop_adds [OF ns ok] by blast
    have new: "node_key s \<in> ext_key ` set ns" if "s \<in> set (subset_list rps') - set ?L" for s
    proof (rule ccontr)
      assume "node_key s \<notin> ext_key ` set ns"
      with that rps'(4) have "node_key s \<in> ext_keys ?L" by blast
      then obtain t where "t \<in> set ?L" "node_key s = node_key t" by auto
      with that rps'(2,3) node_key_inj [of "subset_list rps'" s t] show False by (auto simp: arch_ok_def)
    qed
    have "add_implicit_step r rps = Inr rps'"
      using lookup_node [OF L wf n(1,2)] n(3) rps'(1) by (simp add: add_implicit_step_def r riscv_update_subset1_implicit_def)
    with rps' new r ns show ?thesis by auto
  next
    case False
    have "add_implicit_step r rps = Inr rps"
    proof (cases "ext_key ext \<in> ext_keys ?L")
      case True
      then obtain n where n: "n \<in> set ?L" "node_key n = ext_key ext" by auto
      with False r have "\<not> call_check_func check n" by auto
      with lookup_node [OF L wf n] show ?thesis by (simp add: add_implicit_step_def r)
    next
      case False
      then show ?thesis using L wf by (simp add: add_implicit_step_def r lookup_spec)
    qed
    with False ok show ?thesis by auto
  qed
qed

lemma add_implicit_loop_pass: "add_implicit_loop rs rps = implied.pass rs rps"
  by (induction rs arbitrary: rps) (auto intro: rbind_cong)

text \<open>Every rule of the table has readable items, and no rule adds what a rule up to itself looks for.\<close>

fun forward_keys :: "(int \<times> int \<times> int list) list \<Rightarrow> implied_rule list \<Rightarrow> bool" where
  "forward_keys seen [] = True"
| "forward_keys seen ((ext, exts, check) # rs) \<longleftrightarrow>
     (let ks = ext_key ext # seen
      in list_all (\<lambda>n. list_all (\<lambda>k. k \<noteq> ext_key n) ks) (items exts) \<and> forward_keys ks rs)"

lemma forward_keys: "forward_keys ks rs \<Longrightarrow> implied.forward (set ks) rs"
proof (induction ks rs rule: forward_keys.induct)
  case (2 ks ext exts check rs)
  then show ?case by (auto simp: Let_def list_all_iff)
qed simp

lemma rules_forward: "forward_keys [] riscv_implicit_subsets"
  by code_simp

lemma rules_usable: "\<forall>r \<in> set riscv_implicit_subsets. rule_usable r"
proof -
  have "list_all (\<lambda>(ext, exts, check). rule_items 8 exts \<noteq> None \<and> rule_name ext) riscv_implicit_subsets"
    by code_simp
  then show ?thesis by (auto simp: list_all_iff rule_name_wf)
qed

end
