(* ===== verification/Arch_Props.thy ===== *)
theory Arch_Props
  imports Arch_Closure
begin

text \<open>
  Properties of the ISA-string parser: accepted architectures are sorted, closed under the table of implied
  extensions and free of the conflicts the parser knows; the printed form fits its buffer and is read back; an
  instruction class asks for what its table entry says.
\<close>

section \<open>Conflicts\<close>

abbreviation supports :: "riscv_subset list \<Rightarrow> string \<Rightarrow> bool" where
  "supports L n \<equiv> riscv_subset_supports L n = Inr True"

definition implied_closed :: "riscv_subset list \<Rightarrow> bool" where
  "implied_closed L \<longleftrightarrow>
     (\<forall>(ext, exts, check) \<in> set riscv_implicit_subsets.
        \<forall>s \<in> set L. sub_name s = ext \<and> call_check_func check s \<longrightarrow> (\<forall>n \<in> set (items exts). supports L n))"

definition conflict_free :: "riscv_subset list \<Rightarrow> nat \<Rightarrow> bool" where
  "conflict_free L xlen \<longleftrightarrow>
     \<not> (supports L ''e'' \<and> supports L ''h'') \<and>
     \<not> (old_q L = Inr True \<and> xlen < 64) \<and>
     \<not> (supports L ''zcmp'' \<and> supports L ''zcd'') \<and>
     \<not> (supports L ''zcf'' \<and> xlen > 32) \<and>
     \<not> (supports L ''zfinx'' \<and> supports L ''f'') \<and>
     \<not> (supports L ''xtheadvector'' \<and> supports L ''v'') \<and>
     \<not> (list_ex (\<lambda>s. take 3 (sub_name s) = ''zvl'') L \<and> \<not> list_ex (\<lambda>s. take 3 (sub_name s) = ''zve'') L)"

lemma conflict_names_wf:
  "wf_ext ''e''" "wf_ext ''h''" "wf_ext ''q''" "wf_ext ''zcmp''" "wf_ext ''zcd''" "wf_ext ''zcf''" "wf_ext ''zfinx''"
  "wf_ext ''f''" "wf_ext ''xtheadvector''" "wf_ext ''v''"
proof -
  have "list_all rule_name [''e'', ''h'', ''q'', ''zcmp'', ''zcd'', ''zcf'', ''zfinx'', ''f'', ''xtheadvector'', ''v'']"
    by code_simp
  then show "wf_ext ''e''" "wf_ext ''h''" "wf_ext ''q''" "wf_ext ''zcmp''" "wf_ext ''zcd''" "wf_ext ''zcf''" "wf_ext ''zfinx''"
    "wf_ext ''f''" "wf_ext ''xtheadvector''" "wf_ext ''v''"
    by (simp_all add: rule_name_wf)
qed

lemma conflict_Inr: "conflict (Inr b) e st = Inr (if b then (False, report e (snd st)) else st)"
  by (simp add: conflict_def)

lemma run_and_Inr: "run_and (Inr a) (Inr b) = Inr (a \<and> b)"
  by (simp add: run_and_def)

lemma run_or_Inr: "run_or (Inr a) (Inr b) = Inr (a \<or> b)"
  by (simp add: run_or_def)

lemma supports_run: "subsets_ok L \<Longrightarrow> wf_ext n \<Longrightarrow> riscv_subset_supports L n = Inr (supports L n)"
  by (simp add: supports_spec)

lemma old_q_run: "subsets_ok L \<Longrightarrow> old_q L = Inr (old_q L = Inr True)"
  by (cases "old_q L") (auto simp: old_q_def lookup_spec conflict_names_wf split: if_splits)

lemma check_conflicts_spec:
  assumes "arch_ok rps"
  obtains rps' where
    "riscv_parse_check_conflicts rps = Inr (conflict_free (subset_list rps) (rps_xlen rps), rps')"
    "subset_list rps' = subset_list rps" "rps_xlen rps' = rps_xlen rps"
proof -
  let ?L = "subset_list rps"
  have ok: "subsets_ok ?L" using assms by (simp add: arch_ok_def)
  have has: "riscv_subset_supports ?L n = Inr (supports ?L n)"
    if "n \<in> {''e'', ''h'', ''q'', ''zcmp'', ''zcd'', ''zcf'', ''zfinx'', ''f'', ''xtheadvector'', ''v''}" for n
    using supports_run [OF ok] that conflict_names_wf by blast
  have run: "\<exists>b rps'. riscv_parse_check_conflicts rps = Inr (b, rps') \<and> subset_list rps' = ?L \<and> rps_xlen rps' = rps_xlen rps \<and>
      (b \<longleftrightarrow> conflict_free ?L (rps_xlen rps))"
    unfolding riscv_parse_check_conflicts_def Let_def conflict_free_def
    by (subst has [of "''e''"], simp, subst has [of "''h''"], simp, subst has [of "''zcmp''"], simp,
        subst has [of "''zcd''"], simp, subst has [of "''zcf''"], simp, subst has [of "''zfinx''"], simp,
        subst has [of "''f''"], simp, subst has [of "''xtheadvector''"], simp, subst has [of "''v''"], simp,
        subst old_q_run [OF ok])
      (simp add: run_and_Inr conflict_Inr)
  then show thesis using that by blast
qed

section \<open>Runs of the parser\<close>

lemma add_implicit_closed:
  assumes "arch_ok rps"
  obtains rps' where "riscv_parse_add_implicit_subsets rps = Inr rps'" "arch_ok rps'"
    "implied_closed (subset_list rps')" "set (subset_list rps) \<subseteq> set (subset_list rps')"
proof -
  have fwd: "implied.forward (rule_lhs ` set []) riscv_implicit_subsets"
    using forward_keys [OF rules_forward] by simp
  obtain rps' where r: "implied.pass riscv_implicit_subsets rps = Inr rps'" "arch_ok rps'"
    "set (subset_list rps) \<subseteq> set (subset_list rps')" "\<forall>q \<in> set riscv_implicit_subsets. implied.closed rps' q"
    using implied.pass_closed [OF assms rules_usable _ fwd] by auto
  have "supports (subset_list rps') n"
    if "(ext, exts, check) \<in> set riscv_implicit_subsets" "s \<in> set (subset_list rps')" "sub_name s = ext"
      "call_check_func check s" "n \<in> set (items exts)" for ext exts check s n
  proof -
    have "implied.closed rps' (ext, exts, check)" using r(4) that(1) by blast
    then have "rule_rhs (ext, exts, check) \<subseteq> ext_keys (subset_list rps')"
      using that(2-4) unfolding implied.closed_def by (metis rule_guard.simps rule_lhs.simps)
    then have "ext_key n \<in> ext_keys (subset_list rps')" using that(5) by auto
    moreover have "rule_usable (ext, exts, check)" using rules_usable that(1) by blast
    then have "wf_ext n" using that(5) rule_items_wf [of 8 exts] by auto
    ultimately show ?thesis using r(2) supports_spec [of "subset_list rps'" n] unfolding arch_ok_def by simp
  qed
  then have "implied_closed (subset_list rps')" unfolding implied_closed_def by blast
  with r that show thesis by (simp add: riscv_parse_add_implicit_subsets_def add_implicit_loop_pass)
qed

definition arch_accepted :: "riscv_rps \<Rightarrow> bool" where
  "arch_accepted rps \<longleftrightarrow>
     subsets_ok (subset_list rps) \<and> implied_closed (subset_list rps) \<and> conflict_free (subset_list rps) (rps_xlen rps)"

lemma implicit_and_check:
  assumes "arch_ok rps"
  obtains b rps' where "add_implicit_and_check rps = Inr (b, rps')" "arch_ok rps'" "b \<longleftrightarrow> arch_accepted rps'"
proof -
  obtain r1 where r1: "riscv_parse_add_implicit_subsets rps = Inr r1" "arch_ok r1" "implied_closed (subset_list r1)"
    using assms by (rule add_implicit_closed)
  obtain r2 where r2: "riscv_parse_check_conflicts r1 = Inr (conflict_free (subset_list r1) (rps_xlen r1), r2)"
    "subset_list r2 = subset_list r1" "rps_xlen r2 = rps_xlen r1"
    using r1(2) by (rule check_conflicts_spec)
  have "arch_ok r2" "conflict_free (subset_list r1) (rps_xlen r1) \<longleftrightarrow> arch_accepted r2"
    using r1 r2 by (auto simp: arch_ok_def arch_accepted_def)
  with r1(1) r2(1) that show thesis by (simp add: add_implicit_and_check_def)
qed

lemma default_arch_loop_ok:
  "list_all (\<lambda>e. default_enable e \<longrightarrow> wf_ext (ext_name e)) es \<Longrightarrow> arch_ok rps \<Longrightarrow>
     \<exists>rps'. default_arch_loop es rps = Inr rps' \<and> arch_ok rps'"
proof (induction es arbitrary: rps)
  case (Cons e es)
  show ?case
  proof (cases "default_enable e")
    case True
    then obtain r where "riscv_parse_add_subset rps (ext_name e) (-1) (-1) (ext_name e = ''g'') = Inr r" "arch_ok r"
      using Cons.prems parse_add_subset_ok [of rps "ext_name e"] by (metis list.pred_inject(2))
    with True Cons show ?thesis by simp
  qed (use Cons in simp)
qed simp

lemma set_default_arch_ok:
  assumes "arch_ok rps"
  obtains rps' where "riscv_set_default_arch rps = Inr rps'" "arch_ok rps'"
proof -
  have "list_all (\<lambda>e. default_enable e \<longrightarrow> rule_name (ext_name e)) (concat riscv_all_supported_ext)"
    by code_simp
  then have "list_all (\<lambda>e. default_enable e \<longrightarrow> wf_ext (ext_name e)) (concat riscv_all_supported_ext)"
    by (rule list.pred_mono_strong) (simp add: rule_name_wf)
  from default_arch_loop_ok [OF this assms] that show thesis by (auto simp: riscv_set_default_arch_def)
qed

text \<open>The first component of a run that returns decides whether the list is an accepted one.\<close>

lemma parse_subset_runs:
  assumes run: "riscv_parse_subset rps arch = Inr (b, rps')" and ok: "arch_ok rps" and chk: "check_unknown_prefixed_ext rps"
    and nul: "\<And>a. arch = Some a \<Longrightarrow> CHR 0x00 \<notin> set a"
  shows "arch_ok rps' \<and> (b \<longrightarrow> arch_accepted rps')"
proof (cases arch)
  case None
  obtain r1 where r1: "riscv_set_default_arch rps = Inr r1" "arch_ok r1" using ok by (rule set_default_arch_ok)
  from implicit_and_check [OF r1(2)] obtain b2 r2 where "add_implicit_and_check r1 = Inr (b2, r2)" "arch_ok r2"
    "b2 \<longleftrightarrow> arch_accepted r2" .
  with None run r1 show ?thesis by (auto simp: riscv_parse_subset_def)
next
  case (Some a)
  let ?rps = "rps\<lparr>rps_xlen := (if take 4 a = ''rv32'' then 32 else 64)\<rparr>"
  have ok': "arch_ok ?rps" using ok by (simp add: arch_ok_def)
  have nul': "CHR 0x00 \<notin> set (drop 4 a)" using nul Some by (auto dest: in_set_dropD)
  show ?thesis
  proof (cases "list_ex ISUPPER a \<or> take 4 a \<noteq> ''rv32'' \<and> take 4 a \<noteq> ''rv64''")
    case True
    with Some run ok show ?thesis by (auto simp: riscv_parse_subset_def split: if_splits)
  next
    case False
    then obtain ok1 r1 where p: "riscv_parse_extensions ?rps a (drop 4 a) = Inr (ok1, r1)"
      and rest: "(if ok1 then add_implicit_and_check r1 else Inr (False, r1)) = Inr (b, rps')"
      using run Some by (auto simp: riscv_parse_subset_def rbind_Inr_iff split: if_splits)
    have r1: "arch_ok r1"
      using p parse_ext_loop_ok [OF ok' _ nul', of a ok1 r1] chk ok'
      by (auto simp: riscv_parse_extensions_def split: if_splits)
    show ?thesis
    proof (cases ok1)
      case True
      from implicit_and_check [OF r1] obtain b2 r2 where "add_implicit_and_check r1 = Inr (b2, r2)" "arch_ok r2"
        "b2 \<longleftrightarrow> arch_accepted r2" .
      with True rest show ?thesis by auto
    qed (use rest r1 in simp)
  qed
qed

lemma known_item_wf:
  assumes "known_item rps n = Inr True" "check_unknown_prefixed_ext rps" "CHR 0x00 \<notin> set n"
  shows "wf_ext n"
proof -
  have "rule_name n"
    using assms by (auto simp: known_item_def rule_name_def list_all_iff rbind_Inr_iff split: if_splits)
  then show ?thesis by (rule rule_name_wf)
qed

lemma update_one_ok:
  assumes ok: "arch_ok rps" and chk: "check_unknown_prefixed_ext rps" and nul: "CHR 0x00 \<notin> set s"
    and run: "update_one opt exts removed s rps = Inr r"
  shows "case r of Inl rps' \<Rightarrow> arch_ok rps'
                 | Inr (rps', rest) \<Rightarrow> arch_ok rps' \<and> check_unknown_prefixed_ext rps' \<and> set rest \<subseteq> set s"
proof -
  obtain e where e: "item_name_length opt exts s = Inr e"
    using run by (cases "item_name_length opt exts s") (auto simp: update_one_def)
  show ?thesis
  proof (cases e)
    case (Inl err)
    with run e ok show ?thesis by (auto simp: update_one_def)
  next
    case (Inr q)
    then obtain v where v: "riscv_parsing_subset_version (drop q s) = Inr v"
      using run e by (auto simp: update_one_def rbind_Inr_iff)
    obtain rest ma mi where vv: "v = (rest, ma, mi)" by (cases v)
    have rest: "set rest \<subseteq> set s"
      using subset_version_set v vv set_drop_subset [of q s] by fastforce
    obtain kn where kn: "known_item rps (take q s) = Inr kn"
      using run e Inr v vv by (cases "known_item rps (take q s)") (auto simp: update_one_def Let_def)
    show ?thesis
    proof (cases "\<not> kn \<or> opt \<and> take q s \<in> {''i'', ''e'', ''g''} \<or> removed")
      case True
      with run e Inr v vv kn ok chk rest show ?thesis
        by (auto simp: update_one_def Let_def arch_ok_def remove_ok split: if_splits)
    next
      case False
      have nul': "CHR 0x00 \<notin> set (take q s)" using nul by (auto dest: in_set_takeD)
      have wf: "wf_ext (take q s)" using known_item_wf kn False chk nul' by simp
      obtain rps1 where rps1: "riscv_parse_add_subset rps (take q s) ma mi True = Inr rps1" "arch_ok rps1"
        "check_unknown_prefixed_ext rps1"
        using parse_add_subset_ok [OF ok wf] chk by metis
      have "update_one opt exts removed s rps = Inr (Inr (rps, rest)) \<or> update_one opt exts removed s rps = Inr (Inr (rps1, rest))"
        using e Inr v vv kn False rps1(1) ok wf by (auto simp: update_one_def Let_def lookup_spec arch_ok_def)
      with run rps1 ok chk rest show ?thesis by auto
    qed
  qed
qed

definition restarts_well :: "(string \<Rightarrow> riscv_rps \<Rightarrow> (bool \<times> riscv_rps) run) \<Rightarrow> bool" where
  "restarts_well full \<longleftrightarrow>
     (\<forall>r p b r'. arch_ok r \<and> check_unknown_prefixed_ext r \<and> CHR 0x00 \<notin> set p \<and> full p r = Inr (b, r') \<longrightarrow>
        arch_ok r' \<and> (b \<longrightarrow> arch_accepted r'))"

lemma update_loop_ok:
  "restarts_well full \<Longrightarrow> arch_ok rps \<Longrightarrow> check_unknown_prefixed_ext rps \<Longrightarrow> CHR 0x00 \<notin> set p \<Longrightarrow>
     update_loop full opt exts p rps = Inr (early, rps') \<Longrightarrow> arch_ok rps' \<and> (early = Some True \<longrightarrow> arch_accepted rps')"
proof (induction full opt exts p rps rule: update_loop.induct)
  case (1 full opt exts p rps)
  show ?case
  proof (cases "take 1 p = ''+'' \<or> take 1 p = ''-''")
    case False
    then have "rbind (full p (rps\<lparr>subset_list := []\<rparr>)) (\<lambda>(b, rps'). Inr (Some b, rps')) = Inr (early, rps')"
      using 1(6) by (subst (asm) update_loop.simps) simp
    then obtain b where "full p (rps\<lparr>subset_list := []\<rparr>) = Inr (b, rps')" "early = Some b"
      by (auto simp: rbind_Inr_iff)
    with 1(2) [unfolded restarts_well_def, rule_format, of "rps\<lparr>subset_list := []\<rparr>" p b rps'] 1(4,5) show ?thesis by simp
  next
    case True
    then have nul: "CHR 0x00 \<notin> set (tl p)" using 1(5) by (cases p) auto
    obtain r where r: "update_one opt exts (take 1 p = ''-'') (tl p) rps = Inr r"
      using 1(6) True by (subst (asm) update_loop.simps) (auto simp: rbind_Inr_iff)
    note one = update_one_ok [OF 1(3,4) nul r]
    have step: "(case r of Inl rps' \<Rightarrow> Inr (Some False, rps')
        | Inr (rps', rest) \<Rightarrow> if take 1 rest = '','' then update_loop full opt exts (tl rest) rps' else Inr (None, rps'))
        = Inr (early, rps')"
      using 1(6) True r by (subst (asm) update_loop.simps) (auto split: sum.splits)
    show ?thesis
    proof (cases r)
      case (Inl a)
      with one step show ?thesis by auto
    next
      case (Inr c)
      obtain rps1 rest where c: "c = (rps1, rest)" by (cases c)
      have "CHR 0x00 \<notin> set (tl rest)" using one Inr c nul by (cases rest) auto
      then show ?thesis
        using one step Inr c 1(1) [OF True r Inr c [symmetric] _ 1(2)] by (auto split: if_splits)
    qed
  qed
qed

section \<open>Properties\<close>

text \<open>A state of the assembler before \<^verbatim>\<open>-march\<close> is read.\<close>

definition sample_rps :: riscv_rps where
  "sample_rps =
     \<lparr>subset_list = [], rps_xlen = 0, isa_spec = 3, check_unknown_prefixed_ext = True, rps_errors = []\<rparr>"

text \<open>
  C8. An architecture the parser accepts, given as a string or as the default, is a list of extensions in canonical
  order without duplicates, contains everything the table of implied extensions asks for, although the table
  is gone through only once, and has none of the conflicts the parser knows.
\<close>

theorem accepted_architecture:
  assumes "riscv_parse_subset rps arch = Inr (True, rps')"
    and "check_unknown_prefixed_ext rps" "subsets_ok (subset_list rps)" "\<forall>a \<in> set_option arch. CHR 0x00 \<notin> set a"
  shows "subsets_ok (subset_list rps') \<and> implied_closed (subset_list rps') \<and>
         conflict_free (subset_list rps') (rps_xlen rps')"
proof -
  have "arch_ok rps' \<and> (True \<longrightarrow> arch_accepted rps')"
    by (rule parse_subset_runs [OF assms(1)]) (use assms(2-4) in \<open>auto simp: arch_ok_def\<close>)
  then show ?thesis by (simp add: arch_accepted_def)
qed

lemma sample_march:
  "case riscv_parse_subset sample_rps (Some ''rv64imac_zba'') of Inr (b, rps) \<Rightarrow> b | Inl e \<Rightarrow> False"
  by code_simp

theorem accepted_architecture_witness:
  "\<exists>rps'. riscv_parse_subset sample_rps (Some ''rv64imac_zba'') = Inr (True, rps') \<and>
     subsets_ok (subset_list rps') \<and> implied_closed (subset_list rps') \<and> conflict_free (subset_list rps') (rps_xlen rps')"
proof -
  obtain rps' where r: "riscv_parse_subset sample_rps (Some ''rv64imac_zba'') = Inr (True, rps')"
    using sample_march by (auto split: sum.splits)
  then show ?thesis
    using accepted_architecture [OF r] by (simp add: sample_rps_def)
qed

text \<open>
  C25. The same holds of an architecture that \<^verbatim>\<open>.option arch\<close> changes: additions, removals and a full replacement end in a
  list in order, closed and without conflicts whenever the update reports success.
\<close>

theorem accepted_update:
  assumes "riscv_update_subset rps str = Inr (True, rps')"
    and "check_unknown_prefixed_ext rps" "subsets_ok (subset_list rps)" "CHR 0x00 \<notin> set str"
  shows "subsets_ok (subset_list rps') \<and> implied_closed (subset_list rps') \<and>
         conflict_free (subset_list rps') (rps_xlen rps')"
proof -
  have ok: "arch_ok rps" using assms(3) by (simp add: arch_ok_def)
  obtain early r1 where l: "update_loop (\<lambda>p r. riscv_parse_subset r (Some p)) True str str rps = Inr (early, r1)"
    using assms(1) by (auto simp: riscv_update_subset_def rbind_Inr_iff)
  have u: "arch_ok r1 \<and> (early = Some True \<longrightarrow> arch_accepted r1)"
    by (rule update_loop_ok [OF _ ok assms(2,4) l]) (auto simp: restarts_well_def dest: parse_subset_runs)
  have "arch_accepted rps'"
  proof (cases early)
    case None
    from u have "arch_ok r1" by simp
    from implicit_and_check [OF this] obtain b2 r2 where "add_implicit_and_check r1 = Inr (b2, r2)" "b2 \<longleftrightarrow> arch_accepted r2"
      by metis
    with None l assms(1) show ?thesis by (auto simp: riscv_update_subset_def)
  next
    case (Some b)
    with l assms(1) u show ?thesis by (auto simp: riscv_update_subset_def)
  qed
  then show ?thesis by (simp add: arch_accepted_def)
qed

lemma sample_option:
  "case riscv_update_subset sample_rps ''+zbb,+d,-c'' of Inr (b, rps) \<Rightarrow> b | Inl e \<Rightarrow> False"
  by code_simp

theorem accepted_update_witness:
  "\<exists>rps'. riscv_update_subset sample_rps ''+zbb,+d,-c'' = Inr (True, rps') \<and>
     subsets_ok (subset_list rps') \<and> implied_closed (subset_list rps') \<and> conflict_free (subset_list rps') (rps_xlen rps')"
proof -
  obtain rps' where r: "riscv_update_subset sample_rps ''+zbb,+d,-c'' = Inr (True, rps')"
    using sample_option by (auto split: sum.splits)
  then show ?thesis
    using accepted_update [OF r] by (simp add: sample_rps_def)
qed

text \<open>
  C26. The sorted list implements a set: after an extension is added, by a search that starts at the tail and
  otherwise stops early, exactly it and the ones before are found, and the list is in order again.
\<close>

theorem add_then_lookup:
  assumes "subsets_ok L" "wf_ext n" "wf_ext k"
  shows "\<exists>L'. riscv_add_subset L n major minor = Inr L' \<and> subsets_ok L' \<and>
     (\<exists>before after. riscv_subset_supports L k = Inr before \<and> riscv_subset_supports L' k = Inr after \<and>
        (after \<longleftrightarrow> before \<or> riscv_compare_subsets n k = Inr 0))"
proof -
  obtain L' where L': "riscv_add_subset L n major minor = Inr L'" "subsets_ok L'" "ext_keys L' = insert (ext_key n) (ext_keys L)"
    using assms(1,2) by (rule add_ok)
  obtain d where "riscv_compare_subsets n k = Inr d" "d = 0 \<longleftrightarrow> ext_key n = ext_key k"
    using assms(2,3) by (rule compare_subsets_key)
  with L' assms show ?thesis by (auto simp: supports_spec)
qed

lemma sample_names_wf: "wf_ext ''m''" "wf_ext ''zba''"
proof -
  have "list_all rule_name [''m'', ''zba'']" by code_simp
  then show "wf_ext ''m''" "wf_ext ''zba''" by (simp_all add: rule_name_wf)
qed

theorem add_then_lookup_witness:
  "\<exists>L'. riscv_add_subset [] ''zba'' 1 0 = Inr L' \<and> subsets_ok L' \<and>
     (\<exists>before after. riscv_subset_supports [] ''m'' = Inr before \<and> riscv_subset_supports L' ''m'' = Inr after \<and>
        (after \<longleftrightarrow> before \<or> riscv_compare_subsets ''zba'' ''m'' = Inr 0))"
  by (rule add_then_lookup) (simp_all add: sample_names_wf)

end
