(* ===== verification/Arch_Print.thy ===== *)
theory Arch_Print
  imports Arch_Props
begin

text \<open>
  The printed form of an architecture (\<^verbatim>\<open>riscv_arch_str\<close>): the estimate of its length is enough, so that nothing is
  cut and nothing is written past the buffer, and the parser reads back the extensions that were printed.
\<close>

section \<open>Decimal numbers\<close>

lemma digit_char: "0 \<le> d \<Longrightarrow> d < 10 \<Longrightarrow> (of_char (char_of (48 + d :: int)) :: int) = 48 + d"
  by simp

lemma digit_not_p: "0 \<le> d \<Longrightarrow> d < 10 \<Longrightarrow> char_of (48 + d :: int) \<noteq> CHR ''p'' \<and> ISDIGIT (char_of (48 + d))"
proof -
  assume d: "0 \<le> d" "d < 10"
  have "(of_char (char_of (48 + d)) :: int) \<noteq> of_char (CHR ''p'')" unfolding digit_char [OF d] using d by simp
  then have "char_of (48 + d) \<noteq> CHR ''p''" by metis
  with d digit_char [OF d] show ?thesis by (simp add: ISDIGIT_def)
qed

lemma dec_str_digits: "0 \<le> n \<Longrightarrow> c \<in> set (dec_str n) \<Longrightarrow> ISDIGIT c"
proof (induction n rule: dec_str.induct)
  case (1 n)
  then show ?case by (subst (asm) (2) dec_str.simps) (auto simp: ISDIGIT_def split: if_splits)
qed

lemma dec_str_nonempty [simp]: "dec_str n \<noteq> []"
  by (subst dec_str.simps) simp

lemma length_dec_str: "0 < n \<Longrightarrow> length (dec_str n) = estimate_digit_loop n"
proof (induction n rule: dec_str.induct)
  case (1 n)
  show ?case
  proof (cases "n < 10")
    case True
    with 1(2) have "estimate_digit_loop n = Suc (estimate_digit_loop 0)"
      by (subst estimate_digit_loop.simps) (simp add: div_pos_pos_trivial)
    with True show ?thesis by (subst dec_str.simps, subst (asm) (2) estimate_digit_loop.simps) simp
  next
    case False
    with 1 show ?thesis by (subst dec_str.simps, subst estimate_digit_loop.simps) simp
  qed
qed

lemma length_int_str: "-1 \<le> i \<Longrightarrow> i < 2 ^ 31 \<Longrightarrow> length (int_str i) \<le> riscv_estimate_digit i"
proof -
  assume i: "-1 \<le> i" "i < 2 ^ 31"
  consider "i = -1" | "i = 0" | "0 < i" using i by linarith
  then show ?thesis
  proof cases
    case 1
    then show ?thesis by (simp add: int_str_def riscv_estimate_digit_def dec_str.simps estimate_digit_loop.simps)
  next
    case 2
    then show ?thesis by (simp add: int_str_def riscv_estimate_digit_def dec_str.simps)
  next
    case 3
    with i have "i mod 4294967296 = i" by simp
    with 3 show ?thesis by (simp add: int_str_def riscv_estimate_digit_def length_dec_str)
  qed
qed

section \<open>The buffer\<close>

text \<open>The nodes that are printed.\<close>

function visible :: "riscv_subset list \<Rightarrow> riscv_subset list" where
  "visible [] = []"
| "visible (s # ss) = s # visible (arch_str_skip s ss)"
  by pat_completeness auto
termination
  by (relation "measure length") (auto simp: le_imp_less_Suc arch_str_skip_length)

definition known_versions :: "riscv_subset \<Rightarrow> bool" where
  "known_versions s \<longleftrightarrow>
     -1 \<le> major_version s \<and> major_version s < 2 ^ 31 \<and> -1 \<le> minor_version s \<and> minor_version s < 2 ^ 31"

abbreviation node_estimate :: "riscv_subset \<Rightarrow> nat" where
  "node_estimate s \<equiv>
     length (sub_name s) + riscv_estimate_digit (major_version s) + riscv_estimate_digit (minor_version s) + 2"

lemma strlen1_sum: "riscv_estimate_arch_strlen1 L = 6 + sum_list (map node_estimate L)"
  by (induction L) auto

lemma skip_estimate: "sum_list (map node_estimate (arch_str_skip s ss)) \<le> sum_list (map node_estimate ss)"
  by (induction s ss rule: arch_str_skip.induct) auto

lemma skip_subset: "set (arch_str_skip s ss) \<subseteq> set ss"
  by (induction s ss rule: arch_str_skip.induct) auto

lemma length_subset_text: "known_versions s \<Longrightarrow> length (subset_text s) \<le> node_estimate s"
  using length_int_str [of "major_version s"] length_int_str [of "minor_version s"]
  by (simp add: subset_text_def known_versions_def)

lemma arch_str1_fits:
  "\<forall>s \<in> set L. known_versions s \<Longrightarrow> length attr + sum_list (map node_estimate L) < bufsz \<Longrightarrow>
     riscv_arch_str1 L attr bufsz = Inr (attr @ concat (map subset_text (visible L)))"
proof (induction L attr bufsz rule: riscv_arch_str1.induct)
  case (1 attr bufsz)
  then show ?case by simp
next
  case (2 s ss attr bufsz)
  have s: "length (subset_text s) \<le> node_estimate s" by (rule length_subset_text) (use 2(2) in simp)
  then have whole: "take (bufsz - 1) (subset_text s) = subset_text s" using 2(3) by simp
  have "riscv_arch_str1 (arch_str_skip s ss) (attr @ subset_text s) bufsz =
      Inr ((attr @ subset_text s) @ concat (map subset_text (visible (arch_str_skip s ss))))"
    using 2(1) [OF whole [symmetric] refl] 2(2,3) s skip_estimate [of s ss] skip_subset [of s ss] by (auto simp: whole)
  with 2(3) s whole show ?case by simp
qed

lemma printed_text:
  assumes "\<forall>s \<in> set L. known_versions s" "xlen < 1000"
  shows "riscv_arch_str xlen L = Inr (''rv'' @ dec_str (int xlen) @ concat (map subset_text (visible L)))"
proof -
  have len: "length (dec_str (int xlen)) \<le> 3"
    using assms(2) by (subst dec_str.simps, subst dec_str.simps, subst dec_str.simps) (auto simp: zdiv_int [symmetric])
  then have "take (riscv_estimate_arch_strlen1 L - 1) (''rv'' @ dec_str (int xlen)) = ''rv'' @ dec_str (int xlen)"
    by (simp add: strlen1_sum)
  then show ?thesis
    using arch_str1_fits [OF assms(1), of "''rv'' @ dec_str (int xlen)" "riscv_estimate_arch_strlen1 L"] len
    by (simp add: riscv_arch_str_def strlen1_sum)
qed

text \<open>
  C27. The buffer that \<^verbatim>\<open>riscv_arch_str\<close> allocates is large enough: nothing is cut and nothing is written outside it,
  also when a version is unknown, and the result is the text of the printed extensions.
\<close>

theorem arch_str_fits:
  assumes "\<forall>s \<in> set L. known_versions s" "xlen < 1000"
  shows "riscv_arch_str xlen L = Inr (''rv'' @ dec_str (int xlen) @ concat (map subset_text (visible L)))"
  by (rule printed_text [OF assms])

theorem arch_str_fits_witness:
  "riscv_arch_str 64 [\<lparr>sub_name = ''i'', major_version = 2, minor_version = 1\<rparr>,
                      \<lparr>sub_name = ''g'', major_version = -1, minor_version = -1\<rparr>,
                      \<lparr>sub_name = ''zba'', major_version = 1, minor_version = 0\<rparr>] = Inr ''rv64i2p1_zba1p0''"
  by (subst arch_str_fits) (simp_all add: known_versions_def subset_text_def tolower_def int_str_def dec_str.simps char_of_def)

section \<open>Reading a printed architecture\<close>

text \<open>A node whose text is read back: its name is one the parser accepts and ends where its version starts.\<close>

definition plain_name :: "string \<Rightarrow> bool" where
  "plain_name n \<longleftrightarrow>
     (if length n = 1 then riscv_get_prefix_class n = RV_ISA_CLASS_SINGLE \<and> n \<noteq> ''g'' \<and> (\<exists>v. ext_order n = Inr v \<and> 0 < v)
      else riscv_recognized_prefixed_ext n \<and> CHR ''_'' \<notin> set n \<and> \<not> list_ex ISUPPER n \<and> \<not> ISDIGIT (last n) \<and>
           \<not> (last n = CHR ''p'' \<and> ISDIGIT (last (butlast n))))"

definition printable :: "riscv_subset \<Rightarrow> bool" where
  "printable s \<longleftrightarrow>
     plain_name (sub_name s) \<and>
     0 \<le> major_version s \<and> major_version s < 2 ^ 31 \<and> 0 \<le> minor_version s \<and> minor_version s < 2 ^ 31 \<and>
     (major_version s \<noteq> 0 \<or> minor_version s \<noteq> 0)"

abbreviation version_text :: "riscv_subset \<Rightarrow> string" where
  "version_text s \<equiv> dec_str (major_version s) @ CHR ''p'' # dec_str (minor_version s)"

abbreviation ends :: "string \<Rightarrow> bool" where
  "ends rest \<equiv> rest = [] \<or> hd rest = CHR ''_''"

lemma version_loop_dec:
  "0 \<le> n \<Longrightarrow> n < 2 ^ 31 \<Longrightarrow> version_loop (dec_str n @ r) 0 b m = version_loop r n b m"
proof (induction n arbitrary: r rule: dec_str.induct)
  case (1 n)
  show ?case
  proof (cases "n < 10")
    case True
    then have "dec_str n = [char_of (48 + n)]" by (subst dec_str.simps) simp
    moreover have "char_of (48 + n) \<noteq> CHR ''p''" "ISDIGIT (char_of (48 + n))"
      using 1(2) True digit_not_p [of n] by blast+
    ultimately show ?thesis using 1(2,3) True digit_char [of n] by simp
  next
    case False
    then have dec: "dec_str n = dec_str (n div 10) @ [char_of (48 + n mod 10)]" by (subst dec_str.simps) simp
    have d: "char_of (48 + n mod 10) \<noteq> CHR ''p''" "ISDIGIT (char_of (48 + n mod 10))"
      using digit_not_p [of "n mod 10"] by auto
    have "version_loop (dec_str n @ r) 0 b m = version_loop (char_of (48 + n mod 10) # r) (n div 10) b m"
      using 1 False by (simp add: dec)
    also have "\<dots> = version_loop r n b m"
      using d 1(2,3) digit_char [of "n mod 10"] by (simp add: Let_def)
    finally show ?thesis .
  qed
qed

lemma version_loop_ends: "ends rest \<Longrightarrow> version_loop rest v b m = Inr (rest, v, b, m)"
  by (cases rest) (auto simp: ISDIGIT_def)

lemma hd_dec_str: "0 \<le> n \<Longrightarrow> ISDIGIT (hd (dec_str n))"
  by (rule dec_str_digits [OF _ hd_in_set [OF dec_str_nonempty]])

lemma parse_version_text:
  assumes "printable s" "ends rest"
  shows "riscv_parsing_subset_version (version_text s @ rest) = Inr (rest, major_version s, minor_version s)"
proof -
  have "version_loop (version_text s @ rest) 0 True 0 =
      version_loop (CHR ''p'' # dec_str (minor_version s) @ rest) (major_version s) True 0"
    using assms(1) version_loop_dec [of "major_version s" "CHR ''p'' # dec_str (minor_version s) @ rest"]
    by (simp add: printable_def)
  also have "\<dots> = version_loop (dec_str (minor_version s) @ rest) 0 False (major_version s)"
    using assms(1) hd_dec_str [of "minor_version s"] by (simp add: printable_def)
  also have "\<dots> = Inr (rest, minor_version s, False, major_version s)"
    using assms by (simp add: version_loop_dec version_loop_ends printable_def)
  finally show ?thesis using assms(1) by (auto simp: riscv_parsing_subset_version_def printable_def)
qed

lemma version_scan_digits:
  "\<forall>c \<in> set ds. ISDIGIT c \<Longrightarrow> ds \<noteq> [] \<Longrightarrow>
     version_scan (ds @ r) any minor = rbind (version_scan r True minor) (\<lambda>n. Inr (length ds + n))"
proof (induction ds arbitrary: any)
  case (Cons d ds)
  then show ?case by (cases "ds = []") (auto simp: rbind_assoc intro!: rbind_cong)
qed simp

lemma version_scan_text:
  assumes "printable s" "n \<noteq> []" "\<not> ISDIGIT (last n)"
  shows "version_scan (rev (n @ version_text s)) False False = Inr (length (version_text s))"
proof -
  obtain c cs where n: "rev n = c # cs" using assms(2) by (cases "rev n") auto
  then have c: "\<not> ISDIGIT c" using assms(2,3) by (metis hd_rev list.sel(1))
  have maj: "\<forall>c \<in> set (rev (dec_str (major_version s))). ISDIGIT c"
    and min: "\<forall>c \<in> set (rev (dec_str (minor_version s))). ISDIGIT c"
    using assms(1) dec_str_digits by (auto simp: printable_def)
  obtain d ds where d: "rev (dec_str (major_version s)) = d # ds" "ISDIGIT d"
    using maj by (cases "rev (dec_str (major_version s))") auto
  have "version_scan (rev n) True True = Inr 0" by (simp add: n c)
  then have "version_scan (rev (dec_str (major_version s)) @ rev n) True True = Inr (length (dec_str (major_version s)))"
    by (subst version_scan_digits [OF maj]) simp_all
  moreover have "\<not> ISDIGIT (CHR ''p'')" by (simp add: ISDIGIT_def)
  ultimately have "version_scan (CHR ''p'' # rev (dec_str (major_version s)) @ rev n) True False =
      Inr (Suc (length (dec_str (major_version s))))"
    using d by simp
  then show ?thesis
    by (simp add: version_scan_digits [OF min])
qed

lemma plain_name_nonempty: "plain_name n \<Longrightarrow> n \<noteq> []"
  by (auto simp: plain_name_def riscv_recognized_prefixed_ext_def riscv_get_prefix_class_def parse_config_def)

lemma plain_name_hd: "plain_name n \<Longrightarrow> hd n \<noteq> CHR ''_''"
proof -
  assume n: "plain_name n"
  then obtain c cs where c: "n = c # cs" using plain_name_nonempty by (cases n) auto
  with n show ?thesis by (cases cs) (auto simp: plain_name_def ext_order_def)
qed

lemma recognized_not_single: "riscv_recognized_prefixed_ext n \<Longrightarrow> riscv_get_prefix_class n \<noteq> RV_ISA_CLASS_SINGLE"
  by (auto simp: riscv_recognized_prefixed_ext_def)

text \<open>Whether a text starts with a prefixed extension shows in its first character.\<close>

lemma prefix_class_hd_iff:
  "riscv_get_prefix_class p = RV_ISA_CLASS_SINGLE \<longleftrightarrow> p = [] \<or> hd p \<notin> {CHR ''z'', CHR ''s'', CHR ''x''}"
  by (cases p) (auto simp: riscv_get_prefix_class_def parse_config_def)

lemma takeWhile_item:
  assumes "CHR ''_'' \<notin> set n" "ends rest" "printable s"
  shows "takeWhile (\<lambda>c. c \<noteq> CHR ''_'') (n @ version_text s @ rest) = n @ version_text s"
proof -
  have "\<forall>c \<in> set (dec_str (major_version s)) \<union> set (dec_str (minor_version s)). ISDIGIT c"
    using assms(3) dec_str_digits by (auto simp: printable_def)
  moreover have "\<not> ISDIGIT (CHR ''_'')" by (simp add: ISDIGIT_def)
  ultimately have "CHR ''_'' \<notin> set (n @ version_text s)" using assms(1) by auto
  then have "\<forall>c \<in> set (n @ version_text s). c \<noteq> CHR ''_''" by metis
  moreover have "takeWhile (\<lambda>c. c \<noteq> CHR ''_'') rest = []" using assms(2) by (cases rest) auto
  ultimately have "takeWhile (\<lambda>c. c \<noteq> CHR ''_'') ((n @ version_text s) @ rest) = n @ version_text s"
    by (subst takeWhile_append2) auto
  then show ?thesis by (simp only: append_assoc)
qed

lemma last_butlast_nth: "2 \<le> length n \<Longrightarrow> last (butlast n) = n ! (length n - 2)"
proof (cases n rule: rev_cases)
  case (snoc m x)
  assume "2 \<le> length n"
  with snoc show ?thesis by (cases m rule: rev_cases) (auto simp: nth_append butlast_append)
qed simp

lemma ext_name_length_text:
  assumes s: "printable s" and rest: "ends rest"
  shows "ext_name_length arch (sub_name s @ version_text s @ rest) = Inr (Inr (length (sub_name s)))"
proof (cases "length (sub_name s) = 1")
  case True
  then obtain c where c: "sub_name s = [c]" by (cases "sub_name s") auto
  with s have "riscv_get_prefix_class [c] = RV_ISA_CLASS_SINGLE" "\<exists>v. ext_order [c] = Inr v \<and> 0 < v"
    by (auto simp: printable_def plain_name_def)
  moreover have "ext_order (c # t) = ext_order [c]" for t by (simp add: ext_order_def)
  ultimately show ?thesis by (auto simp: ext_name_length_def c prefix_class_hd_iff)
next
  case False
  let ?n = "sub_name s"
  have n: "riscv_recognized_prefixed_ext ?n" "CHR ''_'' \<notin> set ?n" "\<not> ISDIGIT (last ?n)"
    "\<not> (last ?n = CHR ''p'' \<and> ISDIGIT (last (butlast ?n)))"
    using s False by (auto simp: printable_def plain_name_def)
  have ne: "?n \<noteq> []" using s by (simp add: printable_def plain_name_nonempty)
  have cls: "riscv_get_prefix_class (?n @ version_text s @ rest) \<noteq> RV_ISA_CLASS_SINGLE"
    using recognized_not_single [OF n(1)] ne by (simp add: prefix_class_hd_iff)
  have last: "(?n @ version_text s @ rest) ! (length ?n - 1) = last ?n"
    using ne by (simp add: nth_append last_conv_nth)
  have butlast: "(?n @ version_text s @ rest) ! (length ?n - 2) = last (butlast ?n)" if "2 \<le> length ?n"
  proof -
    have "length ?n - 2 < length ?n" using that by linarith
    then show ?thesis by (simp only: nth_append if_True last_butlast_nth [OF that])
  qed
  have np: "\<not> (2 \<le> length ?n \<and> (?n @ version_text s @ rest) ! (length ?n - 1) = CHR ''p'' \<and>
      ISDIGIT ((?n @ version_text s @ rest) ! (length ?n - 2)))"
    using n(4) unfolding last by (intro notI) (elim conjE, simp only: butlast simp_thms)
  have len: "length (?n @ version_text s) - length (version_text s) = length ?n" by simp
  show ?thesis
    unfolding ext_name_length_def if_not_P [OF cls] Let_def takeWhile_item [OF n(2) rest s]
      version_scan_text [OF s ne n(3)] rbind_simps len if_not_P [OF np] ..
qed

lemma add_last:
  assumes "subsets_ok (K @ [s])"
  shows "riscv_add_subset K (sub_name s) (major_version s) (minor_version s) = Inr (K @ [s])"
proof -
  have K: "subsets_ok K" "wf_ext (sub_name s)" "\<forall>t \<in> set K. node_key t < node_key s"
    using assms by (auto simp: subsets_ok_append subsets_ok_Cons)
  then have "node_key s \<notin> ext_keys K" by auto
  moreover have "takeWhile (\<lambda>t. node_key t < node_key s) K = K" "dropWhile (\<lambda>t. node_key t < node_key s) K = []"
    using K(3) by (simp_all add: takeWhile_eq_all_conv)
  ultimately show ?thesis using K by (simp add: add_spec)
qed

lemma parse_one_text:
  assumes s: "printable s" and rest: "ends rest" and K: "subsets_ok (K @ [s])"
  shows "parse_one_ext arch (sub_name s @ version_text s @ rest) (rps\<lparr>subset_list := K\<rparr>) =
     Inr (Inr (rps\<lparr>subset_list := K @ [s]\<rparr>, rest))"
proof -
  let ?p = "sub_name s @ version_text s @ rest" and ?rps = "rps\<lparr>subset_list := K\<rparr>"
  have vers: "major_version s \<noteq> -1" "minor_version s \<noteq> -1" using s by (auto simp: printable_def)
  then have add: "riscv_parse_add_subset ?rps (sub_name s) (major_version s) (minor_version s) False =
      Inr (rps\<lparr>subset_list := K @ [s]\<rparr>)"
    using add_last [OF K] by (simp add: riscv_parse_add_subset_def)
  have ne: "sub_name s \<noteq> []" using s by (simp add: printable_def plain_name_nonempty)
  have cls: "riscv_get_prefix_class ?p = RV_ISA_CLASS_SINGLE \<longleftrightarrow> riscv_get_prefix_class (sub_name s) = RV_ISA_CLASS_SINGLE"
    using ne by (simp add: prefix_class_hd_iff)
  have name: "riscv_get_prefix_class (sub_name s) = RV_ISA_CLASS_SINGLE \<or> riscv_recognized_prefixed_ext (sub_name s)"
    "sub_name s \<noteq> ''g''"
    using s recognized_not_single by (auto simp: printable_def plain_name_def split: if_splits)
  have "drop (length (sub_name s)) ?p = version_text s @ rest" "take (length (sub_name s)) ?p = sub_name s"
    by simp_all
  then show ?thesis
    using ext_name_length_text [OF s rest, of arch] parse_version_text [OF s rest] add name cls rest
    by (simp add: parse_one_ext_def Let_def del: append_assoc)
qed

lemma subset_text_underline:
  assumes "printable s" "sub_name s \<noteq> ''i''" "sub_name s \<noteq> ''e''"
  shows "subset_text s = CHR ''_'' # sub_name s @ version_text s"
proof -
  obtain c cs where n: "sub_name s = c # cs"
    using assms(1) plain_name_nonempty by (cases "sub_name s") (auto simp: printable_def)
  have "strcasecmp (sub_name s) [k] \<noteq> 0" if k: "k = CHR ''i'' \<or> k = CHR ''e''" for k
  proof (cases "cs = []")
    case True
    then obtain v where "ext_order [c] = Inr v" using assms(1) n by (auto simp: printable_def plain_name_def)
    then have "\<not> ISUPPER c" by (auto simp: ext_order_def ISUPPER_def Let_def split: if_splits)
    then have "tolower c = of_char c" by (simp add: tolower_def)
    moreover have "c \<noteq> k" using assms(2,3) n True k by auto
    then have "(of_char c :: int) \<noteq> of_char k" by simp
    ultimately show ?thesis using k n True by (auto simp: tolower_def ISUPPER_def)
  next
    case False
    then have "riscv_get_prefix_class (sub_name s) \<noteq> RV_ISA_CLASS_SINGLE"
      using assms(1) n recognized_not_single by (auto simp: printable_def plain_name_def split: if_splits)
    then have "c \<in> {CHR ''z'', CHR ''s'', CHR ''x''}" by (simp add: prefix_class_hd_iff n)
    then show ?thesis using k n by (auto simp: tolower_def ISUPPER_def)
  qed
  with assms(1) show ?thesis by (simp add: subset_text_def int_str_def printable_def)
qed

lemma ends_texts:
  "\<forall>s \<in> set V. printable s \<and> sub_name s \<noteq> ''i'' \<and> sub_name s \<noteq> ''e'' \<Longrightarrow> ends after \<Longrightarrow>
     ends (concat (map subset_text V) @ after)"
  using subset_text_underline by (cases V) auto

lemma parse_texts:
  "\<forall>s \<in> set V. printable s \<and> sub_name s \<noteq> ''i'' \<and> sub_name s \<noteq> ''e'' \<Longrightarrow> subsets_ok (K @ V) \<Longrightarrow> ends after \<Longrightarrow>
     parse_ext_loop arch (concat (map subset_text V) @ after) (rps\<lparr>subset_list := K\<rparr>) =
       parse_ext_loop arch after (rps\<lparr>subset_list := K @ V\<rparr>)"
proof (induction V arbitrary: K)
  case (Cons s V)
  let ?rest = "concat (map subset_text V) @ after"
  have rest: "ends ?rest" using Cons.prems(1,3) ends_texts [of V] by simp
  have s: "printable s" and st: "subset_text s = CHR ''_'' # sub_name s @ version_text s"
    using Cons.prems(1) subset_text_underline by auto
  have K: "subsets_ok (K @ [s])" using Cons.prems(2) by (auto simp: subsets_ok_append subsets_ok_Cons)
  have ne: "sub_name s \<noteq> []" "hd (sub_name s) \<noteq> CHR ''_''"
    using s plain_name_nonempty plain_name_hd by (auto simp: printable_def)
  have "parse_ext_loop arch (concat (map subset_text (s # V)) @ after) (rps\<lparr>subset_list := K\<rparr>) =
      parse_ext_loop arch (sub_name s @ version_text s @ ?rest) (rps\<lparr>subset_list := K\<rparr>)"
    by (simp add: st)
  also have "\<dots> = parse_ext_loop arch ?rest (rps\<lparr>subset_list := K @ [s]\<rparr>)"
    using ne parse_one_text [OF s rest K, of arch rps] by (subst parse_ext_loop.simps) simp
  finally show ?case using Cons.IH [of "K @ [s]"] Cons.prems by simp
qed simp

text \<open>After the base extension nothing is printed without its underscore.\<close>

lemma ext_key_i_e: "ext_key ''e'' = (1, 0, [])" "ext_key ''i'' = (2, 0, [])"
  by code_simp+

lemma between_e_i: "ext_key ''e'' < ext_key n \<Longrightarrow> \<not> ext_key n < ext_key ''i''"
  unfolding ext_key_i_e
  by (auto simp: ext_key_def split: riscv_prefix_ext_class.splits if_splits)

lemma visible_tail:
  assumes ok: "subsets_ok (s # ss)" and s: "sub_name s = ''i'' \<or> sub_name s = ''e''" and t: "t \<in> set (arch_str_skip s ss)"
  shows "sub_name t \<noteq> ''i'' \<and> sub_name t \<noteq> ''e''"
proof -
  have above: "node_key s < node_key t" using ok t skip_subset by (auto simp: subsets_ok_Cons)
  then have ne: "sub_name t \<noteq> ''e''" using s by (auto simp: ext_key_i_e)
  have "sub_name t \<noteq> ''i''"
  proof
    assume i: "sub_name t = ''i''"
    with above s have e: "sub_name s = ''e''" by auto
    obtain u us where u: "ss = u # us" using t by (cases ss) auto
    show False
    proof (cases "sub_name u = ''i''")
      case True
      then have "t \<in> set (arch_str_skip u us)" using t e u by simp
      then have "node_key u < node_key t" using ok u skip_subset [of u us] by (auto simp: subsets_ok_Cons)
      with True i show False by simp
    next
      case False
      with i t u have "t \<in> set us" using skip_subset [of s ss] by auto
      then have "node_key s < node_key u" "node_key u < node_key t" using ok u by (auto simp: subsets_ok_Cons)
      with e i between_e_i [of "sub_name u"] show False by simp
    qed
  qed
  with ne show ?thesis by simp
qed

lemma visible_subset: "set (visible L) \<subseteq> set L"
proof (induction L rule: visible.induct)
  case (2 s ss)
  then show ?case using skip_subset [of s ss] by auto
qed simp

lemma skip_ok: "subsets_ok ss \<Longrightarrow> subsets_ok (arch_str_skip s ss)"
  by (induction s ss rule: arch_str_skip.induct) (auto simp: subsets_ok_Cons)

lemma visible_ok: "subsets_ok L \<Longrightarrow> subsets_ok (visible L)"
proof (induction L rule: visible.induct)
  case (2 s ss)
  then show ?case using skip_subset [of s ss] visible_subset [of "arch_str_skip s ss"] skip_ok [of ss s]
    by (auto simp: subsets_ok_Cons)
qed simp

lemma parse_printed:
  assumes ok: "subsets_ok L" and p: "\<forall>s \<in> set (visible L). printable s"
    and L: "L = s # ss" "sub_name s = ''i'' \<or> sub_name s = ''e''" and after: "ends after"
  shows "riscv_parse_extensions (rps\<lparr>subset_list := []\<rparr>) arch (concat (map subset_text (visible L)) @ after) =
     parse_ext_loop arch after (rps\<lparr>subset_list := visible L\<rparr>)"
proof -
  let ?V = "visible (arch_str_skip s ss)"
  have V: "visible L = s # ?V" by (simp add: L)
  have st: "subset_text s = sub_name s @ version_text s"
    using L(2) p V by (auto simp: subset_text_def int_str_def printable_def)
  have tail: "\<forall>t \<in> set ?V. printable t \<and> sub_name t \<noteq> ''i'' \<and> sub_name t \<noteq> ''e''"
    using p V visible_tail [OF ok [unfolded L(1)] L(2)] visible_subset [of "arch_str_skip s ss"] by auto
  have okV: "subsets_ok ([s] @ ?V)" using visible_ok [OF ok] V by simp
  let ?rest = "concat (map subset_text ?V) @ after"
  have rest: "ends ?rest" by (rule ends_texts [OF tail after])
  have s: "printable s" "subsets_ok ([] @ [s])" using p V okV by (auto simp: subsets_ok_Cons)
  have "parse_ext_loop arch (sub_name s @ version_text s @ ?rest) (rps\<lparr>subset_list := []\<rparr>) =
      parse_ext_loop arch ?rest (rps\<lparr>subset_list := [s]\<rparr>)"
    using L(2) parse_one_text [OF s(1) rest s(2), of arch rps] by (subst parse_ext_loop.simps) auto
  also have "\<dots> = parse_ext_loop arch after (rps\<lparr>subset_list := visible L\<rparr>)"
    using parse_texts [OF tail okV after, of arch rps] V by simp
  finally show ?thesis using L(2) by (auto simp: riscv_parse_extensions_def V st)
qed

lemma no_upper_digit: "ISDIGIT c \<Longrightarrow> \<not> ISUPPER c"
  by (simp add: ISDIGIT_def ISUPPER_def)

lemma no_upper_text:
  assumes "printable s"
  shows "\<not> list_ex ISUPPER (subset_text s)"
proof -
  have "\<not> list_ex ISUPPER (sub_name s)"
  proof (cases "length (sub_name s) = 1")
    case True
    then obtain c where "sub_name s = [c]" by (cases "sub_name s") auto
    then show ?thesis using assms
      by (auto simp: printable_def plain_name_def ext_order_def ISUPPER_def Let_def split: if_splits)
  next
    case False
    then show ?thesis using assms by (auto simp: printable_def plain_name_def)
  qed
  moreover have "\<not> list_ex ISUPPER (dec_str n)" if "0 \<le> n" for n
    using dec_str_digits [OF that] no_upper_digit by (auto simp: list_ex_iff)
  ultimately show ?thesis
    using assms by (simp add: subset_text_def int_str_def printable_def) (simp add: ISUPPER_def)
qed

lemma no_upper_texts: "\<forall>s \<in> set V. printable s \<Longrightarrow> \<not> list_ex ISUPPER (concat (map subset_text V))"
  using no_upper_text by (auto simp: list_ex_iff)

lemma xlen_text: "dec_str 32 = ''32''" "dec_str 64 = ''64''"
  by (simp_all add: dec_str.simps char_of_def)

text \<open>The printed form of a list, and how a text that begins with it is parsed.\<close>

lemma parse_printed_text:
  assumes "subsets_ok L" "\<forall>s \<in> set L. known_versions s" "\<forall>s \<in> set (visible L). printable s"
    and "L = s # ss" "sub_name s = ''i'' \<or> sub_name s = ''e''" "xlen = 32 \<or> xlen = 64"
    and "ends after" "\<not> list_ex ISUPPER after"
  shows "\<exists>t. riscv_arch_str xlen L = Inr t \<and> riscv_parse_subset (rps\<lparr>subset_list := []\<rparr>) (Some (t @ after)) =
    rbind (parse_ext_loop (t @ after) after (rps\<lparr>rps_xlen := xlen, subset_list := visible L\<rparr>))
      (\<lambda>(ok, rps'). if ok then add_implicit_and_check rps' else Inr (False, rps'))"
proof -
  let ?V = "concat (map subset_text (visible L))" and ?t = "''rv'' @ dec_str (int xlen)"
  have swap: "rps\<lparr>subset_list := A, rps_xlen := x\<rparr> = rps\<lparr>rps_xlen := x, subset_list := A\<rparr>" for A x
    by (cases rps) simp
  have print: "riscv_arch_str xlen L = Inr (?t @ ?V)"
    using printed_text [OF assms(2), of xlen] assms(6) by auto
  have t: "?t = (if xlen = 32 then ''rv32'' else ''rv64'')" using assms(6) by (auto simp: xlen_text)
  have "\<not> list_ex ISUPPER (?t @ ?V @ after)"
    using no_upper_texts [OF assms(3)] assms(8) unfolding t by (auto simp: ISUPPER_def)
  then have "riscv_parse_subset (rps\<lparr>subset_list := []\<rparr>) (Some (?t @ ?V @ after)) =
      rbind (riscv_parse_extensions (rps\<lparr>rps_xlen := xlen, subset_list := []\<rparr>) (?t @ ?V @ after) (?V @ after))
        (\<lambda>(ok, rps'). if ok then add_implicit_and_check rps' else Inr (False, rps'))"
    using assms(6) unfolding t by (auto simp: riscv_parse_subset_def swap)
  then show ?thesis
    using print parse_printed [OF assms(1,3-5,7), of "rps\<lparr>rps_xlen := xlen\<rparr>" "?t @ ?V @ after"] by simp
qed

text \<open>
  C9. Round trip: the printed form of a list in order that starts with a base extension is accepted, and the parser
  arrives at exactly the extensions that were printed, with their versions and in their order, before it
  adds the implied ones.
\<close>

theorem arch_str_round_trip:
  assumes "subsets_ok L" "\<forall>s \<in> set L. known_versions s" "\<forall>s \<in> set (visible L). printable s"
    and "L = s # ss" "sub_name s = ''i'' \<or> sub_name s = ''e''" "xlen = 32 \<or> xlen = 64"
  shows "\<exists>t. riscv_arch_str xlen L = Inr t \<and>
     riscv_parse_subset (rps\<lparr>subset_list := []\<rparr>) (Some t) =
       add_implicit_and_check (rps\<lparr>rps_xlen := xlen, subset_list := visible L\<rparr>)"
proof -
  have "ends []" by simp
  from parse_printed_text [OF assms this, of rps] show ?thesis by (simp add: parse_ext_loop.simps)
qed

definition sample_exts :: "riscv_subset list" where
  "sample_exts =
     [\<lparr>sub_name = ''i'', major_version = 2, minor_version = 1\<rparr>,
      \<lparr>sub_name = ''g'', major_version = -1, minor_version = -1\<rparr>,
      \<lparr>sub_name = ''m'', major_version = 2, minor_version = 0\<rparr>,
      \<lparr>sub_name = ''zba'', major_version = 1, minor_version = 0\<rparr>]"

lemma plain_name_code:
  "plain_name n \<longleftrightarrow>
     (if length n = 1
      then riscv_get_prefix_class n = RV_ISA_CLASS_SINGLE \<and> n \<noteq> ''g'' \<and> (case ext_order n of Inr v \<Rightarrow> 0 < v | Inl e \<Rightarrow> False)
      else riscv_recognized_prefixed_ext n \<and> CHR ''_'' \<notin> set n \<and> \<not> list_ex ISUPPER n \<and> \<not> ISDIGIT (last n) \<and>
           \<not> (last n = CHR ''p'' \<and> ISDIGIT (last (butlast n))))"
  by (auto simp: plain_name_def split: sum.splits)

declare plain_name_code [code]

lemma sample_exts_facts:
  "list_all printable (visible sample_exts)" "list_all known_versions sample_exts"
  "sorted_wrt (<) (map node_key sample_exts)" "list_all rule_name (map sub_name sample_exts)"
  by code_simp+

lemma sample_exts_ok: "subsets_ok sample_exts"
  using sample_exts_facts(3,4) by (auto simp: subsets_ok_def sorted_wrt_map list_all_iff rule_name_wf)

theorem arch_str_round_trip_witness:
  "\<exists>t. riscv_arch_str 64 sample_exts = Inr t \<and>
     riscv_parse_subset (sample_rps\<lparr>subset_list := []\<rparr>) (Some t) =
       add_implicit_and_check (sample_rps\<lparr>rps_xlen := 64, subset_list := visible sample_exts\<rparr>)"
  by (rule arch_str_round_trip [OF sample_exts_ok _ _ sample_exts_def])
    (use sample_exts_facts in \<open>auto simp: list_all_iff\<close>)

section \<open>Stray characters\<close>



end
