(* ===== verification/Opc_Table_1.thy ===== *)
theory Opc_Table_1
  imports Riscv_Opc
begin

text \<open>
  The opcode table of \<^verbatim>\<open>opcodes/riscv-opc.c\<close>, part 1 of 4 (lines 372 to 1119), entry by entry and in the
  order of the source, since the first entry that fits wins. The \<^verbatim>\<open>MATCH\<close>, \<^verbatim>\<open>MASK\<close> and \<^verbatim>\<open>INSN\<close>
  macros of an entry are written as their values.
\<close>

definition riscv_opcodes_1 :: "riscv_opcode list" where
  "riscv_opcodes_1 = [
    opc ''prefetch.i'' 0 INSN_CLASS_ZICBOP ''Wif(s)'' 0x6013 0x1f07fff (Some MF_opcode) 0,
    opc ''prefetch.r'' 0 INSN_CLASS_ZICBOP ''Wif(s)'' 0x106013 0x1f07fff (Some MF_opcode) 0,
    opc ''prefetch.w'' 0 INSN_CLASS_ZICBOP ''Wif(s)'' 0x306013 0x1f07fff (Some MF_opcode) 0,
    opc ''ntl.p1'' 0 INSN_CLASS_ZIHINTNTL_AND_C '''' 0x900a 0xffff (Some MF_opcode) 0x1,
    opc ''ntl.p1'' 0 INSN_CLASS_ZIHINTNTL '''' 0x200033 0xffffffff (Some MF_opcode) 0,
    opc ''ntl.pall'' 0 INSN_CLASS_ZIHINTNTL_AND_C '''' 0x900e 0xffff (Some MF_opcode) 0x1,
    opc ''ntl.pall'' 0 INSN_CLASS_ZIHINTNTL '''' 0x300033 0xffffffff (Some MF_opcode) 0,
    opc ''ntl.s1'' 0 INSN_CLASS_ZIHINTNTL_AND_C '''' 0x9012 0xffff (Some MF_opcode) 0x1,
    opc ''ntl.s1'' 0 INSN_CLASS_ZIHINTNTL '''' 0x400033 0xffffffff (Some MF_opcode) 0,
    opc ''ntl.all'' 0 INSN_CLASS_ZIHINTNTL_AND_C '''' 0x9016 0xffff (Some MF_opcode) 0x1,
    opc ''ntl.all'' 0 INSN_CLASS_ZIHINTNTL '''' 0x500033 0xffffffff (Some MF_opcode) 0,
    opc ''c.ntl.p1'' 0 INSN_CLASS_ZIHINTNTL_AND_C '''' 0x900a 0xffff (Some MF_opcode) 0,
    opc ''c.ntl.pall'' 0 INSN_CLASS_ZIHINTNTL_AND_C '''' 0x900e 0xffff (Some MF_opcode) 0,
    opc ''c.ntl.s1'' 0 INSN_CLASS_ZIHINTNTL_AND_C '''' 0x9012 0xffff (Some MF_opcode) 0,
    opc ''c.ntl.all'' 0 INSN_CLASS_ZIHINTNTL_AND_C '''' 0x9016 0xffff (Some MF_opcode) 0,
    opc ''pause'' 0 INSN_CLASS_ZIHINTPAUSE '''' 0x100000f 0xffffffff (Some MF_opcode) 0,
    opc ''addmod'' 0 INSN_CLASS_C ''s,t,r,l'' 0x200000b 0x600707f (Some MF_opcode) 0,
    opc ''submod'' 0 INSN_CLASS_C ''s,t,r,l'' 0x600000b 0x600707f (Some MF_opcode) 0,
    opc ''mulmod'' 0 INSN_CLASS_C ''s,t,r,l'' 0x400000b 0x600707f (Some MF_opcode) 0,
    opc ''mulimc'' 0 INSN_CLASS_C ''s,t,l'' 0x600100b 0xfe00707f (Some MF_opcode) 0,
    opc ''invmod'' 0 INSN_CLASS_C ''s,t,l'' 0x800100b 0xfe00707f (Some MF_opcode) 0,
    opc ''cmpimc'' 0 INSN_CLASS_C ''s,t,l'' 0xa00100b 0xfe00707f (Some MF_opcode) 0,
    opc ''unimp'' 0 INSN_CLASS_C '''' 0x0 0xffff (Some MF_opcode) 0x1,
    opc ''unimp'' 0 INSN_CLASS_I '''' 0xffffffffc0001073 0xffffffff (Some MF_opcode) 0,
    opc ''ebreak'' 0 INSN_CLASS_C '''' 0x9002 0xffff (Some MF_opcode) 0x1,
    opc ''ebreak'' 0 INSN_CLASS_I '''' 0x100073 0xffffffff (Some MF_opcode) 0,
    opc ''sbreak'' 0 INSN_CLASS_C '''' 0x9002 0xffff (Some MF_opcode) 0x1,
    opc ''sbreak'' 0 INSN_CLASS_I '''' 0x100073 0xffffffff (Some MF_opcode) 0x1,
    opc ''ret'' 0 INSN_CLASS_C '''' 0x8082 0xffff (Some MF_opcode) 0x3,
    opc ''ret'' 0 INSN_CLASS_I '''' 0x8067 0xffffffff (Some MF_opcode) 0x3,
    opc ''jr'' 0 INSN_CLASS_C ''d'' 0x8002 0xf07f (Some MF_rd_nonzero) 0x3,
    opc ''jr'' 0 INSN_CLASS_I ''s'' 0x67 0xfff07fff (Some MF_opcode) 0x3,
    opc ''jr'' 0 INSN_CLASS_I ''o(s)'' 0x67 0x7fff (Some MF_opcode) 0x3,
    opc ''jr'' 0 INSN_CLASS_I ''s,j'' 0x67 0x7fff (Some MF_opcode) 0x3,
    opc ''jalr'' 0 INSN_CLASS_C ''d'' 0x9002 0xf07f (Some MF_rd_nonzero) 0x7,
    opc ''jalr'' 0 INSN_CLASS_I ''s'' 0xe7 0xfff07fff (Some MF_opcode) 0x7,
    opc ''jalr'' 0 INSN_CLASS_I ''o(s)'' 0xe7 0x7fff (Some MF_opcode) 0x7,
    opc ''jalr'' 0 INSN_CLASS_I ''s,j'' 0xe7 0x7fff (Some MF_opcode) 0x7,
    opc ''jalr'' 0 INSN_CLASS_I ''d,s'' 0x67 0xfff0707f (Some MF_opcode) 0x7,
    opc ''jalr'' 0 INSN_CLASS_I ''d,o(s)'' 0x67 0x707f (Some MF_opcode) 0x6,
    opc ''jalr'' 0 INSN_CLASS_I ''d,s,1'' 0x67 0xfff0707f (Some MF_opcode) 0x6,
    opc ''jalr'' 0 INSN_CLASS_I ''d,s,j'' 0x67 0x707f (Some MF_opcode) 0x6,
    opc ''j'' 0 INSN_CLASS_C ''Ca'' 0xa001 0xe003 (Some MF_opcode) 0x3,
    opc ''j'' 0 INSN_CLASS_I ''a'' 0x6f 0xfff (Some MF_opcode) 0x3,
    opc ''jal'' 32 INSN_CLASS_C ''Ca'' 0x2001 0xe003 (Some MF_opcode) 0x7,
    opc ''jal'' 0 INSN_CLASS_I ''a'' 0xef 0xfff (Some MF_opcode) 0x7,
    opc ''jal'' 0 INSN_CLASS_I ''d,a'' 0x6f 0x7f (Some MF_opcode) 0x6,
    opc ''call'' 0 INSN_CLASS_I ''d,c'' 0x30000 0x8 None INSN_MACRO,
    opc ''call'' 0 INSN_CLASS_I ''c'' 0x8080 0x8 None INSN_MACRO,
    opc ''tail'' 0 INSN_CLASS_I ''c'' 0x30000 0x8 None INSN_MACRO,
    opc ''jump'' 0 INSN_CLASS_I ''c,s'' 0x0 0x8 (Some MF_rs1_nonzero) INSN_MACRO,
    opc ''nop'' 0 INSN_CLASS_C '''' 0x1 0xffff (Some MF_opcode) 0x1,
    opc ''nop'' 0 INSN_CLASS_I '''' 0x13 0xffffffff (Some MF_opcode) 0x1,
    opc ''lui'' 0 INSN_CLASS_C ''d,Cu'' 0x6001 0xe003 (Some MF_c_lui) 0x1,
    opc ''lui'' 0 INSN_CLASS_I ''d,u'' 0x37 0x7f (Some MF_opcode) 0,
    opc ''li'' 0 INSN_CLASS_C ''d,Cv'' 0x6001 0xe003 (Some MF_c_lui) 0x1,
    opc ''li'' 0 INSN_CLASS_C ''d,Co'' 0x4001 0xe003 (Some MF_rd_nonzero) 0x1,
    opc ''li'' 0 INSN_CLASS_I ''d,j'' 0x13 0xff07f (Some MF_opcode) 0x1,
    opc ''li'' 0 INSN_CLASS_I ''d,I'' 0x0 0xa None INSN_MACRO,
    opc ''mv'' 0 INSN_CLASS_C ''d,CV'' 0x8002 0xf003 (Some MF_c_add) 0x1,
    opc ''mv'' 0 INSN_CLASS_I ''d,s'' 0x13 0xfff0707f (Some MF_opcode) 0x1,
    opc ''move'' 0 INSN_CLASS_C ''d,CV'' 0x8002 0xf003 (Some MF_c_add) 0x1,
    opc ''move'' 0 INSN_CLASS_I ''d,s'' 0x13 0xfff0707f (Some MF_opcode) 0x1,
    opc ''zext.b'' 0 INSN_CLASS_ZCB ''Cs,Cw'' 0x9c61 0xfc7f (Some MF_opcode) 0x1,
    opc ''zext.b'' 0 INSN_CLASS_I ''d,s'' 0xff07013 0xfff0707f (Some MF_opcode) 0x1,
    opc ''andi'' 0 INSN_CLASS_ZCB ''Cs,Cw,Wcf'' 0x9c61 0xfc7f (Some MF_opcode) 0x1,
    opc ''andi'' 0 INSN_CLASS_C ''Cs,Cw,Co'' 0x8801 0xec03 (Some MF_opcode) 0x1,
    opc ''andi'' 0 INSN_CLASS_I ''d,s,j'' 0x7013 0x707f (Some MF_opcode) 0,
    opc ''and'' 0 INSN_CLASS_C ''Cs,Cw,Ct'' 0x8c61 0xfc63 (Some MF_opcode) 0x1,
    opc ''and'' 0 INSN_CLASS_C ''Cs,Ct,Cw'' 0x8c61 0xfc63 (Some MF_opcode) 0x1,
    opc ''and'' 0 INSN_CLASS_C ''Cs,Cw,Co'' 0x8801 0xec03 (Some MF_opcode) 0x1,
    opc ''and'' 0 INSN_CLASS_I ''d,s,t'' 0x7033 0xfe00707f (Some MF_opcode) 0,
    opc ''and'' 0 INSN_CLASS_I ''d,s,j'' 0x7013 0x707f (Some MF_opcode) 0x1,
    opc ''beqz'' 0 INSN_CLASS_C ''Cs,Cp'' 0xc001 0xe003 (Some MF_opcode) 0x5,
    opc ''beqz'' 0 INSN_CLASS_I ''s,p'' 0x63 0x1f0707f (Some MF_opcode) 0x5,
    opc ''beq'' 0 INSN_CLASS_C ''Cs,Cz,Cp'' 0xc001 0xe003 (Some MF_opcode) 0x5,
    opc ''beq'' 0 INSN_CLASS_I ''s,t,p'' 0x63 0x707f (Some MF_opcode) 0x4,
    opc ''blez'' 0 INSN_CLASS_I ''t,p'' 0x5063 0xff07f (Some MF_opcode) 0x5,
    opc ''bgez'' 0 INSN_CLASS_I ''s,p'' 0x5063 0x1f0707f (Some MF_opcode) 0x5,
    opc ''bge'' 0 INSN_CLASS_I ''s,t,p'' 0x5063 0x707f (Some MF_opcode) 0x4,
    opc ''bgeu'' 0 INSN_CLASS_I ''s,t,p'' 0x7063 0x707f (Some MF_opcode) 0x4,
    opc ''ble'' 0 INSN_CLASS_I ''t,s,p'' 0x5063 0x707f (Some MF_opcode) 0x5,
    opc ''bleu'' 0 INSN_CLASS_I ''t,s,p'' 0x7063 0x707f (Some MF_opcode) 0x5,
    opc ''bltz'' 0 INSN_CLASS_I ''s,p'' 0x4063 0x1f0707f (Some MF_opcode) 0x5,
    opc ''bgtz'' 0 INSN_CLASS_I ''t,p'' 0x4063 0xff07f (Some MF_opcode) 0x5,
    opc ''blt'' 0 INSN_CLASS_I ''s,t,p'' 0x4063 0x707f (Some MF_opcode) 0x4,
    opc ''bltu'' 0 INSN_CLASS_I ''s,t,p'' 0x6063 0x707f (Some MF_opcode) 0x4,
    opc ''bgt'' 0 INSN_CLASS_I ''t,s,p'' 0x4063 0x707f (Some MF_opcode) 0x5,
    opc ''bgtu'' 0 INSN_CLASS_I ''t,s,p'' 0x6063 0x707f (Some MF_opcode) 0x5,
    opc ''bnez'' 0 INSN_CLASS_C ''Cs,Cp'' 0xe001 0xe003 (Some MF_opcode) 0x5,
    opc ''bnez'' 0 INSN_CLASS_I ''s,p'' 0x1063 0x1f0707f (Some MF_opcode) 0x5,
    opc ''bne'' 0 INSN_CLASS_C ''Cs,Cz,Cp'' 0xe001 0xe003 (Some MF_opcode) 0x5,
    opc ''bne'' 0 INSN_CLASS_I ''s,t,p'' 0x1063 0x707f (Some MF_opcode) 0x4,
    opc ''addi'' 0 INSN_CLASS_C ''Ct,Cc,CK'' 0x0 0xe003 (Some MF_c_addi4spn) 0x1,
    opc ''addi'' 0 INSN_CLASS_C ''d,CU,Cj'' 0x1 0xe003 (Some MF_rd_nonzero) 0x1,
    opc ''addi'' 0 INSN_CLASS_C ''d,CU,z'' 0x1 0xf07f (Some MF_c_nop) 0x1,
    opc ''addi'' 0 INSN_CLASS_C ''Cc,Cc,CL'' 0x6101 0xef83 (Some MF_c_addi16sp) 0x1,
    opc ''addi'' 0 INSN_CLASS_C ''d,Cz,Co'' 0x4001 0xe003 (Some MF_rd_nonzero) 0x1,
    opc ''addi'' 0 INSN_CLASS_C ''d,CV,z'' 0x8002 0xf003 (Some MF_c_add) 0x1,
    opc ''addi'' 0 INSN_CLASS_I ''d,s,j'' 0x13 0x707f (Some MF_opcode) 0,
    opc ''add'' 0 INSN_CLASS_C ''d,CU,CV'' 0x9002 0xf003 (Some MF_c_add) 0x1,
    opc ''add'' 0 INSN_CLASS_C ''d,CV,CU'' 0x9002 0xf003 (Some MF_c_add) 0x1,
    opc ''add'' 0 INSN_CLASS_C ''d,CU,Co'' 0x1 0xe003 (Some MF_rd_nonzero) 0x1,
    opc ''add'' 0 INSN_CLASS_C ''Ct,Cc,CK'' 0x0 0xe003 (Some MF_c_addi4spn) 0x1,
    opc ''add'' 0 INSN_CLASS_C ''Cc,Cc,CL'' 0x6101 0xef83 (Some MF_c_addi16sp) 0x1,
    opc ''add'' 0 INSN_CLASS_C ''d,Cz,CV'' 0x8002 0xf003 (Some MF_c_add) 0x1,
    opc ''add'' 0 INSN_CLASS_I ''d,s,t'' 0x33 0xfe00707f (Some MF_opcode) 0,
    opc ''add'' 0 INSN_CLASS_I ''d,s,t,1'' 0x33 0xfe00707f (Some MF_opcode) 0,
    opc ''add'' 0 INSN_CLASS_I ''d,s,j'' 0x13 0x707f (Some MF_opcode) 0x1,
    opc ''la'' 0 INSN_CLASS_I ''d,B'' 0x0 0x0 (Some MF_rd_nonzero) INSN_MACRO,
    opc ''lla'' 0 INSN_CLASS_I ''d,B'' 0x0 0x1 None INSN_MACRO,
    opc ''lga'' 0 INSN_CLASS_I ''d,B'' 0x0 0x2 (Some MF_rd_nonzero) INSN_MACRO,
    opc ''la.tls.gd'' 0 INSN_CLASS_I ''d,A'' 0x0 0x3 None INSN_MACRO,
    opc ''la.tls.ie'' 0 INSN_CLASS_I ''d,A'' 0x0 0x4 (Some MF_rd_nonzero) INSN_MACRO,
    opc ''neg'' 0 INSN_CLASS_I ''d,t'' 0x40000033 0xfe0ff07f (Some MF_opcode) 0x1,
    opc ''slli'' 0 INSN_CLASS_C ''d,CU,C>'' 0x2 0xe003 (Some MF_slli_as_c_slli) 0x1,
    opc ''slli'' 0 INSN_CLASS_I ''d,s,>'' 0x1013 0xfc00707f (Some MF_opcode) 0,
    opc ''sll'' 0 INSN_CLASS_C ''d,CU,C>'' 0x2 0xe003 (Some MF_slli_as_c_slli) 0x1,
    opc ''sll'' 0 INSN_CLASS_I ''d,s,t'' 0x1033 0xfe00707f (Some MF_opcode) 0,
    opc ''sll'' 0 INSN_CLASS_I ''d,s,>'' 0x1013 0xfc00707f (Some MF_opcode) 0x1,
    opc ''srli'' 0 INSN_CLASS_C ''Cs,Cw,C>'' 0x8001 0xec03 (Some MF_srxi_as_c_srxi) 0x1,
    opc ''srli'' 0 INSN_CLASS_I ''d,s,>'' 0x5013 0xfc00707f (Some MF_opcode) 0,
    opc ''srl'' 0 INSN_CLASS_C ''Cs,Cw,C>'' 0x8001 0xec03 (Some MF_srxi_as_c_srxi) 0x1,
    opc ''srl'' 0 INSN_CLASS_I ''d,s,t'' 0x5033 0xfe00707f (Some MF_opcode) 0,
    opc ''srl'' 0 INSN_CLASS_I ''d,s,>'' 0x5013 0xfc00707f (Some MF_opcode) 0x1,
    opc ''srai'' 0 INSN_CLASS_C ''Cs,Cw,C>'' 0x8401 0xec03 (Some MF_srxi_as_c_srxi) 0x1,
    opc ''srai'' 0 INSN_CLASS_I ''d,s,>'' 0x40005013 0xfc00707f (Some MF_opcode) 0,
    opc ''sra'' 0 INSN_CLASS_C ''Cs,Cw,C>'' 0x8401 0xec03 (Some MF_srxi_as_c_srxi) 0x1,
    opc ''sra'' 0 INSN_CLASS_I ''d,s,t'' 0x40005033 0xfe00707f (Some MF_opcode) 0,
    opc ''sra'' 0 INSN_CLASS_I ''d,s,>'' 0x40005013 0xfc00707f (Some MF_opcode) 0x1,
    opc ''sub'' 0 INSN_CLASS_C ''Cs,Cw,Ct'' 0x8c01 0xfc63 (Some MF_opcode) 0x1,
    opc ''sub'' 0 INSN_CLASS_I ''d,s,t'' 0x40000033 0xfe00707f (Some MF_opcode) 0,
    opc ''lb'' 0 INSN_CLASS_I ''d,o(s)'' 0x3 0x707f (Some MF_opcode) 0x18,
    opc ''lb'' 0 INSN_CLASS_I ''d,A'' 0x0 0x5 (Some MF_rd_nonzero) INSN_MACRO,
    opc ''lbu'' 0 INSN_CLASS_ZCB ''Ct,Wcb(Cs)'' 0x8000 0xfc03 (Some MF_opcode) 0x19,
    opc ''lbu'' 0 INSN_CLASS_I ''d,o(s)'' 0x4003 0x707f (Some MF_opcode) 0x18,
    opc ''lbu'' 0 INSN_CLASS_I ''d,A'' 0x0 0x5 (Some MF_rd_nonzero) INSN_MACRO,
    opc ''lh'' 0 INSN_CLASS_ZCB ''Ct,Wch(Cs)'' 0x8440 0xfc43 (Some MF_opcode) 0x29,
    opc ''lh'' 0 INSN_CLASS_I ''d,o(s)'' 0x1003 0x707f (Some MF_opcode) 0x28,
    opc ''lh'' 0 INSN_CLASS_I ''d,A'' 0x0 0x5 (Some MF_rd_nonzero) INSN_MACRO,
    opc ''lhu'' 0 INSN_CLASS_ZCB ''Ct,Wch(Cs)'' 0x8400 0xfc43 (Some MF_opcode) 0x29,
    opc ''lhu'' 0 INSN_CLASS_I ''d,o(s)'' 0x5003 0x707f (Some MF_opcode) 0x28,
    opc ''lhu'' 0 INSN_CLASS_I ''d,A'' 0x0 0x5 (Some MF_rd_nonzero) INSN_MACRO]"

definition riscv_opcodes_2 :: "riscv_opcode list" where
  "riscv_opcodes_2 = [
    opc ''lw'' 0 INSN_CLASS_C ''d,Cm(Cc)'' 0x4002 0xe003 (Some MF_rd_nonzero) 0x39,
    opc ''lw'' 0 INSN_CLASS_C ''Ct,Ck(Cs)'' 0x4000 0xe003 (Some MF_opcode) 0x39,
    opc ''lw'' 0 INSN_CLASS_I ''d,o(s)'' 0x2003 0x707f (Some MF_opcode) 0x38,
    opc ''lw'' 0 INSN_CLASS_I ''d,A'' 0x0 0x5 (Some MF_rd_nonzero) INSN_MACRO,
    opc ''not'' 0 INSN_CLASS_ZCB ''Cs,Cw'' 0x9c75 0xfc7f (Some MF_opcode) 0x1,
    opc ''not'' 0 INSN_CLASS_I ''d,s'' 0xfff04013 0xfff0707f (Some MF_opcode) 0x1,
    opc ''ori'' 0 INSN_CLASS_I ''d,s,j'' 0x6013 0x707f (Some MF_opcode) 0,
    opc ''or'' 0 INSN_CLASS_I ''d,s,j'' 0x6013 0x707f (Some MF_opcode) 0x1,
    opc ''or'' 0 INSN_CLASS_C ''Cs,Cw,Ct'' 0x8c41 0xfc63 (Some MF_opcode) 0x1,
    opc ''or'' 0 INSN_CLASS_C ''Cs,Ct,Cw'' 0x8c41 0xfc63 (Some MF_opcode) 0x1,
    opc ''or'' 0 INSN_CLASS_I ''d,s,t'' 0x6033 0xfe00707f (Some MF_opcode) 0,
    opc ''auipc'' 0 INSN_CLASS_I ''d,u'' 0x17 0x7f (Some MF_opcode) 0,
    opc ''seqz'' 0 INSN_CLASS_I ''d,s'' 0x103013 0xfff0707f (Some MF_opcode) 0x1,
    opc ''snez'' 0 INSN_CLASS_I ''d,t'' 0x3033 0xfe0ff07f (Some MF_opcode) 0x1,
    opc ''sltz'' 0 INSN_CLASS_I ''d,s'' 0x2033 0xfff0707f (Some MF_opcode) 0x1,
    opc ''sgtz'' 0 INSN_CLASS_I ''d,t'' 0x2033 0xfe0ff07f (Some MF_opcode) 0x1,
    opc ''slti'' 0 INSN_CLASS_I ''d,s,j'' 0x2013 0x707f (Some MF_opcode) 0,
    opc ''slt'' 0 INSN_CLASS_I ''d,s,t'' 0x2033 0xfe00707f (Some MF_opcode) 0,
    opc ''slt'' 0 INSN_CLASS_I ''d,s,j'' 0x2013 0x707f (Some MF_opcode) 0x1,
    opc ''sltiu'' 0 INSN_CLASS_I ''d,s,j'' 0x3013 0x707f (Some MF_opcode) 0,
    opc ''sltu'' 0 INSN_CLASS_I ''d,s,t'' 0x3033 0xfe00707f (Some MF_opcode) 0,
    opc ''sltu'' 0 INSN_CLASS_I ''d,s,j'' 0x3013 0x707f (Some MF_opcode) 0x1,
    opc ''sgt'' 0 INSN_CLASS_I ''d,t,s'' 0x2033 0xfe00707f (Some MF_opcode) 0x1,
    opc ''sgtu'' 0 INSN_CLASS_I ''d,t,s'' 0x3033 0xfe00707f (Some MF_opcode) 0x1,
    opc ''sb'' 0 INSN_CLASS_ZCB ''Ct,Wcb(Cs)'' 0x8800 0xfc03 (Some MF_opcode) 0x19,
    opc ''sb'' 0 INSN_CLASS_I ''t,q(s)'' 0x23 0x707f (Some MF_opcode) 0x18,
    opc ''sb'' 0 INSN_CLASS_I ''t,A,s'' 0x0 0x7 (Some MF_rs1_nonzero) INSN_MACRO,
    opc ''sh'' 0 INSN_CLASS_ZCB ''Ct,Wch(Cs)'' 0x8c00 0xfc43 (Some MF_opcode) 0x29,
    opc ''sh'' 0 INSN_CLASS_I ''t,q(s)'' 0x1023 0x707f (Some MF_opcode) 0x28,
    opc ''sh'' 0 INSN_CLASS_I ''t,A,s'' 0x0 0x7 (Some MF_rs1_nonzero) INSN_MACRO,
    opc ''sw'' 0 INSN_CLASS_C ''CV,CM(Cc)'' 0xc002 0xe003 (Some MF_opcode) 0x39,
    opc ''sw'' 0 INSN_CLASS_C ''Ct,Ck(Cs)'' 0xc000 0xe003 (Some MF_opcode) 0x39,
    opc ''sw'' 0 INSN_CLASS_I ''t,q(s)'' 0x2023 0x707f (Some MF_opcode) 0x38,
    opc ''sw'' 0 INSN_CLASS_I ''t,A,s'' 0x0 0x7 (Some MF_rs1_nonzero) INSN_MACRO,
    opc ''fence'' 0 INSN_CLASS_I '''' 0xff0000f 0xffffffff (Some MF_opcode) 0x1,
    opc ''fence'' 0 INSN_CLASS_I ''P,Q'' 0xf 0xf00fffff (Some MF_opcode) 0,
    opc ''fence.i'' 0 INSN_CLASS_ZIFENCEI '''' 0x100f 0xffffffff (Some MF_opcode) 0,
    opc ''fence.tso'' 0 INSN_CLASS_I '''' 0x8330000f 0xffffffff (Some MF_opcode) 0,
    opc ''rdcycle'' 0 INSN_CLASS_I ''d'' 0xc0002073 0xfffff07f (Some MF_opcode) 0x1,
    opc ''rdinstret'' 0 INSN_CLASS_I ''d'' 0xc0202073 0xfffff07f (Some MF_opcode) 0x1,
    opc ''rdtime'' 0 INSN_CLASS_I ''d'' 0xc0102073 0xfffff07f (Some MF_opcode) 0x1,
    opc ''rdcycleh'' 32 INSN_CLASS_I ''d'' 0xc8002073 0xfffff07f (Some MF_opcode) 0x1,
    opc ''rdinstreth'' 32 INSN_CLASS_I ''d'' 0xc8202073 0xfffff07f (Some MF_opcode) 0x1,
    opc ''rdtimeh'' 32 INSN_CLASS_I ''d'' 0xc8102073 0xfffff07f (Some MF_opcode) 0x1,
    opc ''ecall'' 0 INSN_CLASS_I '''' 0x73 0xffffffff (Some MF_opcode) 0,
    opc ''scall'' 0 INSN_CLASS_I '''' 0x73 0xffffffff (Some MF_opcode) 0,
    opc ''xori'' 0 INSN_CLASS_I ''d,s,j'' 0x4013 0x707f (Some MF_opcode) 0,
    opc ''xor'' 0 INSN_CLASS_I ''d,s,j'' 0x4013 0x707f (Some MF_opcode) 0x1,
    opc ''xor'' 0 INSN_CLASS_C ''Cs,Cw,Ct'' 0x8c21 0xfc63 (Some MF_opcode) 0x1,
    opc ''xor'' 0 INSN_CLASS_C ''Cs,Ct,Cw'' 0x8c21 0xfc63 (Some MF_opcode) 0x1,
    opc ''xor'' 0 INSN_CLASS_I ''d,s,t'' 0x4033 0xfe00707f (Some MF_opcode) 0,
    opc ''lwu'' 64 INSN_CLASS_I ''d,o(s)'' 0x6003 0x707f (Some MF_opcode) 0x38,
    opc ''lwu'' 64 INSN_CLASS_I ''d,A'' 0x0 0x5 (Some MF_rd_nonzero) INSN_MACRO,
    opc ''ld'' 64 INSN_CLASS_C ''d,Cn(Cc)'' 0x6002 0xe003 (Some MF_rd_nonzero) 0x49,
    opc ''ld'' 64 INSN_CLASS_C ''Ct,Cl(Cs)'' 0x6000 0xe003 (Some MF_opcode) 0x49,
    opc ''ld'' 64 INSN_CLASS_I ''d,o(s)'' 0x3003 0x707f (Some MF_opcode) 0x48,
    opc ''ld'' 64 INSN_CLASS_I ''d,A'' 0x0 0x5 (Some MF_rd_nonzero) INSN_MACRO,
    opc ''sd'' 64 INSN_CLASS_C ''CV,CN(Cc)'' 0xe002 0xe003 (Some MF_opcode) 0x49,
    opc ''sd'' 64 INSN_CLASS_C ''Ct,Cl(Cs)'' 0xe000 0xe003 (Some MF_opcode) 0x49,
    opc ''sd'' 64 INSN_CLASS_I ''t,q(s)'' 0x3023 0x707f (Some MF_opcode) 0x48,
    opc ''sd'' 64 INSN_CLASS_I ''t,A,s'' 0x0 0x7 (Some MF_rs1_nonzero) INSN_MACRO,
    opc ''sext.w'' 64 INSN_CLASS_C ''d,CU'' 0x2001 0xf07f (Some MF_rd_nonzero) 0x1,
    opc ''sext.w'' 64 INSN_CLASS_I ''d,s'' 0x1b 0xfff0707f (Some MF_opcode) 0x1,
    opc ''addiw'' 64 INSN_CLASS_C ''d,CU,Co'' 0x2001 0xe003 (Some MF_rd_nonzero) 0x1,
    opc ''addiw'' 64 INSN_CLASS_I ''d,s,j'' 0x1b 0x707f (Some MF_opcode) 0,
    opc ''addw'' 64 INSN_CLASS_C ''Cs,Cw,Ct'' 0x9c21 0xfc63 (Some MF_opcode) 0x1,
    opc ''addw'' 64 INSN_CLASS_C ''Cs,Ct,Cw'' 0x9c21 0xfc63 (Some MF_opcode) 0x1,
    opc ''addw'' 64 INSN_CLASS_C ''d,CU,Co'' 0x2001 0xe003 (Some MF_rd_nonzero) 0x1,
    opc ''addw'' 64 INSN_CLASS_I ''d,s,t'' 0x3b 0xfe00707f (Some MF_opcode) 0,
    opc ''addw'' 64 INSN_CLASS_I ''d,s,j'' 0x1b 0x707f (Some MF_opcode) 0x1,
    opc ''negw'' 64 INSN_CLASS_I ''d,t'' 0x4000003b 0xfe0ff07f (Some MF_opcode) 0x1,
    opc ''slliw'' 64 INSN_CLASS_I ''d,s,<'' 0x101b 0xfe00707f (Some MF_opcode) 0,
    opc ''sllw'' 64 INSN_CLASS_I ''d,s,t'' 0x103b 0xfe00707f (Some MF_opcode) 0,
    opc ''sllw'' 64 INSN_CLASS_I ''d,s,<'' 0x101b 0xfe00707f (Some MF_opcode) 0x1,
    opc ''srliw'' 64 INSN_CLASS_I ''d,s,<'' 0x501b 0xfe00707f (Some MF_opcode) 0,
    opc ''srlw'' 64 INSN_CLASS_I ''d,s,t'' 0x503b 0xfe00707f (Some MF_opcode) 0,
    opc ''srlw'' 64 INSN_CLASS_I ''d,s,<'' 0x501b 0xfe00707f (Some MF_opcode) 0x1,
    opc ''sraiw'' 64 INSN_CLASS_I ''d,s,<'' 0x4000501b 0xfe00707f (Some MF_opcode) 0,
    opc ''sraw'' 64 INSN_CLASS_I ''d,s,t'' 0x4000503b 0xfe00707f (Some MF_opcode) 0,
    opc ''sraw'' 64 INSN_CLASS_I ''d,s,<'' 0x4000501b 0xfe00707f (Some MF_opcode) 0x1,
    opc ''subw'' 64 INSN_CLASS_C ''Cs,Cw,Ct'' 0x9c01 0xfc63 (Some MF_opcode) 0x1,
    opc ''subw'' 64 INSN_CLASS_I ''d,s,t'' 0x4000003b 0xfe00707f (Some MF_opcode) 0,
    opc ''lr.w'' 0 INSN_CLASS_ZALRSC ''d,0(s)'' 0x1000202f 0xfff0707f (Some MF_opcode) 0x38,
    opc ''sc.w'' 0 INSN_CLASS_ZALRSC ''d,t,0(s)'' 0x1800202f 0xfe00707f (Some MF_opcode) 0x38,
    opc ''amoadd.w'' 0 INSN_CLASS_ZAAMO ''d,t,0(s)'' 0x202f 0xfe00707f (Some MF_opcode) 0x38,
    opc ''amoswap.w'' 0 INSN_CLASS_ZAAMO ''d,t,0(s)'' 0x800202f 0xfe00707f (Some MF_opcode) 0x38,
    opc ''amoand.w'' 0 INSN_CLASS_ZAAMO ''d,t,0(s)'' 0x6000202f 0xfe00707f (Some MF_opcode) 0x38,
    opc ''amoor.w'' 0 INSN_CLASS_ZAAMO ''d,t,0(s)'' 0x4000202f 0xfe00707f (Some MF_opcode) 0x38,
    opc ''amoxor.w'' 0 INSN_CLASS_ZAAMO ''d,t,0(s)'' 0x2000202f 0xfe00707f (Some MF_opcode) 0x38,
    opc ''amomax.w'' 0 INSN_CLASS_ZAAMO ''d,t,0(s)'' 0xa000202f 0xfe00707f (Some MF_opcode) 0x38,
    opc ''amomaxu.w'' 0 INSN_CLASS_ZAAMO ''d,t,0(s)'' 0xe000202f 0xfe00707f (Some MF_opcode) 0x38,
    opc ''amomin.w'' 0 INSN_CLASS_ZAAMO ''d,t,0(s)'' 0x8000202f 0xfe00707f (Some MF_opcode) 0x38,
    opc ''amominu.w'' 0 INSN_CLASS_ZAAMO ''d,t,0(s)'' 0xc000202f 0xfe00707f (Some MF_opcode) 0x38,
    opc ''lr.w.aq'' 0 INSN_CLASS_ZALRSC ''d,0(s)'' 0x1400202f 0xfff0707f (Some MF_opcode) 0x38,
    opc ''sc.w.aq'' 0 INSN_CLASS_ZALRSC ''d,t,0(s)'' 0x1c00202f 0xfe00707f (Some MF_opcode) 0x38,
    opc ''amoadd.w.aq'' 0 INSN_CLASS_ZAAMO ''d,t,0(s)'' 0x400202f 0xfe00707f (Some MF_opcode) 0x38,
    opc ''amoswap.w.aq'' 0 INSN_CLASS_ZAAMO ''d,t,0(s)'' 0xc00202f 0xfe00707f (Some MF_opcode) 0x38,
    opc ''amoand.w.aq'' 0 INSN_CLASS_ZAAMO ''d,t,0(s)'' 0x6400202f 0xfe00707f (Some MF_opcode) 0x38,
    opc ''amoor.w.aq'' 0 INSN_CLASS_ZAAMO ''d,t,0(s)'' 0x4400202f 0xfe00707f (Some MF_opcode) 0x38,
    opc ''amoxor.w.aq'' 0 INSN_CLASS_ZAAMO ''d,t,0(s)'' 0x2400202f 0xfe00707f (Some MF_opcode) 0x38,
    opc ''amomax.w.aq'' 0 INSN_CLASS_ZAAMO ''d,t,0(s)'' 0xa400202f 0xfe00707f (Some MF_opcode) 0x38,
    opc ''amomaxu.w.aq'' 0 INSN_CLASS_ZAAMO ''d,t,0(s)'' 0xe400202f 0xfe00707f (Some MF_opcode) 0x38,
    opc ''amomin.w.aq'' 0 INSN_CLASS_ZAAMO ''d,t,0(s)'' 0x8400202f 0xfe00707f (Some MF_opcode) 0x38,
    opc ''amominu.w.aq'' 0 INSN_CLASS_ZAAMO ''d,t,0(s)'' 0xc400202f 0xfe00707f (Some MF_opcode) 0x38,
    opc ''lr.w.rl'' 0 INSN_CLASS_ZALRSC ''d,0(s)'' 0x1200202f 0xfff0707f (Some MF_opcode) 0x38,
    opc ''sc.w.rl'' 0 INSN_CLASS_ZALRSC ''d,t,0(s)'' 0x1a00202f 0xfe00707f (Some MF_opcode) 0x38,
    opc ''amoadd.w.rl'' 0 INSN_CLASS_ZAAMO ''d,t,0(s)'' 0x200202f 0xfe00707f (Some MF_opcode) 0x38,
    opc ''amoswap.w.rl'' 0 INSN_CLASS_ZAAMO ''d,t,0(s)'' 0xa00202f 0xfe00707f (Some MF_opcode) 0x38,
    opc ''amoand.w.rl'' 0 INSN_CLASS_ZAAMO ''d,t,0(s)'' 0x6200202f 0xfe00707f (Some MF_opcode) 0x38,
    opc ''amoor.w.rl'' 0 INSN_CLASS_ZAAMO ''d,t,0(s)'' 0x4200202f 0xfe00707f (Some MF_opcode) 0x38,
    opc ''amoxor.w.rl'' 0 INSN_CLASS_ZAAMO ''d,t,0(s)'' 0x2200202f 0xfe00707f (Some MF_opcode) 0x38,
    opc ''amomax.w.rl'' 0 INSN_CLASS_ZAAMO ''d,t,0(s)'' 0xa200202f 0xfe00707f (Some MF_opcode) 0x38,
    opc ''amomaxu.w.rl'' 0 INSN_CLASS_ZAAMO ''d,t,0(s)'' 0xe200202f 0xfe00707f (Some MF_opcode) 0x38,
    opc ''amomin.w.rl'' 0 INSN_CLASS_ZAAMO ''d,t,0(s)'' 0x8200202f 0xfe00707f (Some MF_opcode) 0x38,
    opc ''amominu.w.rl'' 0 INSN_CLASS_ZAAMO ''d,t,0(s)'' 0xc200202f 0xfe00707f (Some MF_opcode) 0x38,
    opc ''lr.w.aqrl'' 0 INSN_CLASS_ZALRSC ''d,0(s)'' 0x1600202f 0xfff0707f (Some MF_opcode) 0x38,
    opc ''sc.w.aqrl'' 0 INSN_CLASS_ZALRSC ''d,t,0(s)'' 0x1e00202f 0xfe00707f (Some MF_opcode) 0x38,
    opc ''amoadd.w.aqrl'' 0 INSN_CLASS_ZAAMO ''d,t,0(s)'' 0x600202f 0xfe00707f (Some MF_opcode) 0x38,
    opc ''amoswap.w.aqrl'' 0 INSN_CLASS_ZAAMO ''d,t,0(s)'' 0xe00202f 0xfe00707f (Some MF_opcode) 0x38,
    opc ''amoand.w.aqrl'' 0 INSN_CLASS_ZAAMO ''d,t,0(s)'' 0x6600202f 0xfe00707f (Some MF_opcode) 0x38,
    opc ''amoor.w.aqrl'' 0 INSN_CLASS_ZAAMO ''d,t,0(s)'' 0x4600202f 0xfe00707f (Some MF_opcode) 0x38,
    opc ''amoxor.w.aqrl'' 0 INSN_CLASS_ZAAMO ''d,t,0(s)'' 0x2600202f 0xfe00707f (Some MF_opcode) 0x38,
    opc ''amomax.w.aqrl'' 0 INSN_CLASS_ZAAMO ''d,t,0(s)'' 0xa600202f 0xfe00707f (Some MF_opcode) 0x38,
    opc ''amomaxu.w.aqrl'' 0 INSN_CLASS_ZAAMO ''d,t,0(s)'' 0xe600202f 0xfe00707f (Some MF_opcode) 0x38,
    opc ''amomin.w.aqrl'' 0 INSN_CLASS_ZAAMO ''d,t,0(s)'' 0x8600202f 0xfe00707f (Some MF_opcode) 0x38,
    opc ''amominu.w.aqrl'' 0 INSN_CLASS_ZAAMO ''d,t,0(s)'' 0xc600202f 0xfe00707f (Some MF_opcode) 0x38,
    opc ''lr.d'' 64 INSN_CLASS_ZALRSC ''d,0(s)'' 0x1000302f 0xfff0707f (Some MF_opcode) 0x48,
    opc ''sc.d'' 64 INSN_CLASS_ZALRSC ''d,t,0(s)'' 0x1800302f 0xfe00707f (Some MF_opcode) 0x48,
    opc ''amoadd.d'' 64 INSN_CLASS_ZAAMO ''d,t,0(s)'' 0x302f 0xfe00707f (Some MF_opcode) 0x48,
    opc ''amoswap.d'' 64 INSN_CLASS_ZAAMO ''d,t,0(s)'' 0x800302f 0xfe00707f (Some MF_opcode) 0x48,
    opc ''amoand.d'' 64 INSN_CLASS_ZAAMO ''d,t,0(s)'' 0x6000302f 0xfe00707f (Some MF_opcode) 0x48,
    opc ''amoor.d'' 64 INSN_CLASS_ZAAMO ''d,t,0(s)'' 0x4000302f 0xfe00707f (Some MF_opcode) 0x48,
    opc ''amoxor.d'' 64 INSN_CLASS_ZAAMO ''d,t,0(s)'' 0x2000302f 0xfe00707f (Some MF_opcode) 0x48,
    opc ''amomax.d'' 64 INSN_CLASS_ZAAMO ''d,t,0(s)'' 0xa000302f 0xfe00707f (Some MF_opcode) 0x48,
    opc ''amomaxu.d'' 64 INSN_CLASS_ZAAMO ''d,t,0(s)'' 0xe000302f 0xfe00707f (Some MF_opcode) 0x48,
    opc ''amomin.d'' 64 INSN_CLASS_ZAAMO ''d,t,0(s)'' 0x8000302f 0xfe00707f (Some MF_opcode) 0x48,
    opc ''amominu.d'' 64 INSN_CLASS_ZAAMO ''d,t,0(s)'' 0xc000302f 0xfe00707f (Some MF_opcode) 0x48,
    opc ''lr.d.aq'' 64 INSN_CLASS_ZALRSC ''d,0(s)'' 0x1400302f 0xfff0707f (Some MF_opcode) 0x48,
    opc ''sc.d.aq'' 64 INSN_CLASS_ZALRSC ''d,t,0(s)'' 0x1c00302f 0xfe00707f (Some MF_opcode) 0x48,
    opc ''amoadd.d.aq'' 64 INSN_CLASS_ZAAMO ''d,t,0(s)'' 0x400302f 0xfe00707f (Some MF_opcode) 0x48,
    opc ''amoswap.d.aq'' 64 INSN_CLASS_ZAAMO ''d,t,0(s)'' 0xc00302f 0xfe00707f (Some MF_opcode) 0x48,
    opc ''amoand.d.aq'' 64 INSN_CLASS_ZAAMO ''d,t,0(s)'' 0x6400302f 0xfe00707f (Some MF_opcode) 0x48,
    opc ''amoor.d.aq'' 64 INSN_CLASS_ZAAMO ''d,t,0(s)'' 0x4400302f 0xfe00707f (Some MF_opcode) 0x48,
    opc ''amoxor.d.aq'' 64 INSN_CLASS_ZAAMO ''d,t,0(s)'' 0x2400302f 0xfe00707f (Some MF_opcode) 0x48,
    opc ''amomax.d.aq'' 64 INSN_CLASS_ZAAMO ''d,t,0(s)'' 0xa400302f 0xfe00707f (Some MF_opcode) 0x48,
    opc ''amomaxu.d.aq'' 64 INSN_CLASS_ZAAMO ''d,t,0(s)'' 0xe400302f 0xfe00707f (Some MF_opcode) 0x48,
    opc ''amomin.d.aq'' 64 INSN_CLASS_ZAAMO ''d,t,0(s)'' 0x8400302f 0xfe00707f (Some MF_opcode) 0x48,
    opc ''amominu.d.aq'' 64 INSN_CLASS_ZAAMO ''d,t,0(s)'' 0xc400302f 0xfe00707f (Some MF_opcode) 0x48]"

definition riscv_opcodes_3 :: "riscv_opcode list" where
  "riscv_opcodes_3 = [
    opc ''lr.d.rl'' 64 INSN_CLASS_ZALRSC ''d,0(s)'' 0x1200302f 0xfff0707f (Some MF_opcode) 0x48,
    opc ''sc.d.rl'' 64 INSN_CLASS_ZALRSC ''d,t,0(s)'' 0x1a00302f 0xfe00707f (Some MF_opcode) 0x48,
    opc ''amoadd.d.rl'' 64 INSN_CLASS_ZAAMO ''d,t,0(s)'' 0x200302f 0xfe00707f (Some MF_opcode) 0x48,
    opc ''amoswap.d.rl'' 64 INSN_CLASS_ZAAMO ''d,t,0(s)'' 0xa00302f 0xfe00707f (Some MF_opcode) 0x48,
    opc ''amoand.d.rl'' 64 INSN_CLASS_ZAAMO ''d,t,0(s)'' 0x6200302f 0xfe00707f (Some MF_opcode) 0x48,
    opc ''amoor.d.rl'' 64 INSN_CLASS_ZAAMO ''d,t,0(s)'' 0x4200302f 0xfe00707f (Some MF_opcode) 0x48,
    opc ''amoxor.d.rl'' 64 INSN_CLASS_ZAAMO ''d,t,0(s)'' 0x2200302f 0xfe00707f (Some MF_opcode) 0x48,
    opc ''amomax.d.rl'' 64 INSN_CLASS_ZAAMO ''d,t,0(s)'' 0xa200302f 0xfe00707f (Some MF_opcode) 0x48,
    opc ''amomaxu.d.rl'' 64 INSN_CLASS_ZAAMO ''d,t,0(s)'' 0xe200302f 0xfe00707f (Some MF_opcode) 0x48,
    opc ''amomin.d.rl'' 64 INSN_CLASS_ZAAMO ''d,t,0(s)'' 0x8200302f 0xfe00707f (Some MF_opcode) 0x48,
    opc ''amominu.d.rl'' 64 INSN_CLASS_ZAAMO ''d,t,0(s)'' 0xc200302f 0xfe00707f (Some MF_opcode) 0x48,
    opc ''lr.d.aqrl'' 64 INSN_CLASS_ZALRSC ''d,0(s)'' 0x1600302f 0xfff0707f (Some MF_opcode) 0x48,
    opc ''sc.d.aqrl'' 64 INSN_CLASS_ZALRSC ''d,t,0(s)'' 0x1e00302f 0xfe00707f (Some MF_opcode) 0x48,
    opc ''amoadd.d.aqrl'' 64 INSN_CLASS_ZAAMO ''d,t,0(s)'' 0x600302f 0xfe00707f (Some MF_opcode) 0x48,
    opc ''amoswap.d.aqrl'' 64 INSN_CLASS_ZAAMO ''d,t,0(s)'' 0xe00302f 0xfe00707f (Some MF_opcode) 0x48,
    opc ''amoand.d.aqrl'' 64 INSN_CLASS_ZAAMO ''d,t,0(s)'' 0x6600302f 0xfe00707f (Some MF_opcode) 0x48,
    opc ''amoor.d.aqrl'' 64 INSN_CLASS_ZAAMO ''d,t,0(s)'' 0x4600302f 0xfe00707f (Some MF_opcode) 0x48,
    opc ''amoxor.d.aqrl'' 64 INSN_CLASS_ZAAMO ''d,t,0(s)'' 0x2600302f 0xfe00707f (Some MF_opcode) 0x48,
    opc ''amomax.d.aqrl'' 64 INSN_CLASS_ZAAMO ''d,t,0(s)'' 0xa600302f 0xfe00707f (Some MF_opcode) 0x48,
    opc ''amomaxu.d.aqrl'' 64 INSN_CLASS_ZAAMO ''d,t,0(s)'' 0xe600302f 0xfe00707f (Some MF_opcode) 0x48,
    opc ''amomin.d.aqrl'' 64 INSN_CLASS_ZAAMO ''d,t,0(s)'' 0x8600302f 0xfe00707f (Some MF_opcode) 0x48,
    opc ''amominu.d.aqrl'' 64 INSN_CLASS_ZAAMO ''d,t,0(s)'' 0xc600302f 0xfe00707f (Some MF_opcode) 0x48,
    opc ''amoadd.b'' 0 INSN_CLASS_ZABHA ''d,t,0(s)'' 0x2f 0xfe00707f (Some MF_opcode) 0x18,
    opc ''amoswap.b'' 0 INSN_CLASS_ZABHA ''d,t,0(s)'' 0x800002f 0xfe00707f (Some MF_opcode) 0x18,
    opc ''amoand.b'' 0 INSN_CLASS_ZABHA ''d,t,0(s)'' 0x6000002f 0xfe00707f (Some MF_opcode) 0x18,
    opc ''amoor.b'' 0 INSN_CLASS_ZABHA ''d,t,0(s)'' 0x4000002f 0xfe00707f (Some MF_opcode) 0x18,
    opc ''amoxor.b'' 0 INSN_CLASS_ZABHA ''d,t,0(s)'' 0x2000002f 0xfe00707f (Some MF_opcode) 0x18,
    opc ''amomax.b'' 0 INSN_CLASS_ZABHA ''d,t,0(s)'' 0xa000002f 0xfe00707f (Some MF_opcode) 0x18,
    opc ''amomaxu.b'' 0 INSN_CLASS_ZABHA ''d,t,0(s)'' 0xe000002f 0xfe00707f (Some MF_opcode) 0x18,
    opc ''amomin.b'' 0 INSN_CLASS_ZABHA ''d,t,0(s)'' 0x8000002f 0xfe00707f (Some MF_opcode) 0x18,
    opc ''amominu.b'' 0 INSN_CLASS_ZABHA ''d,t,0(s)'' 0xc000002f 0xfe00707f (Some MF_opcode) 0x18,
    opc ''amocas.b'' 0 INSN_CLASS_ZABHA_AND_ZACAS ''d,t,0(s)'' 0x2800002f 0xfe00707f (Some MF_opcode) 0x18,
    opc ''amoadd.b.aq'' 0 INSN_CLASS_ZABHA ''d,t,0(s)'' 0x400002f 0xfe00707f (Some MF_opcode) 0x18,
    opc ''amoswap.b.aq'' 0 INSN_CLASS_ZABHA ''d,t,0(s)'' 0xc00002f 0xfe00707f (Some MF_opcode) 0x18,
    opc ''amoand.b.aq'' 0 INSN_CLASS_ZABHA ''d,t,0(s)'' 0x6400002f 0xfe00707f (Some MF_opcode) 0x18,
    opc ''amoor.b.aq'' 0 INSN_CLASS_ZABHA ''d,t,0(s)'' 0x4400002f 0xfe00707f (Some MF_opcode) 0x18,
    opc ''amoxor.b.aq'' 0 INSN_CLASS_ZABHA ''d,t,0(s)'' 0x2400002f 0xfe00707f (Some MF_opcode) 0x18,
    opc ''amomax.b.aq'' 0 INSN_CLASS_ZABHA ''d,t,0(s)'' 0xa400002f 0xfe00707f (Some MF_opcode) 0x18,
    opc ''amomaxu.b.aq'' 0 INSN_CLASS_ZABHA ''d,t,0(s)'' 0xe400002f 0xfe00707f (Some MF_opcode) 0x18,
    opc ''amomin.b.aq'' 0 INSN_CLASS_ZABHA ''d,t,0(s)'' 0x8400002f 0xfe00707f (Some MF_opcode) 0x18,
    opc ''amominu.b.aq'' 0 INSN_CLASS_ZABHA ''d,t,0(s)'' 0xc400002f 0xfe00707f (Some MF_opcode) 0x18,
    opc ''amocas.b.aq'' 0 INSN_CLASS_ZABHA_AND_ZACAS ''d,t,0(s)'' 0x2c00002f 0xfe00707f (Some MF_opcode) 0x18,
    opc ''amoadd.b.rl'' 0 INSN_CLASS_ZABHA ''d,t,0(s)'' 0x200002f 0xfe00707f (Some MF_opcode) 0x18,
    opc ''amoswap.b.rl'' 0 INSN_CLASS_ZABHA ''d,t,0(s)'' 0xa00002f 0xfe00707f (Some MF_opcode) 0x18,
    opc ''amoand.b.rl'' 0 INSN_CLASS_ZABHA ''d,t,0(s)'' 0x6200002f 0xfe00707f (Some MF_opcode) 0x18,
    opc ''amoor.b.rl'' 0 INSN_CLASS_ZABHA ''d,t,0(s)'' 0x4200002f 0xfe00707f (Some MF_opcode) 0x18,
    opc ''amoxor.b.rl'' 0 INSN_CLASS_ZABHA ''d,t,0(s)'' 0x2200002f 0xfe00707f (Some MF_opcode) 0x18,
    opc ''amomax.b.rl'' 0 INSN_CLASS_ZABHA ''d,t,0(s)'' 0xa200002f 0xfe00707f (Some MF_opcode) 0x18,
    opc ''amomaxu.b.rl'' 0 INSN_CLASS_ZABHA ''d,t,0(s)'' 0xe200002f 0xfe00707f (Some MF_opcode) 0x18,
    opc ''amomin.b.rl'' 0 INSN_CLASS_ZABHA ''d,t,0(s)'' 0x8200002f 0xfe00707f (Some MF_opcode) 0x18,
    opc ''amominu.b.rl'' 0 INSN_CLASS_ZABHA ''d,t,0(s)'' 0xc200002f 0xfe00707f (Some MF_opcode) 0x18,
    opc ''amocas.b.rl'' 0 INSN_CLASS_ZABHA_AND_ZACAS ''d,t,0(s)'' 0x2a00002f 0xfe00707f (Some MF_opcode) 0x18,
    opc ''amoadd.b.aqrl'' 0 INSN_CLASS_ZABHA ''d,t,0(s)'' 0x600002f 0xfe00707f (Some MF_opcode) 0x18,
    opc ''amoswap.b.aqrl'' 0 INSN_CLASS_ZABHA ''d,t,0(s)'' 0xe00002f 0xfe00707f (Some MF_opcode) 0x18,
    opc ''amoand.b.aqrl'' 0 INSN_CLASS_ZABHA ''d,t,0(s)'' 0x6600002f 0xfe00707f (Some MF_opcode) 0x18,
    opc ''amoor.b.aqrl'' 0 INSN_CLASS_ZABHA ''d,t,0(s)'' 0x4600002f 0xfe00707f (Some MF_opcode) 0x18,
    opc ''amoxor.b.aqrl'' 0 INSN_CLASS_ZABHA ''d,t,0(s)'' 0x2600002f 0xfe00707f (Some MF_opcode) 0x18,
    opc ''amomax.b.aqrl'' 0 INSN_CLASS_ZABHA ''d,t,0(s)'' 0xa600002f 0xfe00707f (Some MF_opcode) 0x18,
    opc ''amomaxu.b.aqrl'' 0 INSN_CLASS_ZABHA ''d,t,0(s)'' 0xe600002f 0xfe00707f (Some MF_opcode) 0x18,
    opc ''amomin.b.aqrl'' 0 INSN_CLASS_ZABHA ''d,t,0(s)'' 0x8600002f 0xfe00707f (Some MF_opcode) 0x18,
    opc ''amominu.b.aqrl'' 0 INSN_CLASS_ZABHA ''d,t,0(s)'' 0xc600002f 0xfe00707f (Some MF_opcode) 0x18,
    opc ''amocas.b.aqrl'' 0 INSN_CLASS_ZABHA_AND_ZACAS ''d,t,0(s)'' 0x2e00002f 0xfe00707f (Some MF_opcode) 0x18,
    opc ''amoadd.h'' 0 INSN_CLASS_ZABHA ''d,t,0(s)'' 0x102f 0xfe00707f (Some MF_opcode) 0x28,
    opc ''amoswap.h'' 0 INSN_CLASS_ZABHA ''d,t,0(s)'' 0x800102f 0xfe00707f (Some MF_opcode) 0x28,
    opc ''amoand.h'' 0 INSN_CLASS_ZABHA ''d,t,0(s)'' 0x6000102f 0xfe00707f (Some MF_opcode) 0x28,
    opc ''amoor.h'' 0 INSN_CLASS_ZABHA ''d,t,0(s)'' 0x4000102f 0xfe00707f (Some MF_opcode) 0x28,
    opc ''amoxor.h'' 0 INSN_CLASS_ZABHA ''d,t,0(s)'' 0x2000102f 0xfe00707f (Some MF_opcode) 0x28,
    opc ''amomax.h'' 0 INSN_CLASS_ZABHA ''d,t,0(s)'' 0xa000102f 0xfe00707f (Some MF_opcode) 0x28,
    opc ''amomaxu.h'' 0 INSN_CLASS_ZABHA ''d,t,0(s)'' 0xe000102f 0xfe00707f (Some MF_opcode) 0x28,
    opc ''amomin.h'' 0 INSN_CLASS_ZABHA ''d,t,0(s)'' 0x8000102f 0xfe00707f (Some MF_opcode) 0x28,
    opc ''amominu.h'' 0 INSN_CLASS_ZABHA ''d,t,0(s)'' 0xc000102f 0xfe00707f (Some MF_opcode) 0x28,
    opc ''amocas.h'' 0 INSN_CLASS_ZABHA_AND_ZACAS ''d,t,0(s)'' 0x2800102f 0xfe00707f (Some MF_opcode) 0x28,
    opc ''amoadd.h.aq'' 0 INSN_CLASS_ZABHA ''d,t,0(s)'' 0x400102f 0xfe00707f (Some MF_opcode) 0x28,
    opc ''amoswap.h.aq'' 0 INSN_CLASS_ZABHA ''d,t,0(s)'' 0xc00102f 0xfe00707f (Some MF_opcode) 0x28,
    opc ''amoand.h.aq'' 0 INSN_CLASS_ZABHA ''d,t,0(s)'' 0x6400102f 0xfe00707f (Some MF_opcode) 0x28,
    opc ''amoor.h.aq'' 0 INSN_CLASS_ZABHA ''d,t,0(s)'' 0x4400102f 0xfe00707f (Some MF_opcode) 0x28,
    opc ''amoxor.h.aq'' 0 INSN_CLASS_ZABHA ''d,t,0(s)'' 0x2400102f 0xfe00707f (Some MF_opcode) 0x28,
    opc ''amomax.h.aq'' 0 INSN_CLASS_ZABHA ''d,t,0(s)'' 0xa400102f 0xfe00707f (Some MF_opcode) 0x28,
    opc ''amomaxu.h.aq'' 0 INSN_CLASS_ZABHA ''d,t,0(s)'' 0xe400102f 0xfe00707f (Some MF_opcode) 0x28,
    opc ''amomin.h.aq'' 0 INSN_CLASS_ZABHA ''d,t,0(s)'' 0x8400102f 0xfe00707f (Some MF_opcode) 0x28,
    opc ''amominu.h.aq'' 0 INSN_CLASS_ZABHA ''d,t,0(s)'' 0xc400102f 0xfe00707f (Some MF_opcode) 0x28,
    opc ''amocas.h.aq'' 0 INSN_CLASS_ZABHA_AND_ZACAS ''d,t,0(s)'' 0x2c00102f 0xfe00707f (Some MF_opcode) 0x28,
    opc ''amoadd.h.rl'' 0 INSN_CLASS_ZABHA ''d,t,0(s)'' 0x200102f 0xfe00707f (Some MF_opcode) 0x28,
    opc ''amoswap.h.rl'' 0 INSN_CLASS_ZABHA ''d,t,0(s)'' 0xa00102f 0xfe00707f (Some MF_opcode) 0x28,
    opc ''amoand.h.rl'' 0 INSN_CLASS_ZABHA ''d,t,0(s)'' 0x6200102f 0xfe00707f (Some MF_opcode) 0x28,
    opc ''amoor.h.rl'' 0 INSN_CLASS_ZABHA ''d,t,0(s)'' 0x4200102f 0xfe00707f (Some MF_opcode) 0x28,
    opc ''amoxor.h.rl'' 0 INSN_CLASS_ZABHA ''d,t,0(s)'' 0x2200102f 0xfe00707f (Some MF_opcode) 0x28,
    opc ''amomax.h.rl'' 0 INSN_CLASS_ZABHA ''d,t,0(s)'' 0xa200102f 0xfe00707f (Some MF_opcode) 0x28,
    opc ''amomaxu.h.rl'' 0 INSN_CLASS_ZABHA ''d,t,0(s)'' 0xe200102f 0xfe00707f (Some MF_opcode) 0x28,
    opc ''amomin.h.rl'' 0 INSN_CLASS_ZABHA ''d,t,0(s)'' 0x8200102f 0xfe00707f (Some MF_opcode) 0x28,
    opc ''amominu.h.rl'' 0 INSN_CLASS_ZABHA ''d,t,0(s)'' 0xc200102f 0xfe00707f (Some MF_opcode) 0x28,
    opc ''amocas.h.rl'' 0 INSN_CLASS_ZABHA_AND_ZACAS ''d,t,0(s)'' 0x2a00102f 0xfe00707f (Some MF_opcode) 0x28,
    opc ''amoadd.h.aqrl'' 0 INSN_CLASS_ZABHA ''d,t,0(s)'' 0x600102f 0xfe00707f (Some MF_opcode) 0x28,
    opc ''amoswap.h.aqrl'' 0 INSN_CLASS_ZABHA ''d,t,0(s)'' 0xe00102f 0xfe00707f (Some MF_opcode) 0x28,
    opc ''amoand.h.aqrl'' 0 INSN_CLASS_ZABHA ''d,t,0(s)'' 0x6600102f 0xfe00707f (Some MF_opcode) 0x28,
    opc ''amoor.h.aqrl'' 0 INSN_CLASS_ZABHA ''d,t,0(s)'' 0x4600102f 0xfe00707f (Some MF_opcode) 0x28,
    opc ''amoxor.h.aqrl'' 0 INSN_CLASS_ZABHA ''d,t,0(s)'' 0x2600102f 0xfe00707f (Some MF_opcode) 0x28,
    opc ''amomax.h.aqrl'' 0 INSN_CLASS_ZABHA ''d,t,0(s)'' 0xa600102f 0xfe00707f (Some MF_opcode) 0x28,
    opc ''amomaxu.h.aqrl'' 0 INSN_CLASS_ZABHA ''d,t,0(s)'' 0xe600102f 0xfe00707f (Some MF_opcode) 0x28,
    opc ''amomin.h.aqrl'' 0 INSN_CLASS_ZABHA ''d,t,0(s)'' 0x8600102f 0xfe00707f (Some MF_opcode) 0x28,
    opc ''amominu.h.aqrl'' 0 INSN_CLASS_ZABHA ''d,t,0(s)'' 0xc600102f 0xfe00707f (Some MF_opcode) 0x28,
    opc ''amocas.h.aqrl'' 0 INSN_CLASS_ZABHA_AND_ZACAS ''d,t,0(s)'' 0x2e00102f 0xfe00707f (Some MF_opcode) 0x28,
    opc ''amocas.w'' 0 INSN_CLASS_ZACAS ''d,t,0(s)'' 0x2800202f 0xfe00707f (Some MF_opcode) 0x38,
    opc ''amocas.d'' 32 INSN_CLASS_ZACAS ''d,t,0(s)'' 0x2800302f 0xfe00707f (Some MF_rs2_rd_even) 0x48,
    opc ''amocas.d'' 64 INSN_CLASS_ZACAS ''d,t,0(s)'' 0x2800302f 0xfe00707f (Some MF_opcode) 0x48,
    opc ''amocas.q'' 64 INSN_CLASS_ZACAS ''d,t,0(s)'' 0x2800402f 0xfe00707f (Some MF_rs2_rd_even) 0x58,
    opc ''amocas.w.aq'' 0 INSN_CLASS_ZACAS ''d,t,0(s)'' 0x2c00202f 0xfe00707f (Some MF_opcode) 0x38,
    opc ''amocas.d.aq'' 32 INSN_CLASS_ZACAS ''d,t,0(s)'' 0x2c00302f 0xfe00707f (Some MF_rs2_rd_even) 0x48,
    opc ''amocas.d.aq'' 64 INSN_CLASS_ZACAS ''d,t,0(s)'' 0x2c00302f 0xfe00707f (Some MF_opcode) 0x48,
    opc ''amocas.q.aq'' 64 INSN_CLASS_ZACAS ''d,t,0(s)'' 0x2c00402f 0xfe00707f (Some MF_rs2_rd_even) 0x58,
    opc ''amocas.w.rl'' 0 INSN_CLASS_ZACAS ''d,t,0(s)'' 0x2a00202f 0xfe00707f (Some MF_opcode) 0x38,
    opc ''amocas.d.rl'' 32 INSN_CLASS_ZACAS ''d,t,0(s)'' 0x2a00302f 0xfe00707f (Some MF_rs2_rd_even) 0x48,
    opc ''amocas.d.rl'' 64 INSN_CLASS_ZACAS ''d,t,0(s)'' 0x2a00302f 0xfe00707f (Some MF_opcode) 0x48,
    opc ''amocas.q.rl'' 64 INSN_CLASS_ZACAS ''d,t,0(s)'' 0x2a00402f 0xfe00707f (Some MF_rs2_rd_even) 0x58,
    opc ''amocas.w.aqrl'' 0 INSN_CLASS_ZACAS ''d,t,0(s)'' 0x2e00202f 0xfe00707f (Some MF_opcode) 0x38,
    opc ''amocas.d.aqrl'' 32 INSN_CLASS_ZACAS ''d,t,0(s)'' 0x2e00302f 0xfe00707f (Some MF_rs2_rd_even) 0x48,
    opc ''amocas.d.aqrl'' 64 INSN_CLASS_ZACAS ''d,t,0(s)'' 0x2e00302f 0xfe00707f (Some MF_opcode) 0x48,
    opc ''amocas.q.aqrl'' 64 INSN_CLASS_ZACAS ''d,t,0(s)'' 0x2e00402f 0xfe00707f (Some MF_rs2_rd_even) 0x58,
    opc ''mul'' 0 INSN_CLASS_ZCB_AND_ZMMUL ''Cs,Cw,Ct'' 0x9c41 0xfc63 (Some MF_opcode) 0x1,
    opc ''mul'' 0 INSN_CLASS_ZMMUL ''d,s,t'' 0x2000033 0xfe00707f (Some MF_opcode) 0,
    opc ''mulh'' 0 INSN_CLASS_ZMMUL ''d,s,t'' 0x2001033 0xfe00707f (Some MF_opcode) 0,
    opc ''mulhu'' 0 INSN_CLASS_ZMMUL ''d,s,t'' 0x2003033 0xfe00707f (Some MF_opcode) 0,
    opc ''mulhsu'' 0 INSN_CLASS_ZMMUL ''d,s,t'' 0x2002033 0xfe00707f (Some MF_opcode) 0,
    opc ''div'' 0 INSN_CLASS_M ''d,s,t'' 0x2004033 0xfe00707f (Some MF_opcode) 0,
    opc ''divu'' 0 INSN_CLASS_M ''d,s,t'' 0x2005033 0xfe00707f (Some MF_opcode) 0,
    opc ''rem'' 0 INSN_CLASS_M ''d,s,t'' 0x2006033 0xfe00707f (Some MF_opcode) 0,
    opc ''remu'' 0 INSN_CLASS_M ''d,s,t'' 0x2007033 0xfe00707f (Some MF_opcode) 0,
    opc ''mulw'' 64 INSN_CLASS_ZMMUL ''d,s,t'' 0x200003b 0xfe00707f (Some MF_opcode) 0,
    opc ''divw'' 64 INSN_CLASS_M ''d,s,t'' 0x200403b 0xfe00707f (Some MF_opcode) 0,
    opc ''divuw'' 64 INSN_CLASS_M ''d,s,t'' 0x200503b 0xfe00707f (Some MF_opcode) 0,
    opc ''remw'' 64 INSN_CLASS_M ''d,s,t'' 0x200603b 0xfe00707f (Some MF_opcode) 0,
    opc ''remuw'' 64 INSN_CLASS_M ''d,s,t'' 0x200703b 0xfe00707f (Some MF_opcode) 0,
    opc ''flh'' 0 INSN_CLASS_ZFHMIN ''D,o(s)'' 0x1007 0x707f (Some MF_opcode) 0x28,
    opc ''flh'' 0 INSN_CLASS_ZFHMIN ''D,A,s'' 0x0 0x6 (Some MF_rs1_nonzero) INSN_MACRO,
    opc ''fsh'' 0 INSN_CLASS_ZFHMIN ''T,q(s)'' 0x1027 0x707f (Some MF_opcode) 0x28,
    opc ''fsh'' 0 INSN_CLASS_ZFHMIN ''T,A,s'' 0x0 0x7 (Some MF_rs1_nonzero) INSN_MACRO,
    opc ''fmv.x.h'' 0 INSN_CLASS_ZFHMIN ''d,S'' 0xe4000053 0xfff0707f (Some MF_opcode) 0,
    opc ''fmv.h.x'' 0 INSN_CLASS_ZFHMIN ''D,s'' 0xf4000053 0xfff0707f (Some MF_opcode) 0,
    opc ''fmv.h'' 0 INSN_CLASS_ZFH_INX ''D,U'' 0x24000053 0xfe00707f (Some MF_rs1_eq_rs2) 0x1,
    opc ''fneg.h'' 0 INSN_CLASS_ZFH_INX ''D,U'' 0x24001053 0xfe00707f (Some MF_rs1_eq_rs2) 0x1,
    opc ''fabs.h'' 0 INSN_CLASS_ZFH_INX ''D,U'' 0x24002053 0xfe00707f (Some MF_rs1_eq_rs2) 0x1,
    opc ''fsgnj.h'' 0 INSN_CLASS_ZFH_INX ''D,S,T'' 0x24000053 0xfe00707f (Some MF_opcode) 0]"

definition riscv_opcodes_4 :: "riscv_opcode list" where
  "riscv_opcodes_4 = [
    opc ''fsgnjn.h'' 0 INSN_CLASS_ZFH_INX ''D,S,T'' 0x24001053 0xfe00707f (Some MF_opcode) 0,
    opc ''fsgnjx.h'' 0 INSN_CLASS_ZFH_INX ''D,S,T'' 0x24002053 0xfe00707f (Some MF_opcode) 0,
    opc ''fadd.h'' 0 INSN_CLASS_ZFH_INX ''D,S,T'' 0x4007053 0xfe00707f (Some MF_opcode) 0,
    opc ''fadd.h'' 0 INSN_CLASS_ZFH_INX ''D,S,T,m'' 0x4000053 0xfe00007f (Some MF_opcode) 0,
    opc ''fsub.h'' 0 INSN_CLASS_ZFH_INX ''D,S,T'' 0xc007053 0xfe00707f (Some MF_opcode) 0,
    opc ''fsub.h'' 0 INSN_CLASS_ZFH_INX ''D,S,T,m'' 0xc000053 0xfe00007f (Some MF_opcode) 0,
    opc ''fmul.h'' 0 INSN_CLASS_ZFH_INX ''D,S,T'' 0x14007053 0xfe00707f (Some MF_opcode) 0,
    opc ''fmul.h'' 0 INSN_CLASS_ZFH_INX ''D,S,T,m'' 0x14000053 0xfe00007f (Some MF_opcode) 0,
    opc ''fdiv.h'' 0 INSN_CLASS_ZFH_INX ''D,S,T'' 0x1c007053 0xfe00707f (Some MF_opcode) 0,
    opc ''fdiv.h'' 0 INSN_CLASS_ZFH_INX ''D,S,T,m'' 0x1c000053 0xfe00007f (Some MF_opcode) 0,
    opc ''fsqrt.h'' 0 INSN_CLASS_ZFH_INX ''D,S'' 0x5c007053 0xfff0707f (Some MF_opcode) 0,
    opc ''fsqrt.h'' 0 INSN_CLASS_ZFH_INX ''D,S,m'' 0x5c000053 0xfff0007f (Some MF_opcode) 0,
    opc ''fmin.h'' 0 INSN_CLASS_ZFH_INX ''D,S,T'' 0x2c000053 0xfe00707f (Some MF_opcode) 0,
    opc ''fmax.h'' 0 INSN_CLASS_ZFH_INX ''D,S,T'' 0x2c001053 0xfe00707f (Some MF_opcode) 0,
    opc ''fmadd.h'' 0 INSN_CLASS_ZFH_INX ''D,S,T,R'' 0x4007043 0x600707f (Some MF_opcode) 0,
    opc ''fmadd.h'' 0 INSN_CLASS_ZFH_INX ''D,S,T,R,m'' 0x4000043 0x600007f (Some MF_opcode) 0,
    opc ''fnmadd.h'' 0 INSN_CLASS_ZFH_INX ''D,S,T,R'' 0x400704f 0x600707f (Some MF_opcode) 0,
    opc ''fnmadd.h'' 0 INSN_CLASS_ZFH_INX ''D,S,T,R,m'' 0x400004f 0x600007f (Some MF_opcode) 0,
    opc ''fmsub.h'' 0 INSN_CLASS_ZFH_INX ''D,S,T,R'' 0x4007047 0x600707f (Some MF_opcode) 0,
    opc ''fmsub.h'' 0 INSN_CLASS_ZFH_INX ''D,S,T,R,m'' 0x4000047 0x600007f (Some MF_opcode) 0,
    opc ''fnmsub.h'' 0 INSN_CLASS_ZFH_INX ''D,S,T,R'' 0x400704b 0x600707f (Some MF_opcode) 0,
    opc ''fnmsub.h'' 0 INSN_CLASS_ZFH_INX ''D,S,T,R,m'' 0x400004b 0x600007f (Some MF_opcode) 0,
    opc ''fcvt.w.h'' 0 INSN_CLASS_ZFH_INX ''d,S'' 0xc4007053 0xfff0707f (Some MF_opcode) 0,
    opc ''fcvt.w.h'' 0 INSN_CLASS_ZFH_INX ''d,S,m'' 0xc4000053 0xfff0007f (Some MF_opcode) 0,
    opc ''fcvt.wu.h'' 0 INSN_CLASS_ZFH_INX ''d,S'' 0xc4107053 0xfff0707f (Some MF_opcode) 0,
    opc ''fcvt.wu.h'' 0 INSN_CLASS_ZFH_INX ''d,S,m'' 0xc4100053 0xfff0007f (Some MF_opcode) 0,
    opc ''fcvt.h.w'' 0 INSN_CLASS_ZFH_INX ''D,s'' 0xd4007053 0xfff0707f (Some MF_opcode) 0,
    opc ''fcvt.h.w'' 0 INSN_CLASS_ZFH_INX ''D,s,m'' 0xd4000053 0xfff0007f (Some MF_opcode) 0,
    opc ''fcvt.h.wu'' 0 INSN_CLASS_ZFH_INX ''D,s'' 0xd4107053 0xfff0707f (Some MF_opcode) 0,
    opc ''fcvt.h.wu'' 0 INSN_CLASS_ZFH_INX ''D,s,m'' 0xd4100053 0xfff0007f (Some MF_opcode) 0,
    opc ''fcvt.s.h'' 0 INSN_CLASS_ZFHMIN_INX ''D,S'' 0x40200053 0xfff0707f (Some MF_opcode) 0,
    opc ''fcvt.d.h'' 0 INSN_CLASS_ZFHMIN_AND_D_INX ''D,S'' 0x42200053 0xfff0707f (Some MF_opcode) 0,
    opc ''fcvt.q.h'' 0 INSN_CLASS_ZFHMIN_AND_Q_INX ''D,S'' 0x46200053 0xfff0707f (Some MF_opcode) 0,
    opc ''fcvt.h.s'' 0 INSN_CLASS_ZFHMIN_INX ''D,S'' 0x44007053 0xfff0707f (Some MF_opcode) 0,
    opc ''fcvt.h.s'' 0 INSN_CLASS_ZFHMIN_INX ''D,S,m'' 0x44000053 0xfff0007f (Some MF_opcode) 0,
    opc ''fcvt.h.d'' 0 INSN_CLASS_ZFHMIN_AND_D_INX ''D,S'' 0x44107053 0xfff0707f (Some MF_opcode) 0,
    opc ''fcvt.h.d'' 0 INSN_CLASS_ZFHMIN_AND_D_INX ''D,S,m'' 0x44100053 0xfff0007f (Some MF_opcode) 0,
    opc ''fcvt.h.q'' 0 INSN_CLASS_ZFHMIN_AND_Q_INX ''D,S'' 0x44307053 0xfff0707f (Some MF_opcode) 0,
    opc ''fcvt.h.q'' 0 INSN_CLASS_ZFHMIN_AND_Q_INX ''D,S,m'' 0x44300053 0xfff0007f (Some MF_opcode) 0,
    opc ''fclass.h'' 0 INSN_CLASS_ZFH_INX ''d,S'' 0xe4001053 0xfff0707f (Some MF_opcode) 0,
    opc ''feq.h'' 0 INSN_CLASS_ZFH_INX ''d,S,T'' 0xa4002053 0xfe00707f (Some MF_opcode) 0,
    opc ''flt.h'' 0 INSN_CLASS_ZFH_INX ''d,S,T'' 0xa4001053 0xfe00707f (Some MF_opcode) 0,
    opc ''fle.h'' 0 INSN_CLASS_ZFH_INX ''d,S,T'' 0xa4000053 0xfe00707f (Some MF_opcode) 0,
    opc ''fgt.h'' 0 INSN_CLASS_ZFH_INX ''d,T,S'' 0xa4001053 0xfe00707f (Some MF_opcode) 0,
    opc ''fge.h'' 0 INSN_CLASS_ZFH_INX ''d,T,S'' 0xa4000053 0xfe00707f (Some MF_opcode) 0,
    opc ''fcvt.l.h'' 64 INSN_CLASS_ZFH_INX ''d,S'' 0xc4207053 0xfff0707f (Some MF_opcode) 0,
    opc ''fcvt.l.h'' 64 INSN_CLASS_ZFH_INX ''d,S,m'' 0xc4200053 0xfff0007f (Some MF_opcode) 0,
    opc ''fcvt.lu.h'' 64 INSN_CLASS_ZFH_INX ''d,S'' 0xc4307053 0xfff0707f (Some MF_opcode) 0,
    opc ''fcvt.lu.h'' 64 INSN_CLASS_ZFH_INX ''d,S,m'' 0xc4300053 0xfff0007f (Some MF_opcode) 0,
    opc ''fcvt.h.l'' 64 INSN_CLASS_ZFH_INX ''D,s'' 0xd4207053 0xfff0707f (Some MF_opcode) 0,
    opc ''fcvt.h.l'' 64 INSN_CLASS_ZFH_INX ''D,s,m'' 0xd4200053 0xfff0007f (Some MF_opcode) 0,
    opc ''fcvt.h.lu'' 64 INSN_CLASS_ZFH_INX ''D,s'' 0xd4307053 0xfff0707f (Some MF_opcode) 0,
    opc ''fcvt.h.lu'' 64 INSN_CLASS_ZFH_INX ''D,s,m'' 0xd4300053 0xfff0007f (Some MF_opcode) 0,
    opc ''fcvt.bf16.s'' 0 INSN_CLASS_ZFBFMIN ''D,S'' 0x44807053 0xfff0707f (Some MF_opcode) 0,
    opc ''fcvt.bf16.s'' 0 INSN_CLASS_ZFBFMIN ''D,S,m'' 0x44800053 0xfff0007f (Some MF_opcode) 0,
    opc ''fcvt.s.bf16'' 0 INSN_CLASS_ZFBFMIN ''D,S'' 0x40600053 0xfff0707f (Some MF_opcode) 0,
    opc ''frcsr'' 0 INSN_CLASS_F_INX ''d'' 0x302073 0xfffff07f (Some MF_opcode) 0x1,
    opc ''frsr'' 0 INSN_CLASS_F_INX ''d'' 0x302073 0xfffff07f (Some MF_opcode) 0x1,
    opc ''fscsr'' 0 INSN_CLASS_F_INX ''s'' 0x301073 0xfff07fff (Some MF_opcode) 0x1,
    opc ''fscsr'' 0 INSN_CLASS_F_INX ''d,s'' 0x301073 0xfff0707f (Some MF_opcode) 0x1,
    opc ''fssr'' 0 INSN_CLASS_F_INX ''s'' 0x301073 0xfff07fff (Some MF_opcode) 0x1,
    opc ''fssr'' 0 INSN_CLASS_F_INX ''d,s'' 0x301073 0xfff0707f (Some MF_opcode) 0x1,
    opc ''frrm'' 0 INSN_CLASS_F_INX ''d'' 0x202073 0xfffff07f (Some MF_opcode) 0x1,
    opc ''fsrm'' 0 INSN_CLASS_F_INX ''s'' 0x201073 0xfff07fff (Some MF_opcode) 0x1,
    opc ''fsrm'' 0 INSN_CLASS_F_INX ''d,s'' 0x201073 0xfff0707f (Some MF_opcode) 0x1,
    opc ''fsrmi'' 0 INSN_CLASS_F_INX ''d,Z'' 0x205073 0xfff0707f (Some MF_opcode) 0x1,
    opc ''fsrmi'' 0 INSN_CLASS_F_INX ''Z'' 0x205073 0xfff07fff (Some MF_opcode) 0x1,
    opc ''frflags'' 0 INSN_CLASS_F_INX ''d'' 0x102073 0xfffff07f (Some MF_opcode) 0x1,
    opc ''fsflags'' 0 INSN_CLASS_F_INX ''s'' 0x101073 0xfff07fff (Some MF_opcode) 0x1,
    opc ''fsflags'' 0 INSN_CLASS_F_INX ''d,s'' 0x101073 0xfff0707f (Some MF_opcode) 0x1,
    opc ''fsflagsi'' 0 INSN_CLASS_F_INX ''d,Z'' 0x105073 0xfff0707f (Some MF_opcode) 0x1,
    opc ''fsflagsi'' 0 INSN_CLASS_F_INX ''Z'' 0x105073 0xfff07fff (Some MF_opcode) 0x1,
    opc ''flw'' 32 INSN_CLASS_F_AND_C ''D,Cm(Cc)'' 0x6002 0xe003 (Some MF_opcode) 0x39,
    opc ''flw'' 32 INSN_CLASS_F_AND_C ''CD,Ck(Cs)'' 0x6000 0xe003 (Some MF_opcode) 0x39,
    opc ''flw'' 0 INSN_CLASS_F ''D,o(s)'' 0x2007 0x707f (Some MF_opcode) 0x38,
    opc ''flw'' 0 INSN_CLASS_F ''D,A,s'' 0x0 0x6 (Some MF_rs1_nonzero) INSN_MACRO,
    opc ''fsw'' 32 INSN_CLASS_F_AND_C ''CT,CM(Cc)'' 0xe002 0xe003 (Some MF_opcode) 0x39,
    opc ''fsw'' 32 INSN_CLASS_F_AND_C ''CD,Ck(Cs)'' 0xe000 0xe003 (Some MF_opcode) 0x39,
    opc ''fsw'' 0 INSN_CLASS_F ''T,q(s)'' 0x2027 0x707f (Some MF_opcode) 0x38,
    opc ''fsw'' 0 INSN_CLASS_F ''T,A,s'' 0x0 0x7 (Some MF_rs1_nonzero) INSN_MACRO,
    opc ''fmv.x.w'' 0 INSN_CLASS_F ''d,S'' 0xe0000053 0xfff0707f (Some MF_opcode) 0,
    opc ''fmv.w.x'' 0 INSN_CLASS_F ''D,s'' 0xf0000053 0xfff0707f (Some MF_opcode) 0,
    opc ''fmv.x.s'' 0 INSN_CLASS_F ''d,S'' 0xe0000053 0xfff0707f (Some MF_opcode) 0,
    opc ''fmv.s.x'' 0 INSN_CLASS_F ''D,s'' 0xf0000053 0xfff0707f (Some MF_opcode) 0,
    opc ''fmv.s'' 0 INSN_CLASS_F_INX ''D,U'' 0x20000053 0xfe00707f (Some MF_rs1_eq_rs2) 0x1,
    opc ''fneg.s'' 0 INSN_CLASS_F_INX ''D,U'' 0x20001053 0xfe00707f (Some MF_rs1_eq_rs2) 0x1,
    opc ''fabs.s'' 0 INSN_CLASS_F_INX ''D,U'' 0x20002053 0xfe00707f (Some MF_rs1_eq_rs2) 0x1,
    opc ''fsgnj.s'' 0 INSN_CLASS_F_INX ''D,S,T'' 0x20000053 0xfe00707f (Some MF_opcode) 0,
    opc ''fsgnjn.s'' 0 INSN_CLASS_F_INX ''D,S,T'' 0x20001053 0xfe00707f (Some MF_opcode) 0,
    opc ''fsgnjx.s'' 0 INSN_CLASS_F_INX ''D,S,T'' 0x20002053 0xfe00707f (Some MF_opcode) 0,
    opc ''fadd.s'' 0 INSN_CLASS_F_INX ''D,S,T'' 0x7053 0xfe00707f (Some MF_opcode) 0,
    opc ''fadd.s'' 0 INSN_CLASS_F_INX ''D,S,T,m'' 0x53 0xfe00007f (Some MF_opcode) 0,
    opc ''fsub.s'' 0 INSN_CLASS_F_INX ''D,S,T'' 0x8007053 0xfe00707f (Some MF_opcode) 0,
    opc ''fsub.s'' 0 INSN_CLASS_F_INX ''D,S,T,m'' 0x8000053 0xfe00007f (Some MF_opcode) 0,
    opc ''fmul.s'' 0 INSN_CLASS_F_INX ''D,S,T'' 0x10007053 0xfe00707f (Some MF_opcode) 0,
    opc ''fmul.s'' 0 INSN_CLASS_F_INX ''D,S,T,m'' 0x10000053 0xfe00007f (Some MF_opcode) 0,
    opc ''fdiv.s'' 0 INSN_CLASS_F_INX ''D,S,T'' 0x18007053 0xfe00707f (Some MF_opcode) 0,
    opc ''fdiv.s'' 0 INSN_CLASS_F_INX ''D,S,T,m'' 0x18000053 0xfe00007f (Some MF_opcode) 0,
    opc ''fsqrt.s'' 0 INSN_CLASS_F_INX ''D,S'' 0x58007053 0xfff0707f (Some MF_opcode) 0,
    opc ''fsqrt.s'' 0 INSN_CLASS_F_INX ''D,S,m'' 0x58000053 0xfff0007f (Some MF_opcode) 0,
    opc ''fmin.s'' 0 INSN_CLASS_F_INX ''D,S,T'' 0x28000053 0xfe00707f (Some MF_opcode) 0,
    opc ''fmax.s'' 0 INSN_CLASS_F_INX ''D,S,T'' 0x28001053 0xfe00707f (Some MF_opcode) 0,
    opc ''fmadd.s'' 0 INSN_CLASS_F_INX ''D,S,T,R'' 0x7043 0x600707f (Some MF_opcode) 0,
    opc ''fmadd.s'' 0 INSN_CLASS_F_INX ''D,S,T,R,m'' 0x43 0x600007f (Some MF_opcode) 0,
    opc ''fnmadd.s'' 0 INSN_CLASS_F_INX ''D,S,T,R'' 0x704f 0x600707f (Some MF_opcode) 0,
    opc ''fnmadd.s'' 0 INSN_CLASS_F_INX ''D,S,T,R,m'' 0x4f 0x600007f (Some MF_opcode) 0,
    opc ''fmsub.s'' 0 INSN_CLASS_F_INX ''D,S,T,R'' 0x7047 0x600707f (Some MF_opcode) 0,
    opc ''fmsub.s'' 0 INSN_CLASS_F_INX ''D,S,T,R,m'' 0x47 0x600007f (Some MF_opcode) 0,
    opc ''fnmsub.s'' 0 INSN_CLASS_F_INX ''D,S,T,R'' 0x704b 0x600707f (Some MF_opcode) 0,
    opc ''fnmsub.s'' 0 INSN_CLASS_F_INX ''D,S,T,R,m'' 0x4b 0x600007f (Some MF_opcode) 0,
    opc ''fcvt.w.s'' 0 INSN_CLASS_F_INX ''d,S'' 0xc0007053 0xfff0707f (Some MF_opcode) 0,
    opc ''fcvt.w.s'' 0 INSN_CLASS_F_INX ''d,S,m'' 0xc0000053 0xfff0007f (Some MF_opcode) 0,
    opc ''fcvt.wu.s'' 0 INSN_CLASS_F_INX ''d,S'' 0xc0107053 0xfff0707f (Some MF_opcode) 0,
    opc ''fcvt.wu.s'' 0 INSN_CLASS_F_INX ''d,S,m'' 0xc0100053 0xfff0007f (Some MF_opcode) 0,
    opc ''fcvt.s.w'' 0 INSN_CLASS_F_INX ''D,s'' 0xd0007053 0xfff0707f (Some MF_opcode) 0,
    opc ''fcvt.s.w'' 0 INSN_CLASS_F_INX ''D,s,m'' 0xd0000053 0xfff0007f (Some MF_opcode) 0,
    opc ''fcvt.s.wu'' 0 INSN_CLASS_F_INX ''D,s'' 0xd0107053 0xfff0707f (Some MF_opcode) 0,
    opc ''fcvt.s.wu'' 0 INSN_CLASS_F_INX ''D,s,m'' 0xd0100053 0xfff0007f (Some MF_opcode) 0,
    opc ''fclass.s'' 0 INSN_CLASS_F_INX ''d,S'' 0xe0001053 0xfff0707f (Some MF_opcode) 0,
    opc ''feq.s'' 0 INSN_CLASS_F_INX ''d,S,T'' 0xa0002053 0xfe00707f (Some MF_opcode) 0,
    opc ''flt.s'' 0 INSN_CLASS_F_INX ''d,S,T'' 0xa0001053 0xfe00707f (Some MF_opcode) 0,
    opc ''fle.s'' 0 INSN_CLASS_F_INX ''d,S,T'' 0xa0000053 0xfe00707f (Some MF_opcode) 0,
    opc ''fgt.s'' 0 INSN_CLASS_F_INX ''d,T,S'' 0xa0001053 0xfe00707f (Some MF_opcode) 0,
    opc ''fge.s'' 0 INSN_CLASS_F_INX ''d,T,S'' 0xa0000053 0xfe00707f (Some MF_opcode) 0,
    opc ''fcvt.l.s'' 64 INSN_CLASS_F_INX ''d,S'' 0xc0207053 0xfff0707f (Some MF_opcode) 0,
    opc ''fcvt.l.s'' 64 INSN_CLASS_F_INX ''d,S,m'' 0xc0200053 0xfff0007f (Some MF_opcode) 0,
    opc ''fcvt.lu.s'' 64 INSN_CLASS_F_INX ''d,S'' 0xc0307053 0xfff0707f (Some MF_opcode) 0,
    opc ''fcvt.lu.s'' 64 INSN_CLASS_F_INX ''d,S,m'' 0xc0300053 0xfff0007f (Some MF_opcode) 0,
    opc ''fcvt.s.l'' 64 INSN_CLASS_F_INX ''D,s'' 0xd0207053 0xfff0707f (Some MF_opcode) 0,
    opc ''fcvt.s.l'' 64 INSN_CLASS_F_INX ''D,s,m'' 0xd0200053 0xfff0007f (Some MF_opcode) 0,
    opc ''fcvt.s.lu'' 64 INSN_CLASS_F_INX ''D,s'' 0xd0307053 0xfff0707f (Some MF_opcode) 0,
    opc ''fcvt.s.lu'' 64 INSN_CLASS_F_INX ''D,s,m'' 0xd0300053 0xfff0007f (Some MF_opcode) 0,
    opc ''fld'' 0 INSN_CLASS_D_AND_C ''D,Cn(Cc)'' 0x2002 0xe003 (Some MF_opcode) 0x49,
    opc ''fld'' 0 INSN_CLASS_D_AND_C ''CD,Cl(Cs)'' 0x2000 0xe003 (Some MF_opcode) 0x49,
    opc ''fld'' 0 INSN_CLASS_D ''D,o(s)'' 0x3007 0x707f (Some MF_opcode) 0x48,
    opc ''fld'' 0 INSN_CLASS_D ''D,A,s'' 0x0 0x6 (Some MF_rs1_nonzero) INSN_MACRO,
    opc ''fsd'' 0 INSN_CLASS_D_AND_C ''CT,CN(Cc)'' 0xa002 0xe003 (Some MF_opcode) 0x49,
    opc ''fsd'' 0 INSN_CLASS_D_AND_C ''CD,Cl(Cs)'' 0xa000 0xe003 (Some MF_opcode) 0x49,
    opc ''fsd'' 0 INSN_CLASS_D ''T,q(s)'' 0x3027 0x707f (Some MF_opcode) 0x48,
    opc ''fsd'' 0 INSN_CLASS_D ''T,A,s'' 0x0 0x7 (Some MF_rs1_nonzero) INSN_MACRO,
    opc ''fmv.d'' 0 INSN_CLASS_D_INX ''D,U'' 0x22000053 0xfe00707f (Some MF_rs1_eq_rs2) 0x1,
    opc ''fneg.d'' 0 INSN_CLASS_D_INX ''D,U'' 0x22001053 0xfe00707f (Some MF_rs1_eq_rs2) 0x1,
    opc ''fabs.d'' 0 INSN_CLASS_D_INX ''D,U'' 0x22002053 0xfe00707f (Some MF_rs1_eq_rs2) 0x1,
    opc ''fsgnj.d'' 0 INSN_CLASS_D_INX ''D,S,T'' 0x22000053 0xfe00707f (Some MF_opcode) 0]"

definition riscv_opcodes_5 :: "riscv_opcode list" where
  "riscv_opcodes_5 = [
    opc ''fsgnjn.d'' 0 INSN_CLASS_D_INX ''D,S,T'' 0x22001053 0xfe00707f (Some MF_opcode) 0,
    opc ''fsgnjx.d'' 0 INSN_CLASS_D_INX ''D,S,T'' 0x22002053 0xfe00707f (Some MF_opcode) 0,
    opc ''fadd.d'' 0 INSN_CLASS_D_INX ''D,S,T'' 0x2007053 0xfe00707f (Some MF_opcode) 0,
    opc ''fadd.d'' 0 INSN_CLASS_D_INX ''D,S,T,m'' 0x2000053 0xfe00007f (Some MF_opcode) 0,
    opc ''fsub.d'' 0 INSN_CLASS_D_INX ''D,S,T'' 0xa007053 0xfe00707f (Some MF_opcode) 0,
    opc ''fsub.d'' 0 INSN_CLASS_D_INX ''D,S,T,m'' 0xa000053 0xfe00007f (Some MF_opcode) 0,
    opc ''fmul.d'' 0 INSN_CLASS_D_INX ''D,S,T'' 0x12007053 0xfe00707f (Some MF_opcode) 0,
    opc ''fmul.d'' 0 INSN_CLASS_D_INX ''D,S,T,m'' 0x12000053 0xfe00007f (Some MF_opcode) 0,
    opc ''fdiv.d'' 0 INSN_CLASS_D_INX ''D,S,T'' 0x1a007053 0xfe00707f (Some MF_opcode) 0,
    opc ''fdiv.d'' 0 INSN_CLASS_D_INX ''D,S,T,m'' 0x1a000053 0xfe00007f (Some MF_opcode) 0,
    opc ''fsqrt.d'' 0 INSN_CLASS_D_INX ''D,S'' 0x5a007053 0xfff0707f (Some MF_opcode) 0,
    opc ''fsqrt.d'' 0 INSN_CLASS_D_INX ''D,S,m'' 0x5a000053 0xfff0007f (Some MF_opcode) 0,
    opc ''fmin.d'' 0 INSN_CLASS_D_INX ''D,S,T'' 0x2a000053 0xfe00707f (Some MF_opcode) 0,
    opc ''fmax.d'' 0 INSN_CLASS_D_INX ''D,S,T'' 0x2a001053 0xfe00707f (Some MF_opcode) 0,
    opc ''fmadd.d'' 0 INSN_CLASS_D_INX ''D,S,T,R'' 0x2007043 0x600707f (Some MF_opcode) 0,
    opc ''fmadd.d'' 0 INSN_CLASS_D_INX ''D,S,T,R,m'' 0x2000043 0x600007f (Some MF_opcode) 0,
    opc ''fnmadd.d'' 0 INSN_CLASS_D_INX ''D,S,T,R'' 0x200704f 0x600707f (Some MF_opcode) 0,
    opc ''fnmadd.d'' 0 INSN_CLASS_D_INX ''D,S,T,R,m'' 0x200004f 0x600007f (Some MF_opcode) 0,
    opc ''fmsub.d'' 0 INSN_CLASS_D_INX ''D,S,T,R'' 0x2007047 0x600707f (Some MF_opcode) 0,
    opc ''fmsub.d'' 0 INSN_CLASS_D_INX ''D,S,T,R,m'' 0x2000047 0x600007f (Some MF_opcode) 0,
    opc ''fnmsub.d'' 0 INSN_CLASS_D_INX ''D,S,T,R'' 0x200704b 0x600707f (Some MF_opcode) 0,
    opc ''fnmsub.d'' 0 INSN_CLASS_D_INX ''D,S,T,R,m'' 0x200004b 0x600007f (Some MF_opcode) 0,
    opc ''fcvt.w.d'' 0 INSN_CLASS_D_INX ''d,S'' 0xc2007053 0xfff0707f (Some MF_opcode) 0,
    opc ''fcvt.w.d'' 0 INSN_CLASS_D_INX ''d,S,m'' 0xc2000053 0xfff0007f (Some MF_opcode) 0,
    opc ''fcvt.wu.d'' 0 INSN_CLASS_D_INX ''d,S'' 0xc2107053 0xfff0707f (Some MF_opcode) 0,
    opc ''fcvt.wu.d'' 0 INSN_CLASS_D_INX ''d,S,m'' 0xc2100053 0xfff0007f (Some MF_opcode) 0,
    opc ''fcvt.d.w'' 0 INSN_CLASS_D_INX ''D,s'' 0xd2000053 0xfff0707f (Some MF_opcode) 0,
    opc ''fcvt.d.wu'' 0 INSN_CLASS_D_INX ''D,s'' 0xd2100053 0xfff0707f (Some MF_opcode) 0,
    opc ''fcvt.d.s'' 0 INSN_CLASS_D_INX ''D,S'' 0x42000053 0xfff0707f (Some MF_opcode) 0,
    opc ''fcvt.s.d'' 0 INSN_CLASS_D_INX ''D,S'' 0x40107053 0xfff0707f (Some MF_opcode) 0,
    opc ''fcvt.s.d'' 0 INSN_CLASS_D_INX ''D,S,m'' 0x40100053 0xfff0007f (Some MF_opcode) 0,
    opc ''fclass.d'' 0 INSN_CLASS_D_INX ''d,S'' 0xe2001053 0xfff0707f (Some MF_opcode) 0,
    opc ''feq.d'' 0 INSN_CLASS_D_INX ''d,S,T'' 0xa2002053 0xfe00707f (Some MF_opcode) 0,
    opc ''flt.d'' 0 INSN_CLASS_D_INX ''d,S,T'' 0xa2001053 0xfe00707f (Some MF_opcode) 0,
    opc ''fle.d'' 0 INSN_CLASS_D_INX ''d,S,T'' 0xa2000053 0xfe00707f (Some MF_opcode) 0,
    opc ''fgt.d'' 0 INSN_CLASS_D_INX ''d,T,S'' 0xa2001053 0xfe00707f (Some MF_opcode) 0,
    opc ''fge.d'' 0 INSN_CLASS_D_INX ''d,T,S'' 0xa2000053 0xfe00707f (Some MF_opcode) 0,
    opc ''fmv.x.d'' 64 INSN_CLASS_D ''d,S'' 0xe2000053 0xfff0707f (Some MF_opcode) 0,
    opc ''fmv.d.x'' 64 INSN_CLASS_D ''D,s'' 0xf2000053 0xfff0707f (Some MF_opcode) 0,
    opc ''fcvt.l.d'' 64 INSN_CLASS_D_INX ''d,S'' 0xc2207053 0xfff0707f (Some MF_opcode) 0,
    opc ''fcvt.l.d'' 64 INSN_CLASS_D_INX ''d,S,m'' 0xc2200053 0xfff0007f (Some MF_opcode) 0,
    opc ''fcvt.lu.d'' 64 INSN_CLASS_D_INX ''d,S'' 0xc2307053 0xfff0707f (Some MF_opcode) 0,
    opc ''fcvt.lu.d'' 64 INSN_CLASS_D_INX ''d,S,m'' 0xc2300053 0xfff0007f (Some MF_opcode) 0,
    opc ''fcvt.d.l'' 64 INSN_CLASS_D_INX ''D,s'' 0xd2207053 0xfff0707f (Some MF_opcode) 0,
    opc ''fcvt.d.l'' 64 INSN_CLASS_D_INX ''D,s,m'' 0xd2200053 0xfff0007f (Some MF_opcode) 0,
    opc ''fcvt.d.lu'' 64 INSN_CLASS_D_INX ''D,s'' 0xd2307053 0xfff0707f (Some MF_opcode) 0,
    opc ''fcvt.d.lu'' 64 INSN_CLASS_D_INX ''D,s,m'' 0xd2300053 0xfff0007f (Some MF_opcode) 0,
    opc ''flq'' 0 INSN_CLASS_Q ''D,o(s)'' 0x4007 0x707f (Some MF_opcode) 0x58,
    opc ''flq'' 0 INSN_CLASS_Q ''D,A,s'' 0x0 0x6 (Some MF_rs1_nonzero) INSN_MACRO,
    opc ''fsq'' 0 INSN_CLASS_Q ''T,q(s)'' 0x4027 0x707f (Some MF_opcode) 0x58,
    opc ''fsq'' 0 INSN_CLASS_Q ''T,A,s'' 0x0 0x7 (Some MF_rs1_nonzero) INSN_MACRO,
    opc ''fmv.q'' 0 INSN_CLASS_Q_INX ''D,U'' 0x26000053 0xfe00707f (Some MF_rs1_eq_rs2) 0x1,
    opc ''fneg.q'' 0 INSN_CLASS_Q_INX ''D,U'' 0x26001053 0xfe00707f (Some MF_rs1_eq_rs2) 0x1,
    opc ''fabs.q'' 0 INSN_CLASS_Q_INX ''D,U'' 0x26002053 0xfe00707f (Some MF_rs1_eq_rs2) 0x1,
    opc ''fsgnj.q'' 0 INSN_CLASS_Q_INX ''D,S,T'' 0x26000053 0xfe00707f (Some MF_opcode) 0,
    opc ''fsgnjn.q'' 0 INSN_CLASS_Q_INX ''D,S,T'' 0x26001053 0xfe00707f (Some MF_opcode) 0,
    opc ''fsgnjx.q'' 0 INSN_CLASS_Q_INX ''D,S,T'' 0x26002053 0xfe00707f (Some MF_opcode) 0,
    opc ''fadd.q'' 0 INSN_CLASS_Q_INX ''D,S,T'' 0x6007053 0xfe00707f (Some MF_opcode) 0,
    opc ''fadd.q'' 0 INSN_CLASS_Q_INX ''D,S,T,m'' 0x6000053 0xfe00007f (Some MF_opcode) 0,
    opc ''fsub.q'' 0 INSN_CLASS_Q_INX ''D,S,T'' 0xe007053 0xfe00707f (Some MF_opcode) 0,
    opc ''fsub.q'' 0 INSN_CLASS_Q_INX ''D,S,T,m'' 0xe000053 0xfe00007f (Some MF_opcode) 0,
    opc ''fmul.q'' 0 INSN_CLASS_Q_INX ''D,S,T'' 0x16007053 0xfe00707f (Some MF_opcode) 0,
    opc ''fmul.q'' 0 INSN_CLASS_Q_INX ''D,S,T,m'' 0x16000053 0xfe00007f (Some MF_opcode) 0,
    opc ''fdiv.q'' 0 INSN_CLASS_Q_INX ''D,S,T'' 0x1e007053 0xfe00707f (Some MF_opcode) 0,
    opc ''fdiv.q'' 0 INSN_CLASS_Q_INX ''D,S,T,m'' 0x1e000053 0xfe00007f (Some MF_opcode) 0,
    opc ''fsqrt.q'' 0 INSN_CLASS_Q_INX ''D,S'' 0x5e007053 0xfff0707f (Some MF_opcode) 0,
    opc ''fsqrt.q'' 0 INSN_CLASS_Q_INX ''D,S,m'' 0x5e000053 0xfff0007f (Some MF_opcode) 0,
    opc ''fmin.q'' 0 INSN_CLASS_Q_INX ''D,S,T'' 0x2e000053 0xfe00707f (Some MF_opcode) 0,
    opc ''fmax.q'' 0 INSN_CLASS_Q_INX ''D,S,T'' 0x2e001053 0xfe00707f (Some MF_opcode) 0,
    opc ''fmadd.q'' 0 INSN_CLASS_Q_INX ''D,S,T,R'' 0x6007043 0x600707f (Some MF_opcode) 0,
    opc ''fmadd.q'' 0 INSN_CLASS_Q_INX ''D,S,T,R,m'' 0x6000043 0x600007f (Some MF_opcode) 0,
    opc ''fnmadd.q'' 0 INSN_CLASS_Q_INX ''D,S,T,R'' 0x600704f 0x600707f (Some MF_opcode) 0,
    opc ''fnmadd.q'' 0 INSN_CLASS_Q_INX ''D,S,T,R,m'' 0x600004f 0x600007f (Some MF_opcode) 0,
    opc ''fmsub.q'' 0 INSN_CLASS_Q_INX ''D,S,T,R'' 0x6007047 0x600707f (Some MF_opcode) 0,
    opc ''fmsub.q'' 0 INSN_CLASS_Q_INX ''D,S,T,R,m'' 0x6000047 0x600007f (Some MF_opcode) 0,
    opc ''fnmsub.q'' 0 INSN_CLASS_Q_INX ''D,S,T,R'' 0x600704b 0x600707f (Some MF_opcode) 0,
    opc ''fnmsub.q'' 0 INSN_CLASS_Q_INX ''D,S,T,R,m'' 0x600004b 0x600007f (Some MF_opcode) 0,
    opc ''fcvt.w.q'' 0 INSN_CLASS_Q_INX ''d,S'' 0xc6007053 0xfff0707f (Some MF_opcode) 0,
    opc ''fcvt.w.q'' 0 INSN_CLASS_Q_INX ''d,S,m'' 0xc6000053 0xfff0007f (Some MF_opcode) 0,
    opc ''fcvt.wu.q'' 0 INSN_CLASS_Q_INX ''d,S'' 0xc6107053 0xfff0707f (Some MF_opcode) 0,
    opc ''fcvt.wu.q'' 0 INSN_CLASS_Q_INX ''d,S,m'' 0xc6100053 0xfff0007f (Some MF_opcode) 0,
    opc ''fcvt.q.w'' 0 INSN_CLASS_Q_INX ''D,s'' 0xd6000053 0xfff0707f (Some MF_opcode) 0,
    opc ''fcvt.q.wu'' 0 INSN_CLASS_Q_INX ''D,s'' 0xd6100053 0xfff0707f (Some MF_opcode) 0,
    opc ''fcvt.q.s'' 0 INSN_CLASS_Q_INX ''D,S'' 0x46000053 0xfff0707f (Some MF_opcode) 0,
    opc ''fcvt.q.d'' 0 INSN_CLASS_Q_INX ''D,S'' 0x46100053 0xfff0707f (Some MF_opcode) 0,
    opc ''fcvt.s.q'' 0 INSN_CLASS_Q_INX ''D,S'' 0x40307053 0xfff0707f (Some MF_opcode) 0,
    opc ''fcvt.s.q'' 0 INSN_CLASS_Q_INX ''D,S,m'' 0x40300053 0xfff0007f (Some MF_opcode) 0,
    opc ''fcvt.d.q'' 0 INSN_CLASS_Q_INX ''D,S'' 0x42307053 0xfff0707f (Some MF_opcode) 0,
    opc ''fcvt.d.q'' 0 INSN_CLASS_Q_INX ''D,S,m'' 0x42300053 0xfff0007f (Some MF_opcode) 0,
    opc ''fclass.q'' 0 INSN_CLASS_Q_INX ''d,S'' 0xe6001053 0xfff0707f (Some MF_opcode) 0,
    opc ''feq.q'' 0 INSN_CLASS_Q_INX ''d,S,T'' 0xa6002053 0xfe00707f (Some MF_opcode) 0,
    opc ''flt.q'' 0 INSN_CLASS_Q_INX ''d,S,T'' 0xa6001053 0xfe00707f (Some MF_opcode) 0,
    opc ''fle.q'' 0 INSN_CLASS_Q_INX ''d,S,T'' 0xa6000053 0xfe00707f (Some MF_opcode) 0,
    opc ''fgt.q'' 0 INSN_CLASS_Q_INX ''d,T,S'' 0xa6001053 0xfe00707f (Some MF_opcode) 0,
    opc ''fge.q'' 0 INSN_CLASS_Q_INX ''d,T,S'' 0xa6000053 0xfe00707f (Some MF_opcode) 0,
    opc ''fcvt.l.q'' 64 INSN_CLASS_Q_INX ''d,S'' 0xc6207053 0xfff0707f (Some MF_opcode) 0,
    opc ''fcvt.l.q'' 64 INSN_CLASS_Q_INX ''d,S,m'' 0xc6200053 0xfff0007f (Some MF_opcode) 0,
    opc ''fcvt.lu.q'' 64 INSN_CLASS_Q_INX ''d,S'' 0xc6307053 0xfff0707f (Some MF_opcode) 0,
    opc ''fcvt.lu.q'' 64 INSN_CLASS_Q_INX ''d,S,m'' 0xc6300053 0xfff0007f (Some MF_opcode) 0,
    opc ''fcvt.q.l'' 64 INSN_CLASS_Q_INX ''D,s'' 0xd6200053 0xfff0707f (Some MF_opcode) 0,
    opc ''fcvt.q.l'' 64 INSN_CLASS_Q_INX ''D,s,m'' 0xd6200053 0xfff0007f (Some MF_opcode) 0,
    opc ''fcvt.q.lu'' 64 INSN_CLASS_Q_INX ''D,s'' 0xd6300053 0xfff0707f (Some MF_opcode) 0,
    opc ''fcvt.q.lu'' 64 INSN_CLASS_Q_INX ''D,s,m'' 0xd6300053 0xfff0007f (Some MF_opcode) 0,
    opc ''c.unimp'' 0 INSN_CLASS_C '''' 0x0 0xffff (Some MF_opcode) 0,
    opc ''c.ebreak'' 0 INSN_CLASS_C '''' 0x9002 0xffff (Some MF_opcode) 0,
    opc ''c.jr'' 0 INSN_CLASS_C ''d'' 0x8002 0xf07f (Some MF_rd_nonzero) 0x2,
    opc ''c.jalr'' 0 INSN_CLASS_C ''d'' 0x9002 0xf07f (Some MF_rd_nonzero) 0x6,
    opc ''c.j'' 0 INSN_CLASS_C ''Ca'' 0xa001 0xe003 (Some MF_opcode) 0x2,
    opc ''c.jal'' 32 INSN_CLASS_C ''Ca'' 0x2001 0xe003 (Some MF_opcode) 0x6,
    opc ''c.beqz'' 0 INSN_CLASS_C ''Cs,Cp'' 0xc001 0xe003 (Some MF_opcode) 0x4,
    opc ''c.bnez'' 0 INSN_CLASS_C ''Cs,Cp'' 0xe001 0xe003 (Some MF_opcode) 0x4,
    opc ''c.lwsp'' 0 INSN_CLASS_C ''d,Cm(Cc)'' 0x4002 0xe003 (Some MF_rd_nonzero) 0,
    opc ''c.lw'' 0 INSN_CLASS_C ''Ct,Ck(Cs)'' 0x4000 0xe003 (Some MF_opcode) 0x38,
    opc ''c.swsp'' 0 INSN_CLASS_C ''CV,CM(Cc)'' 0xc002 0xe003 (Some MF_opcode) 0x38,
    opc ''c.sw'' 0 INSN_CLASS_C ''Ct,Ck(Cs)'' 0xc000 0xe003 (Some MF_opcode) 0x38,
    opc ''c.nop'' 0 INSN_CLASS_C '''' 0x1 0xffff (Some MF_opcode) 0x1,
    opc ''c.nop'' 0 INSN_CLASS_C ''Cj'' 0x1 0xef83 (Some MF_opcode) 0x1,
    opc ''c.mv'' 0 INSN_CLASS_C ''d,CV'' 0x8002 0xf003 (Some MF_c_add_with_hint) 0,
    opc ''c.lui'' 0 INSN_CLASS_C ''d,Cu'' 0x6001 0xe003 (Some MF_c_lui_with_hint) 0,
    opc ''c.li'' 0 INSN_CLASS_C ''d,Co'' 0x4001 0xe003 (Some MF_opcode) 0,
    opc ''c.addi4spn'' 0 INSN_CLASS_C ''Ct,Cc,CK'' 0x0 0xe003 (Some MF_c_addi4spn) 0,
    opc ''c.addi16sp'' 0 INSN_CLASS_C ''Cc,CL'' 0x6101 0xef83 (Some MF_c_addi16sp) 0,
    opc ''c.addi'' 0 INSN_CLASS_C ''d,Co'' 0x1 0xe003 (Some MF_opcode) 0,
    opc ''c.add'' 0 INSN_CLASS_C ''d,CV'' 0x9002 0xf003 (Some MF_c_add_with_hint) 0,
    opc ''c.sub'' 0 INSN_CLASS_C ''Cs,Ct'' 0x8c01 0xfc63 (Some MF_opcode) 0,
    opc ''c.and'' 0 INSN_CLASS_C ''Cs,Ct'' 0x8c61 0xfc63 (Some MF_opcode) 0,
    opc ''c.or'' 0 INSN_CLASS_C ''Cs,Ct'' 0x8c41 0xfc63 (Some MF_opcode) 0,
    opc ''c.xor'' 0 INSN_CLASS_C ''Cs,Ct'' 0x8c21 0xfc63 (Some MF_opcode) 0,
    opc ''c.slli'' 0 INSN_CLASS_C ''d,C>'' 0x2 0xe003 (Some MF_c_slli) 0,
    opc ''c.srli'' 0 INSN_CLASS_C ''Cs,C>'' 0x8001 0xec03 (Some MF_c_slli) 0,
    opc ''c.srai'' 0 INSN_CLASS_C ''Cs,C>'' 0x8401 0xec03 (Some MF_c_slli) 0,
    opc ''c.slli64'' 0 INSN_CLASS_C ''d'' 0x2 0xf07f (Some MF_c_slli64) 0,
    opc ''c.srli64'' 0 INSN_CLASS_C ''Cs'' 0x8001 0xfc7f (Some MF_c_slli64) 0,
    opc ''c.srai64'' 0 INSN_CLASS_C ''Cs'' 0x8401 0xfc7f (Some MF_c_slli64) 0,
    opc ''c.andi'' 0 INSN_CLASS_C ''Cs,Co'' 0x8801 0xec03 (Some MF_opcode) 0,
    opc ''c.addiw'' 64 INSN_CLASS_C ''d,Co'' 0x2001 0xe003 (Some MF_rd_nonzero) 0,
    opc ''c.addw'' 64 INSN_CLASS_C ''Cs,Ct'' 0x9c21 0xfc63 (Some MF_opcode) 0,
    opc ''c.subw'' 64 INSN_CLASS_C ''Cs,Ct'' 0x9c01 0xfc63 (Some MF_opcode) 0,
    opc ''c.ldsp'' 64 INSN_CLASS_C ''d,Cn(Cc)'' 0x6002 0xe003 (Some MF_rd_nonzero) 0x48,
    opc ''c.ld'' 64 INSN_CLASS_C ''Ct,Cl(Cs)'' 0x6000 0xe003 (Some MF_opcode) 0x48,
    opc ''c.sdsp'' 64 INSN_CLASS_C ''CV,CN(Cc)'' 0xe002 0xe003 (Some MF_opcode) 0x48,
    opc ''c.sd'' 64 INSN_CLASS_C ''Ct,Cl(Cs)'' 0xe000 0xe003 (Some MF_opcode) 0x48,
    opc ''c.fldsp'' 0 INSN_CLASS_D_AND_C ''D,Cn(Cc)'' 0x2002 0xe003 (Some MF_opcode) 0x48,
    opc ''c.fld'' 0 INSN_CLASS_D_AND_C ''CD,Cl(Cs)'' 0x2000 0xe003 (Some MF_opcode) 0x48,
    opc ''c.fsdsp'' 0 INSN_CLASS_D_AND_C ''CT,CN(Cc)'' 0xa002 0xe003 (Some MF_opcode) 0x48,
    opc ''c.fsd'' 0 INSN_CLASS_D_AND_C ''CD,Cl(Cs)'' 0xa000 0xe003 (Some MF_opcode) 0x48]"

end
