(* ===== verification/Opc_Table_2.thy ===== *)
theory Opc_Table_2
  imports Riscv_Opc
begin

text \<open>
  The opcode table of \<^verbatim>\<open>opcodes/riscv-opc.c\<close>, part 2 of 4 (lines 1120 to 1869), entry by entry and in the
  order of the source, since the first entry that fits wins. The \<^verbatim>\<open>MATCH\<close>, \<^verbatim>\<open>MASK\<close> and \<^verbatim>\<open>INSN\<close>
  macros of an entry are written as their values.
\<close>

definition riscv_opcodes_6 :: "riscv_opcode list" where
  "riscv_opcodes_6 = [
    opc ''c.flwsp'' 32 INSN_CLASS_F_AND_C ''D,Cm(Cc)'' 0x6002 0xe003 (Some MF_opcode) 0x38,
    opc ''c.flw'' 32 INSN_CLASS_F_AND_C ''CD,Ck(Cs)'' 0x6000 0xe003 (Some MF_opcode) 0x38,
    opc ''c.fswsp'' 32 INSN_CLASS_F_AND_C ''CT,CM(Cc)'' 0xe002 0xe003 (Some MF_opcode) 0x38,
    opc ''c.fsw'' 32 INSN_CLASS_F_AND_C ''CD,Ck(Cs)'' 0xe000 0xe003 (Some MF_opcode) 0x38,
    opc ''cbo.clean'' 0 INSN_CLASS_ZICBOM ''0(s)'' 0x10200f 0xfff07fff (Some MF_opcode) 0,
    opc ''cbo.flush'' 0 INSN_CLASS_ZICBOM ''0(s)'' 0x20200f 0xfff07fff (Some MF_opcode) 0,
    opc ''cbo.inval'' 0 INSN_CLASS_ZICBOM ''0(s)'' 0x200f 0xfff07fff (Some MF_opcode) 0,
    opc ''cbo.zero'' 0 INSN_CLASS_ZICBOZ ''0(s)'' 0x40200f 0xfff07fff (Some MF_opcode) 0,
    opc ''czero.eqz'' 0 INSN_CLASS_ZICOND ''d,s,t'' 0xe005033 0xfe00707f (Some MF_opcode) 0,
    opc ''czero.nez'' 0 INSN_CLASS_ZICOND ''d,s,t'' 0xe007033 0xfe00707f (Some MF_opcode) 0,
    opc ''mop.r.0'' 0 INSN_CLASS_ZIMOP ''d,s'' 0x81c04073 0xfff0707f (Some MF_opcode) 0,
    opc ''mop.r.1'' 0 INSN_CLASS_ZIMOP ''d,s'' 0x81d04073 0xfff0707f (Some MF_opcode) 0,
    opc ''mop.r.2'' 0 INSN_CLASS_ZIMOP ''d,s'' 0x81e04073 0xfff0707f (Some MF_opcode) 0,
    opc ''mop.r.3'' 0 INSN_CLASS_ZIMOP ''d,s'' 0x81f04073 0xfff0707f (Some MF_opcode) 0,
    opc ''mop.r.4'' 0 INSN_CLASS_ZIMOP ''d,s'' 0x85c04073 0xfff0707f (Some MF_opcode) 0,
    opc ''mop.r.5'' 0 INSN_CLASS_ZIMOP ''d,s'' 0x85d04073 0xfff0707f (Some MF_opcode) 0,
    opc ''mop.r.6'' 0 INSN_CLASS_ZIMOP ''d,s'' 0x85e04073 0xfff0707f (Some MF_opcode) 0,
    opc ''mop.r.7'' 0 INSN_CLASS_ZIMOP ''d,s'' 0x85f04073 0xfff0707f (Some MF_opcode) 0,
    opc ''mop.r.8'' 0 INSN_CLASS_ZIMOP ''d,s'' 0x89c04073 0xfff0707f (Some MF_opcode) 0,
    opc ''mop.r.9'' 0 INSN_CLASS_ZIMOP ''d,s'' 0x89d04073 0xfff0707f (Some MF_opcode) 0,
    opc ''mop.r.10'' 0 INSN_CLASS_ZIMOP ''d,s'' 0x89e04073 0xfff0707f (Some MF_opcode) 0,
    opc ''mop.r.11'' 0 INSN_CLASS_ZIMOP ''d,s'' 0x89f04073 0xfff0707f (Some MF_opcode) 0,
    opc ''mop.r.12'' 0 INSN_CLASS_ZIMOP ''d,s'' 0x8dc04073 0xfff0707f (Some MF_opcode) 0,
    opc ''mop.r.13'' 0 INSN_CLASS_ZIMOP ''d,s'' 0x8dd04073 0xfff0707f (Some MF_opcode) 0,
    opc ''mop.r.14'' 0 INSN_CLASS_ZIMOP ''d,s'' 0x8de04073 0xfff0707f (Some MF_opcode) 0,
    opc ''mop.r.15'' 0 INSN_CLASS_ZIMOP ''d,s'' 0x8df04073 0xfff0707f (Some MF_opcode) 0,
    opc ''mop.r.16'' 0 INSN_CLASS_ZIMOP ''d,s'' 0xc1c04073 0xfff0707f (Some MF_opcode) 0,
    opc ''mop.r.17'' 0 INSN_CLASS_ZIMOP ''d,s'' 0xc1d04073 0xfff0707f (Some MF_opcode) 0,
    opc ''mop.r.18'' 0 INSN_CLASS_ZIMOP ''d,s'' 0xc1e04073 0xfff0707f (Some MF_opcode) 0,
    opc ''mop.r.19'' 0 INSN_CLASS_ZIMOP ''d,s'' 0xc1f04073 0xfff0707f (Some MF_opcode) 0,
    opc ''mop.r.20'' 0 INSN_CLASS_ZIMOP ''d,s'' 0xc5c04073 0xfff0707f (Some MF_opcode) 0,
    opc ''mop.r.21'' 0 INSN_CLASS_ZIMOP ''d,s'' 0xc5d04073 0xfff0707f (Some MF_opcode) 0,
    opc ''mop.r.22'' 0 INSN_CLASS_ZIMOP ''d,s'' 0xc5e04073 0xfff0707f (Some MF_opcode) 0,
    opc ''mop.r.23'' 0 INSN_CLASS_ZIMOP ''d,s'' 0xc5f04073 0xfff0707f (Some MF_opcode) 0,
    opc ''mop.r.24'' 0 INSN_CLASS_ZIMOP ''d,s'' 0xc9c04073 0xfff0707f (Some MF_opcode) 0,
    opc ''mop.r.25'' 0 INSN_CLASS_ZIMOP ''d,s'' 0xc9d04073 0xfff0707f (Some MF_opcode) 0,
    opc ''mop.r.26'' 0 INSN_CLASS_ZIMOP ''d,s'' 0xc9e04073 0xfff0707f (Some MF_opcode) 0,
    opc ''mop.r.27'' 0 INSN_CLASS_ZIMOP ''d,s'' 0xc9f04073 0xfff0707f (Some MF_opcode) 0,
    opc ''mop.r.28'' 0 INSN_CLASS_ZIMOP ''d,s'' 0xcdc04073 0xfff0707f (Some MF_opcode) 0,
    opc ''mop.r.29'' 0 INSN_CLASS_ZIMOP ''d,s'' 0xcdd04073 0xfff0707f (Some MF_opcode) 0,
    opc ''mop.r.30'' 0 INSN_CLASS_ZIMOP ''d,s'' 0xcde04073 0xfff0707f (Some MF_opcode) 0,
    opc ''mop.r.31'' 0 INSN_CLASS_ZIMOP ''d,s'' 0xcdf04073 0xfff0707f (Some MF_opcode) 0,
    opc ''mop.rr.0'' 0 INSN_CLASS_ZIMOP ''d,s,t'' 0x82004073 0xfe00707f (Some MF_opcode) 0,
    opc ''mop.rr.1'' 0 INSN_CLASS_ZIMOP ''d,s,t'' 0x86004073 0xfe00707f (Some MF_opcode) 0,
    opc ''mop.rr.2'' 0 INSN_CLASS_ZIMOP ''d,s,t'' 0x8a004073 0xfe00707f (Some MF_opcode) 0,
    opc ''mop.rr.3'' 0 INSN_CLASS_ZIMOP ''d,s,t'' 0x8e004073 0xfe00707f (Some MF_opcode) 0,
    opc ''mop.rr.4'' 0 INSN_CLASS_ZIMOP ''d,s,t'' 0xc2004073 0xfe00707f (Some MF_opcode) 0,
    opc ''mop.rr.5'' 0 INSN_CLASS_ZIMOP ''d,s,t'' 0xc6004073 0xfe00707f (Some MF_opcode) 0,
    opc ''mop.rr.6'' 0 INSN_CLASS_ZIMOP ''d,s,t'' 0xca004073 0xfe00707f (Some MF_opcode) 0,
    opc ''mop.rr.7'' 0 INSN_CLASS_ZIMOP ''d,s,t'' 0xce004073 0xfe00707f (Some MF_opcode) 0,
    opc ''wrs.nto'' 0 INSN_CLASS_ZAWRS '''' 0xd00073 0xffffffff (Some MF_opcode) 0,
    opc ''wrs.sto'' 0 INSN_CLASS_ZAWRS '''' 0x1d00073 0xffffffff (Some MF_opcode) 0,
    opc ''fli.s'' 0 INSN_CLASS_ZFA ''D,Wfv'' 0xf0100053 0xfff0707f (Some MF_opcode) 0,
    opc ''fli.d'' 0 INSN_CLASS_D_AND_ZFA ''D,Wfv'' 0xf2100053 0xfff0707f (Some MF_opcode) 0,
    opc ''fli.q'' 0 INSN_CLASS_Q_AND_ZFA ''D,Wfv'' 0xf6100053 0xfff0707f (Some MF_opcode) 0,
    opc ''fli.h'' 0 INSN_CLASS_ZFH_OR_ZVFH_AND_ZFA ''D,Wfv'' 0xf4100053 0xfff0707f (Some MF_opcode) 0,
    opc ''fminm.s'' 0 INSN_CLASS_ZFA ''D,S,T'' 0x28002053 0xfe00707f (Some MF_opcode) 0,
    opc ''fmaxm.s'' 0 INSN_CLASS_ZFA ''D,S,T'' 0x28003053 0xfe00707f (Some MF_opcode) 0,
    opc ''fminm.d'' 0 INSN_CLASS_D_AND_ZFA ''D,S,T'' 0x2a002053 0xfe00707f (Some MF_opcode) 0,
    opc ''fmaxm.d'' 0 INSN_CLASS_D_AND_ZFA ''D,S,T'' 0x2a003053 0xfe00707f (Some MF_opcode) 0,
    opc ''fminm.q'' 0 INSN_CLASS_Q_AND_ZFA ''D,S,T'' 0x2e002053 0xfe00707f (Some MF_opcode) 0,
    opc ''fmaxm.q'' 0 INSN_CLASS_Q_AND_ZFA ''D,S,T'' 0x2e003053 0xfe00707f (Some MF_opcode) 0,
    opc ''fminm.h'' 0 INSN_CLASS_ZFH_AND_ZFA ''D,S,T'' 0x2c002053 0xfe00707f (Some MF_opcode) 0,
    opc ''fmaxm.h'' 0 INSN_CLASS_ZFH_AND_ZFA ''D,S,T'' 0x2c003053 0xfe00707f (Some MF_opcode) 0,
    opc ''fround.s'' 0 INSN_CLASS_ZFA ''D,S'' 0x40407053 0xfff0707f (Some MF_opcode) 0,
    opc ''fround.s'' 0 INSN_CLASS_ZFA ''D,S,m'' 0x40400053 0xfff0007f (Some MF_opcode) 0,
    opc ''froundnx.s'' 0 INSN_CLASS_ZFA ''D,S'' 0x40507053 0xfff0707f (Some MF_opcode) 0,
    opc ''froundnx.s'' 0 INSN_CLASS_ZFA ''D,S,m'' 0x40500053 0xfff0007f (Some MF_opcode) 0,
    opc ''fround.d'' 0 INSN_CLASS_D_AND_ZFA ''D,S'' 0x42407053 0xfff0707f (Some MF_opcode) 0,
    opc ''fround.d'' 0 INSN_CLASS_D_AND_ZFA ''D,S,m'' 0x42400053 0xfff0007f (Some MF_opcode) 0,
    opc ''froundnx.d'' 0 INSN_CLASS_D_AND_ZFA ''D,S'' 0x42507053 0xfff0707f (Some MF_opcode) 0,
    opc ''froundnx.d'' 0 INSN_CLASS_D_AND_ZFA ''D,S,m'' 0x42500053 0xfff0007f (Some MF_opcode) 0,
    opc ''fround.q'' 0 INSN_CLASS_Q_AND_ZFA ''D,S'' 0x46407053 0xfff0707f (Some MF_opcode) 0,
    opc ''fround.q'' 0 INSN_CLASS_Q_AND_ZFA ''D,S,m'' 0x46400053 0xfff0007f (Some MF_opcode) 0,
    opc ''froundnx.q'' 0 INSN_CLASS_Q_AND_ZFA ''D,S'' 0x46507053 0xfff0707f (Some MF_opcode) 0,
    opc ''froundnx.q'' 0 INSN_CLASS_Q_AND_ZFA ''D,S,m'' 0x46500053 0xfff0007f (Some MF_opcode) 0,
    opc ''fround.h'' 0 INSN_CLASS_ZFH_AND_ZFA ''D,S'' 0x44407053 0xfff0707f (Some MF_opcode) 0,
    opc ''fround.h'' 0 INSN_CLASS_ZFH_AND_ZFA ''D,S,m'' 0x44400053 0xfff0007f (Some MF_opcode) 0,
    opc ''froundnx.h'' 0 INSN_CLASS_ZFH_AND_ZFA ''D,S'' 0x44507053 0xfff0707f (Some MF_opcode) 0,
    opc ''froundnx.h'' 0 INSN_CLASS_ZFH_AND_ZFA ''D,S,m'' 0x44500053 0xfff0007f (Some MF_opcode) 0,
    opc ''fcvtmod.w.d'' 0 INSN_CLASS_D_AND_ZFA ''d,S,m'' 0xc2801053 0xfff0707f (Some MF_opcode) 0,
    opc ''fmvh.x.d'' 32 INSN_CLASS_D_AND_ZFA ''d,S'' 0xe2100053 0xfff0707f (Some MF_opcode) 0,
    opc ''fmvp.d.x'' 32 INSN_CLASS_D_AND_ZFA ''D,s,t'' 0xb2000053 0xfe00707f (Some MF_opcode) 0,
    opc ''fmvh.x.q'' 64 INSN_CLASS_Q_AND_ZFA ''d,S'' 0xe6100053 0xfff0707f (Some MF_opcode) 0,
    opc ''fmvp.q.x'' 64 INSN_CLASS_Q_AND_ZFA ''D,s,t'' 0xb6000053 0xfe00707f (Some MF_opcode) 0,
    opc ''fltq.s'' 0 INSN_CLASS_ZFA ''d,S,T'' 0xa0005053 0xfe00707f (Some MF_opcode) 0,
    opc ''fleq.s'' 0 INSN_CLASS_ZFA ''d,S,T'' 0xa0004053 0xfe00707f (Some MF_opcode) 0,
    opc ''fltq.d'' 0 INSN_CLASS_D_AND_ZFA ''d,S,T'' 0xa2005053 0xfe00707f (Some MF_opcode) 0,
    opc ''fleq.d'' 0 INSN_CLASS_D_AND_ZFA ''d,S,T'' 0xa2004053 0xfe00707f (Some MF_opcode) 0,
    opc ''fltq.q'' 0 INSN_CLASS_Q_AND_ZFA ''d,S,T'' 0xa6005053 0xfe00707f (Some MF_opcode) 0,
    opc ''fleq.q'' 0 INSN_CLASS_Q_AND_ZFA ''d,S,T'' 0xa6004053 0xfe00707f (Some MF_opcode) 0,
    opc ''fltq.h'' 0 INSN_CLASS_ZFH_AND_ZFA ''d,S,T'' 0xa4005053 0xfe00707f (Some MF_opcode) 0,
    opc ''fleq.h'' 0 INSN_CLASS_ZFH_AND_ZFA ''d,S,T'' 0xa4004053 0xfe00707f (Some MF_opcode) 0,
    opc ''clz'' 0 INSN_CLASS_ZBB ''d,s'' 0x60001013 0xfff0707f (Some MF_opcode) 0,
    opc ''ctz'' 0 INSN_CLASS_ZBB ''d,s'' 0x60101013 0xfff0707f (Some MF_opcode) 0,
    opc ''cpop'' 0 INSN_CLASS_ZBB ''d,s'' 0x60201013 0xfff0707f (Some MF_opcode) 0,
    opc ''min'' 0 INSN_CLASS_ZBB ''d,s,t'' 0xa004033 0xfe00707f (Some MF_opcode) 0,
    opc ''max'' 0 INSN_CLASS_ZBB ''d,s,t'' 0xa006033 0xfe00707f (Some MF_opcode) 0,
    opc ''minu'' 0 INSN_CLASS_ZBB ''d,s,t'' 0xa005033 0xfe00707f (Some MF_opcode) 0,
    opc ''maxu'' 0 INSN_CLASS_ZBB ''d,s,t'' 0xa007033 0xfe00707f (Some MF_opcode) 0,
    opc ''sext.b'' 0 INSN_CLASS_ZCB_AND_ZBB ''Cs,Cw'' 0x9c65 0xfc7f (Some MF_opcode) 0x1,
    opc ''sext.b'' 0 INSN_CLASS_ZBB ''d,s'' 0x60401013 0xfff0707f (Some MF_opcode) 0,
    opc ''sext.b'' 0 INSN_CLASS_I ''d,s'' 0x0 0xd None INSN_MACRO,
    opc ''sext.h'' 0 INSN_CLASS_ZCB_AND_ZBB ''Cs,Cw'' 0x9c6d 0xfc7f (Some MF_opcode) 0x1,
    opc ''sext.h'' 0 INSN_CLASS_ZBB ''d,s'' 0x60501013 0xfff0707f (Some MF_opcode) 0,
    opc ''sext.h'' 0 INSN_CLASS_I ''d,s'' 0x0 0xb None INSN_MACRO,
    opc ''zext.h'' 0 INSN_CLASS_ZCB_AND_ZBB ''Cs,Cw'' 0x9c69 0xfc7f (Some MF_opcode) 0x1,
    opc ''zext.h'' 32 INSN_CLASS_ZBB ''d,s'' 0x8004033 0xfff0707f (Some MF_opcode) 0,
    opc ''zext.h'' 64 INSN_CLASS_ZBB ''d,s'' 0x800403b 0xfff0707f (Some MF_opcode) 0,
    opc ''zext.h'' 0 INSN_CLASS_I ''d,s'' 0x0 0xb None INSN_MACRO,
    opc ''orc.b'' 0 INSN_CLASS_ZBB ''d,s'' 0x28705013 0xfff0707f (Some MF_opcode) 0,
    opc ''clzw'' 64 INSN_CLASS_ZBB ''d,s'' 0x6000101b 0xfff0707f (Some MF_opcode) 0,
    opc ''ctzw'' 64 INSN_CLASS_ZBB ''d,s'' 0x6010101b 0xfff0707f (Some MF_opcode) 0,
    opc ''cpopw'' 64 INSN_CLASS_ZBB ''d,s'' 0x6020101b 0xfff0707f (Some MF_opcode) 0,
    opc ''brev8'' 32 INSN_CLASS_ZBKB ''d,s'' 0x68705013 0xfff0707f (Some MF_opcode) 0,
    opc ''brev8'' 64 INSN_CLASS_ZBKB ''d,s'' 0x68705013 0xfff0707f (Some MF_opcode) 0,
    opc ''zip'' 32 INSN_CLASS_ZBKB ''d,s'' 0x8f01013 0xfff0707f (Some MF_opcode) 0,
    opc ''unzip'' 32 INSN_CLASS_ZBKB ''d,s'' 0x8f05013 0xfff0707f (Some MF_opcode) 0,
    opc ''pack'' 0 INSN_CLASS_ZBKB ''d,s,t'' 0x8004033 0xfe00707f (Some MF_opcode) 0,
    opc ''packh'' 0 INSN_CLASS_ZBKB ''d,s,t'' 0x8007033 0xfe00707f (Some MF_opcode) 0,
    opc ''packw'' 64 INSN_CLASS_ZBKB ''d,s,t'' 0x800403b 0xfe00707f (Some MF_opcode) 0,
    opc ''andn'' 0 INSN_CLASS_ZBB_OR_ZBKB ''d,s,t'' 0x40007033 0xfe00707f (Some MF_opcode) 0,
    opc ''orn'' 0 INSN_CLASS_ZBB_OR_ZBKB ''d,s,t'' 0x40006033 0xfe00707f (Some MF_opcode) 0,
    opc ''xnor'' 0 INSN_CLASS_ZBB_OR_ZBKB ''d,s,t'' 0x40004033 0xfe00707f (Some MF_opcode) 0,
    opc ''rol'' 0 INSN_CLASS_ZBB_OR_ZBKB ''d,s,t'' 0x60001033 0xfe00707f (Some MF_opcode) 0,
    opc ''rori'' 0 INSN_CLASS_ZBB_OR_ZBKB ''d,s,>'' 0x60005013 0xfc00707f (Some MF_opcode) 0,
    opc ''ror'' 0 INSN_CLASS_ZBB_OR_ZBKB ''d,s,t'' 0x60005033 0xfe00707f (Some MF_opcode) 0,
    opc ''ror'' 0 INSN_CLASS_ZBB_OR_ZBKB ''d,s,>'' 0x60005013 0xfc00707f (Some MF_opcode) 0x1,
    opc ''rev8'' 32 INSN_CLASS_ZBB_OR_ZBKB ''d,s'' 0x69805013 0xfff0707f (Some MF_opcode) 0,
    opc ''rev8'' 64 INSN_CLASS_ZBB_OR_ZBKB ''d,s'' 0x6b805013 0xfff0707f (Some MF_opcode) 0,
    opc ''rolw'' 64 INSN_CLASS_ZBB_OR_ZBKB ''d,s,t'' 0x6000103b 0xfe00707f (Some MF_opcode) 0,
    opc ''roriw'' 64 INSN_CLASS_ZBB_OR_ZBKB ''d,s,<'' 0x6000501b 0xfe00707f (Some MF_opcode) 0,
    opc ''rorw'' 64 INSN_CLASS_ZBB_OR_ZBKB ''d,s,t'' 0x6000503b 0xfe00707f (Some MF_opcode) 0,
    opc ''rorw'' 64 INSN_CLASS_ZBB_OR_ZBKB ''d,s,<'' 0x6000501b 0xfe00707f (Some MF_opcode) 0x1,
    opc ''sh1add'' 0 INSN_CLASS_ZBA ''d,s,t'' 0x20002033 0xfe00707f (Some MF_opcode) 0,
    opc ''sh2add'' 0 INSN_CLASS_ZBA ''d,s,t'' 0x20004033 0xfe00707f (Some MF_opcode) 0]"

definition riscv_opcodes_7 :: "riscv_opcode list" where
  "riscv_opcodes_7 = [
    opc ''sh3add'' 0 INSN_CLASS_ZBA ''d,s,t'' 0x20006033 0xfe00707f (Some MF_opcode) 0,
    opc ''sh1add.uw'' 64 INSN_CLASS_ZBA ''d,s,t'' 0x2000203b 0xfe00707f (Some MF_opcode) 0,
    opc ''sh2add.uw'' 64 INSN_CLASS_ZBA ''d,s,t'' 0x2000403b 0xfe00707f (Some MF_opcode) 0,
    opc ''sh3add.uw'' 64 INSN_CLASS_ZBA ''d,s,t'' 0x2000603b 0xfe00707f (Some MF_opcode) 0,
    opc ''zext.w'' 64 INSN_CLASS_ZCB_AND_ZBA ''Cs,Cw'' 0x9c71 0xfc7f (Some MF_opcode) 0x1,
    opc ''zext.w'' 64 INSN_CLASS_ZBA ''d,s'' 0x800003b 0xfff0707f (Some MF_opcode) 0x1,
    opc ''zext.w'' 64 INSN_CLASS_I ''d,s'' 0x0 0xc None INSN_MACRO,
    opc ''add.uw'' 64 INSN_CLASS_ZBA ''d,s,t'' 0x800003b 0xfe00707f (Some MF_opcode) 0,
    opc ''slli.uw'' 64 INSN_CLASS_ZBA ''d,s,>'' 0x800101b 0xfc00707f (Some MF_opcode) 0,
    opc ''clmul'' 0 INSN_CLASS_ZBC_OR_ZBKC ''d,s,t'' 0xa001033 0xfe00707f (Some MF_opcode) 0,
    opc ''clmulh'' 0 INSN_CLASS_ZBC_OR_ZBKC ''d,s,t'' 0xa003033 0xfe00707f (Some MF_opcode) 0,
    opc ''clmulr'' 0 INSN_CLASS_ZBC ''d,s,t'' 0xa002033 0xfe00707f (Some MF_opcode) 0,
    opc ''bclri'' 0 INSN_CLASS_ZBS ''d,s,>'' 0x48001013 0xfc00707f (Some MF_opcode) 0,
    opc ''bclr'' 0 INSN_CLASS_ZBS ''d,s,t'' 0x48001033 0xfe00707f (Some MF_opcode) 0,
    opc ''bclr'' 0 INSN_CLASS_ZBS ''d,s,>'' 0x48001013 0xfc00707f (Some MF_opcode) 0x1,
    opc ''bseti'' 0 INSN_CLASS_ZBS ''d,s,>'' 0x28001013 0xfc00707f (Some MF_opcode) 0,
    opc ''bset'' 0 INSN_CLASS_ZBS ''d,s,t'' 0x28001033 0xfe00707f (Some MF_opcode) 0,
    opc ''bset'' 0 INSN_CLASS_ZBS ''d,s,>'' 0x28001013 0xfc00707f (Some MF_opcode) 0x1,
    opc ''binvi'' 0 INSN_CLASS_ZBS ''d,s,>'' 0x68001013 0xfc00707f (Some MF_opcode) 0,
    opc ''binv'' 0 INSN_CLASS_ZBS ''d,s,t'' 0x68001033 0xfe00707f (Some MF_opcode) 0,
    opc ''binv'' 0 INSN_CLASS_ZBS ''d,s,>'' 0x68001013 0xfc00707f (Some MF_opcode) 0x1,
    opc ''bexti'' 0 INSN_CLASS_ZBS ''d,s,>'' 0x48005013 0xfc00707f (Some MF_opcode) 0,
    opc ''bext'' 0 INSN_CLASS_ZBS ''d,s,t'' 0x48005033 0xfe00707f (Some MF_opcode) 0,
    opc ''bext'' 0 INSN_CLASS_ZBS ''d,s,>'' 0x48005013 0xfc00707f (Some MF_opcode) 0x1,
    opc ''xperm4'' 0 INSN_CLASS_ZBKX ''d,s,t'' 0x28002033 0xfe00707f (Some MF_opcode) 0,
    opc ''xperm8'' 0 INSN_CLASS_ZBKX ''d,s,t'' 0x28004033 0xfe00707f (Some MF_opcode) 0,
    opc ''aes32dsi'' 32 INSN_CLASS_ZKND ''d,s,t,y'' 0x2a000033 0x3e00707f (Some MF_opcode) 0,
    opc ''aes32dsmi'' 32 INSN_CLASS_ZKND ''d,s,t,y'' 0x2e000033 0x3e00707f (Some MF_opcode) 0,
    opc ''aes64ds'' 64 INSN_CLASS_ZKND ''d,s,t'' 0x3a000033 0xfe00707f (Some MF_opcode) 0,
    opc ''aes64dsm'' 64 INSN_CLASS_ZKND ''d,s,t'' 0x3e000033 0xfe00707f (Some MF_opcode) 0,
    opc ''aes64im'' 64 INSN_CLASS_ZKND ''d,s'' 0x30001013 0xfff0707f (Some MF_opcode) 0,
    opc ''aes64ks1i'' 64 INSN_CLASS_ZKND_OR_ZKNE ''d,s,Y'' 0x31001013 0xff00707f (Some MF_opcode) 0,
    opc ''aes64ks2'' 64 INSN_CLASS_ZKND_OR_ZKNE ''d,s,t'' 0x7e000033 0xfe00707f (Some MF_opcode) 0,
    opc ''aes32esi'' 32 INSN_CLASS_ZKNE ''d,s,t,y'' 0x22000033 0x3e00707f (Some MF_opcode) 0,
    opc ''aes32esmi'' 32 INSN_CLASS_ZKNE ''d,s,t,y'' 0x26000033 0x3e00707f (Some MF_opcode) 0,
    opc ''aes64es'' 64 INSN_CLASS_ZKNE ''d,s,t'' 0x32000033 0xfe00707f (Some MF_opcode) 0,
    opc ''aes64esm'' 64 INSN_CLASS_ZKNE ''d,s,t'' 0x36000033 0xfe00707f (Some MF_opcode) 0,
    opc ''sha256sig0'' 0 INSN_CLASS_ZKNH ''d,s'' 0x10201013 0xfff0707f (Some MF_opcode) 0,
    opc ''sha256sig1'' 0 INSN_CLASS_ZKNH ''d,s'' 0x10301013 0xfff0707f (Some MF_opcode) 0,
    opc ''sha256sum0'' 0 INSN_CLASS_ZKNH ''d,s'' 0x10001013 0xfff0707f (Some MF_opcode) 0,
    opc ''sha256sum1'' 0 INSN_CLASS_ZKNH ''d,s'' 0x10101013 0xfff0707f (Some MF_opcode) 0,
    opc ''sha512sig0h'' 32 INSN_CLASS_ZKNH ''d,s,t'' 0x5c000033 0xfe00707f (Some MF_opcode) 0,
    opc ''sha512sig0l'' 32 INSN_CLASS_ZKNH ''d,s,t'' 0x54000033 0xfe00707f (Some MF_opcode) 0,
    opc ''sha512sig1h'' 32 INSN_CLASS_ZKNH ''d,s,t'' 0x5e000033 0xfe00707f (Some MF_opcode) 0,
    opc ''sha512sig1l'' 32 INSN_CLASS_ZKNH ''d,s,t'' 0x56000033 0xfe00707f (Some MF_opcode) 0,
    opc ''sha512sum0r'' 32 INSN_CLASS_ZKNH ''d,s,t'' 0x50000033 0xfe00707f (Some MF_opcode) 0,
    opc ''sha512sum1r'' 32 INSN_CLASS_ZKNH ''d,s,t'' 0x52000033 0xfe00707f (Some MF_opcode) 0,
    opc ''sha512sig0'' 64 INSN_CLASS_ZKNH ''d,s'' 0x10601013 0xfff0707f (Some MF_opcode) 0,
    opc ''sha512sig1'' 64 INSN_CLASS_ZKNH ''d,s'' 0x10701013 0xfff0707f (Some MF_opcode) 0,
    opc ''sha512sum0'' 64 INSN_CLASS_ZKNH ''d,s'' 0x10401013 0xfff0707f (Some MF_opcode) 0,
    opc ''sha512sum1'' 64 INSN_CLASS_ZKNH ''d,s'' 0x10501013 0xfff0707f (Some MF_opcode) 0,
    opc ''sm4ed'' 0 INSN_CLASS_ZKSED ''d,s,t,y'' 0x30000033 0x3e00707f (Some MF_opcode) 0,
    opc ''sm4ks'' 0 INSN_CLASS_ZKSED ''d,s,t,y'' 0x34000033 0x3e00707f (Some MF_opcode) 0,
    opc ''sm3p0'' 0 INSN_CLASS_ZKSH ''d,s'' 0x10801013 0xfff0707f (Some MF_opcode) 0,
    opc ''sm3p1'' 0 INSN_CLASS_ZKSH ''d,s'' 0x10901013 0xfff0707f (Some MF_opcode) 0,
    opc ''vsetvl'' 0 INSN_CLASS_V ''d,s,t'' 0x80007057 0xfe00707f (Some MF_opcode) 0,
    opc ''vsetvli'' 0 INSN_CLASS_V ''d,s,Vc'' 0x7057 0x8000707f (Some MF_opcode) 0,
    opc ''vsetivli'' 0 INSN_CLASS_V ''d,Z,Vb'' 0xc0007057 0xc000707f (Some MF_opcode) 0,
    opc ''vlm.v'' 0 INSN_CLASS_V ''Vd,0(s)'' 0x2b00007 0xfff0707f (Some MF_opcode) 0x8,
    opc ''vsm.v'' 0 INSN_CLASS_V ''Vd,0(s)'' 0x2b00027 0xfff0707f (Some MF_opcode) 0x8,
    opc ''vle1.v'' 0 INSN_CLASS_V ''Vd,0(s)'' 0x2b00007 0xfff0707f (Some MF_opcode) 0x9,
    opc ''vse1.v'' 0 INSN_CLASS_V ''Vd,0(s)'' 0x2b00027 0xfff0707f (Some MF_opcode) 0x9,
    opc ''vle8.v'' 0 INSN_CLASS_V ''Vd,0(s)Vm'' 0x7 0xfdf0707f (Some MF_opcode) 0x8,
    opc ''vle16.v'' 0 INSN_CLASS_V ''Vd,0(s)Vm'' 0x5007 0xfdf0707f (Some MF_opcode) 0x8,
    opc ''vle32.v'' 0 INSN_CLASS_V ''Vd,0(s)Vm'' 0x6007 0xfdf0707f (Some MF_opcode) 0x8,
    opc ''vle64.v'' 0 INSN_CLASS_V ''Vd,0(s)Vm'' 0x7007 0xfdf0707f (Some MF_opcode) 0x10000008,
    opc ''vse8.v'' 0 INSN_CLASS_V ''Vd,0(s)Vm'' 0x27 0xfdf0707f (Some MF_opcode) 0x8,
    opc ''vse16.v'' 0 INSN_CLASS_V ''Vd,0(s)Vm'' 0x5027 0xfdf0707f (Some MF_opcode) 0x8,
    opc ''vse32.v'' 0 INSN_CLASS_V ''Vd,0(s)Vm'' 0x6027 0xfdf0707f (Some MF_opcode) 0x8,
    opc ''vse64.v'' 0 INSN_CLASS_V ''Vd,0(s)Vm'' 0x7027 0xfdf0707f (Some MF_opcode) 0x10000008,
    opc ''vlse8.v'' 0 INSN_CLASS_V ''Vd,0(s),tVm'' 0x8000007 0xfc00707f (Some MF_opcode) 0x8,
    opc ''vlse16.v'' 0 INSN_CLASS_V ''Vd,0(s),tVm'' 0x8005007 0xfc00707f (Some MF_opcode) 0x8,
    opc ''vlse32.v'' 0 INSN_CLASS_V ''Vd,0(s),tVm'' 0x8006007 0xfc00707f (Some MF_opcode) 0x8,
    opc ''vlse64.v'' 0 INSN_CLASS_V ''Vd,0(s),tVm'' 0x8007007 0xfc00707f (Some MF_opcode) 0x10000008,
    opc ''vsse8.v'' 0 INSN_CLASS_V ''Vd,0(s),tVm'' 0x8000027 0xfc00707f (Some MF_opcode) 0x8,
    opc ''vsse16.v'' 0 INSN_CLASS_V ''Vd,0(s),tVm'' 0x8005027 0xfc00707f (Some MF_opcode) 0x8,
    opc ''vsse32.v'' 0 INSN_CLASS_V ''Vd,0(s),tVm'' 0x8006027 0xfc00707f (Some MF_opcode) 0x8,
    opc ''vsse64.v'' 0 INSN_CLASS_V ''Vd,0(s),tVm'' 0x8007027 0xfc00707f (Some MF_opcode) 0x10000008,
    opc ''vloxei8.v'' 0 INSN_CLASS_V ''Vd,0(s),VtVm'' 0xc000007 0xfc00707f (Some MF_opcode) 0x8,
    opc ''vloxei16.v'' 0 INSN_CLASS_V ''Vd,0(s),VtVm'' 0xc005007 0xfc00707f (Some MF_opcode) 0x8,
    opc ''vloxei32.v'' 0 INSN_CLASS_V ''Vd,0(s),VtVm'' 0xc006007 0xfc00707f (Some MF_opcode) 0x8,
    opc ''vloxei64.v'' 0 INSN_CLASS_V ''Vd,0(s),VtVm'' 0xc007007 0xfc00707f (Some MF_opcode) 0x10000008,
    opc ''vsoxei8.v'' 0 INSN_CLASS_V ''Vd,0(s),VtVm'' 0xc000027 0xfc00707f (Some MF_opcode) 0x8,
    opc ''vsoxei16.v'' 0 INSN_CLASS_V ''Vd,0(s),VtVm'' 0xc005027 0xfc00707f (Some MF_opcode) 0x8,
    opc ''vsoxei32.v'' 0 INSN_CLASS_V ''Vd,0(s),VtVm'' 0xc006027 0xfc00707f (Some MF_opcode) 0x8,
    opc ''vsoxei64.v'' 0 INSN_CLASS_V ''Vd,0(s),VtVm'' 0xc007027 0xfc00707f (Some MF_opcode) 0x10000008,
    opc ''vluxei8.v'' 0 INSN_CLASS_V ''Vd,0(s),VtVm'' 0x4000007 0xfc00707f (Some MF_opcode) 0x8,
    opc ''vluxei16.v'' 0 INSN_CLASS_V ''Vd,0(s),VtVm'' 0x4005007 0xfc00707f (Some MF_opcode) 0x8,
    opc ''vluxei32.v'' 0 INSN_CLASS_V ''Vd,0(s),VtVm'' 0x4006007 0xfc00707f (Some MF_opcode) 0x8,
    opc ''vluxei64.v'' 0 INSN_CLASS_V ''Vd,0(s),VtVm'' 0x4007007 0xfc00707f (Some MF_opcode) 0x10000008,
    opc ''vsuxei8.v'' 0 INSN_CLASS_V ''Vd,0(s),VtVm'' 0x4000027 0xfc00707f (Some MF_opcode) 0x8,
    opc ''vsuxei16.v'' 0 INSN_CLASS_V ''Vd,0(s),VtVm'' 0x4005027 0xfc00707f (Some MF_opcode) 0x8,
    opc ''vsuxei32.v'' 0 INSN_CLASS_V ''Vd,0(s),VtVm'' 0x4006027 0xfc00707f (Some MF_opcode) 0x8,
    opc ''vsuxei64.v'' 0 INSN_CLASS_V ''Vd,0(s),VtVm'' 0x4007027 0xfc00707f (Some MF_opcode) 0x10000008,
    opc ''vle8ff.v'' 0 INSN_CLASS_V ''Vd,0(s)Vm'' 0x1000007 0xfdf0707f (Some MF_opcode) 0x8,
    opc ''vle16ff.v'' 0 INSN_CLASS_V ''Vd,0(s)Vm'' 0x1005007 0xfdf0707f (Some MF_opcode) 0x8,
    opc ''vle32ff.v'' 0 INSN_CLASS_V ''Vd,0(s)Vm'' 0x1006007 0xfdf0707f (Some MF_opcode) 0x8,
    opc ''vle64ff.v'' 0 INSN_CLASS_V ''Vd,0(s)Vm'' 0x1007007 0xfdf0707f (Some MF_opcode) 0x10000008,
    opc ''vlseg2e8.v'' 0 INSN_CLASS_V ''Vd,0(s)Vm'' 0x20000007 0xfdf0707f (Some MF_opcode) 0x8,
    opc ''vsseg2e8.v'' 0 INSN_CLASS_V ''Vd,0(s)Vm'' 0x20000027 0xfdf0707f (Some MF_opcode) 0x8,
    opc ''vlseg3e8.v'' 0 INSN_CLASS_V ''Vd,0(s)Vm'' 0x40000007 0xfdf0707f (Some MF_opcode) 0x8,
    opc ''vsseg3e8.v'' 0 INSN_CLASS_V ''Vd,0(s)Vm'' 0x40000027 0xfdf0707f (Some MF_opcode) 0x8,
    opc ''vlseg4e8.v'' 0 INSN_CLASS_V ''Vd,0(s)Vm'' 0x60000007 0xfdf0707f (Some MF_opcode) 0x8,
    opc ''vsseg4e8.v'' 0 INSN_CLASS_V ''Vd,0(s)Vm'' 0x60000027 0xfdf0707f (Some MF_opcode) 0x8,
    opc ''vlseg5e8.v'' 0 INSN_CLASS_V ''Vd,0(s)Vm'' 0x80000007 0xfdf0707f (Some MF_opcode) 0x8,
    opc ''vsseg5e8.v'' 0 INSN_CLASS_V ''Vd,0(s)Vm'' 0x80000027 0xfdf0707f (Some MF_opcode) 0x8,
    opc ''vlseg6e8.v'' 0 INSN_CLASS_V ''Vd,0(s)Vm'' 0xa0000007 0xfdf0707f (Some MF_opcode) 0x8,
    opc ''vsseg6e8.v'' 0 INSN_CLASS_V ''Vd,0(s)Vm'' 0xa0000027 0xfdf0707f (Some MF_opcode) 0x8,
    opc ''vlseg7e8.v'' 0 INSN_CLASS_V ''Vd,0(s)Vm'' 0xc0000007 0xfdf0707f (Some MF_opcode) 0x8,
    opc ''vsseg7e8.v'' 0 INSN_CLASS_V ''Vd,0(s)Vm'' 0xc0000027 0xfdf0707f (Some MF_opcode) 0x8,
    opc ''vlseg8e8.v'' 0 INSN_CLASS_V ''Vd,0(s)Vm'' 0xe0000007 0xfdf0707f (Some MF_opcode) 0x8,
    opc ''vsseg8e8.v'' 0 INSN_CLASS_V ''Vd,0(s)Vm'' 0xe0000027 0xfdf0707f (Some MF_opcode) 0x8,
    opc ''vlseg2e16.v'' 0 INSN_CLASS_V ''Vd,0(s)Vm'' 0x20005007 0xfdf0707f (Some MF_opcode) 0x8,
    opc ''vsseg2e16.v'' 0 INSN_CLASS_V ''Vd,0(s)Vm'' 0x20005027 0xfdf0707f (Some MF_opcode) 0x8,
    opc ''vlseg3e16.v'' 0 INSN_CLASS_V ''Vd,0(s)Vm'' 0x40005007 0xfdf0707f (Some MF_opcode) 0x8,
    opc ''vsseg3e16.v'' 0 INSN_CLASS_V ''Vd,0(s)Vm'' 0x40005027 0xfdf0707f (Some MF_opcode) 0x8,
    opc ''vlseg4e16.v'' 0 INSN_CLASS_V ''Vd,0(s)Vm'' 0x60005007 0xfdf0707f (Some MF_opcode) 0x8,
    opc ''vsseg4e16.v'' 0 INSN_CLASS_V ''Vd,0(s)Vm'' 0x60005027 0xfdf0707f (Some MF_opcode) 0x8,
    opc ''vlseg5e16.v'' 0 INSN_CLASS_V ''Vd,0(s)Vm'' 0x80005007 0xfdf0707f (Some MF_opcode) 0x8,
    opc ''vsseg5e16.v'' 0 INSN_CLASS_V ''Vd,0(s)Vm'' 0x80005027 0xfdf0707f (Some MF_opcode) 0x8]"

definition riscv_opcodes_8 :: "riscv_opcode list" where
  "riscv_opcodes_8 = [
    opc ''vlseg6e16.v'' 0 INSN_CLASS_V ''Vd,0(s)Vm'' 0xa0005007 0xfdf0707f (Some MF_opcode) 0x8,
    opc ''vsseg6e16.v'' 0 INSN_CLASS_V ''Vd,0(s)Vm'' 0xa0005027 0xfdf0707f (Some MF_opcode) 0x8,
    opc ''vlseg7e16.v'' 0 INSN_CLASS_V ''Vd,0(s)Vm'' 0xc0005007 0xfdf0707f (Some MF_opcode) 0x8,
    opc ''vsseg7e16.v'' 0 INSN_CLASS_V ''Vd,0(s)Vm'' 0xc0005027 0xfdf0707f (Some MF_opcode) 0x8,
    opc ''vlseg8e16.v'' 0 INSN_CLASS_V ''Vd,0(s)Vm'' 0xe0005007 0xfdf0707f (Some MF_opcode) 0x8,
    opc ''vsseg8e16.v'' 0 INSN_CLASS_V ''Vd,0(s)Vm'' 0xe0005027 0xfdf0707f (Some MF_opcode) 0x8,
    opc ''vlseg2e32.v'' 0 INSN_CLASS_V ''Vd,0(s)Vm'' 0x20006007 0xfdf0707f (Some MF_opcode) 0x8,
    opc ''vsseg2e32.v'' 0 INSN_CLASS_V ''Vd,0(s)Vm'' 0x20006027 0xfdf0707f (Some MF_opcode) 0x8,
    opc ''vlseg3e32.v'' 0 INSN_CLASS_V ''Vd,0(s)Vm'' 0x40006007 0xfdf0707f (Some MF_opcode) 0x8,
    opc ''vsseg3e32.v'' 0 INSN_CLASS_V ''Vd,0(s)Vm'' 0x40006027 0xfdf0707f (Some MF_opcode) 0x8,
    opc ''vlseg4e32.v'' 0 INSN_CLASS_V ''Vd,0(s)Vm'' 0x60006007 0xfdf0707f (Some MF_opcode) 0x8,
    opc ''vsseg4e32.v'' 0 INSN_CLASS_V ''Vd,0(s)Vm'' 0x60006027 0xfdf0707f (Some MF_opcode) 0x8,
    opc ''vlseg5e32.v'' 0 INSN_CLASS_V ''Vd,0(s)Vm'' 0x80006007 0xfdf0707f (Some MF_opcode) 0x8,
    opc ''vsseg5e32.v'' 0 INSN_CLASS_V ''Vd,0(s)Vm'' 0x80006027 0xfdf0707f (Some MF_opcode) 0x8,
    opc ''vlseg6e32.v'' 0 INSN_CLASS_V ''Vd,0(s)Vm'' 0xa0006007 0xfdf0707f (Some MF_opcode) 0x8,
    opc ''vsseg6e32.v'' 0 INSN_CLASS_V ''Vd,0(s)Vm'' 0xa0006027 0xfdf0707f (Some MF_opcode) 0x8,
    opc ''vlseg7e32.v'' 0 INSN_CLASS_V ''Vd,0(s)Vm'' 0xc0006007 0xfdf0707f (Some MF_opcode) 0x8,
    opc ''vsseg7e32.v'' 0 INSN_CLASS_V ''Vd,0(s)Vm'' 0xc0006027 0xfdf0707f (Some MF_opcode) 0x8,
    opc ''vlseg8e32.v'' 0 INSN_CLASS_V ''Vd,0(s)Vm'' 0xe0006007 0xfdf0707f (Some MF_opcode) 0x8,
    opc ''vsseg8e32.v'' 0 INSN_CLASS_V ''Vd,0(s)Vm'' 0xe0006027 0xfdf0707f (Some MF_opcode) 0x8,
    opc ''vlseg2e64.v'' 0 INSN_CLASS_V ''Vd,0(s)Vm'' 0x20007007 0xfdf0707f (Some MF_opcode) 0x10000008,
    opc ''vsseg2e64.v'' 0 INSN_CLASS_V ''Vd,0(s)Vm'' 0x20007027 0xfdf0707f (Some MF_opcode) 0x10000008,
    opc ''vlseg3e64.v'' 0 INSN_CLASS_V ''Vd,0(s)Vm'' 0x40007007 0xfdf0707f (Some MF_opcode) 0x10000008,
    opc ''vsseg3e64.v'' 0 INSN_CLASS_V ''Vd,0(s)Vm'' 0x40007027 0xfdf0707f (Some MF_opcode) 0x10000008,
    opc ''vlseg4e64.v'' 0 INSN_CLASS_V ''Vd,0(s)Vm'' 0x60007007 0xfdf0707f (Some MF_opcode) 0x10000008,
    opc ''vsseg4e64.v'' 0 INSN_CLASS_V ''Vd,0(s)Vm'' 0x60007027 0xfdf0707f (Some MF_opcode) 0x10000008,
    opc ''vlseg5e64.v'' 0 INSN_CLASS_V ''Vd,0(s)Vm'' 0x80007007 0xfdf0707f (Some MF_opcode) 0x10000008,
    opc ''vsseg5e64.v'' 0 INSN_CLASS_V ''Vd,0(s)Vm'' 0x80007027 0xfdf0707f (Some MF_opcode) 0x10000008,
    opc ''vlseg6e64.v'' 0 INSN_CLASS_V ''Vd,0(s)Vm'' 0xa0007007 0xfdf0707f (Some MF_opcode) 0x10000008,
    opc ''vsseg6e64.v'' 0 INSN_CLASS_V ''Vd,0(s)Vm'' 0xa0007027 0xfdf0707f (Some MF_opcode) 0x10000008,
    opc ''vlseg7e64.v'' 0 INSN_CLASS_V ''Vd,0(s)Vm'' 0xc0007007 0xfdf0707f (Some MF_opcode) 0x10000008,
    opc ''vsseg7e64.v'' 0 INSN_CLASS_V ''Vd,0(s)Vm'' 0xc0007027 0xfdf0707f (Some MF_opcode) 0x10000008,
    opc ''vlseg8e64.v'' 0 INSN_CLASS_V ''Vd,0(s)Vm'' 0xe0007007 0xfdf0707f (Some MF_opcode) 0x10000008,
    opc ''vsseg8e64.v'' 0 INSN_CLASS_V ''Vd,0(s)Vm'' 0xe0007027 0xfdf0707f (Some MF_opcode) 0x10000008,
    opc ''vlsseg2e8.v'' 0 INSN_CLASS_V ''Vd,0(s),tVm'' 0x28000007 0xfc00707f (Some MF_opcode) 0x8,
    opc ''vssseg2e8.v'' 0 INSN_CLASS_V ''Vd,0(s),tVm'' 0x28000027 0xfc00707f (Some MF_opcode) 0x8,
    opc ''vlsseg3e8.v'' 0 INSN_CLASS_V ''Vd,0(s),tVm'' 0x48000007 0xfc00707f (Some MF_opcode) 0x8,
    opc ''vssseg3e8.v'' 0 INSN_CLASS_V ''Vd,0(s),tVm'' 0x48000027 0xfc00707f (Some MF_opcode) 0x8,
    opc ''vlsseg4e8.v'' 0 INSN_CLASS_V ''Vd,0(s),tVm'' 0x68000007 0xfc00707f (Some MF_opcode) 0x8,
    opc ''vssseg4e8.v'' 0 INSN_CLASS_V ''Vd,0(s),tVm'' 0x68000027 0xfc00707f (Some MF_opcode) 0x8,
    opc ''vlsseg5e8.v'' 0 INSN_CLASS_V ''Vd,0(s),tVm'' 0x88000007 0xfc00707f (Some MF_opcode) 0x8,
    opc ''vssseg5e8.v'' 0 INSN_CLASS_V ''Vd,0(s),tVm'' 0x88000027 0xfc00707f (Some MF_opcode) 0x8,
    opc ''vlsseg6e8.v'' 0 INSN_CLASS_V ''Vd,0(s),tVm'' 0xa8000007 0xfc00707f (Some MF_opcode) 0x8,
    opc ''vssseg6e8.v'' 0 INSN_CLASS_V ''Vd,0(s),tVm'' 0xa8000027 0xfc00707f (Some MF_opcode) 0x8,
    opc ''vlsseg7e8.v'' 0 INSN_CLASS_V ''Vd,0(s),tVm'' 0xc8000007 0xfc00707f (Some MF_opcode) 0x8,
    opc ''vssseg7e8.v'' 0 INSN_CLASS_V ''Vd,0(s),tVm'' 0xc8000027 0xfc00707f (Some MF_opcode) 0x8,
    opc ''vlsseg8e8.v'' 0 INSN_CLASS_V ''Vd,0(s),tVm'' 0xe8000007 0xfc00707f (Some MF_opcode) 0x8,
    opc ''vssseg8e8.v'' 0 INSN_CLASS_V ''Vd,0(s),tVm'' 0xe8000027 0xfc00707f (Some MF_opcode) 0x8,
    opc ''vlsseg2e16.v'' 0 INSN_CLASS_V ''Vd,0(s),tVm'' 0x28005007 0xfc00707f (Some MF_opcode) 0x8,
    opc ''vssseg2e16.v'' 0 INSN_CLASS_V ''Vd,0(s),tVm'' 0x28005027 0xfc00707f (Some MF_opcode) 0x8,
    opc ''vlsseg3e16.v'' 0 INSN_CLASS_V ''Vd,0(s),tVm'' 0x48005007 0xfc00707f (Some MF_opcode) 0x8,
    opc ''vssseg3e16.v'' 0 INSN_CLASS_V ''Vd,0(s),tVm'' 0x48005027 0xfc00707f (Some MF_opcode) 0x8,
    opc ''vlsseg4e16.v'' 0 INSN_CLASS_V ''Vd,0(s),tVm'' 0x68005007 0xfc00707f (Some MF_opcode) 0x8,
    opc ''vssseg4e16.v'' 0 INSN_CLASS_V ''Vd,0(s),tVm'' 0x68005027 0xfc00707f (Some MF_opcode) 0x8,
    opc ''vlsseg5e16.v'' 0 INSN_CLASS_V ''Vd,0(s),tVm'' 0x88005007 0xfc00707f (Some MF_opcode) 0x8,
    opc ''vssseg5e16.v'' 0 INSN_CLASS_V ''Vd,0(s),tVm'' 0x88005027 0xfc00707f (Some MF_opcode) 0x8,
    opc ''vlsseg6e16.v'' 0 INSN_CLASS_V ''Vd,0(s),tVm'' 0xa8005007 0xfc00707f (Some MF_opcode) 0x8,
    opc ''vssseg6e16.v'' 0 INSN_CLASS_V ''Vd,0(s),tVm'' 0xa8005027 0xfc00707f (Some MF_opcode) 0x8,
    opc ''vlsseg7e16.v'' 0 INSN_CLASS_V ''Vd,0(s),tVm'' 0xc8005007 0xfc00707f (Some MF_opcode) 0x8,
    opc ''vssseg7e16.v'' 0 INSN_CLASS_V ''Vd,0(s),tVm'' 0xc8005027 0xfc00707f (Some MF_opcode) 0x8,
    opc ''vlsseg8e16.v'' 0 INSN_CLASS_V ''Vd,0(s),tVm'' 0xe8005007 0xfc00707f (Some MF_opcode) 0x8,
    opc ''vssseg8e16.v'' 0 INSN_CLASS_V ''Vd,0(s),tVm'' 0xe8005027 0xfc00707f (Some MF_opcode) 0x8,
    opc ''vlsseg2e32.v'' 0 INSN_CLASS_V ''Vd,0(s),tVm'' 0x28006007 0xfc00707f (Some MF_opcode) 0x8,
    opc ''vssseg2e32.v'' 0 INSN_CLASS_V ''Vd,0(s),tVm'' 0x28006027 0xfc00707f (Some MF_opcode) 0x8,
    opc ''vlsseg3e32.v'' 0 INSN_CLASS_V ''Vd,0(s),tVm'' 0x48006007 0xfc00707f (Some MF_opcode) 0x8,
    opc ''vssseg3e32.v'' 0 INSN_CLASS_V ''Vd,0(s),tVm'' 0x48006027 0xfc00707f (Some MF_opcode) 0x8,
    opc ''vlsseg4e32.v'' 0 INSN_CLASS_V ''Vd,0(s),tVm'' 0x68006007 0xfc00707f (Some MF_opcode) 0x8,
    opc ''vssseg4e32.v'' 0 INSN_CLASS_V ''Vd,0(s),tVm'' 0x68006027 0xfc00707f (Some MF_opcode) 0x8,
    opc ''vlsseg5e32.v'' 0 INSN_CLASS_V ''Vd,0(s),tVm'' 0x88006007 0xfc00707f (Some MF_opcode) 0x8,
    opc ''vssseg5e32.v'' 0 INSN_CLASS_V ''Vd,0(s),tVm'' 0x88006027 0xfc00707f (Some MF_opcode) 0x8,
    opc ''vlsseg6e32.v'' 0 INSN_CLASS_V ''Vd,0(s),tVm'' 0xa8006007 0xfc00707f (Some MF_opcode) 0x8,
    opc ''vssseg6e32.v'' 0 INSN_CLASS_V ''Vd,0(s),tVm'' 0xa8006027 0xfc00707f (Some MF_opcode) 0x8,
    opc ''vlsseg7e32.v'' 0 INSN_CLASS_V ''Vd,0(s),tVm'' 0xc8006007 0xfc00707f (Some MF_opcode) 0x8,
    opc ''vssseg7e32.v'' 0 INSN_CLASS_V ''Vd,0(s),tVm'' 0xc8006027 0xfc00707f (Some MF_opcode) 0x8,
    opc ''vlsseg8e32.v'' 0 INSN_CLASS_V ''Vd,0(s),tVm'' 0xe8006007 0xfc00707f (Some MF_opcode) 0x8,
    opc ''vssseg8e32.v'' 0 INSN_CLASS_V ''Vd,0(s),tVm'' 0xe8006027 0xfc00707f (Some MF_opcode) 0x8,
    opc ''vlsseg2e64.v'' 0 INSN_CLASS_V ''Vd,0(s),tVm'' 0x28007007 0xfc00707f (Some MF_opcode) 0x10000008,
    opc ''vssseg2e64.v'' 0 INSN_CLASS_V ''Vd,0(s),tVm'' 0x28007027 0xfc00707f (Some MF_opcode) 0x10000008,
    opc ''vlsseg3e64.v'' 0 INSN_CLASS_V ''Vd,0(s),tVm'' 0x48007007 0xfc00707f (Some MF_opcode) 0x10000008,
    opc ''vssseg3e64.v'' 0 INSN_CLASS_V ''Vd,0(s),tVm'' 0x48007027 0xfc00707f (Some MF_opcode) 0x10000008,
    opc ''vlsseg4e64.v'' 0 INSN_CLASS_V ''Vd,0(s),tVm'' 0x68007007 0xfc00707f (Some MF_opcode) 0x10000008,
    opc ''vssseg4e64.v'' 0 INSN_CLASS_V ''Vd,0(s),tVm'' 0x68007027 0xfc00707f (Some MF_opcode) 0x10000008,
    opc ''vlsseg5e64.v'' 0 INSN_CLASS_V ''Vd,0(s),tVm'' 0x88007007 0xfc00707f (Some MF_opcode) 0x10000008,
    opc ''vssseg5e64.v'' 0 INSN_CLASS_V ''Vd,0(s),tVm'' 0x88007027 0xfc00707f (Some MF_opcode) 0x10000008,
    opc ''vlsseg6e64.v'' 0 INSN_CLASS_V ''Vd,0(s),tVm'' 0xa8007007 0xfc00707f (Some MF_opcode) 0x10000008,
    opc ''vssseg6e64.v'' 0 INSN_CLASS_V ''Vd,0(s),tVm'' 0xa8007027 0xfc00707f (Some MF_opcode) 0x10000008,
    opc ''vlsseg7e64.v'' 0 INSN_CLASS_V ''Vd,0(s),tVm'' 0xc8007007 0xfc00707f (Some MF_opcode) 0x10000008,
    opc ''vssseg7e64.v'' 0 INSN_CLASS_V ''Vd,0(s),tVm'' 0xc8007027 0xfc00707f (Some MF_opcode) 0x10000008,
    opc ''vlsseg8e64.v'' 0 INSN_CLASS_V ''Vd,0(s),tVm'' 0xe8007007 0xfc00707f (Some MF_opcode) 0x10000008,
    opc ''vssseg8e64.v'' 0 INSN_CLASS_V ''Vd,0(s),tVm'' 0xe8007027 0xfc00707f (Some MF_opcode) 0x10000008,
    opc ''vloxseg2ei8.v'' 0 INSN_CLASS_V ''Vd,0(s),VtVm'' 0x2c000007 0xfc00707f (Some MF_opcode) 0x8,
    opc ''vsoxseg2ei8.v'' 0 INSN_CLASS_V ''Vd,0(s),VtVm'' 0x2c000027 0xfc00707f (Some MF_opcode) 0x8,
    opc ''vloxseg3ei8.v'' 0 INSN_CLASS_V ''Vd,0(s),VtVm'' 0x4c000007 0xfc00707f (Some MF_opcode) 0x8,
    opc ''vsoxseg3ei8.v'' 0 INSN_CLASS_V ''Vd,0(s),VtVm'' 0x4c000027 0xfc00707f (Some MF_opcode) 0x8,
    opc ''vloxseg4ei8.v'' 0 INSN_CLASS_V ''Vd,0(s),VtVm'' 0x6c000007 0xfc00707f (Some MF_opcode) 0x8,
    opc ''vsoxseg4ei8.v'' 0 INSN_CLASS_V ''Vd,0(s),VtVm'' 0x6c000027 0xfc00707f (Some MF_opcode) 0x8,
    opc ''vloxseg5ei8.v'' 0 INSN_CLASS_V ''Vd,0(s),VtVm'' 0x8c000007 0xfc00707f (Some MF_opcode) 0x8,
    opc ''vsoxseg5ei8.v'' 0 INSN_CLASS_V ''Vd,0(s),VtVm'' 0x8c000027 0xfc00707f (Some MF_opcode) 0x8,
    opc ''vloxseg6ei8.v'' 0 INSN_CLASS_V ''Vd,0(s),VtVm'' 0xac000007 0xfc00707f (Some MF_opcode) 0x8,
    opc ''vsoxseg6ei8.v'' 0 INSN_CLASS_V ''Vd,0(s),VtVm'' 0xac000027 0xfc00707f (Some MF_opcode) 0x8,
    opc ''vloxseg7ei8.v'' 0 INSN_CLASS_V ''Vd,0(s),VtVm'' 0xcc000007 0xfc00707f (Some MF_opcode) 0x8,
    opc ''vsoxseg7ei8.v'' 0 INSN_CLASS_V ''Vd,0(s),VtVm'' 0xcc000027 0xfc00707f (Some MF_opcode) 0x8,
    opc ''vloxseg8ei8.v'' 0 INSN_CLASS_V ''Vd,0(s),VtVm'' 0xec000007 0xfc00707f (Some MF_opcode) 0x8,
    opc ''vsoxseg8ei8.v'' 0 INSN_CLASS_V ''Vd,0(s),VtVm'' 0xec000027 0xfc00707f (Some MF_opcode) 0x8,
    opc ''vloxseg2ei16.v'' 0 INSN_CLASS_V ''Vd,0(s),VtVm'' 0x2c005007 0xfc00707f (Some MF_opcode) 0x8,
    opc ''vsoxseg2ei16.v'' 0 INSN_CLASS_V ''Vd,0(s),VtVm'' 0x2c005027 0xfc00707f (Some MF_opcode) 0x8,
    opc ''vloxseg3ei16.v'' 0 INSN_CLASS_V ''Vd,0(s),VtVm'' 0x4c005007 0xfc00707f (Some MF_opcode) 0x8,
    opc ''vsoxseg3ei16.v'' 0 INSN_CLASS_V ''Vd,0(s),VtVm'' 0x4c005027 0xfc00707f (Some MF_opcode) 0x8,
    opc ''vloxseg4ei16.v'' 0 INSN_CLASS_V ''Vd,0(s),VtVm'' 0x6c005007 0xfc00707f (Some MF_opcode) 0x8,
    opc ''vsoxseg4ei16.v'' 0 INSN_CLASS_V ''Vd,0(s),VtVm'' 0x6c005027 0xfc00707f (Some MF_opcode) 0x8,
    opc ''vloxseg5ei16.v'' 0 INSN_CLASS_V ''Vd,0(s),VtVm'' 0x8c005007 0xfc00707f (Some MF_opcode) 0x8,
    opc ''vsoxseg5ei16.v'' 0 INSN_CLASS_V ''Vd,0(s),VtVm'' 0x8c005027 0xfc00707f (Some MF_opcode) 0x8,
    opc ''vloxseg6ei16.v'' 0 INSN_CLASS_V ''Vd,0(s),VtVm'' 0xac005007 0xfc00707f (Some MF_opcode) 0x8,
    opc ''vsoxseg6ei16.v'' 0 INSN_CLASS_V ''Vd,0(s),VtVm'' 0xac005027 0xfc00707f (Some MF_opcode) 0x8,
    opc ''vloxseg7ei16.v'' 0 INSN_CLASS_V ''Vd,0(s),VtVm'' 0xcc005007 0xfc00707f (Some MF_opcode) 0x8,
    opc ''vsoxseg7ei16.v'' 0 INSN_CLASS_V ''Vd,0(s),VtVm'' 0xcc005027 0xfc00707f (Some MF_opcode) 0x8,
    opc ''vloxseg8ei16.v'' 0 INSN_CLASS_V ''Vd,0(s),VtVm'' 0xec005007 0xfc00707f (Some MF_opcode) 0x8,
    opc ''vsoxseg8ei16.v'' 0 INSN_CLASS_V ''Vd,0(s),VtVm'' 0xec005027 0xfc00707f (Some MF_opcode) 0x8,
    opc ''vloxseg2ei32.v'' 0 INSN_CLASS_V ''Vd,0(s),VtVm'' 0x2c006007 0xfc00707f (Some MF_opcode) 0x8,
    opc ''vsoxseg2ei32.v'' 0 INSN_CLASS_V ''Vd,0(s),VtVm'' 0x2c006027 0xfc00707f (Some MF_opcode) 0x8,
    opc ''vloxseg3ei32.v'' 0 INSN_CLASS_V ''Vd,0(s),VtVm'' 0x4c006007 0xfc00707f (Some MF_opcode) 0x8,
    opc ''vsoxseg3ei32.v'' 0 INSN_CLASS_V ''Vd,0(s),VtVm'' 0x4c006027 0xfc00707f (Some MF_opcode) 0x8,
    opc ''vloxseg4ei32.v'' 0 INSN_CLASS_V ''Vd,0(s),VtVm'' 0x6c006007 0xfc00707f (Some MF_opcode) 0x8,
    opc ''vsoxseg4ei32.v'' 0 INSN_CLASS_V ''Vd,0(s),VtVm'' 0x6c006027 0xfc00707f (Some MF_opcode) 0x8,
    opc ''vloxseg5ei32.v'' 0 INSN_CLASS_V ''Vd,0(s),VtVm'' 0x8c006007 0xfc00707f (Some MF_opcode) 0x8,
    opc ''vsoxseg5ei32.v'' 0 INSN_CLASS_V ''Vd,0(s),VtVm'' 0x8c006027 0xfc00707f (Some MF_opcode) 0x8,
    opc ''vloxseg6ei32.v'' 0 INSN_CLASS_V ''Vd,0(s),VtVm'' 0xac006007 0xfc00707f (Some MF_opcode) 0x8,
    opc ''vsoxseg6ei32.v'' 0 INSN_CLASS_V ''Vd,0(s),VtVm'' 0xac006027 0xfc00707f (Some MF_opcode) 0x8,
    opc ''vloxseg7ei32.v'' 0 INSN_CLASS_V ''Vd,0(s),VtVm'' 0xcc006007 0xfc00707f (Some MF_opcode) 0x8,
    opc ''vsoxseg7ei32.v'' 0 INSN_CLASS_V ''Vd,0(s),VtVm'' 0xcc006027 0xfc00707f (Some MF_opcode) 0x8,
    opc ''vloxseg8ei32.v'' 0 INSN_CLASS_V ''Vd,0(s),VtVm'' 0xec006007 0xfc00707f (Some MF_opcode) 0x8,
    opc ''vsoxseg8ei32.v'' 0 INSN_CLASS_V ''Vd,0(s),VtVm'' 0xec006027 0xfc00707f (Some MF_opcode) 0x8,
    opc ''vloxseg2ei64.v'' 0 INSN_CLASS_V ''Vd,0(s),VtVm'' 0x2c007007 0xfc00707f (Some MF_opcode) 0x10000008,
    opc ''vsoxseg2ei64.v'' 0 INSN_CLASS_V ''Vd,0(s),VtVm'' 0x2c007027 0xfc00707f (Some MF_opcode) 0x10000008,
    opc ''vloxseg3ei64.v'' 0 INSN_CLASS_V ''Vd,0(s),VtVm'' 0x4c007007 0xfc00707f (Some MF_opcode) 0x10000008,
    opc ''vsoxseg3ei64.v'' 0 INSN_CLASS_V ''Vd,0(s),VtVm'' 0x4c007027 0xfc00707f (Some MF_opcode) 0x10000008,
    opc ''vloxseg4ei64.v'' 0 INSN_CLASS_V ''Vd,0(s),VtVm'' 0x6c007007 0xfc00707f (Some MF_opcode) 0x10000008,
    opc ''vsoxseg4ei64.v'' 0 INSN_CLASS_V ''Vd,0(s),VtVm'' 0x6c007027 0xfc00707f (Some MF_opcode) 0x10000008,
    opc ''vloxseg5ei64.v'' 0 INSN_CLASS_V ''Vd,0(s),VtVm'' 0x8c007007 0xfc00707f (Some MF_opcode) 0x10000008,
    opc ''vsoxseg5ei64.v'' 0 INSN_CLASS_V ''Vd,0(s),VtVm'' 0x8c007027 0xfc00707f (Some MF_opcode) 0x10000008]"

definition riscv_opcodes_9 :: "riscv_opcode list" where
  "riscv_opcodes_9 = [
    opc ''vloxseg6ei64.v'' 0 INSN_CLASS_V ''Vd,0(s),VtVm'' 0xac007007 0xfc00707f (Some MF_opcode) 0x10000008,
    opc ''vsoxseg6ei64.v'' 0 INSN_CLASS_V ''Vd,0(s),VtVm'' 0xac007027 0xfc00707f (Some MF_opcode) 0x10000008,
    opc ''vloxseg7ei64.v'' 0 INSN_CLASS_V ''Vd,0(s),VtVm'' 0xcc007007 0xfc00707f (Some MF_opcode) 0x10000008,
    opc ''vsoxseg7ei64.v'' 0 INSN_CLASS_V ''Vd,0(s),VtVm'' 0xcc007027 0xfc00707f (Some MF_opcode) 0x10000008,
    opc ''vloxseg8ei64.v'' 0 INSN_CLASS_V ''Vd,0(s),VtVm'' 0xec007007 0xfc00707f (Some MF_opcode) 0x10000008,
    opc ''vsoxseg8ei64.v'' 0 INSN_CLASS_V ''Vd,0(s),VtVm'' 0xec007027 0xfc00707f (Some MF_opcode) 0x10000008,
    opc ''vluxseg2ei8.v'' 0 INSN_CLASS_V ''Vd,0(s),VtVm'' 0x24000007 0xfc00707f (Some MF_opcode) 0x8,
    opc ''vsuxseg2ei8.v'' 0 INSN_CLASS_V ''Vd,0(s),VtVm'' 0x24000027 0xfc00707f (Some MF_opcode) 0x8,
    opc ''vluxseg3ei8.v'' 0 INSN_CLASS_V ''Vd,0(s),VtVm'' 0x44000007 0xfc00707f (Some MF_opcode) 0x8,
    opc ''vsuxseg3ei8.v'' 0 INSN_CLASS_V ''Vd,0(s),VtVm'' 0x44000027 0xfc00707f (Some MF_opcode) 0x8,
    opc ''vluxseg4ei8.v'' 0 INSN_CLASS_V ''Vd,0(s),VtVm'' 0x64000007 0xfc00707f (Some MF_opcode) 0x8,
    opc ''vsuxseg4ei8.v'' 0 INSN_CLASS_V ''Vd,0(s),VtVm'' 0x64000027 0xfc00707f (Some MF_opcode) 0x8,
    opc ''vluxseg5ei8.v'' 0 INSN_CLASS_V ''Vd,0(s),VtVm'' 0x84000007 0xfc00707f (Some MF_opcode) 0x8,
    opc ''vsuxseg5ei8.v'' 0 INSN_CLASS_V ''Vd,0(s),VtVm'' 0x84000027 0xfc00707f (Some MF_opcode) 0x8,
    opc ''vluxseg6ei8.v'' 0 INSN_CLASS_V ''Vd,0(s),VtVm'' 0xa4000007 0xfc00707f (Some MF_opcode) 0x8,
    opc ''vsuxseg6ei8.v'' 0 INSN_CLASS_V ''Vd,0(s),VtVm'' 0xa4000027 0xfc00707f (Some MF_opcode) 0x8,
    opc ''vluxseg7ei8.v'' 0 INSN_CLASS_V ''Vd,0(s),VtVm'' 0xc4000007 0xfc00707f (Some MF_opcode) 0x8,
    opc ''vsuxseg7ei8.v'' 0 INSN_CLASS_V ''Vd,0(s),VtVm'' 0xc4000027 0xfc00707f (Some MF_opcode) 0x8,
    opc ''vluxseg8ei8.v'' 0 INSN_CLASS_V ''Vd,0(s),VtVm'' 0xe4000007 0xfc00707f (Some MF_opcode) 0x8,
    opc ''vsuxseg8ei8.v'' 0 INSN_CLASS_V ''Vd,0(s),VtVm'' 0xe4000027 0xfc00707f (Some MF_opcode) 0x8,
    opc ''vluxseg2ei16.v'' 0 INSN_CLASS_V ''Vd,0(s),VtVm'' 0x24005007 0xfc00707f (Some MF_opcode) 0x8,
    opc ''vsuxseg2ei16.v'' 0 INSN_CLASS_V ''Vd,0(s),VtVm'' 0x24005027 0xfc00707f (Some MF_opcode) 0x8,
    opc ''vluxseg3ei16.v'' 0 INSN_CLASS_V ''Vd,0(s),VtVm'' 0x44005007 0xfc00707f (Some MF_opcode) 0x8,
    opc ''vsuxseg3ei16.v'' 0 INSN_CLASS_V ''Vd,0(s),VtVm'' 0x44005027 0xfc00707f (Some MF_opcode) 0x8,
    opc ''vluxseg4ei16.v'' 0 INSN_CLASS_V ''Vd,0(s),VtVm'' 0x64005007 0xfc00707f (Some MF_opcode) 0x8,
    opc ''vsuxseg4ei16.v'' 0 INSN_CLASS_V ''Vd,0(s),VtVm'' 0x64005027 0xfc00707f (Some MF_opcode) 0x8,
    opc ''vluxseg5ei16.v'' 0 INSN_CLASS_V ''Vd,0(s),VtVm'' 0x84005007 0xfc00707f (Some MF_opcode) 0x8,
    opc ''vsuxseg5ei16.v'' 0 INSN_CLASS_V ''Vd,0(s),VtVm'' 0x84005027 0xfc00707f (Some MF_opcode) 0x8,
    opc ''vluxseg6ei16.v'' 0 INSN_CLASS_V ''Vd,0(s),VtVm'' 0xa4005007 0xfc00707f (Some MF_opcode) 0x8,
    opc ''vsuxseg6ei16.v'' 0 INSN_CLASS_V ''Vd,0(s),VtVm'' 0xa4005027 0xfc00707f (Some MF_opcode) 0x8,
    opc ''vluxseg7ei16.v'' 0 INSN_CLASS_V ''Vd,0(s),VtVm'' 0xc4005007 0xfc00707f (Some MF_opcode) 0x8,
    opc ''vsuxseg7ei16.v'' 0 INSN_CLASS_V ''Vd,0(s),VtVm'' 0xc4005027 0xfc00707f (Some MF_opcode) 0x8,
    opc ''vluxseg8ei16.v'' 0 INSN_CLASS_V ''Vd,0(s),VtVm'' 0xe4005007 0xfc00707f (Some MF_opcode) 0x8,
    opc ''vsuxseg8ei16.v'' 0 INSN_CLASS_V ''Vd,0(s),VtVm'' 0xe4005027 0xfc00707f (Some MF_opcode) 0x8,
    opc ''vluxseg2ei32.v'' 0 INSN_CLASS_V ''Vd,0(s),VtVm'' 0x24006007 0xfc00707f (Some MF_opcode) 0x8,
    opc ''vsuxseg2ei32.v'' 0 INSN_CLASS_V ''Vd,0(s),VtVm'' 0x24006027 0xfc00707f (Some MF_opcode) 0x8,
    opc ''vluxseg3ei32.v'' 0 INSN_CLASS_V ''Vd,0(s),VtVm'' 0x44006007 0xfc00707f (Some MF_opcode) 0x8,
    opc ''vsuxseg3ei32.v'' 0 INSN_CLASS_V ''Vd,0(s),VtVm'' 0x44006027 0xfc00707f (Some MF_opcode) 0x8,
    opc ''vluxseg4ei32.v'' 0 INSN_CLASS_V ''Vd,0(s),VtVm'' 0x64006007 0xfc00707f (Some MF_opcode) 0x8,
    opc ''vsuxseg4ei32.v'' 0 INSN_CLASS_V ''Vd,0(s),VtVm'' 0x64006027 0xfc00707f (Some MF_opcode) 0x8,
    opc ''vluxseg5ei32.v'' 0 INSN_CLASS_V ''Vd,0(s),VtVm'' 0x84006007 0xfc00707f (Some MF_opcode) 0x8,
    opc ''vsuxseg5ei32.v'' 0 INSN_CLASS_V ''Vd,0(s),VtVm'' 0x84006027 0xfc00707f (Some MF_opcode) 0x8,
    opc ''vluxseg6ei32.v'' 0 INSN_CLASS_V ''Vd,0(s),VtVm'' 0xa4006007 0xfc00707f (Some MF_opcode) 0x8,
    opc ''vsuxseg6ei32.v'' 0 INSN_CLASS_V ''Vd,0(s),VtVm'' 0xa4006027 0xfc00707f (Some MF_opcode) 0x8,
    opc ''vluxseg7ei32.v'' 0 INSN_CLASS_V ''Vd,0(s),VtVm'' 0xc4006007 0xfc00707f (Some MF_opcode) 0x8,
    opc ''vsuxseg7ei32.v'' 0 INSN_CLASS_V ''Vd,0(s),VtVm'' 0xc4006027 0xfc00707f (Some MF_opcode) 0x8,
    opc ''vluxseg8ei32.v'' 0 INSN_CLASS_V ''Vd,0(s),VtVm'' 0xe4006007 0xfc00707f (Some MF_opcode) 0x8,
    opc ''vsuxseg8ei32.v'' 0 INSN_CLASS_V ''Vd,0(s),VtVm'' 0xe4006027 0xfc00707f (Some MF_opcode) 0x8,
    opc ''vluxseg2ei64.v'' 0 INSN_CLASS_V ''Vd,0(s),VtVm'' 0x24007007 0xfc00707f (Some MF_opcode) 0x10000008,
    opc ''vsuxseg2ei64.v'' 0 INSN_CLASS_V ''Vd,0(s),VtVm'' 0x24007027 0xfc00707f (Some MF_opcode) 0x10000008,
    opc ''vluxseg3ei64.v'' 0 INSN_CLASS_V ''Vd,0(s),VtVm'' 0x44007007 0xfc00707f (Some MF_opcode) 0x10000008,
    opc ''vsuxseg3ei64.v'' 0 INSN_CLASS_V ''Vd,0(s),VtVm'' 0x44007027 0xfc00707f (Some MF_opcode) 0x10000008,
    opc ''vluxseg4ei64.v'' 0 INSN_CLASS_V ''Vd,0(s),VtVm'' 0x64007007 0xfc00707f (Some MF_opcode) 0x10000008,
    opc ''vsuxseg4ei64.v'' 0 INSN_CLASS_V ''Vd,0(s),VtVm'' 0x64007027 0xfc00707f (Some MF_opcode) 0x10000008,
    opc ''vluxseg5ei64.v'' 0 INSN_CLASS_V ''Vd,0(s),VtVm'' 0x84007007 0xfc00707f (Some MF_opcode) 0x10000008,
    opc ''vsuxseg5ei64.v'' 0 INSN_CLASS_V ''Vd,0(s),VtVm'' 0x84007027 0xfc00707f (Some MF_opcode) 0x10000008,
    opc ''vluxseg6ei64.v'' 0 INSN_CLASS_V ''Vd,0(s),VtVm'' 0xa4007007 0xfc00707f (Some MF_opcode) 0x10000008,
    opc ''vsuxseg6ei64.v'' 0 INSN_CLASS_V ''Vd,0(s),VtVm'' 0xa4007027 0xfc00707f (Some MF_opcode) 0x10000008,
    opc ''vluxseg7ei64.v'' 0 INSN_CLASS_V ''Vd,0(s),VtVm'' 0xc4007007 0xfc00707f (Some MF_opcode) 0x10000008,
    opc ''vsuxseg7ei64.v'' 0 INSN_CLASS_V ''Vd,0(s),VtVm'' 0xc4007027 0xfc00707f (Some MF_opcode) 0x10000008,
    opc ''vluxseg8ei64.v'' 0 INSN_CLASS_V ''Vd,0(s),VtVm'' 0xe4007007 0xfc00707f (Some MF_opcode) 0x10000008,
    opc ''vsuxseg8ei64.v'' 0 INSN_CLASS_V ''Vd,0(s),VtVm'' 0xe4007027 0xfc00707f (Some MF_opcode) 0x10000008,
    opc ''vlseg2e8ff.v'' 0 INSN_CLASS_V ''Vd,0(s)Vm'' 0x21000007 0xfdf0707f (Some MF_opcode) 0x8,
    opc ''vlseg3e8ff.v'' 0 INSN_CLASS_V ''Vd,0(s)Vm'' 0x41000007 0xfdf0707f (Some MF_opcode) 0x8,
    opc ''vlseg4e8ff.v'' 0 INSN_CLASS_V ''Vd,0(s)Vm'' 0x61000007 0xfdf0707f (Some MF_opcode) 0x8,
    opc ''vlseg5e8ff.v'' 0 INSN_CLASS_V ''Vd,0(s)Vm'' 0x81000007 0xfdf0707f (Some MF_opcode) 0x8,
    opc ''vlseg6e8ff.v'' 0 INSN_CLASS_V ''Vd,0(s)Vm'' 0xa1000007 0xfdf0707f (Some MF_opcode) 0x8,
    opc ''vlseg7e8ff.v'' 0 INSN_CLASS_V ''Vd,0(s)Vm'' 0xc1000007 0xfdf0707f (Some MF_opcode) 0x8,
    opc ''vlseg8e8ff.v'' 0 INSN_CLASS_V ''Vd,0(s)Vm'' 0xe1000007 0xfdf0707f (Some MF_opcode) 0x8,
    opc ''vlseg2e16ff.v'' 0 INSN_CLASS_V ''Vd,0(s)Vm'' 0x21005007 0xfdf0707f (Some MF_opcode) 0x8,
    opc ''vlseg3e16ff.v'' 0 INSN_CLASS_V ''Vd,0(s)Vm'' 0x41005007 0xfdf0707f (Some MF_opcode) 0x8,
    opc ''vlseg4e16ff.v'' 0 INSN_CLASS_V ''Vd,0(s)Vm'' 0x61005007 0xfdf0707f (Some MF_opcode) 0x8,
    opc ''vlseg5e16ff.v'' 0 INSN_CLASS_V ''Vd,0(s)Vm'' 0x81005007 0xfdf0707f (Some MF_opcode) 0x8,
    opc ''vlseg6e16ff.v'' 0 INSN_CLASS_V ''Vd,0(s)Vm'' 0xa1005007 0xfdf0707f (Some MF_opcode) 0x8,
    opc ''vlseg7e16ff.v'' 0 INSN_CLASS_V ''Vd,0(s)Vm'' 0xc1005007 0xfdf0707f (Some MF_opcode) 0x8,
    opc ''vlseg8e16ff.v'' 0 INSN_CLASS_V ''Vd,0(s)Vm'' 0xe1005007 0xfdf0707f (Some MF_opcode) 0x8,
    opc ''vlseg2e32ff.v'' 0 INSN_CLASS_V ''Vd,0(s)Vm'' 0x21006007 0xfdf0707f (Some MF_opcode) 0x8,
    opc ''vlseg3e32ff.v'' 0 INSN_CLASS_V ''Vd,0(s)Vm'' 0x41006007 0xfdf0707f (Some MF_opcode) 0x8,
    opc ''vlseg4e32ff.v'' 0 INSN_CLASS_V ''Vd,0(s)Vm'' 0x61006007 0xfdf0707f (Some MF_opcode) 0x8,
    opc ''vlseg5e32ff.v'' 0 INSN_CLASS_V ''Vd,0(s)Vm'' 0x81006007 0xfdf0707f (Some MF_opcode) 0x8,
    opc ''vlseg6e32ff.v'' 0 INSN_CLASS_V ''Vd,0(s)Vm'' 0xa1006007 0xfdf0707f (Some MF_opcode) 0x8,
    opc ''vlseg7e32ff.v'' 0 INSN_CLASS_V ''Vd,0(s)Vm'' 0xc1006007 0xfdf0707f (Some MF_opcode) 0x8,
    opc ''vlseg8e32ff.v'' 0 INSN_CLASS_V ''Vd,0(s)Vm'' 0xe1006007 0xfdf0707f (Some MF_opcode) 0x8,
    opc ''vlseg2e64ff.v'' 0 INSN_CLASS_V ''Vd,0(s)Vm'' 0x21007007 0xfdf0707f (Some MF_opcode) 0x10000008,
    opc ''vlseg3e64ff.v'' 0 INSN_CLASS_V ''Vd,0(s)Vm'' 0x41007007 0xfdf0707f (Some MF_opcode) 0x10000008,
    opc ''vlseg4e64ff.v'' 0 INSN_CLASS_V ''Vd,0(s)Vm'' 0x61007007 0xfdf0707f (Some MF_opcode) 0x10000008,
    opc ''vlseg5e64ff.v'' 0 INSN_CLASS_V ''Vd,0(s)Vm'' 0x81007007 0xfdf0707f (Some MF_opcode) 0x10000008,
    opc ''vlseg6e64ff.v'' 0 INSN_CLASS_V ''Vd,0(s)Vm'' 0xa1007007 0xfdf0707f (Some MF_opcode) 0x10000008,
    opc ''vlseg7e64ff.v'' 0 INSN_CLASS_V ''Vd,0(s)Vm'' 0xc1007007 0xfdf0707f (Some MF_opcode) 0x10000008,
    opc ''vlseg8e64ff.v'' 0 INSN_CLASS_V ''Vd,0(s)Vm'' 0xe1007007 0xfdf0707f (Some MF_opcode) 0x10000008,
    opc ''vl1r.v'' 0 INSN_CLASS_V ''Vd,0(s)'' 0x2800007 0xfff0707f (Some MF_opcode) 0x9,
    opc ''vl1re8.v'' 0 INSN_CLASS_V ''Vd,0(s)'' 0x2800007 0xfff0707f (Some MF_opcode) 0x8,
    opc ''vl1re16.v'' 0 INSN_CLASS_V ''Vd,0(s)'' 0x2805007 0xfff0707f (Some MF_opcode) 0x8,
    opc ''vl1re32.v'' 0 INSN_CLASS_V ''Vd,0(s)'' 0x2806007 0xfff0707f (Some MF_opcode) 0x8,
    opc ''vl1re64.v'' 0 INSN_CLASS_V ''Vd,0(s)'' 0x2807007 0xfff0707f (Some MF_opcode) 0x10000008,
    opc ''vl2r.v'' 0 INSN_CLASS_V ''Vd,0(s)'' 0x22800007 0xfff0707f (Some MF_opcode) 0x9,
    opc ''vl2re8.v'' 0 INSN_CLASS_V ''Vd,0(s)'' 0x22800007 0xfff0707f (Some MF_opcode) 0x8,
    opc ''vl2re16.v'' 0 INSN_CLASS_V ''Vd,0(s)'' 0x22805007 0xfff0707f (Some MF_opcode) 0x8,
    opc ''vl2re32.v'' 0 INSN_CLASS_V ''Vd,0(s)'' 0x22806007 0xfff0707f (Some MF_opcode) 0x8,
    opc ''vl2re64.v'' 0 INSN_CLASS_V ''Vd,0(s)'' 0x22807007 0xfff0707f (Some MF_opcode) 0x10000008,
    opc ''vl4r.v'' 0 INSN_CLASS_V ''Vd,0(s)'' 0x62800007 0xfff0707f (Some MF_opcode) 0x9,
    opc ''vl4re8.v'' 0 INSN_CLASS_V ''Vd,0(s)'' 0x62800007 0xfff0707f (Some MF_opcode) 0x8,
    opc ''vl4re16.v'' 0 INSN_CLASS_V ''Vd,0(s)'' 0x62805007 0xfff0707f (Some MF_opcode) 0x8,
    opc ''vl4re32.v'' 0 INSN_CLASS_V ''Vd,0(s)'' 0x62806007 0xfff0707f (Some MF_opcode) 0x8,
    opc ''vl4re64.v'' 0 INSN_CLASS_V ''Vd,0(s)'' 0x62807007 0xfff0707f (Some MF_opcode) 0x10000008,
    opc ''vl8r.v'' 0 INSN_CLASS_V ''Vd,0(s)'' 0xe2800007 0xfff0707f (Some MF_opcode) 0x9,
    opc ''vl8re8.v'' 0 INSN_CLASS_V ''Vd,0(s)'' 0xe2800007 0xfff0707f (Some MF_opcode) 0x8,
    opc ''vl8re16.v'' 0 INSN_CLASS_V ''Vd,0(s)'' 0xe2805007 0xfff0707f (Some MF_opcode) 0x8,
    opc ''vl8re32.v'' 0 INSN_CLASS_V ''Vd,0(s)'' 0xe2806007 0xfff0707f (Some MF_opcode) 0x8,
    opc ''vl8re64.v'' 0 INSN_CLASS_V ''Vd,0(s)'' 0xe2807007 0xfff0707f (Some MF_opcode) 0x10000008,
    opc ''vs1r.v'' 0 INSN_CLASS_V ''Vd,0(s)'' 0x2800027 0xfff0707f (Some MF_opcode) 0x8,
    opc ''vs2r.v'' 0 INSN_CLASS_V ''Vd,0(s)'' 0x22800027 0xfff0707f (Some MF_opcode) 0x8,
    opc ''vs4r.v'' 0 INSN_CLASS_V ''Vd,0(s)'' 0x62800027 0xfff0707f (Some MF_opcode) 0x8,
    opc ''vs8r.v'' 0 INSN_CLASS_V ''Vd,0(s)'' 0xe2800027 0xfff0707f (Some MF_opcode) 0x8,
    opc ''vneg.v'' 0 INSN_CLASS_V ''Vd,VtVm'' 0xc004057 0xfc0ff07f (Some MF_opcode) 0x1,
    opc ''vadd.vv'' 0 INSN_CLASS_V ''Vd,Vt,VsVm'' 0x57 0xfc00707f (Some MF_opcode) 0,
    opc ''vadd.vx'' 0 INSN_CLASS_V ''Vd,Vt,sVm'' 0x4057 0xfc00707f (Some MF_opcode) 0,
    opc ''vadd.vi'' 0 INSN_CLASS_V ''Vd,Vt,ViVm'' 0x3057 0xfc00707f (Some MF_opcode) 0,
    opc ''vsub.vv'' 0 INSN_CLASS_V ''Vd,Vt,VsVm'' 0x8000057 0xfc00707f (Some MF_opcode) 0,
    opc ''vsub.vx'' 0 INSN_CLASS_V ''Vd,Vt,sVm'' 0x8004057 0xfc00707f (Some MF_opcode) 0,
    opc ''vrsub.vx'' 0 INSN_CLASS_V ''Vd,Vt,sVm'' 0xc004057 0xfc00707f (Some MF_opcode) 0,
    opc ''vrsub.vi'' 0 INSN_CLASS_V ''Vd,Vt,ViVm'' 0xc003057 0xfc00707f (Some MF_opcode) 0,
    opc ''vwcvt.x.x.v'' 0 INSN_CLASS_V ''Vd,VtVm'' 0xc4006057 0xfc0ff07f (Some MF_opcode) 0x1,
    opc ''vwcvtu.x.x.v'' 0 INSN_CLASS_V ''Vd,VtVm'' 0xc0006057 0xfc0ff07f (Some MF_opcode) 0x1,
    opc ''vwaddu.vv'' 0 INSN_CLASS_V ''Vd,Vt,VsVm'' 0xc0002057 0xfc00707f (Some MF_opcode) 0,
    opc ''vwaddu.vx'' 0 INSN_CLASS_V ''Vd,Vt,sVm'' 0xc0006057 0xfc00707f (Some MF_opcode) 0,
    opc ''vwsubu.vv'' 0 INSN_CLASS_V ''Vd,Vt,VsVm'' 0xc8002057 0xfc00707f (Some MF_opcode) 0,
    opc ''vwsubu.vx'' 0 INSN_CLASS_V ''Vd,Vt,sVm'' 0xc8006057 0xfc00707f (Some MF_opcode) 0,
    opc ''vwadd.vv'' 0 INSN_CLASS_V ''Vd,Vt,VsVm'' 0xc4002057 0xfc00707f (Some MF_opcode) 0,
    opc ''vwadd.vx'' 0 INSN_CLASS_V ''Vd,Vt,sVm'' 0xc4006057 0xfc00707f (Some MF_opcode) 0,
    opc ''vwsub.vv'' 0 INSN_CLASS_V ''Vd,Vt,VsVm'' 0xcc002057 0xfc00707f (Some MF_opcode) 0,
    opc ''vwsub.vx'' 0 INSN_CLASS_V ''Vd,Vt,sVm'' 0xcc006057 0xfc00707f (Some MF_opcode) 0,
    opc ''vwaddu.wv'' 0 INSN_CLASS_V ''Vd,Vt,VsVm'' 0xd0002057 0xfc00707f (Some MF_opcode) 0]"

definition riscv_opcodes_10 :: "riscv_opcode list" where
  "riscv_opcodes_10 = [
    opc ''vwaddu.wx'' 0 INSN_CLASS_V ''Vd,Vt,sVm'' 0xd0006057 0xfc00707f (Some MF_opcode) 0,
    opc ''vwsubu.wv'' 0 INSN_CLASS_V ''Vd,Vt,VsVm'' 0xd8002057 0xfc00707f (Some MF_opcode) 0,
    opc ''vwsubu.wx'' 0 INSN_CLASS_V ''Vd,Vt,sVm'' 0xd8006057 0xfc00707f (Some MF_opcode) 0,
    opc ''vwadd.wv'' 0 INSN_CLASS_V ''Vd,Vt,VsVm'' 0xd4002057 0xfc00707f (Some MF_opcode) 0,
    opc ''vwadd.wx'' 0 INSN_CLASS_V ''Vd,Vt,sVm'' 0xd4006057 0xfc00707f (Some MF_opcode) 0,
    opc ''vwsub.wv'' 0 INSN_CLASS_V ''Vd,Vt,VsVm'' 0xdc002057 0xfc00707f (Some MF_opcode) 0,
    opc ''vwsub.wx'' 0 INSN_CLASS_V ''Vd,Vt,sVm'' 0xdc006057 0xfc00707f (Some MF_opcode) 0,
    opc ''vzext.vf2'' 0 INSN_CLASS_V ''Vd,VtVm'' 0x48032057 0xfc0ff07f (Some MF_opcode) 0,
    opc ''vsext.vf2'' 0 INSN_CLASS_V ''Vd,VtVm'' 0x4803a057 0xfc0ff07f (Some MF_opcode) 0,
    opc ''vzext.vf4'' 0 INSN_CLASS_V ''Vd,VtVm'' 0x48022057 0xfc0ff07f (Some MF_opcode) 0,
    opc ''vsext.vf4'' 0 INSN_CLASS_V ''Vd,VtVm'' 0x4802a057 0xfc0ff07f (Some MF_opcode) 0,
    opc ''vzext.vf8'' 0 INSN_CLASS_V ''Vd,VtVm'' 0x48012057 0xfc0ff07f (Some MF_opcode) 0,
    opc ''vsext.vf8'' 0 INSN_CLASS_V ''Vd,VtVm'' 0x4801a057 0xfc0ff07f (Some MF_opcode) 0,
    opc ''vadc.vvm'' 0 INSN_CLASS_V ''Vd,Vt,Vs,V0'' 0x40000057 0xfe00707f (Some MF_opcode) 0,
    opc ''vadc.vxm'' 0 INSN_CLASS_V ''Vd,Vt,s,V0'' 0x40004057 0xfe00707f (Some MF_opcode) 0,
    opc ''vadc.vim'' 0 INSN_CLASS_V ''Vd,Vt,Vi,V0'' 0x40003057 0xfe00707f (Some MF_opcode) 0,
    opc ''vmadc.vvm'' 0 INSN_CLASS_V ''Vd,Vt,Vs,V0'' 0x44000057 0xfe00707f (Some MF_opcode) 0,
    opc ''vmadc.vxm'' 0 INSN_CLASS_V ''Vd,Vt,s,V0'' 0x44004057 0xfe00707f (Some MF_opcode) 0,
    opc ''vmadc.vim'' 0 INSN_CLASS_V ''Vd,Vt,Vi,V0'' 0x44003057 0xfe00707f (Some MF_opcode) 0,
    opc ''vmadc.vv'' 0 INSN_CLASS_V ''Vd,Vt,Vs'' 0x46000057 0xfe00707f (Some MF_opcode) 0,
    opc ''vmadc.vx'' 0 INSN_CLASS_V ''Vd,Vt,s'' 0x46004057 0xfe00707f (Some MF_opcode) 0,
    opc ''vmadc.vi'' 0 INSN_CLASS_V ''Vd,Vt,Vi'' 0x46003057 0xfe00707f (Some MF_opcode) 0,
    opc ''vsbc.vvm'' 0 INSN_CLASS_V ''Vd,Vt,Vs,V0'' 0x48000057 0xfe00707f (Some MF_opcode) 0,
    opc ''vsbc.vxm'' 0 INSN_CLASS_V ''Vd,Vt,s,V0'' 0x48004057 0xfe00707f (Some MF_opcode) 0,
    opc ''vmsbc.vvm'' 0 INSN_CLASS_V ''Vd,Vt,Vs,V0'' 0x4c000057 0xfe00707f (Some MF_opcode) 0,
    opc ''vmsbc.vxm'' 0 INSN_CLASS_V ''Vd,Vt,s,V0'' 0x4c004057 0xfe00707f (Some MF_opcode) 0,
    opc ''vmsbc.vv'' 0 INSN_CLASS_V ''Vd,Vt,Vs'' 0x4e000057 0xfe00707f (Some MF_opcode) 0,
    opc ''vmsbc.vx'' 0 INSN_CLASS_V ''Vd,Vt,s'' 0x4e004057 0xfe00707f (Some MF_opcode) 0,
    opc ''vnot.v'' 0 INSN_CLASS_V ''Vd,VtVm'' 0x2c0fb057 0xfc0ff07f (Some MF_opcode) 0x1,
    opc ''vand.vv'' 0 INSN_CLASS_V ''Vd,Vt,VsVm'' 0x24000057 0xfc00707f (Some MF_opcode) 0,
    opc ''vand.vx'' 0 INSN_CLASS_V ''Vd,Vt,sVm'' 0x24004057 0xfc00707f (Some MF_opcode) 0,
    opc ''vand.vi'' 0 INSN_CLASS_V ''Vd,Vt,ViVm'' 0x24003057 0xfc00707f (Some MF_opcode) 0,
    opc ''vor.vv'' 0 INSN_CLASS_V ''Vd,Vt,VsVm'' 0x28000057 0xfc00707f (Some MF_opcode) 0,
    opc ''vor.vx'' 0 INSN_CLASS_V ''Vd,Vt,sVm'' 0x28004057 0xfc00707f (Some MF_opcode) 0,
    opc ''vor.vi'' 0 INSN_CLASS_V ''Vd,Vt,ViVm'' 0x28003057 0xfc00707f (Some MF_opcode) 0,
    opc ''vxor.vv'' 0 INSN_CLASS_V ''Vd,Vt,VsVm'' 0x2c000057 0xfc00707f (Some MF_opcode) 0,
    opc ''vxor.vx'' 0 INSN_CLASS_V ''Vd,Vt,sVm'' 0x2c004057 0xfc00707f (Some MF_opcode) 0,
    opc ''vxor.vi'' 0 INSN_CLASS_V ''Vd,Vt,ViVm'' 0x2c003057 0xfc00707f (Some MF_opcode) 0,
    opc ''vsll.vv'' 0 INSN_CLASS_V ''Vd,Vt,VsVm'' 0x94000057 0xfc00707f (Some MF_opcode) 0,
    opc ''vsll.vx'' 0 INSN_CLASS_V ''Vd,Vt,sVm'' 0x94004057 0xfc00707f (Some MF_opcode) 0,
    opc ''vsll.vi'' 0 INSN_CLASS_V ''Vd,Vt,VjVm'' 0x94003057 0xfc00707f (Some MF_opcode) 0,
    opc ''vsrl.vv'' 0 INSN_CLASS_V ''Vd,Vt,VsVm'' 0xa0000057 0xfc00707f (Some MF_opcode) 0,
    opc ''vsrl.vx'' 0 INSN_CLASS_V ''Vd,Vt,sVm'' 0xa0004057 0xfc00707f (Some MF_opcode) 0,
    opc ''vsrl.vi'' 0 INSN_CLASS_V ''Vd,Vt,VjVm'' 0xa0003057 0xfc00707f (Some MF_opcode) 0,
    opc ''vsra.vv'' 0 INSN_CLASS_V ''Vd,Vt,VsVm'' 0xa4000057 0xfc00707f (Some MF_opcode) 0,
    opc ''vsra.vx'' 0 INSN_CLASS_V ''Vd,Vt,sVm'' 0xa4004057 0xfc00707f (Some MF_opcode) 0,
    opc ''vsra.vi'' 0 INSN_CLASS_V ''Vd,Vt,VjVm'' 0xa4003057 0xfc00707f (Some MF_opcode) 0,
    opc ''vncvt.x.x.w'' 0 INSN_CLASS_V ''Vd,VtVm'' 0xb0004057 0xfc0ff07f (Some MF_opcode) 0x1,
    opc ''vnsrl.wv'' 0 INSN_CLASS_V ''Vd,Vt,VsVm'' 0xb0000057 0xfc00707f (Some MF_opcode) 0,
    opc ''vnsrl.wx'' 0 INSN_CLASS_V ''Vd,Vt,sVm'' 0xb0004057 0xfc00707f (Some MF_opcode) 0,
    opc ''vnsrl.wi'' 0 INSN_CLASS_V ''Vd,Vt,VjVm'' 0xb0003057 0xfc00707f (Some MF_opcode) 0,
    opc ''vnsra.wv'' 0 INSN_CLASS_V ''Vd,Vt,VsVm'' 0xb4000057 0xfc00707f (Some MF_opcode) 0,
    opc ''vnsra.wx'' 0 INSN_CLASS_V ''Vd,Vt,sVm'' 0xb4004057 0xfc00707f (Some MF_opcode) 0,
    opc ''vnsra.wi'' 0 INSN_CLASS_V ''Vd,Vt,VjVm'' 0xb4003057 0xfc00707f (Some MF_opcode) 0,
    opc ''vmseq.vv'' 0 INSN_CLASS_V ''Vd,Vt,VsVm'' 0x60000057 0xfc00707f (Some MF_opcode) 0,
    opc ''vmseq.vx'' 0 INSN_CLASS_V ''Vd,Vt,sVm'' 0x60004057 0xfc00707f (Some MF_opcode) 0,
    opc ''vmseq.vi'' 0 INSN_CLASS_V ''Vd,Vt,ViVm'' 0x60003057 0xfc00707f (Some MF_opcode) 0,
    opc ''vmsne.vv'' 0 INSN_CLASS_V ''Vd,Vt,VsVm'' 0x64000057 0xfc00707f (Some MF_opcode) 0,
    opc ''vmsne.vx'' 0 INSN_CLASS_V ''Vd,Vt,sVm'' 0x64004057 0xfc00707f (Some MF_opcode) 0,
    opc ''vmsne.vi'' 0 INSN_CLASS_V ''Vd,Vt,ViVm'' 0x64003057 0xfc00707f (Some MF_opcode) 0,
    opc ''vmsltu.vv'' 0 INSN_CLASS_V ''Vd,Vt,VsVm'' 0x68000057 0xfc00707f (Some MF_opcode) 0,
    opc ''vmsltu.vx'' 0 INSN_CLASS_V ''Vd,Vt,sVm'' 0x68004057 0xfc00707f (Some MF_opcode) 0,
    opc ''vmslt.vv'' 0 INSN_CLASS_V ''Vd,Vt,VsVm'' 0x6c000057 0xfc00707f (Some MF_opcode) 0,
    opc ''vmslt.vx'' 0 INSN_CLASS_V ''Vd,Vt,sVm'' 0x6c004057 0xfc00707f (Some MF_opcode) 0,
    opc ''vmsleu.vv'' 0 INSN_CLASS_V ''Vd,Vt,VsVm'' 0x70000057 0xfc00707f (Some MF_opcode) 0,
    opc ''vmsleu.vx'' 0 INSN_CLASS_V ''Vd,Vt,sVm'' 0x70004057 0xfc00707f (Some MF_opcode) 0,
    opc ''vmsleu.vi'' 0 INSN_CLASS_V ''Vd,Vt,ViVm'' 0x70003057 0xfc00707f (Some MF_opcode) 0,
    opc ''vmsle.vv'' 0 INSN_CLASS_V ''Vd,Vt,VsVm'' 0x74000057 0xfc00707f (Some MF_opcode) 0,
    opc ''vmsle.vx'' 0 INSN_CLASS_V ''Vd,Vt,sVm'' 0x74004057 0xfc00707f (Some MF_opcode) 0,
    opc ''vmsle.vi'' 0 INSN_CLASS_V ''Vd,Vt,ViVm'' 0x74003057 0xfc00707f (Some MF_opcode) 0,
    opc ''vmsgtu.vx'' 0 INSN_CLASS_V ''Vd,Vt,sVm'' 0x78004057 0xfc00707f (Some MF_opcode) 0,
    opc ''vmsgtu.vi'' 0 INSN_CLASS_V ''Vd,Vt,ViVm'' 0x78003057 0xfc00707f (Some MF_opcode) 0,
    opc ''vmsgt.vx'' 0 INSN_CLASS_V ''Vd,Vt,sVm'' 0x7c004057 0xfc00707f (Some MF_opcode) 0,
    opc ''vmsgt.vi'' 0 INSN_CLASS_V ''Vd,Vt,ViVm'' 0x7c003057 0xfc00707f (Some MF_opcode) 0,
    opc ''vmsgt.vv'' 0 INSN_CLASS_V ''Vd,Vs,VtVm'' 0x6c000057 0xfc00707f (Some MF_opcode) 0x1,
    opc ''vmsgtu.vv'' 0 INSN_CLASS_V ''Vd,Vs,VtVm'' 0x68000057 0xfc00707f (Some MF_opcode) 0x1,
    opc ''vmsge.vv'' 0 INSN_CLASS_V ''Vd,Vs,VtVm'' 0x74000057 0xfc00707f (Some MF_opcode) 0x1,
    opc ''vmsgeu.vv'' 0 INSN_CLASS_V ''Vd,Vs,VtVm'' 0x70000057 0xfc00707f (Some MF_opcode) 0x1,
    opc ''vmslt.vi'' 0 INSN_CLASS_V ''Vd,Vt,VkVm'' 0x74003057 0xfc00707f (Some MF_opcode) 0x1,
    opc ''vmsltu.vi'' 0 INSN_CLASS_V ''Vd,Vu,0Vm'' 0x64000057 0xfc00707f (Some MF_vs1_eq_vs2) 0x1,
    opc ''vmsltu.vi'' 0 INSN_CLASS_V ''Vd,Vt,VkVm'' 0x70003057 0xfc00707f (Some MF_opcode) 0x1,
    opc ''vmsge.vi'' 0 INSN_CLASS_V ''Vd,Vt,VkVm'' 0x7c003057 0xfc00707f (Some MF_opcode) 0x1,
    opc ''vmsgeu.vi'' 0 INSN_CLASS_V ''Vd,Vu,0Vm'' 0x60000057 0xfc00707f (Some MF_vs1_eq_vs2) 0x1,
    opc ''vmsgeu.vi'' 0 INSN_CLASS_V ''Vd,Vt,VkVm'' 0x78003057 0xfc00707f (Some MF_opcode) 0x1,
    opc ''vmsge.vx'' 0 INSN_CLASS_V ''Vd,Vt,sVm'' 0x0 0xe None INSN_MACRO,
    opc ''vmsge.vx'' 0 INSN_CLASS_V ''Vd,Vt,s,VM,VT'' 0x0 0xe None INSN_MACRO,
    opc ''vmsgeu.vx'' 0 INSN_CLASS_V ''Vd,Vt,sVm'' 0x1 0xe None INSN_MACRO,
    opc ''vmsgeu.vx'' 0 INSN_CLASS_V ''Vd,Vt,s,VM,VT'' 0x1 0xe None INSN_MACRO,
    opc ''vminu.vv'' 0 INSN_CLASS_V ''Vd,Vt,VsVm'' 0x10000057 0xfc00707f (Some MF_opcode) 0,
    opc ''vminu.vx'' 0 INSN_CLASS_V ''Vd,Vt,sVm'' 0x10004057 0xfc00707f (Some MF_opcode) 0,
    opc ''vmin.vv'' 0 INSN_CLASS_V ''Vd,Vt,VsVm'' 0x14000057 0xfc00707f (Some MF_opcode) 0,
    opc ''vmin.vx'' 0 INSN_CLASS_V ''Vd,Vt,sVm'' 0x14004057 0xfc00707f (Some MF_opcode) 0,
    opc ''vmaxu.vv'' 0 INSN_CLASS_V ''Vd,Vt,VsVm'' 0x18000057 0xfc00707f (Some MF_opcode) 0,
    opc ''vmaxu.vx'' 0 INSN_CLASS_V ''Vd,Vt,sVm'' 0x18004057 0xfc00707f (Some MF_opcode) 0,
    opc ''vmax.vv'' 0 INSN_CLASS_V ''Vd,Vt,VsVm'' 0x1c000057 0xfc00707f (Some MF_opcode) 0,
    opc ''vmax.vx'' 0 INSN_CLASS_V ''Vd,Vt,sVm'' 0x1c004057 0xfc00707f (Some MF_opcode) 0,
    opc ''vmul.vv'' 0 INSN_CLASS_V ''Vd,Vt,VsVm'' 0x94002057 0xfc00707f (Some MF_opcode) 0,
    opc ''vmul.vx'' 0 INSN_CLASS_V ''Vd,Vt,sVm'' 0x94006057 0xfc00707f (Some MF_opcode) 0,
    opc ''vmulh.vv'' 0 INSN_CLASS_V ''Vd,Vt,VsVm'' 0x9c002057 0xfc00707f (Some MF_opcode) 0,
    opc ''vmulh.vx'' 0 INSN_CLASS_V ''Vd,Vt,sVm'' 0x9c006057 0xfc00707f (Some MF_opcode) 0,
    opc ''vmulhu.vv'' 0 INSN_CLASS_V ''Vd,Vt,VsVm'' 0x90002057 0xfc00707f (Some MF_opcode) 0,
    opc ''vmulhu.vx'' 0 INSN_CLASS_V ''Vd,Vt,sVm'' 0x90006057 0xfc00707f (Some MF_opcode) 0,
    opc ''vmulhsu.vv'' 0 INSN_CLASS_V ''Vd,Vt,VsVm'' 0x98002057 0xfc00707f (Some MF_opcode) 0,
    opc ''vmulhsu.vx'' 0 INSN_CLASS_V ''Vd,Vt,sVm'' 0x98006057 0xfc00707f (Some MF_opcode) 0,
    opc ''vwmul.vv'' 0 INSN_CLASS_V ''Vd,Vt,VsVm'' 0xec002057 0xfc00707f (Some MF_opcode) 0,
    opc ''vwmul.vx'' 0 INSN_CLASS_V ''Vd,Vt,sVm'' 0xec006057 0xfc00707f (Some MF_opcode) 0,
    opc ''vwmulu.vv'' 0 INSN_CLASS_V ''Vd,Vt,VsVm'' 0xe0002057 0xfc00707f (Some MF_opcode) 0,
    opc ''vwmulu.vx'' 0 INSN_CLASS_V ''Vd,Vt,sVm'' 0xe0006057 0xfc00707f (Some MF_opcode) 0,
    opc ''vwmulsu.vv'' 0 INSN_CLASS_V ''Vd,Vt,VsVm'' 0xe8002057 0xfc00707f (Some MF_opcode) 0,
    opc ''vwmulsu.vx'' 0 INSN_CLASS_V ''Vd,Vt,sVm'' 0xe8006057 0xfc00707f (Some MF_opcode) 0,
    opc ''vmacc.vv'' 0 INSN_CLASS_V ''Vd,Vs,VtVm'' 0xb4002057 0xfc00707f (Some MF_opcode) 0,
    opc ''vmacc.vx'' 0 INSN_CLASS_V ''Vd,s,VtVm'' 0xb4006057 0xfc00707f (Some MF_opcode) 0,
    opc ''vnmsac.vv'' 0 INSN_CLASS_V ''Vd,Vs,VtVm'' 0xbc002057 0xfc00707f (Some MF_opcode) 0,
    opc ''vnmsac.vx'' 0 INSN_CLASS_V ''Vd,s,VtVm'' 0xbc006057 0xfc00707f (Some MF_opcode) 0,
    opc ''vmadd.vv'' 0 INSN_CLASS_V ''Vd,Vs,VtVm'' 0xa4002057 0xfc00707f (Some MF_opcode) 0,
    opc ''vmadd.vx'' 0 INSN_CLASS_V ''Vd,s,VtVm'' 0xa4006057 0xfc00707f (Some MF_opcode) 0,
    opc ''vnmsub.vv'' 0 INSN_CLASS_V ''Vd,Vs,VtVm'' 0xac002057 0xfc00707f (Some MF_opcode) 0,
    opc ''vnmsub.vx'' 0 INSN_CLASS_V ''Vd,s,VtVm'' 0xac006057 0xfc00707f (Some MF_opcode) 0,
    opc ''vwmaccu.vv'' 0 INSN_CLASS_V ''Vd,Vs,VtVm'' 0xf0002057 0xfc00707f (Some MF_opcode) 0,
    opc ''vwmaccu.vx'' 0 INSN_CLASS_V ''Vd,s,VtVm'' 0xf0006057 0xfc00707f (Some MF_opcode) 0,
    opc ''vwmacc.vv'' 0 INSN_CLASS_V ''Vd,Vs,VtVm'' 0xf4002057 0xfc00707f (Some MF_opcode) 0,
    opc ''vwmacc.vx'' 0 INSN_CLASS_V ''Vd,s,VtVm'' 0xf4006057 0xfc00707f (Some MF_opcode) 0,
    opc ''vwmaccsu.vv'' 0 INSN_CLASS_V ''Vd,Vs,VtVm'' 0xfc002057 0xfc00707f (Some MF_opcode) 0,
    opc ''vwmaccsu.vx'' 0 INSN_CLASS_V ''Vd,s,VtVm'' 0xfc006057 0xfc00707f (Some MF_opcode) 0,
    opc ''vwmaccus.vx'' 0 INSN_CLASS_V ''Vd,s,VtVm'' 0xf8006057 0xfc00707f (Some MF_opcode) 0,
    opc ''vdivu.vv'' 0 INSN_CLASS_V ''Vd,Vt,VsVm'' 0x80002057 0xfc00707f (Some MF_opcode) 0,
    opc ''vdivu.vx'' 0 INSN_CLASS_V ''Vd,Vt,sVm'' 0x80006057 0xfc00707f (Some MF_opcode) 0,
    opc ''vdiv.vv'' 0 INSN_CLASS_V ''Vd,Vt,VsVm'' 0x84002057 0xfc00707f (Some MF_opcode) 0,
    opc ''vdiv.vx'' 0 INSN_CLASS_V ''Vd,Vt,sVm'' 0x84006057 0xfc00707f (Some MF_opcode) 0,
    opc ''vremu.vv'' 0 INSN_CLASS_V ''Vd,Vt,VsVm'' 0x88002057 0xfc00707f (Some MF_opcode) 0,
    opc ''vremu.vx'' 0 INSN_CLASS_V ''Vd,Vt,sVm'' 0x88006057 0xfc00707f (Some MF_opcode) 0,
    opc ''vrem.vv'' 0 INSN_CLASS_V ''Vd,Vt,VsVm'' 0x8c002057 0xfc00707f (Some MF_opcode) 0,
    opc ''vrem.vx'' 0 INSN_CLASS_V ''Vd,Vt,sVm'' 0x8c006057 0xfc00707f (Some MF_opcode) 0,
    opc ''vmerge.vvm'' 0 INSN_CLASS_V ''Vd,Vt,Vs,V0'' 0x5c000057 0xfe00707f (Some MF_opcode) 0]"

end
