(* ===== verification/Opc_Table_3.thy ===== *)
theory Opc_Table_3
  imports Riscv_Opc
begin

text \<open>
  The opcode table of \<^verbatim>\<open>opcodes/riscv-opc.c\<close>, part 3 of 4 (lines 1870 to 2620), entry by entry and in the
  order of the source, since the first entry that fits wins. The \<^verbatim>\<open>MATCH\<close>, \<^verbatim>\<open>MASK\<close> and \<^verbatim>\<open>INSN\<close>
  macros of an entry are written as their values.
\<close>

definition riscv_opcodes_11 :: "riscv_opcode list" where
  "riscv_opcodes_11 = [
    opc ''vmerge.vxm'' 0 INSN_CLASS_V ''Vd,Vt,s,V0'' 0x5c004057 0xfe00707f (Some MF_opcode) 0,
    opc ''vmerge.vim'' 0 INSN_CLASS_V ''Vd,Vt,Vi,V0'' 0x5c003057 0xfe00707f (Some MF_opcode) 0,
    opc ''vmv.v.v'' 0 INSN_CLASS_V ''Vd,Vs'' 0x5e000057 0xfff0707f (Some MF_opcode) 0,
    opc ''vmv.v.x'' 0 INSN_CLASS_V ''Vd,s'' 0x5e004057 0xfff0707f (Some MF_opcode) 0,
    opc ''vmv.v.i'' 0 INSN_CLASS_V ''Vd,Vi'' 0x5e003057 0xfff0707f (Some MF_opcode) 0,
    opc ''vsaddu.vv'' 0 INSN_CLASS_V ''Vd,Vt,VsVm'' 0x80000057 0xfc00707f (Some MF_opcode) 0,
    opc ''vsaddu.vx'' 0 INSN_CLASS_V ''Vd,Vt,sVm'' 0x80004057 0xfc00707f (Some MF_opcode) 0,
    opc ''vsaddu.vi'' 0 INSN_CLASS_V ''Vd,Vt,ViVm'' 0x80003057 0xfc00707f (Some MF_opcode) 0,
    opc ''vsadd.vv'' 0 INSN_CLASS_V ''Vd,Vt,VsVm'' 0x84000057 0xfc00707f (Some MF_opcode) 0,
    opc ''vsadd.vx'' 0 INSN_CLASS_V ''Vd,Vt,sVm'' 0x84004057 0xfc00707f (Some MF_opcode) 0,
    opc ''vsadd.vi'' 0 INSN_CLASS_V ''Vd,Vt,ViVm'' 0x84003057 0xfc00707f (Some MF_opcode) 0,
    opc ''vssubu.vv'' 0 INSN_CLASS_V ''Vd,Vt,VsVm'' 0x88000057 0xfc00707f (Some MF_opcode) 0,
    opc ''vssubu.vx'' 0 INSN_CLASS_V ''Vd,Vt,sVm'' 0x88004057 0xfc00707f (Some MF_opcode) 0,
    opc ''vssub.vv'' 0 INSN_CLASS_V ''Vd,Vt,VsVm'' 0x8c000057 0xfc00707f (Some MF_opcode) 0,
    opc ''vssub.vx'' 0 INSN_CLASS_V ''Vd,Vt,sVm'' 0x8c004057 0xfc00707f (Some MF_opcode) 0,
    opc ''vaaddu.vv'' 0 INSN_CLASS_V ''Vd,Vt,VsVm'' 0x20002057 0xfc00707f (Some MF_opcode) 0,
    opc ''vaaddu.vx'' 0 INSN_CLASS_V ''Vd,Vt,sVm'' 0x20006057 0xfc00707f (Some MF_opcode) 0,
    opc ''vaadd.vv'' 0 INSN_CLASS_V ''Vd,Vt,VsVm'' 0x24002057 0xfc00707f (Some MF_opcode) 0,
    opc ''vaadd.vx'' 0 INSN_CLASS_V ''Vd,Vt,sVm'' 0x24006057 0xfc00707f (Some MF_opcode) 0,
    opc ''vasubu.vv'' 0 INSN_CLASS_V ''Vd,Vt,VsVm'' 0x28002057 0xfc00707f (Some MF_opcode) 0,
    opc ''vasubu.vx'' 0 INSN_CLASS_V ''Vd,Vt,sVm'' 0x28006057 0xfc00707f (Some MF_opcode) 0,
    opc ''vasub.vv'' 0 INSN_CLASS_V ''Vd,Vt,VsVm'' 0x2c002057 0xfc00707f (Some MF_opcode) 0,
    opc ''vasub.vx'' 0 INSN_CLASS_V ''Vd,Vt,sVm'' 0x2c006057 0xfc00707f (Some MF_opcode) 0,
    opc ''vsmul.vv'' 0 INSN_CLASS_V ''Vd,Vt,VsVm'' 0x9c000057 0xfc00707f (Some MF_opcode) 0,
    opc ''vsmul.vx'' 0 INSN_CLASS_V ''Vd,Vt,sVm'' 0x9c004057 0xfc00707f (Some MF_opcode) 0,
    opc ''vssrl.vv'' 0 INSN_CLASS_V ''Vd,Vt,VsVm'' 0xa8000057 0xfc00707f (Some MF_opcode) 0,
    opc ''vssrl.vx'' 0 INSN_CLASS_V ''Vd,Vt,sVm'' 0xa8004057 0xfc00707f (Some MF_opcode) 0,
    opc ''vssrl.vi'' 0 INSN_CLASS_V ''Vd,Vt,VjVm'' 0xa8003057 0xfc00707f (Some MF_opcode) 0,
    opc ''vssra.vv'' 0 INSN_CLASS_V ''Vd,Vt,VsVm'' 0xac000057 0xfc00707f (Some MF_opcode) 0,
    opc ''vssra.vx'' 0 INSN_CLASS_V ''Vd,Vt,sVm'' 0xac004057 0xfc00707f (Some MF_opcode) 0,
    opc ''vssra.vi'' 0 INSN_CLASS_V ''Vd,Vt,VjVm'' 0xac003057 0xfc00707f (Some MF_opcode) 0,
    opc ''vnclipu.wv'' 0 INSN_CLASS_V ''Vd,Vt,VsVm'' 0xb8000057 0xfc00707f (Some MF_opcode) 0,
    opc ''vnclipu.wx'' 0 INSN_CLASS_V ''Vd,Vt,sVm'' 0xb8004057 0xfc00707f (Some MF_opcode) 0,
    opc ''vnclipu.wi'' 0 INSN_CLASS_V ''Vd,Vt,VjVm'' 0xb8003057 0xfc00707f (Some MF_opcode) 0,
    opc ''vnclip.wv'' 0 INSN_CLASS_V ''Vd,Vt,VsVm'' 0xbc000057 0xfc00707f (Some MF_opcode) 0,
    opc ''vnclip.wx'' 0 INSN_CLASS_V ''Vd,Vt,sVm'' 0xbc004057 0xfc00707f (Some MF_opcode) 0,
    opc ''vnclip.wi'' 0 INSN_CLASS_V ''Vd,Vt,VjVm'' 0xbc003057 0xfc00707f (Some MF_opcode) 0,
    opc ''vfadd.vv'' 0 INSN_CLASS_ZVEF ''Vd,Vt,VsVm'' 0x1057 0xfc00707f (Some MF_opcode) 0,
    opc ''vfadd.vf'' 0 INSN_CLASS_ZVEF ''Vd,Vt,SVm'' 0x5057 0xfc00707f (Some MF_opcode) 0,
    opc ''vfsub.vv'' 0 INSN_CLASS_ZVEF ''Vd,Vt,VsVm'' 0x8001057 0xfc00707f (Some MF_opcode) 0,
    opc ''vfsub.vf'' 0 INSN_CLASS_ZVEF ''Vd,Vt,SVm'' 0x8005057 0xfc00707f (Some MF_opcode) 0,
    opc ''vfrsub.vf'' 0 INSN_CLASS_ZVEF ''Vd,Vt,SVm'' 0x9c005057 0xfc00707f (Some MF_opcode) 0,
    opc ''vfwadd.vv'' 0 INSN_CLASS_ZVEF ''Vd,Vt,VsVm'' 0xc0001057 0xfc00707f (Some MF_opcode) 0,
    opc ''vfwadd.vf'' 0 INSN_CLASS_ZVEF ''Vd,Vt,SVm'' 0xc0005057 0xfc00707f (Some MF_opcode) 0,
    opc ''vfwsub.vv'' 0 INSN_CLASS_ZVEF ''Vd,Vt,VsVm'' 0xc8001057 0xfc00707f (Some MF_opcode) 0,
    opc ''vfwsub.vf'' 0 INSN_CLASS_ZVEF ''Vd,Vt,SVm'' 0xc8005057 0xfc00707f (Some MF_opcode) 0,
    opc ''vfwadd.wv'' 0 INSN_CLASS_ZVEF ''Vd,Vt,VsVm'' 0xd0001057 0xfc00707f (Some MF_opcode) 0,
    opc ''vfwadd.wf'' 0 INSN_CLASS_ZVEF ''Vd,Vt,SVm'' 0xd0005057 0xfc00707f (Some MF_opcode) 0,
    opc ''vfwsub.wv'' 0 INSN_CLASS_ZVEF ''Vd,Vt,VsVm'' 0xd8001057 0xfc00707f (Some MF_opcode) 0,
    opc ''vfwsub.wf'' 0 INSN_CLASS_ZVEF ''Vd,Vt,SVm'' 0xd8005057 0xfc00707f (Some MF_opcode) 0,
    opc ''vfmul.vv'' 0 INSN_CLASS_ZVEF ''Vd,Vt,VsVm'' 0x90001057 0xfc00707f (Some MF_opcode) 0,
    opc ''vfmul.vf'' 0 INSN_CLASS_ZVEF ''Vd,Vt,SVm'' 0x90005057 0xfc00707f (Some MF_opcode) 0,
    opc ''vfdiv.vv'' 0 INSN_CLASS_ZVEF ''Vd,Vt,VsVm'' 0x80001057 0xfc00707f (Some MF_opcode) 0,
    opc ''vfdiv.vf'' 0 INSN_CLASS_ZVEF ''Vd,Vt,SVm'' 0x80005057 0xfc00707f (Some MF_opcode) 0,
    opc ''vfrdiv.vf'' 0 INSN_CLASS_ZVEF ''Vd,Vt,SVm'' 0x84005057 0xfc00707f (Some MF_opcode) 0,
    opc ''vfwmul.vv'' 0 INSN_CLASS_ZVEF ''Vd,Vt,VsVm'' 0xe0001057 0xfc00707f (Some MF_opcode) 0,
    opc ''vfwmul.vf'' 0 INSN_CLASS_ZVEF ''Vd,Vt,SVm'' 0xe0005057 0xfc00707f (Some MF_opcode) 0,
    opc ''vfmadd.vv'' 0 INSN_CLASS_ZVEF ''Vd,Vs,VtVm'' 0xa0001057 0xfc00707f (Some MF_opcode) 0,
    opc ''vfmadd.vf'' 0 INSN_CLASS_ZVEF ''Vd,S,VtVm'' 0xa0005057 0xfc00707f (Some MF_opcode) 0,
    opc ''vfnmadd.vv'' 0 INSN_CLASS_ZVEF ''Vd,Vs,VtVm'' 0xa4001057 0xfc00707f (Some MF_opcode) 0,
    opc ''vfnmadd.vf'' 0 INSN_CLASS_ZVEF ''Vd,S,VtVm'' 0xa4005057 0xfc00707f (Some MF_opcode) 0,
    opc ''vfmsub.vv'' 0 INSN_CLASS_ZVEF ''Vd,Vs,VtVm'' 0xa8001057 0xfc00707f (Some MF_opcode) 0,
    opc ''vfmsub.vf'' 0 INSN_CLASS_ZVEF ''Vd,S,VtVm'' 0xa8005057 0xfc00707f (Some MF_opcode) 0,
    opc ''vfnmsub.vv'' 0 INSN_CLASS_ZVEF ''Vd,Vs,VtVm'' 0xac001057 0xfc00707f (Some MF_opcode) 0,
    opc ''vfnmsub.vf'' 0 INSN_CLASS_ZVEF ''Vd,S,VtVm'' 0xac005057 0xfc00707f (Some MF_opcode) 0,
    opc ''vfmacc.vv'' 0 INSN_CLASS_ZVEF ''Vd,Vs,VtVm'' 0xb0001057 0xfc00707f (Some MF_opcode) 0,
    opc ''vfmacc.vf'' 0 INSN_CLASS_ZVEF ''Vd,S,VtVm'' 0xb0005057 0xfc00707f (Some MF_opcode) 0,
    opc ''vfnmacc.vv'' 0 INSN_CLASS_ZVEF ''Vd,Vs,VtVm'' 0xb4001057 0xfc00707f (Some MF_opcode) 0,
    opc ''vfnmacc.vf'' 0 INSN_CLASS_ZVEF ''Vd,S,VtVm'' 0xb4005057 0xfc00707f (Some MF_opcode) 0,
    opc ''vfmsac.vv'' 0 INSN_CLASS_ZVEF ''Vd,Vs,VtVm'' 0xb8001057 0xfc00707f (Some MF_opcode) 0,
    opc ''vfmsac.vf'' 0 INSN_CLASS_ZVEF ''Vd,S,VtVm'' 0xb8005057 0xfc00707f (Some MF_opcode) 0,
    opc ''vfnmsac.vv'' 0 INSN_CLASS_ZVEF ''Vd,Vs,VtVm'' 0xbc001057 0xfc00707f (Some MF_opcode) 0,
    opc ''vfnmsac.vf'' 0 INSN_CLASS_ZVEF ''Vd,S,VtVm'' 0xbc005057 0xfc00707f (Some MF_opcode) 0,
    opc ''vfwmacc.vv'' 0 INSN_CLASS_ZVEF ''Vd,Vs,VtVm'' 0xf0001057 0xfc00707f (Some MF_opcode) 0,
    opc ''vfwmacc.vf'' 0 INSN_CLASS_ZVEF ''Vd,S,VtVm'' 0xf0005057 0xfc00707f (Some MF_opcode) 0,
    opc ''vfwnmacc.vv'' 0 INSN_CLASS_ZVEF ''Vd,Vs,VtVm'' 0xf4001057 0xfc00707f (Some MF_opcode) 0,
    opc ''vfwnmacc.vf'' 0 INSN_CLASS_ZVEF ''Vd,S,VtVm'' 0xf4005057 0xfc00707f (Some MF_opcode) 0,
    opc ''vfwmsac.vv'' 0 INSN_CLASS_ZVEF ''Vd,Vs,VtVm'' 0xf8001057 0xfc00707f (Some MF_opcode) 0,
    opc ''vfwmsac.vf'' 0 INSN_CLASS_ZVEF ''Vd,S,VtVm'' 0xf8005057 0xfc00707f (Some MF_opcode) 0,
    opc ''vfwnmsac.vv'' 0 INSN_CLASS_ZVEF ''Vd,Vs,VtVm'' 0xfc001057 0xfc00707f (Some MF_opcode) 0,
    opc ''vfwnmsac.vf'' 0 INSN_CLASS_ZVEF ''Vd,S,VtVm'' 0xfc005057 0xfc00707f (Some MF_opcode) 0,
    opc ''vfsqrt.v'' 0 INSN_CLASS_ZVEF ''Vd,VtVm'' 0x4c001057 0xfc0ff07f (Some MF_opcode) 0,
    opc ''vfrsqrt7.v'' 0 INSN_CLASS_ZVEF ''Vd,VtVm'' 0x4c021057 0xfc0ff07f (Some MF_opcode) 0,
    opc ''vfrsqrte7.v'' 0 INSN_CLASS_ZVEF ''Vd,VtVm'' 0x4c021057 0xfc0ff07f (Some MF_opcode) 0,
    opc ''vfrec7.v'' 0 INSN_CLASS_ZVEF ''Vd,VtVm'' 0x4c029057 0xfc0ff07f (Some MF_opcode) 0,
    opc ''vfrece7.v'' 0 INSN_CLASS_ZVEF ''Vd,VtVm'' 0x4c029057 0xfc0ff07f (Some MF_opcode) 0,
    opc ''vfclass.v'' 0 INSN_CLASS_ZVEF ''Vd,VtVm'' 0x4c081057 0xfc0ff07f (Some MF_opcode) 0,
    opc ''vfmin.vv'' 0 INSN_CLASS_ZVEF ''Vd,Vt,VsVm'' 0x10001057 0xfc00707f (Some MF_opcode) 0,
    opc ''vfmin.vf'' 0 INSN_CLASS_ZVEF ''Vd,Vt,SVm'' 0x10005057 0xfc00707f (Some MF_opcode) 0,
    opc ''vfmax.vv'' 0 INSN_CLASS_ZVEF ''Vd,Vt,VsVm'' 0x18001057 0xfc00707f (Some MF_opcode) 0,
    opc ''vfmax.vf'' 0 INSN_CLASS_ZVEF ''Vd,Vt,SVm'' 0x18005057 0xfc00707f (Some MF_opcode) 0,
    opc ''vfneg.v'' 0 INSN_CLASS_ZVEF ''Vd,VuVm'' 0x24001057 0xfc00707f (Some MF_vs1_eq_vs2) 0x1,
    opc ''vfabs.v'' 0 INSN_CLASS_ZVEF ''Vd,VuVm'' 0x28001057 0xfc00707f (Some MF_vs1_eq_vs2) 0x1,
    opc ''vfsgnj.vv'' 0 INSN_CLASS_ZVEF ''Vd,Vt,VsVm'' 0x20001057 0xfc00707f (Some MF_opcode) 0,
    opc ''vfsgnj.vf'' 0 INSN_CLASS_ZVEF ''Vd,Vt,SVm'' 0x20005057 0xfc00707f (Some MF_opcode) 0,
    opc ''vfsgnjn.vv'' 0 INSN_CLASS_ZVEF ''Vd,Vt,VsVm'' 0x24001057 0xfc00707f (Some MF_opcode) 0,
    opc ''vfsgnjn.vf'' 0 INSN_CLASS_ZVEF ''Vd,Vt,SVm'' 0x24005057 0xfc00707f (Some MF_opcode) 0,
    opc ''vfsgnjx.vv'' 0 INSN_CLASS_ZVEF ''Vd,Vt,VsVm'' 0x28001057 0xfc00707f (Some MF_opcode) 0,
    opc ''vfsgnjx.vf'' 0 INSN_CLASS_ZVEF ''Vd,Vt,SVm'' 0x28005057 0xfc00707f (Some MF_opcode) 0,
    opc ''vmfeq.vv'' 0 INSN_CLASS_ZVEF ''Vd,Vt,VsVm'' 0x60001057 0xfc00707f (Some MF_opcode) 0,
    opc ''vmfeq.vf'' 0 INSN_CLASS_ZVEF ''Vd,Vt,SVm'' 0x60005057 0xfc00707f (Some MF_opcode) 0,
    opc ''vmfne.vv'' 0 INSN_CLASS_ZVEF ''Vd,Vt,VsVm'' 0x70001057 0xfc00707f (Some MF_opcode) 0,
    opc ''vmfne.vf'' 0 INSN_CLASS_ZVEF ''Vd,Vt,SVm'' 0x70005057 0xfc00707f (Some MF_opcode) 0,
    opc ''vmflt.vv'' 0 INSN_CLASS_ZVEF ''Vd,Vt,VsVm'' 0x6c001057 0xfc00707f (Some MF_opcode) 0,
    opc ''vmflt.vf'' 0 INSN_CLASS_ZVEF ''Vd,Vt,SVm'' 0x6c005057 0xfc00707f (Some MF_opcode) 0,
    opc ''vmfle.vv'' 0 INSN_CLASS_ZVEF ''Vd,Vt,VsVm'' 0x64001057 0xfc00707f (Some MF_opcode) 0,
    opc ''vmfle.vf'' 0 INSN_CLASS_ZVEF ''Vd,Vt,SVm'' 0x64005057 0xfc00707f (Some MF_opcode) 0,
    opc ''vmfgt.vf'' 0 INSN_CLASS_ZVEF ''Vd,Vt,SVm'' 0x74005057 0xfc00707f (Some MF_opcode) 0,
    opc ''vmfge.vf'' 0 INSN_CLASS_ZVEF ''Vd,Vt,SVm'' 0x7c005057 0xfc00707f (Some MF_opcode) 0,
    opc ''vmfgt.vv'' 0 INSN_CLASS_ZVEF ''Vd,Vs,VtVm'' 0x6c001057 0xfc00707f (Some MF_opcode) 0x1,
    opc ''vmfge.vv'' 0 INSN_CLASS_ZVEF ''Vd,Vs,VtVm'' 0x64001057 0xfc00707f (Some MF_opcode) 0x1,
    opc ''vfmerge.vfm'' 0 INSN_CLASS_ZVEF ''Vd,Vt,S,V0'' 0x5c005057 0xfe00707f (Some MF_opcode) 0,
    opc ''vfmv.v.f'' 0 INSN_CLASS_ZVEF ''Vd,S'' 0x5e005057 0xfff0707f (Some MF_opcode) 0,
    opc ''vfcvt.xu.f.v'' 0 INSN_CLASS_ZVEF ''Vd,VtVm'' 0x48001057 0xfc0ff07f (Some MF_opcode) 0,
    opc ''vfcvt.x.f.v'' 0 INSN_CLASS_ZVEF ''Vd,VtVm'' 0x48009057 0xfc0ff07f (Some MF_opcode) 0,
    opc ''vfcvt.rtz.xu.f.v'' 0 INSN_CLASS_ZVEF ''Vd,VtVm'' 0x48031057 0xfc0ff07f (Some MF_opcode) 0,
    opc ''vfcvt.rtz.x.f.v'' 0 INSN_CLASS_ZVEF ''Vd,VtVm'' 0x48039057 0xfc0ff07f (Some MF_opcode) 0,
    opc ''vfcvt.f.xu.v'' 0 INSN_CLASS_ZVEF ''Vd,VtVm'' 0x48011057 0xfc0ff07f (Some MF_opcode) 0,
    opc ''vfcvt.f.x.v'' 0 INSN_CLASS_ZVEF ''Vd,VtVm'' 0x48019057 0xfc0ff07f (Some MF_opcode) 0,
    opc ''vfwcvt.xu.f.v'' 0 INSN_CLASS_ZVEF ''Vd,VtVm'' 0x48041057 0xfc0ff07f (Some MF_opcode) 0,
    opc ''vfwcvt.x.f.v'' 0 INSN_CLASS_ZVEF ''Vd,VtVm'' 0x48049057 0xfc0ff07f (Some MF_opcode) 0,
    opc ''vfwcvt.rtz.xu.f.v'' 0 INSN_CLASS_ZVEF ''Vd,VtVm'' 0x48071057 0xfc0ff07f (Some MF_opcode) 0,
    opc ''vfwcvt.rtz.x.f.v'' 0 INSN_CLASS_ZVEF ''Vd,VtVm'' 0x48079057 0xfc0ff07f (Some MF_opcode) 0,
    opc ''vfwcvt.f.xu.v'' 0 INSN_CLASS_ZVEF ''Vd,VtVm'' 0x48051057 0xfc0ff07f (Some MF_opcode) 0,
    opc ''vfwcvt.f.x.v'' 0 INSN_CLASS_ZVEF ''Vd,VtVm'' 0x48059057 0xfc0ff07f (Some MF_opcode) 0,
    opc ''vfwcvt.f.f.v'' 0 INSN_CLASS_ZVEF ''Vd,VtVm'' 0x48061057 0xfc0ff07f (Some MF_opcode) 0,
    opc ''vfncvt.xu.f.w'' 0 INSN_CLASS_ZVEF ''Vd,VtVm'' 0x48081057 0xfc0ff07f (Some MF_opcode) 0]"

definition riscv_opcodes_12 :: "riscv_opcode list" where
  "riscv_opcodes_12 = [
    opc ''vfncvt.x.f.w'' 0 INSN_CLASS_ZVEF ''Vd,VtVm'' 0x48089057 0xfc0ff07f (Some MF_opcode) 0,
    opc ''vfncvt.rtz.xu.f.w'' 0 INSN_CLASS_ZVEF ''Vd,VtVm'' 0x480b1057 0xfc0ff07f (Some MF_opcode) 0,
    opc ''vfncvt.rtz.x.f.w'' 0 INSN_CLASS_ZVEF ''Vd,VtVm'' 0x480b9057 0xfc0ff07f (Some MF_opcode) 0,
    opc ''vfncvt.f.xu.w'' 0 INSN_CLASS_ZVEF ''Vd,VtVm'' 0x48091057 0xfc0ff07f (Some MF_opcode) 0,
    opc ''vfncvt.f.x.w'' 0 INSN_CLASS_ZVEF ''Vd,VtVm'' 0x48099057 0xfc0ff07f (Some MF_opcode) 0,
    opc ''vfncvt.f.f.w'' 0 INSN_CLASS_ZVEF ''Vd,VtVm'' 0x480a1057 0xfc0ff07f (Some MF_opcode) 0,
    opc ''vfncvt.rod.f.f.w'' 0 INSN_CLASS_ZVEF ''Vd,VtVm'' 0x480a9057 0xfc0ff07f (Some MF_opcode) 0,
    opc ''vredsum.vs'' 0 INSN_CLASS_V ''Vd,Vt,VsVm'' 0x2057 0xfc00707f (Some MF_opcode) 0,
    opc ''vredmaxu.vs'' 0 INSN_CLASS_V ''Vd,Vt,VsVm'' 0x18002057 0xfc00707f (Some MF_opcode) 0,
    opc ''vredmax.vs'' 0 INSN_CLASS_V ''Vd,Vt,VsVm'' 0x1c002057 0xfc00707f (Some MF_opcode) 0,
    opc ''vredminu.vs'' 0 INSN_CLASS_V ''Vd,Vt,VsVm'' 0x10002057 0xfc00707f (Some MF_opcode) 0,
    opc ''vredmin.vs'' 0 INSN_CLASS_V ''Vd,Vt,VsVm'' 0x14002057 0xfc00707f (Some MF_opcode) 0,
    opc ''vredand.vs'' 0 INSN_CLASS_V ''Vd,Vt,VsVm'' 0x4002057 0xfc00707f (Some MF_opcode) 0,
    opc ''vredor.vs'' 0 INSN_CLASS_V ''Vd,Vt,VsVm'' 0x8002057 0xfc00707f (Some MF_opcode) 0,
    opc ''vredxor.vs'' 0 INSN_CLASS_V ''Vd,Vt,VsVm'' 0xc002057 0xfc00707f (Some MF_opcode) 0,
    opc ''vwredsumu.vs'' 0 INSN_CLASS_V ''Vd,Vt,VsVm'' 0xc0000057 0xfc00707f (Some MF_opcode) 0,
    opc ''vwredsum.vs'' 0 INSN_CLASS_V ''Vd,Vt,VsVm'' 0xc4000057 0xfc00707f (Some MF_opcode) 0,
    opc ''vfredosum.vs'' 0 INSN_CLASS_ZVEF ''Vd,Vt,VsVm'' 0xc001057 0xfc00707f (Some MF_opcode) 0,
    opc ''vfredusum.vs'' 0 INSN_CLASS_ZVEF ''Vd,Vt,VsVm'' 0x4001057 0xfc00707f (Some MF_opcode) 0,
    opc ''vfredsum.vs'' 0 INSN_CLASS_ZVEF ''Vd,Vt,VsVm'' 0x4001057 0xfc00707f (Some MF_opcode) 0x1,
    opc ''vfredmax.vs'' 0 INSN_CLASS_ZVEF ''Vd,Vt,VsVm'' 0x1c001057 0xfc00707f (Some MF_opcode) 0,
    opc ''vfredmin.vs'' 0 INSN_CLASS_ZVEF ''Vd,Vt,VsVm'' 0x14001057 0xfc00707f (Some MF_opcode) 0,
    opc ''vfwredosum.vs'' 0 INSN_CLASS_ZVEF ''Vd,Vt,VsVm'' 0xcc001057 0xfc00707f (Some MF_opcode) 0,
    opc ''vfwredusum.vs'' 0 INSN_CLASS_ZVEF ''Vd,Vt,VsVm'' 0xc4001057 0xfc00707f (Some MF_opcode) 0,
    opc ''vfwredsum.vs'' 0 INSN_CLASS_ZVEF ''Vd,Vt,VsVm'' 0xc4001057 0xfc00707f (Some MF_opcode) 0x1,
    opc ''vmmv.m'' 0 INSN_CLASS_V ''Vd,Vu'' 0x66002057 0xfe00707f (Some MF_vs1_eq_vs2) 0x1,
    opc ''vmcpy.m'' 0 INSN_CLASS_V ''Vd,Vu'' 0x66002057 0xfe00707f (Some MF_vs1_eq_vs2) 0x1,
    opc ''vmclr.m'' 0 INSN_CLASS_V ''Vv'' 0x6e002057 0xfe00707f (Some MF_vd_eq_vs1_eq_vs2) 0x1,
    opc ''vmset.m'' 0 INSN_CLASS_V ''Vv'' 0x7e002057 0xfe00707f (Some MF_vd_eq_vs1_eq_vs2) 0x1,
    opc ''vmnot.m'' 0 INSN_CLASS_V ''Vd,Vu'' 0x76002057 0xfe00707f (Some MF_vs1_eq_vs2) 0x1,
    opc ''vmand.mm'' 0 INSN_CLASS_V ''Vd,Vt,Vs'' 0x66002057 0xfe00707f (Some MF_opcode) 0,
    opc ''vmnand.mm'' 0 INSN_CLASS_V ''Vd,Vt,Vs'' 0x76002057 0xfe00707f (Some MF_opcode) 0,
    opc ''vmandn.mm'' 0 INSN_CLASS_V ''Vd,Vt,Vs'' 0x62002057 0xfe00707f (Some MF_opcode) 0,
    opc ''vmandnot.mm'' 0 INSN_CLASS_V ''Vd,Vt,Vs'' 0x62002057 0xfe00707f (Some MF_opcode) 0x1,
    opc ''vmxor.mm'' 0 INSN_CLASS_V ''Vd,Vt,Vs'' 0x6e002057 0xfe00707f (Some MF_opcode) 0,
    opc ''vmor.mm'' 0 INSN_CLASS_V ''Vd,Vt,Vs'' 0x6a002057 0xfe00707f (Some MF_opcode) 0,
    opc ''vmnor.mm'' 0 INSN_CLASS_V ''Vd,Vt,Vs'' 0x7a002057 0xfe00707f (Some MF_opcode) 0,
    opc ''vmorn.mm'' 0 INSN_CLASS_V ''Vd,Vt,Vs'' 0x72002057 0xfe00707f (Some MF_opcode) 0,
    opc ''vmornot.mm'' 0 INSN_CLASS_V ''Vd,Vt,Vs'' 0x72002057 0xfe00707f (Some MF_opcode) 0x1,
    opc ''vmxnor.mm'' 0 INSN_CLASS_V ''Vd,Vt,Vs'' 0x7e002057 0xfe00707f (Some MF_opcode) 0,
    opc ''vcpop.m'' 0 INSN_CLASS_V ''d,VtVm'' 0x40082057 0xfc0ff07f (Some MF_opcode) 0,
    opc ''vpopc.m'' 0 INSN_CLASS_V ''d,VtVm'' 0x40082057 0xfc0ff07f (Some MF_opcode) 0x1,
    opc ''vfirst.m'' 0 INSN_CLASS_V ''d,VtVm'' 0x4008a057 0xfc0ff07f (Some MF_opcode) 0,
    opc ''vmsbf.m'' 0 INSN_CLASS_V ''Vd,VtVm'' 0x5000a057 0xfc0ff07f (Some MF_opcode) 0,
    opc ''vmsif.m'' 0 INSN_CLASS_V ''Vd,VtVm'' 0x5001a057 0xfc0ff07f (Some MF_opcode) 0,
    opc ''vmsof.m'' 0 INSN_CLASS_V ''Vd,VtVm'' 0x50012057 0xfc0ff07f (Some MF_opcode) 0,
    opc ''viota.m'' 0 INSN_CLASS_V ''Vd,VtVm'' 0x50082057 0xfc0ff07f (Some MF_opcode) 0,
    opc ''vid.v'' 0 INSN_CLASS_V ''VdVm'' 0x5008a057 0xfdfff07f (Some MF_opcode) 0,
    opc ''vmv.x.s'' 0 INSN_CLASS_V ''d,Vt'' 0x42002057 0xfe0ff07f (Some MF_opcode) 0,
    opc ''vmv.s.x'' 0 INSN_CLASS_V ''Vd,s'' 0x42006057 0xfff0707f (Some MF_opcode) 0,
    opc ''vfmv.f.s'' 0 INSN_CLASS_ZVEF ''D,Vt'' 0x42001057 0xfe0ff07f (Some MF_opcode) 0,
    opc ''vfmv.s.f'' 0 INSN_CLASS_ZVEF ''Vd,S'' 0x42005057 0xfff0707f (Some MF_opcode) 0,
    opc ''vslideup.vx'' 0 INSN_CLASS_V ''Vd,Vt,sVm'' 0x38004057 0xfc00707f (Some MF_opcode) 0,
    opc ''vslideup.vi'' 0 INSN_CLASS_V ''Vd,Vt,VjVm'' 0x38003057 0xfc00707f (Some MF_opcode) 0,
    opc ''vslidedown.vx'' 0 INSN_CLASS_V ''Vd,Vt,sVm'' 0x3c004057 0xfc00707f (Some MF_opcode) 0,
    opc ''vslidedown.vi'' 0 INSN_CLASS_V ''Vd,Vt,VjVm'' 0x3c003057 0xfc00707f (Some MF_opcode) 0,
    opc ''vslide1up.vx'' 0 INSN_CLASS_V ''Vd,Vt,sVm'' 0x38006057 0xfc00707f (Some MF_opcode) 0,
    opc ''vslide1down.vx'' 0 INSN_CLASS_V ''Vd,Vt,sVm'' 0x3c006057 0xfc00707f (Some MF_opcode) 0,
    opc ''vfslide1up.vf'' 0 INSN_CLASS_ZVEF ''Vd,Vt,SVm'' 0x38005057 0xfc00707f (Some MF_opcode) 0,
    opc ''vfslide1down.vf'' 0 INSN_CLASS_ZVEF ''Vd,Vt,SVm'' 0x3c005057 0xfc00707f (Some MF_opcode) 0,
    opc ''vrgather.vv'' 0 INSN_CLASS_V ''Vd,Vt,VsVm'' 0x30000057 0xfc00707f (Some MF_opcode) 0,
    opc ''vrgather.vx'' 0 INSN_CLASS_V ''Vd,Vt,sVm'' 0x30004057 0xfc00707f (Some MF_opcode) 0,
    opc ''vrgather.vi'' 0 INSN_CLASS_V ''Vd,Vt,VjVm'' 0x30003057 0xfc00707f (Some MF_opcode) 0,
    opc ''vrgatherei16.vv'' 0 INSN_CLASS_V ''Vd,Vt,VsVm'' 0x38000057 0xfc00707f (Some MF_opcode) 0,
    opc ''vcompress.vm'' 0 INSN_CLASS_V ''Vd,Vt,Vs'' 0x5e002057 0xfe00707f (Some MF_opcode) 0,
    opc ''vmv1r.v'' 0 INSN_CLASS_V ''Vd,Vt'' 0x9e003057 0xfe0ff07f (Some MF_opcode) 0,
    opc ''vmv2r.v'' 0 INSN_CLASS_V ''Vd,Vt'' 0x9e00b057 0xfe0ff07f (Some MF_opcode) 0,
    opc ''vmv4r.v'' 0 INSN_CLASS_V ''Vd,Vt'' 0x9e01b057 0xfe0ff07f (Some MF_opcode) 0,
    opc ''vmv8r.v'' 0 INSN_CLASS_V ''Vd,Vt'' 0x9e03b057 0xfe0ff07f (Some MF_opcode) 0,
    opc ''vfncvtbf16.f.f.w'' 0 INSN_CLASS_ZVFBFMIN ''Vd,VtVm'' 0x480e9057 0xfc0ff07f (Some MF_opcode) 0,
    opc ''vfwcvtbf16.f.f.v'' 0 INSN_CLASS_ZVFBFMIN ''Vd,VtVm'' 0x48069057 0xfc0ff07f (Some MF_opcode) 0,
    opc ''vfwmaccbf16.vf'' 0 INSN_CLASS_ZVFBFWMA ''Vd,S,VtVm'' 0xec005057 0xfc00707f (Some MF_opcode) 0,
    opc ''vfwmaccbf16.vv'' 0 INSN_CLASS_ZVFBFWMA ''Vd,Vs,VtVm'' 0xec001057 0xfc00707f (Some MF_opcode) 0,
    opc ''vandn.vv'' 0 INSN_CLASS_ZVKB ''Vd,Vt,VsVm'' 0x4000057 0xfc00707f (Some MF_opcode) 0,
    opc ''vandn.vx'' 0 INSN_CLASS_ZVKB ''Vd,Vt,sVm'' 0x4004057 0xfc00707f (Some MF_opcode) 0,
    opc ''vbrev.v'' 0 INSN_CLASS_ZVBB ''Vd,VtVm'' 0x48052057 0xfc0ff07f (Some MF_opcode) 0,
    opc ''vbrev8.v'' 0 INSN_CLASS_ZVKB ''Vd,VtVm'' 0x48042057 0xfc0ff07f (Some MF_opcode) 0,
    opc ''vrev8.v'' 0 INSN_CLASS_ZVKB ''Vd,VtVm'' 0x4804a057 0xfc0ff07f (Some MF_opcode) 0,
    opc ''vclz.v'' 0 INSN_CLASS_ZVBB ''Vd,VtVm'' 0x48062057 0xfc0ff07f (Some MF_opcode) 0,
    opc ''vctz.v'' 0 INSN_CLASS_ZVBB ''Vd,VtVm'' 0x4806a057 0xfc0ff07f (Some MF_opcode) 0,
    opc ''vcpop.v'' 0 INSN_CLASS_ZVBB ''Vd,VtVm'' 0x48072057 0xfc0ff07f (Some MF_opcode) 0,
    opc ''vrol.vv'' 0 INSN_CLASS_ZVKB ''Vd,Vt,VsVm'' 0x54000057 0xfc00707f (Some MF_opcode) 0,
    opc ''vrol.vx'' 0 INSN_CLASS_ZVKB ''Vd,Vt,sVm'' 0x54004057 0xfc00707f (Some MF_opcode) 0,
    opc ''vror.vv'' 0 INSN_CLASS_ZVKB ''Vd,Vt,VsVm'' 0x50000057 0xfc00707f (Some MF_opcode) 0,
    opc ''vror.vx'' 0 INSN_CLASS_ZVKB ''Vd,Vt,sVm'' 0x50004057 0xfc00707f (Some MF_opcode) 0,
    opc ''vror.vi'' 0 INSN_CLASS_ZVKB ''Vd,Vt,VlVm'' 0x50003057 0xf800707f (Some MF_opcode) 0,
    opc ''vwsll.vv'' 0 INSN_CLASS_ZVBB ''Vd,Vt,VsVm'' 0xd4000057 0xfc00707f (Some MF_opcode) 0,
    opc ''vwsll.vx'' 0 INSN_CLASS_ZVBB ''Vd,Vt,sVm'' 0xd4004057 0xfc00707f (Some MF_opcode) 0,
    opc ''vwsll.vi'' 0 INSN_CLASS_ZVBB ''Vd,Vt,VjVm'' 0xd4003057 0xfc00707f (Some MF_opcode) 0,
    opc ''vclmul.vv'' 0 INSN_CLASS_ZVBC ''Vd,Vt,VsVm'' 0x30002057 0xfc00707f (Some MF_opcode) 0,
    opc ''vclmul.vx'' 0 INSN_CLASS_ZVBC ''Vd,Vt,sVm'' 0x30006057 0xfc00707f (Some MF_opcode) 0,
    opc ''vclmulh.vv'' 0 INSN_CLASS_ZVBC ''Vd,Vt,VsVm'' 0x34002057 0xfc00707f (Some MF_opcode) 0,
    opc ''vclmulh.vx'' 0 INSN_CLASS_ZVBC ''Vd,Vt,sVm'' 0x34006057 0xfc00707f (Some MF_opcode) 0,
    opc ''vghsh.vv'' 0 INSN_CLASS_ZVKG ''Vd,Vt,Vs'' 0xb2002077 0xfe00707f (Some MF_opcode) 0,
    opc ''vgmul.vv'' 0 INSN_CLASS_ZVKG ''Vd,Vt'' 0xa208a077 0xfe0ff07f (Some MF_opcode) 0,
    opc ''vaesdf.vv'' 0 INSN_CLASS_ZVKNED ''Vd,Vt'' 0xa200a077 0xfe0ff07f (Some MF_opcode) 0,
    opc ''vaesdf.vs'' 0 INSN_CLASS_ZVKNED ''Vd,Vt'' 0xa600a077 0xfe0ff07f (Some MF_opcode) 0,
    opc ''vaesdm.vv'' 0 INSN_CLASS_ZVKNED ''Vd,Vt'' 0xa2002077 0xfe0ff07f (Some MF_opcode) 0,
    opc ''vaesdm.vs'' 0 INSN_CLASS_ZVKNED ''Vd,Vt'' 0xa6002077 0xfe0ff07f (Some MF_opcode) 0,
    opc ''vaesef.vv'' 0 INSN_CLASS_ZVKNED ''Vd,Vt'' 0xa201a077 0xfe0ff07f (Some MF_opcode) 0,
    opc ''vaesef.vs'' 0 INSN_CLASS_ZVKNED ''Vd,Vt'' 0xa601a077 0xfe0ff07f (Some MF_opcode) 0,
    opc ''vaesem.vv'' 0 INSN_CLASS_ZVKNED ''Vd,Vt'' 0xa2012077 0xfe0ff07f (Some MF_opcode) 0,
    opc ''vaesem.vs'' 0 INSN_CLASS_ZVKNED ''Vd,Vt'' 0xa6012077 0xfe0ff07f (Some MF_opcode) 0,
    opc ''vaeskf1.vi'' 0 INSN_CLASS_ZVKNED ''Vd,Vt,Vj'' 0x8a002077 0xfe00707f (Some MF_opcode) 0,
    opc ''vaeskf2.vi'' 0 INSN_CLASS_ZVKNED ''Vd,Vt,Vj'' 0xaa002077 0xfe00707f (Some MF_opcode) 0,
    opc ''vaesz.vs'' 0 INSN_CLASS_ZVKNED ''Vd,Vt'' 0xa603a077 0xfe0ff07f (Some MF_opcode) 0,
    opc ''vsha2ch.vv'' 0 INSN_CLASS_ZVKNHA_OR_ZVKNHB ''Vd,Vt,Vs'' 0xba002077 0xfe00707f (Some MF_opcode) 0,
    opc ''vsha2cl.vv'' 0 INSN_CLASS_ZVKNHA_OR_ZVKNHB ''Vd,Vt,Vs'' 0xbe002077 0xfe00707f (Some MF_opcode) 0,
    opc ''vsha2ms.vv'' 0 INSN_CLASS_ZVKNHA_OR_ZVKNHB ''Vd,Vt,Vs'' 0xb6002077 0xfe00707f (Some MF_opcode) 0,
    opc ''vsm4k.vi'' 0 INSN_CLASS_ZVKSED ''Vd,Vt,Vj'' 0x86002077 0xfe00707f (Some MF_opcode) 0,
    opc ''vsm4r.vv'' 0 INSN_CLASS_ZVKSED ''Vd,Vt'' 0xa2082077 0xfe0ff07f (Some MF_opcode) 0,
    opc ''vsm4r.vs'' 0 INSN_CLASS_ZVKSED ''Vd,Vt'' 0xa6082077 0xfe0ff07f (Some MF_opcode) 0,
    opc ''vsm3c.vi'' 0 INSN_CLASS_ZVKSH ''Vd,Vt,Vj'' 0xae002077 0xfe00707f (Some MF_opcode) 0,
    opc ''vsm3me.vv'' 0 INSN_CLASS_ZVKSH ''Vd,Vt,Vs'' 0x82002077 0xfe00707f (Some MF_opcode) 0,
    opc ''c.lbu'' 0 INSN_CLASS_ZCB ''Ct,Wcb(Cs)'' 0x8000 0xfc03 (Some MF_opcode) 0x18,
    opc ''c.lhu'' 0 INSN_CLASS_ZCB ''Ct,Wch(Cs)'' 0x8400 0xfc43 (Some MF_opcode) 0x28]"

definition riscv_opcodes_13 :: "riscv_opcode list" where
  "riscv_opcodes_13 = [
    opc ''c.lh'' 0 INSN_CLASS_ZCB ''Ct,Wch(Cs)'' 0x8440 0xfc43 (Some MF_opcode) 0x28,
    opc ''c.sb'' 0 INSN_CLASS_ZCB ''Ct,Wcb(Cs)'' 0x8800 0xfc03 (Some MF_opcode) 0x18,
    opc ''c.sh'' 0 INSN_CLASS_ZCB ''Ct,Wch(Cs)'' 0x8c00 0xfc43 (Some MF_opcode) 0x28,
    opc ''c.not'' 0 INSN_CLASS_ZCB ''Cs'' 0x9c75 0xfc7f (Some MF_opcode) 0,
    opc ''c.mul'' 0 INSN_CLASS_ZCB_AND_ZMMUL ''Cs,Ct'' 0x9c41 0xfc63 (Some MF_opcode) 0,
    opc ''c.sext.b'' 0 INSN_CLASS_ZCB_AND_ZBB ''Cs'' 0x9c65 0xfc7f (Some MF_opcode) 0,
    opc ''c.sext.h'' 0 INSN_CLASS_ZCB_AND_ZBB ''Cs'' 0x9c6d 0xfc7f (Some MF_opcode) 0,
    opc ''c.zext.h'' 0 INSN_CLASS_ZCB_AND_ZBB ''Cs'' 0x9c69 0xfc7f (Some MF_opcode) 0,
    opc ''c.zext.w'' 64 INSN_CLASS_ZCB_AND_ZBA ''Cs'' 0x9c71 0xfc7f (Some MF_opcode) 0,
    opc ''c.zext.b'' 0 INSN_CLASS_ZCB ''Cs'' 0x9c61 0xfc7f (Some MF_opcode) 0,
    opc ''c.sext.w'' 64 INSN_CLASS_ZCB ''d'' 0x2001 0xf07f (Some MF_rd_nonzero) 0x1,
    opc ''c.mop.1'' 0 INSN_CLASS_ZCMOP '''' 0x6081 0xffff (Some MF_opcode) 0,
    opc ''c.mop.3'' 0 INSN_CLASS_ZCMOP '''' 0x6181 0xffff (Some MF_opcode) 0,
    opc ''c.mop.5'' 0 INSN_CLASS_ZCMOP '''' 0x6281 0xffff (Some MF_opcode) 0,
    opc ''c.mop.7'' 0 INSN_CLASS_ZCMOP '''' 0x6381 0xffff (Some MF_opcode) 0,
    opc ''c.mop.9'' 0 INSN_CLASS_ZCMOP '''' 0x6481 0xffff (Some MF_opcode) 0,
    opc ''c.mop.11'' 0 INSN_CLASS_ZCMOP '''' 0x6581 0xffff (Some MF_opcode) 0,
    opc ''c.mop.13'' 0 INSN_CLASS_ZCMOP '''' 0x6681 0xffff (Some MF_opcode) 0,
    opc ''c.mop.15'' 0 INSN_CLASS_ZCMOP '''' 0x6781 0xffff (Some MF_opcode) 0,
    opc ''cm.push'' 0 INSN_CLASS_ZCMP ''{Wcr},Wcp'' 0xb802 0xff03 (Some MF_opcode) 0,
    opc ''cm.pop'' 0 INSN_CLASS_ZCMP ''{Wcr},Wcp'' 0xba02 0xff03 (Some MF_opcode) 0,
    opc ''cm.popret'' 0 INSN_CLASS_ZCMP ''{Wcr},Wcp'' 0xbe02 0xff03 (Some MF_opcode) 0,
    opc ''cm.popretz'' 0 INSN_CLASS_ZCMP ''{Wcr},Wcp'' 0xbc02 0xff03 (Some MF_opcode) 0,
    opc ''csrr'' 0 INSN_CLASS_ZICSR ''d,E'' 0x2073 0xff07f (Some MF_opcode) 0x1,
    opc ''csrwi'' 0 INSN_CLASS_ZICSR ''E,Z'' 0x5073 0x7fff (Some MF_opcode) 0x1,
    opc ''csrw'' 0 INSN_CLASS_ZICSR ''E,s'' 0x1073 0x7fff (Some MF_opcode) 0x1,
    opc ''csrw'' 0 INSN_CLASS_ZICSR ''E,Z'' 0x5073 0x7fff (Some MF_opcode) 0x1,
    opc ''csrsi'' 0 INSN_CLASS_ZICSR ''E,Z'' 0x6073 0x7fff (Some MF_opcode) 0x1,
    opc ''csrs'' 0 INSN_CLASS_ZICSR ''E,s'' 0x2073 0x7fff (Some MF_opcode) 0x1,
    opc ''csrs'' 0 INSN_CLASS_ZICSR ''E,Z'' 0x6073 0x7fff (Some MF_opcode) 0x1,
    opc ''csrci'' 0 INSN_CLASS_ZICSR ''E,Z'' 0x7073 0x7fff (Some MF_opcode) 0x1,
    opc ''csrc'' 0 INSN_CLASS_ZICSR ''E,s'' 0x3073 0x7fff (Some MF_opcode) 0x1,
    opc ''csrc'' 0 INSN_CLASS_ZICSR ''E,Z'' 0x7073 0x7fff (Some MF_opcode) 0x1,
    opc ''csrrwi'' 0 INSN_CLASS_ZICSR ''d,E,Z'' 0x5073 0x707f (Some MF_opcode) 0,
    opc ''csrrw'' 0 INSN_CLASS_ZICSR ''d,E,s'' 0x1073 0x707f (Some MF_opcode) 0,
    opc ''csrrw'' 0 INSN_CLASS_ZICSR ''d,E,Z'' 0x5073 0x707f (Some MF_opcode) 0x1,
    opc ''csrrsi'' 0 INSN_CLASS_ZICSR ''d,E,Z'' 0x6073 0x707f (Some MF_opcode) 0,
    opc ''csrrs'' 0 INSN_CLASS_ZICSR ''d,E,s'' 0x2073 0x707f (Some MF_opcode) 0,
    opc ''csrrs'' 0 INSN_CLASS_ZICSR ''d,E,Z'' 0x6073 0x707f (Some MF_opcode) 0x1,
    opc ''csrrci'' 0 INSN_CLASS_ZICSR ''d,E,Z'' 0x7073 0x707f (Some MF_opcode) 0,
    opc ''csrrc'' 0 INSN_CLASS_ZICSR ''d,E,s'' 0x3073 0x707f (Some MF_opcode) 0,
    opc ''csrrc'' 0 INSN_CLASS_ZICSR ''d,E,Z'' 0x7073 0x707f (Some MF_opcode) 0x1,
    opc ''uret'' 0 INSN_CLASS_I '''' 0x200073 0xffffffff (Some MF_opcode) 0,
    opc ''sret'' 0 INSN_CLASS_I '''' 0x10200073 0xffffffff (Some MF_opcode) 0,
    opc ''hret'' 0 INSN_CLASS_I '''' 0x20200073 0xffffffff (Some MF_opcode) 0,
    opc ''mret'' 0 INSN_CLASS_I '''' 0x30200073 0xffffffff (Some MF_opcode) 0,
    opc ''dret'' 0 INSN_CLASS_I '''' 0x7b200073 0xffffffff (Some MF_opcode) 0,
    opc ''sfence.vm'' 0 INSN_CLASS_I '''' 0x10400073 0xffffffff (Some MF_opcode) 0,
    opc ''sfence.vm'' 0 INSN_CLASS_I ''s'' 0x10400073 0xfff07fff (Some MF_opcode) 0,
    opc ''sfence.vma'' 0 INSN_CLASS_I '''' 0x12000073 0xffffffff (Some MF_opcode) 0x1,
    opc ''sfence.vma'' 0 INSN_CLASS_I ''s'' 0x12000073 0xfff07fff (Some MF_opcode) 0x1,
    opc ''sfence.vma'' 0 INSN_CLASS_I ''s,t'' 0x12000073 0xfe007fff (Some MF_opcode) 0,
    opc ''wfi'' 0 INSN_CLASS_I '''' 0x10500073 0xffffffff (Some MF_opcode) 0,
    opc ''sinval.vma'' 0 INSN_CLASS_SVINVAL ''s,t'' 0x16000073 0xfe007fff (Some MF_opcode) 0,
    opc ''sfence.w.inval'' 0 INSN_CLASS_SVINVAL '''' 0x18000073 0xffffffff (Some MF_opcode) 0,
    opc ''sfence.inval.ir'' 0 INSN_CLASS_SVINVAL '''' 0x18100073 0xffffffff (Some MF_opcode) 0,
    opc ''hinval.vvma'' 0 INSN_CLASS_SVINVAL ''s,t'' 0x26000073 0xfe007fff (Some MF_opcode) 0,
    opc ''hinval.gvma'' 0 INSN_CLASS_SVINVAL ''s,t'' 0x66000073 0xfe007fff (Some MF_opcode) 0,
    opc ''hfence.vvma'' 0 INSN_CLASS_H '''' 0x22000073 0xffffffff (Some MF_opcode) 0x1,
    opc ''hfence.vvma'' 0 INSN_CLASS_H ''s'' 0x22000073 0xfff07fff (Some MF_opcode) 0x1,
    opc ''hfence.vvma'' 0 INSN_CLASS_H ''s,t'' 0x22000073 0xfe007fff (Some MF_opcode) 0,
    opc ''hfence.gvma'' 0 INSN_CLASS_H '''' 0x62000073 0xffffffff (Some MF_opcode) 0x1,
    opc ''hfence.gvma'' 0 INSN_CLASS_H ''s'' 0x62000073 0xfff07fff (Some MF_opcode) 0x1,
    opc ''hfence.gvma'' 0 INSN_CLASS_H ''s,t'' 0x62000073 0xfe007fff (Some MF_opcode) 0,
    opc ''hlv.b'' 0 INSN_CLASS_H ''d,0(s)'' 0x60004073 0xfff0707f (Some MF_opcode) 0x18,
    opc ''hlv.bu'' 0 INSN_CLASS_H ''d,0(s)'' 0x60104073 0xfff0707f (Some MF_opcode) 0x18,
    opc ''hlv.h'' 0 INSN_CLASS_H ''d,0(s)'' 0x64004073 0xfff0707f (Some MF_opcode) 0x28,
    opc ''hlv.hu'' 0 INSN_CLASS_H ''d,0(s)'' 0x64104073 0xfff0707f (Some MF_opcode) 0x28,
    opc ''hlvx.hu'' 0 INSN_CLASS_H ''d,0(s)'' 0x64304073 0xfff0707f (Some MF_opcode) 0x28,
    opc ''hlv.w'' 0 INSN_CLASS_H ''d,0(s)'' 0x68004073 0xfff0707f (Some MF_opcode) 0x38,
    opc ''hlv.wu'' 64 INSN_CLASS_H ''d,0(s)'' 0x68104073 0xfff0707f (Some MF_opcode) 0x38,
    opc ''hlvx.wu'' 0 INSN_CLASS_H ''d,0(s)'' 0x68304073 0xfff0707f (Some MF_opcode) 0x38,
    opc ''hlv.d'' 64 INSN_CLASS_H ''d,0(s)'' 0x6c004073 0xfff0707f (Some MF_opcode) 0x48,
    opc ''hsv.b'' 0 INSN_CLASS_H ''t,0(s)'' 0x62004073 0xfe007fff (Some MF_opcode) 0x18,
    opc ''hsv.h'' 0 INSN_CLASS_H ''t,0(s)'' 0x66004073 0xfe007fff (Some MF_opcode) 0x28,
    opc ''hsv.w'' 0 INSN_CLASS_H ''t,0(s)'' 0x6a004073 0xfe007fff (Some MF_opcode) 0x38,
    opc ''hsv.d'' 64 INSN_CLASS_H ''t,0(s)'' 0x6e004073 0xfe007fff (Some MF_opcode) 0x48,
    opc ''cv.mac'' 0 INSN_CLASS_XCVMAC ''d,s,t'' 0x9000302b 0xfe00707f (Some MF_opcode) 0,
    opc ''cv.msu'' 0 INSN_CLASS_XCVMAC ''d,s,t'' 0x9200302b 0xfe00707f (Some MF_opcode) 0,
    opc ''cv.mulsn'' 0 INSN_CLASS_XCVMAC ''d,s,t,Xc3'' 0x405b 0xc000707f (Some MF_opcode) 0,
    opc ''cv.muls'' 0 INSN_CLASS_XCVMAC ''d,s,t'' 0x405b 0xfe00707f (Some MF_opcode) 0x1,
    opc ''cv.mulsrn'' 0 INSN_CLASS_XCVMAC ''d,s,t,Xc3'' 0x8000405b 0xc000707f (Some MF_opcode) 0,
    opc ''cv.mulhhsn'' 0 INSN_CLASS_XCVMAC ''d,s,t,Xc3'' 0x4000405b 0xc000707f (Some MF_opcode) 0,
    opc ''cv.mulhhs'' 0 INSN_CLASS_XCVMAC ''d,s,t'' 0x4000405b 0xfe00707f (Some MF_opcode) 0x1,
    opc ''cv.mulhhsrn'' 0 INSN_CLASS_XCVMAC ''d,s,t,Xc3'' 0xc000405b 0xc000707f (Some MF_opcode) 0,
    opc ''cv.mulun'' 0 INSN_CLASS_XCVMAC ''d,s,t,Xc3'' 0x505b 0xc000707f (Some MF_opcode) 0,
    opc ''cv.mulu'' 0 INSN_CLASS_XCVMAC ''d,s,t'' 0x505b 0xfe00707f (Some MF_opcode) 0x1,
    opc ''cv.mulurn'' 0 INSN_CLASS_XCVMAC ''d,s,t,Xc3'' 0x8000505b 0xc000707f (Some MF_opcode) 0,
    opc ''cv.mulhhun'' 0 INSN_CLASS_XCVMAC ''d,s,t,Xc3'' 0x4000505b 0xc000707f (Some MF_opcode) 0,
    opc ''cv.mulhhu'' 0 INSN_CLASS_XCVMAC ''d,s,t'' 0x4000505b 0xfe00707f (Some MF_opcode) 0x1,
    opc ''cv.mulhhurn'' 0 INSN_CLASS_XCVMAC ''d,s,t,Xc3'' 0xc000505b 0xc000707f (Some MF_opcode) 0,
    opc ''cv.macsn'' 0 INSN_CLASS_XCVMAC ''d,s,t,Xc3'' 0x605b 0xc000707f (Some MF_opcode) 0,
    opc ''cv.machhsn'' 0 INSN_CLASS_XCVMAC ''d,s,t,Xc3'' 0x4000605b 0xc000707f (Some MF_opcode) 0,
    opc ''cv.macsrn'' 0 INSN_CLASS_XCVMAC ''d,s,t,Xc3'' 0x8000605b 0xc000707f (Some MF_opcode) 0,
    opc ''cv.machhsrn'' 0 INSN_CLASS_XCVMAC ''d,s,t,Xc3'' 0xc000605b 0xc000707f (Some MF_opcode) 0,
    opc ''cv.macun'' 0 INSN_CLASS_XCVMAC ''d,s,t,Xc3'' 0x705b 0xc000707f (Some MF_opcode) 0,
    opc ''cv.machhun'' 0 INSN_CLASS_XCVMAC ''d,s,t,Xc3'' 0x4000705b 0xc000707f (Some MF_opcode) 0,
    opc ''cv.macurn'' 0 INSN_CLASS_XCVMAC ''d,s,t,Xc3'' 0x8000705b 0xc000707f (Some MF_opcode) 0,
    opc ''cv.machhurn'' 0 INSN_CLASS_XCVMAC ''d,s,t,Xc3'' 0xc000705b 0xc000707f (Some MF_opcode) 0,
    opc ''cv.abs'' 0 INSN_CLASS_XCVALU ''d,s'' 0x5000302b 0xfff0707f (Some MF_opcode) 0,
    opc ''cv.exths'' 0 INSN_CLASS_XCVALU ''d,s'' 0x6000302b 0xfff0707f (Some MF_opcode) 0,
    opc ''cv.exthz'' 0 INSN_CLASS_XCVALU ''d,s'' 0x6200302b 0xfff0707f (Some MF_opcode) 0,
    opc ''cv.extbs'' 0 INSN_CLASS_XCVALU ''d,s'' 0x6400302b 0xfff0707f (Some MF_opcode) 0,
    opc ''cv.extbz'' 0 INSN_CLASS_XCVALU ''d,s'' 0x6600302b 0xfff0707f (Some MF_opcode) 0,
    opc ''cv.sle'' 0 INSN_CLASS_XCVALU ''d,s,t'' 0x5200302b 0xfe00707f (Some MF_opcode) 0,
    opc ''cv.slet'' 0 INSN_CLASS_XCVALU ''d,s,t'' 0x5200302b 0xfe00707f (Some MF_opcode) 0x1,
    opc ''cv.sleu'' 0 INSN_CLASS_XCVALU ''d,s,t'' 0x5400302b 0xfe00707f (Some MF_opcode) 0,
    opc ''cv.sletu'' 0 INSN_CLASS_XCVALU ''d,s,t'' 0x5400302b 0xfe00707f (Some MF_opcode) 0x1,
    opc ''cv.min'' 0 INSN_CLASS_XCVALU ''d,s,t'' 0x5600302b 0xfe00707f (Some MF_opcode) 0,
    opc ''cv.minu'' 0 INSN_CLASS_XCVALU ''d,s,t'' 0x5800302b 0xfe00707f (Some MF_opcode) 0,
    opc ''cv.max'' 0 INSN_CLASS_XCVALU ''d,s,t'' 0x5a00302b 0xfe00707f (Some MF_opcode) 0,
    opc ''cv.maxu'' 0 INSN_CLASS_XCVALU ''d,s,t'' 0x5c00302b 0xfe00707f (Some MF_opcode) 0,
    opc ''cv.clip'' 0 INSN_CLASS_XCVALU ''d,s,Xc2'' 0x7000302b 0xfe00707f (Some MF_opcode) 0,
    opc ''cv.clipu'' 0 INSN_CLASS_XCVALU ''d,s,Xc2'' 0x7200302b 0xfe00707f (Some MF_opcode) 0,
    opc ''cv.clipr'' 0 INSN_CLASS_XCVALU ''d,s,t'' 0x7400302b 0xfe00707f (Some MF_opcode) 0,
    opc ''cv.clipur'' 0 INSN_CLASS_XCVALU ''d,s,t'' 0x7600302b 0xfe00707f (Some MF_opcode) 0,
    opc ''cv.addn'' 0 INSN_CLASS_XCVALU ''d,s,t,Xc3'' 0x205b 0xc000707f (Some MF_opcode) 0,
    opc ''cv.addun'' 0 INSN_CLASS_XCVALU ''d,s,t,Xc3'' 0x4000205b 0xc000707f (Some MF_opcode) 0,
    opc ''cv.addunr'' 0 INSN_CLASS_XCVALU ''d,s,t'' 0x8200302b 0xfe00707f (Some MF_opcode) 0,
    opc ''cv.addrn'' 0 INSN_CLASS_XCVALU ''d,s,t,Xc3'' 0x8000205b 0xc000707f (Some MF_opcode) 0,
    opc ''cv.addurn'' 0 INSN_CLASS_XCVALU ''d,s,t,Xc3'' 0xc000205b 0xc000707f (Some MF_opcode) 0,
    opc ''cv.addnr'' 0 INSN_CLASS_XCVALU ''d,s,t'' 0x8000302b 0xfe00707f (Some MF_opcode) 0,
    opc ''cv.addrnr'' 0 INSN_CLASS_XCVALU ''d,s,t'' 0x8400302b 0xfe00707f (Some MF_opcode) 0,
    opc ''cv.addurnr'' 0 INSN_CLASS_XCVALU ''d,s,t'' 0x8600302b 0xfe00707f (Some MF_opcode) 0,
    opc ''cv.subn'' 0 INSN_CLASS_XCVALU ''d,s,t,Xc3'' 0x305b 0xc000707f (Some MF_opcode) 0,
    opc ''cv.subun'' 0 INSN_CLASS_XCVALU ''d,s,t,Xc3'' 0x4000305b 0xc000707f (Some MF_opcode) 0,
    opc ''cv.subrn'' 0 INSN_CLASS_XCVALU ''d,s,t,Xc3'' 0x8000305b 0xc000707f (Some MF_opcode) 0,
    opc ''cv.suburn'' 0 INSN_CLASS_XCVALU ''d,s,t,Xc3'' 0xc000305b 0xc000707f (Some MF_opcode) 0,
    opc ''cv.subnr'' 0 INSN_CLASS_XCVALU ''d,s,t'' 0x8800302b 0xfe00707f (Some MF_opcode) 0,
    opc ''cv.subunr'' 0 INSN_CLASS_XCVALU ''d,s,t'' 0x8a00302b 0xfe00707f (Some MF_opcode) 0,
    opc ''cv.subrnr'' 0 INSN_CLASS_XCVALU ''d,s,t'' 0x8c00302b 0xfe00707f (Some MF_opcode) 0,
    opc ''cv.suburnr'' 0 INSN_CLASS_XCVALU ''d,s,t'' 0x8e00302b 0xfe00707f (Some MF_opcode) 0,
    opc ''cv.elw'' 0 INSN_CLASS_XCVELW ''d,o(s)'' 0x600b 0x707f (Some MF_opcode) 0]"

definition riscv_opcodes_14 :: "riscv_opcode list" where
  "riscv_opcodes_14 = [
    opc ''cv.beqimm'' 0 INSN_CLASS_XCVBI ''s,Xc4,p'' 0x600b 0x707f (Some MF_opcode) 0,
    opc ''cv.bneimm'' 0 INSN_CLASS_XCVBI ''s,Xc4,p'' 0x700b 0x707f (Some MF_opcode) 0,
    opc ''cv.lb'' 0 INSN_CLASS_XCVMEM ''d,(s),o'' 0xb 0x707f (Some MF_opcode) 0,
    opc ''cv.lb'' 0 INSN_CLASS_XCVMEM ''d,(s),t'' 0x302b 0xfe00707f (Some MF_opcode) 0,
    opc ''cv.lb'' 0 INSN_CLASS_XCVMEM ''d,t(s)'' 0x800302b 0xfe00707f (Some MF_opcode) 0,
    opc ''cv.lbu'' 0 INSN_CLASS_XCVMEM ''d,(s),o'' 0x400b 0x707f (Some MF_opcode) 0,
    opc ''cv.lbu'' 0 INSN_CLASS_XCVMEM ''d,(s),t'' 0x1000302b 0xfe00707f (Some MF_opcode) 0,
    opc ''cv.lbu'' 0 INSN_CLASS_XCVMEM ''d,t(s)'' 0x1800302b 0xfe00707f (Some MF_opcode) 0,
    opc ''cv.lh'' 0 INSN_CLASS_XCVMEM ''d,(s),o'' 0x100b 0x707f (Some MF_opcode) 0,
    opc ''cv.lh'' 0 INSN_CLASS_XCVMEM ''d,(s),t'' 0x200302b 0xfe00707f (Some MF_opcode) 0,
    opc ''cv.lh'' 0 INSN_CLASS_XCVMEM ''d,t(s)'' 0xa00302b 0xfe00707f (Some MF_opcode) 0,
    opc ''cv.lhu'' 0 INSN_CLASS_XCVMEM ''d,(s),o'' 0x500b 0x707f (Some MF_opcode) 0,
    opc ''cv.lhu'' 0 INSN_CLASS_XCVMEM ''d,(s),t'' 0x1200302b 0xfe00707f (Some MF_opcode) 0,
    opc ''cv.lhu'' 0 INSN_CLASS_XCVMEM ''d,t(s)'' 0x1a00302b 0xfe00707f (Some MF_opcode) 0,
    opc ''cv.lw'' 0 INSN_CLASS_XCVMEM ''d,(s),o'' 0x200b 0x707f (Some MF_opcode) 0,
    opc ''cv.lw'' 0 INSN_CLASS_XCVMEM ''d,(s),t'' 0x400302b 0xfe00707f (Some MF_opcode) 0,
    opc ''cv.lw'' 0 INSN_CLASS_XCVMEM ''d,t(s)'' 0xc00302b 0xfe00707f (Some MF_opcode) 0,
    opc ''cv.sb'' 0 INSN_CLASS_XCVMEM ''t,(s),q'' 0x2b 0x707f (Some MF_opcode) 0,
    opc ''cv.sb'' 0 INSN_CLASS_XCVMEM ''t,d(s)'' 0x2800302b 0xfe00707f (Some MF_opcode) 0,
    opc ''cv.sb'' 0 INSN_CLASS_XCVMEM ''t,(s),d'' 0x2000302b 0xfe00707f (Some MF_opcode) 0,
    opc ''cv.sh'' 0 INSN_CLASS_XCVMEM ''t,(s),q'' 0x102b 0x707f (Some MF_opcode) 0,
    opc ''cv.sh'' 0 INSN_CLASS_XCVMEM ''t,d(s)'' 0x2a00302b 0xfe00707f (Some MF_opcode) 0,
    opc ''cv.sh'' 0 INSN_CLASS_XCVMEM ''t,(s),d'' 0x2200302b 0xfe00707f (Some MF_opcode) 0,
    opc ''cv.sw'' 0 INSN_CLASS_XCVMEM ''t,(s),q'' 0x202b 0x707f (Some MF_opcode) 0,
    opc ''cv.sw'' 0 INSN_CLASS_XCVMEM ''t,d(s)'' 0x2c00302b 0xfe00707f (Some MF_opcode) 0,
    opc ''cv.sw'' 0 INSN_CLASS_XCVMEM ''t,(s),d'' 0x2400302b 0xfe00707f (Some MF_opcode) 0,
    opc ''th.addsl'' 0 INSN_CLASS_XTHEADBA ''d,s,t,Xtu2@25'' 0x100b 0xf800707f (Some MF_opcode) 0,
    opc ''th.srri'' 0 INSN_CLASS_XTHEADBB ''d,s,Xtu6@20'' 0x1000100b 0xfc00707f (Some MF_opcode) 0,
    opc ''th.srriw'' 64 INSN_CLASS_XTHEADBB ''d,s,Xtu5@20'' 0x1400100b 0xfe00707f (Some MF_opcode) 0,
    opc ''th.ext'' 0 INSN_CLASS_XTHEADBB ''d,s,Xtu6@26,Xtu6@20'' 0x200b 0x707f (Some MF_opcode) 0,
    opc ''th.extu'' 0 INSN_CLASS_XTHEADBB ''d,s,Xtu6@26,Xtu6@20'' 0x300b 0x707f (Some MF_opcode) 0,
    opc ''th.ff0'' 0 INSN_CLASS_XTHEADBB ''d,s'' 0x8400100b 0xfff0707f (Some MF_opcode) 0,
    opc ''th.ff1'' 0 INSN_CLASS_XTHEADBB ''d,s'' 0x8600100b 0xfff0707f (Some MF_opcode) 0,
    opc ''th.rev'' 0 INSN_CLASS_XTHEADBB ''d,s'' 0x8200100b 0xfff0707f (Some MF_opcode) 0,
    opc ''th.revw'' 64 INSN_CLASS_XTHEADBB ''d,s'' 0x9000100b 0xfff0707f (Some MF_opcode) 0,
    opc ''th.tstnbz'' 0 INSN_CLASS_XTHEADBB ''d,s'' 0x8000100b 0xfff0707f (Some MF_opcode) 0,
    opc ''th.tst'' 0 INSN_CLASS_XTHEADBS ''d,s,Xtu6@20'' 0x8800100b 0xfc00707f (Some MF_opcode) 0,
    opc ''th.dcache.call'' 0 INSN_CLASS_XTHEADCMO '''' 0x10000b 0xffffffff (Some MF_opcode) 0,
    opc ''th.dcache.ciall'' 0 INSN_CLASS_XTHEADCMO '''' 0x30000b 0xffffffff (Some MF_opcode) 0,
    opc ''th.dcache.iall'' 0 INSN_CLASS_XTHEADCMO '''' 0x20000b 0xffffffff (Some MF_opcode) 0,
    opc ''th.dcache.cpa'' 0 INSN_CLASS_XTHEADCMO ''s'' 0x290000b 0xfff07fff (Some MF_opcode) 0,
    opc ''th.dcache.cipa'' 0 INSN_CLASS_XTHEADCMO ''s'' 0x2b0000b 0xfff07fff (Some MF_opcode) 0,
    opc ''th.dcache.ipa'' 0 INSN_CLASS_XTHEADCMO ''s'' 0x2a0000b 0xfff07fff (Some MF_opcode) 0,
    opc ''th.dcache.cva'' 0 INSN_CLASS_XTHEADCMO ''s'' 0x250000b 0xfff07fff (Some MF_opcode) 0,
    opc ''th.dcache.civa'' 0 INSN_CLASS_XTHEADCMO ''s'' 0x270000b 0xfff07fff (Some MF_opcode) 0,
    opc ''th.dcache.iva'' 0 INSN_CLASS_XTHEADCMO ''s'' 0x260000b 0xfff07fff (Some MF_opcode) 0,
    opc ''th.dcache.csw'' 0 INSN_CLASS_XTHEADCMO ''s'' 0x210000b 0xfff07fff (Some MF_opcode) 0,
    opc ''th.dcache.cisw'' 0 INSN_CLASS_XTHEADCMO ''s'' 0x230000b 0xfff07fff (Some MF_opcode) 0,
    opc ''th.dcache.isw'' 0 INSN_CLASS_XTHEADCMO ''s'' 0x220000b 0xfff07fff (Some MF_opcode) 0,
    opc ''th.dcache.cpal1'' 0 INSN_CLASS_XTHEADCMO ''s'' 0x280000b 0xfff07fff (Some MF_opcode) 0,
    opc ''th.dcache.cval1'' 0 INSN_CLASS_XTHEADCMO ''s'' 0x240000b 0xfff07fff (Some MF_opcode) 0,
    opc ''th.icache.iall'' 0 INSN_CLASS_XTHEADCMO '''' 0x100000b 0xffffffff (Some MF_opcode) 0,
    opc ''th.icache.ialls'' 0 INSN_CLASS_XTHEADCMO '''' 0x110000b 0xffffffff (Some MF_opcode) 0,
    opc ''th.icache.ipa'' 0 INSN_CLASS_XTHEADCMO ''s'' 0x380000b 0xfff07fff (Some MF_opcode) 0,
    opc ''th.icache.iva'' 0 INSN_CLASS_XTHEADCMO ''s'' 0x300000b 0xfff07fff (Some MF_opcode) 0,
    opc ''th.l2cache.call'' 0 INSN_CLASS_XTHEADCMO '''' 0x150000b 0xffffffff (Some MF_opcode) 0,
    opc ''th.l2cache.ciall'' 0 INSN_CLASS_XTHEADCMO '''' 0x170000b 0xffffffff (Some MF_opcode) 0,
    opc ''th.l2cache.iall'' 0 INSN_CLASS_XTHEADCMO '''' 0x160000b 0xffffffff (Some MF_opcode) 0,
    opc ''th.mveqz'' 0 INSN_CLASS_XTHEADCONDMOV ''d,s,t'' 0x4000100b 0xfe00707f (Some MF_opcode) 0,
    opc ''th.mvnez'' 0 INSN_CLASS_XTHEADCONDMOV ''d,s,t'' 0x4200100b 0xfe00707f (Some MF_opcode) 0,
    opc ''th.flrd'' 0 INSN_CLASS_XTHEADFMEMIDX ''D,s,t,Xtu2@25'' 0x6000600b 0xf800707f (Some MF_opcode) 0,
    opc ''th.flrw'' 0 INSN_CLASS_XTHEADFMEMIDX ''D,s,t,Xtu2@25'' 0x4000600b 0xf800707f (Some MF_opcode) 0,
    opc ''th.flurd'' 0 INSN_CLASS_XTHEADFMEMIDX ''D,s,t,Xtu2@25'' 0x7000600b 0xf800707f (Some MF_opcode) 0,
    opc ''th.flurw'' 0 INSN_CLASS_XTHEADFMEMIDX ''D,s,t,Xtu2@25'' 0x5000600b 0xf800707f (Some MF_opcode) 0,
    opc ''th.fsrd'' 0 INSN_CLASS_XTHEADFMEMIDX ''D,s,t,Xtu2@25'' 0x6000700b 0xf800707f (Some MF_opcode) 0,
    opc ''th.fsrw'' 0 INSN_CLASS_XTHEADFMEMIDX ''D,s,t,Xtu2@25'' 0x4000700b 0xf800707f (Some MF_opcode) 0,
    opc ''th.fsurd'' 0 INSN_CLASS_XTHEADFMEMIDX ''D,s,t,Xtu2@25'' 0x7000700b 0xf800707f (Some MF_opcode) 0,
    opc ''th.fsurw'' 0 INSN_CLASS_XTHEADFMEMIDX ''D,s,t,Xtu2@25'' 0x5000700b 0xf800707f (Some MF_opcode) 0,
    opc ''th.fmv.hw.x'' 32 INSN_CLASS_XTHEADFMV ''D,s'' 0xa000100b 0xfff0707f (Some MF_opcode) 0,
    opc ''th.fmv.x.hw'' 32 INSN_CLASS_XTHEADFMV ''d,S'' 0xc000100b 0xfff0707f (Some MF_opcode) 0,
    opc ''th.ipop'' 0 INSN_CLASS_XTHEADINT '''' 0x50000b 0xffffffff (Some MF_opcode) 0,
    opc ''th.ipush'' 0 INSN_CLASS_XTHEADINT '''' 0x40000b 0xffffffff (Some MF_opcode) 0,
    opc ''th.ldia'' 64 INSN_CLASS_XTHEADMEMIDX ''d,(s),Xts5@20,Xtu2@25'' 0x7800400b 0xf800707f (Some MF_th_load_inc) 0,
    opc ''th.ldib'' 64 INSN_CLASS_XTHEADMEMIDX ''d,(s),Xts5@20,Xtu2@25'' 0x6800400b 0xf800707f (Some MF_th_load_inc) 0,
    opc ''th.lwia'' 0 INSN_CLASS_XTHEADMEMIDX ''d,(s),Xts5@20,Xtu2@25'' 0x5800400b 0xf800707f (Some MF_th_load_inc) 0,
    opc ''th.lwib'' 0 INSN_CLASS_XTHEADMEMIDX ''d,(s),Xts5@20,Xtu2@25'' 0x4800400b 0xf800707f (Some MF_th_load_inc) 0,
    opc ''th.lwuia'' 64 INSN_CLASS_XTHEADMEMIDX ''d,(s),Xts5@20,Xtu2@25'' 0xd800400b 0xf800707f (Some MF_th_load_inc) 0,
    opc ''th.lwuib'' 64 INSN_CLASS_XTHEADMEMIDX ''d,(s),Xts5@20,Xtu2@25'' 0xc800400b 0xf800707f (Some MF_th_load_inc) 0,
    opc ''th.lhia'' 0 INSN_CLASS_XTHEADMEMIDX ''d,(s),Xts5@20,Xtu2@25'' 0x3800400b 0xf800707f (Some MF_th_load_inc) 0,
    opc ''th.lhib'' 0 INSN_CLASS_XTHEADMEMIDX ''d,(s),Xts5@20,Xtu2@25'' 0x2800400b 0xf800707f (Some MF_th_load_inc) 0,
    opc ''th.lhuia'' 0 INSN_CLASS_XTHEADMEMIDX ''d,(s),Xts5@20,Xtu2@25'' 0xb800400b 0xf800707f (Some MF_th_load_inc) 0,
    opc ''th.lhuib'' 0 INSN_CLASS_XTHEADMEMIDX ''d,(s),Xts5@20,Xtu2@25'' 0xa800400b 0xf800707f (Some MF_th_load_inc) 0,
    opc ''th.lbia'' 0 INSN_CLASS_XTHEADMEMIDX ''d,(s),Xts5@20,Xtu2@25'' 0x1800400b 0xf800707f (Some MF_th_load_inc) 0,
    opc ''th.lbib'' 0 INSN_CLASS_XTHEADMEMIDX ''d,(s),Xts5@20,Xtu2@25'' 0x800400b 0xf800707f (Some MF_th_load_inc) 0,
    opc ''th.lbuia'' 0 INSN_CLASS_XTHEADMEMIDX ''d,(s),Xts5@20,Xtu2@25'' 0x9800400b 0xf800707f (Some MF_th_load_inc) 0,
    opc ''th.lbuib'' 0 INSN_CLASS_XTHEADMEMIDX ''d,(s),Xts5@20,Xtu2@25'' 0x8800400b 0xf800707f (Some MF_th_load_inc) 0,
    opc ''th.sdia'' 64 INSN_CLASS_XTHEADMEMIDX ''d,(s),Xts5@20,Xtu2@25'' 0x7800500b 0xf800707f (Some MF_opcode) 0,
    opc ''th.sdib'' 64 INSN_CLASS_XTHEADMEMIDX ''d,(s),Xts5@20,Xtu2@25'' 0x6800500b 0xf800707f (Some MF_opcode) 0,
    opc ''th.swia'' 0 INSN_CLASS_XTHEADMEMIDX ''d,(s),Xts5@20,Xtu2@25'' 0x5800500b 0xf800707f (Some MF_opcode) 0,
    opc ''th.swib'' 0 INSN_CLASS_XTHEADMEMIDX ''d,(s),Xts5@20,Xtu2@25'' 0x4800500b 0xf800707f (Some MF_opcode) 0,
    opc ''th.shia'' 0 INSN_CLASS_XTHEADMEMIDX ''d,(s),Xts5@20,Xtu2@25'' 0x3800500b 0xf800707f (Some MF_opcode) 0,
    opc ''th.shib'' 0 INSN_CLASS_XTHEADMEMIDX ''d,(s),Xts5@20,Xtu2@25'' 0x2800500b 0xf800707f (Some MF_opcode) 0,
    opc ''th.sbia'' 0 INSN_CLASS_XTHEADMEMIDX ''d,(s),Xts5@20,Xtu2@25'' 0x1800500b 0xf800707f (Some MF_opcode) 0,
    opc ''th.sbib'' 0 INSN_CLASS_XTHEADMEMIDX ''d,(s),Xts5@20,Xtu2@25'' 0x800500b 0xf800707f (Some MF_opcode) 0,
    opc ''th.lrd'' 64 INSN_CLASS_XTHEADMEMIDX ''d,s,t,Xtu2@25'' 0x6000400b 0xf800707f (Some MF_opcode) 0,
    opc ''th.lrw'' 0 INSN_CLASS_XTHEADMEMIDX ''d,s,t,Xtu2@25'' 0x4000400b 0xf800707f (Some MF_opcode) 0,
    opc ''th.lrwu'' 64 INSN_CLASS_XTHEADMEMIDX ''d,s,t,Xtu2@25'' 0xc000400b 0xf800707f (Some MF_opcode) 0,
    opc ''th.lrh'' 0 INSN_CLASS_XTHEADMEMIDX ''d,s,t,Xtu2@25'' 0x2000400b 0xf800707f (Some MF_opcode) 0,
    opc ''th.lrhu'' 0 INSN_CLASS_XTHEADMEMIDX ''d,s,t,Xtu2@25'' 0xa000400b 0xf800707f (Some MF_opcode) 0,
    opc ''th.lrb'' 0 INSN_CLASS_XTHEADMEMIDX ''d,s,t,Xtu2@25'' 0x400b 0xf800707f (Some MF_opcode) 0,
    opc ''th.lrbu'' 0 INSN_CLASS_XTHEADMEMIDX ''d,s,t,Xtu2@25'' 0x8000400b 0xf800707f (Some MF_opcode) 0,
    opc ''th.srd'' 64 INSN_CLASS_XTHEADMEMIDX ''d,s,t,Xtu2@25'' 0x6000500b 0xf800707f (Some MF_opcode) 0,
    opc ''th.srw'' 0 INSN_CLASS_XTHEADMEMIDX ''d,s,t,Xtu2@25'' 0x4000500b 0xf800707f (Some MF_opcode) 0,
    opc ''th.srh'' 0 INSN_CLASS_XTHEADMEMIDX ''d,s,t,Xtu2@25'' 0x2000500b 0xf800707f (Some MF_opcode) 0,
    opc ''th.srb'' 0 INSN_CLASS_XTHEADMEMIDX ''d,s,t,Xtu2@25'' 0x500b 0xf800707f (Some MF_opcode) 0,
    opc ''th.lurd'' 64 INSN_CLASS_XTHEADMEMIDX ''d,s,t,Xtu2@25'' 0x7000400b 0xf800707f (Some MF_opcode) 0,
    opc ''th.lurw'' 0 INSN_CLASS_XTHEADMEMIDX ''d,s,t,Xtu2@25'' 0x5000400b 0xf800707f (Some MF_opcode) 0,
    opc ''th.lurwu'' 64 INSN_CLASS_XTHEADMEMIDX ''d,s,t,Xtu2@25'' 0xd000400b 0xf800707f (Some MF_opcode) 0,
    opc ''th.lurh'' 0 INSN_CLASS_XTHEADMEMIDX ''d,s,t,Xtu2@25'' 0x3000400b 0xf800707f (Some MF_opcode) 0,
    opc ''th.lurhu'' 0 INSN_CLASS_XTHEADMEMIDX ''d,s,t,Xtu2@25'' 0xb000400b 0xf800707f (Some MF_opcode) 0,
    opc ''th.lurb'' 0 INSN_CLASS_XTHEADMEMIDX ''d,s,t,Xtu2@25'' 0x1000400b 0xf800707f (Some MF_opcode) 0,
    opc ''th.lurbu'' 0 INSN_CLASS_XTHEADMEMIDX ''d,s,t,Xtu2@25'' 0x9000400b 0xf800707f (Some MF_opcode) 0,
    opc ''th.surd'' 64 INSN_CLASS_XTHEADMEMIDX ''d,s,t,Xtu2@25'' 0x7000500b 0xf800707f (Some MF_opcode) 0,
    opc ''th.surw'' 0 INSN_CLASS_XTHEADMEMIDX ''d,s,t,Xtu2@25'' 0x5000500b 0xf800707f (Some MF_opcode) 0,
    opc ''th.surh'' 0 INSN_CLASS_XTHEADMEMIDX ''d,s,t,Xtu2@25'' 0x3000500b 0xf800707f (Some MF_opcode) 0,
    opc ''th.surb'' 0 INSN_CLASS_XTHEADMEMIDX ''d,s,t,Xtu2@25'' 0x1000500b 0xf800707f (Some MF_opcode) 0,
    opc ''th.ldd'' 64 INSN_CLASS_XTHEADMEMPAIR ''d,t,(s),Xtu2@25,Xtl4'' 0xf800400b 0xf800707f (Some MF_th_load_pair) 0,
    opc ''th.lwd'' 0 INSN_CLASS_XTHEADMEMPAIR ''d,t,(s),Xtu2@25,Xtl3'' 0xe000400b 0xf800707f (Some MF_th_load_pair) 0,
    opc ''th.lwud'' 0 INSN_CLASS_XTHEADMEMPAIR ''d,t,(s),Xtu2@25,Xtl3'' 0xf000400b 0xf800707f (Some MF_th_load_pair) 0,
    opc ''th.sdd'' 64 INSN_CLASS_XTHEADMEMPAIR ''d,t,(s),Xtu2@25,Xtl4'' 0xf800500b 0xf800707f (Some MF_opcode) 0,
    opc ''th.swd'' 0 INSN_CLASS_XTHEADMEMPAIR ''d,t,(s),Xtu2@25,Xtl3'' 0xe000500b 0xf800707f (Some MF_opcode) 0,
    opc ''th.mula'' 0 INSN_CLASS_XTHEADMAC ''d,s,t'' 0x2000100b 0xfe00707f (Some MF_opcode) 0]"

definition riscv_opcodes_15 :: "riscv_opcode list" where
  "riscv_opcodes_15 = [
    opc ''th.mulah'' 0 INSN_CLASS_XTHEADMAC ''d,s,t'' 0x2800100b 0xfe00707f (Some MF_opcode) 0,
    opc ''th.mulaw'' 64 INSN_CLASS_XTHEADMAC ''d,s,t'' 0x2400100b 0xfe00707f (Some MF_opcode) 0,
    opc ''th.muls'' 0 INSN_CLASS_XTHEADMAC ''d,s,t'' 0x2200100b 0xfe00707f (Some MF_opcode) 0,
    opc ''th.mulsh'' 0 INSN_CLASS_XTHEADMAC ''d,s,t'' 0x2a00100b 0xfe00707f (Some MF_opcode) 0,
    opc ''th.mulsw'' 64 INSN_CLASS_XTHEADMAC ''d,s,t'' 0x2600100b 0xfe00707f (Some MF_opcode) 0,
    opc ''th.sfence.vmas'' 0 INSN_CLASS_XTHEADSYNC ''s,t'' 0x400000b 0xfe007fff (Some MF_opcode) 0,
    opc ''th.sync'' 0 INSN_CLASS_XTHEADSYNC '''' 0x180000b 0xffffffff (Some MF_opcode) 0,
    opc ''th.sync.i'' 0 INSN_CLASS_XTHEADSYNC '''' 0x1a0000b 0xffffffff (Some MF_opcode) 0,
    opc ''th.sync.is'' 0 INSN_CLASS_XTHEADSYNC '''' 0x1b0000b 0xffffffff (Some MF_opcode) 0,
    opc ''th.sync.s'' 0 INSN_CLASS_XTHEADSYNC '''' 0x190000b 0xffffffff (Some MF_opcode) 0,
    opc ''th.vsetvl'' 0 INSN_CLASS_XTHEADVECTOR ''d,s,t'' 0x80007057 0xfe00707f (Some MF_opcode) 0,
    opc ''th.vsetvli'' 0 INSN_CLASS_XTHEADVECTOR ''d,s,XtVc'' 0x7057 0x8000707f (Some MF_opcode) 0,
    opc ''th.vlb.v'' 0 INSN_CLASS_XTHEADVECTOR ''Vd,0(s)Vm'' 0x10000007 0xfdf0707f (Some MF_opcode) 0x8,
    opc ''th.vlh.v'' 0 INSN_CLASS_XTHEADVECTOR ''Vd,0(s)Vm'' 0x10005007 0xfdf0707f (Some MF_opcode) 0x8,
    opc ''th.vlw.v'' 0 INSN_CLASS_XTHEADVECTOR ''Vd,0(s)Vm'' 0x10006007 0xfdf0707f (Some MF_opcode) 0x8,
    opc ''th.vlbu.v'' 0 INSN_CLASS_XTHEADVECTOR ''Vd,0(s)Vm'' 0x7 0xfdf0707f (Some MF_opcode) 0x8,
    opc ''th.vlhu.v'' 0 INSN_CLASS_XTHEADVECTOR ''Vd,0(s)Vm'' 0x5007 0xfdf0707f (Some MF_opcode) 0x8,
    opc ''th.vlwu.v'' 0 INSN_CLASS_XTHEADVECTOR ''Vd,0(s)Vm'' 0x6007 0xfdf0707f (Some MF_opcode) 0x8,
    opc ''th.vle.v'' 0 INSN_CLASS_XTHEADVECTOR ''Vd,0(s)Vm'' 0x7007 0xfdf0707f (Some MF_opcode) 0x8,
    opc ''th.vsb.v'' 0 INSN_CLASS_XTHEADVECTOR ''Vd,0(s)Vm'' 0x27 0xfdf0707f (Some MF_opcode) 0x8,
    opc ''th.vsh.v'' 0 INSN_CLASS_XTHEADVECTOR ''Vd,0(s)Vm'' 0x5027 0xfdf0707f (Some MF_opcode) 0x8,
    opc ''th.vsw.v'' 0 INSN_CLASS_XTHEADVECTOR ''Vd,0(s)Vm'' 0x6027 0xfdf0707f (Some MF_opcode) 0x8,
    opc ''th.vse.v'' 0 INSN_CLASS_XTHEADVECTOR ''Vd,0(s)Vm'' 0x7027 0xfdf0707f (Some MF_opcode) 0x8,
    opc ''th.vlsb.v'' 0 INSN_CLASS_XTHEADVECTOR ''Vd,0(s),tVm'' 0x18000007 0xfc00707f (Some MF_opcode) 0x8,
    opc ''th.vlsh.v'' 0 INSN_CLASS_XTHEADVECTOR ''Vd,0(s),tVm'' 0x18005007 0xfc00707f (Some MF_opcode) 0x8,
    opc ''th.vlsw.v'' 0 INSN_CLASS_XTHEADVECTOR ''Vd,0(s),tVm'' 0x18006007 0xfc00707f (Some MF_opcode) 0x8,
    opc ''th.vlsbu.v'' 0 INSN_CLASS_XTHEADVECTOR ''Vd,0(s),tVm'' 0x8000007 0xfc00707f (Some MF_opcode) 0x8,
    opc ''th.vlshu.v'' 0 INSN_CLASS_XTHEADVECTOR ''Vd,0(s),tVm'' 0x8005007 0xfc00707f (Some MF_opcode) 0x8,
    opc ''th.vlswu.v'' 0 INSN_CLASS_XTHEADVECTOR ''Vd,0(s),tVm'' 0x8006007 0xfc00707f (Some MF_opcode) 0x8,
    opc ''th.vlse.v'' 0 INSN_CLASS_XTHEADVECTOR ''Vd,0(s),tVm'' 0x8007007 0xfc00707f (Some MF_opcode) 0x8,
    opc ''th.vssb.v'' 0 INSN_CLASS_XTHEADVECTOR ''Vd,0(s),tVm'' 0x8000027 0xfc00707f (Some MF_opcode) 0x8,
    opc ''th.vssh.v'' 0 INSN_CLASS_XTHEADVECTOR ''Vd,0(s),tVm'' 0x8005027 0xfc00707f (Some MF_opcode) 0x8,
    opc ''th.vssw.v'' 0 INSN_CLASS_XTHEADVECTOR ''Vd,0(s),tVm'' 0x8006027 0xfc00707f (Some MF_opcode) 0x8,
    opc ''th.vsse.v'' 0 INSN_CLASS_XTHEADVECTOR ''Vd,0(s),tVm'' 0x8007027 0xfc00707f (Some MF_opcode) 0x8,
    opc ''th.vlxb.v'' 0 INSN_CLASS_XTHEADVECTOR ''Vd,0(s),VtVm'' 0x1c000007 0xfc00707f (Some MF_opcode) 0x8,
    opc ''th.vlxh.v'' 0 INSN_CLASS_XTHEADVECTOR ''Vd,0(s),VtVm'' 0x1c005007 0xfc00707f (Some MF_opcode) 0x8,
    opc ''th.vlxw.v'' 0 INSN_CLASS_XTHEADVECTOR ''Vd,0(s),VtVm'' 0x1c006007 0xfc00707f (Some MF_opcode) 0x8,
    opc ''th.vlxbu.v'' 0 INSN_CLASS_XTHEADVECTOR ''Vd,0(s),VtVm'' 0xc000007 0xfc00707f (Some MF_opcode) 0x8,
    opc ''th.vlxhu.v'' 0 INSN_CLASS_XTHEADVECTOR ''Vd,0(s),VtVm'' 0xc005007 0xfc00707f (Some MF_opcode) 0x8,
    opc ''th.vlxwu.v'' 0 INSN_CLASS_XTHEADVECTOR ''Vd,0(s),VtVm'' 0xc006007 0xfc00707f (Some MF_opcode) 0x8,
    opc ''th.vlxe.v'' 0 INSN_CLASS_XTHEADVECTOR ''Vd,0(s),VtVm'' 0xc007007 0xfc00707f (Some MF_opcode) 0x8,
    opc ''th.vsxb.v'' 0 INSN_CLASS_XTHEADVECTOR ''Vd,0(s),VtVm'' 0xc000027 0xfc00707f (Some MF_opcode) 0x8,
    opc ''th.vsxh.v'' 0 INSN_CLASS_XTHEADVECTOR ''Vd,0(s),VtVm'' 0xc005027 0xfc00707f (Some MF_opcode) 0x8,
    opc ''th.vsxw.v'' 0 INSN_CLASS_XTHEADVECTOR ''Vd,0(s),VtVm'' 0xc006027 0xfc00707f (Some MF_opcode) 0x8,
    opc ''th.vsxe.v'' 0 INSN_CLASS_XTHEADVECTOR ''Vd,0(s),VtVm'' 0xc007027 0xfc00707f (Some MF_opcode) 0x8,
    opc ''th.vsuxb.v'' 0 INSN_CLASS_XTHEADVECTOR ''Vd,0(s),VtVm'' 0x1c000027 0xfc00707f (Some MF_opcode) 0x8,
    opc ''th.vsuxh.v'' 0 INSN_CLASS_XTHEADVECTOR ''Vd,0(s),VtVm'' 0x1c005027 0xfc00707f (Some MF_opcode) 0x8,
    opc ''th.vsuxw.v'' 0 INSN_CLASS_XTHEADVECTOR ''Vd,0(s),VtVm'' 0x1c006027 0xfc00707f (Some MF_opcode) 0x8,
    opc ''th.vsuxe.v'' 0 INSN_CLASS_XTHEADVECTOR ''Vd,0(s),VtVm'' 0x1c007027 0xfc00707f (Some MF_opcode) 0x8,
    opc ''th.vlbff.v'' 0 INSN_CLASS_XTHEADVECTOR ''Vd,0(s)Vm'' 0x11000007 0xfdf0707f (Some MF_opcode) 0x8,
    opc ''th.vlhff.v'' 0 INSN_CLASS_XTHEADVECTOR ''Vd,0(s)Vm'' 0x11005007 0xfdf0707f (Some MF_opcode) 0x8,
    opc ''th.vlwff.v'' 0 INSN_CLASS_XTHEADVECTOR ''Vd,0(s)Vm'' 0x11006007 0xfdf0707f (Some MF_opcode) 0x8,
    opc ''th.vlbuff.v'' 0 INSN_CLASS_XTHEADVECTOR ''Vd,0(s)Vm'' 0x1000007 0xfdf0707f (Some MF_opcode) 0x8,
    opc ''th.vlhuff.v'' 0 INSN_CLASS_XTHEADVECTOR ''Vd,0(s)Vm'' 0x1005007 0xfdf0707f (Some MF_opcode) 0x8,
    opc ''th.vlwuff.v'' 0 INSN_CLASS_XTHEADVECTOR ''Vd,0(s)Vm'' 0x1006007 0xfdf0707f (Some MF_opcode) 0x8,
    opc ''th.vleff.v'' 0 INSN_CLASS_XTHEADVECTOR ''Vd,0(s)Vm'' 0x1007007 0xfdf0707f (Some MF_opcode) 0x8,
    opc ''th.vlseg2b.v'' 0 INSN_CLASS_XTHEADVECTOR ''Vd,0(s)Vm'' 0x30000007 0xfdf0707f (Some MF_opcode) 0x8,
    opc ''th.vlseg2h.v'' 0 INSN_CLASS_XTHEADVECTOR ''Vd,0(s)Vm'' 0x30005007 0xfdf0707f (Some MF_opcode) 0x8,
    opc ''th.vlseg2w.v'' 0 INSN_CLASS_XTHEADVECTOR ''Vd,0(s)Vm'' 0x30006007 0xfdf0707f (Some MF_opcode) 0x8,
    opc ''th.vlseg2bu.v'' 0 INSN_CLASS_XTHEADVECTOR ''Vd,0(s)Vm'' 0x20000007 0xfdf0707f (Some MF_opcode) 0x8,
    opc ''th.vlseg2hu.v'' 0 INSN_CLASS_XTHEADVECTOR ''Vd,0(s)Vm'' 0x20005007 0xfdf0707f (Some MF_opcode) 0x8,
    opc ''th.vlseg2wu.v'' 0 INSN_CLASS_XTHEADVECTOR ''Vd,0(s)Vm'' 0x20006007 0xfdf0707f (Some MF_opcode) 0x8,
    opc ''th.vlseg2e.v'' 0 INSN_CLASS_XTHEADVECTOR ''Vd,0(s)Vm'' 0x20007007 0xfdf0707f (Some MF_opcode) 0x8,
    opc ''th.vsseg2b.v'' 0 INSN_CLASS_XTHEADVECTOR ''Vd,0(s)Vm'' 0x20000027 0xfdf0707f (Some MF_opcode) 0x8,
    opc ''th.vsseg2h.v'' 0 INSN_CLASS_XTHEADVECTOR ''Vd,0(s)Vm'' 0x20005027 0xfdf0707f (Some MF_opcode) 0x8,
    opc ''th.vsseg2w.v'' 0 INSN_CLASS_XTHEADVECTOR ''Vd,0(s)Vm'' 0x20006027 0xfdf0707f (Some MF_opcode) 0x8,
    opc ''th.vsseg2e.v'' 0 INSN_CLASS_XTHEADVECTOR ''Vd,0(s)Vm'' 0x20007027 0xfdf0707f (Some MF_opcode) 0x8,
    opc ''th.vlseg3b.v'' 0 INSN_CLASS_XTHEADVECTOR ''Vd,0(s)Vm'' 0x50000007 0xfdf0707f (Some MF_opcode) 0x8,
    opc ''th.vlseg3h.v'' 0 INSN_CLASS_XTHEADVECTOR ''Vd,0(s)Vm'' 0x50005007 0xfdf0707f (Some MF_opcode) 0x8,
    opc ''th.vlseg3w.v'' 0 INSN_CLASS_XTHEADVECTOR ''Vd,0(s)Vm'' 0x50006007 0xfdf0707f (Some MF_opcode) 0x8,
    opc ''th.vlseg3bu.v'' 0 INSN_CLASS_XTHEADVECTOR ''Vd,0(s)Vm'' 0x40000007 0xfdf0707f (Some MF_opcode) 0x8,
    opc ''th.vlseg3hu.v'' 0 INSN_CLASS_XTHEADVECTOR ''Vd,0(s)Vm'' 0x40005007 0xfdf0707f (Some MF_opcode) 0x8,
    opc ''th.vlseg3wu.v'' 0 INSN_CLASS_XTHEADVECTOR ''Vd,0(s)Vm'' 0x40006007 0xfdf0707f (Some MF_opcode) 0x8,
    opc ''th.vlseg3e.v'' 0 INSN_CLASS_XTHEADVECTOR ''Vd,0(s)Vm'' 0x40007007 0xfdf0707f (Some MF_opcode) 0x8,
    opc ''th.vsseg3b.v'' 0 INSN_CLASS_XTHEADVECTOR ''Vd,0(s)Vm'' 0x40000027 0xfdf0707f (Some MF_opcode) 0x8,
    opc ''th.vsseg3h.v'' 0 INSN_CLASS_XTHEADVECTOR ''Vd,0(s)Vm'' 0x40005027 0xfdf0707f (Some MF_opcode) 0x8,
    opc ''th.vsseg3w.v'' 0 INSN_CLASS_XTHEADVECTOR ''Vd,0(s)Vm'' 0x40006027 0xfdf0707f (Some MF_opcode) 0x8,
    opc ''th.vsseg3e.v'' 0 INSN_CLASS_XTHEADVECTOR ''Vd,0(s)Vm'' 0x40007027 0xfdf0707f (Some MF_opcode) 0x8,
    opc ''th.vlseg4b.v'' 0 INSN_CLASS_XTHEADVECTOR ''Vd,0(s)Vm'' 0x70000007 0xfdf0707f (Some MF_opcode) 0x8,
    opc ''th.vlseg4h.v'' 0 INSN_CLASS_XTHEADVECTOR ''Vd,0(s)Vm'' 0x70005007 0xfdf0707f (Some MF_opcode) 0x8,
    opc ''th.vlseg4w.v'' 0 INSN_CLASS_XTHEADVECTOR ''Vd,0(s)Vm'' 0x70006007 0xfdf0707f (Some MF_opcode) 0x8,
    opc ''th.vlseg4bu.v'' 0 INSN_CLASS_XTHEADVECTOR ''Vd,0(s)Vm'' 0x60000007 0xfdf0707f (Some MF_opcode) 0x8,
    opc ''th.vlseg4hu.v'' 0 INSN_CLASS_XTHEADVECTOR ''Vd,0(s)Vm'' 0x60005007 0xfdf0707f (Some MF_opcode) 0x8,
    opc ''th.vlseg4wu.v'' 0 INSN_CLASS_XTHEADVECTOR ''Vd,0(s)Vm'' 0x60006007 0xfdf0707f (Some MF_opcode) 0x8,
    opc ''th.vlseg4e.v'' 0 INSN_CLASS_XTHEADVECTOR ''Vd,0(s)Vm'' 0x60007007 0xfdf0707f (Some MF_opcode) 0x8,
    opc ''th.vsseg4b.v'' 0 INSN_CLASS_XTHEADVECTOR ''Vd,0(s)Vm'' 0x60000027 0xfdf0707f (Some MF_opcode) 0x8,
    opc ''th.vsseg4h.v'' 0 INSN_CLASS_XTHEADVECTOR ''Vd,0(s)Vm'' 0x60005027 0xfdf0707f (Some MF_opcode) 0x8,
    opc ''th.vsseg4w.v'' 0 INSN_CLASS_XTHEADVECTOR ''Vd,0(s)Vm'' 0x60006027 0xfdf0707f (Some MF_opcode) 0x8,
    opc ''th.vsseg4e.v'' 0 INSN_CLASS_XTHEADVECTOR ''Vd,0(s)Vm'' 0x60007027 0xfdf0707f (Some MF_opcode) 0x8,
    opc ''th.vlseg5b.v'' 0 INSN_CLASS_XTHEADVECTOR ''Vd,0(s)Vm'' 0x90000007 0xfdf0707f (Some MF_opcode) 0x8,
    opc ''th.vlseg5h.v'' 0 INSN_CLASS_XTHEADVECTOR ''Vd,0(s)Vm'' 0x90005007 0xfdf0707f (Some MF_opcode) 0x8,
    opc ''th.vlseg5w.v'' 0 INSN_CLASS_XTHEADVECTOR ''Vd,0(s)Vm'' 0x90006007 0xfdf0707f (Some MF_opcode) 0x8,
    opc ''th.vlseg5bu.v'' 0 INSN_CLASS_XTHEADVECTOR ''Vd,0(s)Vm'' 0x80000007 0xfdf0707f (Some MF_opcode) 0x8,
    opc ''th.vlseg5hu.v'' 0 INSN_CLASS_XTHEADVECTOR ''Vd,0(s)Vm'' 0x80005007 0xfdf0707f (Some MF_opcode) 0x8,
    opc ''th.vlseg5wu.v'' 0 INSN_CLASS_XTHEADVECTOR ''Vd,0(s)Vm'' 0x80006007 0xfdf0707f (Some MF_opcode) 0x8,
    opc ''th.vlseg5e.v'' 0 INSN_CLASS_XTHEADVECTOR ''Vd,0(s)Vm'' 0x80007007 0xfdf0707f (Some MF_opcode) 0x8,
    opc ''th.vsseg5b.v'' 0 INSN_CLASS_XTHEADVECTOR ''Vd,0(s)Vm'' 0x80000027 0xfdf0707f (Some MF_opcode) 0x8,
    opc ''th.vsseg5h.v'' 0 INSN_CLASS_XTHEADVECTOR ''Vd,0(s)Vm'' 0x80005027 0xfdf0707f (Some MF_opcode) 0x8,
    opc ''th.vsseg5w.v'' 0 INSN_CLASS_XTHEADVECTOR ''Vd,0(s)Vm'' 0x80006027 0xfdf0707f (Some MF_opcode) 0x8,
    opc ''th.vsseg5e.v'' 0 INSN_CLASS_XTHEADVECTOR ''Vd,0(s)Vm'' 0x80007027 0xfdf0707f (Some MF_opcode) 0x8,
    opc ''th.vlseg6b.v'' 0 INSN_CLASS_XTHEADVECTOR ''Vd,0(s)Vm'' 0xb0000007 0xfdf0707f (Some MF_opcode) 0x8,
    opc ''th.vlseg6h.v'' 0 INSN_CLASS_XTHEADVECTOR ''Vd,0(s)Vm'' 0xb0005007 0xfdf0707f (Some MF_opcode) 0x8,
    opc ''th.vlseg6w.v'' 0 INSN_CLASS_XTHEADVECTOR ''Vd,0(s)Vm'' 0xb0006007 0xfdf0707f (Some MF_opcode) 0x8,
    opc ''th.vlseg6bu.v'' 0 INSN_CLASS_XTHEADVECTOR ''Vd,0(s)Vm'' 0xa0000007 0xfdf0707f (Some MF_opcode) 0x8,
    opc ''th.vlseg6hu.v'' 0 INSN_CLASS_XTHEADVECTOR ''Vd,0(s)Vm'' 0xa0005007 0xfdf0707f (Some MF_opcode) 0x8,
    opc ''th.vlseg6wu.v'' 0 INSN_CLASS_XTHEADVECTOR ''Vd,0(s)Vm'' 0xa0006007 0xfdf0707f (Some MF_opcode) 0x8,
    opc ''th.vlseg6e.v'' 0 INSN_CLASS_XTHEADVECTOR ''Vd,0(s)Vm'' 0xa0007007 0xfdf0707f (Some MF_opcode) 0x8,
    opc ''th.vsseg6b.v'' 0 INSN_CLASS_XTHEADVECTOR ''Vd,0(s)Vm'' 0xa0000027 0xfdf0707f (Some MF_opcode) 0x8,
    opc ''th.vsseg6h.v'' 0 INSN_CLASS_XTHEADVECTOR ''Vd,0(s)Vm'' 0xa0005027 0xfdf0707f (Some MF_opcode) 0x8,
    opc ''th.vsseg6w.v'' 0 INSN_CLASS_XTHEADVECTOR ''Vd,0(s)Vm'' 0xa0006027 0xfdf0707f (Some MF_opcode) 0x8,
    opc ''th.vsseg6e.v'' 0 INSN_CLASS_XTHEADVECTOR ''Vd,0(s)Vm'' 0xa0007027 0xfdf0707f (Some MF_opcode) 0x8,
    opc ''th.vlseg7b.v'' 0 INSN_CLASS_XTHEADVECTOR ''Vd,0(s)Vm'' 0xd0000007 0xfdf0707f (Some MF_opcode) 0x8,
    opc ''th.vlseg7h.v'' 0 INSN_CLASS_XTHEADVECTOR ''Vd,0(s)Vm'' 0xd0005007 0xfdf0707f (Some MF_opcode) 0x8,
    opc ''th.vlseg7w.v'' 0 INSN_CLASS_XTHEADVECTOR ''Vd,0(s)Vm'' 0xd0006007 0xfdf0707f (Some MF_opcode) 0x8,
    opc ''th.vlseg7bu.v'' 0 INSN_CLASS_XTHEADVECTOR ''Vd,0(s)Vm'' 0xc0000007 0xfdf0707f (Some MF_opcode) 0x8,
    opc ''th.vlseg7hu.v'' 0 INSN_CLASS_XTHEADVECTOR ''Vd,0(s)Vm'' 0xc0005007 0xfdf0707f (Some MF_opcode) 0x8,
    opc ''th.vlseg7wu.v'' 0 INSN_CLASS_XTHEADVECTOR ''Vd,0(s)Vm'' 0xc0006007 0xfdf0707f (Some MF_opcode) 0x8,
    opc ''th.vlseg7e.v'' 0 INSN_CLASS_XTHEADVECTOR ''Vd,0(s)Vm'' 0xc0007007 0xfdf0707f (Some MF_opcode) 0x8,
    opc ''th.vsseg7b.v'' 0 INSN_CLASS_XTHEADVECTOR ''Vd,0(s)Vm'' 0xc0000027 0xfdf0707f (Some MF_opcode) 0x8,
    opc ''th.vsseg7h.v'' 0 INSN_CLASS_XTHEADVECTOR ''Vd,0(s)Vm'' 0xc0005027 0xfdf0707f (Some MF_opcode) 0x8,
    opc ''th.vsseg7w.v'' 0 INSN_CLASS_XTHEADVECTOR ''Vd,0(s)Vm'' 0xc0006027 0xfdf0707f (Some MF_opcode) 0x8,
    opc ''th.vsseg7e.v'' 0 INSN_CLASS_XTHEADVECTOR ''Vd,0(s)Vm'' 0xc0007027 0xfdf0707f (Some MF_opcode) 0x8,
    opc ''th.vlseg8b.v'' 0 INSN_CLASS_XTHEADVECTOR ''Vd,0(s)Vm'' 0xf0000007 0xfdf0707f (Some MF_opcode) 0x8,
    opc ''th.vlseg8h.v'' 0 INSN_CLASS_XTHEADVECTOR ''Vd,0(s)Vm'' 0xf0005007 0xfdf0707f (Some MF_opcode) 0x8,
    opc ''th.vlseg8w.v'' 0 INSN_CLASS_XTHEADVECTOR ''Vd,0(s)Vm'' 0xf0006007 0xfdf0707f (Some MF_opcode) 0x8,
    opc ''th.vlseg8bu.v'' 0 INSN_CLASS_XTHEADVECTOR ''Vd,0(s)Vm'' 0xe0000007 0xfdf0707f (Some MF_opcode) 0x8,
    opc ''th.vlseg8hu.v'' 0 INSN_CLASS_XTHEADVECTOR ''Vd,0(s)Vm'' 0xe0005007 0xfdf0707f (Some MF_opcode) 0x8,
    opc ''th.vlseg8wu.v'' 0 INSN_CLASS_XTHEADVECTOR ''Vd,0(s)Vm'' 0xe0006007 0xfdf0707f (Some MF_opcode) 0x8,
    opc ''th.vlseg8e.v'' 0 INSN_CLASS_XTHEADVECTOR ''Vd,0(s)Vm'' 0xe0007007 0xfdf0707f (Some MF_opcode) 0x8,
    opc ''th.vsseg8b.v'' 0 INSN_CLASS_XTHEADVECTOR ''Vd,0(s)Vm'' 0xe0000027 0xfdf0707f (Some MF_opcode) 0x8,
    opc ''th.vsseg8h.v'' 0 INSN_CLASS_XTHEADVECTOR ''Vd,0(s)Vm'' 0xe0005027 0xfdf0707f (Some MF_opcode) 0x8,
    opc ''th.vsseg8w.v'' 0 INSN_CLASS_XTHEADVECTOR ''Vd,0(s)Vm'' 0xe0006027 0xfdf0707f (Some MF_opcode) 0x8,
    opc ''th.vsseg8e.v'' 0 INSN_CLASS_XTHEADVECTOR ''Vd,0(s)Vm'' 0xe0007027 0xfdf0707f (Some MF_opcode) 0x8,
    opc ''th.vlsseg2b.v'' 0 INSN_CLASS_XTHEADVECTOR ''Vd,0(s),tVm'' 0x38000007 0xfc00707f (Some MF_opcode) 0x8,
    opc ''th.vlsseg2h.v'' 0 INSN_CLASS_XTHEADVECTOR ''Vd,0(s),tVm'' 0x38005007 0xfc00707f (Some MF_opcode) 0x8,
    opc ''th.vlsseg2w.v'' 0 INSN_CLASS_XTHEADVECTOR ''Vd,0(s),tVm'' 0x38006007 0xfc00707f (Some MF_opcode) 0x8,
    opc ''th.vlsseg2bu.v'' 0 INSN_CLASS_XTHEADVECTOR ''Vd,0(s),tVm'' 0x28000007 0xfc00707f (Some MF_opcode) 0x8,
    opc ''th.vlsseg2hu.v'' 0 INSN_CLASS_XTHEADVECTOR ''Vd,0(s),tVm'' 0x28005007 0xfc00707f (Some MF_opcode) 0x8,
    opc ''th.vlsseg2wu.v'' 0 INSN_CLASS_XTHEADVECTOR ''Vd,0(s),tVm'' 0x28006007 0xfc00707f (Some MF_opcode) 0x8,
    opc ''th.vlsseg2e.v'' 0 INSN_CLASS_XTHEADVECTOR ''Vd,0(s),tVm'' 0x28007007 0xfc00707f (Some MF_opcode) 0x8,
    opc ''th.vssseg2b.v'' 0 INSN_CLASS_XTHEADVECTOR ''Vd,0(s),tVm'' 0x28000027 0xfc00707f (Some MF_opcode) 0x8,
    opc ''th.vssseg2h.v'' 0 INSN_CLASS_XTHEADVECTOR ''Vd,0(s),tVm'' 0x28005027 0xfc00707f (Some MF_opcode) 0x8,
    opc ''th.vssseg2w.v'' 0 INSN_CLASS_XTHEADVECTOR ''Vd,0(s),tVm'' 0x28006027 0xfc00707f (Some MF_opcode) 0x8,
    opc ''th.vssseg2e.v'' 0 INSN_CLASS_XTHEADVECTOR ''Vd,0(s),tVm'' 0x28007027 0xfc00707f (Some MF_opcode) 0x8,
    opc ''th.vlsseg3b.v'' 0 INSN_CLASS_XTHEADVECTOR ''Vd,0(s),tVm'' 0x58000007 0xfc00707f (Some MF_opcode) 0x8,
    opc ''th.vlsseg3h.v'' 0 INSN_CLASS_XTHEADVECTOR ''Vd,0(s),tVm'' 0x58005007 0xfc00707f (Some MF_opcode) 0x8]"

end
