(* ===== verification/Riscv_Opcodes.thy ===== *)
theory Riscv_Opcodes
  imports Opc_Table_1 Opc_Table_2 Opc_Table_3 Opc_Table_4
begin

text \<open>
  The two tables of the opcode library: the instructions, and the formats of the \<^verbatim>\<open>.insn\<close> directive. An
  array ends at the entry whose name is null, so it is the list of the entries before it.
\<close>

definition riscv_opcodes :: "riscv_opcode list" where
  "riscv_opcodes = concat [
     riscv_opcodes_1, riscv_opcodes_2, riscv_opcodes_3, riscv_opcodes_4,
     riscv_opcodes_5, riscv_opcodes_6, riscv_opcodes_7, riscv_opcodes_8,
     riscv_opcodes_9, riscv_opcodes_10, riscv_opcodes_11, riscv_opcodes_12,
     riscv_opcodes_13, riscv_opcodes_14, riscv_opcodes_15, riscv_opcodes_16,
     riscv_opcodes_17, riscv_opcodes_18, riscv_opcodes_19]"

definition riscv_insn_types :: "riscv_opcode list" where
  "riscv_insn_types = [
    opc ''r'' 0 INSN_CLASS_I ''O4,F3,F2,s,t,r,l'' 0x0 0x0 None 0,
    opc ''r'' 0 INSN_CLASS_I ''O4,F3,F7,d,s,t'' 0x0 0x0 None 0,
    opc ''r'' 0 INSN_CLASS_F ''O4,F3,F7,D,s,t'' 0x0 0x0 None 0,
    opc ''r'' 0 INSN_CLASS_F ''O4,F3,F7,d,S,t'' 0x0 0x0 None 0,
    opc ''r'' 0 INSN_CLASS_F ''O4,F3,F7,D,S,t'' 0x0 0x0 None 0,
    opc ''r'' 0 INSN_CLASS_F ''O4,F3,F7,d,s,T'' 0x0 0x0 None 0,
    opc ''r'' 0 INSN_CLASS_F ''O4,F3,F7,D,s,T'' 0x0 0x0 None 0,
    opc ''r'' 0 INSN_CLASS_F ''O4,F3,F7,d,S,T'' 0x0 0x0 None 0,
    opc ''r'' 0 INSN_CLASS_F ''O4,F3,F7,D,S,T'' 0x0 0x0 None 0,
    opc ''r'' 0 INSN_CLASS_I ''O4,F3,F2,d,s,t,r'' 0x0 0x0 None 0,
    opc ''r'' 0 INSN_CLASS_F ''O4,F3,F2,D,s,t,r'' 0x0 0x0 None 0,
    opc ''r'' 0 INSN_CLASS_F ''O4,F3,F2,d,S,t,r'' 0x0 0x0 None 0,
    opc ''r'' 0 INSN_CLASS_F ''O4,F3,F2,D,S,t,r'' 0x0 0x0 None 0,
    opc ''r'' 0 INSN_CLASS_F ''O4,F3,F2,d,s,T,r'' 0x0 0x0 None 0,
    opc ''r'' 0 INSN_CLASS_F ''O4,F3,F2,D,s,T,r'' 0x0 0x0 None 0,
    opc ''r'' 0 INSN_CLASS_F ''O4,F3,F2,d,S,T,r'' 0x0 0x0 None 0,
    opc ''r'' 0 INSN_CLASS_F ''O4,F3,F2,D,S,T,r'' 0x0 0x0 None 0,
    opc ''r'' 0 INSN_CLASS_F ''O4,F3,F2,d,s,t,R'' 0x0 0x0 None 0,
    opc ''r'' 0 INSN_CLASS_F ''O4,F3,F2,D,s,t,R'' 0x0 0x0 None 0,
    opc ''r'' 0 INSN_CLASS_F ''O4,F3,F2,d,S,t,R'' 0x0 0x0 None 0,
    opc ''r'' 0 INSN_CLASS_F ''O4,F3,F2,D,S,t,R'' 0x0 0x0 None 0,
    opc ''r'' 0 INSN_CLASS_F ''O4,F3,F2,d,s,T,R'' 0x0 0x0 None 0,
    opc ''r'' 0 INSN_CLASS_F ''O4,F3,F2,D,s,T,R'' 0x0 0x0 None 0,
    opc ''r'' 0 INSN_CLASS_F ''O4,F3,F2,d,S,T,R'' 0x0 0x0 None 0,
    opc ''r'' 0 INSN_CLASS_F ''O4,F3,F2,D,S,T,R'' 0x0 0x0 None 0,
    opc ''r4'' 0 INSN_CLASS_I ''O4,F3,F2,s,t,r,l'' 0x0 0x0 None 0,
    opc ''r4'' 0 INSN_CLASS_I ''O4,F3,F2,d,s,t,r'' 0x0 0x0 None 0,
    opc ''r4'' 0 INSN_CLASS_F ''O4,F3,F2,D,s,t,r'' 0x0 0x0 None 0,
    opc ''r4'' 0 INSN_CLASS_F ''O4,F3,F2,d,S,t,r'' 0x0 0x0 None 0,
    opc ''r4'' 0 INSN_CLASS_F ''O4,F3,F2,D,S,t,r'' 0x0 0x0 None 0,
    opc ''r4'' 0 INSN_CLASS_F ''O4,F3,F2,d,s,T,r'' 0x0 0x0 None 0,
    opc ''r4'' 0 INSN_CLASS_F ''O4,F3,F2,D,s,T,r'' 0x0 0x0 None 0,
    opc ''r4'' 0 INSN_CLASS_F ''O4,F3,F2,d,S,T,r'' 0x0 0x0 None 0,
    opc ''r4'' 0 INSN_CLASS_F ''O4,F3,F2,D,S,T,r'' 0x0 0x0 None 0,
    opc ''r4'' 0 INSN_CLASS_F ''O4,F3,F2,d,s,t,R'' 0x0 0x0 None 0,
    opc ''r4'' 0 INSN_CLASS_F ''O4,F3,F2,D,s,t,R'' 0x0 0x0 None 0,
    opc ''r4'' 0 INSN_CLASS_F ''O4,F3,F2,d,S,t,R'' 0x0 0x0 None 0,
    opc ''r4'' 0 INSN_CLASS_F ''O4,F3,F2,D,S,t,R'' 0x0 0x0 None 0,
    opc ''r4'' 0 INSN_CLASS_F ''O4,F3,F2,d,s,T,R'' 0x0 0x0 None 0,
    opc ''r4'' 0 INSN_CLASS_F ''O4,F3,F2,D,s,T,R'' 0x0 0x0 None 0,
    opc ''r4'' 0 INSN_CLASS_F ''O4,F3,F2,d,S,T,R'' 0x0 0x0 None 0,
    opc ''r4'' 0 INSN_CLASS_F ''O4,F3,F2,D,S,T,R'' 0x0 0x0 None 0,
    opc ''i'' 0 INSN_CLASS_I ''O4,F3,d,s,j'' 0x0 0x0 None 0,
    opc ''i'' 0 INSN_CLASS_F ''O4,F3,D,s,j'' 0x0 0x0 None 0,
    opc ''i'' 0 INSN_CLASS_F ''O4,F3,d,S,j'' 0x0 0x0 None 0,
    opc ''i'' 0 INSN_CLASS_F ''O4,F3,D,S,j'' 0x0 0x0 None 0,
    opc ''i'' 0 INSN_CLASS_I ''O4,F3,d,o(s)'' 0x0 0x0 None 0,
    opc ''i'' 0 INSN_CLASS_F ''O4,F3,D,o(s)'' 0x0 0x0 None 0,
    opc ''s'' 0 INSN_CLASS_I ''O4,F3,t,q(s)'' 0x0 0x0 None 0,
    opc ''s'' 0 INSN_CLASS_F ''O4,F3,T,q(s)'' 0x0 0x0 None 0,
    opc ''sb'' 0 INSN_CLASS_I ''O4,F3,s,t,p'' 0x0 0x0 None 0,
    opc ''sb'' 0 INSN_CLASS_F ''O4,F3,S,t,p'' 0x0 0x0 None 0,
    opc ''sb'' 0 INSN_CLASS_F ''O4,F3,s,T,p'' 0x0 0x0 None 0,
    opc ''sb'' 0 INSN_CLASS_F ''O4,F3,S,T,p'' 0x0 0x0 None 0,
    opc ''b'' 0 INSN_CLASS_I ''O4,F3,s,t,p'' 0x0 0x0 None 0,
    opc ''b'' 0 INSN_CLASS_F ''O4,F3,S,t,p'' 0x0 0x0 None 0,
    opc ''b'' 0 INSN_CLASS_F ''O4,F3,s,T,p'' 0x0 0x0 None 0,
    opc ''b'' 0 INSN_CLASS_F ''O4,F3,S,T,p'' 0x0 0x0 None 0,
    opc ''u'' 0 INSN_CLASS_I ''O4,d,u'' 0x0 0x0 None 0,
    opc ''u'' 0 INSN_CLASS_F ''O4,D,u'' 0x0 0x0 None 0,
    opc ''uj'' 0 INSN_CLASS_I ''O4,d,a'' 0x0 0x0 None 0,
    opc ''uj'' 0 INSN_CLASS_F ''O4,D,a'' 0x0 0x0 None 0,
    opc ''j'' 0 INSN_CLASS_I ''O4,d,a'' 0x0 0x0 None 0,
    opc ''j'' 0 INSN_CLASS_F ''O4,D,a'' 0x0 0x0 None 0,
    opc ''cr'' 0 INSN_CLASS_C ''O2,CF4,d,CV'' 0x0 0x0 None 0,
    opc ''cr'' 0 INSN_CLASS_F_AND_C ''O2,CF4,D,CV'' 0x0 0x0 None 0,
    opc ''cr'' 0 INSN_CLASS_F_AND_C ''O2,CF4,d,CT'' 0x0 0x0 None 0,
    opc ''cr'' 0 INSN_CLASS_F_AND_C ''O2,CF4,D,CT'' 0x0 0x0 None 0,
    opc ''ci'' 0 INSN_CLASS_C ''O2,CF3,d,Co'' 0x0 0x0 None 0,
    opc ''ci'' 0 INSN_CLASS_F_AND_C ''O2,CF3,D,Co'' 0x0 0x0 None 0,
    opc ''ciw'' 0 INSN_CLASS_C ''O2,CF3,Ct,C8'' 0x0 0x0 None 0,
    opc ''ciw'' 0 INSN_CLASS_F_AND_C ''O2,CF3,CD,C8'' 0x0 0x0 None 0,
    opc ''css'' 0 INSN_CLASS_C ''O2,CF3,CV,C6'' 0x0 0x0 None 0,
    opc ''css'' 0 INSN_CLASS_F_AND_C ''O2,CF3,CT,C6'' 0x0 0x0 None 0,
    opc ''cl'' 0 INSN_CLASS_C ''O2,CF3,Ct,C5(Cs)'' 0x0 0x0 None 0,
    opc ''cl'' 0 INSN_CLASS_F_AND_C ''O2,CF3,CD,C5(Cs)'' 0x0 0x0 None 0,
    opc ''cl'' 0 INSN_CLASS_F_AND_C ''O2,CF3,Ct,C5(CS)'' 0x0 0x0 None 0,
    opc ''cl'' 0 INSN_CLASS_F_AND_C ''O2,CF3,CD,C5(CS)'' 0x0 0x0 None 0,
    opc ''cs'' 0 INSN_CLASS_C ''O2,CF3,Ct,C5(Cs)'' 0x0 0x0 None 0,
    opc ''cs'' 0 INSN_CLASS_F_AND_C ''O2,CF3,CD,C5(Cs)'' 0x0 0x0 None 0,
    opc ''cs'' 0 INSN_CLASS_F_AND_C ''O2,CF3,Ct,C5(CS)'' 0x0 0x0 None 0,
    opc ''cs'' 0 INSN_CLASS_F_AND_C ''O2,CF3,CD,C5(CS)'' 0x0 0x0 None 0,
    opc ''ca'' 0 INSN_CLASS_C ''O2,CF6,CF2,Cs,Ct'' 0x0 0x0 None 0,
    opc ''ca'' 0 INSN_CLASS_F_AND_C ''O2,CF6,CF2,CS,Ct'' 0x0 0x0 None 0,
    opc ''ca'' 0 INSN_CLASS_F_AND_C ''O2,CF6,CF2,Cs,CD'' 0x0 0x0 None 0,
    opc ''ca'' 0 INSN_CLASS_F_AND_C ''O2,CF6,CF2,CS,CD'' 0x0 0x0 None 0,
    opc ''cb'' 0 INSN_CLASS_C ''O2,CF3,Cs,Cp'' 0x0 0x0 None 0,
    opc ''cb'' 0 INSN_CLASS_F_AND_C ''O2,CF3,CS,Cp'' 0x0 0x0 None 0,
    opc ''cj'' 0 INSN_CLASS_C ''O2,CF3,Ca'' 0x0 0x0 None 0]"

end
