(* ===== verification/Gas_Validate.thy ===== *)
theory Gas_Validate
  imports Riscv_Opcodes
begin

text \<open>
  The consistency check the assembler runs over the opcode tables at start-up
  (\<^verbatim>\<open>validate_riscv_insn\<close> and \<^verbatim>\<open>init_opcode_hash\<close> of \<^verbatim>\<open>gas/config/tc-riscv.c\<close>): every bit of an instruction
  has to be fixed by the mask of its entry or supplied by exactly the operands its argument string lists.
\<close>

section \<open>Bits an operand uses\<close>

abbreviation USE_BITS :: "op_field \<Rightarrow> insn_t" where
  "USE_BITS f \<equiv> field_mask f"

definition USE_IMM :: "nat \<Rightarrow> nat \<Rightarrow> insn_t" where
  "USE_IMM n s = push_bit s (mask n)"

text \<open>
  The switch over the operand letters, one table per level: the letter and the bits it uses. A letter
  that is missing is an unknown operand.
\<close>

definition rvc_bits :: "(char \<times> insn_t) list" where
  "rvc_bits =
     [(CHR ''U'', 0), (CHR ''c'', 0), (CHR ''T'', USE_BITS OP_CRS2),
      (CHR ''V'', USE_BITS OP_CRS2), (CHR ''S'', USE_BITS OP_CRS1S),
      (CHR ''s'', USE_BITS OP_CRS1S), (CHR ''w'', 0), (CHR ''D'', USE_BITS OP_CRS2S),
      (CHR ''t'', USE_BITS OP_CRS2S), (CHR ''x'', 0), (CHR ''z'', 0),
      (CHR ''>'', ENCODE_CITYPE_IMM 0xffffffff), (CHR ''u'', ENCODE_CITYPE_IMM 0xffffffff),
      (CHR ''v'', ENCODE_CITYPE_IMM 0xffffffff), (CHR ''o'', ENCODE_CITYPE_IMM 0xffffffff),
      (CHR ''j'', ENCODE_CITYPE_IMM 0xffffffff),
      (CHR ''L'', ENCODE_CITYPE_ADDI16SP_IMM 0xffffffff),
      (CHR ''m'', ENCODE_CITYPE_LWSP_IMM 0xffffffff),
      (CHR ''n'', ENCODE_CITYPE_LDSP_IMM 0xffffffff), (CHR ''6'', ENCODE_CSSTYPE_IMM 0xffffffff),
      (CHR ''M'', ENCODE_CSSTYPE_SWSP_IMM 0xffffffff),
      (CHR ''N'', ENCODE_CSSTYPE_SDSP_IMM 0xffffffff),
      (CHR ''8'', ENCODE_CIWTYPE_IMM 0xffffffff),
      (CHR ''K'', ENCODE_CIWTYPE_ADDI4SPN_IMM 0xffffffff),
      (CHR ''5'', ENCODE_CLTYPE_IMM 0xffffffff), (CHR ''k'', ENCODE_CLTYPE_LW_IMM 0xffffffff),
      (CHR ''l'', ENCODE_CLTYPE_LD_IMM 0xffffffff), (CHR ''p'', ENCODE_CBTYPE_IMM 0xffffffff),
      (CHR ''a'', ENCODE_CJTYPE_IMM 0xffffffff)]"

definition rvc_funct_bits :: "(char \<times> insn_t) list" where
  "rvc_funct_bits =
     [(CHR ''6'', USE_BITS OP_CFUNCT6), (CHR ''4'', USE_BITS OP_CFUNCT4),
      (CHR ''3'', USE_BITS OP_CFUNCT3), (CHR ''2'', USE_BITS OP_CFUNCT2)]"

definition rvv_bits :: "(char \<times> insn_t) list" where
  "rvv_bits =
     [(CHR ''d'', USE_BITS OP_VD), (CHR ''f'', USE_BITS OP_VD), (CHR ''e'', USE_BITS OP_VWD),
      (CHR ''s'', USE_BITS OP_VS1), (CHR ''t'', USE_BITS OP_VS2),
      (CHR ''u'', USE_BITS OP_VS1 OR USE_BITS OP_VS2),
      (CHR ''v'', USE_BITS OP_VD OR USE_BITS OP_VS1 OR USE_BITS OP_VS2), (CHR ''0'', 0),
      (CHR ''b'', ENCODE_RVV_VB_IMM 0xffffffff), (CHR ''c'', ENCODE_RVV_VC_IMM 0xffffffff),
      (CHR ''i'', USE_BITS OP_VIMM), (CHR ''j'', USE_BITS OP_VIMM),
      (CHR ''k'', USE_BITS OP_VIMM), (CHR ''l'', ENCODE_RVV_VI_UIMM6 0xffffffff),
      (CHR ''m'', USE_BITS OP_VMASK), (CHR ''M'', 0), (CHR ''T'', 0)]"

definition base_bits :: "(char \<times> insn_t) list" where
  "base_bits =
     [(CHR '','', 0), (CHR ''('', 0), (CHR '')'', 0), (CHR ''{'', 0), (CHR ''}'', 0),
      (CHR ''<'', USE_BITS OP_SHAMTW), (CHR ''>'', USE_BITS OP_SHAMT), (CHR ''A'', 0),
      (CHR ''B'', 0), (CHR ''c'', 0), (CHR ''I'', 0), (CHR ''D'', USE_BITS OP_RD),
      (CHR ''d'', USE_BITS OP_RD), (CHR ''y'', USE_BITS OP_BS), (CHR ''Y'', USE_BITS OP_RNUM),
      (CHR ''Z'', USE_BITS OP_RS1), (CHR ''S'', USE_BITS OP_RS1), (CHR ''s'', USE_BITS OP_RS1),
      (CHR ''U'', USE_BITS OP_RS1 OR USE_BITS OP_RS2), (CHR ''T'', USE_BITS OP_RS2),
      (CHR ''t'', USE_BITS OP_RS2), (CHR ''R'', USE_BITS OP_RS3), (CHR ''r'', USE_BITS OP_RS3),
      (CHR ''l'', USE_BITS OP_RD), (CHR ''m'', USE_BITS OP_RM), (CHR ''E'', USE_BITS OP_CSR),
      (CHR ''P'', USE_BITS OP_PRED), (CHR ''Q'', USE_BITS OP_SUCC),
      (CHR ''o'', ENCODE_ITYPE_IMM 0xffffffff), (CHR ''j'', ENCODE_ITYPE_IMM 0xffffffff),
      (CHR ''a'', ENCODE_JTYPE_IMM 0xffffffff), (CHR ''p'', ENCODE_BTYPE_IMM 0xffffffff),
      (CHR ''q'', ENCODE_STYPE_IMM 0xffffffff), (CHR ''u'', ENCODE_UTYPE_IMM 0xffffffff),
      (CHR ''z'', 0), (CHR ''['', 0), (CHR '']'', 0), (CHR ''0'', 0), (CHR ''1'', 0)]"

definition funct_bits :: "(char \<times> insn_t) list" where
  "funct_bits =
     [(CHR ''7'', USE_BITS OP_FUNCT7), (CHR ''3'', USE_BITS OP_FUNCT3),
      (CHR ''2'', USE_BITS OP_FUNCT2)]"

definition opcode_bits :: "(char \<times> insn_t) list" where
  "opcode_bits =
     [(CHR ''4'', USE_BITS OP_OP), (CHR ''2'', USE_BITS OP_OP2)]"

definition zc_bits :: "(char \<times> insn_t) list" where
  "zc_bits =
     [(CHR ''h'', ENCODE_ZCB_HALFWORD_UIMM 0xffffffff),
      (CHR ''b'', ENCODE_ZCB_BYTE_UIMM 0xffffffff), (CHR ''p'', ENCODE_ZCMP_SPIMM 0xffffffff),
      (CHR ''r'', USE_BITS OP_REG_LIST), (CHR ''f'', 0)]"

definition corev_bits :: "(char \<times> insn_t) list" where
  "corev_bits =
     [(CHR ''2'', ENCODE_CV_IS2_UIMM5 0xffffffff), (CHR ''4'', ENCODE_CV_IS2_UIMM5 0xffffffff),
      (CHR ''3'', ENCODE_CV_IS3_UIMM5 0xffffffff)]"

definition sifive_bits :: "(char \<times> insn_t) list" where
  "sifive_bits =
     [(CHR ''d'', USE_BITS OP_RD), (CHR ''t'', USE_BITS OP_RS2)]"

definition sifive_op_bits :: "(char \<times> insn_t) list" where
  "sifive_op_bits =
     [(CHR ''2'', USE_BITS OP_XSO2), (CHR ''1'', USE_BITS OP_XSO1)]"

text \<open>
  \<open>letter t cs\<close> is one level of the switch: it consumes a letter of \<open>cs\<close>, failing at the end of the string.
\<close>

definition letter :: "(char \<times> 'a) list \<Rightarrow> string \<Rightarrow> ('a \<times> string) option" where
  "letter t cs =
     (case cs of [] \<Rightarrow> None | c # cs' \<Rightarrow> map_option (\<lambda>b. (b, cs')) (map_of t c))"

definition digits :: "(char \<times> nat) list" where
  "digits = [(CHR ''0'', 0), (CHR ''1'', 1), (CHR ''2'', 2), (CHR ''3'', 3), (CHR ''4'', 4),
     (CHR ''5'', 5), (CHR ''6'', 6), (CHR ''7'', 7), (CHR ''8'', 8), (CHR ''9'', 9)]"

text \<open>\<^verbatim>\<open>strtol\<close> on the digits an argument string has, and where it stops.\<close>

fun strtol :: "nat \<Rightarrow> string \<Rightarrow> nat \<times> string" where
  "strtol acc [] = (acc, [])"
| "strtol acc (c # cs) =
     (case map_of digits c of None \<Rightarrow> (acc, c # cs) | Some d \<Rightarrow> strtol (10 * acc + d) cs)"

text \<open>The T-head operands: a vector type, a literal up to the next comma, an immediate \<^verbatim>\<open>N@S\<close>.\<close>

definition thead_operand :: "string \<Rightarrow> (insn_t \<times> string) option" where
  "thead_operand cs =
     (case cs of
        [] \<Rightarrow> None
      | c # ds \<Rightarrow>
          if c = CHR ''V'' then letter [(CHR ''c'', ENCODE_RVV_VC_IMM 0xffffffff)] ds
          else if c = CHR ''l'' then Some (0, dropWhile (\<lambda>x. x \<noteq> CHR '','') ds)
          else if c = CHR ''s'' \<or> c = CHR ''u'' then
            (let (n, es) = strtol 0 ds
             in case es of
                  [] \<Rightarrow> None
                | at # fs \<Rightarrow>
                    if at \<noteq> CHR ''@'' then None
                    else let (s, gs) = strtol 0 fs in Some (USE_IMM n s, gs))
          else None)"

definition vendor_operand :: "string \<Rightarrow> (insn_t \<times> string) option" where
  "vendor_operand cs =
     (case cs of
        [] \<Rightarrow> None
      | c # ds \<Rightarrow>
          if c = CHR ''t'' then thead_operand ds
          else if c = CHR ''c'' then letter corev_bits ds
          else if c = CHR ''s'' then
            (case ds of
               [] \<Rightarrow> None
             | d # es \<Rightarrow> if d = CHR ''O'' then letter sifive_op_bits es else letter sifive_bits ds)
          else None)"

definition zext_operand :: "string \<Rightarrow> (insn_t \<times> string) option" where
  "zext_operand cs =
     (case cs of
        [] \<Rightarrow> None
      | c # ds \<Rightarrow>
          if c = CHR ''i'' then letter [(CHR ''f'', ENCODE_STYPE_IMM 0xffffffff)] ds
          else if c = CHR ''f'' then letter [(CHR ''v'', USE_BITS OP_RS1)] ds
          else if c = CHR ''c'' then letter zc_bits ds
          else None)"

text \<open>One round of the loop: the bits of the first operand and what is left of the string.\<close>

definition operand_bits :: "char \<Rightarrow> string \<Rightarrow> (insn_t \<times> string) option" where
  "operand_bits c cs =
     (if c = CHR ''C'' then
        (case cs of
           [] \<Rightarrow> None
         | d # ds \<Rightarrow> if d = CHR ''F'' then letter rvc_funct_bits ds else letter rvc_bits cs)
      else if c = CHR ''V'' then letter rvv_bits cs
      else if c = CHR ''F'' then letter funct_bits cs
      else if c = CHR ''O'' then letter opcode_bits cs
      else if c = CHR ''W'' then zext_operand cs
      else if c = CHR ''X'' then vendor_operand cs
      else map_option (\<lambda>b. (b, cs)) (map_of base_bits c))"

lemma letter_shorter: "letter t cs = Some (b, r) \<Longrightarrow> length r < length cs"
  by (auto simp: letter_def split: list.splits)

lemma strtol_shorter: "length (snd (strtol a cs)) \<le> length cs"
  by (induction a cs rule: strtol.induct) (auto split: option.splits)

lemma thead_operand_shorter: "thead_operand cs = Some (b, r) \<Longrightarrow> length r < length cs"
  using strtol_shorter [of 0 "tl cs"] strtol_shorter [of 0 "tl (snd (strtol 0 (tl cs)))"]
    length_dropWhile_le [of "\<lambda>x. x \<noteq> CHR '',''" "tl cs"]
  by (auto simp: thead_operand_def Let_def split: list.splits if_splits prod.splits
      dest: letter_shorter)

lemma vendor_operand_shorter: "vendor_operand cs = Some (b, r) \<Longrightarrow> length r < length cs"
  by (auto simp: vendor_operand_def split: list.splits if_splits
      dest!: letter_shorter thead_operand_shorter)

lemma zext_operand_shorter: "zext_operand cs = Some (b, r) \<Longrightarrow> length r < length cs"
  by (auto simp: zext_operand_def split: list.splits if_splits dest!: letter_shorter)

lemma operand_bits_shorter: "operand_bits c cs = Some (b, r) \<Longrightarrow> length r \<le> length cs"
  by (auto simp: operand_bits_def split: list.splits if_splits
      dest!: letter_shorter vendor_operand_shorter zext_operand_shorter)

function validate_args :: "string \<Rightarrow> insn_t \<Rightarrow> insn_t option" where
  "validate_args [] used = Some used"
| "validate_args (c # cs) used =
     (case operand_bits c cs of None \<Rightarrow> None | Some (b, r) \<Rightarrow> validate_args r (used OR b))"
  by pat_completeness auto
termination
  by (relation "measure (\<lambda>(s, u). length s)") (auto dest: operand_bits_shorter)

section \<open>Validation of an entry\<close>

definition insn_bits :: "insn_t \<Rightarrow> nat \<Rightarrow> insn_t" where
  "insn_bits mt len =
     (let l = (if len = 0 then riscv_insn_length mt else len); l' = (if l > 8 then 8 else l)
      in drop_bit (64 - 8 * l') (- 1))"

definition validate_riscv_insn :: "riscv_opcode \<Rightarrow> nat \<Rightarrow> bool" where
  "validate_riscv_insn op len =
     (let required = insn_bits (op_match op) len
      in if op_mask op AND op_match op \<noteq> op_match op AND required then False
         else case validate_args (op_args op) (op_mask op) of
                None \<Rightarrow> False
              | Some used \<Rightarrow> used = required)"

section \<open>The table at start-up\<close>

datatype gas_fatal = Duplicate | Broken_assembler | Macro_in_directive

text \<open>
  The inner loop checks the entries of one name, the outer loop takes the table name by name. The
  hash holds for every name the index of its first entry.
\<close>

definition check_entry :: "bool \<Rightarrow> riscv_opcode \<Rightarrow> gas_fatal option" where
  "check_entry insn_directive_p op =
     (if pinfo op \<noteq> INSN_MACRO then
        (let len = (if insn_directive_p then (if take 1 (op_name op) = ''c'' then 2 else 4) else 0)
         in if validate_riscv_insn op len then None else Some Broken_assembler)
      else if insn_directive_p then Some Macro_in_directive else None)"

fun check_group :: "bool \<Rightarrow> riscv_opcode list \<Rightarrow> gas_fatal option" where
  "check_group d [] = None"
| "check_group d (op # ops) =
     (case check_entry d op of Some e \<Rightarrow> Some e | None \<Rightarrow> check_group d ops)"

function init_opcode_loop ::
  "bool \<Rightarrow> riscv_opcode list \<Rightarrow> nat \<Rightarrow> (string \<rightharpoonup> nat) \<Rightarrow> gas_fatal + (string \<rightharpoonup> nat)" where
  "init_opcode_loop d [] i hash = Inr hash"
| "init_opcode_loop d (op # ops) i hash =
     (let name = op_name op;
          group = takeWhile (\<lambda>o'. op_name o' = name) (op # ops)
      in if hash name \<noteq> None then Inl Duplicate
         else case check_group d group of
                Some e \<Rightarrow> Inl e
              | None \<Rightarrow> init_opcode_loop d (dropWhile (\<lambda>o'. op_name o' = name) ops) (i + length group)
                         (hash(name \<mapsto> i)))"
  by pat_completeness auto
termination
  by (relation "measure (\<lambda>(d, s, i, h). length s)") (auto simp: le_imp_less_Suc length_dropWhile_le)

definition init_opcode_hash :: "riscv_opcode list \<Rightarrow> bool \<Rightarrow> gas_fatal + (string \<rightharpoonup> nat)" where
  "init_opcode_hash opcodes insn_directive_p = init_opcode_loop insn_directive_p opcodes 0 (\<lambda>_. None)"

section \<open>Evaluation\<close>

text \<open>The operand tables and the required bits as numerals, so that the check of a table entry evaluates quickly.\<close>

lemma rvc_bits_code [code]:
  "rvc_bits =
     [(CHR ''U'', 0), (CHR ''c'', 0), (CHR ''T'', 0x7c), (CHR ''V'', 0x7c), (CHR ''S'', 0x380),
      (CHR ''s'', 0x380), (CHR ''w'', 0), (CHR ''D'', 0x1c), (CHR ''t'', 0x1c), (CHR ''x'', 0),
      (CHR ''z'', 0), (CHR ''>'', 0x107c), (CHR ''u'', 0x107c), (CHR ''v'', 0x107c),
      (CHR ''o'', 0x107c), (CHR ''j'', 0x107c), (CHR ''L'', 0x107c), (CHR ''m'', 0x107c),
      (CHR ''n'', 0x107c), (CHR ''6'', 0x1f80), (CHR ''M'', 0x1f80), (CHR ''N'', 0x1f80),
      (CHR ''8'', 0x1fe0), (CHR ''K'', 0x1fe0), (CHR ''5'', 0x1c60), (CHR ''k'', 0x1c60),
      (CHR ''l'', 0x1c60), (CHR ''p'', 0x1c7c), (CHR ''a'', 0x1ffc)]"
  unfolding rvc_bits_def by (simp add: field_defs mask_eq_exp_minus_1)

lemma rvc_funct_bits_code [code]:
  "rvc_funct_bits =
     [(CHR ''6'', 0xfc00), (CHR ''4'', 0xf000), (CHR ''3'', 0xe000), (CHR ''2'', 0x60)]"
  unfolding rvc_funct_bits_def by (simp add: field_defs mask_eq_exp_minus_1)

lemma rvv_bits_code [code]:
  "rvv_bits =
     [(CHR ''d'', 0xf80), (CHR ''f'', 0xf80), (CHR ''e'', 0x4000000), (CHR ''s'', 0xf8000),
      (CHR ''t'', 0x1f00000), (CHR ''u'', 0x1ff8000), (CHR ''v'', 0x1ff8f80), (CHR ''0'', 0),
      (CHR ''b'', 0x3ff00000), (CHR ''c'', 0x7ff00000), (CHR ''i'', 0xf8000),
      (CHR ''j'', 0xf8000), (CHR ''k'', 0xf8000), (CHR ''l'', 0x40f8000), (CHR ''m'', 0x2000000),
      (CHR ''M'', 0), (CHR ''T'', 0)]"
  unfolding rvv_bits_def by (simp add: field_defs mask_eq_exp_minus_1)

lemma base_bits_code [code]:
  "base_bits =
     [(CHR '','', 0), (CHR ''('', 0), (CHR '')'', 0), (CHR ''{'', 0), (CHR ''}'', 0),
      (CHR ''<'', 0x1f00000), (CHR ''>'', 0x3f00000), (CHR ''A'', 0), (CHR ''B'', 0),
      (CHR ''c'', 0), (CHR ''I'', 0), (CHR ''D'', 0xf80), (CHR ''d'', 0xf80),
      (CHR ''y'', 0xc0000000), (CHR ''Y'', 0xf00000), (CHR ''Z'', 0xf8000), (CHR ''S'', 0xf8000),
      (CHR ''s'', 0xf8000), (CHR ''U'', 0x1ff8000), (CHR ''T'', 0x1f00000),
      (CHR ''t'', 0x1f00000), (CHR ''R'', 0xf8000000), (CHR ''r'', 0xf8000000),
      (CHR ''l'', 0xf80), (CHR ''m'', 0x7000), (CHR ''E'', 0xfff00000), (CHR ''P'', 0xf000000),
      (CHR ''Q'', 0xf00000), (CHR ''o'', 0xfff00000), (CHR ''j'', 0xfff00000),
      (CHR ''a'', 0xfffff000), (CHR ''p'', 0xfe000f80), (CHR ''q'', 0xfe000f80),
      (CHR ''u'', 0xfffff000), (CHR ''z'', 0), (CHR ''['', 0), (CHR '']'', 0), (CHR ''0'', 0),
      (CHR ''1'', 0)]"
  unfolding base_bits_def by (simp add: field_defs mask_eq_exp_minus_1)

lemma funct_bits_code [code]:
  "funct_bits =
     [(CHR ''7'', 0xfe000000), (CHR ''3'', 0x7000), (CHR ''2'', 0x6000000)]"
  unfolding funct_bits_def by (simp add: field_defs mask_eq_exp_minus_1)

lemma opcode_bits_code [code]:
  "opcode_bits =
     [(CHR ''4'', 0x7f), (CHR ''2'', 0x3)]"
  unfolding opcode_bits_def by (simp add: field_defs mask_eq_exp_minus_1)

lemma zc_bits_code [code]:
  "zc_bits =
     [(CHR ''h'', 0x20), (CHR ''b'', 0x60), (CHR ''p'', 0xc), (CHR ''r'', 0xf0), (CHR ''f'', 0)]"
  unfolding zc_bits_def by (simp add: field_defs mask_eq_exp_minus_1)

lemma corev_bits_code [code]:
  "corev_bits =
     [(CHR ''2'', 0x1f00000), (CHR ''4'', 0x1f00000), (CHR ''3'', 0x3e000000)]"
  unfolding corev_bits_def by (simp add: field_defs mask_eq_exp_minus_1)

lemma sifive_bits_code [code]:
  "sifive_bits =
     [(CHR ''d'', 0xf80), (CHR ''t'', 0x1f00000)]"
  unfolding sifive_bits_def by (simp add: field_defs mask_eq_exp_minus_1)

lemma sifive_op_bits_code [code]:
  "sifive_op_bits =
     [(CHR ''2'', 0xc000000), (CHR ''1'', 0x4000000)]"
  unfolding sifive_op_bits_def by (simp add: field_defs mask_eq_exp_minus_1)

lemma insn_bits_code [code]:
  "insn_bits mt len =
     (let l = (if len = 0 then riscv_insn_length mt else len)
      in if l = 2 then 0xffff else if l = 4 then 0xffffffff
         else drop_bit (64 - 8 * (if l > 8 then 8 else l)) (- 1))"
  by (simp add: insn_bits_def Let_def drop_bit_eq_div)

section \<open>Reduction to the argument string\<close>

text \<open>The bits an argument string uses do not depend on the bits used before it.\<close>

definition args_bits :: "string \<Rightarrow> insn_t option" where
  "args_bits s = validate_args s 0"

lemma validate_args_acc: "validate_args s u = map_option ((OR) u) (args_bits s)"
  unfolding args_bits_def
proof (induction s arbitrary: u rule: length_induct)
  case (1 s)
  show ?case
  proof (cases s)
    case Nil
    then show ?thesis by simp
  next
    case (Cons c cs)
    show ?thesis
    proof (cases "operand_bits c cs")
      case None
      with Cons show ?thesis by simp
    next
      case (Some br)
      obtain b r where br: "br = (b, r)" by (cases br)
      have "length r < length s" using operand_bits_shorter Some br Cons by fastforce
      then have "validate_args r v = map_option ((OR) v) (validate_args r 0)" for v using 1 by blast
      from this [of "u OR b"] this [of b] Some br Cons show ?thesis
        by (cases "validate_args r 0") (simp_all add: or.assoc)
    qed
  qed
qed

lemma validate_opc:
  "validate_riscv_insn (opc n x c a mt mk f p) len \<longleftrightarrow>
     mk AND mt = mt AND insn_bits mt len \<and> map_option ((OR) mk) (args_bits a) = Some (insn_bits mt len)"
  by (auto simp: validate_riscv_insn_def opc_def Let_def validate_args_acc split: option.splits)

lemma check_entry_opc:
  "check_entry False (opc n x c a mt mk f p) = None \<longleftrightarrow>
     p = INSN_MACRO \<or>
     mk AND mt = mt AND insn_bits mt 0 \<and> map_option ((OR) mk) (args_bits a) = Some (insn_bits mt 0)"
  using validate_opc [of n x c a mt mk f p 0] by (simp add: check_entry_def) (simp add: opc_def)

lemma check_group_list_all: "check_group d ops = None \<longleftrightarrow> list_all (\<lambda>op. check_entry d op = None) ops"
  by (induction ops) (auto split: option.splits)

lemma insn_bits_0:
  "insn_bits mt 0 = (if mt AND 3 \<noteq> 3 then 0xffff
     else if mt AND 0x1f \<noteq> 0x1f then 0xffffffff else drop_bit (64 - 8 * min 8 (riscv_insn_length mt)) (- 1))"
  by (simp add: insn_bits_def riscv_insn_length_def Let_def drop_bit_eq_div min_def)

end
