(* ===== verification/Opc_Checks.thy ===== *)
theory Opc_Checks
  imports Gas_Validate
begin

text \<open>
  The opcode table passes the start-up check of the assembler. The argument strings of the table are
  evaluated once each; an entry is then a question about three numerals.
\<close>

section \<open>Bits of the argument strings\<close>

named_theorems arg_string_bits \<open>bits used by the argument strings of the opcode table\<close>

lemma arg_strings_1 [arg_string_bits]:
  "args_bits ''Wif(s)'' = Some 0xfe0f8f80 \<and>
   args_bits '''' = Some 0 \<and>
   args_bits ''s,t,r,l'' = Some 0xf9ff8f80 \<and>
   args_bits ''s,t,l'' = Some 0x1ff8f80 \<and>
   args_bits ''d'' = Some 0xf80 \<and>
   args_bits ''s'' = Some 0xf8000 \<and>
   args_bits ''o(s)'' = Some 0xffff8000 \<and>
   args_bits ''s,j'' = Some 0xffff8000 \<and>
   args_bits ''d,s'' = Some 0xf8f80 \<and>
   args_bits ''d,o(s)'' = Some 0xffff8f80 \<and>
   args_bits ''d,s,1'' = Some 0xf8f80 \<and>
   args_bits ''d,s,j'' = Some 0xffff8f80 \<and>
   args_bits ''Ca'' = Some 0x1ffc \<and>
   args_bits ''a'' = Some 0xfffff000 \<and>
   args_bits ''d,a'' = Some 0xffffff80 \<and>
   args_bits ''d,Cu'' = Some 0x1ffc \<and>
   args_bits ''d,u'' = Some 0xffffff80 \<and>
   args_bits ''d,Cv'' = Some 0x1ffc \<and>
   args_bits ''d,Co'' = Some 0x1ffc \<and>
   args_bits ''d,j'' = Some 0xfff00f80 \<and>
   args_bits ''d,CV'' = Some 0xffc \<and>
   args_bits ''Cs,Cw'' = Some 0x380 \<and>
   args_bits ''Cs,Cw,Wcf'' = Some 0x380 \<and>
   args_bits ''Cs,Cw,Co'' = Some 0x13fc \<and>
   args_bits ''Cs,Cw,Ct'' = Some 0x39c \<and>
   args_bits ''Cs,Ct,Cw'' = Some 0x39c \<and>
   args_bits ''d,s,t'' = Some 0x1ff8f80 \<and>
   args_bits ''Cs,Cp'' = Some 0x1ffc \<and>
   args_bits ''s,p'' = Some 0xfe0f8f80 \<and>
   args_bits ''Cs,Cz,Cp'' = Some 0x1ffc \<and>
   args_bits ''s,t,p'' = Some 0xffff8f80 \<and>
   args_bits ''t,p'' = Some 0xfff00f80 \<and>
   args_bits ''t,s,p'' = Some 0xffff8f80 \<and>
   args_bits ''Ct,Cc,CK'' = Some 0x1ffc \<and>
   args_bits ''d,CU,Cj'' = Some 0x1ffc \<and>
   args_bits ''d,CU,z'' = Some 0xf80 \<and>
   args_bits ''Cc,Cc,CL'' = Some 0x107c \<and>
   args_bits ''d,Cz,Co'' = Some 0x1ffc \<and>
   args_bits ''d,CV,z'' = Some 0xffc \<and>
   args_bits ''d,CU,CV'' = Some 0xffc"
  by code_simp

lemma arg_strings_2 [arg_string_bits]:
  "args_bits ''d,CV,CU'' = Some 0xffc \<and>
   args_bits ''d,CU,Co'' = Some 0x1ffc \<and>
   args_bits ''d,Cz,CV'' = Some 0xffc \<and>
   args_bits ''d,s,t,1'' = Some 0x1ff8f80 \<and>
   args_bits ''d,t'' = Some 0x1f00f80 \<and>
   args_bits ''d,CU,C>'' = Some 0x1ffc \<and>
   args_bits ''d,s,>'' = Some 0x3ff8f80 \<and>
   args_bits ''Cs,Cw,C>'' = Some 0x13fc \<and>
   args_bits ''Ct,Wcb(Cs)'' = Some 0x3fc \<and>
   args_bits ''Ct,Wch(Cs)'' = Some 0x3bc \<and>
   args_bits ''d,Cm(Cc)'' = Some 0x1ffc \<and>
   args_bits ''Ct,Ck(Cs)'' = Some 0x1ffc \<and>
   args_bits ''d,t,s'' = Some 0x1ff8f80 \<and>
   args_bits ''t,q(s)'' = Some 0xffff8f80 \<and>
   args_bits ''CV,CM(Cc)'' = Some 0x1ffc \<and>
   args_bits ''P,Q'' = Some 0xff00000 \<and>
   args_bits ''d,Cn(Cc)'' = Some 0x1ffc \<and>
   args_bits ''Ct,Cl(Cs)'' = Some 0x1ffc \<and>
   args_bits ''CV,CN(Cc)'' = Some 0x1ffc \<and>
   args_bits ''d,CU'' = Some 0xf80 \<and>
   args_bits ''d,s,<'' = Some 0x1ff8f80 \<and>
   args_bits ''d,0(s)'' = Some 0xf8f80 \<and>
   args_bits ''d,t,0(s)'' = Some 0x1ff8f80 \<and>
   args_bits ''D,o(s)'' = Some 0xffff8f80 \<and>
   args_bits ''T,q(s)'' = Some 0xffff8f80 \<and>
   args_bits ''d,S'' = Some 0xf8f80 \<and>
   args_bits ''D,s'' = Some 0xf8f80 \<and>
   args_bits ''D,U'' = Some 0x1ff8f80 \<and>
   args_bits ''D,S,T'' = Some 0x1ff8f80 \<and>
   args_bits ''D,S,T,m'' = Some 0x1ffff80 \<and>
   args_bits ''D,S'' = Some 0xf8f80 \<and>
   args_bits ''D,S,m'' = Some 0xfff80 \<and>
   args_bits ''D,S,T,R'' = Some 0xf9ff8f80 \<and>
   args_bits ''D,S,T,R,m'' = Some 0xf9ffff80 \<and>
   args_bits ''d,S,m'' = Some 0xfff80 \<and>
   args_bits ''D,s,m'' = Some 0xfff80 \<and>
   args_bits ''d,S,T'' = Some 0x1ff8f80 \<and>
   args_bits ''d,T,S'' = Some 0x1ff8f80 \<and>
   args_bits ''d,Z'' = Some 0xf8f80 \<and>
   args_bits ''Z'' = Some 0xf8000"
  by code_simp

lemma arg_strings_3 [arg_string_bits]:
  "args_bits ''D,Cm(Cc)'' = Some 0x1ffc \<and>
   args_bits ''CD,Ck(Cs)'' = Some 0x1ffc \<and>
   args_bits ''CT,CM(Cc)'' = Some 0x1ffc \<and>
   args_bits ''D,Cn(Cc)'' = Some 0x1ffc \<and>
   args_bits ''CD,Cl(Cs)'' = Some 0x1ffc \<and>
   args_bits ''CT,CN(Cc)'' = Some 0x1ffc \<and>
   args_bits ''Cj'' = Some 0x107c \<and>
   args_bits ''Cc,CL'' = Some 0x107c \<and>
   args_bits ''Cs,Ct'' = Some 0x39c \<and>
   args_bits ''d,C>'' = Some 0x1ffc \<and>
   args_bits ''Cs,C>'' = Some 0x13fc \<and>
   args_bits ''Cs'' = Some 0x380 \<and>
   args_bits ''Cs,Co'' = Some 0x13fc \<and>
   args_bits ''0(s)'' = Some 0xf8000 \<and>
   args_bits ''D,Wfv'' = Some 0xf8f80 \<and>
   args_bits ''D,s,t'' = Some 0x1ff8f80 \<and>
   args_bits ''d,s,t,y'' = Some 0xc1ff8f80 \<and>
   args_bits ''d,s,Y'' = Some 0xff8f80 \<and>
   args_bits ''d,s,Vc'' = Some 0x7fff8f80 \<and>
   args_bits ''d,Z,Vb'' = Some 0x3fff8f80 \<and>
   args_bits ''Vd,0(s)'' = Some 0xf8f80 \<and>
   args_bits ''Vd,0(s)Vm'' = Some 0x20f8f80 \<and>
   args_bits ''Vd,0(s),tVm'' = Some 0x3ff8f80 \<and>
   args_bits ''Vd,0(s),VtVm'' = Some 0x3ff8f80 \<and>
   args_bits ''Vd,VtVm'' = Some 0x3f00f80 \<and>
   args_bits ''Vd,Vt,VsVm'' = Some 0x3ff8f80 \<and>
   args_bits ''Vd,Vt,sVm'' = Some 0x3ff8f80 \<and>
   args_bits ''Vd,Vt,ViVm'' = Some 0x3ff8f80 \<and>
   args_bits ''Vd,Vt,Vs,V0'' = Some 0x1ff8f80 \<and>
   args_bits ''Vd,Vt,s,V0'' = Some 0x1ff8f80 \<and>
   args_bits ''Vd,Vt,Vi,V0'' = Some 0x1ff8f80 \<and>
   args_bits ''Vd,Vt,Vs'' = Some 0x1ff8f80 \<and>
   args_bits ''Vd,Vt,s'' = Some 0x1ff8f80 \<and>
   args_bits ''Vd,Vt,Vi'' = Some 0x1ff8f80 \<and>
   args_bits ''Vd,Vt,VjVm'' = Some 0x3ff8f80 \<and>
   args_bits ''Vd,Vs,VtVm'' = Some 0x3ff8f80 \<and>
   args_bits ''Vd,Vt,VkVm'' = Some 0x3ff8f80 \<and>
   args_bits ''Vd,Vu,0Vm'' = Some 0x3ff8f80 \<and>
   args_bits ''Vd,s,VtVm'' = Some 0x3ff8f80 \<and>
   args_bits ''Vd,Vs'' = Some 0xf8f80"
  by code_simp

lemma arg_strings_4 [arg_string_bits]:
  "args_bits ''Vd,s'' = Some 0xf8f80 \<and>
   args_bits ''Vd,Vi'' = Some 0xf8f80 \<and>
   args_bits ''Vd,Vt,SVm'' = Some 0x3ff8f80 \<and>
   args_bits ''Vd,S,VtVm'' = Some 0x3ff8f80 \<and>
   args_bits ''Vd,VuVm'' = Some 0x3ff8f80 \<and>
   args_bits ''Vd,Vt,S,V0'' = Some 0x1ff8f80 \<and>
   args_bits ''Vd,S'' = Some 0xf8f80 \<and>
   args_bits ''Vd,Vu'' = Some 0x1ff8f80 \<and>
   args_bits ''Vv'' = Some 0x1ff8f80 \<and>
   args_bits ''d,VtVm'' = Some 0x3f00f80 \<and>
   args_bits ''VdVm'' = Some 0x2000f80 \<and>
   args_bits ''d,Vt'' = Some 0x1f00f80 \<and>
   args_bits ''D,Vt'' = Some 0x1f00f80 \<and>
   args_bits ''Vd,Vt'' = Some 0x1f00f80 \<and>
   args_bits ''Vd,Vt,VlVm'' = Some 0x7ff8f80 \<and>
   args_bits ''Vd,Vt,Vj'' = Some 0x1ff8f80 \<and>
   args_bits ''{Wcr},Wcp'' = Some 0xfc \<and>
   args_bits ''d,E'' = Some 0xfff00f80 \<and>
   args_bits ''E,Z'' = Some 0xffff8000 \<and>
   args_bits ''E,s'' = Some 0xffff8000 \<and>
   args_bits ''d,E,Z'' = Some 0xffff8f80 \<and>
   args_bits ''d,E,s'' = Some 0xffff8f80 \<and>
   args_bits ''s,t'' = Some 0x1ff8000 \<and>
   args_bits ''t,0(s)'' = Some 0x1ff8000 \<and>
   args_bits ''d,s,t,Xc3'' = Some 0x3fff8f80 \<and>
   args_bits ''d,s,Xc2'' = Some 0x1ff8f80 \<and>
   args_bits ''s,Xc4,p'' = Some 0xffff8f80 \<and>
   args_bits ''d,(s),o'' = Some 0xffff8f80 \<and>
   args_bits ''d,(s),t'' = Some 0x1ff8f80 \<and>
   args_bits ''d,t(s)'' = Some 0x1ff8f80 \<and>
   args_bits ''t,(s),q'' = Some 0xffff8f80 \<and>
   args_bits ''t,d(s)'' = Some 0x1ff8f80 \<and>
   args_bits ''t,(s),d'' = Some 0x1ff8f80 \<and>
   args_bits ''d,s,t,Xtu2@25'' = Some 0x7ff8f80 \<and>
   args_bits ''d,s,Xtu6@20'' = Some 0x3ff8f80 \<and>
   args_bits ''d,s,Xtu5@20'' = Some 0x1ff8f80 \<and>
   args_bits ''d,s,Xtu6@26,Xtu6@20'' = Some 0xffff8f80 \<and>
   args_bits ''D,s,t,Xtu2@25'' = Some 0x7ff8f80 \<and>
   args_bits ''d,(s),Xts5@20,Xtu2@25'' = Some 0x7ff8f80 \<and>
   args_bits ''d,t,(s),Xtu2@25,Xtl4'' = Some 0x7ff8f80"
  by code_simp

lemma arg_strings_5 [arg_string_bits]:
  "args_bits ''d,t,(s),Xtu2@25,Xtl3'' = Some 0x7ff8f80 \<and>
   args_bits ''d,s,XtVc'' = Some 0x7fff8f80 \<and>
   args_bits ''Ve,Vt,(s),VfVm'' = Some 0x7ff8f80 \<and>
   args_bits ''d,Vt,s'' = Some 0x1ff8f80 \<and>
   args_bits ''XsO2,Xst,Xsd,s'' = Some 0xdff8f80 \<and>
   args_bits ''XsO2,Xst,Vd,s'' = Some 0xdff8f80 \<and>
   args_bits ''XsO2,Xst,Xsd,Vi'' = Some 0xdff8f80 \<and>
   args_bits ''XsO2,Xst,Vd,Vi'' = Some 0xdff8f80 \<and>
   args_bits ''XsO2,Xsd,Vt,Vs'' = Some 0xdff8f80 \<and>
   args_bits ''XsO2,Vd,Vt,Vs'' = Some 0xdff8f80 \<and>
   args_bits ''XsO2,Xsd,Vt,s'' = Some 0xdff8f80 \<and>
   args_bits ''XsO2,Vd,Vt,s'' = Some 0xdff8f80 \<and>
   args_bits ''XsO2,Xsd,Vt,Vi'' = Some 0xdff8f80 \<and>
   args_bits ''XsO2,Vd,Vt,Vi'' = Some 0xdff8f80 \<and>
   args_bits ''XsO1,Xsd,Vt,S'' = Some 0x5ff8f80 \<and>
   args_bits ''XsO1,Vd,Vt,S'' = Some 0x5ff8f80"
  by code_simp


section \<open>The parts of the table\<close>

lemmas entry_check = check_entry_opc insn_bits_0 arg_string_bits

lemma riscv_opcodes_1_checked: "list_all (\<lambda>op. check_entry False op = None) riscv_opcodes_1"
  unfolding riscv_opcodes_1_def by (simp add: entry_check)

lemma riscv_opcodes_2_checked: "list_all (\<lambda>op. check_entry False op = None) riscv_opcodes_2"
  unfolding riscv_opcodes_2_def by (simp add: entry_check)

lemma riscv_opcodes_3_checked: "list_all (\<lambda>op. check_entry False op = None) riscv_opcodes_3"
  unfolding riscv_opcodes_3_def by (simp add: entry_check)

lemma riscv_opcodes_4_checked: "list_all (\<lambda>op. check_entry False op = None) riscv_opcodes_4"
  unfolding riscv_opcodes_4_def by (simp add: entry_check)

lemma riscv_opcodes_5_checked: "list_all (\<lambda>op. check_entry False op = None) riscv_opcodes_5"
  unfolding riscv_opcodes_5_def by (simp add: entry_check)

lemma riscv_opcodes_6_checked: "list_all (\<lambda>op. check_entry False op = None) riscv_opcodes_6"
  unfolding riscv_opcodes_6_def by (simp add: entry_check)

lemma riscv_opcodes_7_checked: "list_all (\<lambda>op. check_entry False op = None) riscv_opcodes_7"
  unfolding riscv_opcodes_7_def by (simp add: entry_check)

lemma riscv_opcodes_8_checked: "list_all (\<lambda>op. check_entry False op = None) riscv_opcodes_8"
  unfolding riscv_opcodes_8_def by (simp add: entry_check)

lemma riscv_opcodes_9_checked: "list_all (\<lambda>op. check_entry False op = None) riscv_opcodes_9"
  unfolding riscv_opcodes_9_def by (simp add: entry_check)

lemma riscv_opcodes_10_checked: "list_all (\<lambda>op. check_entry False op = None) riscv_opcodes_10"
  unfolding riscv_opcodes_10_def by (simp add: entry_check)

lemma riscv_opcodes_11_checked: "list_all (\<lambda>op. check_entry False op = None) riscv_opcodes_11"
  unfolding riscv_opcodes_11_def by (simp add: entry_check)

lemma riscv_opcodes_12_checked: "list_all (\<lambda>op. check_entry False op = None) riscv_opcodes_12"
  unfolding riscv_opcodes_12_def by (simp add: entry_check)

lemma riscv_opcodes_13_checked: "list_all (\<lambda>op. check_entry False op = None) riscv_opcodes_13"
  unfolding riscv_opcodes_13_def by (simp add: entry_check)

lemma riscv_opcodes_14_checked: "list_all (\<lambda>op. check_entry False op = None) riscv_opcodes_14"
  unfolding riscv_opcodes_14_def by (simp add: entry_check)

lemma riscv_opcodes_15_checked: "list_all (\<lambda>op. check_entry False op = None) riscv_opcodes_15"
  unfolding riscv_opcodes_15_def by (simp add: entry_check)

lemma riscv_opcodes_16_checked: "list_all (\<lambda>op. check_entry False op = None) riscv_opcodes_16"
  unfolding riscv_opcodes_16_def by (simp add: entry_check)

lemma riscv_opcodes_17_checked: "list_all (\<lambda>op. check_entry False op = None) riscv_opcodes_17"
  unfolding riscv_opcodes_17_def by (simp add: entry_check)

lemma riscv_opcodes_18_checked: "list_all (\<lambda>op. check_entry False op = None) riscv_opcodes_18"
  unfolding riscv_opcodes_18_def by (simp add: entry_check)

lemma riscv_opcodes_19_checked: "list_all (\<lambda>op. check_entry False op = None) riscv_opcodes_19"
  unfolding riscv_opcodes_19_def by (simp add: entry_check)

lemmas part_checked =
  riscv_opcodes_1_checked riscv_opcodes_2_checked riscv_opcodes_3_checked
  riscv_opcodes_4_checked riscv_opcodes_5_checked riscv_opcodes_6_checked
  riscv_opcodes_7_checked riscv_opcodes_8_checked riscv_opcodes_9_checked
  riscv_opcodes_10_checked riscv_opcodes_11_checked riscv_opcodes_12_checked
  riscv_opcodes_13_checked riscv_opcodes_14_checked riscv_opcodes_15_checked
  riscv_opcodes_16_checked riscv_opcodes_17_checked riscv_opcodes_18_checked
  riscv_opcodes_19_checked

lemma riscv_opcodes_checked: "check_group False riscv_opcodes = None"
  unfolding check_group_list_all riscv_opcodes_def by (simp add: part_checked)

end
