(* ===== verification/Opc_Names.thy ===== *)
theory Opc_Names
  imports Riscv_Opcodes
begin

text \<open>
  The names of the opcode table come in runs, and no name starts a second run. Names are compared through a
  numeric key, and the keys bucket by bucket, so that the comparison of some two thousand names stays small.
\<close>

section \<open>Keys\<close>

fun name_key_loop :: "int \<Rightarrow> string \<Rightarrow> int" where
  "name_key_loop h [] = h"
| "name_key_loop h (c # cs) = name_key_loop (h * 11 + of_char c) cs"

text \<open>The key of a name, after the bucket it belongs to.\<close>

definition name_key :: "string \<Rightarrow> int \<times> int" where
  "name_key s = (let k = name_key_loop 0 s in (k mod 32, k))"

definition run_names :: "riscv_opcode list \<Rightarrow> string list" where
  "run_names ops = remdups_adj (map op_name ops)"

definition name_keys_1 :: "(int \<times> int) list list" where
  "name_keys_1 =
     [[(6, 290694066790), (15, 290694066799), (20, 290694066804), (17, 19564561), (9, 2367318985), (18, 19564594), (25, 215209113), (24, 2030286296)],
      [(24, 245664648920), (25, 2030286329), (6, 22333148198), (6, 1784422), (25, 17233657), (26, 20378810), (22, 19425814), (27, 19425307)],
      [(17, 18692433), (17, 17702993), (15, 1873423), (18, 17866098), (12, 20120812), (13, 15021), (0, 1280), (13, 154125)],
      [(10, 106), (17, 14001), (2, 144802), (4, 167396), (10, 156554), (19, 14643), (28, 14460), (13, 1293)],
      [(5, 1317), (5, 159909), (11, 21301323), (6, 143622), (23, 13047), (24, 144024), (26, 13082), (3, 144739)],
      [(6, 144134), (4, 13092), (1, 144129), (27, 13147), (30, 144734), (8, 144904), (11, 144299), (10, 13162)],
      [(3, 144899), (19, 13107), (6, 144294), (21, 144981), (17, 13169), (12, 142412), (9, 12937), (5, 1285)],
      [(17, 14353), (26, 14298), (13, 25142929549), (4, 25142929572), (28, 14524), (2, 167426), (11, 15211), (24, 168152)],
      [(13, 15277), (31, 168031), (2, 15266), (4, 15300), (6, 1286), (23, 14263), (12, 1292), (25, 14329)]]"

definition name_keys_2 :: "(int \<times> int) list list" where
  "name_keys_2 =
     [[(27, 1307), (23, 14647), (6, 14790), (23, 1335), (20, 1589940), (27, 166651), (24, 167608), (11, 167531)],
      [(14, 166926), (26, 167514), (19, 15219), (19, 1842771), (6, 167526), (28, 15164), (9, 166921), (19, 1363)],
      [(25, 1369), (8, 1384), (9, 1642313), (4, 198720484), (23, 24045181271), (16, 219686832), (21, 26591212181), (27, 19992315)],
      [(24, 2416555256), (15, 292503334095), (17, 219915569), (23, 1623543), (5, 1828517), (14, 174510), (15, 15855), (30, 14494)],
      [(8, 1288), (21, 1365), (3, 20173987), (27, 1566651), (26, 142426), (11, 159883), (13, 1841805), (16, 167440)],
      [(31, 1849791), (6, 168166), (12, 1848460), (13, 168045), (3, 168419), (23, 158167), (5, 165669), (31, 2102798399)],
      [(11, 23133962795), (29, 2102811709), (23, 191183287), (21, 2103151477), (6, 2102972518), (5, 23132705605), (4, 2102981956), (15, 23132809423)],
      [(15, 210527023), (25, 220512185), (7, 2798824675815), (11, 30791304486891), (1, 2798842391425), (15, 254464961743), (9, 2799294622633), (12, 2799056428204)],
      [(25, 30789631167001), (6, 2799068990182), (23, 30789769348759), (5, 210527205), (15, 220512367), (29, 2798824675997), (1, 30791304487073), (23, 2798842391607)],
      [(5, 254464961925), (31, 2799294622815), (2, 2799056428386), (15, 30789631167183), (28, 2799068990364), (13, 30789769348941), (9, 25473771145), (3, 26681975747)],
      [(1, 338657785774977), (5, 3725747842915173), (11, 338659929363787), (9, 30790260372265), (19, 338714649339955), (30, 338685827814046), (3, 3725545371208483), (8, 338687347813384)],
      [(17, 3725562091201201), (4, 158148), (18, 165650), (12, 2102798380), (24, 23133962776), (10, 2102811690), (4, 191183268), (2, 2103151458)],
      [(19, 2102972499), (18, 23132705586), (17, 2102981937), (28, 23132809404), (6, 210501734), (16, 220486896), (30, 2798824650526), (2, 30791304461602)],
      [(24, 2798842366136), (6, 254464936454), (0, 2799294597344), (3, 2799056402915), (16, 30789631141712), (29, 2799068964893), (14, 30789769323470)]]"

definition name_keys_3 :: "(int \<times> int) list list" where
  "name_keys_3 =
     [[(28, 210501916), (6, 220487078), (20, 2798824650708), (24, 30791304461784), (14, 2798842366318), (28, 254464936636), (22, 2799294597526), (25, 2799056403097)],
      [(6, 30789631141894), (19, 2799068965075), (4, 30789769323652), (8, 25470711176), (2, 26678915778), (0, 338657782715008), (4, 3725747839855204), (10, 338659926303818)],
      [(8, 30790257312296), (18, 338714646279986), (29, 338685824754077), (2, 3725545368148514), (7, 338687344753415), (16, 3725562088141232), (10, 2102798378), (22, 23133962774)],
      [(8, 2102811688), (2, 191183266), (0, 2103151456), (17, 2102972497), (16, 23132705584), (15, 2102981935), (26, 23132809402), (10, 2102825482)],
      [(24, 2798824647864), (28, 30791304458940), (18, 2798842363474), (0, 254464933792), (26, 2799294594682), (29, 2799056400253), (10, 30789631139050), (23, 2799068962231)],
      [(8, 30789769320808), (24, 2798860723288), (14, 2798824648046), (18, 30791304459122), (8, 2798842363656), (22, 254464933974), (16, 2799294594864), (19, 2799056400435)],
      [(0, 30789631139232), (13, 2799068962413), (30, 30789769320990), (14, 2798860723470), (10, 338657782392906), (14, 3725747839533102), (20, 338659925981716), (18, 30790256990194)],
      [(28, 338714645957884), (7, 338685824431975), (12, 3725545367826412), (17, 338687344431313), (26, 3725562087819130), (10, 338662147519210), (16, 2102798384), (28, 23133962780)],
      [(14, 2102811694), (8, 191183272), (6, 2103151462), (23, 2102972503), (22, 23132705590), (21, 2102981941), (0, 23132809408), (16, 2102825488)],
      [(10, 2798824655850), (14, 30791304466926), (4, 2798842371460), (18, 254464941778), (12, 2799294602668), (15, 2799056408239), (28, 30789631147036), (9, 2799068970217)],
      [(26, 30789769328794), (10, 2798860731274), (0, 2798824656032), (4, 30791304467108), (26, 2798842371642), (8, 254464941960), (2, 2799294602850), (5, 2799056408421)],
      [(18, 30789631147218), (31, 2799068970399), (16, 30789769328976), (0, 2798860731456), (12, 338657783359212), (16, 3725747840499408), (22, 338659926948022), (20, 30790257956500)],
      [(30, 338714646924190), (9, 338685825398281), (14, 3725545368792718), (19, 338687345397619), (28, 3725562088785436), (12, 338662148485516), (31, 2102825503), (12, 2102825484)],
      [(25, 2102825497), (7, 2798860751239), (30, 2798860725950), (21, 2798860743253), (29, 2798860751421), (20, 2798860726132), (11, 2798860743435), (1, 338662150901281)],
      [(0, 338662147841312), (31, 338662149934975), (24, 14584), (16, 160528), (5, 1765925), (22, 19425270), (29, 13373), (20, 147220)],
      [(6, 15014), (23, 165271), (31, 160543), (22, 147222), (19, 1619539), (25, 165273), (20, 1818100), (2, 13634)],
      [(15, 13711), (15, 200057775), (15, 200055855), (5, 1653349), (0, 18185216), (22, 17992342), (20, 200887956)]]"

definition name_keys_4 :: "(int \<times> int) list list" where
  "name_keys_4 =
     [[(6, 2209774726), (0, 2209775936), (5, 17993189), (8, 18279112), (28, 18192476), (25, 18045945), (4, 201040900), (10, 18176746)],
      [(12, 18167308), (24, 199819768), (18, 2201683698), (27, 200105691), (21, 2201969621), (30, 2183854590), (3, 24022408547), (22, 2183852790)],
      [(7, 24022380807), (26, 2183854106), (3, 2183852291), (8, 2183853864), (18, 2183852786), (3, 2183852771), (16, 2183852784), (8, 2182057256)],
      [(16, 1642096), (0, 1651776), (9, 1649961), (1, 1645121), (10, 1643306), (11, 2183853259), (18, 24022393906), (11, 2183852779)],
      [(14, 24022380686), (25, 2906707831065), (3, 2906709820035), (10, 1658474), (23, 150935), (29, 1659805), (16, 151056), (7, 150919)],
      [(0, 151040), (9, 1661545), (31, 200709151), (26, 200870202), (7, 2209572327), (17, 13649), (30, 13726), (30, 200057790)],
      [(6, 200057670), (26, 200057786), (2, 200057186), (16, 1653360), (11, 18185227), (1, 17992353), (31, 200887967), (17, 2209774737)],
      [(11, 2209775947), (16, 17993200), (19, 18279123), (7, 18192487), (4, 18045956), (15, 201040911), (21, 18176757), (23, 18167319)],
      [(3, 199819779), (29, 2201683709), (6, 200105702), (0, 2201969632), (9, 2183854601), (14, 24022408558), (9, 2183854121), (24, 24022395448)],
      [(19, 2182057267), (27, 1642107), (11, 1651787), (20, 1649972), (12, 1645132), (21, 1643317), (22, 2183853270), (29, 24022393917)],
      [(30, 2183854110), (31, 24022395327), (30, 13630), (11, 13707), (1, 1653345), (28, 18185212), (18, 17992338), (16, 200887952)]]"

definition name_keys_5 :: "(int \<times> int) list list" where
  "name_keys_5 =
     [[(2, 2209774722), (28, 2209775932), (1, 17993185), (4, 18279108), (24, 18192472), (21, 18045941), (0, 201040896), (6, 18176742)],
      [(8, 18167304), (20, 199819764), (14, 2201683694), (23, 200105687), (17, 2201969617), (26, 2183854586), (31, 24022408543), (18, 2183852306)],
      [(27, 24022375483), (14, 2183852302), (22, 2183854102), (4, 2182057252), (12, 1642092), (28, 1651772), (5, 1649957), (29, 1645117)],
      [(6, 1643302), (11, 200057771), (11, 200055371), (7, 2183853255), (14, 24022393902), (7, 2183852295), (2, 24022375362), (11, 13643)],
      [(24, 13720), (14, 1653358), (9, 18185225), (31, 17992351), (29, 200887965), (15, 2209774735), (9, 2209775945), (14, 17993198)],
      [(17, 18279121), (5, 18192485), (2, 18045954), (13, 201040909), (19, 18176755), (21, 18167317), (1, 199819777), (27, 2201683707)],
      [(4, 200105700), (30, 2201969630), (7, 2183854599), (12, 24022408556), (23, 2183853879), (18, 24022392786), (19, 2183853875), (4, 2183853860)],
      [(3, 2183854115), (12, 2183852300), (17, 2182057265), (25, 1642105), (9, 1651785), (18, 1649970), (10, 1645130), (19, 1643315)],
      [(20, 2183853268), (27, 24022393915), (12, 2183853868), (25, 24022392665), (4, 184666308), (25, 2028587833), (23, 138615), (12, 16771660)],
      [(15, 12591), (14, 1524686), (23, 16761559), (20, 16762516), (3, 16777059), (18, 138642), (8, 16786376), (31, 138719)],
      [(16, 1525328), (28, 138652), (25, 1525145), (4, 138628), (16, 245382468496), (5, 245382457157), (11, 16759947), (6, 1523622)],
      [(1, 1525985), (20, 1523732), (14, 138670), (12, 1526540), (1, 16784961), (23, 16785687), (30, 16785566), (31, 2030980927)],
      [(5, 2031068773), (20, 2031054132), (5, 16761157), (16, 184359536), (25, 16759961), (2, 16785954), (8, 16774760), (31, 138623)],
      [(13, 16784077), (12, 138700), (4, 184443492), (27, 1524315), (9, 184452809), (8, 1524392)]]"

definition name_keys_6 :: "(int \<times> int) list list" where
  "name_keys_6 =
     [[(31, 184445791), (14, 1524334), (4, 184455108), (27, 1524411), (23, 23336930199), (26, 23336976250), (10, 23337022762), (30, 2121569022)],
      [(31, 23797951519), (28, 23797952476), (16, 212692176), (17, 212692177), (18, 212692178), (19, 212692179), (20, 212692180), (21, 212692181)],
      [(22, 212692182), (23, 212692183), (24, 212692184), (25, 212692185), (11, 2339613995), (12, 2339613996), (13, 2339613997), (14, 2339613998)],
      [(15, 2339613999), (16, 2339614000), (17, 2339614001), (18, 2339614002), (19, 2339614003), (20, 2339614004), (22, 2339614006), (23, 2339614007)],
      [(24, 2339614008), (25, 2339614009), (26, 2339614010), (27, 2339614011), (28, 2339614012), (29, 2339614013), (30, 2339614014), (31, 2339614015)],
      [(1, 2339614017), (2, 2339614018), (14, 2339622190), (15, 2339622191), (16, 2339622192), (17, 2339622193), (18, 2339622194), (19, 2339622195)],
      [(20, 2339622196), (21, 2339622197), (11, 230935211), (8, 230935816), (24, 1650456), (9, 1650441), (22, 1650454), (13, 1650445)],
      [(10, 199951306), (0, 199847488), (27, 199951291), (17, 199847473), (8, 199951304), (30, 199847486), (31, 199951295), (21, 199847477)],
      [(9, 2209398185), (11, 267337266795), (26, 2209398170), (28, 267337266780), (7, 2209398183), (9, 267337266793), (30, 2209398174), (0, 267337266784)],
      [(30, 2906821507646), (1, 2201394625), (9, 2201509353), (14, 2201394638), (14, 2201510926), (0, 18177120), (3, 18157155), (17, 18177105)],
      [(20, 18157140), (30, 18177118), (1, 18157153), (21, 18177109), (24, 18157144), (9, 13289), (1, 13377), (30, 146654)],
      [(22, 14454), (8, 14376), (7, 159111), (13, 158253), (14, 20173966), (20, 20173972), (17, 21301329), (28, 1789468)],
      [(26, 146298), (2, 147266), (1, 1613313), (31, 1600127), (29, 16029), (12, 1875436), (21, 162005), (15, 1782159)],
      [(30, 1782174), (11, 143627), (11, 14795), (29, 174365), (19, 15123), (28, 166524), (25, 15129), (29, 165309)],
      [(8, 166472), (11, 1831883), (10, 166538), (21, 20121685), (8, 20123016)]]"

definition name_keys_7 :: "(int \<times> int) list list" where
  "name_keys_7 =
     [[(27, 20124347), (11, 26781969707), (20, 26783741268), (29, 26785512829), (0, 21301344), (7, 17226119), (2, 222850978), (15, 1607791)],
      [(13, 17685805), (23, 17685815), (22, 1581014), (7, 143719), (13, 1601485), (12, 145580), (6, 1589286), (23, 144471)],
      [(30, 1585150), (31, 144095), (28, 21115388), (0, 21115392), (8, 2088530824), (13, 22973839213), (8, 189870664), (5, 2088577413)],
      [(25, 189870713), (17, 22974360305), (25, 2088578201), (1, 2088530945), (0, 22973840544), (19, 189870675), (30, 2088577534), (18, 295445634994)],
      [(19, 295445634995), (0, 295445636512), (1, 295445636513), (7, 3249952716103), (11, 3249952716107), (18, 3249952716114), (22, 3249952716118), (11, 3249952732811)],
      [(22, 3249952732822), (29, 295450246909), (30, 295450246910), (11, 295450248427), (12, 295450248428), (9, 1836297), (26, 1836378), (21, 1836245)],
      [(22, 1836246), (6, 20837606), (11, 229213771), (6, 2521335526), (15, 1885199), (20, 1894516), (22, 20726230), (13, 20828717)],
      [(5, 20727077), (24, 227988824), (26, 227991002), (5, 227995237), (28, 20829564), (21, 229116181), (23, 229118359), (2, 229122594)],
      [(20, 228263252), (29, 2510886749), (31, 2510888927), (10, 2510893162), (17, 229390609), (28, 2523287676), (30, 2523289854), (9, 2523294089)],
      [(17, 27616557713), (28, 303782125820), (30, 303782127998), (9, 303782132233), (6, 27752967910), (3, 305282637987), (5, 305282640165), (16, 305282644400)],
      [(7, 27627187079), (14, 303899048846), (16, 303899051024), (27, 303899055259), (28, 27763597276), (21, 305399561013), (23, 305399563191), (2, 305399567426)],
      [(5, 2508049541), (0, 27586720928), (18, 27586984466), (5, 27587496901), (26, 303826001146), (1, 305326513313), (11, 303826015787), (18, 305326527954)],
      [(28, 303826030428), (3, 305326542595), (13, 303826045069), (20, 305326557236), (30, 303826059710), (5, 305326571877), (15, 303826074351), (22, 305326586518)],
      [(0, 303826088992), (7, 305326601159), (31, 3342086003583), (12, 3358591637420), (26, 3342086164634), (7, 3358591798471), (21, 3342086325685), (2, 3358591959522)],
      [(16, 3342086486736), (29, 3358592120573)]]"

definition name_keys_8 :: "(int \<times> int) list list" where
  "name_keys_8 =
     [[(11, 3342086647787), (24, 3358592281624), (6, 3342086808838), (19, 3358592442675), (1, 3342086969889), (14, 3358592603726), (1, 3342086005761), (14, 3358591639598)],
      [(28, 3342086166812), (9, 3358591800649), (23, 3342086327863), (4, 3358591961700), (18, 3342086488914), (31, 3358592122751), (13, 3342086649965), (26, 3358592283802)],
      [(8, 3342086811016), (21, 3358592444853), (3, 3342086972067), (16, 3358592605904), (12, 3342086009996), (25, 3358591643833), (7, 3342086171047), (20, 3358591804884)],
      [(2, 3342086332098), (15, 3358591965935), (29, 3342086493149), (10, 3358592126986), (24, 3342086654200), (5, 3358592288037), (19, 3342086815251), (0, 3358592449088)],
      [(14, 3342086976302), (27, 3358592610139), (25, 3342363139321), (6, 3358868773158), (10, 3342363153962), (23, 3358868787799), (27, 3342363168603), (8, 3358868802440)],
      [(12, 3342363183244), (25, 3358868817081), (29, 3342363197885), (10, 3358868831722), (14, 3342363212526), (27, 3358868846363), (31, 3342363227167), (12, 3358868861004)],
      [(20, 36765994523508), (3, 36947556495715), (15, 36765994684559), (30, 36947556656766), (10, 36765994845610), (25, 36947556817817), (5, 36765995006661), (20, 36947556978868)],
      [(0, 36765995167712), (15, 36947557139919), (27, 36765995328763), (10, 36947557300970), (22, 36765995489814), (5, 36947557462021), (22, 36765994525686), (5, 36947556497893)],
      [(17, 36765994686737), (0, 36947556658944), (12, 36765994847788), (27, 36947556819995), (7, 36765995008839), (22, 36947556981046), (2, 36765995169890), (17, 36947557142097)],
      [(29, 36765995330941), (12, 36947557303148), (24, 36765995491992), (7, 36947557464199), (1, 36765994529921), (16, 36947556502128), (28, 36765994690972), (11, 36947556663179)],
      [(23, 36765994852023), (6, 36947556824230), (18, 36765995013074), (1, 36947556985281), (13, 36765995174125), (28, 36947557146332), (8, 36765995335176), (23, 36947557307383)],
      [(3, 36765995496227), (18, 36947557468434), (8, 404337028357512), (13, 406334210051789), (3, 404337028518563), (8, 406334210212840), (30, 404337028679614), (3, 406334210373891)],
      [(25, 404337028840665), (30, 406334210534942), (20, 404337029001716), (25, 406334210695993), (15, 404337029162767), (20, 406334210857044), (10, 404337029323818), (15, 406334211018095)],
      [(25, 4447707311923609), (16, 4469676310560656), (2, 4447707313695170), (25, 4469676312332217), (11, 4447707315466731), (2, 4469676314103778), (20, 4447707317238292), (11, 4469676315875339)],
      [(29, 4447707319009853), (20, 4469676317646900), (6, 4447707320781414), (29, 4469676319418461), (15, 4447707322552975), (6, 4469676321190022), (27, 4447707311925787), (18, 4469676310562834)],
      [(4, 4447707313697348), (27, 4469676312334395), (13, 4447707315468909), (4, 4469676314105956), (22, 4447707317240470), (13, 4469676315877517), (31, 4447707319012031), (22, 4469676317649078)],
      [(8, 4447707320783592), (31, 4469676319420639), (17, 4447707322555153), (8, 4469676321192200), (6, 4447707311930022), (29, 4469676310567069), (15, 4447707313701583), (6, 4469676312338630)],
      [(24, 4447707315473144), (15, 4469676314110191), (1, 4447707317244705), (24, 4469676315881752)]]"

definition name_keys_9 :: "(int \<times> int) list list" where
  "name_keys_9 =
     [[(10, 4447707319016266), (1, 4469676317653313), (19, 4447707320787827), (10, 4469676319424874), (28, 4447707322559388), (19, 4469676321196435), (30, 404492652905118), (3, 406489834599395)],
      [(25, 404492653066169), (30, 406489834760446), (20, 404492653227220), (25, 406489834921497), (15, 404492653388271), (20, 406489835082548), (10, 404492653549322), (15, 406489835243599)],
      [(5, 404492653710373), (10, 406489835404650), (0, 404492653871424), (5, 406489835565701), (11, 4449419181947275), (2, 4471388180584322), (20, 4449419183718836), (11, 4471388182355883)],
      [(29, 4449419185490397), (20, 4471388184127444), (6, 4449419187261958), (29, 4471388185899005), (15, 4449419189033519), (6, 4471388187670566), (24, 4449419190805080), (15, 4471388189442127)],
      [(1, 4449419192576641), (24, 4471388191213688), (13, 4449419181949453), (4, 4471388180586500), (22, 4449419183721014), (13, 4471388182358061), (31, 4449419185492575), (22, 4471388184129622)],
      [(8, 4449419187264136), (31, 4471388185901183), (17, 4449419189035697), (8, 4471388187672744), (26, 4449419190807258), (17, 4471388189444305), (3, 4449419192578819), (26, 4471388191215866)],
      [(24, 4449419181953688), (15, 4471388180590735), (1, 4449419183725249), (24, 4471388182362296), (10, 4449419185496810), (1, 4471388184133857), (19, 4449419187268371), (10, 4471388185905418)],
      [(28, 4449419189039932), (19, 4471388187676979), (5, 4449419190811493), (28, 4471388189448540), (14, 4449419192583054), (5, 4471388191220101), (18, 36762946211890), (27, 36762947983451)],
      [(4, 36762949755012), (13, 36762951526573), (22, 36762953298134), (31, 36762955069695), (8, 36762956841256), (15, 404392406506767), (18, 404392425993938), (21, 404392445481109)],
      [(24, 404392464968280), (27, 404392484455451), (30, 404392503942622), (1, 404392523429793), (1, 404392406770305), (4, 404392426257476), (7, 404392445744647), (10, 404392465231818)],
      [(13, 404392484718989), (16, 404392504206160), (19, 404392523693331), (20, 404392407282740), (23, 404392426769911), (26, 404392446257082), (29, 404392465744253), (0, 404392485231424)],
      [(3, 404392504718595), (6, 404392524205766), (19, 20664883), (18, 2500517170), (7, 27505679847), (9, 27505682025), (20, 27505686260), (6, 20666214)],
      [(13, 2500678221), (16, 27507451408), (18, 27507453586), (29, 27507457821), (12, 20668876), (3, 2501000323), (2, 27510994530), (4, 27510996708)],
      [(15, 27511000943), (24, 20674200), (15, 2501644527), (6, 27518080774), (8, 27518082952), (19, 27518087187), (10, 20767370), (29, 20768701)],
      [(3, 20771363), (15, 20776687), (30, 20762046), (23, 226270327), (25, 226270329), (10, 226270314), (24, 229415480), (26, 229415482)],
      [(24, 2521815416), (9, 2521815401), (0, 3364947636256), (21, 37014538855093), (9, 27802894633), (11, 27802894635), (20, 27837491316), (22, 27837491318)],
      [(2, 2527528066), (4, 2527528068), (3, 2530673219), (5, 2530673221), (20, 27802894644)]]"

definition name_keys_10 :: "(int \<times> int) list list" where
  "name_keys_10 =
     [[(22, 27802894646), (31, 27837491327), (1, 27837491329), (13, 2527528077), (15, 2527528079), (14, 2530673230), (16, 2530673232), (17, 27871811633)],
      [(28, 27735401436), (19, 27871811635), (30, 27735401438), (23, 27871811639), (2, 27735401442), (25, 2488959065), (15, 2488959087), (10, 2488958922)],
      [(20, 27607922484), (10, 27607922506), (5, 27607922341), (21, 2509811125), (23, 2509811127), (8, 2509811112), (5, 2520525061), (27, 2520525083)],
      [(0, 27639488480), (22, 27639488502), (25, 2512680761), (27, 2512680763), (1, 20776929), (1, 226416737), (3, 226416739), (20, 226416724)],
      [(13, 20787885), (15, 20787887), (0, 20787872), (9, 230154185), (11, 230154187), (28, 230154172), (29, 229297021), (31, 229297023)],
      [(16, 229297008), (3, 229384867), (5, 229384869), (22, 229384854), (18, 229370226), (20, 229370228), (5, 229370213), (30, 3343726107038)],
      [(8, 2514698568), (10, 2514698570), (27, 2514698555), (23, 2514683927), (25, 2514683929), (10, 2514683914), (22, 2512743318), (24, 2512743320)],
      [(9, 2512743305), (11, 2512859115), (13, 2512859117), (30, 2512859102), (21, 27641433685), (23, 27641433687), (6, 2512849798), (8, 2512849800)],
      [(22, 27641214070), (24, 27641214072), (9, 27641214057), (9, 2512829833), (11, 2512829835), (28, 2512829820), (16, 27640628432), (1, 27640628417)],
      [(19, 2512776595), (4, 2512776580), (17, 2512776593), (14, 27640628430), (20, 2512756628), (15, 27640408815), (25, 2512849785), (8, 27641433672)],
      [(7, 2512756615), (2, 27640408802), (22, 2512756630), (17, 27640408817), (13, 2511269901), (15, 2511269903), (14, 228289454), (16, 228289456)],
      [(31, 2510127903), (1, 2510127905), (4, 228185636), (6, 228185638), (20, 228462484), (22, 228462486), (24, 2513155928), (26, 2513155930)],
      [(27, 27644801115), (29, 27644801117), (26, 304092868890), (28, 304092868892), (31, 2529720223), (1, 2529720225), (8, 27827008360), (10, 27827008362)],
      [(9, 306097148585), (11, 306097148587), (4, 2509796484), (6, 2509796486), (6, 27651116710), (8, 27651116712), (8, 2509812456), (10, 2509812458)],
      [(7, 27651408199), (9, 27651408201), (18, 306060033650), (20, 306060033652), (29, 27823631613), (31, 27823631615), (23, 3366660426775), (25, 3366660426777)],
      [(21, 3366660453397), (4, 2495442980), (6, 2495442982), (19, 226850643), (21, 226850645), (29, 2519468861), (31, 2519468863), (30, 229034814)],
      [(0, 229034816), (17, 303791251697)]]"

definition name_keys_11 :: "(int \<times> int) list list" where
  "name_keys_11 =
     [[(7, 303791251719), (2, 303791251554), (27, 228402523), (29, 228402525), (14, 228402510), (29, 27724945949), (31, 27724945951), (16, 27724945936)],
      [(30, 2520441822), (0, 2520441824), (17, 2520441809), (8, 27759542632), (10, 27759542634), (31, 2523586975), (1, 2523586977), (7, 27374176871)],
      [(9, 27374176873), (28, 2488553724), (30, 2488553726), (18, 27408773554), (20, 27408773556), (29, 2491698877), (31, 2491698879), (27, 2522633979)],
      [(29, 2522633981), (10, 2523556362), (12, 2523556364), (29, 2523556349), (25, 2523541721), (27, 2523541723), (12, 2523541708), (24, 303956575832)],
      [(26, 303956575834), (11, 303956575819), (25, 27632408185), (27, 27632408187), (12, 27632408172), (9, 2497411529), (25, 2497411513), (10, 2500556682)],
      [(26, 2500556666), (12, 27504368620), (8, 27510081288), (24, 27510081272), (9, 27513226441), (25, 27513226425), (19, 27510081299), (3, 27510081283)],
      [(20, 27513226452), (4, 27513226436), (6, 2499603686), (22, 2499603670), (5, 2497991845), (21, 2497991829), (7, 27501803783), (5, 27512273445)],
      [(21, 27512273429), (14, 27492365678), (30, 27492365662), (8, 302456348488), (24, 302456348472), (15, 27495510831), (31, 27495510815), (9, 302459493641)],
      [(25, 302459493625), (10, 27492349706), (26, 27492349690), (4, 302456332516), (20, 302456332500), (14, 27495219342), (30, 27495219326), (8, 302459202152)],
      [(24, 302459202136), (31, 302631717055), (15, 302631717039), (11, 3328989373355), (27, 3328989373339), (3, 302634586691), (19, 302634586675), (15, 3328992242991)],
      [(31, 3328992242975), (20, 2500527092), (1, 302547729921), (20, 3328025090772), (27, 2500163003), (18, 27501854674), (12, 27476405228), (0, 2499430656)],
      [(16, 2499430640), (22, 2499326838), (6, 2499326822), (20, 227229428), (10, 227036554), (2, 27504115746), (18, 27504115730), (4, 302545349796)],
      [(20, 302545349780), (2, 302545363106), (18, 302545363090), (23, 2510649655), (7, 2510649639), (12, 2510765452), (28, 2510765436), (7, 2510756135)],
      [(23, 2510756119), (10, 2510736170), (26, 2510736154), (2, 2510682914), (5, 2510662949), (18, 2510682930), (21, 2510662965), (23, 3326680191383)],
      [(29, 2499543709), (6, 36573488727718), (3, 3324862523331), (28, 535472435494269116), (5, 48679312317572549), (30, 36573484889598), (19, 3324862261971), (21, 402783986669237)],
      [(16, 36616725972560), (27, 5897160335856048795), (2, 536105485077734338), (13, 402783982831117), (0, 36616725711200), (30, 36616725709022), (21, 402550549847829)]]"

definition name_keys_12 :: "(int \<times> int) list list" where
  "name_keys_12 =
     [[(14, 36595504443342), (11, 5893742587353799627), (16, 535794780668438960), (13, 402550546009709), (30, 36595504181982), (28, 36595504179804), (9, 535794780531765225), (23, 304840486263)],
      [(23, 3353231745495), (18, 304839241778), (5, 3353232887493), (28, 304839345596), (15, 304837472879), (29, 27712702077), (23, 304841210327), (9, 37045959991529)],
      [(8, 3367814536872), (22, 36605016471446), (12, 36605027100812), (13, 3327729426125), (8, 3327728181640), (18, 3327728285458), (5, 402815514412965), (27, 402815525042331)],
      [(26, 36619592875354), (19, 20759859), (0, 228212544), (5, 228206373), (2, 228431554), (11, 228371659), (6, 2509958758), (10, 27630693738)],
      [(8, 27609624008), (19, 3340765459635), (14, 2513696206), (20, 228382516), (0, 2512085696), (2, 2512285346), (29, 303987481533), (30, 27650536286)],
      [(27, 226789947), (23, 228868727), (1, 2498932545), (11, 228425867), (16, 228435184), (2, 228443170), (20, 227746452), (21, 1880117)],
      [(10, 228402762), (18, 228402162), (26, 2499541786), (18, 2499543346), (6, 3357172290790), (23, 3357172290775), (19, 406217817958611), (4, 406217817958596)],
      [(11, 36928884399659), (16, 4468394983131760), (31, 402698446122943), (20, 48726511951651284), (19, 3353615247859), (21, 3353615247861), (6, 3353615247846), (6, 49100280938314438)],
      [(1, 36522082110337), (16, 228406032), (3, 228407363), (9, 228410025), (21, 228415349), (1, 535794899283042177), (19, 536105603692337555), (22, 4430831058015222)],
      [(6, 4430831058015238), (25, 2490660697), (27, 2490660699), (3, 226645603), (25, 2493102169), (11, 229047211), (3, 20612611), (27, 20623259)],
      [(4, 226789956), (21, 229179893), (23, 229179895), (7, 229187879), (9, 229187881), (26, 229187866), (8, 2530554760), (10, 2530554762)],
      [(27, 2530554747), (25, 27434324761), (27, 27434324763), (15, 301777640975), (17, 301777640977), (26, 2500535386), (15, 2501375247), (3, 27383658915)],
      [(0, 27383658912), (8, 27383668232), (5, 27383668229), (20, 27383673556), (17, 27383673553), (25, 27383682873), (22, 27383682870), (24, 301221370808)],
      [(11, 301221372139), (6, 2489446822), (29, 305097253469), (9, 305097258793), (24, 305097414520), (10, 2521680970), (28, 2521690300), (25, 2521690297)],
      [(1, 2521655681), (7, 27738423655), (20, 1524948), (22, 1525014)]]"

definition name_keys_13 :: "(int \<times> int) list list" where
  "name_keys_13 =
     [[(3, 138627), (10, 138698), (16, 138704), (20, 1525332), (21, 1525269), (21, 2030895701), (27, 2030895707), (24, 2032023064)],
      [(7, 2032023079), (18, 2032023058), (10, 2030895722), (10, 184550602), (12, 184550604), (14, 184550606), (16, 184550608), (18, 184550610)],
      [(31, 2030056671), (1, 2030056673), (3, 2030056675), (30, 193777182), (29, 17616029), (20, 23446949620), (22, 257916445942), (12, 147052)],
      [(4, 1617732), (17, 147057), (24, 1617688), (13, 147053), (8, 1617512), (29, 147037), (18, 17794706), (27, 1617691)],
      [(6, 17794662), (23, 1617687), (22, 17794486), (7, 1617671), (28, 170748), (22, 168086), (5, 153445), (4, 160100)],
      [(25, 148121), (27, 26837196891), (10, 295209165898), (10, 15626), (17, 296041579953), (29, 4322157389816957), (15, 47543731130429967), (14, 2971145710190)],
      [(17, 2971145690225), (1, 2961989155585), (4, 2961989135620), (14, 1681294), (15, 18494351), (20, 1681300), (17, 18494417), (21, 203530037)],
      [(3, 1681315), (22, 18494582), (26, 203530202), (16, 1681296), (19, 1690611), (25, 1690617), (8, 1690632), (21, 1690613)],
      [(4, 17747268), (28, 17747484), (0, 2147448512), (22, 195222582), (26, 23621933786), (24, 259841255960), (30, 23621932350), (2, 2858253815714)],
      [(22, 2147448534), (24, 195222584), (12, 23621934028), (14, 259841255982), (0, 23621932352), (20, 2858253815956), (3, 2147420803), (3, 259837903171)],
      [(27, 23621628987), (27, 2858216935035), (25, 2147420825), (25, 259837903193), (13, 23621629229), (13, 2858216935277), (19, 17745843), (5, 2147336229)],
      [(12, 2147336236), (3, 2147336163), (10, 2147336170), (21, 17748117), (27, 195229403), (28, 195229404), (30, 2147523550), (7, 17747367)],
      [(2, 195221154), (25, 17747289), (8, 195220296), (19, 195208147), (6, 2147289734), (3, 2147289731), (20, 23620187188), (12, 195204460)],
      [(31, 2147249247), (7, 23619741831), (30, 2147249214), (15, 23619741871), (22, 2147249174), (28, 23619741468), (23, 259817160695), (21, 195230453)],
      [(2, 2147535170), (1, 2147535137), (16, 23622887024), (25, 2147535097), (8, 23622886984), (29, 23622886621), (2, 259851757378), (9, 17746441)]]"

definition name_keys_14 :: "(int \<times> int) list list" where
  "name_keys_14 =
     [[(14, 23619933358), (3, 23620049155), (25, 1613369), (8, 17747176), (31, 1613375), (10, 17747242), (14, 1613390), (6, 1613446)],
      [(12, 1613452), (27, 1613467), (28, 2453729276), (20, 223092084), (19, 2454013043), (7, 20279463), (2, 223074210), (22, 20279318)],
      [(23, 20279319), (29, 20280829), (22, 223089238), (19, 26994322323), (7, 20281223), (28, 4347005599372764), (5, 47817061593109829), (14, 4347005599380750)],
      [(10, 395182327215850), (5, 4347005599373765), (0, 395182327216576), (12, 395182327215916), (7, 4347005599373831), (2, 395182327216642), (1, 395182327215905), (28, 4347005599373820)],
      [(23, 395182327216631), (15, 47817061593119087), (1, 47817061593127073), (11, 4347135286503755), (12, 47818488151541420), (23, 395194116955031), (25, 395194116955097), (10, 47818077355799562)],
      [(31, 525998850913804607), (28, 47818077355807548), (15, 2453929039), (12, 2453929996), (2, 223074050), (21, 223074069), (31, 2453815167), (18, 2453815186)],
      [(17, 223074897), (4, 223074916), (4, 2453824484), (23, 2453824503), (10, 3266028944650), (22, 3266028957750), (10, 223078506), (13, 2453864429)],
      [(6, 223080966), (7, 223080967), (1, 223083265), (2, 223083266), (16, 2453917552), (17, 2453917553), (10, 223081450), (11, 223081451)],
      [(19, 2453897587), (20, 2453897588), (20, 223080724), (21, 223080725), (1, 2453889601), (2, 2453889602), (11, 223090283), (12, 223090284)],
      [(6, 223092582), (7, 223092583), (15, 223090767), (16, 223090768), (25, 223090041), (26, 223090042), (4, 20280228), (23, 20280247)],
      [(18, 223082834), (8, 20280232), (13, 223082669), (2, 20280226), (11, 223082603), (19, 20281075), (6, 20281094), (23, 20281079)],
      [(17, 20281073), (21, 223083125), (8, 223083144), (13, 2453914701), (25, 223083129), (8, 2453914536), (19, 223083123), (6, 2453914470)],
      [(26, 223092442), (13, 223092461), (30, 223092446), (24, 223092440), (10, 20280074), (27, 20280283), (8, 223083400), (25, 20280921)],
      [(10, 20281130), (3, 223084387)]]"

definition name_keys_15 :: "(int \<times> int) list list" where
  "name_keys_15 =
     [[(9, 2453928361), (24, 2453928376), (21, 223084405), (15, 2453928559), (30, 2453928574), (15, 4347402797548079), (17, 223092881), (12, 26994239212)],
      [(23, 296936631447), (22, 26994239222), (16, 26994625392), (25, 296940879417), (26, 2454046394), (16, 2454047120), (7, 2454048935), (11, 26994518251)],
      [(29, 26994526237), (26, 26994546202), (5, 2454046757), (31, 2454055711), (21, 2454056437), (12, 2454058252), (10, 2454056074), (19, 26994538579)],
      [(9, 26994539305), (0, 26994541120), (30, 296939932286), (16, 296939940272), (13, 296939960237), (30, 26994538942), (10, 26994641066), (0, 26994641792)],
      [(23, 26994643607), (21, 26994641429), (18, 26994545234), (8, 26994545960), (31, 26994547775), (19, 296940005491), (5, 296940013477), (2, 296940033442)],
      [(29, 26994545597), (9, 26994647721), (31, 26994648447), (22, 26994650262), (20, 26994648084), (4, 296941115908), (26, 296941116634), (17, 296941118449)],
      [(15, 296941116271), (18, 296939686898), (24, 296939774744), (23, 296939994359), (27, 3266336781595), (29, 3266337747901), (18, 3266340163666), (5, 296939730821)],
      [(25, 35929732088313), (15, 35929732089039), (6, 35929732090854), (0, 395227052979360), (18, 395227052987346), (15, 395227053007311), (4, 35929732088676), (14, 35929868498510)],
      [(4, 35929868499236), (27, 35929868501051), (25, 35929868498873), (12, 35929732089644), (2, 35929732090370), (25, 35929732092185), (17, 395227052994001), (3, 395227053001987)],
      [(0, 395227053021952), (23, 35929732090007), (1, 35929868499841), (23, 35929868500567), (14, 35929868502382), (12, 35929868500204), (31, 35929732090975), (21, 35929732091701)],
      [(12, 35929732093516), (2, 395227053008642), (20, 395227053016628), (17, 395227053036593), (10, 35929732091338), (20, 35929868501172), (10, 35929868501898), (1, 35929868503713)],
      [(31, 35929868501535), (18, 35929732092306), (8, 35929732093032), (31, 35929732094847), (19, 395227053023283), (5, 395227053031269), (2, 395227053051234), (29, 35929732092669)],
      [(7, 35929868502503), (29, 35929868503229), (20, 35929868505044), (18, 35929868502866), (5, 35929732093637), (27, 35929732094363), (18, 35929732096178), (4, 395227053037924)],
      [(22, 395227053045910), (19, 395227053065875), (16, 35929732094000), (26, 35929868503834), (16, 35929868504560), (7, 35929868506375), (5, 35929868504197), (24, 35929732094968)],
      [(14, 35929732095694), (5, 35929732097509), (21, 395227053052565), (7, 395227053060551), (4, 395227053080516), (3, 35929732095331), (13, 35929868505165), (3, 35929868505891)],
      [(26, 35929868507706), (24, 35929868505528), (11, 35929732096299), (1, 35929732097025), (24, 35929732098840), (6, 395227053067206), (24, 395227053075192), (21, 395227053095157)],
      [(22, 35929732096662), (0, 35929868506496), (22, 35929868507222), (13, 35929868509037), (11, 35929868506859), (2, 395227078168898), (24, 395227078169624), (15, 395227078171439)],
      [(3, 4347497859865795), (21, 4347497859873781), (18, 4347497859893746), (13, 395227078169261), (9, 395228578681065), (31, 395228578681791), (22, 395228578683606), (20, 395228578681428)],
      [(21, 395227078170229), (11, 395227078170955)]]"

definition name_keys_16 :: "(int \<times> int) list list" where
  "name_keys_16 =
     [[(2, 395227078172770), (20, 4347497859880436), (6, 4347497859888422), (3, 4347497859908387), (0, 395227078170592), (28, 395228578682396), (18, 395228578683122), (9, 395228578684937)],
      [(7, 395228578682759), (8, 395227078171560), (30, 395227078172286), (21, 395227078174101), (5, 4347497859895077), (23, 4347497859903063), (20, 4347497859923028), (19, 395227078171923)],
      [(15, 395228578683727), (5, 395228578684453), (28, 395228578686268), (26, 395228578684090), (27, 395227078172891), (17, 395227078173617), (8, 395227078175432), (22, 4347497859909718)],
      [(8, 4347497859917704), (5, 4347497859937669), (6, 395227078173254), (2, 395228578685058), (24, 395228578685784), (15, 395228578687599), (13, 395228578685421), (14, 395227078174222)],
      [(4, 395227078174948), (27, 395227078176763), (7, 4347497859924359), (25, 4347497859932345), (22, 4347497859952310), (25, 395227078174585), (21, 395228578686389), (11, 395228578687115)],
      [(2, 395228578688930), (0, 395228578686752), (1, 395227078175553), (23, 395227078176279), (14, 395227078178094), (24, 4347497859939000), (10, 4347497859946986), (7, 4347497859966951)],
      [(12, 395227078175916), (8, 395228578687720), (30, 395228578688446), (21, 395228578690261), (19, 395228578688083), (20, 395227078176884), (10, 395227078177610), (1, 395227078179425)],
      [(9, 4347497859953641), (27, 4347497859961627), (24, 4347497859981592), (31, 395227078177247), (27, 395228578689051), (17, 395228578689777), (8, 395228578691592), (6, 395228578689414)],
      [(17, 395227175604753), (7, 395227175605479), (30, 395227175607294), (8, 4347498931660200), (26, 4347498931668186), (23, 4347498931688151), (28, 395227175605116), (24, 395228676116920)],
      [(14, 395228676117646), (5, 395228676119461), (3, 395228676117283), (4, 395227175606084), (26, 395227175606810), (17, 395227175608625), (25, 4347498931674841), (11, 4347498931682827)],
      [(8, 4347498931702792), (15, 395227175606447), (11, 395228676118251), (1, 395228676118977), (24, 395228676120792), (22, 395228676118614), (23, 395227175607415), (13, 395227175608141)],
      [(4, 395227175609956), (10, 4347498931689482), (28, 4347498931697468), (25, 4347498931717433), (2, 395227175607778), (30, 395228676119582), (20, 395228676120308), (11, 395228676122123)],
      [(9, 395228676119945), (10, 395227175608746), (0, 395227175609472), (23, 395227175611287), (27, 4347498931704123), (13, 4347498931712109), (10, 4347498931732074), (21, 395227175609109)],
      [(17, 395228676120913), (7, 395228676121639), (30, 395228676123454), (28, 395228676121276), (29, 395227175610077), (19, 395227175610803), (10, 395227175612618), (12, 4347498931718764)],
      [(30, 4347498931726750), (27, 4347498931746715), (8, 395227175610440), (4, 395228676122244), (26, 395228676122970), (17, 395228676124785), (15, 395228676122607), (16, 395227175611408)],
      [(6, 395227175612134), (29, 395227175613949), (29, 4347498931733405), (15, 4347498931741391), (12, 4347498931761356), (27, 395227175611771), (23, 395228676123575), (13, 395228676124301)],
      [(4, 395228676126116), (2, 395228676123938), (3, 395227175612739), (25, 395227175613465), (16, 395227175615280), (14, 4347498931748046), (0, 4347498931756032), (29, 4347498931775997)],
      [(14, 395227175613102), (10, 395228676124906), (0, 395228676125632), (23, 395228676127447), (21, 395228676125269), (25, 4347497582759097), (31, 4347497582846943), (30, 4347497583066558)],
      [(8, 47822473410575784), (10, 47822473411542090), (31, 47822473413957855), (12, 4347497582803020), (20, 4347497582920148), (26, 4347497583007994)]]"

definition name_keys_17 :: "(int \<times> int) list list" where
  "name_keys_17 =
     [[(25, 4347497583227609), (17, 47822473412347345), (19, 47822473413313651), (8, 47822473415729416), (7, 4347497582964071), (15, 4347497583081199), (21, 4347497583169045), (20, 4347497583388660)],
      [(26, 47822473414118906), (28, 47822473415085212), (17, 47822473417500977), (2, 4347497583125122), (10, 4347497583242250), (16, 4347497583330096), (15, 4347497583549711), (3, 47822473415890467)],
      [(5, 47822473416856773), (26, 47822473419272538), (29, 4347497583286173), (5, 4347497583403301), (11, 4347497583491147), (10, 4347497583710762), (12, 47822473417662028), (14, 47822473418628334)],
      [(3, 47822473421044099), (24, 4347497583447224), (0, 4347497583564352), (6, 4347497583652198), (5, 4347497583871813), (21, 47822473419433589), (23, 47822473420399895), (12, 47822473422815660)],
      [(19, 4347497583608275), (27, 4347497583725403), (1, 4347497583813249), (0, 4347497584032864), (30, 47822473421205150), (0, 47822473422171456), (21, 47822473424587221), (14, 4347497583769326)],
      [(5, 395224595592901), (10, 395224595590602), (1, 4347470586424897), (6, 4347470586422598), (23, 395224599476759), (28, 395224599474460), (15, 395224595739311), (20, 395224595737012)],
      [(5, 35929508915429), (10, 35929508913130), (28, 395224597612028), (1, 395224597609729), (18, 395224597508210), (23, 395224597505911), (13, 4347470573737805), (18, 4347470573735506)],
      [(31, 4347470572595807), (4, 4347470572593508), (8, 26994549832), (5, 296937935973), (7, 296937935975), (24, 296937935960), (6, 296941081126), (8, 296941081128)],
      [(18, 3266350137522), (3, 3266350137507), (14, 4347520444359342), (15, 47822725002809039), (7, 35929914437799), (9, 35929914437801), (18, 35929949034482), (20, 35929949034484)],
      [(28, 3266355850172), (30, 3266355850174), (29, 3266358995325), (31, 3266358995327), (18, 35929914437810), (20, 35929914437812), (29, 35929949034493), (31, 35929949034495)],
      [(7, 3266355850183), (9, 3266355850185), (8, 3266358995336), (10, 3266358995338), (19, 3266317281171), (9, 3266317281193), (4, 3266317281028), (18, 35929719465650)],
      [(8, 35929719465672), (3, 35929719465507), (31, 3266348847167), (21, 3266348847189), (30, 35929751031646), (20, 35929751031668), (11, 26994564715), (15, 296938082383)],
      [(17, 296938082385), (2, 296938082370), (23, 26994575671), (25, 26994575673), (10, 26994575658), (23, 296941819831), (25, 296941819833), (10, 296941819818)],
      [(11, 296940962667), (13, 296940962669), (30, 296940962654), (17, 296941050513), (19, 296941050515), (4, 296941050500), (0, 296941035872), (2, 296941035874)],
      [(19, 296941035859), (11, 4347499222830123), (23, 3266343020663), (25, 3266343020665), (10, 3266343020650), (6, 3266343006022), (8, 3266343006024), (25, 3266343006009)],
      [(16, 3266341065424), (18, 3266341065426), (3, 3266341065411), (5, 3266341181221), (7, 3266341181223), (24, 3266341181208), (19, 35929752976851), (21, 35929752976853)],
      [(0, 3266341171904), (2, 3266341171906), (20, 35929752757236), (22, 35929752757238), (7, 35929752757223), (3, 3266341151939), (5, 3266341151941), (22, 3266341151926)],
      [(14, 35929752171598), (31, 35929752171583), (13, 3266341098701), (30, 3266341098686), (11, 3266341098699), (12, 35929752171596), (14, 3266341078734), (13, 35929751951981)],
      [(19, 3266341171891), (6, 35929752976838), (1, 3266341078721), (0, 35929751951968), (16, 3266341078736)]]"

definition name_keys_18 :: "(int \<times> int) list list" where
  "name_keys_18 =
     [[(15, 35929751951983), (7, 3266339592007), (9, 3266339592009), (28, 296939955100), (30, 296939955102), (25, 3266338450009), (27, 3266338450011), (18, 296939851282)],
      [(20, 296939851284), (2, 296940128130), (4, 296940128132), (18, 3266341478034), (20, 3266341478036), (25, 35929756344281), (27, 35929756344283), (4, 395227319843716)],
      [(6, 395227319843718), (25, 3266358042329), (27, 3266358042331), (6, 35929938551526), (8, 35929938551528), (19, 395229324123411), (21, 395229324123413), (30, 3266338118590)],
      [(0, 3266338118592), (4, 35929762659876), (6, 35929762659878), (2, 3266338134562), (4, 3266338134564), (5, 35929762951365), (7, 35929762951367), (28, 395229287008476)],
      [(30, 395229287008478), (27, 35929935174779), (29, 35929935174781), (5, 4347522157149861), (7, 4347522157149863), (3, 4347522157176483), (30, 3266323765086), (0, 3266323765088)],
      [(1, 296938516289), (3, 296938516291), (23, 3266347790967), (25, 3266347790969), (12, 296940700460), (14, 296940700462), (27, 395227018226523), (17, 395227018226545)],
      [(12, 395227018226380), (9, 296940068169), (11, 296940068171), (28, 296940068156), (27, 35929836489115), (29, 35929836489117), (14, 35929836489102), (24, 3266348763928)],
      [(26, 3266348763930), (11, 3266348763915), (6, 35929871085798), (8, 35929871085800), (25, 3266351909081), (27, 3266351909083), (22, 3266316875830), (24, 3266316875832)],
      [(9, 3266316875817), (23, 3266320020983), (25, 3266320020985), (21, 3266350956085), (23, 3266350956087), (13, 4347523673371821), (15, 4347523673371823), (14, 395229424844174)],
      [(16, 395229424844176), (0, 47822760407146656), (2, 47822760407146658), (30, 47822760407173278), (4, 3266351878468), (6, 3266351878470), (23, 3266351878455), (19, 3266351863827)],
      [(21, 3266351863829), (6, 3266351863814), (23, 395227183550647), (25, 395227183550649), (10, 395227183550634), (12, 35929743951340), (14, 35929743951342), (31, 35929743951327)],
      [(3, 3266325733635), (19, 3266325733619), (4, 3266328878788), (20, 3266328878772), (10, 35929615911786), (6, 35929621624454), (22, 35929621624438), (7, 35929624769607)],
      [(23, 35929624769591), (17, 35929621624465), (18, 35929624769618), (1, 35929621624449), (2, 35929624769602), (0, 3266327925792), (16, 3266327925776), (31, 3266326313951)],
      [(15, 3266326313935), (5, 35929613346949), (3, 35929623816611), (19, 35929623816595), (12, 35929603908844), (28, 35929603908828), (18, 395225683323314), (2, 395225683323298)],
      [(13, 35929607053997), (29, 35929607053981), (19, 395225686468467), (3, 395225686468451), (8, 35929603892872), (24, 35929603892856), (14, 395225683307342), (30, 395225683307326)],
      [(12, 35929606762508), (28, 35929606762492), (18, 395225686176978), (2, 395225686176962), (9, 395225858691881), (25, 395225858691865), (25, 4347484486096441), (9, 4347484486096425)],
      [(13, 395225861561517), (29, 395225861561501), (29, 4347484488966077), (13, 4347484488966061), (14, 3266328849198), (26, 3266327752762), (10, 3266327752746), (16, 3266327648944)],
      [(0, 3266327648928), (2, 296938895074), (24, 296938702200), (0, 35929615658912), (16, 35929615658896), (14, 395225772324622), (30, 395225772324606), (12, 395225772337932)],
      [(28, 395225772337916), (17, 3266338971761), (1, 3266338971745), (6, 3266339087558), (22, 3266339087542)]]"

definition name_keys_19 :: "(int \<times> int) list list" where
  "name_keys_19 =
     [[(1, 3266339078241), (17, 3266339078225), (4, 3266339058276), (20, 3266339058260), (28, 3266339005020), (31, 3266338985055), (12, 3266339005036), (15, 3266338985071)],
      [(10, 35929730377802), (26, 35929730377786), (10, 35929587948394), (5, 4347482176914469), (23, 3266327865815), (0, 47822283952681664), (17, 4347480359246417), (24, 47822283948843544)],
      [(1, 4347480358985057), (19, 526045599090162643), (10, 47822327189926506), (11, 526045599086324523), (26, 47822327189665146), (24, 47822327189662968), (18, 526045365653341234), (7, 47822305968397287)],
      [(10, 526045365649503114), (23, 47822305968135927), (21, 47822305968133749), (1, 395228067461089), (5, 4347508728468581), (28, 395228066216604), (19, 4347508729610579), (6, 395228066320422)],
      [(25, 395228064447705), (27, 35929824245243), (1, 395228068185153), (3, 47822756423945475), (22, 4347523311259958), (16, 47822315480425392), (27, 4347483226149211), (22, 4347483224904726)],
      [(0, 4347483225008544), (3, 526045630617906371), (20, 47822330056829300), (14, 296939878190), (29, 26994547645), (19, 296939872019), (16, 296940097200), (25, 296940037305)],
      [(0, 3266338280864), (8, 35929742236904), (1, 4347496262182721), (8, 3266342018312), (2, 296940048162), (26, 3266340407802), (7, 395227214456359), (28, 35929762079452)],
      [(2, 3266340732962), (26, 35929729439130), (25, 296940091513), (30, 296940100830), (16, 296940108816), (2, 296939412098), (19, 2454042643), (24, 296940068408)],
      [(23, 3266327836791), (0, 296940067808), (20, 3266327863892), (12, 3266327865452), (20, 4347512669013876), (5, 4347512669013861), (17, 526049032921452017), (2, 526049032921452002)],
      [(5, 47822639348353605), (26, 5786539361121559226), (1, 4347509111970945), (3, 4347509111970947), (20, 4347509111970932), (27, 47822232546064283), (23, 2514135767), (11, 27655493547)],
      [(26, 220999866), (10, 26740984170), (11, 220999851), (27, 26740984155), (30, 2430998622), (14, 294150825966), (20, 2430998644), (4, 294150825988)],
      [(15, 2430998479), (31, 294150825823), (14, 2430998446), (30, 294150825790), (0, 26740984960), (16, 3235659085744), (18, 26740985202), (2, 3235659085986)],
      [(27, 26740983387), (11, 3235659084171), (16, 26740983024), (0, 3235659083808), (1, 26740984961), (17, 3235659085745), (19, 26740985203), (3, 3235659085987)],
      [(28, 26740983388), (12, 3235659084172), (17, 26740983025), (1, 3235659083809), (10, 2430729226)]]"

section \<open>The keys of the parts\<close>

lemma name_keys_1_are: "map name_key (run_names riscv_opcodes_1) = concat name_keys_1"
  by code_simp
lemma name_keys_2_are: "map name_key (run_names riscv_opcodes_2) = concat name_keys_2"
  by code_simp
lemma name_keys_3_are: "map name_key (run_names riscv_opcodes_3) = concat name_keys_3"
  by code_simp
lemma name_keys_4_are: "map name_key (run_names riscv_opcodes_4) = concat name_keys_4"
  by code_simp
lemma name_keys_5_are: "map name_key (run_names riscv_opcodes_5) = concat name_keys_5"
  by code_simp
lemma name_keys_6_are: "map name_key (run_names riscv_opcodes_6) = concat name_keys_6"
  by code_simp
lemma name_keys_7_are: "map name_key (run_names riscv_opcodes_7) = concat name_keys_7"
  by code_simp
lemma name_keys_8_are: "map name_key (run_names riscv_opcodes_8) = concat name_keys_8"
  by code_simp
lemma name_keys_9_are: "map name_key (run_names riscv_opcodes_9) = concat name_keys_9"
  by code_simp
lemma name_keys_10_are: "map name_key (run_names riscv_opcodes_10) = concat name_keys_10"
  by code_simp
lemma name_keys_11_are: "map name_key (run_names riscv_opcodes_11) = concat name_keys_11"
  by code_simp
lemma name_keys_12_are: "map name_key (run_names riscv_opcodes_12) = concat name_keys_12"
  by code_simp
lemma name_keys_13_are: "map name_key (run_names riscv_opcodes_13) = concat name_keys_13"
  by code_simp
lemma name_keys_14_are: "map name_key (run_names riscv_opcodes_14) = concat name_keys_14"
  by code_simp
lemma name_keys_15_are: "map name_key (run_names riscv_opcodes_15) = concat name_keys_15"
  by code_simp
lemma name_keys_16_are: "map name_key (run_names riscv_opcodes_16) = concat name_keys_16"
  by code_simp
lemma name_keys_17_are: "map name_key (run_names riscv_opcodes_17) = concat name_keys_17"
  by code_simp
lemma name_keys_18_are: "map name_key (run_names riscv_opcodes_18) = concat name_keys_18"
  by code_simp
lemma name_keys_19_are: "map name_key (run_names riscv_opcodes_19) = concat name_keys_19"
  by code_simp

lemmas name_keys_are =
  name_keys_1_are name_keys_2_are name_keys_3_are name_keys_4_are name_keys_5_are
  name_keys_6_are name_keys_7_are name_keys_8_are name_keys_9_are name_keys_10_are
  name_keys_11_are name_keys_12_are name_keys_13_are name_keys_14_are name_keys_15_are
  name_keys_16_are name_keys_17_are name_keys_18_are name_keys_19_are

section \<open>Buckets\<close>

definition bucket :: "int \<Rightarrow> (int \<times> int) list" where
  "bucket b = concat (map (\<lambda>rows. concat (map (filter (\<lambda>x. fst x = b)) rows)) [
     name_keys_1, name_keys_2, name_keys_3, name_keys_4, name_keys_5,
     name_keys_6, name_keys_7, name_keys_8, name_keys_9, name_keys_10,
     name_keys_11, name_keys_12, name_keys_13, name_keys_14, name_keys_15,
     name_keys_16, name_keys_17, name_keys_18, name_keys_19])"

lemma bucket_0: "distinct (bucket 0)"
  by code_simp
lemma bucket_1: "distinct (bucket 1)"
  by code_simp
lemma bucket_2: "distinct (bucket 2)"
  by code_simp
lemma bucket_3: "distinct (bucket 3)"
  by code_simp
lemma bucket_4: "distinct (bucket 4)"
  by code_simp
lemma bucket_5: "distinct (bucket 5)"
  by code_simp
lemma bucket_6: "distinct (bucket 6)"
  by code_simp
lemma bucket_7: "distinct (bucket 7)"
  by code_simp
lemma bucket_8: "distinct (bucket 8)"
  by code_simp
lemma bucket_9: "distinct (bucket 9)"
  by code_simp
lemma bucket_10: "distinct (bucket 10)"
  by code_simp
lemma bucket_11: "distinct (bucket 11)"
  by code_simp
lemma bucket_12: "distinct (bucket 12)"
  by code_simp
lemma bucket_13: "distinct (bucket 13)"
  by code_simp
lemma bucket_14: "distinct (bucket 14)"
  by code_simp
lemma bucket_15: "distinct (bucket 15)"
  by code_simp
lemma bucket_16: "distinct (bucket 16)"
  by code_simp
lemma bucket_17: "distinct (bucket 17)"
  by code_simp
lemma bucket_18: "distinct (bucket 18)"
  by code_simp
lemma bucket_19: "distinct (bucket 19)"
  by code_simp
lemma bucket_20: "distinct (bucket 20)"
  by code_simp
lemma bucket_21: "distinct (bucket 21)"
  by code_simp
lemma bucket_22: "distinct (bucket 22)"
  by code_simp
lemma bucket_23: "distinct (bucket 23)"
  by code_simp
lemma bucket_24: "distinct (bucket 24)"
  by code_simp
lemma bucket_25: "distinct (bucket 25)"
  by code_simp
lemma bucket_26: "distinct (bucket 26)"
  by code_simp
lemma bucket_27: "distinct (bucket 27)"
  by code_simp
lemma bucket_28: "distinct (bucket 28)"
  by code_simp
lemma bucket_29: "distinct (bucket 29)"
  by code_simp
lemma bucket_30: "distinct (bucket 30)"
  by code_simp
lemma bucket_31: "distinct (bucket 31)"
  by code_simp

lemmas buckets =
  bucket_0 bucket_1 bucket_2 bucket_3 bucket_4 bucket_5 bucket_6 bucket_7
  bucket_8 bucket_9 bucket_10 bucket_11 bucket_12 bucket_13 bucket_14 bucket_15
  bucket_16 bucket_17 bucket_18 bucket_19 bucket_20 bucket_21 bucket_22 bucket_23
  bucket_24 bucket_25 bucket_26 bucket_27 bucket_28 bucket_29 bucket_30 bucket_31

lemma distinct_by_bucket:
  assumes "\<And>x. x \<in> set xs \<Longrightarrow> distinct (filter (\<lambda>y. fst y = fst x) xs)"
  shows "distinct xs"
  using assms
proof (induction xs)
  case Nil
  show ?case by simp
next
  case (Cons x xs)
  have "x \<notin> set xs" using Cons.prems [of x] by auto
  moreover have "distinct (filter (\<lambda>y. fst y = fst z) xs)" if "z \<in> set xs" for z
    using Cons.prems [of z] that by (auto split: if_splits)
  ultimately show ?case using Cons.IH by simp
qed

lemma below_32:
  "0 \<le> b \<Longrightarrow> b < 32 \<Longrightarrow> (b :: int) \<in> {0, 1, 2, 3, 4, 5, 6, 7, 8, 9, 10, 11, 12, 13, 14, 15,
     16, 17, 18, 19, 20, 21, 22, 23, 24, 25, 26, 27, 28, 29, 30, 31}"
  unfolding insert_iff empty_iff by presburger

lemma name_key_bucket: "fst (name_key s) \<in> {0, 1, 2, 3, 4, 5, 6, 7, 8, 9, 10, 11, 12, 13, 14, 15,
     16, 17, 18, 19, 20, 21, 22, 23, 24, 25, 26, 27, 28, 29, 30, 31}"
  by (rule below_32) (simp_all add: name_key_def Let_def)

definition all_name_keys :: "(int \<times> int) list" where
  "all_name_keys = concat (concat [
     name_keys_1, name_keys_2, name_keys_3, name_keys_4, name_keys_5,
     name_keys_6, name_keys_7, name_keys_8, name_keys_9, name_keys_10,
     name_keys_11, name_keys_12, name_keys_13, name_keys_14, name_keys_15,
     name_keys_16, name_keys_17, name_keys_18, name_keys_19])"

lemma distinct_name_keys: "all_name_keys = map name_key ns \<Longrightarrow> distinct all_name_keys"
proof (rule distinct_by_bucket)
  fix x
  assume "all_name_keys = map name_key ns" "x \<in> set all_name_keys"
  then have "x \<in> name_key ` set ns" by (metis list.set_map)
  then obtain n where "x = name_key n" by blast
  then have "distinct (bucket (fst x))" using name_key_bucket [of n] buckets by (elim insertE emptyE) simp_all
  then show "distinct (filter (\<lambda>y. fst y = fst x) all_name_keys)"
    by (simp add: all_name_keys_def bucket_def filter_concat)
qed

section \<open>The runs of the table\<close>

lemma remdups_adj_append:
  assumes "distinct (remdups_adj xs @ remdups_adj ys)"
  shows "remdups_adj (xs @ ys) = remdups_adj xs @ remdups_adj ys"
  using assms
proof (induction xs rule: remdups_adj.induct)
  case 1
  then show ?case by simp
next
  case (2 x)
  then show ?case by (cases ys) auto
next
  case (3 x y xs)
  then show ?case by (cases "x = y") auto
qed

lemma run_names_append:
  "distinct (run_names xs @ run_names ys) \<Longrightarrow> run_names (xs @ ys) = run_names xs @ run_names ys"
  unfolding run_names_def map_append by (rule remdups_adj_append)

lemma run_names_concat:
  "distinct (concat (map run_names xss)) \<Longrightarrow> run_names (concat xss) = concat (map run_names xss)"
proof (induction xss)
  case Nil
  show ?case by (simp add: run_names_def)
next
  case (Cons xs xss)
  then show ?case by (simp add: run_names_append)
qed

text \<open>No mnemonic of the opcode table starts two runs of entries.\<close>

lemma opcode_runs_distinct: "distinct (run_names riscv_opcodes)"
proof -
  let ?parts = "[
     riscv_opcodes_1, riscv_opcodes_2, riscv_opcodes_3, riscv_opcodes_4,
     riscv_opcodes_5, riscv_opcodes_6, riscv_opcodes_7, riscv_opcodes_8,
     riscv_opcodes_9, riscv_opcodes_10, riscv_opcodes_11, riscv_opcodes_12,
     riscv_opcodes_13, riscv_opcodes_14, riscv_opcodes_15, riscv_opcodes_16,
     riscv_opcodes_17, riscv_opcodes_18, riscv_opcodes_19]"
  have "all_name_keys = map name_key (concat (map run_names ?parts))"
    by (simp add: name_keys_are all_name_keys_def)
  then have "distinct (map name_key (concat (map run_names ?parts)))"
    using distinct_name_keys by metis
  then have "distinct (concat (map run_names ?parts))" by (simp only: distinct_map)
  then show ?thesis unfolding riscv_opcodes_def by (simp only: run_names_concat)
qed

end
