(* ===== verification/Gas_Hash.thy ===== *)
theory Gas_Hash
  imports Opc_Checks Opc_Names
begin

text \<open>
  What the assembler's start-up check gives the rest of the assembler: every entry of the table is
  consistent, and the hash leads from a mnemonic to all of its overloads.
\<close>

abbreviation named :: "string \<Rightarrow> riscv_opcode \<Rightarrow> bool" where
  "named n op \<equiv> op_name op = n"

section \<open>The lookup contract of the hash\<close>

text \<open>
  The part of the table that has been taken: the hash knows its names, and leads to the start of an
  uninterrupted run that holds all entries of the name.
\<close>

definition hash_ok :: "riscv_opcode list \<Rightarrow> (string \<rightharpoonup> nat) \<Rightarrow> bool" where
  "hash_ok ops hash \<longleftrightarrow>
     (\<forall>n. hash n \<noteq> None \<longleftrightarrow> n \<in> op_name ` set ops) \<and>
     (\<forall>n i. hash n = Some i \<longrightarrow> i < length ops \<and> takeWhile (named n) (drop i ops) = filter (named n) ops)"

lemma hash_ok_Nil: "hash_ok [] (\<lambda>_. None)"
  by (simp add: hash_ok_def)

lemma hash_ok_group:
  assumes ok: "hash_ok pre hash" and fresh: "hash n = None"
    and grp: "grp \<noteq> []" "\<forall>op \<in> set grp. named n op"
  shows "hash_ok (pre @ grp) (hash(n \<mapsto> length pre))"
  unfolding hash_ok_def
proof (intro conjI allI impI)
  fix m
  show "(hash(n \<mapsto> length pre)) m \<noteq> None \<longleftrightarrow> m \<in> op_name ` set (pre @ grp)"
    using ok grp by (cases "m = n") (auto simp: hash_ok_def image_iff neq_Nil_conv)
next
  fix m i
  assume i: "(hash(n \<mapsto> length pre)) m = Some i"
  have "n \<notin> op_name ` set pre" using ok fresh unfolding hash_ok_def by metis
  then have new: "filter (named n) pre = []" by (auto simp: filter_empty_conv)
  show "i < length (pre @ grp)"
    using i ok grp(1) by (cases "m = n") (auto simp: hash_ok_def intro: trans_less_add1)
  show "takeWhile (named m) (drop i (pre @ grp)) = filter (named m) (pre @ grp)"
  proof (cases "m = n")
    case True
    with i new grp(2) show ?thesis by (auto simp: takeWhile_eq_all_conv filter_id_conv)
  next
    case False
    with i have h: "hash m = Some i" by simp
    with ok have run: "i < length pre" "takeWhile (named m) (drop i pre) = filter (named m) pre"
      by (auto simp: hash_ok_def)
    have other: "filter (named m) grp = []" "takeWhile (named m) grp = []"
      using grp False by (auto simp: filter_empty_conv neq_Nil_conv)
    show ?thesis
    proof (cases "\<forall>op \<in> set (drop i pre). named m op")
      case True
      then have "takeWhile (named m) (drop i pre @ grp) = drop i pre @ takeWhile (named m) grp"
        "takeWhile (named m) (drop i pre) = drop i pre"
        by (auto intro: takeWhile_append2 simp: takeWhile_eq_all_conv)
      with run other show ?thesis by simp
    next
      case no: False
      then obtain op where "op \<in> set (drop i pre)" "\<not> named m op" by blast
      with run other show ?thesis by (simp add: takeWhile_append1)
    qed
  qed
qed

lemma init_opcode_loop_ok:
  "init_opcode_loop d ops i hash = Inr hash' \<Longrightarrow> hash_ok pre hash \<Longrightarrow> i = length pre \<Longrightarrow>
     hash_ok (pre @ ops) hash' \<and> check_group d ops = None"
proof (induction d ops i hash arbitrary: pre rule: init_opcode_loop.induct)
  case (1 d i hash)
  then show ?case by simp
next
  case (2 d op ops i hash)
  let ?n = "op_name op"
  let ?grp = "takeWhile (named ?n) (op # ops)" and ?rest = "dropWhile (named ?n) ops"
  have split: "op # ops = ?grp @ ?rest" by simp
  from 2(2) have fresh: "hash ?n = None" and chk: "check_group d ?grp = None"
    and run: "init_opcode_loop d ?rest (i + length ?grp) (hash(?n \<mapsto> i)) = Inr hash'"
    by (auto simp: Let_def split: if_splits option.splits)
  have grp: "hash_ok (pre @ ?grp) (hash(?n \<mapsto> i))"
    unfolding 2(4) using 2(3) fresh by (rule hash_ok_group) (auto dest: set_takeWhileD)
  have "hash_ok ((pre @ ?grp) @ ?rest) hash' \<and> check_group d ?rest = None"
    by (rule 2(1) [OF refl refl _ chk run grp]) (use fresh 2(4) in simp_all)
  with chk show ?case unfolding check_group_list_all by (subst split, subst (2) split) (simp only: list_all_append append_assoc)
qed

subsection \<open>Success of the start-up\<close>

lemma run_names_Cons:
  "run_names (op # ops) = op_name op # run_names (dropWhile (named (op_name op)) ops)"
  by (simp add: run_names_def remdups_adj_Cons' dropWhile_map comp_def)

lemma set_run_names: "set (run_names ops) = op_name ` set ops"
  by (simp add: run_names_def)

text \<open>Checked entries whose names start one run each are taken into the hash.\<close>

lemma init_opcode_loop_total:
  "distinct (run_names ops) \<Longrightarrow> check_group d ops = None \<Longrightarrow> \<forall>op \<in> set ops. hash (op_name op) = None \<Longrightarrow>
     \<exists>hash'. init_opcode_loop d ops i hash = Inr hash'"
proof (induction d ops i hash rule: init_opcode_loop.induct)
  case (1 d i hash)
  then show ?case by simp
next
  case (2 d op ops i hash)
  let ?n = "op_name op"
  let ?grp = "takeWhile (named ?n) (op # ops)" and ?rest = "dropWhile (named ?n) ops"
  have chk: "check_group d ?grp = None" "check_group d ?rest = None"
    using 2(3) unfolding check_group_list_all list_all_iff
    by (auto dest!: set_takeWhileD set_dropWhileD)
  have names: "distinct (run_names ?rest)" "?n \<notin> op_name ` set ?rest"
    using 2(2) unfolding run_names_Cons distinct.simps set_run_names by blast+
  have free: "hash ?n = None" "\<forall>o' \<in> set ?rest. (hash(?n \<mapsto> i)) (op_name o') = None"
    using 2(4) names(2) by (auto simp: image_iff dest: set_dropWhileD)
  have "\<exists>hash'. init_opcode_loop d ?rest (i + length ?grp) (hash(?n \<mapsto> i)) = Inr hash'"
    by (rule 2(1) [OF refl refl _ chk(1) names(1) chk(2) free(2)]) (use free in simp)
  with chk free show ?case by (simp add: Let_def)
qed

lemma init_opcode_hash_total:
  "distinct (run_names ops) \<Longrightarrow> check_group d ops = None \<Longrightarrow> \<exists>hash. init_opcode_hash ops d = Inr hash"
  unfolding init_opcode_hash_def by (rule init_opcode_loop_total) auto

text \<open>
  C23. When the assembler's start-up succeeds, its hash is a complete index: a name has an entry in the hash exactly
  when the table has one, and reading the table from the index on, as long as the name stays the same, gives
  all entries of the name in their order; and every entry of the table has passed its check.
\<close>

theorem init_opcode_hash_indexes:
  assumes "init_opcode_hash ops d = Inr hash"
  shows "(hash n = None \<longleftrightarrow> filter (named n) ops = []) \<and>
         (\<forall>i. hash n = Some i \<longrightarrow> takeWhile (named n) (drop i ops) = filter (named n) ops) \<and>
         list_all (\<lambda>op. check_entry d op = None) ops"
proof -
  have "hash_ok ops hash" "check_group d ops = None"
    using init_opcode_loop_ok [OF assms [unfolded init_opcode_hash_def] hash_ok_Nil] by simp_all
  then show ?thesis
    unfolding hash_ok_def check_group_list_all filter_empty_conv by (metis (no_types, lifting) image_iff)
qed

section \<open>The tables of the repository\<close>

lemma insn_types_run:
  "case init_opcode_hash riscv_insn_types True of Inl e \<Rightarrow> False | Inr hash \<Rightarrow> hash ''r4'' = Some 25"
  by code_simp

lemma insn_types_hash:
  obtains hash where "init_opcode_hash riscv_insn_types True = Inr hash" "hash ''r4'' = Some 25"
  using insn_types_run by (cases "init_opcode_hash riscv_insn_types True") auto

theorem init_opcode_hash_indexes_witness:
  "takeWhile (named ''r4'') (drop 25 riscv_insn_types) = filter (named ''r4'') riscv_insn_types \<and>
   list_all (\<lambda>op. check_entry True op = None) riscv_insn_types"
proof -
  obtain hash where "init_opcode_hash riscv_insn_types True = Inr hash" "hash ''r4'' = Some 25"
    by (rule insn_types_hash)
  with init_opcode_hash_indexes [of riscv_insn_types True hash "''r4''"] show ?thesis by blast
qed

lemma opcodes_1_subset: "set riscv_opcodes_1 \<subseteq> set riscv_opcodes"
  by (simp add: riscv_opcodes_def)

lemma imc_names_in_table:
  "list_all (\<lambda>n. \<exists>op \<in> set riscv_opcodes. named n op)
     [''addmod'', ''submod'', ''mulmod'', ''mulimc'', ''invmod'', ''cmpimc'']"
proof -
  have "list_all (\<lambda>n. \<exists>op \<in> set riscv_opcodes_1. named n op)
     [''addmod'', ''submod'', ''mulmod'', ''mulimc'', ''invmod'', ''cmpimc'']"
    by (simp add: riscv_opcodes_1_def opc_def)
  then show ?thesis by (rule list.pred_mono_strong) (use opcodes_1_subset in blast)
qed

text \<open>
  C14. Every instruction of the opcode table that is not a macro is consistent: its match bits lie inside its mask, its
  argument string is understood, and mask and operands together account for every bit of the instruction,
  no more and no fewer. The entries added for the in-memory instructions are among them.
\<close>

theorem opcode_table_is_consistent:
  "list_all (\<lambda>op. pinfo op = INSN_MACRO \<or> validate_riscv_insn op 0) riscv_opcodes \<and>
   list_all (\<lambda>n. \<exists>op \<in> set riscv_opcodes. named n op)
     [''addmod'', ''submod'', ''mulmod'', ''mulimc'', ''invmod'', ''cmpimc'']"
proof
  have "list_all (\<lambda>op. check_entry False op = None) riscv_opcodes"
    using riscv_opcodes_checked by (simp only: check_group_list_all)
  then show "list_all (\<lambda>op. pinfo op = INSN_MACRO \<or> validate_riscv_insn op 0) riscv_opcodes"
    by (rule list.pred_mono_strong) (simp add: check_entry_def split: if_splits)
qed (rule imc_names_in_table)

text \<open>
  C24. The start-up accepts the opcode table of the repository: no entry is refused, no mnemonic is met twice, and
  the hash it returns knows all six in-memory instructions.
\<close>

theorem opcode_table_starts_up:
  "\<exists>hash. init_opcode_hash riscv_opcodes False = Inr hash \<and>
          list_all (\<lambda>n. hash n \<noteq> None) [''addmod'', ''submod'', ''mulmod'', ''mulimc'', ''invmod'', ''cmpimc'']"
proof -
  obtain hash where h: "init_opcode_hash riscv_opcodes False = Inr hash"
    using init_opcode_hash_total [OF opcode_runs_distinct riscv_opcodes_checked] by blast
  then have "hash_ok riscv_opcodes hash"
    using init_opcode_loop_ok [OF h [unfolded init_opcode_hash_def] hash_ok_Nil] by simp
  then have "hash (op_name op) \<noteq> None" if "op \<in> set riscv_opcodes" for op
    using that unfolding hash_ok_def by blast
  then have "list_all (\<lambda>n. hash n \<noteq> None) [''addmod'', ''submod'', ''mulmod'', ''mulimc'', ''invmod'', ''cmpimc'']"
    by (intro list.pred_mono_strong [OF imc_names_in_table]) auto
  with h show ?thesis by blast
qed

text \<open>
  The formats of the \<^verbatim>\<open>.insn\<close> directive pass the start-up as well: the assembler returns its hash, with the
  format \<^verbatim>\<open>r4\<close> that the in-memory instructions share found at its first entry.
\<close>

theorem insn_types_start_up:
  "\<exists>hash. init_opcode_hash riscv_insn_types True = Inr hash \<and> hash ''r4'' = Some 25 \<and> hash ''r5'' = None"
proof -
  obtain hash where h: "init_opcode_hash riscv_insn_types True = Inr hash" "hash ''r4'' = Some 25"
    by (rule insn_types_hash)
  have "hash_ok riscv_insn_types hash"
    using init_opcode_loop_ok [OF h(1) [unfolded init_opcode_hash_def] hash_ok_Nil] by simp
  moreover have "''r5'' \<notin> op_name ` set riscv_insn_types"
    by (simp add: riscv_insn_types_def opc_def)
  ultimately have "hash ''r5'' = None" unfolding hash_ok_def by blast
  with h show ?thesis by blast
qed

end
