(* ===== verification/Gas_Assemble.thy ===== *)
theory Gas_Assemble
  imports Gas_Hash Riscv_Arch
begin

text \<open>
  The assembler's parser of one instruction (\<^verbatim>\<open>riscv_ip\<close> of \<^verbatim>\<open>gas/config/tc-riscv.c\<close>): the mnemonic is looked up in the hash, and
  the overloads of the name are tried in the order of the table until one takes the operands.

  Operands that are registers, punctuation, rounding modes, fence sets and vector masks are modelled. An operand that is
  read by the expression parser of the assembler stops the model with the result \<open>Ip_expression\<close>, which says
  nothing about the assembler.
\<close>

section \<open>Names\<close>

text \<open>\<^verbatim>\<open>lex_type\<close>, with the values that the port leaves for the configurable characters.\<close>

abbreviation (input) LEX_NAME :: nat where "LEX_NAME \<equiv> 1"
abbreviation (input) LEX_BEGIN_NAME :: nat where "LEX_BEGIN_NAME \<equiv> 2"

definition lex_type :: "char \<Rightarrow> nat" where
  "lex_type c =
     (let n = of_char c :: nat in
      if n \<ge> 128 then 3
      else if n = 36 \<or> n = 46 \<or> 65 \<le> n \<and> n \<le> 90 \<or> n = 95 \<or> 97 \<le> n \<and> n \<le> 122 then 3
      else if 48 \<le> n \<and> n \<le> 57 then 1 else 0)"

definition is_name_beginner :: "char \<Rightarrow> bool" where
  "is_name_beginner c \<longleftrightarrow> lex_type c \<ge> 2"

definition is_part_of_name :: "char \<Rightarrow> bool" where
  "is_part_of_name c \<longleftrightarrow> odd (lex_type c)"

definition ISSPACE :: "char \<Rightarrow> bool" where
  "ISSPACE c \<longleftrightarrow> (let n = of_char c :: nat in n = 32 \<or> 9 \<le> n \<and> n \<le> 13)"

text \<open>The blanks before an operand.\<close>

definition skip_blanks :: "string \<Rightarrow> string" where
  "skip_blanks s = dropWhile (\<lambda>c. c = CHR '' '' \<or> c = CHR 0x09) s"

section \<open>Registers\<close>

datatype reg_class = RCLASS_GPR | RCLASS_FPR | RCLASS_VECR | RCLASS_VECM

abbreviation (input) RCLASS_MAX :: nat where "RCLASS_MAX \<equiv> 4"

fun rclass_number :: "reg_class \<Rightarrow> nat" where
  "rclass_number RCLASS_GPR = 0"
| "rclass_number RCLASS_FPR = 1"
| "rclass_number RCLASS_VECR = 2"
| "rclass_number RCLASS_VECM = 3"

definition ENCODE_REG_HASH :: "reg_class \<Rightarrow> nat \<Rightarrow> nat" where
  "ENCODE_REG_HASH cls n = n * RCLASS_MAX + rclass_number cls + 1"

definition DECODE_REG_CLASS :: "nat \<Rightarrow> nat" where
  "DECODE_REG_CLASS hash = (hash - 1) mod RCLASS_MAX"

definition DECODE_REG_NUM :: "nat \<Rightarrow> nat" where
  "DECODE_REG_NUM hash = (hash - 1) div RCLASS_MAX"

text \<open>A name that is met twice is fatal; the result is then the name.\<close>

type_synonym reg_hash = "string \<rightharpoonup> nat"

definition hash_reg_name :: "reg_class \<Rightarrow> string \<Rightarrow> nat \<Rightarrow> reg_hash \<Rightarrow> string + reg_hash" where
  "hash_reg_name cls name n h =
     (if h name \<noteq> None then Inl name else Inr (h(name \<mapsto> ENCODE_REG_HASH cls n)))"

fun hash_reg_loop :: "reg_class \<Rightarrow> string list \<Rightarrow> nat \<Rightarrow> reg_hash \<Rightarrow> string + reg_hash" where
  "hash_reg_loop cls [] i h = Inr h"
| "hash_reg_loop cls (name # names) i h =
     (case hash_reg_name cls name i h of Inl e \<Rightarrow> Inl e | Inr h' \<Rightarrow> hash_reg_loop cls names (Suc i) h')"

definition hash_reg_names :: "reg_class \<Rightarrow> string list \<Rightarrow> reg_hash \<Rightarrow> string + reg_hash" where
  "hash_reg_names cls names h = hash_reg_loop cls names 0 h"

fun hash_reg_tables :: "(reg_class \<times> string list) list \<Rightarrow> reg_hash \<Rightarrow> string + reg_hash" where
  "hash_reg_tables [] h = Inr h"
| "hash_reg_tables ((cls, names) # ts) h =
     (case hash_reg_names cls names h of Inl e \<Rightarrow> Inl e | Inr h' \<Rightarrow> hash_reg_tables ts h')"

definition reg_names_hash :: "string + reg_hash" where
  "reg_names_hash =
     (case hash_reg_tables
        [(RCLASS_GPR, riscv_gpr_names_numeric), (RCLASS_GPR, riscv_gpr_names_abi),
         (RCLASS_FPR, riscv_fpr_names_numeric), (RCLASS_FPR, riscv_fpr_names_abi),
         (RCLASS_VECR, riscv_vecr_names_numeric), (RCLASS_VECM, riscv_vecm_names_numeric)] (\<lambda>n. None) of
        Inl e \<Rightarrow> Inl e
      | Inr h \<Rightarrow> hash_reg_name RCLASS_GPR ''fp'' 8 h)"

text \<open>What stays fixed while an instruction is assembled.\<close>

record as_config =
  as_regs :: reg_hash
  as_subsets :: "riscv_subset list"
  as_xlen :: nat
  opt_rvc :: bool

definition as_supports :: "as_config \<Rightarrow> string \<Rightarrow> bool" where
  "as_supports cfg e \<longleftrightarrow> riscv_subset_supports (as_subsets cfg) e = Inr True"

definition reg_lookup_internal :: "as_config \<Rightarrow> string \<Rightarrow> reg_class \<Rightarrow> nat option" where
  "reg_lookup_internal cfg s cls =
     (case as_regs cfg s of
        None \<Rightarrow> None
      | Some r \<Rightarrow>
          if DECODE_REG_CLASS r \<noteq> rclass_number cls then None
          else if as_supports cfg ''e'' \<and> cls = RCLASS_GPR \<and> DECODE_REG_NUM r > 15 then None
          else Some (DECODE_REG_NUM r))"

text \<open>The register and the text after its name; without a register the text stays.\<close>

definition name_end :: "string \<Rightarrow> nat" where
  "name_end s =
     (case s of
        [] \<Rightarrow> 0
      | c # r \<Rightarrow>
          if is_name_beginner c then Suc (length (takeWhile is_part_of_name r))
          else length (takeWhile is_part_of_name s))"

definition reg_lookup :: "as_config \<Rightarrow> string \<Rightarrow> reg_class \<Rightarrow> nat option \<times> string" where
  "reg_lookup cfg s cls =
     (case reg_lookup_internal cfg (take (name_end s) s) cls of
        Some n \<Rightarrow> (Some n, drop (name_end s) s)
      | None \<Rightarrow> (None, s))"

definition arg_lookup :: "string \<Rightarrow> string option list \<Rightarrow> (nat \<times> string) option" where
  "arg_lookup s array =
     (let word = takeWhile (\<lambda>c. c \<noteq> CHR '','') s in
      if word = [] then None
      else case find (\<lambda>i. array ! i = Some word) [0..<length array] of
             Some i \<Rightarrow> Some (i, drop (length word) s)
           | None \<Rightarrow> None)"

section \<open>Operands\<close>

definition INSERT_OPERAND :: "op_field \<Rightarrow> insn_t \<Rightarrow> nat \<Rightarrow> insn_t" where
  "INSERT_OPERAND f insn v = INSERT_BITS insn (of_nat v) f"

text \<open>An operand is taken, with what is left of the text, refuses the overload, or is not modelled.\<close>

datatype ip_operand = Op_taken insn_t string | Op_refused | Op_expression

text \<open>A register that must satisfy a condition, and what it does to the instruction.\<close>

definition reg_operand ::
  "as_config \<Rightarrow> reg_class \<Rightarrow> (nat \<Rightarrow> bool) \<Rightarrow> (nat \<Rightarrow> insn_t \<Rightarrow> insn_t) \<Rightarrow> insn_t \<Rightarrow> string \<Rightarrow> ip_operand" where
  "reg_operand cfg cls ok put w s =
     (case reg_lookup cfg s cls of
        (Some n, r) \<Rightarrow> if ok n then Op_taken (put n w) r else Op_refused
      | (None, r) \<Rightarrow> Op_refused)"

abbreviation insert_in :: "op_field \<Rightarrow> nat \<Rightarrow> insn_t \<Rightarrow> insn_t" where
  "insert_in f \<equiv> \<lambda>n w. INSERT_OPERAND f w n"

abbreviation anyreg :: "nat \<Rightarrow> bool" where
  "anyreg \<equiv> \<lambda>n. True"

definition ip_rvc :: "as_config \<Rightarrow> char \<Rightarrow> insn_t \<Rightarrow> string \<Rightarrow> ip_operand" where
  "ip_rvc cfg c w s =
     (let low = (\<lambda>n. 8 \<le> n \<and> n \<le> 15); gpr = reg_operand cfg RCLASS_GPR in
      if c = CHR ''s'' then gpr low (\<lambda>n w. INSERT_OPERAND OP_CRS1S w (n mod 8)) w s
      else if c = CHR ''w'' then gpr (\<lambda>n. EXTRACT_OPERAND OP_CRS1S w + 8 = n) (\<lambda>n w. w) w s
      else if c = CHR ''t'' then gpr low (\<lambda>n w. INSERT_OPERAND OP_CRS2S w (n mod 8)) w s
      else if c = CHR ''x'' then gpr (\<lambda>n. EXTRACT_OPERAND OP_CRS2S w + 8 = n) (\<lambda>n w. w) w s
      else if c = CHR ''U'' then gpr (\<lambda>n. EXTRACT_OPERAND OP_RD w = n) (\<lambda>n w. w) w s
      else if c = CHR ''V'' then gpr anyreg (insert_in OP_CRS2) w s
      else if c = CHR ''c'' then gpr (\<lambda>n. n = 2) (\<lambda>n w. w) w s
      else if c = CHR ''z'' then gpr (\<lambda>n. n = 0) (\<lambda>n w. w) w s
      else Op_expression)"

text \<open>
  The destination of a vector memory operation: the first lookup steps over an integer register even when it is not the
  zero register.
\<close>

definition ip_amo_vd :: "as_config \<Rightarrow> insn_t \<Rightarrow> string \<Rightarrow> ip_operand" where
  "ip_amo_vd cfg w s =
     (let (g, r) = reg_lookup cfg s RCLASS_GPR in
      if g = Some 0 then Op_taken (INSERT_OPERAND OP_VWD w 0) r
      else reg_operand cfg RCLASS_VECR anyreg (\<lambda>n w. INSERT_OPERAND OP_VD (INSERT_OPERAND OP_VWD w 1) n) w r)"

definition ip_rvv :: "as_config \<Rightarrow> char \<Rightarrow> insn_t \<Rightarrow> string \<Rightarrow> ip_operand" where
  "ip_rvv cfg c w s =
     (let vec = reg_operand cfg RCLASS_VECR; msk = reg_operand cfg RCLASS_VECM (\<lambda>n. n = 0) (\<lambda>n w. INSERT_OPERAND OP_VMASK w 0) in
      if c = CHR ''d'' then vec anyreg (insert_in OP_VD) w s
      else if c = CHR ''e'' then ip_amo_vd cfg w s
      else if c = CHR ''f'' then
        vec (\<lambda>n. EXTRACT_OPERAND OP_VWD w = 0 \<or> EXTRACT_OPERAND OP_VD w = n)
          (\<lambda>n w. if EXTRACT_OPERAND OP_VWD w = 0 then INSERT_OPERAND OP_VD w n else w) w s
      else if c = CHR ''s'' then vec anyreg (insert_in OP_VS1) w s
      else if c = CHR ''t'' then vec anyreg (insert_in OP_VS2) w s
      else if c = CHR ''u'' then vec anyreg (\<lambda>n w. INSERT_OPERAND OP_VS2 (INSERT_OPERAND OP_VS1 w n) n) w s
      else if c = CHR ''v'' then
        vec anyreg (\<lambda>n w. INSERT_OPERAND OP_VS2 (INSERT_OPERAND OP_VS1 (INSERT_OPERAND OP_VD w n) n) n) w s
      else if c = CHR ''0'' then vec (\<lambda>n. n = 0) (\<lambda>n w. w) w s
      else if c = CHR ''m'' then
        (case s of
           [] \<Rightarrow> Op_taken (INSERT_OPERAND OP_VMASK w 1) []
         | d # r \<Rightarrow> if d = CHR '','' then msk w r else Op_refused)
      else if c = CHR ''M'' then msk w s
      else if c = CHR ''T'' then vec (\<lambda>n. n \<noteq> 0) (insert_in OP_VFUNCT6) w s
      else Op_expression)"

text \<open>One more blank may follow a register.\<close>

definition drop_blank :: "string \<Rightarrow> string" where
  "drop_blank s = (case s of [] \<Rightarrow> [] | c # r \<Rightarrow> if c = CHR '' '' then r else s)"

definition then_blank :: "ip_operand \<Rightarrow> ip_operand" where
  "then_blank p = (case p of Op_taken w r \<Rightarrow> Op_taken w (drop_blank r) | q \<Rightarrow> q)"

definition arg_operand :: "string option list \<Rightarrow> op_field \<Rightarrow> insn_t \<Rightarrow> string \<Rightarrow> ip_operand" where
  "arg_operand array f w s =
     (case arg_lookup s array of Some (n, r) \<Rightarrow> Op_taken (INSERT_OPERAND f w n) r | None \<Rightarrow> Op_refused)"

definition ip_base :: "as_config \<Rightarrow> char \<Rightarrow> insn_t \<Rightarrow> string \<Rightarrow> ip_operand" where
  "ip_base cfg c w s =
     (let gpr = (\<lambda>f. then_blank (reg_operand cfg RCLASS_GPR anyreg (insert_in f) w s));
          fpr = (\<lambda>f. then_blank (reg_operand cfg (if as_supports cfg ''zfinx'' then RCLASS_GPR else RCLASS_FPR) anyreg f w s)) in
      if c = CHR '','' \<or> c = CHR ''('' \<or> c = CHR '')'' \<or> c = CHR ''['' \<or> c = CHR '']'' \<or> c = CHR ''{'' \<or> c = CHR ''}'' then
        (case s of [] \<Rightarrow> Op_refused | d # r \<Rightarrow> if d = c then Op_taken w r else Op_refused)
      else if c = CHR ''m'' then arg_operand riscv_rm OP_RM w s
      else if c = CHR ''P'' then arg_operand riscv_pred_succ OP_PRED w s
      else if c = CHR ''Q'' then arg_operand riscv_pred_succ OP_SUCC w s
      else if c = CHR ''s'' then gpr OP_RS1
      else if c = CHR ''d'' \<or> c = CHR ''l'' then gpr OP_RD
      else if c = CHR ''t'' then gpr OP_RS2
      else if c = CHR ''r'' then gpr OP_RS3
      else if c = CHR ''D'' then fpr (insert_in OP_RD)
      else if c = CHR ''S'' then fpr (insert_in OP_RS1)
      else if c = CHR ''U'' then fpr (\<lambda>n w. INSERT_OPERAND OP_RS2 (INSERT_OPERAND OP_RS1 w n) n)
      else if c = CHR ''T'' then fpr (insert_in OP_RS2)
      else if c = CHR ''R'' then fpr (insert_in OP_RS3)
      else Op_expression)"

section \<open>One overload\<close>

definition riscv_is_priv_insn :: "insn_t \<Rightarrow> bool" where
  "riscv_is_priv_insn insn \<longleftrightarrow>
     (insn XOR 0x10200073) AND 0xffffffff = 0 \<or> (insn XOR 0x30200073) AND 0xffffffff = 0 \<or>
     (insn XOR 0x12000073) AND 0xfe007fff = 0 \<or> (insn XOR 0x10500073) AND 0xffffffff = 0 \<or>
     (insn XOR 0x10400073) AND 0xfff07fff = 0"

abbreviation (input) INSN_V_EEW64 :: u64 where "INSN_V_EEW64 \<equiv> 0x10000000"

datatype ip_round =
    Round_done riscv_opcode insn_t bool
  | Round_refused string
  | Round_expression

text \<open>The end of the argument string: the text must have ended too.\<close>

definition ip_end :: "as_config \<Rightarrow> riscv_opcode \<Rightarrow> insn_t \<Rightarrow> string \<Rightarrow> ip_round" where
  "ip_end cfg op w s =
     (if (case match_func op of Some f \<Rightarrow> \<not> call_match_fn f op w | None \<Rightarrow> False) then Round_refused ''illegal operands''
      else if pinfo op \<noteq> INSN_MACRO \<and>
              riscv_insn_length (if op_match op = 0 \<and> op_mask op = 0 then w else op_match op) = 2 \<and> \<not> opt_rvc cfg
        then Round_refused ''illegal operands''
      else if pinfo op \<noteq> INSN_MACRO \<and> pinfo op AND INSN_V_EEW64 \<noteq> 0 \<and> as_supports cfg ''zve32x'' \<and> \<not> as_supports cfg ''zve64x''
        then Round_refused ''illegal opcode for zve32x''
      else if s \<noteq> [] then Round_refused ''illegal operands''
      else Round_done op w (pinfo op \<noteq> INSN_MACRO \<and> riscv_is_priv_insn w))"

text \<open>The operands from the left, with blanks before each and before the end.\<close>

fun ip_args :: "as_config \<Rightarrow> riscv_opcode \<Rightarrow> string \<Rightarrow> insn_t \<Rightarrow> string \<Rightarrow> ip_round" where
  "ip_args cfg op [] w s = ip_end cfg op w (skip_blanks s)"
| "ip_args cfg op (c # cs) w s =
     (if c = CHR ''C'' \<or> c = CHR ''V'' then
        (case cs of
           [] \<Rightarrow> Round_expression
         | d # ds \<Rightarrow>
             (case (if c = CHR ''C'' then ip_rvc else ip_rvv) cfg d w (skip_blanks s) of
                Op_taken w' r \<Rightarrow> ip_args cfg op ds w' r
              | Op_refused \<Rightarrow> Round_refused ''illegal operands''
              | Op_expression \<Rightarrow> Round_expression))
      else
        (case ip_base cfg c w (skip_blanks s) of
           Op_taken w' r \<Rightarrow> ip_args cfg op cs w' r
         | Op_refused \<Rightarrow> Round_refused ''illegal operands''
         | Op_expression \<Rightarrow> Round_expression))"

section \<open>The overloads of a name\<close>

text \<open>
  The result: the entry, the instruction and whether it is privileged; or the message of the last round and, when
  the last overload was passed over for its extension, the class of the overload.
\<close>

datatype ip_result =
    Ip_done riscv_opcode insn_t bool
  | Ip_error string "nat option"
  | Ip_failed host_fault
  | Ip_expression

fun ip_loop :: "as_config \<Rightarrow> riscv_opcode list \<Rightarrow> string \<Rightarrow> string \<Rightarrow> string \<Rightarrow> nat option \<Rightarrow> ip_result" where
  "ip_loop cfg [] name args msg missing = Ip_error msg missing"
| "ip_loop cfg (op # ops) name args msg missing =
     (if op_name op \<noteq> name then Ip_error msg missing
      else if xlen_requirement op \<noteq> 0 \<and> as_xlen cfg \<noteq> xlen_requirement op then ip_loop cfg ops name args msg missing
      else case riscv_multi_subset_supports (as_subsets cfg) (insn_class op) of
             Inl e \<Rightarrow> Ip_failed e
           | Inr has \<Rightarrow>
               if \<not> has then ip_loop cfg ops name args msg (Some (insn_class op))
               else case ip_args cfg op (op_args op) (op_match op) args of
                      Round_done op' w priv \<Rightarrow> Ip_done op' w priv
                    | Round_expression \<Rightarrow> Ip_expression
                    | Round_refused msg' \<Rightarrow> ip_loop cfg ops name args msg' None)"

definition ip_name :: "string \<Rightarrow> string" where
  "ip_name str = takeWhile (\<lambda>c. \<not> ISSPACE c) str"

definition ip_operands :: "string \<Rightarrow> string" where
  "ip_operands str = drop (Suc (length (ip_name str))) str"

definition riscv_ip :: "as_config \<Rightarrow> riscv_opcode list \<Rightarrow> (string \<rightharpoonup> nat) \<Rightarrow> string \<Rightarrow> ip_result" where
  "riscv_ip cfg ops hash str =
     (case hash (ip_name str) of
        None \<Rightarrow> Ip_error ''unrecognized opcode'' None
      | Some i \<Rightarrow> ip_loop cfg (drop i ops) (ip_name str) (ip_operands str) ''unrecognized opcode'' None)"

end
