(* ===== verification/Riscv_Csr.thy ===== *)
theory Riscv_Csr
  imports Riscv_Arch
begin

text \<open>
  The control and status registers of \<^verbatim>\<open>include/opcode/riscv-opc.h\<close>: name, number, and the privileged specifications
  from which and up to which a register is defined, in the order of the declarations.
\<close>

abbreviation (input) PRIV_SPEC_CLASS_NONE :: nat where "PRIV_SPEC_CLASS_NONE \<equiv> 5"
abbreviation (input) PRIV_SPEC_CLASS_1P9P1 :: nat where "PRIV_SPEC_CLASS_1P9P1 \<equiv> 6"
abbreviation (input) PRIV_SPEC_CLASS_1P10 :: nat where "PRIV_SPEC_CLASS_1P10 \<equiv> 7"
abbreviation (input) PRIV_SPEC_CLASS_1P11 :: nat where "PRIV_SPEC_CLASS_1P11 \<equiv> 8"
abbreviation (input) PRIV_SPEC_CLASS_1P12 :: nat where "PRIV_SPEC_CLASS_1P12 \<equiv> 9"
abbreviation (input) PRIV_SPEC_CLASS_DRAFT :: nat where "PRIV_SPEC_CLASS_DRAFT \<equiv> 10"

type_synonym csr_decl = "string \<times> nat \<times> nat \<times> nat"

definition riscv_csrs_1 :: "csr_decl list" where
  "riscv_csrs_1 = [
    (''cycle'', 0xc00, PRIV_SPEC_CLASS_1P10, PRIV_SPEC_CLASS_DRAFT),
    (''time'', 0xc01, PRIV_SPEC_CLASS_1P10, PRIV_SPEC_CLASS_DRAFT),
    (''instret'', 0xc02, PRIV_SPEC_CLASS_1P10, PRIV_SPEC_CLASS_DRAFT),
    (''hpmcounter3'', 0xc03, PRIV_SPEC_CLASS_1P10, PRIV_SPEC_CLASS_DRAFT),
    (''hpmcounter4'', 0xc04, PRIV_SPEC_CLASS_1P10, PRIV_SPEC_CLASS_DRAFT),
    (''hpmcounter5'', 0xc05, PRIV_SPEC_CLASS_1P10, PRIV_SPEC_CLASS_DRAFT),
    (''hpmcounter6'', 0xc06, PRIV_SPEC_CLASS_1P10, PRIV_SPEC_CLASS_DRAFT),
    (''hpmcounter7'', 0xc07, PRIV_SPEC_CLASS_1P10, PRIV_SPEC_CLASS_DRAFT),
    (''hpmcounter8'', 0xc08, PRIV_SPEC_CLASS_1P10, PRIV_SPEC_CLASS_DRAFT),
    (''hpmcounter9'', 0xc09, PRIV_SPEC_CLASS_1P10, PRIV_SPEC_CLASS_DRAFT),
    (''hpmcounter10'', 0xc0a, PRIV_SPEC_CLASS_1P10, PRIV_SPEC_CLASS_DRAFT),
    (''hpmcounter11'', 0xc0b, PRIV_SPEC_CLASS_1P10, PRIV_SPEC_CLASS_DRAFT),
    (''hpmcounter12'', 0xc0c, PRIV_SPEC_CLASS_1P10, PRIV_SPEC_CLASS_DRAFT),
    (''hpmcounter13'', 0xc0d, PRIV_SPEC_CLASS_1P10, PRIV_SPEC_CLASS_DRAFT),
    (''hpmcounter14'', 0xc0e, PRIV_SPEC_CLASS_1P10, PRIV_SPEC_CLASS_DRAFT),
    (''hpmcounter15'', 0xc0f, PRIV_SPEC_CLASS_1P10, PRIV_SPEC_CLASS_DRAFT),
    (''hpmcounter16'', 0xc10, PRIV_SPEC_CLASS_1P10, PRIV_SPEC_CLASS_DRAFT),
    (''hpmcounter17'', 0xc11, PRIV_SPEC_CLASS_1P10, PRIV_SPEC_CLASS_DRAFT),
    (''hpmcounter18'', 0xc12, PRIV_SPEC_CLASS_1P10, PRIV_SPEC_CLASS_DRAFT),
    (''hpmcounter19'', 0xc13, PRIV_SPEC_CLASS_1P10, PRIV_SPEC_CLASS_DRAFT),
    (''hpmcounter20'', 0xc14, PRIV_SPEC_CLASS_1P10, PRIV_SPEC_CLASS_DRAFT),
    (''hpmcounter21'', 0xc15, PRIV_SPEC_CLASS_1P10, PRIV_SPEC_CLASS_DRAFT),
    (''hpmcounter22'', 0xc16, PRIV_SPEC_CLASS_1P10, PRIV_SPEC_CLASS_DRAFT),
    (''hpmcounter23'', 0xc17, PRIV_SPEC_CLASS_1P10, PRIV_SPEC_CLASS_DRAFT),
    (''hpmcounter24'', 0xc18, PRIV_SPEC_CLASS_1P10, PRIV_SPEC_CLASS_DRAFT),
    (''hpmcounter25'', 0xc19, PRIV_SPEC_CLASS_1P10, PRIV_SPEC_CLASS_DRAFT),
    (''hpmcounter26'', 0xc1a, PRIV_SPEC_CLASS_1P10, PRIV_SPEC_CLASS_DRAFT),
    (''hpmcounter27'', 0xc1b, PRIV_SPEC_CLASS_1P10, PRIV_SPEC_CLASS_DRAFT),
    (''hpmcounter28'', 0xc1c, PRIV_SPEC_CLASS_1P10, PRIV_SPEC_CLASS_DRAFT),
    (''hpmcounter29'', 0xc1d, PRIV_SPEC_CLASS_1P10, PRIV_SPEC_CLASS_DRAFT),
    (''hpmcounter30'', 0xc1e, PRIV_SPEC_CLASS_1P10, PRIV_SPEC_CLASS_DRAFT),
    (''hpmcounter31'', 0xc1f, PRIV_SPEC_CLASS_1P10, PRIV_SPEC_CLASS_DRAFT),
    (''cycleh'', 0xc80, PRIV_SPEC_CLASS_1P10, PRIV_SPEC_CLASS_DRAFT),
    (''timeh'', 0xc81, PRIV_SPEC_CLASS_1P10, PRIV_SPEC_CLASS_DRAFT),
    (''instreth'', 0xc82, PRIV_SPEC_CLASS_1P10, PRIV_SPEC_CLASS_DRAFT),
    (''hpmcounter3h'', 0xc83, PRIV_SPEC_CLASS_1P10, PRIV_SPEC_CLASS_DRAFT),
    (''hpmcounter4h'', 0xc84, PRIV_SPEC_CLASS_1P10, PRIV_SPEC_CLASS_DRAFT),
    (''hpmcounter5h'', 0xc85, PRIV_SPEC_CLASS_1P10, PRIV_SPEC_CLASS_DRAFT),
    (''hpmcounter6h'', 0xc86, PRIV_SPEC_CLASS_1P10, PRIV_SPEC_CLASS_DRAFT),
    (''hpmcounter7h'', 0xc87, PRIV_SPEC_CLASS_1P10, PRIV_SPEC_CLASS_DRAFT),
    (''hpmcounter8h'', 0xc88, PRIV_SPEC_CLASS_1P10, PRIV_SPEC_CLASS_DRAFT),
    (''hpmcounter9h'', 0xc89, PRIV_SPEC_CLASS_1P10, PRIV_SPEC_CLASS_DRAFT),
    (''hpmcounter10h'', 0xc8a, PRIV_SPEC_CLASS_1P10, PRIV_SPEC_CLASS_DRAFT),
    (''hpmcounter11h'', 0xc8b, PRIV_SPEC_CLASS_1P10, PRIV_SPEC_CLASS_DRAFT),
    (''hpmcounter12h'', 0xc8c, PRIV_SPEC_CLASS_1P10, PRIV_SPEC_CLASS_DRAFT),
    (''hpmcounter13h'', 0xc8d, PRIV_SPEC_CLASS_1P10, PRIV_SPEC_CLASS_DRAFT),
    (''hpmcounter14h'', 0xc8e, PRIV_SPEC_CLASS_1P10, PRIV_SPEC_CLASS_DRAFT),
    (''hpmcounter15h'', 0xc8f, PRIV_SPEC_CLASS_1P10, PRIV_SPEC_CLASS_DRAFT),
    (''hpmcounter16h'', 0xc90, PRIV_SPEC_CLASS_1P10, PRIV_SPEC_CLASS_DRAFT),
    (''hpmcounter17h'', 0xc91, PRIV_SPEC_CLASS_1P10, PRIV_SPEC_CLASS_DRAFT),
    (''hpmcounter18h'', 0xc92, PRIV_SPEC_CLASS_1P10, PRIV_SPEC_CLASS_DRAFT),
    (''hpmcounter19h'', 0xc93, PRIV_SPEC_CLASS_1P10, PRIV_SPEC_CLASS_DRAFT),
    (''hpmcounter20h'', 0xc94, PRIV_SPEC_CLASS_1P10, PRIV_SPEC_CLASS_DRAFT),
    (''hpmcounter21h'', 0xc95, PRIV_SPEC_CLASS_1P10, PRIV_SPEC_CLASS_DRAFT),
    (''hpmcounter22h'', 0xc96, PRIV_SPEC_CLASS_1P10, PRIV_SPEC_CLASS_DRAFT),
    (''hpmcounter23h'', 0xc97, PRIV_SPEC_CLASS_1P10, PRIV_SPEC_CLASS_DRAFT),
    (''hpmcounter24h'', 0xc98, PRIV_SPEC_CLASS_1P10, PRIV_SPEC_CLASS_DRAFT),
    (''hpmcounter25h'', 0xc99, PRIV_SPEC_CLASS_1P10, PRIV_SPEC_CLASS_DRAFT),
    (''hpmcounter26h'', 0xc9a, PRIV_SPEC_CLASS_1P10, PRIV_SPEC_CLASS_DRAFT),
    (''hpmcounter27h'', 0xc9b, PRIV_SPEC_CLASS_1P10, PRIV_SPEC_CLASS_DRAFT),
    (''hpmcounter28h'', 0xc9c, PRIV_SPEC_CLASS_1P10, PRIV_SPEC_CLASS_DRAFT),
    (''hpmcounter29h'', 0xc9d, PRIV_SPEC_CLASS_1P10, PRIV_SPEC_CLASS_DRAFT),
    (''hpmcounter30h'', 0xc9e, PRIV_SPEC_CLASS_1P10, PRIV_SPEC_CLASS_DRAFT),
    (''hpmcounter31h'', 0xc9f, PRIV_SPEC_CLASS_1P10, PRIV_SPEC_CLASS_DRAFT),
    (''sstatus'', 0x100, PRIV_SPEC_CLASS_1P10, PRIV_SPEC_CLASS_DRAFT),
    (''sie'', 0x104, PRIV_SPEC_CLASS_1P10, PRIV_SPEC_CLASS_DRAFT),
    (''stvec'', 0x105, PRIV_SPEC_CLASS_1P10, PRIV_SPEC_CLASS_DRAFT),
    (''scounteren'', 0x106, PRIV_SPEC_CLASS_1P10, PRIV_SPEC_CLASS_DRAFT),
    (''senvcfg'', 0x10a, PRIV_SPEC_CLASS_1P12, PRIV_SPEC_CLASS_DRAFT),
    (''sscratch'', 0x140, PRIV_SPEC_CLASS_1P10, PRIV_SPEC_CLASS_DRAFT),
    (''sepc'', 0x141, PRIV_SPEC_CLASS_1P10, PRIV_SPEC_CLASS_DRAFT),
    (''scause'', 0x142, PRIV_SPEC_CLASS_1P10, PRIV_SPEC_CLASS_DRAFT),
    (''stval'', 0x143, PRIV_SPEC_CLASS_1P10, PRIV_SPEC_CLASS_DRAFT),
    (''sip'', 0x144, PRIV_SPEC_CLASS_1P10, PRIV_SPEC_CLASS_DRAFT),
    (''satp'', 0x180, PRIV_SPEC_CLASS_1P10, PRIV_SPEC_CLASS_DRAFT),
    (''mvendorid'', 0xf11, PRIV_SPEC_CLASS_1P10, PRIV_SPEC_CLASS_DRAFT),
    (''marchid'', 0xf12, PRIV_SPEC_CLASS_1P10, PRIV_SPEC_CLASS_DRAFT),
    (''mimpid'', 0xf13, PRIV_SPEC_CLASS_1P10, PRIV_SPEC_CLASS_DRAFT),
    (''mhartid'', 0xf14, PRIV_SPEC_CLASS_1P10, PRIV_SPEC_CLASS_DRAFT),
    (''mconfigptr'', 0xf15, PRIV_SPEC_CLASS_1P12, PRIV_SPEC_CLASS_DRAFT),
    (''mstatus'', 0x300, PRIV_SPEC_CLASS_1P10, PRIV_SPEC_CLASS_DRAFT),
    (''misa'', 0x301, PRIV_SPEC_CLASS_1P10, PRIV_SPEC_CLASS_DRAFT),
    (''medeleg'', 0x302, PRIV_SPEC_CLASS_1P10, PRIV_SPEC_CLASS_DRAFT),
    (''mideleg'', 0x303, PRIV_SPEC_CLASS_1P10, PRIV_SPEC_CLASS_DRAFT),
    (''mie'', 0x304, PRIV_SPEC_CLASS_1P10, PRIV_SPEC_CLASS_DRAFT),
    (''mtvec'', 0x305, PRIV_SPEC_CLASS_1P10, PRIV_SPEC_CLASS_DRAFT),
    (''mcounteren'', 0x306, PRIV_SPEC_CLASS_1P10, PRIV_SPEC_CLASS_DRAFT),
    (''mstatush'', 0x310, PRIV_SPEC_CLASS_1P12, PRIV_SPEC_CLASS_DRAFT),
    (''mscratch'', 0x340, PRIV_SPEC_CLASS_1P10, PRIV_SPEC_CLASS_DRAFT),
    (''mepc'', 0x341, PRIV_SPEC_CLASS_1P10, PRIV_SPEC_CLASS_DRAFT),
    (''mcause'', 0x342, PRIV_SPEC_CLASS_1P10, PRIV_SPEC_CLASS_DRAFT),
    (''mtval'', 0x343, PRIV_SPEC_CLASS_1P10, PRIV_SPEC_CLASS_DRAFT),
    (''mip'', 0x344, PRIV_SPEC_CLASS_1P10, PRIV_SPEC_CLASS_DRAFT),
    (''mtinst'', 0x34a, PRIV_SPEC_CLASS_1P12, PRIV_SPEC_CLASS_DRAFT),
    (''mtval2'', 0x34b, PRIV_SPEC_CLASS_1P12, PRIV_SPEC_CLASS_DRAFT),
    (''menvcfg'', 0x30a, PRIV_SPEC_CLASS_1P12, PRIV_SPEC_CLASS_DRAFT),
    (''menvcfgh'', 0x31a, PRIV_SPEC_CLASS_1P12, PRIV_SPEC_CLASS_DRAFT),
    (''mseccfg'', 0x747, PRIV_SPEC_CLASS_1P12, PRIV_SPEC_CLASS_DRAFT),
    (''mseccfgh'', 0x757, PRIV_SPEC_CLASS_1P12, PRIV_SPEC_CLASS_DRAFT),
    (''pmpcfg0'', 0x3a0, PRIV_SPEC_CLASS_1P10, PRIV_SPEC_CLASS_DRAFT),
    (''pmpcfg1'', 0x3a1, PRIV_SPEC_CLASS_1P10, PRIV_SPEC_CLASS_DRAFT),
    (''pmpcfg2'', 0x3a2, PRIV_SPEC_CLASS_1P10, PRIV_SPEC_CLASS_DRAFT),
    (''pmpcfg3'', 0x3a3, PRIV_SPEC_CLASS_1P10, PRIV_SPEC_CLASS_DRAFT),
    (''pmpcfg4'', 0x3a4, PRIV_SPEC_CLASS_1P12, PRIV_SPEC_CLASS_DRAFT),
    (''pmpcfg5'', 0x3a5, PRIV_SPEC_CLASS_1P12, PRIV_SPEC_CLASS_DRAFT),
    (''pmpcfg6'', 0x3a6, PRIV_SPEC_CLASS_1P12, PRIV_SPEC_CLASS_DRAFT),
    (''pmpcfg7'', 0x3a7, PRIV_SPEC_CLASS_1P12, PRIV_SPEC_CLASS_DRAFT),
    (''pmpcfg8'', 0x3a8, PRIV_SPEC_CLASS_1P12, PRIV_SPEC_CLASS_DRAFT),
    (''pmpcfg9'', 0x3a9, PRIV_SPEC_CLASS_1P12, PRIV_SPEC_CLASS_DRAFT),
    (''pmpcfg10'', 0x3aa, PRIV_SPEC_CLASS_1P12, PRIV_SPEC_CLASS_DRAFT),
    (''pmpcfg11'', 0x3ab, PRIV_SPEC_CLASS_1P12, PRIV_SPEC_CLASS_DRAFT),
    (''pmpcfg12'', 0x3ac, PRIV_SPEC_CLASS_1P12, PRIV_SPEC_CLASS_DRAFT),
    (''pmpcfg13'', 0x3ad, PRIV_SPEC_CLASS_1P12, PRIV_SPEC_CLASS_DRAFT),
    (''pmpcfg14'', 0x3ae, PRIV_SPEC_CLASS_1P12, PRIV_SPEC_CLASS_DRAFT),
    (''pmpcfg15'', 0x3af, PRIV_SPEC_CLASS_1P12, PRIV_SPEC_CLASS_DRAFT),
    (''pmpaddr0'', 0x3b0, PRIV_SPEC_CLASS_1P10, PRIV_SPEC_CLASS_DRAFT),
    (''pmpaddr1'', 0x3b1, PRIV_SPEC_CLASS_1P10, PRIV_SPEC_CLASS_DRAFT),
    (''pmpaddr2'', 0x3b2, PRIV_SPEC_CLASS_1P10, PRIV_SPEC_CLASS_DRAFT),
    (''pmpaddr3'', 0x3b3, PRIV_SPEC_CLASS_1P10, PRIV_SPEC_CLASS_DRAFT),
    (''pmpaddr4'', 0x3b4, PRIV_SPEC_CLASS_1P10, PRIV_SPEC_CLASS_DRAFT),
    (''pmpaddr5'', 0x3b5, PRIV_SPEC_CLASS_1P10, PRIV_SPEC_CLASS_DRAFT),
    (''pmpaddr6'', 0x3b6, PRIV_SPEC_CLASS_1P10, PRIV_SPEC_CLASS_DRAFT),
    (''pmpaddr7'', 0x3b7, PRIV_SPEC_CLASS_1P10, PRIV_SPEC_CLASS_DRAFT),
    (''pmpaddr8'', 0x3b8, PRIV_SPEC_CLASS_1P10, PRIV_SPEC_CLASS_DRAFT),
    (''pmpaddr9'', 0x3b9, PRIV_SPEC_CLASS_1P10, PRIV_SPEC_CLASS_DRAFT),
    (''pmpaddr10'', 0x3ba, PRIV_SPEC_CLASS_1P10, PRIV_SPEC_CLASS_DRAFT),
    (''pmpaddr11'', 0x3bb, PRIV_SPEC_CLASS_1P10, PRIV_SPEC_CLASS_DRAFT),
    (''pmpaddr12'', 0x3bc, PRIV_SPEC_CLASS_1P10, PRIV_SPEC_CLASS_DRAFT),
    (''pmpaddr13'', 0x3bd, PRIV_SPEC_CLASS_1P10, PRIV_SPEC_CLASS_DRAFT),
    (''pmpaddr14'', 0x3be, PRIV_SPEC_CLASS_1P10, PRIV_SPEC_CLASS_DRAFT),
    (''pmpaddr15'', 0x3bf, PRIV_SPEC_CLASS_1P10, PRIV_SPEC_CLASS_DRAFT),
    (''pmpaddr16'', 0x3c0, PRIV_SPEC_CLASS_1P12, PRIV_SPEC_CLASS_DRAFT),
    (''pmpaddr17'', 0x3c1, PRIV_SPEC_CLASS_1P12, PRIV_SPEC_CLASS_DRAFT),
    (''pmpaddr18'', 0x3c2, PRIV_SPEC_CLASS_1P12, PRIV_SPEC_CLASS_DRAFT),
    (''pmpaddr19'', 0x3c3, PRIV_SPEC_CLASS_1P12, PRIV_SPEC_CLASS_DRAFT),
    (''pmpaddr20'', 0x3c4, PRIV_SPEC_CLASS_1P12, PRIV_SPEC_CLASS_DRAFT),
    (''pmpaddr21'', 0x3c5, PRIV_SPEC_CLASS_1P12, PRIV_SPEC_CLASS_DRAFT),
    (''pmpaddr22'', 0x3c6, PRIV_SPEC_CLASS_1P12, PRIV_SPEC_CLASS_DRAFT),
    (''pmpaddr23'', 0x3c7, PRIV_SPEC_CLASS_1P12, PRIV_SPEC_CLASS_DRAFT),
    (''pmpaddr24'', 0x3c8, PRIV_SPEC_CLASS_1P12, PRIV_SPEC_CLASS_DRAFT),
    (''pmpaddr25'', 0x3c9, PRIV_SPEC_CLASS_1P12, PRIV_SPEC_CLASS_DRAFT),
    (''pmpaddr26'', 0x3ca, PRIV_SPEC_CLASS_1P12, PRIV_SPEC_CLASS_DRAFT),
    (''pmpaddr27'', 0x3cb, PRIV_SPEC_CLASS_1P12, PRIV_SPEC_CLASS_DRAFT),
    (''pmpaddr28'', 0x3cc, PRIV_SPEC_CLASS_1P12, PRIV_SPEC_CLASS_DRAFT),
    (''pmpaddr29'', 0x3cd, PRIV_SPEC_CLASS_1P12, PRIV_SPEC_CLASS_DRAFT),
    (''pmpaddr30'', 0x3ce, PRIV_SPEC_CLASS_1P12, PRIV_SPEC_CLASS_DRAFT),
    (''pmpaddr31'', 0x3cf, PRIV_SPEC_CLASS_1P12, PRIV_SPEC_CLASS_DRAFT),
    (''pmpaddr32'', 0x3d0, PRIV_SPEC_CLASS_1P12, PRIV_SPEC_CLASS_DRAFT)]"

definition riscv_csrs_2 :: "csr_decl list" where
  "riscv_csrs_2 = [
    (''pmpaddr33'', 0x3d1, PRIV_SPEC_CLASS_1P12, PRIV_SPEC_CLASS_DRAFT),
    (''pmpaddr34'', 0x3d2, PRIV_SPEC_CLASS_1P12, PRIV_SPEC_CLASS_DRAFT),
    (''pmpaddr35'', 0x3d3, PRIV_SPEC_CLASS_1P12, PRIV_SPEC_CLASS_DRAFT),
    (''pmpaddr36'', 0x3d4, PRIV_SPEC_CLASS_1P12, PRIV_SPEC_CLASS_DRAFT),
    (''pmpaddr37'', 0x3d5, PRIV_SPEC_CLASS_1P12, PRIV_SPEC_CLASS_DRAFT),
    (''pmpaddr38'', 0x3d6, PRIV_SPEC_CLASS_1P12, PRIV_SPEC_CLASS_DRAFT),
    (''pmpaddr39'', 0x3d7, PRIV_SPEC_CLASS_1P12, PRIV_SPEC_CLASS_DRAFT),
    (''pmpaddr40'', 0x3d8, PRIV_SPEC_CLASS_1P12, PRIV_SPEC_CLASS_DRAFT),
    (''pmpaddr41'', 0x3d9, PRIV_SPEC_CLASS_1P12, PRIV_SPEC_CLASS_DRAFT),
    (''pmpaddr42'', 0x3da, PRIV_SPEC_CLASS_1P12, PRIV_SPEC_CLASS_DRAFT),
    (''pmpaddr43'', 0x3db, PRIV_SPEC_CLASS_1P12, PRIV_SPEC_CLASS_DRAFT),
    (''pmpaddr44'', 0x3dc, PRIV_SPEC_CLASS_1P12, PRIV_SPEC_CLASS_DRAFT),
    (''pmpaddr45'', 0x3dd, PRIV_SPEC_CLASS_1P12, PRIV_SPEC_CLASS_DRAFT),
    (''pmpaddr46'', 0x3de, PRIV_SPEC_CLASS_1P12, PRIV_SPEC_CLASS_DRAFT),
    (''pmpaddr47'', 0x3df, PRIV_SPEC_CLASS_1P12, PRIV_SPEC_CLASS_DRAFT),
    (''pmpaddr48'', 0x3e0, PRIV_SPEC_CLASS_1P12, PRIV_SPEC_CLASS_DRAFT),
    (''pmpaddr49'', 0x3e1, PRIV_SPEC_CLASS_1P12, PRIV_SPEC_CLASS_DRAFT),
    (''pmpaddr50'', 0x3e2, PRIV_SPEC_CLASS_1P12, PRIV_SPEC_CLASS_DRAFT),
    (''pmpaddr51'', 0x3e3, PRIV_SPEC_CLASS_1P12, PRIV_SPEC_CLASS_DRAFT),
    (''pmpaddr52'', 0x3e4, PRIV_SPEC_CLASS_1P12, PRIV_SPEC_CLASS_DRAFT),
    (''pmpaddr53'', 0x3e5, PRIV_SPEC_CLASS_1P12, PRIV_SPEC_CLASS_DRAFT),
    (''pmpaddr54'', 0x3e6, PRIV_SPEC_CLASS_1P12, PRIV_SPEC_CLASS_DRAFT),
    (''pmpaddr55'', 0x3e7, PRIV_SPEC_CLASS_1P12, PRIV_SPEC_CLASS_DRAFT),
    (''pmpaddr56'', 0x3e8, PRIV_SPEC_CLASS_1P12, PRIV_SPEC_CLASS_DRAFT),
    (''pmpaddr57'', 0x3e9, PRIV_SPEC_CLASS_1P12, PRIV_SPEC_CLASS_DRAFT),
    (''pmpaddr58'', 0x3ea, PRIV_SPEC_CLASS_1P12, PRIV_SPEC_CLASS_DRAFT),
    (''pmpaddr59'', 0x3eb, PRIV_SPEC_CLASS_1P12, PRIV_SPEC_CLASS_DRAFT),
    (''pmpaddr60'', 0x3ec, PRIV_SPEC_CLASS_1P12, PRIV_SPEC_CLASS_DRAFT),
    (''pmpaddr61'', 0x3ed, PRIV_SPEC_CLASS_1P12, PRIV_SPEC_CLASS_DRAFT),
    (''pmpaddr62'', 0x3ee, PRIV_SPEC_CLASS_1P12, PRIV_SPEC_CLASS_DRAFT),
    (''pmpaddr63'', 0x3ef, PRIV_SPEC_CLASS_1P12, PRIV_SPEC_CLASS_DRAFT),
    (''mcycle'', 0xb00, PRIV_SPEC_CLASS_1P10, PRIV_SPEC_CLASS_DRAFT),
    (''minstret'', 0xb02, PRIV_SPEC_CLASS_1P10, PRIV_SPEC_CLASS_DRAFT),
    (''mhpmcounter3'', 0xb03, PRIV_SPEC_CLASS_1P10, PRIV_SPEC_CLASS_DRAFT),
    (''mhpmcounter4'', 0xb04, PRIV_SPEC_CLASS_1P10, PRIV_SPEC_CLASS_DRAFT),
    (''mhpmcounter5'', 0xb05, PRIV_SPEC_CLASS_1P10, PRIV_SPEC_CLASS_DRAFT),
    (''mhpmcounter6'', 0xb06, PRIV_SPEC_CLASS_1P10, PRIV_SPEC_CLASS_DRAFT),
    (''mhpmcounter7'', 0xb07, PRIV_SPEC_CLASS_1P10, PRIV_SPEC_CLASS_DRAFT),
    (''mhpmcounter8'', 0xb08, PRIV_SPEC_CLASS_1P10, PRIV_SPEC_CLASS_DRAFT),
    (''mhpmcounter9'', 0xb09, PRIV_SPEC_CLASS_1P10, PRIV_SPEC_CLASS_DRAFT),
    (''mhpmcounter10'', 0xb0a, PRIV_SPEC_CLASS_1P10, PRIV_SPEC_CLASS_DRAFT),
    (''mhpmcounter11'', 0xb0b, PRIV_SPEC_CLASS_1P10, PRIV_SPEC_CLASS_DRAFT),
    (''mhpmcounter12'', 0xb0c, PRIV_SPEC_CLASS_1P10, PRIV_SPEC_CLASS_DRAFT),
    (''mhpmcounter13'', 0xb0d, PRIV_SPEC_CLASS_1P10, PRIV_SPEC_CLASS_DRAFT),
    (''mhpmcounter14'', 0xb0e, PRIV_SPEC_CLASS_1P10, PRIV_SPEC_CLASS_DRAFT),
    (''mhpmcounter15'', 0xb0f, PRIV_SPEC_CLASS_1P10, PRIV_SPEC_CLASS_DRAFT),
    (''mhpmcounter16'', 0xb10, PRIV_SPEC_CLASS_1P10, PRIV_SPEC_CLASS_DRAFT),
    (''mhpmcounter17'', 0xb11, PRIV_SPEC_CLASS_1P10, PRIV_SPEC_CLASS_DRAFT),
    (''mhpmcounter18'', 0xb12, PRIV_SPEC_CLASS_1P10, PRIV_SPEC_CLASS_DRAFT),
    (''mhpmcounter19'', 0xb13, PRIV_SPEC_CLASS_1P10, PRIV_SPEC_CLASS_DRAFT),
    (''mhpmcounter20'', 0xb14, PRIV_SPEC_CLASS_1P10, PRIV_SPEC_CLASS_DRAFT),
    (''mhpmcounter21'', 0xb15, PRIV_SPEC_CLASS_1P10, PRIV_SPEC_CLASS_DRAFT),
    (''mhpmcounter22'', 0xb16, PRIV_SPEC_CLASS_1P10, PRIV_SPEC_CLASS_DRAFT),
    (''mhpmcounter23'', 0xb17, PRIV_SPEC_CLASS_1P10, PRIV_SPEC_CLASS_DRAFT),
    (''mhpmcounter24'', 0xb18, PRIV_SPEC_CLASS_1P10, PRIV_SPEC_CLASS_DRAFT),
    (''mhpmcounter25'', 0xb19, PRIV_SPEC_CLASS_1P10, PRIV_SPEC_CLASS_DRAFT),
    (''mhpmcounter26'', 0xb1a, PRIV_SPEC_CLASS_1P10, PRIV_SPEC_CLASS_DRAFT),
    (''mhpmcounter27'', 0xb1b, PRIV_SPEC_CLASS_1P10, PRIV_SPEC_CLASS_DRAFT),
    (''mhpmcounter28'', 0xb1c, PRIV_SPEC_CLASS_1P10, PRIV_SPEC_CLASS_DRAFT),
    (''mhpmcounter29'', 0xb1d, PRIV_SPEC_CLASS_1P10, PRIV_SPEC_CLASS_DRAFT),
    (''mhpmcounter30'', 0xb1e, PRIV_SPEC_CLASS_1P10, PRIV_SPEC_CLASS_DRAFT),
    (''mhpmcounter31'', 0xb1f, PRIV_SPEC_CLASS_1P10, PRIV_SPEC_CLASS_DRAFT),
    (''mcycleh'', 0xb80, PRIV_SPEC_CLASS_1P10, PRIV_SPEC_CLASS_DRAFT),
    (''minstreth'', 0xb82, PRIV_SPEC_CLASS_1P10, PRIV_SPEC_CLASS_DRAFT),
    (''mhpmcounter3h'', 0xb83, PRIV_SPEC_CLASS_1P10, PRIV_SPEC_CLASS_DRAFT),
    (''mhpmcounter4h'', 0xb84, PRIV_SPEC_CLASS_1P10, PRIV_SPEC_CLASS_DRAFT),
    (''mhpmcounter5h'', 0xb85, PRIV_SPEC_CLASS_1P10, PRIV_SPEC_CLASS_DRAFT),
    (''mhpmcounter6h'', 0xb86, PRIV_SPEC_CLASS_1P10, PRIV_SPEC_CLASS_DRAFT),
    (''mhpmcounter7h'', 0xb87, PRIV_SPEC_CLASS_1P10, PRIV_SPEC_CLASS_DRAFT),
    (''mhpmcounter8h'', 0xb88, PRIV_SPEC_CLASS_1P10, PRIV_SPEC_CLASS_DRAFT),
    (''mhpmcounter9h'', 0xb89, PRIV_SPEC_CLASS_1P10, PRIV_SPEC_CLASS_DRAFT),
    (''mhpmcounter10h'', 0xb8a, PRIV_SPEC_CLASS_1P10, PRIV_SPEC_CLASS_DRAFT),
    (''mhpmcounter11h'', 0xb8b, PRIV_SPEC_CLASS_1P10, PRIV_SPEC_CLASS_DRAFT),
    (''mhpmcounter12h'', 0xb8c, PRIV_SPEC_CLASS_1P10, PRIV_SPEC_CLASS_DRAFT),
    (''mhpmcounter13h'', 0xb8d, PRIV_SPEC_CLASS_1P10, PRIV_SPEC_CLASS_DRAFT),
    (''mhpmcounter14h'', 0xb8e, PRIV_SPEC_CLASS_1P10, PRIV_SPEC_CLASS_DRAFT),
    (''mhpmcounter15h'', 0xb8f, PRIV_SPEC_CLASS_1P10, PRIV_SPEC_CLASS_DRAFT),
    (''mhpmcounter16h'', 0xb90, PRIV_SPEC_CLASS_1P10, PRIV_SPEC_CLASS_DRAFT),
    (''mhpmcounter17h'', 0xb91, PRIV_SPEC_CLASS_1P10, PRIV_SPEC_CLASS_DRAFT),
    (''mhpmcounter18h'', 0xb92, PRIV_SPEC_CLASS_1P10, PRIV_SPEC_CLASS_DRAFT),
    (''mhpmcounter19h'', 0xb93, PRIV_SPEC_CLASS_1P10, PRIV_SPEC_CLASS_DRAFT),
    (''mhpmcounter20h'', 0xb94, PRIV_SPEC_CLASS_1P10, PRIV_SPEC_CLASS_DRAFT),
    (''mhpmcounter21h'', 0xb95, PRIV_SPEC_CLASS_1P10, PRIV_SPEC_CLASS_DRAFT),
    (''mhpmcounter22h'', 0xb96, PRIV_SPEC_CLASS_1P10, PRIV_SPEC_CLASS_DRAFT),
    (''mhpmcounter23h'', 0xb97, PRIV_SPEC_CLASS_1P10, PRIV_SPEC_CLASS_DRAFT),
    (''mhpmcounter24h'', 0xb98, PRIV_SPEC_CLASS_1P10, PRIV_SPEC_CLASS_DRAFT),
    (''mhpmcounter25h'', 0xb99, PRIV_SPEC_CLASS_1P10, PRIV_SPEC_CLASS_DRAFT),
    (''mhpmcounter26h'', 0xb9a, PRIV_SPEC_CLASS_1P10, PRIV_SPEC_CLASS_DRAFT),
    (''mhpmcounter27h'', 0xb9b, PRIV_SPEC_CLASS_1P10, PRIV_SPEC_CLASS_DRAFT),
    (''mhpmcounter28h'', 0xb9c, PRIV_SPEC_CLASS_1P10, PRIV_SPEC_CLASS_DRAFT),
    (''mhpmcounter29h'', 0xb9d, PRIV_SPEC_CLASS_1P10, PRIV_SPEC_CLASS_DRAFT),
    (''mhpmcounter30h'', 0xb9e, PRIV_SPEC_CLASS_1P10, PRIV_SPEC_CLASS_DRAFT),
    (''mhpmcounter31h'', 0xb9f, PRIV_SPEC_CLASS_1P10, PRIV_SPEC_CLASS_DRAFT),
    (''mcountinhibit'', 0x320, PRIV_SPEC_CLASS_1P11, PRIV_SPEC_CLASS_DRAFT),
    (''mhpmevent3'', 0x323, PRIV_SPEC_CLASS_1P10, PRIV_SPEC_CLASS_DRAFT),
    (''mhpmevent4'', 0x324, PRIV_SPEC_CLASS_1P10, PRIV_SPEC_CLASS_DRAFT),
    (''mhpmevent5'', 0x325, PRIV_SPEC_CLASS_1P10, PRIV_SPEC_CLASS_DRAFT),
    (''mhpmevent6'', 0x326, PRIV_SPEC_CLASS_1P10, PRIV_SPEC_CLASS_DRAFT),
    (''mhpmevent7'', 0x327, PRIV_SPEC_CLASS_1P10, PRIV_SPEC_CLASS_DRAFT),
    (''mhpmevent8'', 0x328, PRIV_SPEC_CLASS_1P10, PRIV_SPEC_CLASS_DRAFT),
    (''mhpmevent9'', 0x329, PRIV_SPEC_CLASS_1P10, PRIV_SPEC_CLASS_DRAFT),
    (''mhpmevent10'', 0x32a, PRIV_SPEC_CLASS_1P10, PRIV_SPEC_CLASS_DRAFT),
    (''mhpmevent11'', 0x32b, PRIV_SPEC_CLASS_1P10, PRIV_SPEC_CLASS_DRAFT),
    (''mhpmevent12'', 0x32c, PRIV_SPEC_CLASS_1P10, PRIV_SPEC_CLASS_DRAFT),
    (''mhpmevent13'', 0x32d, PRIV_SPEC_CLASS_1P10, PRIV_SPEC_CLASS_DRAFT),
    (''mhpmevent14'', 0x32e, PRIV_SPEC_CLASS_1P10, PRIV_SPEC_CLASS_DRAFT),
    (''mhpmevent15'', 0x32f, PRIV_SPEC_CLASS_1P10, PRIV_SPEC_CLASS_DRAFT),
    (''mhpmevent16'', 0x330, PRIV_SPEC_CLASS_1P10, PRIV_SPEC_CLASS_DRAFT),
    (''mhpmevent17'', 0x331, PRIV_SPEC_CLASS_1P10, PRIV_SPEC_CLASS_DRAFT),
    (''mhpmevent18'', 0x332, PRIV_SPEC_CLASS_1P10, PRIV_SPEC_CLASS_DRAFT),
    (''mhpmevent19'', 0x333, PRIV_SPEC_CLASS_1P10, PRIV_SPEC_CLASS_DRAFT),
    (''mhpmevent20'', 0x334, PRIV_SPEC_CLASS_1P10, PRIV_SPEC_CLASS_DRAFT),
    (''mhpmevent21'', 0x335, PRIV_SPEC_CLASS_1P10, PRIV_SPEC_CLASS_DRAFT),
    (''mhpmevent22'', 0x336, PRIV_SPEC_CLASS_1P10, PRIV_SPEC_CLASS_DRAFT),
    (''mhpmevent23'', 0x337, PRIV_SPEC_CLASS_1P10, PRIV_SPEC_CLASS_DRAFT),
    (''mhpmevent24'', 0x338, PRIV_SPEC_CLASS_1P10, PRIV_SPEC_CLASS_DRAFT),
    (''mhpmevent25'', 0x339, PRIV_SPEC_CLASS_1P10, PRIV_SPEC_CLASS_DRAFT),
    (''mhpmevent26'', 0x33a, PRIV_SPEC_CLASS_1P10, PRIV_SPEC_CLASS_DRAFT),
    (''mhpmevent27'', 0x33b, PRIV_SPEC_CLASS_1P10, PRIV_SPEC_CLASS_DRAFT),
    (''mhpmevent28'', 0x33c, PRIV_SPEC_CLASS_1P10, PRIV_SPEC_CLASS_DRAFT),
    (''mhpmevent29'', 0x33d, PRIV_SPEC_CLASS_1P10, PRIV_SPEC_CLASS_DRAFT),
    (''mhpmevent30'', 0x33e, PRIV_SPEC_CLASS_1P10, PRIV_SPEC_CLASS_DRAFT),
    (''mhpmevent31'', 0x33f, PRIV_SPEC_CLASS_1P10, PRIV_SPEC_CLASS_DRAFT),
    (''hstatus'', 0x600, PRIV_SPEC_CLASS_NONE, PRIV_SPEC_CLASS_NONE),
    (''hedeleg'', 0x602, PRIV_SPEC_CLASS_NONE, PRIV_SPEC_CLASS_NONE),
    (''hideleg'', 0x603, PRIV_SPEC_CLASS_NONE, PRIV_SPEC_CLASS_NONE),
    (''hie'', 0x604, PRIV_SPEC_CLASS_NONE, PRIV_SPEC_CLASS_NONE),
    (''hcounteren'', 0x606, PRIV_SPEC_CLASS_NONE, PRIV_SPEC_CLASS_NONE),
    (''hgeie'', 0x607, PRIV_SPEC_CLASS_NONE, PRIV_SPEC_CLASS_NONE),
    (''htval'', 0x643, PRIV_SPEC_CLASS_NONE, PRIV_SPEC_CLASS_NONE),
    (''hip'', 0x644, PRIV_SPEC_CLASS_NONE, PRIV_SPEC_CLASS_NONE),
    (''hvip'', 0x645, PRIV_SPEC_CLASS_NONE, PRIV_SPEC_CLASS_NONE),
    (''htinst'', 0x64a, PRIV_SPEC_CLASS_NONE, PRIV_SPEC_CLASS_NONE),
    (''hgeip'', 0xe12, PRIV_SPEC_CLASS_NONE, PRIV_SPEC_CLASS_NONE),
    (''henvcfg'', 0x60a, PRIV_SPEC_CLASS_NONE, PRIV_SPEC_CLASS_NONE),
    (''henvcfgh'', 0x61a, PRIV_SPEC_CLASS_NONE, PRIV_SPEC_CLASS_NONE),
    (''hgatp'', 0x680, PRIV_SPEC_CLASS_NONE, PRIV_SPEC_CLASS_NONE),
    (''htimedelta'', 0x605, PRIV_SPEC_CLASS_NONE, PRIV_SPEC_CLASS_NONE),
    (''htimedeltah'', 0x615, PRIV_SPEC_CLASS_NONE, PRIV_SPEC_CLASS_NONE),
    (''vsstatus'', 0x200, PRIV_SPEC_CLASS_NONE, PRIV_SPEC_CLASS_NONE),
    (''vsie'', 0x204, PRIV_SPEC_CLASS_NONE, PRIV_SPEC_CLASS_NONE),
    (''vstvec'', 0x205, PRIV_SPEC_CLASS_NONE, PRIV_SPEC_CLASS_NONE),
    (''vsscratch'', 0x240, PRIV_SPEC_CLASS_NONE, PRIV_SPEC_CLASS_NONE),
    (''vsepc'', 0x241, PRIV_SPEC_CLASS_NONE, PRIV_SPEC_CLASS_NONE),
    (''vscause'', 0x242, PRIV_SPEC_CLASS_NONE, PRIV_SPEC_CLASS_NONE),
    (''vstval'', 0x243, PRIV_SPEC_CLASS_NONE, PRIV_SPEC_CLASS_NONE),
    (''vsip'', 0x244, PRIV_SPEC_CLASS_NONE, PRIV_SPEC_CLASS_NONE),
    (''vsatp'', 0x280, PRIV_SPEC_CLASS_NONE, PRIV_SPEC_CLASS_NONE)]"

definition riscv_csrs_3 :: "csr_decl list" where
  "riscv_csrs_3 = [
    (''miselect'', 0x350, PRIV_SPEC_CLASS_NONE, PRIV_SPEC_CLASS_NONE),
    (''mireg'', 0x351, PRIV_SPEC_CLASS_NONE, PRIV_SPEC_CLASS_NONE),
    (''mtopei'', 0x35c, PRIV_SPEC_CLASS_NONE, PRIV_SPEC_CLASS_NONE),
    (''mtopi'', 0xfb0, PRIV_SPEC_CLASS_NONE, PRIV_SPEC_CLASS_NONE),
    (''mvien'', 0x308, PRIV_SPEC_CLASS_NONE, PRIV_SPEC_CLASS_NONE),
    (''mvip'', 0x309, PRIV_SPEC_CLASS_NONE, PRIV_SPEC_CLASS_NONE),
    (''midelegh'', 0x313, PRIV_SPEC_CLASS_NONE, PRIV_SPEC_CLASS_NONE),
    (''mieh'', 0x314, PRIV_SPEC_CLASS_NONE, PRIV_SPEC_CLASS_NONE),
    (''mvienh'', 0x318, PRIV_SPEC_CLASS_NONE, PRIV_SPEC_CLASS_NONE),
    (''mviph'', 0x319, PRIV_SPEC_CLASS_NONE, PRIV_SPEC_CLASS_NONE),
    (''miph'', 0x354, PRIV_SPEC_CLASS_NONE, PRIV_SPEC_CLASS_NONE),
    (''mireg2'', 0x352, PRIV_SPEC_CLASS_NONE, PRIV_SPEC_CLASS_NONE),
    (''mireg3'', 0x353, PRIV_SPEC_CLASS_NONE, PRIV_SPEC_CLASS_NONE),
    (''mireg4'', 0x355, PRIV_SPEC_CLASS_NONE, PRIV_SPEC_CLASS_NONE),
    (''mireg5'', 0x356, PRIV_SPEC_CLASS_NONE, PRIV_SPEC_CLASS_NONE),
    (''mireg6'', 0x357, PRIV_SPEC_CLASS_NONE, PRIV_SPEC_CLASS_NONE),
    (''mcyclecfg'', 0x321, PRIV_SPEC_CLASS_1P10, PRIV_SPEC_CLASS_DRAFT),
    (''minstretcfg'', 0x322, PRIV_SPEC_CLASS_1P10, PRIV_SPEC_CLASS_DRAFT),
    (''mcyclecfgh'', 0x721, PRIV_SPEC_CLASS_1P10, PRIV_SPEC_CLASS_DRAFT),
    (''minstretcfgh'', 0x722, PRIV_SPEC_CLASS_1P10, PRIV_SPEC_CLASS_DRAFT),
    (''mstateen0'', 0x30c, PRIV_SPEC_CLASS_NONE, PRIV_SPEC_CLASS_NONE),
    (''mstateen1'', 0x30d, PRIV_SPEC_CLASS_NONE, PRIV_SPEC_CLASS_NONE),
    (''mstateen2'', 0x30e, PRIV_SPEC_CLASS_NONE, PRIV_SPEC_CLASS_NONE),
    (''mstateen3'', 0x30f, PRIV_SPEC_CLASS_NONE, PRIV_SPEC_CLASS_NONE),
    (''sstateen0'', 0x10c, PRIV_SPEC_CLASS_NONE, PRIV_SPEC_CLASS_NONE),
    (''sstateen1'', 0x10d, PRIV_SPEC_CLASS_NONE, PRIV_SPEC_CLASS_NONE),
    (''sstateen2'', 0x10e, PRIV_SPEC_CLASS_NONE, PRIV_SPEC_CLASS_NONE),
    (''sstateen3'', 0x10f, PRIV_SPEC_CLASS_NONE, PRIV_SPEC_CLASS_NONE),
    (''hstateen0'', 0x60c, PRIV_SPEC_CLASS_NONE, PRIV_SPEC_CLASS_NONE),
    (''hstateen1'', 0x60d, PRIV_SPEC_CLASS_NONE, PRIV_SPEC_CLASS_NONE),
    (''hstateen2'', 0x60e, PRIV_SPEC_CLASS_NONE, PRIV_SPEC_CLASS_NONE),
    (''hstateen3'', 0x60f, PRIV_SPEC_CLASS_NONE, PRIV_SPEC_CLASS_NONE),
    (''mstateen0h'', 0x31c, PRIV_SPEC_CLASS_NONE, PRIV_SPEC_CLASS_NONE),
    (''mstateen1h'', 0x31d, PRIV_SPEC_CLASS_NONE, PRIV_SPEC_CLASS_NONE),
    (''mstateen2h'', 0x31e, PRIV_SPEC_CLASS_NONE, PRIV_SPEC_CLASS_NONE),
    (''mstateen3h'', 0x31f, PRIV_SPEC_CLASS_NONE, PRIV_SPEC_CLASS_NONE),
    (''hstateen0h'', 0x61c, PRIV_SPEC_CLASS_NONE, PRIV_SPEC_CLASS_NONE),
    (''hstateen1h'', 0x61d, PRIV_SPEC_CLASS_NONE, PRIV_SPEC_CLASS_NONE),
    (''hstateen2h'', 0x61e, PRIV_SPEC_CLASS_NONE, PRIV_SPEC_CLASS_NONE),
    (''hstateen3h'', 0x61f, PRIV_SPEC_CLASS_NONE, PRIV_SPEC_CLASS_NONE),
    (''siselect'', 0x150, PRIV_SPEC_CLASS_NONE, PRIV_SPEC_CLASS_NONE),
    (''sireg'', 0x151, PRIV_SPEC_CLASS_NONE, PRIV_SPEC_CLASS_NONE),
    (''stopei'', 0x15c, PRIV_SPEC_CLASS_NONE, PRIV_SPEC_CLASS_NONE),
    (''stopi'', 0xdb0, PRIV_SPEC_CLASS_NONE, PRIV_SPEC_CLASS_NONE),
    (''sieh'', 0x114, PRIV_SPEC_CLASS_NONE, PRIV_SPEC_CLASS_NONE),
    (''siph'', 0x154, PRIV_SPEC_CLASS_NONE, PRIV_SPEC_CLASS_NONE),
    (''hvien'', 0x608, PRIV_SPEC_CLASS_NONE, PRIV_SPEC_CLASS_NONE),
    (''hvictl'', 0x609, PRIV_SPEC_CLASS_NONE, PRIV_SPEC_CLASS_NONE),
    (''hviprio1'', 0x646, PRIV_SPEC_CLASS_NONE, PRIV_SPEC_CLASS_NONE),
    (''hviprio2'', 0x647, PRIV_SPEC_CLASS_NONE, PRIV_SPEC_CLASS_NONE),
    (''vsiselect'', 0x250, PRIV_SPEC_CLASS_NONE, PRIV_SPEC_CLASS_NONE),
    (''vsireg'', 0x251, PRIV_SPEC_CLASS_NONE, PRIV_SPEC_CLASS_NONE),
    (''vstopei'', 0x25c, PRIV_SPEC_CLASS_NONE, PRIV_SPEC_CLASS_NONE),
    (''vstopi'', 0xeb0, PRIV_SPEC_CLASS_NONE, PRIV_SPEC_CLASS_NONE),
    (''hidelegh'', 0x613, PRIV_SPEC_CLASS_NONE, PRIV_SPEC_CLASS_NONE),
    (''hvienh'', 0x618, PRIV_SPEC_CLASS_NONE, PRIV_SPEC_CLASS_NONE),
    (''hviph'', 0x655, PRIV_SPEC_CLASS_NONE, PRIV_SPEC_CLASS_NONE),
    (''hviprio1h'', 0x656, PRIV_SPEC_CLASS_NONE, PRIV_SPEC_CLASS_NONE),
    (''hviprio2h'', 0x657, PRIV_SPEC_CLASS_NONE, PRIV_SPEC_CLASS_NONE),
    (''vsieh'', 0x214, PRIV_SPEC_CLASS_NONE, PRIV_SPEC_CLASS_NONE),
    (''vsiph'', 0x254, PRIV_SPEC_CLASS_NONE, PRIV_SPEC_CLASS_NONE),
    (''sireg2'', 0x152, PRIV_SPEC_CLASS_NONE, PRIV_SPEC_CLASS_NONE),
    (''sireg3'', 0x153, PRIV_SPEC_CLASS_NONE, PRIV_SPEC_CLASS_NONE),
    (''sireg4'', 0x155, PRIV_SPEC_CLASS_NONE, PRIV_SPEC_CLASS_NONE),
    (''sireg5'', 0x156, PRIV_SPEC_CLASS_NONE, PRIV_SPEC_CLASS_NONE),
    (''sireg6'', 0x157, PRIV_SPEC_CLASS_NONE, PRIV_SPEC_CLASS_NONE),
    (''vsireg2'', 0x252, PRIV_SPEC_CLASS_NONE, PRIV_SPEC_CLASS_NONE),
    (''vsireg3'', 0x253, PRIV_SPEC_CLASS_NONE, PRIV_SPEC_CLASS_NONE),
    (''vsireg4'', 0x255, PRIV_SPEC_CLASS_NONE, PRIV_SPEC_CLASS_NONE),
    (''vsireg5'', 0x256, PRIV_SPEC_CLASS_NONE, PRIV_SPEC_CLASS_NONE),
    (''vsireg6'', 0x257, PRIV_SPEC_CLASS_NONE, PRIV_SPEC_CLASS_NONE),
    (''scountovf'', 0xda0, PRIV_SPEC_CLASS_NONE, PRIV_SPEC_CLASS_NONE),
    (''mhpmevent3h'', 0x723, PRIV_SPEC_CLASS_NONE, PRIV_SPEC_CLASS_NONE),
    (''mhpmevent4h'', 0x724, PRIV_SPEC_CLASS_NONE, PRIV_SPEC_CLASS_NONE),
    (''mhpmevent5h'', 0x725, PRIV_SPEC_CLASS_NONE, PRIV_SPEC_CLASS_NONE),
    (''mhpmevent6h'', 0x726, PRIV_SPEC_CLASS_NONE, PRIV_SPEC_CLASS_NONE),
    (''mhpmevent7h'', 0x727, PRIV_SPEC_CLASS_NONE, PRIV_SPEC_CLASS_NONE),
    (''mhpmevent8h'', 0x728, PRIV_SPEC_CLASS_NONE, PRIV_SPEC_CLASS_NONE),
    (''mhpmevent9h'', 0x729, PRIV_SPEC_CLASS_NONE, PRIV_SPEC_CLASS_NONE),
    (''mhpmevent10h'', 0x72a, PRIV_SPEC_CLASS_NONE, PRIV_SPEC_CLASS_NONE),
    (''mhpmevent11h'', 0x72b, PRIV_SPEC_CLASS_NONE, PRIV_SPEC_CLASS_NONE),
    (''mhpmevent12h'', 0x72c, PRIV_SPEC_CLASS_NONE, PRIV_SPEC_CLASS_NONE),
    (''mhpmevent13h'', 0x72d, PRIV_SPEC_CLASS_NONE, PRIV_SPEC_CLASS_NONE),
    (''mhpmevent14h'', 0x72e, PRIV_SPEC_CLASS_NONE, PRIV_SPEC_CLASS_NONE),
    (''mhpmevent15h'', 0x72f, PRIV_SPEC_CLASS_NONE, PRIV_SPEC_CLASS_NONE),
    (''mhpmevent16h'', 0x730, PRIV_SPEC_CLASS_NONE, PRIV_SPEC_CLASS_NONE),
    (''mhpmevent17h'', 0x731, PRIV_SPEC_CLASS_NONE, PRIV_SPEC_CLASS_NONE),
    (''mhpmevent18h'', 0x732, PRIV_SPEC_CLASS_NONE, PRIV_SPEC_CLASS_NONE),
    (''mhpmevent19h'', 0x733, PRIV_SPEC_CLASS_NONE, PRIV_SPEC_CLASS_NONE),
    (''mhpmevent20h'', 0x734, PRIV_SPEC_CLASS_NONE, PRIV_SPEC_CLASS_NONE),
    (''mhpmevent21h'', 0x735, PRIV_SPEC_CLASS_NONE, PRIV_SPEC_CLASS_NONE),
    (''mhpmevent22h'', 0x736, PRIV_SPEC_CLASS_NONE, PRIV_SPEC_CLASS_NONE),
    (''mhpmevent23h'', 0x737, PRIV_SPEC_CLASS_NONE, PRIV_SPEC_CLASS_NONE),
    (''mhpmevent24h'', 0x738, PRIV_SPEC_CLASS_NONE, PRIV_SPEC_CLASS_NONE),
    (''mhpmevent25h'', 0x739, PRIV_SPEC_CLASS_NONE, PRIV_SPEC_CLASS_NONE),
    (''mhpmevent26h'', 0x73a, PRIV_SPEC_CLASS_NONE, PRIV_SPEC_CLASS_NONE),
    (''mhpmevent27h'', 0x73b, PRIV_SPEC_CLASS_NONE, PRIV_SPEC_CLASS_NONE),
    (''mhpmevent28h'', 0x73c, PRIV_SPEC_CLASS_NONE, PRIV_SPEC_CLASS_NONE),
    (''mhpmevent29h'', 0x73d, PRIV_SPEC_CLASS_NONE, PRIV_SPEC_CLASS_NONE),
    (''mhpmevent30h'', 0x73e, PRIV_SPEC_CLASS_NONE, PRIV_SPEC_CLASS_NONE),
    (''mhpmevent31h'', 0x73f, PRIV_SPEC_CLASS_NONE, PRIV_SPEC_CLASS_NONE),
    (''stimecmp'', 0x14d, PRIV_SPEC_CLASS_NONE, PRIV_SPEC_CLASS_NONE),
    (''stimecmph'', 0x15d, PRIV_SPEC_CLASS_NONE, PRIV_SPEC_CLASS_NONE),
    (''vstimecmp'', 0x24d, PRIV_SPEC_CLASS_NONE, PRIV_SPEC_CLASS_NONE),
    (''vstimecmph'', 0x25d, PRIV_SPEC_CLASS_NONE, PRIV_SPEC_CLASS_NONE),
    (''ustatus'', 0x0, PRIV_SPEC_CLASS_1P10, PRIV_SPEC_CLASS_1P12),
    (''uie'', 0x4, PRIV_SPEC_CLASS_1P10, PRIV_SPEC_CLASS_1P12),
    (''utvec'', 0x5, PRIV_SPEC_CLASS_1P10, PRIV_SPEC_CLASS_1P12),
    (''uscratch'', 0x40, PRIV_SPEC_CLASS_1P10, PRIV_SPEC_CLASS_1P12),
    (''uepc'', 0x41, PRIV_SPEC_CLASS_1P10, PRIV_SPEC_CLASS_1P12),
    (''ucause'', 0x42, PRIV_SPEC_CLASS_1P10, PRIV_SPEC_CLASS_1P12),
    (''utval'', 0x43, PRIV_SPEC_CLASS_1P10, PRIV_SPEC_CLASS_1P12),
    (''uip'', 0x44, PRIV_SPEC_CLASS_1P10, PRIV_SPEC_CLASS_1P12),
    (''sedeleg'', 0x102, PRIV_SPEC_CLASS_1P10, PRIV_SPEC_CLASS_1P12),
    (''sideleg'', 0x103, PRIV_SPEC_CLASS_1P10, PRIV_SPEC_CLASS_1P12),
    (''fflags'', 0x1, PRIV_SPEC_CLASS_NONE, PRIV_SPEC_CLASS_NONE),
    (''frm'', 0x2, PRIV_SPEC_CLASS_NONE, PRIV_SPEC_CLASS_NONE),
    (''fcsr'', 0x3, PRIV_SPEC_CLASS_NONE, PRIV_SPEC_CLASS_NONE),
    (''dcsr'', 0x7b0, PRIV_SPEC_CLASS_NONE, PRIV_SPEC_CLASS_NONE),
    (''dpc'', 0x7b1, PRIV_SPEC_CLASS_NONE, PRIV_SPEC_CLASS_NONE),
    (''dscratch0'', 0x7b2, PRIV_SPEC_CLASS_NONE, PRIV_SPEC_CLASS_NONE),
    (''dscratch1'', 0x7b3, PRIV_SPEC_CLASS_NONE, PRIV_SPEC_CLASS_NONE),
    (''tselect'', 0x7a0, PRIV_SPEC_CLASS_NONE, PRIV_SPEC_CLASS_NONE),
    (''tdata1'', 0x7a1, PRIV_SPEC_CLASS_NONE, PRIV_SPEC_CLASS_NONE),
    (''tdata2'', 0x7a2, PRIV_SPEC_CLASS_NONE, PRIV_SPEC_CLASS_NONE),
    (''tdata3'', 0x7a3, PRIV_SPEC_CLASS_NONE, PRIV_SPEC_CLASS_NONE),
    (''tinfo'', 0x7a4, PRIV_SPEC_CLASS_NONE, PRIV_SPEC_CLASS_NONE),
    (''tcontrol'', 0x7a5, PRIV_SPEC_CLASS_NONE, PRIV_SPEC_CLASS_NONE),
    (''hcontext'', 0x6a8, PRIV_SPEC_CLASS_NONE, PRIV_SPEC_CLASS_NONE),
    (''scontext'', 0x5a8, PRIV_SPEC_CLASS_NONE, PRIV_SPEC_CLASS_NONE),
    (''mcontext'', 0x7a8, PRIV_SPEC_CLASS_NONE, PRIV_SPEC_CLASS_NONE),
    (''mscontext'', 0x7aa, PRIV_SPEC_CLASS_NONE, PRIV_SPEC_CLASS_NONE),
    (''seed'', 0x15, PRIV_SPEC_CLASS_NONE, PRIV_SPEC_CLASS_NONE),
    (''vstart'', 0x8, PRIV_SPEC_CLASS_NONE, PRIV_SPEC_CLASS_NONE),
    (''vxsat'', 0x9, PRIV_SPEC_CLASS_NONE, PRIV_SPEC_CLASS_NONE),
    (''vxrm'', 0xa, PRIV_SPEC_CLASS_NONE, PRIV_SPEC_CLASS_NONE),
    (''vcsr'', 0xf, PRIV_SPEC_CLASS_NONE, PRIV_SPEC_CLASS_NONE),
    (''vl'', 0xc20, PRIV_SPEC_CLASS_NONE, PRIV_SPEC_CLASS_NONE)]"

definition riscv_csrs_4 :: "csr_decl list" where
  "riscv_csrs_4 = [
    (''vtype'', 0xc21, PRIV_SPEC_CLASS_NONE, PRIV_SPEC_CLASS_NONE),
    (''vlenb'', 0xc22, PRIV_SPEC_CLASS_NONE, PRIV_SPEC_CLASS_NONE),
    (''dscratch'', 0x7b2, PRIV_SPEC_CLASS_NONE, PRIV_SPEC_CLASS_NONE),
    (''mcontrol'', 0x7a1, PRIV_SPEC_CLASS_NONE, PRIV_SPEC_CLASS_NONE),
    (''mcontrol6'', 0x7a1, PRIV_SPEC_CLASS_NONE, PRIV_SPEC_CLASS_NONE),
    (''icount'', 0x7a1, PRIV_SPEC_CLASS_NONE, PRIV_SPEC_CLASS_NONE),
    (''itrigger'', 0x7a1, PRIV_SPEC_CLASS_NONE, PRIV_SPEC_CLASS_NONE),
    (''etrigger'', 0x7a1, PRIV_SPEC_CLASS_NONE, PRIV_SPEC_CLASS_NONE),
    (''tmexttrigger'', 0x7a1, PRIV_SPEC_CLASS_NONE, PRIV_SPEC_CLASS_NONE),
    (''textra32'', 0x7a3, PRIV_SPEC_CLASS_NONE, PRIV_SPEC_CLASS_NONE),
    (''textra64'', 0x7a3, PRIV_SPEC_CLASS_NONE, PRIV_SPEC_CLASS_NONE),
    (''th.vstart'', 0x8, PRIV_SPEC_CLASS_NONE, PRIV_SPEC_CLASS_NONE),
    (''th.vxsat'', 0x9, PRIV_SPEC_CLASS_NONE, PRIV_SPEC_CLASS_NONE),
    (''th.vxrm'', 0xa, PRIV_SPEC_CLASS_NONE, PRIV_SPEC_CLASS_NONE),
    (''th.vl'', 0xc20, PRIV_SPEC_CLASS_NONE, PRIV_SPEC_CLASS_NONE),
    (''th.vtype'', 0xc21, PRIV_SPEC_CLASS_NONE, PRIV_SPEC_CLASS_NONE),
    (''th.vlenb'', 0xc22, PRIV_SPEC_CLASS_NONE, PRIV_SPEC_CLASS_NONE)]"

definition riscv_csrs :: "csr_decl list" where
  "riscv_csrs = concat [riscv_csrs_1, riscv_csrs_2, riscv_csrs_3, riscv_csrs_4]"

text \<open>
  The disassembler enters the declarations into an array of 4096 names; an entry is set once, by the first declaration
  that the privileged specification covers.
\<close>

definition csr_covers :: "nat \<Rightarrow> csr_decl \<Rightarrow> bool" where
  "csr_covers spec d =
     (case d of (name, num, def_version, abort_version) \<Rightarrow>
        def_version = PRIV_SPEC_CLASS_NONE \<and> abort_version = PRIV_SPEC_CLASS_NONE \<or>
        spec \<ge> def_version \<and> spec < abort_version)"

definition csr_set :: "nat \<Rightarrow> csr_decl \<Rightarrow> (nat \<rightharpoonup> string) \<Rightarrow> (nat \<rightharpoonup> string)" where
  "csr_set spec d hash =
     (case d of (name, num, r) \<Rightarrow> if hash num = None \<and> csr_covers spec d then hash(num \<mapsto> name) else hash)"

definition riscv_csr_hash :: "nat \<Rightarrow> nat \<rightharpoonup> string" where
  "riscv_csr_hash spec = fold (csr_set spec) riscv_csrs (\<lambda>i. None)"

end
