(* ===== verification/Riscv_Dis.thy ===== *)
theory Riscv_Dis
  imports Riscv_Csr Riscv_Opcodes Gas_Validate
begin

text \<open>
  The disassembler (\<^verbatim>\<open>opcodes/riscv-dis.c\<close>): the search for the table entry of an instruction word, which starts
  at an entry found in a hash, and the printing of the operands of the entry.

  What is sent to the output stream is the list of the styled pieces; \<^verbatim>\<open>print_address_func\<close>, which the caller
  supplies, appears there as the address it is called with.
\<close>

section \<open>Output\<close>

datatype dis_style =
    Style_text | Style_mnemonic | Style_register | Style_immediate | Style_address_offset
  | Style_comment_start | Style_directive

datatype dis_piece = Piece dis_style string | Address u64

datatype dis_mach = Mach_riscv32 | Mach_riscv64 | Mach_other

datatype dis_insn_type =
    Dis_noninsn | Dis_nonbranch | Dis_branch | Dis_condbranch | Dis_jsr | Dis_dref

text \<open>
  What stays fixed while an instruction is disassembled: machine and ELF class, the options \<^verbatim>\<open>numeric\<close> and
  \<^verbatim>\<open>no-aliases\<close>, the privileged specification and the extensions.
\<close>

record dis_config =
  mach :: dis_mach
  section_elf64 :: "bool option"
  numeric_names :: bool
  no_aliases :: bool
  default_priv_spec :: nat
  dis_subsets :: "riscv_subset list"

text \<open>The private data and the fields of \<^verbatim>\<open>info\<close> that the disassembler writes.\<close>

record dis_state =
  pd_gp :: u64
  has_gp :: bool
  print_addr :: u64
  to_print_addr :: bool
  hi_addr :: "u64 list"
  dis_xlen :: nat
  info_target :: u64
  info_insn_type :: dis_insn_type
  info_data_size :: nat
  dis_out :: "dis_piece list"

type_synonym printer = "dis_state \<Rightarrow> dis_state"

definition emit :: "dis_piece \<Rightarrow> dis_state \<Rightarrow> dis_state" where
  "emit p st = st\<lparr>dis_out := dis_out st @ [p]\<rparr>"

abbreviation print_as :: "dis_style \<Rightarrow> string \<Rightarrow> dis_state \<Rightarrow> dis_state" where
  "print_as style s \<equiv> emit (Piece style s)"

fun hex_digit :: "int \<Rightarrow> char" where
  "hex_digit d = (if d < 10 then char_of (48 + d) else char_of (87 + d))"

function hex_str :: "int \<Rightarrow> string" where
  "hex_str n = (if n < 16 then [hex_digit n] else hex_str (n div 16) @ [hex_digit (n mod 16)])"
  by pat_completeness auto
termination
  by (relation "measure nat") auto

declare hex_str.simps [simp del]

text \<open>The conversions \<^verbatim>\<open>(int)\<close> and \<^verbatim>\<open>(unsigned)\<close> of a 64-bit immediate, printed with \<^verbatim>\<open>%d\<close> and \<^verbatim>\<open>0x%x\<close>.\<close>

abbreviation to_int :: "u64 \<Rightarrow> int" where
  "to_int w \<equiv> sint (ucast w :: u32)"

abbreviation dec_imm :: "u64 \<Rightarrow> string" where
  "dec_imm w \<equiv> int_str (to_int w)"

abbreviation hex_imm :: "u64 \<Rightarrow> string" where
  "hex_imm w \<equiv> ''0x'' @ hex_str (uint (ucast w :: u32))"

abbreviation hex_nat :: "nat \<Rightarrow> string" where
  "hex_nat n \<equiv> ''0x'' @ hex_str (int n)"

definition riscv_gpr_names :: "dis_config \<Rightarrow> string list" where
  "riscv_gpr_names cfg = (if numeric_names cfg then riscv_gpr_names_numeric else riscv_gpr_names_abi)"

text \<open>With \<^verbatim>\<open>zfinx\<close> the floating-point registers are the integer ones.\<close>

definition riscv_fpr_names :: "dis_config \<Rightarrow> string list" where
  "riscv_fpr_names cfg =
     (if riscv_subset_supports (dis_subsets cfg) ''zfinx'' = Inr True then riscv_gpr_names cfg
      else if numeric_names cfg then riscv_fpr_names_numeric else riscv_fpr_names_abi)"

abbreviation gpr :: "dis_config \<Rightarrow> nat \<Rightarrow> dis_state \<Rightarrow> dis_state" where
  "gpr cfg r \<equiv> print_as Style_register (riscv_gpr_names cfg ! r)"

abbreviation fpr :: "dis_config \<Rightarrow> nat \<Rightarrow> dis_state \<Rightarrow> dis_state" where
  "fpr cfg r \<equiv> print_as Style_register (riscv_fpr_names cfg ! r)"

abbreviation vecr :: "nat \<Rightarrow> dis_state \<Rightarrow> dis_state" where
  "vecr r \<equiv> print_as Style_register (riscv_vecr_names_numeric ! r)"

definition arg_print :: "nat \<Rightarrow> string option list \<Rightarrow> dis_state \<Rightarrow> dis_state" where
  "arg_print val array =
     print_as Style_text (if val \<ge> length array then ''unknown'' else case array ! val of None \<Rightarrow> ''unknown'' | Some s \<Rightarrow> s)"

section \<open>Addresses\<close>

abbreviation (input) X_RA :: nat where "X_RA \<equiv> 1"
abbreviation (input) X_SP :: nat where "X_SP \<equiv> 2"
abbreviation (input) X_GP :: nat where "X_GP \<equiv> 3"
abbreviation (input) X_TP :: nat where "X_TP \<equiv> 4"
abbreviation (input) X_S0 :: nat where "X_S0 \<equiv> 8"
abbreviation (input) X_S1 :: nat where "X_S1 \<equiv> 9"
abbreviation (input) X_S2 :: nat where "X_S2 \<equiv> 18"
abbreviation (input) X_S11 :: nat where "X_S11 \<equiv> 27"

text \<open>The offset is an \<^verbatim>\<open>int\<close>: it is narrowed and sign-extended again when it is added.\<close>

definition maybe_print_address :: "nat \<Rightarrow> u64 \<Rightarrow> bool \<Rightarrow> dis_state \<Rightarrow> dis_state" where
  "maybe_print_address base_reg imm wide st =
     (let offset = scast (ucast imm :: u32) :: u64;
          hi = hi_addr st ! base_reg;
          finish = (\<lambda>a st. let a1 = (if wide then scast (ucast a :: u32) else a);
                               a2 = (if dis_xlen st = 32 then ucast (ucast a1 :: u32) else a1)
                           in st\<lparr>print_addr := a2, to_print_addr := True\<rparr>)
      in if hi \<noteq> -1 then
           finish ((if base_reg \<noteq> 0 then hi else 0) + offset) (st\<lparr>hi_addr := (hi_addr st)[base_reg := -1]\<rparr>)
         else if base_reg = X_GP \<and> has_gp st then finish (pd_gp st + offset) st
         else if base_reg = X_TP \<or> base_reg = 0 then finish offset st
         else st)"

text \<open>\<^verbatim>\<open>print_address_func\<close> on a branch target.\<close>

definition print_target :: "u64 \<Rightarrow> dis_state \<Rightarrow> dis_state" where
  "print_target a st = emit (Address a) (st\<lparr>info_target := a\<rparr>)"

section \<open>Operands\<close>

definition print_reg_list :: "dis_config \<Rightarrow> insn_t \<Rightarrow> dis_state \<Rightarrow> dis_state" where
  "print_reg_list cfg l st =
     (let numeric = numeric_names cfg;
          reg_list = EXTRACT_OPERAND OP_REG_LIST l;
          r_start = (if numeric then X_S2 else X_S0);
          comma = print_as Style_text '','';
          dash = print_as Style_text ''-'';
          st = gpr cfg X_RA st;
          st = (if reg_list = 5 then gpr cfg X_S0 (comma st)
                else if reg_list = 6 \<or> numeric \<and> reg_list > 6
                  then gpr cfg X_S1 (dash (gpr cfg X_S0 (comma st)))
                else st)
      in if reg_list = 15 then gpr cfg X_S11 (dash (gpr cfg r_start (comma st)))
         else if reg_list = 7 \<and> numeric then gpr cfg X_S2 (comma st)
         else if reg_list > 6 then gpr cfg (reg_list + 11) (dash (gpr cfg r_start (comma st)))
         else st)"

definition riscv_get_spimm :: "nat \<Rightarrow> insn_t \<Rightarrow> int" where
  "riscv_get_spimm xlen l =
     (let spimm = riscv_get_sp_base l (of_nat xlen) + ucast (EXTRACT_ZCMP_SPIMM l)
      in sint (if (l XOR 0xb802) AND 0xff03 = 0 then - spimm else spimm))"

text \<open>The operands of compressed instructions; nothing for a letter that has no case.\<close>

definition print_rvc :: "dis_config \<Rightarrow> insn_t \<Rightarrow> u64 \<Rightarrow> char \<Rightarrow> printer option" where
  "print_rvc cfg l pc c =
     (let rd = EXTRACT_OPERAND OP_RD l in
      if c = CHR ''s'' \<or> c = CHR ''w'' then Some (gpr cfg (EXTRACT_OPERAND OP_CRS1S l + 8))
      else if c = CHR ''t'' \<or> c = CHR ''x'' then Some (gpr cfg (EXTRACT_OPERAND OP_CRS2S l + 8))
      else if c = CHR ''U'' then Some (gpr cfg rd)
      else if c = CHR ''c'' then Some (gpr cfg X_SP)
      else if c = CHR ''V'' then Some (gpr cfg (EXTRACT_OPERAND OP_CRS2 l))
      else if c = CHR ''o'' \<or> c = CHR ''j'' then
        Some (\<lambda>st.
          let st1 = (if l AND 0xe003 = 0x1 \<and> rd \<noteq> 0 then maybe_print_address rd (EXTRACT_CITYPE_IMM l) False st else st);
              st2 = (if mach cfg = Mach_riscv64 \<and> l AND 0xe003 = 0x2001 \<and> rd \<noteq> 0
                     then maybe_print_address rd (EXTRACT_CITYPE_IMM l) True st1 else st1)
          in print_as Style_immediate (dec_imm (EXTRACT_CITYPE_IMM l)) st2)
      else if c = CHR ''k'' then Some (print_as Style_address_offset (dec_imm (EXTRACT_CLTYPE_LW_IMM l)))
      else if c = CHR ''l'' then Some (print_as Style_address_offset (dec_imm (EXTRACT_CLTYPE_LD_IMM l)))
      else if c = CHR ''m'' then Some (print_as Style_address_offset (dec_imm (EXTRACT_CITYPE_LWSP_IMM l)))
      else if c = CHR ''n'' then Some (print_as Style_address_offset (dec_imm (EXTRACT_CITYPE_LDSP_IMM l)))
      else if c = CHR ''K'' then Some (print_as Style_immediate (dec_imm (EXTRACT_CIWTYPE_ADDI4SPN_IMM l)))
      else if c = CHR ''L'' then Some (print_as Style_immediate (dec_imm (EXTRACT_CITYPE_ADDI16SP_IMM l)))
      else if c = CHR ''M'' then Some (print_as Style_address_offset (dec_imm (EXTRACT_CSSTYPE_SWSP_IMM l)))
      else if c = CHR ''N'' then Some (print_as Style_address_offset (dec_imm (EXTRACT_CSSTYPE_SDSP_IMM l)))
      else if c = CHR ''p'' then Some (print_target (EXTRACT_CBTYPE_IMM l + pc))
      else if c = CHR ''a'' then Some (print_target (EXTRACT_CJTYPE_IMM l + pc))
      else if c = CHR ''u'' then Some (print_as Style_immediate (hex_imm (EXTRACT_CITYPE_IMM l AND 0xfffff)))
      else if c = CHR ''>'' then Some (print_as Style_immediate (hex_imm (EXTRACT_CITYPE_IMM l AND 0x3f)))
      else if c = CHR ''<'' then Some (print_as Style_immediate (hex_imm (EXTRACT_CITYPE_IMM l AND 0x1f)))
      else if c = CHR ''T'' then Some (fpr cfg (EXTRACT_OPERAND OP_CRS2 l))
      else if c = CHR ''D'' then Some (fpr cfg (EXTRACT_OPERAND OP_CRS2S l + 8))
      else None)"

text \<open>The vector type of \<^verbatim>\<open>vsetvli\<close> and \<^verbatim>\<open>vsetivli\<close>.\<close>

definition print_vtype :: "u64 \<Rightarrow> dis_state \<Rightarrow> dis_state" where
  "print_vtype imm st =
     (let vlmul = EXTRACT_OPERAND OP_VLMUL imm; vsew = EXTRACT_OPERAND OP_VSEW imm;
          vta = EXTRACT_OPERAND OP_VTA imm; vma = EXTRACT_OPERAND OP_VMA imm
      in if vsew < length riscv_vsew \<and> vlmul < length riscv_vlmul \<and> vta < length riscv_vta \<and>
            vma < length riscv_vma \<and> drop_bit 8 imm = 0 \<and> riscv_vsew ! vsew \<noteq> None \<and> riscv_vlmul ! vlmul \<noteq> None
         then print_as Style_text (the (riscv_vsew ! vsew) @ '','' @ the (riscv_vlmul ! vlmul) @ '','' @
                riscv_vta ! vta @ '','' @ riscv_vma ! vma) st
         else print_as Style_immediate (dec_imm imm) st)"

definition print_rvv :: "dis_config \<Rightarrow> insn_t \<Rightarrow> char \<Rightarrow> printer option" where
  "print_rvv cfg l c =
     (if c = CHR ''d'' \<or> c = CHR ''f'' then Some (vecr (EXTRACT_OPERAND OP_VD l))
      else if c = CHR ''e'' then
        Some (if EXTRACT_OPERAND OP_VWD l = 0 then gpr cfg 0 else vecr (EXTRACT_OPERAND OP_VD l))
      else if c = CHR ''s'' then Some (vecr (EXTRACT_OPERAND OP_VS1 l))
      else if c = CHR ''t'' \<or> c = CHR ''u'' \<or> c = CHR ''v'' then Some (vecr (EXTRACT_OPERAND OP_VS2 l))
      else if c = CHR ''0'' then Some (vecr 0)
      else if c = CHR ''b'' then Some (print_vtype (EXTRACT_RVV_VB_IMM l))
      else if c = CHR ''c'' then Some (print_vtype (EXTRACT_RVV_VC_IMM l))
      else if c = CHR ''i'' then Some (print_as Style_immediate (dec_imm (EXTRACT_RVV_VI_IMM l)))
      else if c = CHR ''j'' then Some (print_as Style_immediate (dec_imm (EXTRACT_RVV_VI_UIMM l)))
      else if c = CHR ''k'' then Some (print_as Style_immediate (dec_imm (EXTRACT_RVV_OFFSET l)))
      else if c = CHR ''l'' then Some (print_as Style_immediate (dec_imm (EXTRACT_RVV_VI_UIMM6 l)))
      else if c = CHR ''m'' then
        Some (\<lambda>st. if EXTRACT_OPERAND OP_VMASK l = 0
                    then print_as Style_register (riscv_vecm_names_numeric ! 0) (print_as Style_text '','' st) else st)
      else None)"

text \<open>The name of a control and status register, under the newest specification when none is set.\<close>

definition print_csr :: "dis_config \<Rightarrow> nat \<Rightarrow> dis_state \<Rightarrow> dis_state" where
  "print_csr cfg csr st =
     (let spec = (if default_priv_spec cfg = PRIV_SPEC_CLASS_NONE then PRIV_SPEC_CLASS_DRAFT - 1 else default_priv_spec cfg)
      in case riscv_csr_hash spec csr of
           Some name \<Rightarrow>
             if riscv_subset_supports (dis_subsets cfg) ''xtheadvector'' = Inr True \<and>
                csr \<in> {0x008, 0x009, 0x00a, 0xc20, 0xc21, 0xc22}
             then print_as Style_register (''th.'' @ name) st
             else print_as Style_register name st
         | None \<Rightarrow> print_as Style_immediate (hex_nat csr) st)"

text \<open>
  The letters without a prefix; \<open>rest\<close> is what follows in the argument string. A letter that is not known ends the
  printing with an error message.
\<close>

definition print_base :: "dis_config \<Rightarrow> insn_t \<Rightarrow> u64 \<Rightarrow> char \<Rightarrow> string \<Rightarrow> printer option" where
  "print_base cfg l pc c rest =
     (let rs1 = EXTRACT_OPERAND OP_RS1 l; rd = EXTRACT_OPERAND OP_RD l in
      if c = CHR '','' \<or> c = CHR ''('' \<or> c = CHR '')'' \<or> c = CHR ''['' \<or> c = CHR '']'' \<or> c = CHR ''{'' \<or> c = CHR ''}''
        then Some (print_as Style_text [c])
      else if c = CHR ''0'' then Some (if rest = [] then print_as Style_immediate ''0'' else id)
      else if c = CHR ''s'' then
        Some (\<lambda>st. gpr cfg rs1 (if l AND 0x707f = 0x67 then maybe_print_address rs1 (EXTRACT_ITYPE_IMM l) False st else st))
      else if c = CHR ''t'' then Some (gpr cfg (EXTRACT_OPERAND OP_RS2 l))
      else if c = CHR ''r'' then Some (gpr cfg (EXTRACT_OPERAND OP_RS3 l))
      else if c = CHR ''l'' then Some (gpr cfg (EXTRACT_OPERAND OP_RD l))
      else if c = CHR ''u'' then
        Some (print_as Style_immediate (''0x'' @ hex_str (uint (drop_bit 12 (ucast (EXTRACT_UTYPE_IMM l) :: u32)))))
      else if c = CHR ''m'' then Some (arg_print (EXTRACT_OPERAND OP_RM l) riscv_rm)
      else if c = CHR ''P'' then Some (arg_print (EXTRACT_OPERAND OP_PRED l) riscv_pred_succ)
      else if c = CHR ''Q'' then Some (arg_print (EXTRACT_OPERAND OP_SUCC l) riscv_pred_succ)
      else if c = CHR ''o'' \<or> c = CHR ''j'' then
        Some (\<lambda>st.
          let st0 = (if c = CHR ''o'' then maybe_print_address rs1 (EXTRACT_ITYPE_IMM l) False st else st);
              st1 = (if l AND 0x707f = 0x13 \<and> rs1 \<noteq> 0 \<or> l AND 0x707f = 0x67
                     then maybe_print_address rs1 (EXTRACT_ITYPE_IMM l) False st0 else st0);
              st2 = (if mach cfg = Mach_riscv64 \<and> l AND 0x707f = 0x1b \<and> rs1 \<noteq> 0
                     then maybe_print_address rs1 (EXTRACT_ITYPE_IMM l) True st1 else st1)
          in print_as Style_immediate (dec_imm (EXTRACT_ITYPE_IMM l)) st2)
      else if c = CHR ''q'' then
        Some (\<lambda>st. print_as Style_address_offset (dec_imm (EXTRACT_STYPE_IMM l))
                     (maybe_print_address rs1 (EXTRACT_STYPE_IMM l) False st))
      else if c = CHR ''a'' then Some (print_target (EXTRACT_JTYPE_IMM l + pc))
      else if c = CHR ''p'' then Some (print_target (EXTRACT_BTYPE_IMM l + pc))
      else if c = CHR ''d'' then
        Some (\<lambda>st.
          let hi = (if l AND 0x7f = 0x17 then Some (pc + EXTRACT_UTYPE_IMM l)
                    else if l AND 0x7f = 0x37 then Some (EXTRACT_UTYPE_IMM l)
                    else if l AND 0xe003 = 0x6001 then Some (EXTRACT_CITYPE_LUI_IMM l)
                    else None)
          in gpr cfg rd (case hi of Some a \<Rightarrow> st\<lparr>hi_addr := (hi_addr st)[rd := a]\<rparr> | None \<Rightarrow> st))
      else if c = CHR ''y'' then Some (print_as Style_immediate (hex_nat (EXTRACT_OPERAND OP_BS l)))
      else if c = CHR ''z'' then Some (gpr cfg 0)
      else if c = CHR ''>'' then Some (print_as Style_immediate (hex_nat (EXTRACT_OPERAND OP_SHAMT l)))
      else if c = CHR ''<'' then Some (print_as Style_immediate (hex_nat (EXTRACT_OPERAND OP_SHAMTW l)))
      else if c = CHR ''S'' \<or> c = CHR ''U'' then Some (fpr cfg rs1)
      else if c = CHR ''T'' then Some (fpr cfg (EXTRACT_OPERAND OP_RS2 l))
      else if c = CHR ''D'' then Some (fpr cfg rd)
      else if c = CHR ''R'' then Some (fpr cfg (EXTRACT_OPERAND OP_RS3 l))
      else if c = CHR ''E'' then Some (print_csr cfg (EXTRACT_OPERAND OP_CSR l))
      else if c = CHR ''Y'' then Some (print_as Style_immediate (hex_nat (EXTRACT_OPERAND OP_RNUM l)))
      else if c = CHR ''Z'' then Some (print_as Style_immediate (int_str (int rs1)))
      else None)"

text \<open>The constants of \<^verbatim>\<open>fli\<close>, in the form that \<^verbatim>\<open>%a\<close> prints.\<close>

definition riscv_fli_numval :: "string list" where
  "riscv_fli_numval =
     [''-0x1p+0'', ''0x0p+0'', ''0x1p-16'', ''0x1p-15'', ''0x1p-8'', ''0x1p-7'', ''0x1p-4'', ''0x1p-3'',
      ''0x1p-2'', ''0x1.4p-2'', ''0x1.8p-2'', ''0x1.cp-2'', ''0x1p-1'', ''0x1.4p-1'', ''0x1.8p-1'', ''0x1.cp-1'',
      ''0x1p+0'', ''0x1.4p+0'', ''0x1.8p+0'', ''0x1.cp+0'', ''0x1p+1'', ''0x1.4p+1'', ''0x1.8p+1'', ''0x1p+2'',
      ''0x1p+3'', ''0x1p+4'', ''0x1p+7'', ''0x1p+8'', ''0x1p+15'', ''0x1p+16'', ''0x0p+0'', ''0x0p+0'']"

text \<open>
  The operands after \<^verbatim>\<open>W\<close> and \<^verbatim>\<open>X\<close>: what an operand prints, and the rest of the argument string.
\<close>

definition print_fli :: "nat \<Rightarrow> printer" where
  "print_fli rs1 =
     (case riscv_fli_symval ! rs1 of
        Some s \<Rightarrow> print_as Style_text s
      | None \<Rightarrow> print_as Style_immediate (riscv_fli_numval ! rs1))"

definition print_zext :: "dis_config \<Rightarrow> insn_t \<Rightarrow> string \<Rightarrow> (printer \<times> string) option" where
  "print_zext cfg l cs =
     (case cs of
        [] \<Rightarrow> None
      | c # ds \<Rightarrow>
          if c = CHR ''i'' then
            letter [(CHR ''f'', print_as Style_address_offset (dec_imm (EXTRACT_STYPE_IMM l)))] ds
          else if c = CHR ''f'' then letter [(CHR ''v'', print_fli (EXTRACT_OPERAND OP_RS1 l))] ds
          else if c = CHR ''c'' then
            letter [(CHR ''b'', print_as Style_immediate (dec_imm (EXTRACT_ZCB_BYTE_UIMM l))),
                    (CHR ''h'', print_as Style_immediate (dec_imm (EXTRACT_ZCB_HALFWORD_UIMM l))),
                    (CHR ''r'', print_reg_list cfg l),
                    (CHR ''p'', \<lambda>st. print_as Style_immediate (int_str (riscv_get_spimm (dis_xlen st) l)) st)] ds
          else None)"

text \<open>
  The T-head operands: a vector type, a literal printed character by character, an immediate. A reserved element
  width passes a null pointer to \<^verbatim>\<open>%s\<close>, for which the C library prints \<^verbatim>\<open>(null)\<close>.
\<close>

definition print_th_vtype :: "u64 \<Rightarrow> printer" where
  "print_th_vtype imm =
     (let vediv = EXTRACT_OPERAND OP_XTHEADVEDIV imm; vlmul = EXTRACT_OPERAND OP_XTHEADVLMUL imm;
          vsew = EXTRACT_OPERAND OP_XTHEADVSEW imm; res = EXTRACT_OPERAND OP_XTHEADVTYPE_RES imm
      in if vsew < length riscv_vsew \<and> vlmul < length riscv_th_vlen \<and> vediv < length riscv_th_vediv \<and> res = 0
         then print_as Style_text ((case riscv_vsew ! vsew of Some s \<Rightarrow> s | None \<Rightarrow> ''(null)'') @ '','' @
                riscv_th_vlen ! vlmul @ '','' @ riscv_th_vediv ! vediv)
         else print_as Style_immediate (dec_imm imm))"

definition print_thead :: "insn_t \<Rightarrow> string \<Rightarrow> (printer \<times> string) option" where
  "print_thead l cs =
     (case cs of
        [] \<Rightarrow> None
      | c # ds \<Rightarrow>
          if c = CHR ''V'' then letter [(CHR ''c'', print_th_vtype (EXTRACT_RVV_VC_IMM l))] ds
          else if c = CHR ''l'' then
            Some (fold (\<lambda>x. print_as Style_immediate [x]) (takeWhile (\<lambda>x. x \<noteq> CHR '','') ds),
                  dropWhile (\<lambda>x. x \<noteq> CHR '','') ds)
          else if c = CHR ''s'' \<or> c = CHR ''u'' then
            (let (n, es) = strtol 0 ds
             in case es of
                  [] \<Rightarrow> None
                | at # fs \<Rightarrow>
                    if at \<noteq> CHR ''@'' then None
                    else let (s, gs) = strtol 0 fs
                         in Some (print_as Style_immediate
                                    (if c = CHR ''u'' then int_str (uint (RV_X l s n)) else int_str (sint (RV_X_SIGNED l s n))), gs))
          else None)"

text \<open>
  What one round of the loop over the argument string does: it prints an operand, or finds a letter after a prefix that
  has no case and no default, and passes over it in silence, or stops with the message about an undefined modifier.
\<close>

datatype operand_result = Prints printer string | Silent string | Undefined

definition known_or_undefined :: "(printer \<times> string) option \<Rightarrow> operand_result" where
  "known_or_undefined r = (case r of None \<Rightarrow> Undefined | Some (f, cs) \<Rightarrow> Prints f cs)"

definition known_or_silent :: "(char \<Rightarrow> printer option) \<Rightarrow> string \<Rightarrow> operand_result" where
  "known_or_silent t cs =
     (case cs of [] \<Rightarrow> Undefined | c # r \<Rightarrow> (case t c of Some f \<Rightarrow> Prints f r | None \<Rightarrow> Silent r))"

definition print_vendor :: "insn_t \<Rightarrow> string \<Rightarrow> operand_result" where
  "print_vendor l cs =
     (case cs of
        [] \<Rightarrow> Undefined
      | c # ds \<Rightarrow>
          if c = CHR ''t'' then known_or_undefined (print_thead l ds)
          else if c = CHR ''c'' then
            known_or_undefined (letter
              [(CHR ''2'', print_as Style_immediate (dec_imm (EXTRACT_CV_IS2_UIMM5 l))),
               (CHR ''3'', print_as Style_immediate (dec_imm (EXTRACT_CV_IS3_UIMM5 l))),
               (CHR ''4'', print_as Style_immediate (dec_imm (EXTRACT_CV_BI_IMM5 l)))] ds)
          else if c = CHR ''s'' then
            (case ds of
               [] \<Rightarrow> Undefined
             | d # es \<Rightarrow>
                 if d = CHR ''O'' then
                   known_or_silent (map_of
                     [(CHR ''2'', print_as Style_register (hex_nat (EXTRACT_OPERAND OP_XSO2 l))),
                      (CHR ''1'', print_as Style_register (hex_nat (EXTRACT_OPERAND OP_XSO1 l)))]) es
                 else
                   known_or_silent (map_of
                     [(CHR ''d'', print_as Style_register (hex_nat (EXTRACT_OPERAND OP_RD l))),
                      (CHR ''t'', print_as Style_register (hex_nat (EXTRACT_OPERAND OP_RS2 l)))]) ds)
          else Undefined)"

text \<open>
  Every argument string of the table has a letter after each prefix; one that ends there counts as undefined.
\<close>

definition print_operand :: "dis_config \<Rightarrow> insn_t \<Rightarrow> u64 \<Rightarrow> char \<Rightarrow> string \<Rightarrow> operand_result" where
  "print_operand cfg l pc c cs =
     (if c = CHR ''C'' then known_or_silent (print_rvc cfg l pc) cs
      else if c = CHR ''V'' then known_or_silent (print_rvv cfg l) cs
      else if c = CHR ''W'' then known_or_undefined (print_zext cfg l cs)
      else if c = CHR ''X'' then print_vendor l cs
      else known_or_undefined (map_option (\<lambda>f. (f, cs)) (print_base cfg l pc c cs)))"

lemma print_thead_shorter: "print_thead l cs = Some (f, r) \<Longrightarrow> length r < length cs"
proof (cases cs)
  case (Cons c ds)
  assume "print_thead l cs = Some (f, r)"
  then show ?thesis
    using strtol_shorter [of 0 ds] strtol_shorter [of 0 "tl (snd (strtol 0 ds))"]
      length_dropWhile_le [of "\<lambda>x. x \<noteq> CHR '',''" ds]
    by (auto simp: print_thead_def Cons Let_def split: if_splits list.splits prod.splits dest: letter_shorter)
qed (simp add: print_thead_def)

text \<open>The part of the argument string that is left, when the loop goes on.\<close>

fun left_over :: "operand_result \<Rightarrow> string option" where
  "left_over (Prints f r) = Some r"
| "left_over (Silent r) = Some r"
| "left_over Undefined = None"

lemma left_over_known:
  "left_over (known_or_undefined x) = map_option snd x"
  "left_over (known_or_silent t cs) = (case cs of [] \<Rightarrow> None | d # r \<Rightarrow> Some r)"
  by (auto simp: known_or_undefined_def known_or_silent_def split: option.splits list.splits)

lemma print_operand_shorter: "left_over (print_operand cfg l pc c cs) = Some r \<Longrightarrow> length r \<le> length cs"
  by (auto simp: print_operand_def print_zext_def print_vendor_def left_over_known split: if_splits list.splits
      dest!: letter_shorter print_thead_shorter)

lemma print_operand_less:
  "print_operand cfg l pc c cs = Prints f r \<Longrightarrow> length r < Suc (length cs)"
  "print_operand cfg l pc c cs = Silent r \<Longrightarrow> length r < Suc (length cs)"
  using print_operand_shorter [of cfg l pc c cs r] by simp_all

function print_args_loop :: "dis_config \<Rightarrow> insn_t \<Rightarrow> u64 \<Rightarrow> string \<Rightarrow> dis_state \<Rightarrow> dis_state" where
  "print_args_loop cfg l pc [] st = st"
| "print_args_loop cfg l pc (c # cs) st =
     (case print_operand cfg l pc c cs of
        Undefined \<Rightarrow> print_as Style_text (''# internal error, undefined modifier ('' @ [c] @ '')'') st
      | Silent r \<Rightarrow> print_args_loop cfg l pc r st
      | Prints f r \<Rightarrow> print_args_loop cfg l pc r (f st))"
  by pat_completeness auto
termination
  by (relation "measure (\<lambda>(cfg, l, pc, cs, st). length cs)") (auto dest: print_operand_less)

definition print_insn_args :: "dis_config \<Rightarrow> string \<Rightarrow> insn_t \<Rightarrow> u64 \<Rightarrow> dis_state \<Rightarrow> dis_state" where
  "print_insn_args cfg oparg l pc st =
     print_args_loop cfg l pc oparg (if oparg \<noteq> [] then print_as Style_text [CHR 0x09] st else st)"

section \<open>The search\<close>

definition OP_HASH_IDX :: "insn_t \<Rightarrow> insn_t" where
  "OP_HASH_IDX i = i AND (if riscv_insn_length i = 2 then 0x3 else 0x7f)"

text \<open>The hash holds, for each index, the position of the first entry with that index.\<close>

fun riscv_hash_loop :: "riscv_opcode list \<Rightarrow> nat \<Rightarrow> (insn_t \<rightharpoonup> nat) \<Rightarrow> (insn_t \<rightharpoonup> nat)" where
  "riscv_hash_loop [] i hash = hash"
| "riscv_hash_loop (op # ops) i hash =
     riscv_hash_loop ops (Suc i)
       (if hash (OP_HASH_IDX (op_match op)) = None then hash(OP_HASH_IDX (op_match op) \<mapsto> i) else hash)"

text \<open>
  Whether the search stops at an entry. Entries that are not macros have a match function; the call through a null
  pointer does not arise.
\<close>

definition calls_match :: "riscv_opcode \<Rightarrow> insn_t \<Rightarrow> bool" where
  "calls_match op word = (case match_func op of Some f \<Rightarrow> call_match_fn f op word | None \<Rightarrow> False)"

definition dis_matches :: "dis_config \<Rightarrow> nat \<Rightarrow> insn_t \<Rightarrow> riscv_opcode \<Rightarrow> bool" where
  "dis_matches cfg xlen word op \<longleftrightarrow>
     pinfo op \<noteq> INSN_MACRO \<and> calls_match op word \<and> \<not> (no_aliases cfg \<and> pinfo op AND INSN_ALIAS \<noteq> 0) \<and>
     (xlen_requirement op = 0 \<or> xlen_requirement op = xlen) \<and>
     riscv_multi_subset_supports (dis_subsets cfg) (insn_class op) = Inr True"

definition dis_find :: "riscv_opcode list \<Rightarrow> dis_config \<Rightarrow> nat \<Rightarrow> insn_t \<Rightarrow> riscv_opcode option" where
  "dis_find ops cfg xlen word =
     (case riscv_hash_loop ops 0 (\<lambda>i. None) (OP_HASH_IDX word) of
        None \<Rightarrow> None
      | Some k \<Rightarrow> find (dis_matches cfg xlen word) (drop k ops))"

text \<open>The word length comes from the machine, otherwise from the ELF class, otherwise it stays.\<close>

definition xlen_of :: "dis_config \<Rightarrow> nat \<Rightarrow> nat" where
  "xlen_of cfg old =
     (case mach cfg of
        Mach_riscv64 \<Rightarrow> 64
      | Mach_riscv32 \<Rightarrow> 32
      | Mach_other \<Rightarrow> (case section_elf64 cfg of None \<Rightarrow> old | Some b \<Rightarrow> if b then 64 else 32))"

definition insn_type_of :: "u64 \<Rightarrow> dis_insn_type" where
  "insn_type_of p =
     (let t = p AND 0xe
      in if t = 0x2 then Dis_branch else if t = 0x4 then Dis_condbranch else if t = 0x6 then Dis_jsr
         else if t = 0x8 then Dis_dref else Dis_nonbranch)"

definition data_size_of :: "u64 \<Rightarrow> nat" where
  "data_size_of p = (if p AND 0x70 = 0 then 0 else 2 ^ (unat (drop_bit 4 (p AND 0x70)) - 1))"

fun pad4 :: "string \<Rightarrow> string" where
  "pad4 s = replicate (4 - length s) (CHR ''0'') @ s"

text \<open>The halves of the packet from the last to the first, without leading zeros.\<close>

fun print_halves :: "nat list \<Rightarrow> bool \<Rightarrow> printer" where
  "print_halves [] printed st = st"
| "print_halves (w # ws) printed st =
     (if w = 0 \<and> \<not> printed then print_halves ws printed st
      else print_halves ws True (print_as Style_immediate (pad4 (hex_str (int w))) st))"

definition print_dot_insn :: "nat \<Rightarrow> nat list \<Rightarrow> printer" where
  "print_dot_insn insnlen packet st =
     print_halves (rev (take (insnlen div 2) packet)) False
       (print_as Style_immediate ''0x'' (print_as Style_text '', ''
         (print_as Style_immediate (int_str (int insnlen)) (print_as Style_text [CHR 0x09]
           (print_as Style_directive ''.insn'' (st\<lparr>info_insn_type := Dis_noninsn\<rparr>))))))"

definition print_found :: "dis_config \<Rightarrow> riscv_opcode \<Rightarrow> insn_t \<Rightarrow> u64 \<Rightarrow> printer" where
  "print_found cfg op word memaddr st =
     (let st1 = print_insn_args cfg (op_args op) word memaddr (print_as Style_mnemonic (op_name op) st);
          st2 = (if to_print_addr st1
                 then (emit (Address (print_addr st1)) (print_as Style_comment_start '' # ''
                        (st1\<lparr>info_target := print_addr st1\<rparr>)))\<lparr>to_print_addr := False\<rparr>
                 else st1)
      in st2\<lparr>info_insn_type := insn_type_of (pinfo op), info_data_size := data_size_of (pinfo op)\<rparr>)"

definition riscv_disassemble_insn ::
  "riscv_opcode list \<Rightarrow> dis_config \<Rightarrow> u64 \<Rightarrow> insn_t \<Rightarrow> nat list \<Rightarrow> dis_state \<Rightarrow> nat \<times> dis_state" where
  "riscv_disassemble_insn ops cfg memaddr word packet st =
     (let insnlen = riscv_insn_length word;
          st0 = st\<lparr>info_insn_type := Dis_nonbranch, info_data_size := 0, info_target := 0\<rparr>
      in case riscv_hash_loop ops 0 (\<lambda>i. None) (OP_HASH_IDX word) of
           None \<Rightarrow> (insnlen, print_dot_insn insnlen packet st0)
         | Some k \<Rightarrow>
             (let xlen = xlen_of cfg (dis_xlen st0); st1 = st0\<lparr>dis_xlen := xlen\<rparr>
              in case find (dis_matches cfg xlen word) (drop k ops) of
                   Some op \<Rightarrow> (insnlen, print_found cfg op word memaddr st1)
                 | None \<Rightarrow> (insnlen, print_dot_insn insnlen packet st1)))"

end
