(* ===== verification/Dis_Search.thy ===== *)
theory Dis_Search
  imports Riscv_Dis
begin

text \<open>
  The search of the disassembler: starting at the hash entry of a word finds what a search of the whole table
  finds, and the argument strings of the table are understood to their end.
\<close>

section \<open>Start of the search\<close>

lemma hash_loop_other: "hash k = Some j \<Longrightarrow> riscv_hash_loop ops i hash k = Some j"
proof (induction ops arbitrary: i hash)
  case (Cons op ops)
  then show ?case by (cases "OP_HASH_IDX (op_match op) = k") auto
qed simp

lemma hash_loop_spec:
  "hash k = None \<Longrightarrow>
     riscv_hash_loop ops i hash k =
       (if \<exists>op \<in> set ops. OP_HASH_IDX (op_match op) = k
        then Some (i + length (takeWhile (\<lambda>op. OP_HASH_IDX (op_match op) \<noteq> k) ops)) else None)"
proof (induction ops arbitrary: i hash)
  case (Cons op ops)
  show ?case
  proof (cases "OP_HASH_IDX (op_match op) = k")
    case True
    with Cons.prems show ?thesis by (auto intro: hash_loop_other)
  next
    case False
    with Cons show ?thesis by (auto simp: fun_upd_def)
  qed
qed simp

lemma find_drop:
  "\<forall>x \<in> set (take k xs). \<not> P x \<Longrightarrow> find P (drop k xs) = find P xs"
proof (induction k arbitrary: xs)
  case (Suc k)
  then show ?case by (cases xs) auto
qed simp

lemma find_none: "\<forall>x \<in> set xs. \<not> P x \<Longrightarrow> find P xs = None"
  by (induction xs) auto

text \<open>An entry that matches a word has the hash index of the word.\<close>

definition indexed :: "riscv_opcode \<Rightarrow> bool" where
  "indexed op \<longleftrightarrow> (\<forall>word. pinfo op \<noteq> INSN_MACRO \<and> calls_match op word \<longrightarrow> OP_HASH_IDX (op_match op) = OP_HASH_IDX word)"

lemma dis_find_linear:
  assumes "\<forall>op \<in> set ops. indexed op"
  shows "dis_find ops cfg xlen word = find (dis_matches cfg xlen word) ops"
proof -
  let ?k = "OP_HASH_IDX word" and ?P = "dis_matches cfg xlen word"
  let ?n = "length (takeWhile (\<lambda>op. OP_HASH_IDX (op_match op) \<noteq> ?k) ops)"
  have idx: "\<not> ?P op" if "op \<in> set ops" "OP_HASH_IDX (op_match op) \<noteq> ?k" for op
    using assms that by (auto simp: indexed_def dis_matches_def)
  show ?thesis
  proof (cases "\<exists>op \<in> set ops. OP_HASH_IDX (op_match op) = ?k")
    case True
    have "take ?n ops = takeWhile (\<lambda>op. OP_HASH_IDX (op_match op) \<noteq> ?k) ops" by (simp add: takeWhile_eq_take [symmetric])
    then have "\<forall>x \<in> set (take ?n ops). \<not> ?P x" using idx by (auto dest: set_takeWhileD)
    then have "find ?P (drop ?n ops) = find ?P ops" by (rule find_drop)
    with True show ?thesis by (simp add: dis_find_def hash_loop_spec)
  next
    case False
    then have "find ?P ops = None" using idx by (intro find_none) blast
    with False show ?thesis by (simp add: dis_find_def hash_loop_spec)
  qed
qed

section \<open>Entries\<close>

lemma call_match_opcode:
  "call_match_fn f op word \<Longrightarrow> pinfo op \<noteq> INSN_MACRO \<Longrightarrow> f \<noteq> MF_rs1_nonzero \<Longrightarrow> match_opcode op word"
  by (cases f) (simp_all add: match_rs1_eq_rs2_def match_rs2_rd_even_def match_rd_nonzero_def match_c_add_def
      match_c_add_with_hint_def match_c_nop_def match_c_addi16sp_def match_c_lui_def match_c_lui_with_hint_def
      match_c_addi4spn_def match_c_slli_def match_slli_as_c_slli_def match_c_slli64_def match_srxi_as_c_srxi_def
      match_vs1_eq_vs2_def match_vd_eq_vs1_eq_vs2_def match_th_load_inc_def match_th_load_pair_def Let_def)

text \<open>
  The mask of an entry covers the bits the index is made of: two for a short instruction, seven otherwise, and the seven
  are not all set, since then the length would depend on more.
\<close>

definition low_bits_ok :: "insn_t \<Rightarrow> insn_t \<Rightarrow> bool" where
  "low_bits_ok mt mk \<longleftrightarrow> mk AND 3 = 3 \<and> (mt AND 3 = 3 \<longrightarrow> mk AND 0x7f = 0x7f \<and> mt AND 0x7f \<noteq> 0x7f)"

lemma masked_eq:
  fixes w mt mk s :: insn_t
  assumes "(w XOR mt) AND mk = 0" "mk AND s = s"
  shows "w AND s = mt AND s"
proof (rule bit_eqI)
  fix n
  assume n: "possible_bit TYPE(64 word) n"
  have "bit ((w XOR mt) AND mk) n \<longleftrightarrow> bit (0 :: insn_t) n" "bit (mk AND s) n \<longleftrightarrow> bit s n" using assms by simp_all
  then show "bit (w AND s) n \<longleftrightarrow> bit (mt AND s) n" by (auto simp: bit_and_iff bit_xor_iff)
qed

lemma and_and_mask: "(w AND 0x7f :: insn_t) AND 0x3 = w AND 0x3" "(w AND 0x7f :: insn_t) AND 0x1f = w AND 0x1f"
  "(w AND 0x7f :: insn_t) AND 0x3f = w AND 0x3f"
  by (simp_all add: and.assoc)

lemma insn_length_low:
  assumes "w AND 0x7f \<noteq> 0x7f" "(w AND 0x7f :: insn_t) = v AND 0x7f"
  shows "riscv_insn_length w = riscv_insn_length v"
proof -
  have "w AND 3 = v AND 3" "w AND 0x1f = v AND 0x1f" "w AND 0x3f = v AND 0x3f"
    using assms(2) and_and_mask [of w] and_and_mask [of v] by simp_all
  with assms show ?thesis by (simp add: riscv_insn_length_def)
qed

lemma insn_length_2: "w AND 3 \<noteq> 3 \<Longrightarrow> riscv_insn_length w = 2"
  by (simp add: riscv_insn_length_def)

lemma low_bits_index:
  assumes "low_bits_ok (op_match op) (op_mask op)" "match_opcode op word"
  shows "OP_HASH_IDX (op_match op) = OP_HASH_IDX word"
proof -
  have m: "(word XOR op_match op) AND op_mask op = 0" using assms(2) by (simp add: match_opcode_def)
  have "op_mask op AND 3 = 3" using assms(1) unfolding low_bits_ok_def by blast
  from masked_eq [OF m this] have w3: "word AND 3 = op_match op AND 3" .
  show ?thesis
  proof (cases "op_match op AND 3 = 3")
    case True
    then have mk: "op_mask op AND 0x7f = 0x7f" and all: "op_match op AND 0x7f \<noteq> 0x7f"
      using assms(1) unfolding low_bits_ok_def by blast+
    from masked_eq [OF m mk] have w7: "word AND 0x7f = op_match op AND 0x7f" .
    from insn_length_low [OF all w7 [symmetric]] show ?thesis
      unfolding OP_HASH_IDX_def by (cases "riscv_insn_length word = 2") (simp_all only: simp_thms if_True if_False w3 w7)
  next
    case False
    then have "word AND 3 \<noteq> 3" unfolding w3 .
    from insn_length_2 [OF this] insn_length_2 [OF False] show ?thesis
      unfolding OP_HASH_IDX_def by (simp only: simp_thms if_True w3)
  qed
qed

definition dis_entry_ok :: "riscv_opcode \<Rightarrow> bool" where
  "dis_entry_ok op \<longleftrightarrow>
     pinfo op = INSN_MACRO \<or>
     match_func op \<noteq> None \<and> match_func op \<noteq> Some MF_rs1_nonzero \<and> low_bits_ok (op_match op) (op_mask op)"

lemma dis_entry_ok_indexed: "dis_entry_ok op \<Longrightarrow> indexed op"
  unfolding indexed_def dis_entry_ok_def calls_match_def
  by (auto intro!: low_bits_index intro: call_match_opcode)

section \<open>Argument strings\<close>

text \<open>
  What an operand that is printed leaves of the argument string; it does not depend on the instruction. Letters without a
  case, over which the printer passes in silence, count as unknown here.
\<close>

fun printed_rest :: "operand_result \<Rightarrow> string option" where
  "printed_rest (Prints f r) = Some r"
| "printed_rest (Silent r) = None"
| "printed_rest Undefined = None"

definition letter_rest :: "string \<Rightarrow> string \<Rightarrow> string option" where
  "letter_rest known cs = (case cs of [] \<Rightarrow> None | c # r \<Rightarrow> if c \<in> set known then Some r else None)"

definition thead_rest :: "string \<Rightarrow> string option" where
  "thead_rest cs =
     (case cs of
        [] \<Rightarrow> None
      | c # ds \<Rightarrow>
          if c = CHR ''V'' then letter_rest ''c'' ds
          else if c = CHR ''l'' then Some (dropWhile (\<lambda>x. x \<noteq> CHR '','') ds)
          else if c = CHR ''s'' \<or> c = CHR ''u'' then
            (case snd (strtol 0 ds) of
               [] \<Rightarrow> None
             | at # fs \<Rightarrow> if at \<noteq> CHR ''@'' then None else Some (snd (strtol 0 fs)))
          else None)"

definition operand_rest :: "char \<Rightarrow> string \<Rightarrow> string option" where
  "operand_rest c cs =
     (if c = CHR ''C'' then letter_rest ''swtxUcVojklmnKLMNpau><TD'' cs
      else if c = CHR ''V'' then letter_rest ''dfestuv0bcijklm'' cs
      else if c = CHR ''W'' then
        (case cs of
           [] \<Rightarrow> None
         | d # r \<Rightarrow> if d = CHR ''i'' then letter_rest ''f'' r else if d = CHR ''f'' then letter_rest ''v'' r
                    else if d = CHR ''c'' then letter_rest ''bhrp'' r else None)
      else if c = CHR ''X'' then
        (case cs of
           [] \<Rightarrow> None
         | d # r \<Rightarrow>
             if d = CHR ''t'' then thead_rest r
             else if d = CHR ''c'' then letter_rest ''234'' r
             else if d = CHR ''s'' then
               (case r of [] \<Rightarrow> None | e # r' \<Rightarrow> if e = CHR ''O'' then letter_rest ''21'' r' else letter_rest ''dt'' r)
             else None)
      else if c \<in> set '',()[]{}0strlumPQojqapdyz><SUTDREYZ'' then Some cs else None)"

lemma letter_rest: "map_option snd (letter t cs) = letter_rest (map fst t) cs"
proof (cases cs)
  case (Cons c r)
  show ?thesis
  proof (cases "map_of t c")
    case None
    with Cons show ?thesis by (simp add: letter_def letter_rest_def map_of_eq_None_iff)
  next
    case (Some f)
    then have "c \<in> set (map fst t)" by (force dest: map_of_SomeD)
    with Some Cons show ?thesis by (simp add: letter_def letter_rest_def)
  qed
qed (simp add: letter_def letter_rest_def)

lemma print_thead_rest: "map_option snd (print_thead l cs) = thead_rest cs"
  by (auto simp: print_thead_def thead_rest_def letter_rest Let_def split: list.splits prod.splits)

lemma print_base_known: "(print_base cfg l pc c cs = None) \<longleftrightarrow> c \<notin> set '',()[]{}0strlumPQojqapdyz><SUTDREYZ''"
  unfolding print_base_def Let_def by simp

lemma print_zext_rest:
  "map_option snd (print_zext cfg l cs) =
     (case cs of
        [] \<Rightarrow> None
      | d # r \<Rightarrow> if d = CHR ''i'' then letter_rest ''f'' r else if d = CHR ''f'' then letter_rest ''v'' r
                 else if d = CHR ''c'' then letter_rest ''bhrp'' r else None)"
  unfolding print_zext_def by (cases cs) (simp_all only: list.case if_distrib [of "map_option snd"] letter_rest list.map
      fst_conv option.map)

lemma printed_rest_known: "printed_rest (known_or_undefined x) = map_option snd x"
  by (auto simp: known_or_undefined_def split: option.splits)

lemma printed_rest_letter:
  assumes "\<And>c. t c \<noteq> None \<longleftrightarrow> c \<in> set known"
  shows "printed_rest (known_or_silent t cs) = letter_rest known cs"
proof (cases cs)
  case (Cons c r)
  with assms [of c] show ?thesis by (auto simp: known_or_silent_def letter_rest_def split: option.splits)
qed (simp add: known_or_silent_def letter_rest_def)

lemma print_rvc_known: "print_rvc cfg l pc c \<noteq> None \<longleftrightarrow> c \<in> set ''swtxUcVojklmnKLMNpau><TD''"
  unfolding print_rvc_def Let_def by simp

lemma print_rvv_known: "print_rvv cfg l c \<noteq> None \<longleftrightarrow> c \<in> set ''dfestuv0bcijklm''"
  unfolding print_rvv_def by simp

lemma print_vendor_rest:
  "printed_rest (print_vendor l cs) =
     (case cs of
        [] \<Rightarrow> None
      | d # r \<Rightarrow>
          if d = CHR ''t'' then thead_rest r
          else if d = CHR ''c'' then letter_rest ''234'' r
          else if d = CHR ''s'' then
            (case r of [] \<Rightarrow> None | e # r' \<Rightarrow> if e = CHR ''O'' then letter_rest ''21'' r' else letter_rest ''dt'' r)
          else None)"
proof (cases cs)
  case (Cons d r)
  have two: "printed_rest (known_or_silent (map_of [(a, f), (b, g)]) xs) = letter_rest [a, b] xs" for a b f g xs
    by (rule printed_rest_letter) auto
  show ?thesis
    unfolding print_vendor_def Cons
    by (cases r) (simp_all only: list.case if_distrib [of printed_rest] printed_rest_known letter_rest two
        print_thead_rest printed_rest.simps list.map fst_conv)
qed (simp add: print_vendor_def)

lemma print_operand_rest: "printed_rest (print_operand cfg l pc c cs) = operand_rest c cs"
proof -
  have base: "map_option snd (map_option (\<lambda>f. (f, cs)) (print_base cfg l pc c cs)) =
      (if c \<in> set '',()[]{}0strlumPQojqapdyz><SUTDREYZ'' then Some cs else None)"
    using print_base_known [of cfg l pc c cs] by (cases "print_base cfg l pc c cs") auto
  note rvc = printed_rest_letter [OF print_rvc_known] and rvv = printed_rest_letter [OF print_rvv_known]
  consider "c = CHR ''C''" | "c = CHR ''V''" | "c = CHR ''W''" | "c = CHR ''X''"
    | "c \<noteq> CHR ''C''" "c \<noteq> CHR ''V''" "c \<noteq> CHR ''W''" "c \<noteq> CHR ''X''" by blast
  then show ?thesis
  proof cases
    case 5
    then show ?thesis unfolding print_operand_def operand_rest_def printed_rest_known [symmetric] using base
      by (simp only: if_False simp_thms printed_rest_known)
  qed (simp_all add: print_operand_def operand_rest_def rvc rvv printed_rest_known print_zext_rest print_vendor_rest)
qed

text \<open>Argument strings that the printer knows to the end.\<close>

function dis_args_ok :: "string \<Rightarrow> bool" where
  "dis_args_ok [] = True"
| "dis_args_ok (c # cs) = (case operand_rest c cs of None \<Rightarrow> False | Some r \<Rightarrow> dis_args_ok r)"
  by pat_completeness auto

lemma operand_rest_shorter: "operand_rest c cs = Some r \<Longrightarrow> length r \<le> length cs"
  using print_operand_rest [of undefined 0 0 c cs] print_operand_less(1) [of undefined 0 0 c cs]
  by (cases "print_operand undefined 0 0 c cs") auto

termination dis_args_ok
  by (relation "measure length") (auto dest: operand_rest_shorter simp: le_imp_less_Suc)

text \<open>The printers of an argument string, if each of its operands has a case.\<close>

fun run_printers :: "printer list \<Rightarrow> printer" where
  "run_printers [] st = st"
| "run_printers (f # fs) st = run_printers fs (f st)"

fun operand_printers :: "nat \<Rightarrow> dis_config \<Rightarrow> insn_t \<Rightarrow> u64 \<Rightarrow> string \<Rightarrow> printer list option" where
  "operand_printers k cfg l pc [] = Some []"
| "operand_printers 0 cfg l pc (c # cs) = None"
| "operand_printers (Suc k) cfg l pc (c # cs) =
     (case print_operand cfg l pc c cs of
        Undefined \<Rightarrow> None
      | Silent r \<Rightarrow> None
      | Prints f r \<Rightarrow> map_option (\<lambda>fs. f # fs) (operand_printers k cfg l pc r))"

lemma known_operands:
  assumes "dis_args_ok cs" "length cs \<le> k"
  shows "\<exists>fs. operand_printers k cfg l pc cs = Some fs \<and> (\<forall>st. print_args_loop cfg l pc cs st = run_printers fs st)"
  using assms
proof (induction k arbitrary: cs)
  case (Suc k)
  show ?case
  proof (cases cs)
    case (Cons c ds)
    from Suc.prems(1) obtain r where r: "operand_rest c ds = Some r" "dis_args_ok r"
      by (auto simp: Cons split: option.splits)
    with print_operand_rest [of cfg l pc c ds] obtain f where f: "print_operand cfg l pc c ds = Prints f r"
      by (cases "print_operand cfg l pc c ds") auto
    from operand_rest_shorter [OF r(1)] Suc.prems(2) have "length r \<le> k" by (simp add: Cons)
    from Suc.IH [OF r(2) this] f show ?thesis by (auto simp: Cons)
  qed simp
qed simp

declare dis_args_ok.simps [simp del]

end
