(* ===== verification/Dis_Checks.thy ===== *)
theory Dis_Checks
  imports Dis_Search
begin

text \<open>
  The opcode table meets what the disassembler relies on: the masks cover the bits of the hash index, and the operands
  of an entry are ones the printer has a case for, up to eight entries that an earlier entry hides. The argument strings are
  evaluated once each.
\<close>

section \<open>Argument strings\<close>

named_theorems dis_arg_strings \<open>argument strings that the printer knows\<close>

lemma dis_args_1 [dis_arg_strings]:
  "dis_args_ok ''Wif(s)'' \<and>
   dis_args_ok '''' \<and>
   dis_args_ok ''s,t,r,l'' \<and>
   dis_args_ok ''s,t,l'' \<and>
   dis_args_ok ''d'' \<and>
   dis_args_ok ''s'' \<and>
   dis_args_ok ''o(s)'' \<and>
   dis_args_ok ''s,j'' \<and>
   dis_args_ok ''d,s'' \<and>
   dis_args_ok ''d,o(s)'' \<and>
   dis_args_ok ''d,s,j'' \<and>
   dis_args_ok ''Ca'' \<and>
   dis_args_ok ''a'' \<and>
   dis_args_ok ''d,a'' \<and>
   dis_args_ok ''d,Cu'' \<and>
   dis_args_ok ''d,u'' \<and>
   dis_args_ok ''d,Co'' \<and>
   dis_args_ok ''d,j'' \<and>
   dis_args_ok ''d,CV''"
  by code_simp

lemma dis_args_2 [dis_arg_strings]:
  "dis_args_ok ''Cs,Cw'' \<and>
   dis_args_ok ''Cs,Cw,Co'' \<and>
   dis_args_ok ''Cs,Cw,Ct'' \<and>
   dis_args_ok ''Cs,Ct,Cw'' \<and>
   dis_args_ok ''d,s,t'' \<and>
   dis_args_ok ''Cs,Cp'' \<and>
   dis_args_ok ''s,p'' \<and>
   dis_args_ok ''s,t,p'' \<and>
   dis_args_ok ''t,p'' \<and>
   dis_args_ok ''t,s,p'' \<and>
   dis_args_ok ''Ct,Cc,CK'' \<and>
   dis_args_ok ''d,CU,Cj'' \<and>
   dis_args_ok ''d,CU,z'' \<and>
   dis_args_ok ''Cc,Cc,CL'' \<and>
   dis_args_ok ''d,CV,z'' \<and>
   dis_args_ok ''d,CU,CV'' \<and>
   dis_args_ok ''d,CV,CU'' \<and>
   dis_args_ok ''d,CU,Co''"
  by code_simp

lemma dis_args_3 [dis_arg_strings]:
  "dis_args_ok ''d,t'' \<and>
   dis_args_ok ''d,CU,C>'' \<and>
   dis_args_ok ''d,s,>'' \<and>
   dis_args_ok ''Cs,Cw,C>'' \<and>
   dis_args_ok ''Ct,Wcb(Cs)'' \<and>
   dis_args_ok ''Ct,Wch(Cs)'' \<and>
   dis_args_ok ''d,Cm(Cc)'' \<and>
   dis_args_ok ''Ct,Ck(Cs)'' \<and>
   dis_args_ok ''d,t,s'' \<and>
   dis_args_ok ''t,q(s)'' \<and>
   dis_args_ok ''CV,CM(Cc)'' \<and>
   dis_args_ok ''P,Q'' \<and>
   dis_args_ok ''d,Cn(Cc)'' \<and>
   dis_args_ok ''Ct,Cl(Cs)'' \<and>
   dis_args_ok ''CV,CN(Cc)'' \<and>
   dis_args_ok ''d,CU'' \<and>
   dis_args_ok ''d,s,<'' \<and>
   dis_args_ok ''d,0(s)'' \<and>
   dis_args_ok ''d,t,0(s)''"
  by code_simp

lemma dis_args_4 [dis_arg_strings]:
  "dis_args_ok ''D,o(s)'' \<and>
   dis_args_ok ''T,q(s)'' \<and>
   dis_args_ok ''d,S'' \<and>
   dis_args_ok ''D,s'' \<and>
   dis_args_ok ''D,U'' \<and>
   dis_args_ok ''D,S,T'' \<and>
   dis_args_ok ''D,S,T,m'' \<and>
   dis_args_ok ''D,S'' \<and>
   dis_args_ok ''D,S,m'' \<and>
   dis_args_ok ''D,S,T,R'' \<and>
   dis_args_ok ''D,S,T,R,m'' \<and>
   dis_args_ok ''d,S,m'' \<and>
   dis_args_ok ''D,s,m'' \<and>
   dis_args_ok ''d,S,T'' \<and>
   dis_args_ok ''d,T,S'' \<and>
   dis_args_ok ''d,Z'' \<and>
   dis_args_ok ''Z'' \<and>
   dis_args_ok ''D,Cm(Cc)'' \<and>
   dis_args_ok ''CD,Ck(Cs)'' \<and>
   dis_args_ok ''CT,CM(Cc)''"
  by code_simp

lemma dis_args_5 [dis_arg_strings]:
  "dis_args_ok ''D,Cn(Cc)'' \<and>
   dis_args_ok ''CD,Cl(Cs)'' \<and>
   dis_args_ok ''CT,CN(Cc)'' \<and>
   dis_args_ok ''Cj'' \<and>
   dis_args_ok ''Cc,CL'' \<and>
   dis_args_ok ''Cs,Ct'' \<and>
   dis_args_ok ''d,C>'' \<and>
   dis_args_ok ''Cs,C>'' \<and>
   dis_args_ok ''Cs'' \<and>
   dis_args_ok ''Cs,Co'' \<and>
   dis_args_ok ''0(s)'' \<and>
   dis_args_ok ''D,Wfv'' \<and>
   dis_args_ok ''D,s,t'' \<and>
   dis_args_ok ''d,s,t,y'' \<and>
   dis_args_ok ''d,s,Y'' \<and>
   dis_args_ok ''d,s,Vc'' \<and>
   dis_args_ok ''d,Z,Vb'' \<and>
   dis_args_ok ''Vd,0(s)'' \<and>
   dis_args_ok ''Vd,0(s)Vm'' \<and>
   dis_args_ok ''Vd,0(s),tVm''"
  by code_simp

lemma dis_args_6 [dis_arg_strings]:
  "dis_args_ok ''Vd,0(s),VtVm'' \<and>
   dis_args_ok ''Vd,VtVm'' \<and>
   dis_args_ok ''Vd,Vt,VsVm'' \<and>
   dis_args_ok ''Vd,Vt,sVm'' \<and>
   dis_args_ok ''Vd,Vt,ViVm'' \<and>
   dis_args_ok ''Vd,Vt,Vs,V0'' \<and>
   dis_args_ok ''Vd,Vt,s,V0'' \<and>
   dis_args_ok ''Vd,Vt,Vi,V0'' \<and>
   dis_args_ok ''Vd,Vt,Vs'' \<and>
   dis_args_ok ''Vd,Vt,s'' \<and>
   dis_args_ok ''Vd,Vt,Vi'' \<and>
   dis_args_ok ''Vd,Vt,VjVm'' \<and>
   dis_args_ok ''Vd,Vs,VtVm'' \<and>
   dis_args_ok ''Vd,Vt,VkVm'' \<and>
   dis_args_ok ''Vd,Vu,0Vm'' \<and>
   dis_args_ok ''Vd,s,VtVm'' \<and>
   dis_args_ok ''Vd,Vs'' \<and>
   dis_args_ok ''Vd,s'' \<and>
   dis_args_ok ''Vd,Vi'' \<and>
   dis_args_ok ''Vd,Vt,SVm''"
  by code_simp

lemma dis_args_7 [dis_arg_strings]:
  "dis_args_ok ''Vd,S,VtVm'' \<and>
   dis_args_ok ''Vd,VuVm'' \<and>
   dis_args_ok ''Vd,Vt,S,V0'' \<and>
   dis_args_ok ''Vd,S'' \<and>
   dis_args_ok ''Vd,Vu'' \<and>
   dis_args_ok ''Vv'' \<and>
   dis_args_ok ''d,VtVm'' \<and>
   dis_args_ok ''VdVm'' \<and>
   dis_args_ok ''d,Vt'' \<and>
   dis_args_ok ''D,Vt'' \<and>
   dis_args_ok ''Vd,Vt'' \<and>
   dis_args_ok ''Vd,Vt,VlVm'' \<and>
   dis_args_ok ''Vd,Vt,Vj'' \<and>
   dis_args_ok ''{Wcr},Wcp'' \<and>
   dis_args_ok ''d,E'' \<and>
   dis_args_ok ''E,Z'' \<and>
   dis_args_ok ''E,s'' \<and>
   dis_args_ok ''d,E,Z'' \<and>
   dis_args_ok ''d,E,s'' \<and>
   dis_args_ok ''s,t''"
  by code_simp

lemma dis_args_8 [dis_arg_strings]:
  "dis_args_ok ''t,0(s)'' \<and>
   dis_args_ok ''d,s,t,Xc3'' \<and>
   dis_args_ok ''d,s,Xc2'' \<and>
   dis_args_ok ''s,Xc4,p'' \<and>
   dis_args_ok ''d,(s),o'' \<and>
   dis_args_ok ''d,(s),t'' \<and>
   dis_args_ok ''d,t(s)'' \<and>
   dis_args_ok ''t,(s),q'' \<and>
   dis_args_ok ''t,d(s)'' \<and>
   dis_args_ok ''t,(s),d'' \<and>
   dis_args_ok ''d,s,t,Xtu2@25'' \<and>
   dis_args_ok ''d,s,Xtu6@20'' \<and>
   dis_args_ok ''d,s,Xtu5@20'' \<and>
   dis_args_ok ''d,s,Xtu6@26,Xtu6@20'' \<and>
   dis_args_ok ''D,s,t,Xtu2@25'' \<and>
   dis_args_ok ''d,(s),Xts5@20,Xtu2@25'' \<and>
   dis_args_ok ''d,t,(s),Xtu2@25,Xtl4'' \<and>
   dis_args_ok ''d,t,(s),Xtu2@25,Xtl3'' \<and>
   dis_args_ok ''d,s,XtVc'' \<and>
   dis_args_ok ''Ve,Vt,(s),VfVm''"
  by code_simp

lemma dis_args_9 [dis_arg_strings]:
  "dis_args_ok ''d,Vt,s'' \<and>
   dis_args_ok ''XsO2,Xst,Xsd,s'' \<and>
   dis_args_ok ''XsO2,Xst,Vd,s'' \<and>
   dis_args_ok ''XsO2,Xst,Xsd,Vi'' \<and>
   dis_args_ok ''XsO2,Xst,Vd,Vi'' \<and>
   dis_args_ok ''XsO2,Xsd,Vt,Vs'' \<and>
   dis_args_ok ''XsO2,Vd,Vt,Vs'' \<and>
   dis_args_ok ''XsO2,Xsd,Vt,s'' \<and>
   dis_args_ok ''XsO2,Vd,Vt,s'' \<and>
   dis_args_ok ''XsO2,Xsd,Vt,Vi'' \<and>
   dis_args_ok ''XsO2,Vd,Vt,Vi'' \<and>
   dis_args_ok ''XsO1,Xsd,Vt,S'' \<and>
   dis_args_ok ''XsO1,Vd,Vt,S''"
  by code_simp

section \<open>Hidden entries\<close>

text \<open>Wherever the second entry matches, so does the first.\<close>

definition covered_by :: "riscv_opcode \<Rightarrow> riscv_opcode \<Rightarrow> bool" where
  "covered_by s op \<longleftrightarrow>
     pinfo s = pinfo op \<and> xlen_requirement s = 0 \<and> insn_class s = insn_class op \<and> match_func s = match_func op \<and>
     op_match s = op_match op \<and>
     (op_mask s = op_mask op \<or> match_func op = Some MF_opcode \<and> op_mask s = op_mask op AND op_mask s)"

lemma match_fields_cong:
  assumes "op_match s = op_match op" "op_mask s = op_mask op" "pinfo s = pinfo op" "match_func s = match_func op"
  shows "calls_match s word = calls_match op word"
proof -
  have "call_match_fn f s word = call_match_fn f op word" for f
    using assms(1-3) by (cases f) (simp_all add: opc_defs)
  with assms(4) show ?thesis by (simp add: calls_match_def split: option.split)
qed

lemma covered_by_matches:
  assumes "covered_by s op" "dis_matches cfg xlen word op"
  shows "dis_matches cfg xlen word s"
proof (cases "op_mask s = op_mask op")
  case True
  with assms match_fields_cong [of s op word] show ?thesis by (auto simp: covered_by_def dis_matches_def)
next
  case False
  have c: "pinfo s = pinfo op" "match_func s = Some MF_opcode" "match_func op = Some MF_opcode" "xlen_requirement s = 0"
    "insn_class s = insn_class op" and m: "op_match s = op_match op" and k: "op_mask s = op_mask op AND op_mask s"
    using assms(1) False unfolding covered_by_def by auto
  have "(word XOR op_match op) AND op_mask op = 0"
    using assms(2) c by (simp add: dis_matches_def calls_match_def match_opcode_def)
  then have "((word XOR op_match op) AND op_mask op) AND op_mask s = 0" by simp
  then have "(word XOR op_match s) AND op_mask s = 0" unfolding m and.assoc k [symmetric] .
  with assms(2) c show ?thesis by (simp add: dis_matches_def calls_match_def match_opcode_def)
qed

lemma find_Some_before: "find P xs = Some b \<Longrightarrow> x \<in> set (takeWhile (\<lambda>y. y \<noteq> b) xs) \<Longrightarrow> \<not> P x"
  by (induction xs) (auto split: if_splits)

text \<open>Mnemonic and arguments of an entry whose operands are not all known, and the entry before it that matches the same words.\<close>

definition hiding :: "((string \<times> string) \<times> riscv_opcode) list" where
  "hiding =
     [((''jalr'', ''d,s,1''), opc ''jalr'' 0 INSN_CLASS_I ''d,o(s)'' 0x67 0x707f (Some MF_opcode) 0x6),
      ((''andi'', ''Cs,Cw,Wcf''), opc ''zext.b'' 0 INSN_CLASS_ZCB ''Cs,Cw'' 0x9c61 0xfc7f (Some MF_opcode) 0x1),
      ((''add'', ''d,s,t,1''), opc ''add'' 0 INSN_CLASS_I ''d,s,t'' 0x33 0xfe00707f (Some MF_opcode) 0),
      ((''li'', ''d,Cv''), opc ''lui'' 0 INSN_CLASS_C ''d,Cu'' 0x6001 0xe003 (Some MF_c_lui) 0x1),
      ((''beq'', ''Cs,Cz,Cp''), opc ''beqz'' 0 INSN_CLASS_C ''Cs,Cp'' 0xc001 0xe003 (Some MF_opcode) 0x5),
      ((''bne'', ''Cs,Cz,Cp''), opc ''bnez'' 0 INSN_CLASS_C ''Cs,Cp'' 0xe001 0xe003 (Some MF_opcode) 0x5),
      ((''addi'', ''d,Cz,Co''), opc ''li'' 0 INSN_CLASS_C ''d,Co'' 0x4001 0xe003 (Some MF_rd_nonzero) 0x1),
      ((''add'', ''d,Cz,CV''), opc ''mv'' 0 INSN_CLASS_C ''d,CV'' 0x8002 0xf003 (Some MF_c_add) 0x1)]"

definition hidden :: "riscv_opcode \<Rightarrow> bool" where
  "hidden op \<longleftrightarrow> list_ex (\<lambda>((n, a), s). op_name op = n \<and> op_args op = a \<and> covered_by s op) hiding"

definition dis_ready :: "riscv_opcode \<Rightarrow> bool" where
  "dis_ready op \<longleftrightarrow> dis_entry_ok op \<and> (pinfo op = INSN_MACRO \<or> dis_args_ok (op_args op) \<or> hidden op)"

lemma dis_ready_opc:
  "dis_ready (opc n x c a mt mk f p) \<longleftrightarrow>
     p = INSN_MACRO \<or>
     f \<noteq> None \<and> f \<noteq> Some MF_rs1_nonzero \<and> low_bits_ok mt mk \<and> (dis_args_ok a \<or> hidden (opc n x c a mt mk f p))"
  by (auto simp: dis_ready_def dis_entry_ok_def opc_def)

lemma op_args_opc: "op_args (opc n x c a mt mk f p) = a" "op_name (opc n x c a mt mk f p) = n"
  by (simp_all add: opc_def)

lemma opc_eq_iff:
  "opc n x c a mt mk f p = opc n' x' c' a' mt' mk' f' p' \<longleftrightarrow>
     n = n' \<and> a = a' \<and> x = x' \<and> c = c' \<and> mt = mt' \<and> mk = mk' \<and> f = f' \<and> p = p'"
  by (auto simp: opc_def)

lemma hidden_strings:
  "hidden (opc ''jalr'' 0 INSN_CLASS_I ''d,s,1'' 0x67 0xfff0707f (Some MF_opcode) 0x6)"
  "hidden (opc ''andi'' 0 INSN_CLASS_ZCB ''Cs,Cw,Wcf'' 0x9c61 0xfc7f (Some MF_opcode) 0x1)"
  "hidden (opc ''add'' 0 INSN_CLASS_I ''d,s,t,1'' 0x33 0xfe00707f (Some MF_opcode) 0)"
  "hidden (opc ''li'' 0 INSN_CLASS_C ''d,Cv'' 0x6001 0xe003 (Some MF_c_lui) 0x1)"
  "hidden (opc ''beq'' 0 INSN_CLASS_C ''Cs,Cz,Cp'' 0xc001 0xe003 (Some MF_opcode) 0x5)"
  "hidden (opc ''bne'' 0 INSN_CLASS_C ''Cs,Cz,Cp'' 0xe001 0xe003 (Some MF_opcode) 0x5)"
  "hidden (opc ''addi'' 0 INSN_CLASS_C ''d,Cz,Co'' 0x4001 0xe003 (Some MF_rd_nonzero) 0x1)"
  "hidden (opc ''add'' 0 INSN_CLASS_C ''d,Cz,CV'' 0x8002 0xf003 (Some MF_c_add) 0x1)"
  by (simp_all add: hidden_def hiding_def covered_by_def opc_def)

text \<open>The entry occurs before the first entry with that mnemonic and those arguments does.\<close>

abbreviation (input) named_args :: "string \<times> string \<Rightarrow> riscv_opcode \<Rightarrow> bool" where
  "named_args k x \<equiv> op_name x = fst k \<and> op_args x = snd k"

fun comes_first :: "string \<times> string \<Rightarrow> riscv_opcode \<Rightarrow> riscv_opcode list \<Rightarrow> bool" where
  "comes_first k s [] = False"
| "comes_first k s (x # xs) \<longleftrightarrow> \<not> named_args k x \<and> (x = s \<or> comes_first k s xs)"

lemma comes_first_takeWhile: "comes_first k s xs \<Longrightarrow> s \<in> set (takeWhile (\<lambda>x. \<not> named_args k x) xs)"
  by (induction xs) auto

lemma hiding_first: "list_all (\<lambda>(k, s). comes_first k s riscv_opcodes_1) hiding"
  unfolding hiding_def riscv_opcodes_1_def by (simp add: op_args_opc opc_eq_iff)

section \<open>The parts of the table\<close>

lemmas dis_ready_check = dis_ready_opc low_bits_ok_def dis_arg_strings hidden_strings [unfolded One_nat_def]

lemma riscv_opcodes_1_ready: "list_all dis_ready riscv_opcodes_1"
  unfolding riscv_opcodes_1_def by (simp add: dis_ready_check)

lemma riscv_opcodes_2_ready: "list_all dis_ready riscv_opcodes_2"
  unfolding riscv_opcodes_2_def by (simp add: dis_ready_check)

lemma riscv_opcodes_3_ready: "list_all dis_ready riscv_opcodes_3"
  unfolding riscv_opcodes_3_def by (simp add: dis_ready_check)

lemma riscv_opcodes_4_ready: "list_all dis_ready riscv_opcodes_4"
  unfolding riscv_opcodes_4_def by (simp add: dis_ready_check)

lemma riscv_opcodes_5_ready: "list_all dis_ready riscv_opcodes_5"
  unfolding riscv_opcodes_5_def by (simp add: dis_ready_check)

lemma riscv_opcodes_6_ready: "list_all dis_ready riscv_opcodes_6"
  unfolding riscv_opcodes_6_def by (simp add: dis_ready_check)

lemma riscv_opcodes_7_ready: "list_all dis_ready riscv_opcodes_7"
  unfolding riscv_opcodes_7_def by (simp add: dis_ready_check)

lemma riscv_opcodes_8_ready: "list_all dis_ready riscv_opcodes_8"
  unfolding riscv_opcodes_8_def by (simp add: dis_ready_check)

lemma riscv_opcodes_9_ready: "list_all dis_ready riscv_opcodes_9"
  unfolding riscv_opcodes_9_def by (simp add: dis_ready_check)

lemma riscv_opcodes_10_ready: "list_all dis_ready riscv_opcodes_10"
  unfolding riscv_opcodes_10_def by (simp add: dis_ready_check)

lemma riscv_opcodes_11_ready: "list_all dis_ready riscv_opcodes_11"
  unfolding riscv_opcodes_11_def by (simp add: dis_ready_check)

lemma riscv_opcodes_12_ready: "list_all dis_ready riscv_opcodes_12"
  unfolding riscv_opcodes_12_def by (simp add: dis_ready_check)

lemma riscv_opcodes_13_ready: "list_all dis_ready riscv_opcodes_13"
  unfolding riscv_opcodes_13_def by (simp add: dis_ready_check)

lemma riscv_opcodes_14_ready: "list_all dis_ready riscv_opcodes_14"
  unfolding riscv_opcodes_14_def by (simp add: dis_ready_check)

lemma riscv_opcodes_15_ready: "list_all dis_ready riscv_opcodes_15"
  unfolding riscv_opcodes_15_def by (simp add: dis_ready_check)

lemma riscv_opcodes_16_ready: "list_all dis_ready riscv_opcodes_16"
  unfolding riscv_opcodes_16_def by (simp add: dis_ready_check)

lemma riscv_opcodes_17_ready: "list_all dis_ready riscv_opcodes_17"
  unfolding riscv_opcodes_17_def by (simp add: dis_ready_check)

lemma riscv_opcodes_18_ready: "list_all dis_ready riscv_opcodes_18"
  unfolding riscv_opcodes_18_def by (simp add: dis_ready_check)

lemma riscv_opcodes_19_ready: "list_all dis_ready riscv_opcodes_19"
  unfolding riscv_opcodes_19_def by (simp add: dis_ready_check)

lemmas part_ready =
  riscv_opcodes_1_ready riscv_opcodes_2_ready riscv_opcodes_3_ready
  riscv_opcodes_4_ready riscv_opcodes_5_ready riscv_opcodes_6_ready
  riscv_opcodes_7_ready riscv_opcodes_8_ready riscv_opcodes_9_ready
  riscv_opcodes_10_ready riscv_opcodes_11_ready riscv_opcodes_12_ready
  riscv_opcodes_13_ready riscv_opcodes_14_ready riscv_opcodes_15_ready
  riscv_opcodes_16_ready riscv_opcodes_17_ready riscv_opcodes_18_ready
  riscv_opcodes_19_ready

lemma riscv_opcodes_ready: "list_all dis_ready riscv_opcodes"
  unfolding riscv_opcodes_def by (simp add: part_ready)

end
