(* ===== verification/Dis_Props.thy ===== *)
theory Dis_Props
  imports Dis_Checks
begin

text \<open>
  What the disassembler does with the opcode table of the fork: its hashed search is the search of the whole table, the
  operands of whatever it finds are printed to the end, and the words of the in-memory instructions give back mnemonic
  and registers.
\<close>

section \<open>The table\<close>

lemma dis_readyD:
  assumes "op \<in> set riscv_opcodes"
  shows "indexed op" and "pinfo op = INSN_MACRO \<or> dis_args_ok (op_args op) \<or> hidden op"
  using riscv_opcodes_ready assms
  by (auto simp: list_all_iff dis_ready_def intro: dis_entry_ok_indexed)

lemma table_find: "dis_find riscv_opcodes cfg xlen word = find (dis_matches cfg xlen word) riscv_opcodes"
  by (rule dis_find_linear) (blast intro: dis_readyD)

lemma opcodes_1_prefix: "\<exists>xs. riscv_opcodes = riscv_opcodes_1 @ xs"
  by (simp add: riscv_opcodes_def)

lemma takeWhile_append_subset: "set (takeWhile P xs) \<subseteq> set (takeWhile P (xs @ ys))"
  by (induction xs) auto

lemma hidden_not_found:
  assumes "hidden op" shows "find (dis_matches cfg xlen word) riscv_opcodes \<noteq> Some op"
proof
  let ?P = "dis_matches cfg xlen word"
  assume found: "find ?P riscv_opcodes = Some op"
  then have "?P op" by (auto simp: find_Some_iff)
  from assms obtain k s where s: "(k, s) \<in> set hiding" "named_args k op" "covered_by s op"
    by (auto simp: hidden_def list_ex_iff)
  from s(1) hiding_first have "comes_first k s riscv_opcodes_1" by (auto simp: list_all_iff)
  then have "s \<in> set (takeWhile (\<lambda>x. \<not> named_args k x) riscv_opcodes_1)" by (rule comes_first_takeWhile)
  moreover obtain xs where "riscv_opcodes = riscv_opcodes_1 @ xs" using opcodes_1_prefix by blast
  ultimately have "s \<in> set (takeWhile (\<lambda>x. \<not> named_args k x) riscv_opcodes)"
    using takeWhile_append_subset [of "\<lambda>x. \<not> named_args k x" riscv_opcodes_1 xs] by auto
  also have "\<dots> \<subseteq> set (takeWhile (\<lambda>x. x \<noteq> op) riscv_opcodes)"
  proof -
    have "set (takeWhile (\<lambda>x. \<not> named_args k x) xs) \<subseteq> set (takeWhile (\<lambda>x. x \<noteq> op) xs)" for xs
      using s(2) by (induction xs) auto
    then show ?thesis .
  qed
  finally have "\<not> ?P s" by (rule find_Some_before [OF found])
  with covered_by_matches [OF s(3) \<open>?P op\<close>] show False by contradiction
qed

section \<open>The printer\<close>

lemma dis_out_emit [simp]: "dis_out (emit p st) = dis_out st @ [p]"
  by (simp add: emit_def)

lemma emit_xlen: "emit p (st\<lparr>dis_xlen := n\<rparr>) = (emit p st)\<lparr>dis_xlen := n\<rparr>"
  by (simp add: emit_def)

lemma print_halves_xlen: "print_halves ws b (st\<lparr>dis_xlen := n\<rparr>) = (print_halves ws b st)\<lparr>dis_xlen := n\<rparr>"
  by (induction ws b st rule: print_halves.induct) (simp_all add: emit_xlen)

lemma print_dot_insn_xlen: "print_dot_insn len packet (st\<lparr>dis_xlen := n\<rparr>) = (print_dot_insn len packet st)\<lparr>dis_xlen := n\<rparr>"
proof -
  have "st\<lparr>dis_xlen := n, info_insn_type := Dis_noninsn\<rparr> = st\<lparr>info_insn_type := Dis_noninsn, dis_xlen := n\<rparr>"
    by (cases st) simp
  then show ?thesis unfolding print_dot_insn_def by (simp only: emit_xlen print_halves_xlen)
qed

definition fresh_info :: "dis_state \<Rightarrow> dis_state" where
  "fresh_info st = st\<lparr>info_insn_type := Dis_nonbranch, info_data_size := 0, info_target := 0\<rparr>"

lemma disassemble_find:
  fixes cfg st word
  defines "n \<equiv> xlen_of cfg (dis_xlen st)"
  assumes "dis_find ops cfg n word = Some op"
  shows "riscv_disassemble_insn ops cfg a word packet st =
    (riscv_insn_length word, print_found cfg op word a ((fresh_info st)\<lparr>dis_xlen := n\<rparr>))"
  using assms by (auto simp: riscv_disassemble_insn_def dis_find_def fresh_info_def Let_def split: option.splits)

lemma disassemble_none:
  fixes cfg st word
  assumes "dis_find ops cfg (xlen_of cfg (dis_xlen st)) word = None"
  shows "\<exists>st'. riscv_disassemble_insn ops cfg a word packet st = (riscv_insn_length word, st') \<and>
    dis_out st' = dis_out (print_dot_insn (riscv_insn_length word) packet (fresh_info st))"
  using assms print_dot_insn_xlen
  by (auto simp: riscv_disassemble_insn_def dis_find_def fresh_info_def Let_def split: option.splits)

section \<open>The in-memory instructions\<close>

definition imc_entries :: "riscv_opcode list" where
  "imc_entries = [
     opc ''addmod'' 0 INSN_CLASS_C ''s,t,r,l'' 0x200000b 0x600707f (Some MF_opcode) 0,
     opc ''submod'' 0 INSN_CLASS_C ''s,t,r,l'' 0x600000b 0x600707f (Some MF_opcode) 0,
     opc ''mulmod'' 0 INSN_CLASS_C ''s,t,r,l'' 0x400000b 0x600707f (Some MF_opcode) 0,
     opc ''mulimc'' 0 INSN_CLASS_C ''s,t,l'' 0x600100b 0xfe00707f (Some MF_opcode) 0,
     opc ''invmod'' 0 INSN_CLASS_C ''s,t,l'' 0x800100b 0xfe00707f (Some MF_opcode) 0,
     opc ''cmpimc'' 0 INSN_CLASS_C ''s,t,l'' 0xa00100b 0xfe00707f (Some MF_opcode) 0]"

definition lead_entries :: "riscv_opcode list" where
  "lead_entries = take 16 riscv_opcodes_1"

lemma imc_entries_position: "\<exists>xs. riscv_opcodes_1 = lead_entries @ imc_entries @ xs"
proof -
  have "imc_entries = take 6 (drop 16 riscv_opcodes_1)"
    unfolding imc_entries_def riscv_opcodes_1_def by simp
  then have "riscv_opcodes_1 = lead_entries @ imc_entries @ drop 6 (drop 16 riscv_opcodes_1)"
    unfolding lead_entries_def by (metis append_take_drop_id)
  then show ?thesis ..
qed

lemma OP_HASH_IDX_opc:
  "OP_HASH_IDX (op_match (opc n x c a mt mk f p)) = (if mt AND 3 \<noteq> 3 then mt AND 3 else OP_HASH_IDX mt)"
  by (simp add: opc_def OP_HASH_IDX_def riscv_insn_length_def)

lemma lead_entries_index: "list_all (\<lambda>op. OP_HASH_IDX (op_match op) \<noteq> 0xb) lead_entries"
  unfolding lead_entries_def riscv_opcodes_1_def
  by (simp add: OP_HASH_IDX_def opc_def riscv_insn_length_def)

text \<open>Two entries that match the same word agree where both masks are set.\<close>

lemma masks_agree:
  fixes w m k m' k' :: insn_t
  assumes "(w XOR m) AND k = 0" "(w XOR m') AND k' = 0"
  shows "(m XOR m') AND (k AND k') = 0"
proof (rule bit_eqI)
  fix n
  have "bit ((w XOR m) AND k) n \<longleftrightarrow> bit (0 :: insn_t) n" "bit ((w XOR m') AND k') n \<longleftrightarrow> bit (0 :: insn_t) n" using assms by simp_all
  then show "bit ((m XOR m') AND (k AND k')) n \<longleftrightarrow> bit (0 :: insn_t) n" by (auto simp: bit_and_iff bit_xor_iff)
qed

definition clash :: "riscv_opcode \<Rightarrow> riscv_opcode \<Rightarrow> bool" where
  "clash p q \<longleftrightarrow> (op_match p XOR op_match q) AND (op_mask p AND op_mask q) \<noteq> 0"

lemma imc_entries_clash: "list_all (\<lambda>p. list_all (\<lambda>q. p = q \<or> clash p q) imc_entries) imc_entries"
  unfolding imc_entries_def by (simp add: clash_def opc_def)

lemma imc_entries_index: "list_all (\<lambda>op. OP_HASH_IDX (op_match op) = 0xb \<and> indexed op \<and> match_func op = Some MF_opcode \<and>
    insn_class op = INSN_CLASS_C \<and> xlen_requirement op = 0 \<and> pinfo op = 0 \<and> op_mask op AND 0x707f = 0x707f \<and>
    op_match op AND 0x707f \<noteq> 0x67 \<and> op_match op AND 0x7f = 0xb) imc_entries"
  unfolding imc_entries_def
  by (simp add: OP_HASH_IDX_def opc_def riscv_insn_length_def dis_entry_ok_indexed dis_entry_ok_def low_bits_ok_def)


lemma imc_match:
  assumes "op \<in> set imc_entries" "match_opcode op word"
  shows "OP_HASH_IDX word = 0xb" "riscv_insn_length word = 4" "word AND 0x707f \<noteq> 0x67"
proof -
  have e: "OP_HASH_IDX (op_match op) = 0xb" "indexed op" "match_func op = Some MF_opcode" "pinfo op = 0"
    "op_mask op AND 0x707f = 0x707f" "op_match op AND 0x707f \<noteq> 0x67" "op_match op AND 0x7f = 0xb"
    using imc_entries_index assms(1) unfolding list_all_iff by blast+
  show idx: "OP_HASH_IDX word = 0xb" using e assms(2) by (simp add: indexed_def calls_match_def)
  have m: "(word XOR op_match op) AND op_mask op = 0" using assms(2) by (simp add: match_opcode_def)
  from masked_eq [OF m e(5)] have w: "word AND 0x707f = op_match op AND 0x707f" .
  with e(6) show "word AND 0x707f \<noteq> 0x67" by simp
  have "word AND 0x7f = (word AND 0x707f) AND 0x7f" "op_match op AND 0x7f = (op_match op AND 0x707f) AND 0x7f"
    by (simp_all add: and.assoc)
  with w e(7) have "word AND 0x7f = 0xb" by metis
  from insn_length_low [of word "0xb"] this show "riscv_insn_length word = 4" by (simp add: riscv_insn_length_def)
qed

lemma imc_found:
  assumes "op \<in> set imc_entries" "match_opcode op word"
    and "riscv_multi_subset_supports (dis_subsets cfg) INSN_CLASS_C = Inr True"
  shows "find (dis_matches cfg xlen word) riscv_opcodes = Some op"
proof -
  let ?P = "dis_matches cfg xlen word"
  obtain xs ys where pos: "riscv_opcodes = lead_entries @ imc_entries @ xs @ ys"
    using imc_entries_position opcodes_1_prefix by (metis append_assoc)
  have e: "match_func op = Some MF_opcode" "insn_class op = INSN_CLASS_C" "xlen_requirement op = 0" "pinfo op = 0"
    using imc_entries_index assms(1) unfolding list_all_iff by blast+
  have lead: "\<not> ?P q" if "q \<in> set lead_entries" for q
  proof
    assume "?P q"
    have "q \<in> set riscv_opcodes" using that by (simp add: pos)
    from dis_readyD(1) [OF this] \<open>?P q\<close> have "OP_HASH_IDX (op_match q) = OP_HASH_IDX word"
      by (simp add: indexed_def dis_matches_def)
    with imc_match(1) [OF assms(1,2)] lead_entries_index that show False by (simp add: list_all_iff)
  qed
  have others: "\<not> ?P q" if "q \<in> set imc_entries" "q \<noteq> op" for q
  proof
    assume "?P q"
    have "match_func q = Some MF_opcode" using imc_entries_index that(1) unfolding list_all_iff by blast
    with \<open>?P q\<close> have "match_opcode q word" by (simp add: dis_matches_def calls_match_def)
    with assms(2) have "\<not> clash q op" unfolding clash_def match_opcode_def by (blast intro: masks_agree)
    with imc_entries_clash that assms(1) show False unfolding list_all_iff by blast
  qed
  have self: "?P op" using e assms(2,3) by (simp add: dis_matches_def calls_match_def)
  have "find ?P (imc_entries @ zs) = Some op" for zs
  proof -
    have "find ?P (es @ zs) = Some op" if "set es \<subseteq> set imc_entries" "op \<in> set es" for es
      using that self others by (induction es) auto
    with assms(1) show ?thesis by blast
  qed
  moreover have "find ?P (lead_entries @ zs) = find ?P zs" for zs
  proof -
    have "find ?P (es @ zs) = find ?P zs" if "set es \<subseteq> set lead_entries" for es
      using that lead by (induction es) auto
    then show ?thesis by blast
  qed
  ultimately show ?thesis by (simp add: pos)
qed

fun comma_list :: "dis_piece list \<Rightarrow> dis_piece list" where
  "comma_list [] = []"
| "comma_list [p] = [p]"
| "comma_list (p # q # ps) = p # Piece Style_text '','' # comma_list (q # ps)"

definition imc_fields :: "riscv_opcode \<Rightarrow> op_field list" where
  "imc_fields op = (if op_args op = ''s,t,r,l'' then [OP_RS1, OP_RS2, OP_RS3, OP_RD] else [OP_RS1, OP_RS2, OP_RD])"

definition register_piece :: "dis_config \<Rightarrow> insn_t \<Rightarrow> op_field \<Rightarrow> dis_piece" where
  "register_piece cfg word f = Piece Style_register (riscv_gpr_names cfg ! EXTRACT_OPERAND f word)"

lemma print_imc_args:
  assumes "word AND 0x707f \<noteq> 0x67" "op_args op = ''s,t,r,l'' \<or> op_args op = ''s,t,l''"
  shows "print_insn_args cfg (op_args op) word pc st =
    st\<lparr>dis_out := dis_out st @ Piece Style_text [CHR 0x09] # comma_list (map (register_piece cfg word) (imc_fields op))\<rparr>"
  using assms
  by (auto simp: print_insn_args_def print_operand_def known_or_undefined_def print_base_def Let_def imc_fields_def register_piece_def emit_def)

lemma imc_entries_args: "list_all (\<lambda>op. op_args op = ''s,t,r,l'' \<or> op_args op = ''s,t,l'') imc_entries"
  unfolding imc_entries_def by (simp add: opc_def)

lemma print_imc:
  assumes "op \<in> set imc_entries" "match_opcode op word" "\<not> to_print_addr st"
  shows "dis_out (print_found cfg op word a st) = dis_out st @ Piece Style_mnemonic (op_name op) # Piece Style_text [CHR 0x09] #
    comma_list (map (register_piece cfg word) (imc_fields op))"
proof -
  have "op_args op = ''s,t,r,l'' \<or> op_args op = ''s,t,l''" using imc_entries_args assms(1) by (simp add: list_all_iff)
  from print_imc_args [OF imc_match(3) [OF assms(1,2)] this] assms(3) show ?thesis
    by (simp add: print_found_def Let_def emit_def)
qed

lemma imc_disassembles:
  assumes "op \<in> set imc_entries" "match_opcode op word"
    and "riscv_multi_subset_supports (dis_subsets cfg) INSN_CLASS_C = Inr True" "\<not> to_print_addr st"
  shows "\<exists>st'. riscv_disassemble_insn riscv_opcodes cfg a word packet st = (4, st') \<and>
    dis_out st' = dis_out st @ Piece Style_mnemonic (op_name op) # Piece Style_text [CHR 0x09] #
      comma_list (map (register_piece cfg word) (imc_fields op))"
proof -
  let ?n = "xlen_of cfg (dis_xlen st)"
  have "dis_find riscv_opcodes cfg ?n word = Some op" using imc_found [OF assms(1-3)] by (simp add: table_find)
  from disassemble_find [OF this] have
    "riscv_disassemble_insn riscv_opcodes cfg a word packet st = (4, print_found cfg op word a ((fresh_info st)\<lparr>dis_xlen := ?n\<rparr>))"
    by (simp add: imc_match(2) [OF assms(1,2)])
  moreover have "\<not> to_print_addr ((fresh_info st)\<lparr>dis_xlen := ?n\<rparr>)" using assms(4) by (simp add: fresh_info_def)
  from print_imc [OF assms(1,2) this] have "dis_out (print_found cfg op word a ((fresh_info st)\<lparr>dis_xlen := ?n\<rparr>)) =
    dis_out st @ Piece Style_mnemonic (op_name op) # Piece Style_text [CHR 0x09] # comma_list (map (register_piece cfg word) (imc_fields op))"
    by (simp add: fresh_info_def)
  ultimately show ?thesis by blast
qed

section \<open>Properties\<close>

text \<open>A configuration with the compressed instructions, and the word of \<^verbatim>\<open>addmod a1,a2,a3,a0\<close>.\<close>

definition sample_dis_config :: dis_config where
  "sample_dis_config = \<lparr>mach = Mach_riscv64, section_elf64 = None, numeric_names = False, no_aliases = False,
     default_priv_spec = 0, dis_subsets = [\<lparr>sub_name = ''i'', major_version = 2, minor_version = 1\<rparr>, \<lparr>sub_name = ''c'', major_version = 2, minor_version = 0\<rparr>]\<rparr>"

definition sample_dis_state :: dis_state where
  "sample_dis_state = \<lparr>pd_gp = 0, has_gp = False, print_addr = 0, to_print_addr = False, hi_addr = replicate 32 (- 1),
     dis_xlen = 0, info_target = 0, info_insn_type = Dis_nonbranch, info_data_size = 0, dis_out = []\<rparr>"

abbreviation (input) sample_addmod_word :: insn_t where
  "sample_addmod_word \<equiv> 0x6ac5850b"

lemma sample_supports_c: "riscv_multi_subset_supports (dis_subsets sample_dis_config) INSN_CLASS_C = Inr True"
  by code_simp

lemma sample_addmod_matches: "match_opcode (imc_entries ! 0) sample_addmod_word"
  by (simp add: imc_entries_def match_opcode_def opc_def)

lemma imc_entries_nth: "imc_entries ! 0 \<in> set imc_entries"
  by (simp add: imc_entries_def)

text \<open>
  C10. The disassembler consumes the length the instruction word announces, and prints the first entry of the whole
  opcode table that matches the word, although it starts its search where the hash of the lowest bits says; when no
  entry matches, it prints the word as data.
\<close>

theorem hashed_search_is_linear:
  "\<exists>st'. riscv_disassemble_insn riscv_opcodes cfg a word packet st = (riscv_insn_length word, st') \<and>
     (case find (dis_matches cfg (xlen_of cfg (dis_xlen st)) word) riscv_opcodes of
        Some op \<Rightarrow> st' = print_found cfg op word a ((fresh_info st)\<lparr>dis_xlen := xlen_of cfg (dis_xlen st)\<rparr>)
      | None \<Rightarrow> dis_out st' = dis_out (print_dot_insn (riscv_insn_length word) packet (fresh_info st)))"
proof (cases "find (dis_matches cfg (xlen_of cfg (dis_xlen st)) word) riscv_opcodes")
  case None
  with disassemble_none [of riscv_opcodes cfg st word a packet] show ?thesis by (simp add: table_find)
next
  case (Some op)
  with disassemble_find [of riscv_opcodes cfg st word op a packet] show ?thesis by (simp add: table_find)
qed

text \<open>
  C29. Whatever entry of the opcode table the disassembler finds, its printer has a case for every operand of the entry: the
  arguments are printed by one printer per operand to the end of the argument string, no letter is passed over in silence,
  and the message about an undefined modifier is never reached. The table has three entries with a modifier that is undefined for
  the printer and five with a letter after \<^verbatim>\<open>C\<close> that it would pass over; an earlier entry that matches the same words hides each of them.
\<close>

theorem found_operands_are_known:
  assumes "find (dis_matches cfg xlen word) riscv_opcodes = Some op"
  shows "\<exists>fs. operand_printers (length (op_args op)) cfg l pc (op_args op) = Some fs \<and>
    (\<forall>st. print_args_loop cfg l pc (op_args op) st = run_printers fs st)"
proof -
  from assms have "op \<in> set riscv_opcodes" "pinfo op \<noteq> INSN_MACRO" by (auto simp: find_Some_iff dis_matches_def)
  with dis_readyD(2) [of op] hidden_not_found assms have "dis_args_ok (op_args op)" by blast
  then show ?thesis by (rule known_operands) simp
qed

theorem found_operands_are_known_witness:
  "find (dis_matches sample_dis_config 64 sample_addmod_word) riscv_opcodes = Some (imc_entries ! 0) \<and>
   (\<exists>fs. operand_printers 7 sample_dis_config sample_addmod_word 0 ''s,t,r,l'' = Some fs \<and>
      (\<forall>st. print_args_loop sample_dis_config sample_addmod_word 0 ''s,t,r,l'' st = run_printers fs st))"
proof -
  note f = imc_found [OF imc_entries_nth sample_addmod_matches sample_supports_c, of 64]
  have a: "op_args (imc_entries ! 0) = ''s,t,r,l''" "length ''s,t,r,l'' = 7" by (simp_all add: imc_entries_def opc_def)
  from f found_operands_are_known [OF f, of sample_addmod_word 0] show ?thesis unfolding a by (rule conjI)
qed

text \<open>
  C30. With the compressed instructions in the architecture, a word that has the fixed bits of an in-memory instruction
  disassembles to the mnemonic of the instruction and the names of the registers in its fields, in the order of the
  assembler syntax: first and second source, third source where there is one, destination.
\<close>

theorem imc_disassembly:
  assumes "op \<in> set imc_entries" "match_opcode op word"
    and "riscv_multi_subset_supports (dis_subsets cfg) INSN_CLASS_C = Inr True" "\<not> to_print_addr st"
  shows "\<exists>st'. riscv_disassemble_insn riscv_opcodes cfg a word packet st = (4, st') \<and>
    dis_out st' = dis_out st @ Piece Style_mnemonic (op_name op) # Piece Style_text [CHR 0x09] #
      comma_list (map (register_piece cfg word) (imc_fields op))"
  using imc_disassembles [OF assms] .

theorem imc_disassembly_witness:
  "\<exists>st'. riscv_disassemble_insn riscv_opcodes sample_dis_config 0x1000 sample_addmod_word [0x850b, 0x6ac5] sample_dis_state = (4, st') \<and>
     dis_out st' = [Piece Style_mnemonic ''addmod'', Piece Style_text [CHR 0x09], Piece Style_register ''a1'', Piece Style_text '','',
       Piece Style_register ''a2'', Piece Style_text '','', Piece Style_register ''a3'', Piece Style_text '','', Piece Style_register ''a0'']"
proof -
  have st: "\<not> to_print_addr sample_dis_state" "dis_out sample_dis_state = []" by (simp_all add: sample_dis_state_def)
  have op: "op_name (imc_entries ! 0) = ''addmod''" by (simp add: imc_entries_def opc_def)
  have regs: "comma_list (map (register_piece sample_dis_config sample_addmod_word) (imc_fields (imc_entries ! 0))) =
    [Piece Style_register ''a1'', Piece Style_text '','', Piece Style_register ''a2'', Piece Style_text '','',
     Piece Style_register ''a3'', Piece Style_text '','', Piece Style_register ''a0'']"
    by (simp add: imc_entries_def imc_fields_def opc_def register_piece_def riscv_gpr_names_def sample_dis_config_def
        EXTRACT_OPERAND_def EXTRACT_BITS_def riscv_gpr_names_abi_def)
  from imc_disassembly [OF imc_entries_nth sample_addmod_matches sample_supports_c st(1), of "0x1000" "[0x850b, 0x6ac5]"]
  show ?thesis by (simp add: st(2) op regs)
qed

end
