(* ===== verification/Gas_Props.thy ===== *)
theory Gas_Props
  imports Gas_Assemble Dis_Props
begin

text \<open>
  The parser of the assembler on the in-memory instructions: the register names are known, an instruction written with
  them assembles to the word with the registers in their fields, and the disassembler prints it back.
\<close>

section \<open>The register names\<close>

lemma hash_reg_loop_distinct:
  assumes "distinct names" "\<forall>n \<in> set names. h n = None"
  shows "\<exists>h'. hash_reg_loop cls names i h = Inr h' \<and>
    (\<forall>j < length names. h' (names ! j) = Some (ENCODE_REG_HASH cls (i + j))) \<and> (\<forall>n. n \<notin> set names \<longrightarrow> h' n = h n)"
  using assms
proof (induction names arbitrary: i h)
  case (Cons name names)
  let ?h = "h(name \<mapsto> ENCODE_REG_HASH cls i)"
  have "distinct names" "\<forall>n \<in> set names. ?h n = None" using Cons.prems by auto
  from Cons.IH [OF this, of "Suc i"] obtain h' where h': "hash_reg_loop cls names (Suc i) ?h = Inr h'"
    "\<forall>j < length names. h' (names ! j) = Some (ENCODE_REG_HASH cls (Suc i + j))" "\<forall>n. n \<notin> set names \<longrightarrow> h' n = ?h n"
    by blast
  have "h' ((name # names) ! j) = Some (ENCODE_REG_HASH cls (i + j))" if "j < length (name # names)" for j
    using h' that Cons.prems(1) by (cases j) auto
  moreover have "hash_reg_loop cls (name # names) i h = Inr h'" using h'(1) Cons.prems(2) by (simp add: hash_reg_name_def)
  ultimately show ?case using h'(3) by auto
qed simp

lemma hash_reg_tables_distinct:
  assumes "distinct (concat (map snd ts))" "\<forall>n \<in> set (concat (map snd ts)). h n = None"
  shows "\<exists>h'. hash_reg_tables ts h = Inr h' \<and>
    (\<forall>(cls, names) \<in> set ts. \<forall>j < length names. h' (names ! j) = Some (ENCODE_REG_HASH cls j)) \<and>
    (\<forall>n. n \<notin> set (concat (map snd ts)) \<longrightarrow> h' n = h n)"
  using assms
proof (induction ts arbitrary: h)
  case (Cons t ts)
  obtain cls names where t: "t = (cls, names)" by force
  have d: "distinct names" "distinct (concat (map snd ts))" "set names \<inter> set (concat (map snd ts)) = {}"
    using Cons.prems(1) by (auto simp: t)
  from hash_reg_loop_distinct [OF d(1), of h cls 0] Cons.prems(2) obtain h1 where h1: "hash_reg_loop cls names 0 h = Inr h1"
    "\<forall>j < length names. h1 (names ! j) = Some (ENCODE_REG_HASH cls j)" "\<forall>n. n \<notin> set names \<longrightarrow> h1 n = h n"
    by (auto simp: t)
  have "\<forall>n \<in> set (concat (map snd ts)). h1 n = None"
  proof
    fix n
    assume n: "n \<in> set (concat (map snd ts))"
    then have "n \<notin> set names" using d(3) by blast
    moreover have "h n = None" using n Cons.prems(2) by simp
    ultimately show "h1 n = None" using h1(3) by simp
  qed
  from Cons.IH [OF d(2) this] obtain h' where h': "hash_reg_tables ts h1 = Inr h'"
    "\<forall>(cls, names) \<in> set ts. \<forall>j < length names. h' (names ! j) = Some (ENCODE_REG_HASH cls j)"
    "\<forall>n. n \<notin> set (concat (map snd ts)) \<longrightarrow> h' n = h1 n" by blast
  have "h' (names ! j) = Some (ENCODE_REG_HASH cls j)" if "j < length names" for j
    using h'(3) h1(2) d(3) that nth_mem by fastforce
  with h' h1 show ?case by (auto simp: t hash_reg_names_def)
qed simp

definition reg_tables :: "(reg_class \<times> string list) list" where
  "reg_tables =
     [(RCLASS_GPR, riscv_gpr_names_numeric), (RCLASS_GPR, riscv_gpr_names_abi),
      (RCLASS_FPR, riscv_fpr_names_numeric), (RCLASS_FPR, riscv_fpr_names_abi),
      (RCLASS_VECR, riscv_vecr_names_numeric), (RCLASS_VECM, riscv_vecm_names_numeric)]"

lemma reg_names_distinct: "distinct (''fp'' # concat (map snd reg_tables))"
  by code_simp

lemma reg_names_hash_ok:
  obtains h where "reg_names_hash = Inr h"
    "\<forall>(cls, names) \<in> set reg_tables. \<forall>j < length names. h (names ! j) = Some (ENCODE_REG_HASH cls j)"
    "h ''fp'' = Some (ENCODE_REG_HASH RCLASS_GPR 8)"
proof -
  from reg_names_distinct have d: "distinct (concat (map snd reg_tables))" "''fp'' \<notin> set (concat (map snd reg_tables))" by simp_all
  from hash_reg_tables_distinct [OF d(1), of "\<lambda>n. None"] obtain h where h: "hash_reg_tables reg_tables (\<lambda>n. None) = Inr h"
    "\<forall>(cls, names) \<in> set reg_tables. \<forall>j < length names. h (names ! j) = Some (ENCODE_REG_HASH cls j)"
    "\<forall>n. n \<notin> set (concat (map snd reg_tables)) \<longrightarrow> h n = None" by blast
  let ?h = "h(''fp'' \<mapsto> ENCODE_REG_HASH RCLASS_GPR 8)"
  have "reg_names_hash = Inr ?h"
    using h(1,3) d(2) by (simp add: reg_names_hash_def hash_reg_name_def reg_tables_def [symmetric])
  moreover have "\<forall>(cls, names) \<in> set reg_tables. \<forall>j < length names. ?h (names ! j) = Some (ENCODE_REG_HASH cls j)"
    using h(2) d(2) nth_mem by fastforce
  ultimately show ?thesis using that by simp
qed

section \<open>Register operands\<close>

definition name_ok :: "string \<Rightarrow> bool" where
  "name_ok r \<longleftrightarrow> r \<noteq> [] \<and> is_name_beginner (hd r) \<and> list_all is_part_of_name r"

definition gpr_named :: "nat \<Rightarrow> string \<Rightarrow> bool" where
  "gpr_named n r \<longleftrightarrow> n < 32 \<and> (r = riscv_gpr_names_numeric ! n \<or> r = riscv_gpr_names_abi ! n \<or> n = 8 \<and> r = ''fp'')"

lemma gpr_tables: "length riscv_gpr_names_numeric = 32" "length riscv_gpr_names_abi = 32"
  by (simp_all add: riscv_gpr_names_numeric_def riscv_gpr_names_abi_def)

lemma gpr_names_ok: "list_all name_ok (''fp'' # riscv_gpr_names_numeric @ riscv_gpr_names_abi)"
  by code_simp

lemma gpr_named_ok: "gpr_named n r \<Longrightarrow> name_ok r"
  using gpr_names_ok by (auto simp: gpr_named_def list_all_iff gpr_tables)

lemma gpr_named_hash:
  assumes "reg_names_hash = Inr h" "gpr_named n r"
  shows "h r = Some (ENCODE_REG_HASH RCLASS_GPR n)"
proof -
  obtain h' where h': "reg_names_hash = Inr h'"
    "\<forall>(cls, names) \<in> set reg_tables. \<forall>j < length names. h' (names ! j) = Some (ENCODE_REG_HASH cls j)"
    "h' ''fp'' = Some (ENCODE_REG_HASH RCLASS_GPR 8)" by (rule reg_names_hash_ok)
  have "\<forall>j < 32. h' (riscv_gpr_names_numeric ! j) = Some (ENCODE_REG_HASH RCLASS_GPR j)"
    "\<forall>j < 32. h' (riscv_gpr_names_abi ! j) = Some (ENCODE_REG_HASH RCLASS_GPR j)"
    using h'(2) by (simp_all add: reg_tables_def gpr_tables)
  moreover from h'(1) [unfolded assms(1)] have "h' = h" by simp
  ultimately show ?thesis using h'(3) assms(2) by (auto simp: gpr_named_def)
qed

lemma rclass_number_less: "rclass_number cls < RCLASS_MAX"
  by (cases cls) simp_all

lemma decode_encode:
  "DECODE_REG_CLASS (ENCODE_REG_HASH cls n) = rclass_number cls" "DECODE_REG_NUM (ENCODE_REG_HASH cls n) = n"
  using rclass_number_less [of cls] by (simp_all add: DECODE_REG_CLASS_def DECODE_REG_NUM_def ENCODE_REG_HASH_def)

lemma name_end_ok:
  assumes "name_ok r" "s = [] \<or> \<not> is_part_of_name (hd s)"
  shows "name_end (r @ s) = length r"
proof -
  from assms(1) obtain c q where r: "r = c # q" "is_name_beginner c" "list_all is_part_of_name q"
    by (cases r) (auto simp: name_ok_def)
  have "takeWhile is_part_of_name (q @ s) = q"
    using r(3) assms(2) by (cases s) (auto simp: list_all_iff takeWhile_append)
  with r show ?thesis by (simp add: name_end_def)
qed

lemma reg_lookup_gpr:
  assumes "reg_names_hash = Inr (as_regs cfg)" "gpr_named n r" "as_supports cfg ''e'' \<longrightarrow> n \<le> 15"
    "s = [] \<or> \<not> is_part_of_name (hd s)"
  shows "reg_lookup cfg (r @ s) RCLASS_GPR = (Some n, s)"
  using gpr_named_hash [OF assms(1,2)] name_end_ok [OF gpr_named_ok [OF assms(2)] assms(4)] assms(3)
  by (auto simp: reg_lookup_def reg_lookup_internal_def decode_encode)

definition gpr_letter :: "char \<Rightarrow> op_field \<Rightarrow> bool" where
  "gpr_letter c f \<longleftrightarrow> (c, f) \<in> {(CHR ''s'', OP_RS1), (CHR ''t'', OP_RS2), (CHR ''r'', OP_RS3), (CHR ''l'', OP_RD)}"

lemma name_start:
  assumes "name_ok r" shows "skip_blanks (r @ s) = r @ s"
proof -
  from assms obtain c q where r: "r = c # q" "is_name_beginner c" by (cases r) (auto simp: name_ok_def)
  have "\<not> is_name_beginner (CHR '' '')" "\<not> is_name_beginner (CHR 0x09)" by (simp_all add: is_name_beginner_def lex_type_def)
  with r show ?thesis by (auto simp: skip_blanks_def)
qed

lemma comma_not_name: "\<not> is_part_of_name (CHR '','')"
  by (simp add: is_part_of_name_def lex_type_def)

lemma ip_base_register:
  assumes "gpr_letter c f"
  shows "ip_base cfg c w s = then_blank (reg_operand cfg RCLASS_GPR anyreg (insert_in f) w s)" "c \<noteq> CHR ''C''" "c \<noteq> CHR ''V''"
proof -
  from assms consider "c = CHR ''s''" "f = OP_RS1" | "c = CHR ''t''" "f = OP_RS2" | "c = CHR ''r''" "f = OP_RS3" | "c = CHR ''l''" "f = OP_RD"
    by (auto simp: gpr_letter_def)
  then have "ip_base cfg c w s = then_blank (reg_operand cfg RCLASS_GPR anyreg (insert_in f) w s) \<and> c \<noteq> CHR ''C'' \<and> c \<noteq> CHR ''V''"
    by cases (simp_all add: ip_base_def)
  then show "ip_base cfg c w s = then_blank (reg_operand cfg RCLASS_GPR anyreg (insert_in f) w s)" "c \<noteq> CHR ''C''" "c \<noteq> CHR ''V''"
    by simp_all
qed

lemma ip_args_register:
  assumes "reg_names_hash = Inr (as_regs cfg)" "gpr_named n r" "as_supports cfg ''e'' \<longrightarrow> n \<le> 15"
    and "gpr_letter c f" "s = [] \<or> hd s = CHR '',''"
  shows "ip_args cfg op (c # cs) w (r @ s) = ip_args cfg op cs (INSERT_OPERAND f w n) s"
proof -
  have "s = [] \<or> \<not> is_part_of_name (hd s)" using assms(5) comma_not_name by auto
  note look = reg_lookup_gpr [OF assms(1-3) this]
  have "drop_blank s = s" using assms(5) by (cases s) (auto simp: drop_blank_def)
  with look have "then_blank (reg_operand cfg RCLASS_GPR anyreg (insert_in f) w (r @ s)) = Op_taken (INSERT_OPERAND f w n) s"
    by (simp add: reg_operand_def then_blank_def)
  with ip_base_register [OF assms(4)] show ?thesis by (simp add: name_start [OF gpr_named_ok [OF assms(2)]])
qed

lemma ip_args_comma: "ip_args cfg op (CHR '','' # cs) w (CHR '','' # s) = ip_args cfg op cs w s"
  by (simp add: ip_base_def skip_blanks_def)

section \<open>Fields\<close>

text \<open>Fields of five bits, as all register fields are.\<close>

definition reg_field :: "op_field \<Rightarrow> bool" where
  "reg_field f \<longleftrightarrow> fst f = mask 5 \<and> snd f + 5 \<le> 32"

lemma bit_INSERT:
  assumes "reg_field f"
  shows "bit (INSERT_OPERAND f w n) i \<longleftrightarrow>
    (if snd f \<le> i \<and> i < snd f + 5 then bit (of_nat n :: u64) (i - snd f) else bit w i)"
  using assms bit_imp_le_length [of w i]
  by (auto simp: INSERT_OPERAND_def INSERT_BITS_def reg_field_def bit_simps)

lemma EXTRACT_INSERT:
  assumes "reg_field f" "n < 32"
  shows "EXTRACT_OPERAND f (INSERT_OPERAND f w n) = n"
proof -
  have "EXTRACT_BITS (INSERT_OPERAND f w n) f = take_bit 5 (of_nat n)"
    by (rule bit_eqI) (use assms(1) in \<open>auto simp: EXTRACT_BITS_def bit_simps bit_INSERT reg_field_def\<close>)
  also have "\<dots> = of_nat (take_bit 5 n)" by (simp add: take_bit_of_nat)
  also have "take_bit 5 n = n" using assms(2) by (simp add: take_bit_nat_eq_self_iff)
  finally show ?thesis using assms(2) by (simp add: EXTRACT_OPERAND_def unat_of_nat)
qed

definition fields_apart :: "op_field \<Rightarrow> op_field \<Rightarrow> bool" where
  "fields_apart f g \<longleftrightarrow> snd f + 5 \<le> snd g \<or> snd g + 5 \<le> snd f"

lemma EXTRACT_INSERT_other:
  assumes "reg_field f" "reg_field g" "fields_apart f g"
  shows "EXTRACT_OPERAND g (INSERT_OPERAND f w n) = EXTRACT_OPERAND g w"
proof -
  have "EXTRACT_BITS (INSERT_OPERAND f w n) g = EXTRACT_BITS w g"
    by (rule bit_eqI) (use assms in \<open>auto simp: EXTRACT_BITS_def bit_simps bit_INSERT reg_field_def fields_apart_def\<close>)
  then show ?thesis by (simp add: EXTRACT_OPERAND_def)
qed

lemma match_INSERT:
  assumes "reg_field f" "op_mask op AND push_bit (snd f) (fst f) = 0"
  shows "match_opcode op (INSERT_OPERAND f w n) \<longleftrightarrow> match_opcode op w"
proof -
  have z: "bit (op_mask op AND push_bit (snd f) (mask 5)) i \<longleftrightarrow> bit (0 :: insn_t) i" for i
    using assms by (simp add: reg_field_def)
  have "\<not> bit (op_mask op) i" if "snd f \<le> i" "i < snd f + 5" for i
    using z [of i] that assms(1) by (auto simp: bit_simps reg_field_def)
  then have "(INSERT_OPERAND f w n XOR op_match op) AND op_mask op = (w XOR op_match op) AND op_mask op"
    by (intro bit_eqI) (auto simp: bit_simps bit_INSERT [OF assms(1)])
  then show ?thesis by (simp add: match_opcode_def)
qed

lemma reg_fields [simp]: "reg_field OP_RS1" "reg_field OP_RS2" "reg_field OP_RS3" "reg_field OP_RD"
  by (simp_all add: reg_field_def mask_eq_exp_minus_1)

lemma reg_fields_apart [simp]:
  "fields_apart OP_RS1 OP_RS2" "fields_apart OP_RS1 OP_RS3" "fields_apart OP_RS1 OP_RD" "fields_apart OP_RS2 OP_RS3"
  "fields_apart OP_RS2 OP_RD" "fields_apart OP_RS3 OP_RD" "fields_apart OP_RS2 OP_RS1" "fields_apart OP_RS3 OP_RS1"
  "fields_apart OP_RD OP_RS1" "fields_apart OP_RS3 OP_RS2" "fields_apart OP_RD OP_RS2" "fields_apart OP_RD OP_RS3"
  by (simp_all add: fields_apart_def)

section \<open>The words of the in-memory instructions\<close>

definition imc_word :: "riscv_opcode \<Rightarrow> nat list \<Rightarrow> insn_t" where
  "imc_word op regs = fold (\<lambda>(f, n) w. INSERT_OPERAND f w n) (zip (imc_fields op) regs) (op_match op)"

lemma imc_entries_masks:
  "list_all (\<lambda>op. list_all (\<lambda>f. reg_field f \<and> op_mask op AND push_bit (snd f) (fst f) = 0) (imc_fields op) \<and>
     op_match op AND op_mask op = op_match op) imc_entries"
  unfolding imc_entries_def by (simp add: imc_fields_def opc_def)

lemma imc_fields_cases: "imc_fields op = [OP_RS1, OP_RS2, OP_RS3, OP_RD] \<or> imc_fields op = [OP_RS1, OP_RS2, OP_RD]"
  by (simp add: imc_fields_def)

lemma imc_word_extract:
  assumes "length regs = length (imc_fields op)" "\<forall>n \<in> set regs. n < 32"
  shows "map (\<lambda>f. EXTRACT_OPERAND f (imc_word op regs)) (imc_fields op) = regs"
proof -
  consider a b c d where "imc_fields op = [OP_RS1, OP_RS2, OP_RS3, OP_RD]" "regs = [a, b, c, d]"
    | a b c where "imc_fields op = [OP_RS1, OP_RS2, OP_RD]" "regs = [a, b, c]"
    using assms(1) imc_fields_cases [of op] by (auto simp: length_Suc_conv numeral_eq_Suc)
  then show ?thesis
    using assms(2) by cases (simp_all add: imc_word_def EXTRACT_INSERT EXTRACT_INSERT_other)
qed

lemma match_place:
  assumes "\<forall>f \<in> set fs. reg_field f \<and> op_mask op AND push_bit (snd f) (fst f) = 0"
  shows "match_opcode op (fold (\<lambda>(f, n) w. INSERT_OPERAND f w n) (zip fs regs) w) \<longleftrightarrow> match_opcode op w"
  using assms
proof (induction fs arbitrary: regs w)
  case (Cons f fs)
  then show ?case by (cases regs) (simp_all add: match_INSERT)
qed simp

lemma imc_word_matches: "op \<in> set imc_entries \<Longrightarrow> match_opcode op (imc_word op regs)"
  using imc_entries_masks
  by (simp add: imc_word_def list_all_iff match_place) (simp add: match_opcode_def)

section \<open>Parsing\<close>

fun join_commas :: "string list \<Rightarrow> string" where
  "join_commas [] = []"
| "join_commas [s] = s"
| "join_commas (s # t # ss) = s @ CHR '','' # join_commas (t # ss)"

lemma ip_args_imc:
  assumes "reg_names_hash = Inr (as_regs cfg)" "op_args op = ''s,t,r,l'' \<or> op_args op = ''s,t,l''"
    and "list_all2 gpr_named regs names" "length regs = length (imc_fields op)"
    and "as_supports cfg ''e'' \<longrightarrow> (\<forall>n \<in> set regs. n \<le> 15)"
  shows "ip_args cfg op (op_args op) w (join_commas names) =
    ip_end cfg op (fold (\<lambda>(f, n) w. INSERT_OPERAND f w n) (zip (imc_fields op) regs) w) []"
proof -
  note letters = ip_args_register [OF assms(1), where f = OP_RS1 and c = "CHR ''s''"]
    ip_args_register [OF assms(1), where f = OP_RS2 and c = "CHR ''t''"]
    ip_args_register [OF assms(1), where f = OP_RS3 and c = "CHR ''r''"]
    ip_args_register [OF assms(1), where f = OP_RD and c = "CHR ''l''"]
  have l: "gpr_letter CHR ''s'' OP_RS1" "gpr_letter CHR ''t'' OP_RS2" "gpr_letter CHR ''r'' OP_RS3" "gpr_letter CHR ''l'' OP_RD"
    by (simp_all add: gpr_letter_def)
  have last: "ip_args cfg op (CHR ''l'' # cs) w r = ip_args cfg op cs (INSERT_OPERAND OP_RD w n) []"
    if "gpr_named n r" "as_supports cfg ''e'' \<longrightarrow> n \<le> 15" for cs w r n
    using ip_args_register [OF assms(1) that l(4), of "[]"] by simp
  from assms(2) show ?thesis
  proof
    assume a: "op_args op = ''s,t,r,l''"
    with assms(3,4) obtain n1 n2 n3 n4 r1 r2 r3 r4 where "regs = [n1, n2, n3, n4]" "names = [r1, r2, r3, r4]"
      "gpr_named n1 r1" "gpr_named n2 r2" "gpr_named n3 r3" "gpr_named n4 r4"
      by (auto simp: imc_fields_def length_Suc_conv numeral_eq_Suc list_all2_Cons1)
    with a assms(5) show ?thesis
      by (simp add: imc_fields_def letters l last ip_args_comma del: ip_args.simps(2)) (simp add: skip_blanks_def)
  next
    assume a: "op_args op = ''s,t,l''"
    with assms(3,4) obtain n1 n2 n3 r1 r2 r3 where "regs = [n1, n2, n3]" "names = [r1, r2, r3]"
      "gpr_named n1 r1" "gpr_named n2 r2" "gpr_named n3 r3"
      by (auto simp: imc_fields_def length_Suc_conv numeral_eq_Suc list_all2_Cons1)
    with a assms(5) show ?thesis
      by (simp add: imc_fields_def letters l last ip_args_comma del: ip_args.simps(2)) (simp add: skip_blanks_def)
  qed
qed

lemma imc_not_priv:
  assumes "op \<in> set imc_entries" "match_opcode op w" shows "\<not> riscv_is_priv_insn w"
proof
  assume "riscv_is_priv_insn w"
  then obtain m k :: insn_t where "(w XOR m) AND k = 0" "k AND 0x7f = 0x7f" "m AND 0x7f = 0x73"
    unfolding riscv_is_priv_insn_def by (elim disjE) (rule that, assumption, simp, simp)+
  then have "w AND 0x7f = 0x73" using masked_eq [of w m k "0x7f"] by simp
  moreover have "OP_HASH_IDX w = 0xb" "riscv_insn_length w = 4" using imc_match [OF assms] by simp_all
  ultimately show False by (simp add: OP_HASH_IDX_def)
qed

lemma imc_ip_end:
  assumes "op \<in> set imc_entries" "match_opcode op w"
  shows "ip_end cfg op w [] = Round_done op w False"
proof -
  have e: "match_func op = Some MF_opcode" "pinfo op = 0" "op_match op AND 0x7f = 0xb"
    using imc_entries_index assms(1) unfolding list_all_iff by blast+
  have "op_match op \<noteq> 0" using e(3) by auto
  moreover have "riscv_insn_length (op_match op) = 4"
    using insn_length_low [of "op_match op" "0xb"] e(3) by (simp add: riscv_insn_length_def)
  ultimately show ?thesis using e assms(2) imc_not_priv [OF assms] by (simp add: ip_end_def)
qed

lemma takeWhile_eq_Cons: "takeWhile P xs = y # ys \<Longrightarrow> \<exists>zs. xs = y # zs"
  by (cases xs) (auto split: if_splits)

lemma imc_names_alone:
  "list_all (\<lambda>p. filter (named (op_name p)) imc_entries = [p] \<and> filter (named (op_name p)) lead_entries = []) imc_entries"
  unfolding imc_entries_def lead_entries_def riscv_opcodes_1_def by (simp add: opc_def)

lemma imc_hash_entry:
  assumes "init_opcode_hash riscv_opcodes False = Inr hash" "op \<in> set imc_entries"
  shows "\<exists>i ops. hash (op_name op) = Some i \<and> drop i riscv_opcodes = op # ops"
proof -
  obtain xs ys where pos: "riscv_opcodes = lead_entries @ imc_entries @ xs @ ys"
    using imc_entries_position opcodes_1_prefix by (metis append_assoc)
  have first: "\<exists>zs. filter (named (op_name op)) riscv_opcodes = op # zs"
    using imc_names_alone assms(2) by (simp add: list_all_iff pos)
  have ok: "hash_ok riscv_opcodes hash"
    using init_opcode_loop_ok [OF assms(1) [unfolded init_opcode_hash_def] hash_ok_Nil] by simp
  have "op_name op \<in> op_name ` set riscv_opcodes" using assms(2) by (simp add: pos)
  with ok obtain i where i: "hash (op_name op) = Some i" unfolding hash_ok_def by blast
  with ok first obtain zs where "takeWhile (named (op_name op)) (drop i riscv_opcodes) = op # zs"
    unfolding hash_ok_def by metis
  with i show ?thesis by (blast dest: takeWhile_eq_Cons)
qed

lemma imc_names_plain: "list_all (\<lambda>op. list_all (\<lambda>c. \<not> ISSPACE c) (op_name op)) imc_entries"
  unfolding imc_entries_def by (simp add: opc_def ISSPACE_def)

lemma ip_split:
  assumes "list_all (\<lambda>c. \<not> ISSPACE c) name"
  shows "ip_name (name @ CHR '' '' # args) = name" "ip_operands (name @ CHR '' '' # args) = args"
proof -
  have "ISSPACE CHR '' ''" by (simp add: ISSPACE_def)
  with assms show "ip_name (name @ CHR '' '' # args) = name"
    by (simp add: ip_name_def list_all_iff takeWhile_append)
  then show "ip_operands (name @ CHR '' '' # args) = args" by (simp add: ip_operands_def)
qed

lemma imc_assembles:
  assumes "init_opcode_hash riscv_opcodes False = Inr hash" "reg_names_hash = Inr (as_regs cfg)"
    and "riscv_multi_subset_supports (as_subsets cfg) INSN_CLASS_C = Inr True" "op \<in> set imc_entries"
    and "list_all2 gpr_named regs names" "length regs = length (imc_fields op)"
    and "as_supports cfg ''e'' \<longrightarrow> (\<forall>n \<in> set regs. n \<le> 15)"
  shows "riscv_ip cfg riscv_opcodes hash (op_name op @ CHR '' '' # join_commas names) = Ip_done op (imc_word op regs) False"
proof -
  from imc_hash_entry [OF assms(1,4)] obtain i ops where i: "hash (op_name op) = Some i" "drop i riscv_opcodes = op # ops"
    by blast
  have "list_all (\<lambda>c. \<not> ISSPACE c) (op_name op)" using imc_names_plain assms(4) by (simp add: list_all_iff)
  note split = ip_split [OF this]
  have args: "op_args op = ''s,t,r,l'' \<or> op_args op = ''s,t,l''" using imc_entries_args assms(4) by (simp add: list_all_iff)
  have e: "xlen_requirement op = 0" "insn_class op = INSN_CLASS_C"
    using imc_entries_index assms(4) unfolding list_all_iff by blast+
  have "ip_args cfg op (op_args op) (op_match op) (join_commas names) = Round_done op (imc_word op regs) False"
    using ip_args_imc [OF assms(2) args assms(5-7)] imc_ip_end [OF assms(4) imc_word_matches [OF assms(4)]]
    by (simp add: imc_word_def)
  with i e assms(3) show ?thesis by (simp add: riscv_ip_def split)
qed

section \<open>Properties\<close>

text \<open>
  C31. The register names are taken into the hash without a duplicate, and a name of an integer register, numeric, of the
  ABI or the frame pointer, followed by the end of the text or a character that is no part of a name, is recognised as its
  register with the rest of the text left.
\<close>

theorem register_names_are_found:
  assumes "gpr_named n r" "riscv_subset_supports subsets ''e'' = Inr True \<longrightarrow> n \<le> 15" "s = [] \<or> \<not> is_part_of_name (hd s)"
  shows "\<exists>h. reg_names_hash = Inr h \<and>
    reg_lookup \<lparr>as_regs = h, as_subsets = subsets, as_xlen = x, opt_rvc = b\<rparr> (r @ s) RCLASS_GPR = (Some n, s)"
proof -
  obtain h where h: "reg_names_hash = Inr h" using reg_names_hash_ok by blast
  let ?cfg = "\<lparr>as_regs = h, as_subsets = subsets, as_xlen = x, opt_rvc = b\<rparr>"
  have "as_supports ?cfg ''e'' \<longrightarrow> n \<le> 15" using assms(2) by (simp add: as_supports_def)
  with reg_lookup_gpr [of ?cfg, OF _ assms(1) _ assms(3)] h show ?thesis by auto
qed

theorem register_names_are_found_witness:
  "\<exists>h. reg_names_hash = Inr h \<and>
     reg_lookup \<lparr>as_regs = h, as_subsets = [], as_xlen = 64, opt_rvc = True\<rparr> (''fp'' @ '',a1'') RCLASS_GPR = (Some 8, '',a1'')"
  by (rule register_names_are_found) (simp_all add: gpr_named_def is_part_of_name_def lex_type_def)

text \<open>
  C32. An in-memory instruction written with register names separated by commas assembles, on the hash of the repository's
  table and with the compressed instructions enabled, to a word that has the fixed bits of the instruction and the registers
  in their fields.
\<close>

theorem imc_assembly:
  assumes "init_opcode_hash riscv_opcodes False = Inr hash" "reg_names_hash = Inr (as_regs cfg)"
    and "riscv_multi_subset_supports (as_subsets cfg) INSN_CLASS_C = Inr True" "op \<in> set imc_entries"
    and "list_all2 gpr_named regs names" "length regs = length (imc_fields op)"
    and "as_supports cfg ''e'' \<longrightarrow> (\<forall>n \<in> set regs. n \<le> 15)"
  shows "\<exists>word. riscv_ip cfg riscv_opcodes hash (op_name op @ CHR '' '' # join_commas names) = Ip_done op word False \<and>
    match_opcode op word \<and> map (\<lambda>f. EXTRACT_OPERAND f word) (imc_fields op) = regs"
proof -
  have "\<forall>n \<in> set regs. n < 32" using assms(5) by (auto simp: list_all2_conv_all_nth gpr_named_def in_set_conv_nth)
  with imc_assembles [OF assms] imc_word_matches [OF assms(4)] imc_word_extract [OF assms(6)] show ?thesis by blast
qed

definition sample_as_config :: "reg_hash \<Rightarrow> as_config" where
  "sample_as_config h = \<lparr>as_regs = h, as_subsets = dis_subsets sample_dis_config, as_xlen = 64, opt_rvc = True\<rparr>"

lemma sample_as_facts:
  "riscv_multi_subset_supports (as_subsets (sample_as_config h)) INSN_CLASS_C = Inr True"
  "as_supports (sample_as_config h) ''e'' \<longrightarrow> (\<forall>n \<in> set [11, 12, 13, 10]. n \<le> (15 :: nat))"
  "list_all2 gpr_named [11, 12, 13, 10] [''a1'', ''a2'', ''a3'', ''a0'']" "length [11, 12, 13, 10] = length (imc_fields (imc_entries ! 0))"
  "op_name (imc_entries ! 0) @ CHR '' '' # join_commas [''a1'', ''a2'', ''a3'', ''a0''] = ''addmod a1,a2,a3,a0''"
proof -
  show "riscv_multi_subset_supports (as_subsets (sample_as_config h)) INSN_CLASS_C = Inr True"
    using sample_supports_c by (simp add: sample_as_config_def)
  show "list_all2 gpr_named [11, 12, 13, 10] [''a1'', ''a2'', ''a3'', ''a0'']"
    by (simp add: gpr_named_def riscv_gpr_names_abi_def)
qed (simp_all add: imc_entries_def opc_def imc_fields_def)

lemma start_up_hashes:
  obtains hash h where "init_opcode_hash riscv_opcodes False = Inr hash" "reg_names_hash = Inr (as_regs (sample_as_config h))"
  using init_opcode_hash_total [OF opcode_runs_distinct riscv_opcodes_checked] reg_names_hash_ok
  by (metis as_config.select_convs(1) sample_as_config_def)

theorem imc_assembly_witness:
  "\<exists>hash h word. riscv_ip (sample_as_config h) riscv_opcodes hash ''addmod a1,a2,a3,a0'' = Ip_done (imc_entries ! 0) word False \<and>
     match_opcode (imc_entries ! 0) word \<and> map (\<lambda>f. EXTRACT_OPERAND f word) (imc_fields (imc_entries ! 0)) = [11, 12, 13, 10]"
proof -
  obtain hash h where "init_opcode_hash riscv_opcodes False = Inr hash" "reg_names_hash = Inr (as_regs (sample_as_config h))"
    by (rule start_up_hashes)
  from imc_assembly [OF this sample_as_facts(1) imc_entries_nth sample_as_facts(3,4,2)] show ?thesis
    unfolding sample_as_facts(5) by (intro exI [of _ hash] exI [of _ h])
qed

text \<open>
  C11. Round trip: what the assembler makes of an in-memory instruction, the disassembler prints with the same mnemonic and the
  same registers in the same order, by their numeric or ABI names as configured.
\<close>

theorem imc_assembly_round_trip:
  assumes "init_opcode_hash riscv_opcodes False = Inr hash" "reg_names_hash = Inr (as_regs cfg)"
    and "riscv_multi_subset_supports (as_subsets cfg) INSN_CLASS_C = Inr True" "op \<in> set imc_entries"
    and "list_all2 gpr_named regs names" "length regs = length (imc_fields op)"
    and "as_supports cfg ''e'' \<longrightarrow> (\<forall>n \<in> set regs. n \<le> 15)"
    and "riscv_multi_subset_supports (dis_subsets dcfg) INSN_CLASS_C = Inr True" "\<not> to_print_addr st"
  shows "\<exists>word st'. riscv_ip cfg riscv_opcodes hash (op_name op @ CHR '' '' # join_commas names) = Ip_done op word False \<and>
    riscv_disassemble_insn riscv_opcodes dcfg a word packet st = (4, st') \<and>
    dis_out st' = dis_out st @ Piece Style_mnemonic (op_name op) # Piece Style_text [CHR 0x09] #
      comma_list (map (\<lambda>n. Piece Style_register (riscv_gpr_names dcfg ! n)) regs)"
proof -
  have "\<forall>n \<in> set regs. n < 32" using assms(5) by (auto simp: list_all2_conv_all_nth gpr_named_def in_set_conv_nth)
  from imc_word_extract [OF assms(6) this]
  have "map (register_piece dcfg (imc_word op regs)) (imc_fields op) = map (\<lambda>n. Piece Style_register (riscv_gpr_names dcfg ! n)) regs"
    unfolding register_piece_def by (metis (no_types, lifting) map_eq_conv list.map_comp comp_apply)
  with imc_assembles [OF assms(1-7)] imc_disassembles [OF assms(4) imc_word_matches [OF assms(4)] assms(8,9)]
  show ?thesis by metis
qed

theorem imc_assembly_round_trip_witness:
  "\<exists>hash h word st'. riscv_ip (sample_as_config h) riscv_opcodes hash ''addmod a1,a2,a3,a0'' = Ip_done (imc_entries ! 0) word False \<and>
     riscv_disassemble_insn riscv_opcodes sample_dis_config 0x1000 word [] sample_dis_state = (4, st') \<and>
     dis_out st' = [Piece Style_mnemonic ''addmod'', Piece Style_text [CHR 0x09], Piece Style_register ''a1'', Piece Style_text '','',
       Piece Style_register ''a2'', Piece Style_text '','', Piece Style_register ''a3'', Piece Style_text '','', Piece Style_register ''a0'']"
proof -
  obtain hash h where h: "init_opcode_hash riscv_opcodes False = Inr hash" "reg_names_hash = Inr (as_regs (sample_as_config h))"
    by (rule start_up_hashes)
  have st: "\<not> to_print_addr sample_dis_state" "dis_out sample_dis_state = []" by (simp_all add: sample_dis_state_def)
  have names: "comma_list (map (\<lambda>n. Piece Style_register (riscv_gpr_names sample_dis_config ! n)) [11, 12, 13, 10]) =
    [Piece Style_register ''a1'', Piece Style_text '','', Piece Style_register ''a2'', Piece Style_text '','',
     Piece Style_register ''a3'', Piece Style_text '','', Piece Style_register ''a0'']"
    "op_name (imc_entries ! 0) = ''addmod''"
    by (simp_all add: riscv_gpr_names_def sample_dis_config_def riscv_gpr_names_abi_def imc_entries_def opc_def)
  from imc_assembly_round_trip [OF h sample_as_facts(1) imc_entries_nth sample_as_facts(3,4,2) sample_supports_c st(1), of "0x1000" "[]",
      unfolded sample_as_facts(5)]
  show ?thesis unfolding st(2) names append_Nil by (intro exI [of _ hash] exI [of _ h])
qed

end
