(* ===== verification/Riscv_Howto.thy ===== *)
theory Riscv_Howto
  imports Riscv_Imm Riscv_Ext
begin

text \<open>
  The relocations of the port (\<^verbatim>\<open>bfd/elfxx-riscv.c\<close>): the table that says for each relocation type which bits of which
  location it patches, the internal types of the relaxation pass, and the lookups into the tables.
\<close>

section \<open>Relocation types\<close>

abbreviation (input) R_RISCV_NONE :: nat where "R_RISCV_NONE \<equiv> 0"
abbreviation (input) R_RISCV_32 :: nat where "R_RISCV_32 \<equiv> 1"
abbreviation (input) R_RISCV_64 :: nat where "R_RISCV_64 \<equiv> 2"
abbreviation (input) R_RISCV_RELATIVE :: nat where "R_RISCV_RELATIVE \<equiv> 3"
abbreviation (input) R_RISCV_COPY :: nat where "R_RISCV_COPY \<equiv> 4"
abbreviation (input) R_RISCV_JUMP_SLOT :: nat where "R_RISCV_JUMP_SLOT \<equiv> 5"
abbreviation (input) R_RISCV_TLS_DTPMOD32 :: nat where "R_RISCV_TLS_DTPMOD32 \<equiv> 6"
abbreviation (input) R_RISCV_TLS_DTPMOD64 :: nat where "R_RISCV_TLS_DTPMOD64 \<equiv> 7"
abbreviation (input) R_RISCV_TLS_DTPREL32 :: nat where "R_RISCV_TLS_DTPREL32 \<equiv> 8"
abbreviation (input) R_RISCV_TLS_DTPREL64 :: nat where "R_RISCV_TLS_DTPREL64 \<equiv> 9"
abbreviation (input) R_RISCV_TLS_TPREL32 :: nat where "R_RISCV_TLS_TPREL32 \<equiv> 10"
abbreviation (input) R_RISCV_TLS_TPREL64 :: nat where "R_RISCV_TLS_TPREL64 \<equiv> 11"
abbreviation (input) R_RISCV_TLSDESC :: nat where "R_RISCV_TLSDESC \<equiv> 12"
abbreviation (input) R_RISCV_BRANCH :: nat where "R_RISCV_BRANCH \<equiv> 16"
abbreviation (input) R_RISCV_JAL :: nat where "R_RISCV_JAL \<equiv> 17"
abbreviation (input) R_RISCV_CALL :: nat where "R_RISCV_CALL \<equiv> 18"
abbreviation (input) R_RISCV_CALL_PLT :: nat where "R_RISCV_CALL_PLT \<equiv> 19"
abbreviation (input) R_RISCV_GOT_HI20 :: nat where "R_RISCV_GOT_HI20 \<equiv> 20"
abbreviation (input) R_RISCV_TLS_GOT_HI20 :: nat where "R_RISCV_TLS_GOT_HI20 \<equiv> 21"
abbreviation (input) R_RISCV_TLS_GD_HI20 :: nat where "R_RISCV_TLS_GD_HI20 \<equiv> 22"
abbreviation (input) R_RISCV_PCREL_HI20 :: nat where "R_RISCV_PCREL_HI20 \<equiv> 23"
abbreviation (input) R_RISCV_PCREL_LO12_I :: nat where "R_RISCV_PCREL_LO12_I \<equiv> 24"
abbreviation (input) R_RISCV_PCREL_LO12_S :: nat where "R_RISCV_PCREL_LO12_S \<equiv> 25"
abbreviation (input) R_RISCV_HI20 :: nat where "R_RISCV_HI20 \<equiv> 26"
abbreviation (input) R_RISCV_LO12_I :: nat where "R_RISCV_LO12_I \<equiv> 27"
abbreviation (input) R_RISCV_LO12_S :: nat where "R_RISCV_LO12_S \<equiv> 28"
abbreviation (input) R_RISCV_TPREL_HI20 :: nat where "R_RISCV_TPREL_HI20 \<equiv> 29"
abbreviation (input) R_RISCV_TPREL_LO12_I :: nat where "R_RISCV_TPREL_LO12_I \<equiv> 30"
abbreviation (input) R_RISCV_TPREL_LO12_S :: nat where "R_RISCV_TPREL_LO12_S \<equiv> 31"
abbreviation (input) R_RISCV_TPREL_ADD :: nat where "R_RISCV_TPREL_ADD \<equiv> 32"
abbreviation (input) R_RISCV_ADD8 :: nat where "R_RISCV_ADD8 \<equiv> 33"
abbreviation (input) R_RISCV_ADD16 :: nat where "R_RISCV_ADD16 \<equiv> 34"
abbreviation (input) R_RISCV_ADD32 :: nat where "R_RISCV_ADD32 \<equiv> 35"
abbreviation (input) R_RISCV_ADD64 :: nat where "R_RISCV_ADD64 \<equiv> 36"
abbreviation (input) R_RISCV_SUB8 :: nat where "R_RISCV_SUB8 \<equiv> 37"
abbreviation (input) R_RISCV_SUB16 :: nat where "R_RISCV_SUB16 \<equiv> 38"
abbreviation (input) R_RISCV_SUB32 :: nat where "R_RISCV_SUB32 \<equiv> 39"
abbreviation (input) R_RISCV_SUB64 :: nat where "R_RISCV_SUB64 \<equiv> 40"
abbreviation (input) R_RISCV_ALIGN :: nat where "R_RISCV_ALIGN \<equiv> 43"
abbreviation (input) R_RISCV_RVC_BRANCH :: nat where "R_RISCV_RVC_BRANCH \<equiv> 44"
abbreviation (input) R_RISCV_RVC_JUMP :: nat where "R_RISCV_RVC_JUMP \<equiv> 45"
abbreviation (input) R_RISCV_RVC_LUI :: nat where "R_RISCV_RVC_LUI \<equiv> 67"
abbreviation (input) R_RISCV_GPREL_I :: nat where "R_RISCV_GPREL_I \<equiv> 68"
abbreviation (input) R_RISCV_GPREL_S :: nat where "R_RISCV_GPREL_S \<equiv> 69"
abbreviation (input) R_RISCV_TPREL_I :: nat where "R_RISCV_TPREL_I \<equiv> 70"
abbreviation (input) R_RISCV_TPREL_S :: nat where "R_RISCV_TPREL_S \<equiv> 71"
abbreviation (input) R_RISCV_RELAX :: nat where "R_RISCV_RELAX \<equiv> 51"
abbreviation (input) R_RISCV_SUB6 :: nat where "R_RISCV_SUB6 \<equiv> 52"
abbreviation (input) R_RISCV_SET6 :: nat where "R_RISCV_SET6 \<equiv> 53"
abbreviation (input) R_RISCV_SET8 :: nat where "R_RISCV_SET8 \<equiv> 54"
abbreviation (input) R_RISCV_SET16 :: nat where "R_RISCV_SET16 \<equiv> 55"
abbreviation (input) R_RISCV_SET32 :: nat where "R_RISCV_SET32 \<equiv> 56"
abbreviation (input) R_RISCV_32_PCREL :: nat where "R_RISCV_32_PCREL \<equiv> 57"
abbreviation (input) R_RISCV_IRELATIVE :: nat where "R_RISCV_IRELATIVE \<equiv> 58"
abbreviation (input) R_RISCV_SET_ULEB128 :: nat where "R_RISCV_SET_ULEB128 \<equiv> 60"
abbreviation (input) R_RISCV_SUB_ULEB128 :: nat where "R_RISCV_SUB_ULEB128 \<equiv> 61"
abbreviation (input) R_RISCV_TLSDESC_HI20 :: nat where "R_RISCV_TLSDESC_HI20 \<equiv> 62"
abbreviation (input) R_RISCV_TLSDESC_LOAD_LO12 :: nat where "R_RISCV_TLSDESC_LOAD_LO12 \<equiv> 63"
abbreviation (input) R_RISCV_TLSDESC_ADD_LO12 :: nat where "R_RISCV_TLSDESC_ADD_LO12 \<equiv> 64"
abbreviation (input) R_RISCV_TLSDESC_CALL :: nat where "R_RISCV_TLSDESC_CALL \<equiv> 65"
abbreviation (input) R_RISCV_DELETE :: nat where "R_RISCV_DELETE \<equiv> 66"
abbreviation (input) R_RISCV_max :: nat where "R_RISCV_max \<equiv> 66"

datatype complain_overflow = Complain_dont | Complain_bitfield | Complain_signed

datatype special_function = Special_none | Special_generic | Special_add_sub | Special_ignore

record reloc_howto =
  h_type :: nat
  h_rightshift :: nat
  h_size :: nat
  h_bitsize :: nat
  h_pc_relative :: bool
  h_bitpos :: nat
  h_complain :: complain_overflow
  h_special :: special_function
  h_name :: "string option"
  h_partial_inplace :: bool
  h_src_mask :: u64
  h_dst_mask :: u64
  h_pcrel_offset :: bool

definition HOWTO ::
  "nat \<Rightarrow> nat \<Rightarrow> nat \<Rightarrow> nat \<Rightarrow> bool \<Rightarrow> nat \<Rightarrow> complain_overflow \<Rightarrow> special_function \<Rightarrow> string \<Rightarrow> bool \<Rightarrow> u64 \<Rightarrow> u64 \<Rightarrow> bool \<Rightarrow> reloc_howto" where
  "HOWTO t rs sz bs pc bp ov sf n pin sm dm po =
     \<lparr>h_type = t, h_rightshift = rs, h_size = sz, h_bitsize = bs, h_pc_relative = pc, h_bitpos = bp, h_complain = ov,
      h_special = sf, h_name = Some n, h_partial_inplace = pin, h_src_mask = sm, h_dst_mask = dm, h_pcrel_offset = po\<rparr>"

definition EMPTY_HOWTO :: "nat \<Rightarrow> reloc_howto" where
  "EMPTY_HOWTO t =
     \<lparr>h_type = t, h_rightshift = 0, h_size = 0, h_bitsize = 0, h_pc_relative = False, h_bitpos = 0, h_complain = Complain_dont,
      h_special = Special_none, h_name = None, h_partial_inplace = False, h_src_mask = 0, h_dst_mask = 0, h_pcrel_offset = False\<rparr>"

section \<open>The tables\<close>

definition howto_table_1 :: "reloc_howto list" where
  "howto_table_1 = [
    HOWTO R_RISCV_NONE 0 0 0 False 0 Complain_dont Special_generic ''R_RISCV_NONE'' False 0 0 False,
    HOWTO R_RISCV_32 0 4 32 False 0 Complain_dont Special_generic ''R_RISCV_32'' False 0 0xffffffff False,
    HOWTO R_RISCV_64 0 8 64 False 0 Complain_dont Special_generic ''R_RISCV_64'' False 0 (- 1) False,
    HOWTO R_RISCV_RELATIVE 0 4 32 False 0 Complain_dont Special_generic ''R_RISCV_RELATIVE'' False 0 0xffffffff False,
    HOWTO R_RISCV_COPY 0 0 0 False 0 Complain_bitfield Special_generic ''R_RISCV_COPY'' False 0 0 False,
    HOWTO R_RISCV_JUMP_SLOT 0 8 64 False 0 Complain_bitfield Special_generic ''R_RISCV_JUMP_SLOT'' False 0 0 False,
    HOWTO R_RISCV_TLS_DTPMOD32 0 4 32 False 0 Complain_dont Special_generic ''R_RISCV_TLS_DTPMOD32'' False 0 0xffffffff False,
    HOWTO R_RISCV_TLS_DTPMOD64 0 8 64 False 0 Complain_dont Special_generic ''R_RISCV_TLS_DTPMOD64'' False 0 (- 1) False,
    HOWTO R_RISCV_TLS_DTPREL32 0 4 32 False 0 Complain_dont Special_generic ''R_RISCV_TLS_DTPREL32'' True 0 0xffffffff False,
    HOWTO R_RISCV_TLS_DTPREL64 0 8 64 False 0 Complain_dont Special_generic ''R_RISCV_TLS_DTPREL64'' True 0 (- 1) False]"

definition howto_table_2 :: "reloc_howto list" where
  "howto_table_2 = [
    HOWTO R_RISCV_TLS_TPREL32 0 4 32 False 0 Complain_dont Special_generic ''R_RISCV_TLS_TPREL32'' False 0 0xffffffff False,
    HOWTO R_RISCV_TLS_TPREL64 0 8 64 False 0 Complain_dont Special_generic ''R_RISCV_TLS_TPREL64'' False 0 (- 1) False,
    HOWTO R_RISCV_TLSDESC 0 0 0 False 0 Complain_dont Special_generic ''R_RISCV_TLSDESC'' False 0 (- 1) False,
    EMPTY_HOWTO 13,
    EMPTY_HOWTO 14,
    EMPTY_HOWTO 15,
    HOWTO R_RISCV_BRANCH 0 4 32 True 0 Complain_signed Special_generic ''R_RISCV_BRANCH'' False 0 (ENCODE_BTYPE_IMM 0xffffffff) True,
    HOWTO R_RISCV_JAL 0 4 32 True 0 Complain_dont Special_generic ''R_RISCV_JAL'' False 0 (ENCODE_JTYPE_IMM 0xffffffff) True,
    HOWTO R_RISCV_CALL 0 8 64 True 0 Complain_dont Special_generic ''R_RISCV_CALL'' False 0 (ENCODE_UTYPE_IMM 0xffffffff OR push_bit 32 (ENCODE_ITYPE_IMM 0xffffffff)) True,
    HOWTO R_RISCV_CALL_PLT 0 8 64 True 0 Complain_dont Special_generic ''R_RISCV_CALL_PLT'' False 0 (ENCODE_UTYPE_IMM 0xffffffff OR push_bit 32 (ENCODE_ITYPE_IMM 0xffffffff)) True,
    HOWTO R_RISCV_GOT_HI20 0 4 32 True 0 Complain_dont Special_generic ''R_RISCV_GOT_HI20'' False 0 (ENCODE_UTYPE_IMM 0xffffffff) False,
    HOWTO R_RISCV_TLS_GOT_HI20 0 4 32 True 0 Complain_dont Special_generic ''R_RISCV_TLS_GOT_HI20'' False 0 (ENCODE_UTYPE_IMM 0xffffffff) False]"

definition howto_table_3 :: "reloc_howto list" where
  "howto_table_3 = [
    HOWTO R_RISCV_TLS_GD_HI20 0 4 32 True 0 Complain_dont Special_generic ''R_RISCV_TLS_GD_HI20'' False 0 (ENCODE_UTYPE_IMM 0xffffffff) False,
    HOWTO R_RISCV_PCREL_HI20 0 4 32 True 0 Complain_dont Special_generic ''R_RISCV_PCREL_HI20'' False 0 (ENCODE_UTYPE_IMM 0xffffffff) True,
    HOWTO R_RISCV_PCREL_LO12_I 0 4 32 False 0 Complain_dont Special_generic ''R_RISCV_PCREL_LO12_I'' False 0 (ENCODE_ITYPE_IMM 0xffffffff) False,
    HOWTO R_RISCV_PCREL_LO12_S 0 4 32 False 0 Complain_dont Special_generic ''R_RISCV_PCREL_LO12_S'' False 0 (ENCODE_STYPE_IMM 0xffffffff) False,
    HOWTO R_RISCV_HI20 0 4 32 False 0 Complain_dont Special_generic ''R_RISCV_HI20'' False 0 (ENCODE_UTYPE_IMM 0xffffffff) False,
    HOWTO R_RISCV_LO12_I 0 4 32 False 0 Complain_dont Special_generic ''R_RISCV_LO12_I'' False 0 (ENCODE_ITYPE_IMM 0xffffffff) False,
    HOWTO R_RISCV_LO12_S 0 4 32 False 0 Complain_dont Special_generic ''R_RISCV_LO12_S'' False 0 (ENCODE_STYPE_IMM 0xffffffff) False,
    HOWTO R_RISCV_TPREL_HI20 0 4 32 False 0 Complain_signed Special_generic ''R_RISCV_TPREL_HI20'' True 0 (ENCODE_UTYPE_IMM 0xffffffff) False,
    HOWTO R_RISCV_TPREL_LO12_I 0 4 32 False 0 Complain_signed Special_generic ''R_RISCV_TPREL_LO12_I'' False 0 (ENCODE_ITYPE_IMM 0xffffffff) False,
    HOWTO R_RISCV_TPREL_LO12_S 0 4 32 False 0 Complain_signed Special_generic ''R_RISCV_TPREL_LO12_S'' False 0 (ENCODE_STYPE_IMM 0xffffffff) False]"

definition howto_table_4 :: "reloc_howto list" where
  "howto_table_4 = [
    HOWTO R_RISCV_TPREL_ADD 0 0 0 False 0 Complain_dont Special_generic ''R_RISCV_TPREL_ADD'' False 0 0 False,
    HOWTO R_RISCV_ADD8 0 1 8 False 0 Complain_dont Special_add_sub ''R_RISCV_ADD8'' False 0 0xff False,
    HOWTO R_RISCV_ADD16 0 2 16 False 0 Complain_dont Special_add_sub ''R_RISCV_ADD16'' False 0 0xffff False,
    HOWTO R_RISCV_ADD32 0 4 32 False 0 Complain_dont Special_add_sub ''R_RISCV_ADD32'' False 0 0xffffffff False,
    HOWTO R_RISCV_ADD64 0 8 64 False 0 Complain_dont Special_add_sub ''R_RISCV_ADD64'' False 0 (- 1) False,
    HOWTO R_RISCV_SUB8 0 1 8 False 0 Complain_dont Special_add_sub ''R_RISCV_SUB8'' False 0 0xff False,
    HOWTO R_RISCV_SUB16 0 2 16 False 0 Complain_dont Special_add_sub ''R_RISCV_SUB16'' False 0 0xffff False,
    HOWTO R_RISCV_SUB32 0 4 32 False 0 Complain_dont Special_add_sub ''R_RISCV_SUB32'' False 0 0xffffffff False,
    HOWTO R_RISCV_SUB64 0 8 64 False 0 Complain_dont Special_add_sub ''R_RISCV_SUB64'' False 0 (- 1) False,
    EMPTY_HOWTO 41,
    EMPTY_HOWTO 42]"

definition howto_table_5 :: "reloc_howto list" where
  "howto_table_5 = [
    HOWTO R_RISCV_ALIGN 0 0 0 False 0 Complain_dont Special_generic ''R_RISCV_ALIGN'' False 0 0 False,
    HOWTO R_RISCV_RVC_BRANCH 0 2 16 True 0 Complain_signed Special_generic ''R_RISCV_RVC_BRANCH'' False 0 (ENCODE_CBTYPE_IMM 0xffffffff) True,
    HOWTO R_RISCV_RVC_JUMP 0 2 16 True 0 Complain_dont Special_generic ''R_RISCV_RVC_JUMP'' False 0 (ENCODE_CJTYPE_IMM 0xffffffff) True,
    EMPTY_HOWTO 46,
    EMPTY_HOWTO 47,
    EMPTY_HOWTO 48,
    EMPTY_HOWTO 49,
    EMPTY_HOWTO 50,
    HOWTO R_RISCV_RELAX 0 0 0 False 0 Complain_dont Special_generic ''R_RISCV_RELAX'' False 0 0 False,
    HOWTO R_RISCV_SUB6 0 1 8 False 0 Complain_dont Special_add_sub ''R_RISCV_SUB6'' False 0 0x3f False,
    HOWTO R_RISCV_SET6 0 1 8 False 0 Complain_dont Special_generic ''R_RISCV_SET6'' False 0 0x3f False,
    HOWTO R_RISCV_SET8 0 1 8 False 0 Complain_dont Special_generic ''R_RISCV_SET8'' False 0 0xff False,
    HOWTO R_RISCV_SET16 0 2 16 False 0 Complain_dont Special_generic ''R_RISCV_SET16'' False 0 0xffff False,
    HOWTO R_RISCV_SET32 0 4 32 False 0 Complain_dont Special_generic ''R_RISCV_SET32'' False 0 0xffffffff False]"

definition howto_table_6 :: "reloc_howto list" where
  "howto_table_6 = [
    HOWTO R_RISCV_32_PCREL 0 4 32 True 0 Complain_dont Special_generic ''R_RISCV_32_PCREL'' False 0 0xffffffff False,
    HOWTO R_RISCV_IRELATIVE 0 4 32 False 0 Complain_dont Special_generic ''R_RISCV_IRELATIVE'' False 0 0xffffffff False,
    EMPTY_HOWTO 59,
    HOWTO R_RISCV_SET_ULEB128 0 0 0 False 0 Complain_dont Special_ignore ''R_RISCV_SET_ULEB128'' False 0 0 False,
    HOWTO R_RISCV_SUB_ULEB128 0 0 0 False 0 Complain_dont Special_ignore ''R_RISCV_SUB_ULEB128'' False 0 0 False,
    HOWTO R_RISCV_TLSDESC_HI20 0 4 32 True 0 Complain_dont Special_generic ''R_RISCV_TLSDESC_HI20'' True 0 (ENCODE_UTYPE_IMM 0xffffffff) False,
    HOWTO R_RISCV_TLSDESC_LOAD_LO12 0 4 32 False 0 Complain_dont Special_generic ''R_RISCV_TLSDESC_LOAD_LO12'' False 0 (ENCODE_ITYPE_IMM 0xffffffff) False,
    HOWTO R_RISCV_TLSDESC_ADD_LO12 0 4 32 False 0 Complain_dont Special_generic ''R_RISCV_TLSDESC_ADD_LO12'' False 0 (ENCODE_ITYPE_IMM 0xffffffff) False,
    HOWTO R_RISCV_TLSDESC_CALL 0 0 0 False 0 Complain_dont Special_generic ''R_RISCV_TLSDESC_CALL'' False 0 (ENCODE_ITYPE_IMM 0xffffffff) False]"

definition howto_table_internal :: "reloc_howto list" where
  "howto_table_internal = [
    EMPTY_HOWTO 0,
    HOWTO R_RISCV_RVC_LUI 0 2 16 False 0 Complain_dont Special_generic ''R_RISCV_RVC_LUI'' False 0 (ENCODE_CITYPE_IMM 0xffffffff) False,
    HOWTO R_RISCV_GPREL_I 0 4 32 False 0 Complain_dont Special_generic ''R_RISCV_GPREL_I'' False 0 (ENCODE_ITYPE_IMM 0xffffffff) False,
    HOWTO R_RISCV_GPREL_S 0 4 32 False 0 Complain_dont Special_generic ''R_RISCV_GPREL_S'' False 0 (ENCODE_STYPE_IMM 0xffffffff) False,
    HOWTO R_RISCV_TPREL_I 0 4 32 False 0 Complain_signed Special_generic ''R_RISCV_TPREL_I'' False 0 (ENCODE_ITYPE_IMM 0xffffffff) False,
    HOWTO R_RISCV_TPREL_S 0 4 32 False 0 Complain_signed Special_generic ''R_RISCV_TPREL_S'' False 0 (ENCODE_STYPE_IMM 0xffffffff) False]"

definition howto_table :: "reloc_howto list" where
  "howto_table = howto_table_1 @ howto_table_2 @ howto_table_3 @ howto_table_4 @ howto_table_5 @ howto_table_6"

text \<open>The generic relocation codes of the assembler, and the ELF types they stand for.\<close>

datatype (plugins only: code) bfd_reloc =
    BFD_RELOC_NONE
  | BFD_RELOC_32
  | BFD_RELOC_64
  | BFD_RELOC_RISCV_ADD8
  | BFD_RELOC_RISCV_ADD16
  | BFD_RELOC_RISCV_ADD32
  | BFD_RELOC_RISCV_ADD64
  | BFD_RELOC_RISCV_SUB8
  | BFD_RELOC_RISCV_SUB16
  | BFD_RELOC_RISCV_SUB32
  | BFD_RELOC_RISCV_SUB64
  | BFD_RELOC_CTOR
  | BFD_RELOC_12_PCREL
  | BFD_RELOC_RISCV_HI20
  | BFD_RELOC_RISCV_LO12_I
  | BFD_RELOC_RISCV_LO12_S
  | BFD_RELOC_RISCV_PCREL_LO12_I
  | BFD_RELOC_RISCV_PCREL_LO12_S
  | BFD_RELOC_RISCV_CALL
  | BFD_RELOC_RISCV_CALL_PLT
  | BFD_RELOC_RISCV_PCREL_HI20
  | BFD_RELOC_RISCV_JMP
  | BFD_RELOC_RISCV_GOT_HI20
  | BFD_RELOC_RISCV_TLS_DTPMOD32
  | BFD_RELOC_RISCV_TLS_DTPREL32
  | BFD_RELOC_RISCV_TLS_DTPMOD64
  | BFD_RELOC_RISCV_TLS_DTPREL64
  | BFD_RELOC_RISCV_TLS_TPREL32
  | BFD_RELOC_RISCV_TLS_TPREL64
  | BFD_RELOC_RISCV_TPREL_HI20
  | BFD_RELOC_RISCV_TPREL_ADD
  | BFD_RELOC_RISCV_TPREL_LO12_S
  | BFD_RELOC_RISCV_TPREL_LO12_I
  | BFD_RELOC_RISCV_TLS_GOT_HI20
  | BFD_RELOC_RISCV_TLS_GD_HI20
  | BFD_RELOC_RISCV_TLSDESC_HI20
  | BFD_RELOC_RISCV_TLSDESC_LOAD_LO12
  | BFD_RELOC_RISCV_TLSDESC_ADD_LO12
  | BFD_RELOC_RISCV_TLSDESC_CALL
  | BFD_RELOC_RISCV_ALIGN
  | BFD_RELOC_RISCV_RVC_BRANCH
  | BFD_RELOC_RISCV_RVC_JUMP
  | BFD_RELOC_RISCV_RELAX
  | BFD_RELOC_RISCV_SUB6
  | BFD_RELOC_RISCV_SET6
  | BFD_RELOC_RISCV_SET8
  | BFD_RELOC_RISCV_SET16
  | BFD_RELOC_RISCV_SET32
  | BFD_RELOC_RISCV_32_PCREL
  | BFD_RELOC_RISCV_SET_ULEB128
  | BFD_RELOC_RISCV_SUB_ULEB128

definition riscv_reloc_map :: "(bfd_reloc \<times> nat) list" where
  "riscv_reloc_map = [
    (BFD_RELOC_NONE, R_RISCV_NONE),
    (BFD_RELOC_32, R_RISCV_32),
    (BFD_RELOC_64, R_RISCV_64),
    (BFD_RELOC_RISCV_ADD8, R_RISCV_ADD8),
    (BFD_RELOC_RISCV_ADD16, R_RISCV_ADD16),
    (BFD_RELOC_RISCV_ADD32, R_RISCV_ADD32),
    (BFD_RELOC_RISCV_ADD64, R_RISCV_ADD64),
    (BFD_RELOC_RISCV_SUB8, R_RISCV_SUB8),
    (BFD_RELOC_RISCV_SUB16, R_RISCV_SUB16),
    (BFD_RELOC_RISCV_SUB32, R_RISCV_SUB32),
    (BFD_RELOC_RISCV_SUB64, R_RISCV_SUB64),
    (BFD_RELOC_CTOR, R_RISCV_64),
    (BFD_RELOC_12_PCREL, R_RISCV_BRANCH),
    (BFD_RELOC_RISCV_HI20, R_RISCV_HI20),
    (BFD_RELOC_RISCV_LO12_I, R_RISCV_LO12_I),
    (BFD_RELOC_RISCV_LO12_S, R_RISCV_LO12_S),
    (BFD_RELOC_RISCV_PCREL_LO12_I, R_RISCV_PCREL_LO12_I),
    (BFD_RELOC_RISCV_PCREL_LO12_S, R_RISCV_PCREL_LO12_S),
    (BFD_RELOC_RISCV_CALL, R_RISCV_CALL),
    (BFD_RELOC_RISCV_CALL_PLT, R_RISCV_CALL_PLT),
    (BFD_RELOC_RISCV_PCREL_HI20, R_RISCV_PCREL_HI20),
    (BFD_RELOC_RISCV_JMP, R_RISCV_JAL),
    (BFD_RELOC_RISCV_GOT_HI20, R_RISCV_GOT_HI20),
    (BFD_RELOC_RISCV_TLS_DTPMOD32, R_RISCV_TLS_DTPMOD32),
    (BFD_RELOC_RISCV_TLS_DTPREL32, R_RISCV_TLS_DTPREL32),
    (BFD_RELOC_RISCV_TLS_DTPMOD64, R_RISCV_TLS_DTPMOD64),
    (BFD_RELOC_RISCV_TLS_DTPREL64, R_RISCV_TLS_DTPREL64),
    (BFD_RELOC_RISCV_TLS_TPREL32, R_RISCV_TLS_TPREL32),
    (BFD_RELOC_RISCV_TLS_TPREL64, R_RISCV_TLS_TPREL64),
    (BFD_RELOC_RISCV_TPREL_HI20, R_RISCV_TPREL_HI20),
    (BFD_RELOC_RISCV_TPREL_ADD, R_RISCV_TPREL_ADD),
    (BFD_RELOC_RISCV_TPREL_LO12_S, R_RISCV_TPREL_LO12_S),
    (BFD_RELOC_RISCV_TPREL_LO12_I, R_RISCV_TPREL_LO12_I),
    (BFD_RELOC_RISCV_TLS_GOT_HI20, R_RISCV_TLS_GOT_HI20),
    (BFD_RELOC_RISCV_TLS_GD_HI20, R_RISCV_TLS_GD_HI20),
    (BFD_RELOC_RISCV_TLSDESC_HI20, R_RISCV_TLSDESC_HI20),
    (BFD_RELOC_RISCV_TLSDESC_LOAD_LO12, R_RISCV_TLSDESC_LOAD_LO12),
    (BFD_RELOC_RISCV_TLSDESC_ADD_LO12, R_RISCV_TLSDESC_ADD_LO12),
    (BFD_RELOC_RISCV_TLSDESC_CALL, R_RISCV_TLSDESC_CALL),
    (BFD_RELOC_RISCV_ALIGN, R_RISCV_ALIGN),
    (BFD_RELOC_RISCV_RVC_BRANCH, R_RISCV_RVC_BRANCH),
    (BFD_RELOC_RISCV_RVC_JUMP, R_RISCV_RVC_JUMP),
    (BFD_RELOC_RISCV_RELAX, R_RISCV_RELAX),
    (BFD_RELOC_RISCV_SUB6, R_RISCV_SUB6),
    (BFD_RELOC_RISCV_SET6, R_RISCV_SET6),
    (BFD_RELOC_RISCV_SET8, R_RISCV_SET8),
    (BFD_RELOC_RISCV_SET16, R_RISCV_SET16),
    (BFD_RELOC_RISCV_SET32, R_RISCV_SET32),
    (BFD_RELOC_RISCV_32_PCREL, R_RISCV_32_PCREL),
    (BFD_RELOC_RISCV_SET_ULEB128, R_RISCV_SET_ULEB128),
    (BFD_RELOC_RISCV_SUB_ULEB128, R_RISCV_SUB_ULEB128)]"

section \<open>Lookups\<close>

definition riscv_reloc_type_lookup :: "bfd_reloc \<Rightarrow> reloc_howto option" where
  "riscv_reloc_type_lookup code = map_option (\<lambda>t. howto_table ! t) (map_of riscv_reloc_map code)"

definition riscv_reloc_name_lookup :: "string \<Rightarrow> reloc_howto option" where
  "riscv_reloc_name_lookup r_name =
     find (\<lambda>h. case h_name h of None \<Rightarrow> False | Some n \<Rightarrow> strcasecmp n r_name = 0) howto_table"

definition riscv_elf_rtype_to_howto :: "nat \<Rightarrow> reloc_howto option" where
  "riscv_elf_rtype_to_howto r_type =
     (if r_type < length howto_table then Some (howto_table ! r_type)
      else if r_type < R_RISCV_max + length howto_table_internal then Some (howto_table_internal ! (r_type - R_RISCV_max))
      else None)"

end
