(* ===== verification/Riscv_Reloc.thy ===== *)
theory Riscv_Reloc
  imports Riscv_Howto
begin

text \<open>
  Applying a relocation (\<^verbatim>\<open>perform_relocation\<close> of \<^verbatim>\<open>bfd/elfnn-riscv.c\<close> and the handler of the difference relocations in
  \<^verbatim>\<open>bfd/elfxx-riscv.c\<close>) to the contents of a section.

  An access outside the contents and an \<^verbatim>\<open>abort\<close> end the run. The contents that a refused relocation has already changed
  are part of the result.
\<close>

section \<open>Contents\<close>

definition get_bytes :: "u8 list \<Rightarrow> nat \<Rightarrow> nat \<Rightarrow> u8 list run" where
  "get_bytes contents off n =
     (if off + n \<le> length contents then Inr (take n (drop off contents)) else Inl Out_of_range)"

definition put_at :: "u8 list \<Rightarrow> nat \<Rightarrow> u8 list \<Rightarrow> u8 list run" where
  "put_at contents off bs =
     (if off + length bs \<le> length contents then Inr (take off contents @ bs @ drop (off + length bs) contents)
      else Inl Out_of_range)"

text \<open>Instructions are little-endian and have 16, 32 or 64 bits; data have the byte order of the file.\<close>

definition riscv_get_insn :: "nat \<Rightarrow> u8 list \<Rightarrow> nat \<Rightarrow> u64 run" where
  "riscv_get_insn bits contents off =
     (if bits \<in> {16, 32, 64} then rbind (get_bytes contents off (bits div 8)) (\<lambda>bs. Inr (le_word bs)) else Inl Panic)"

definition riscv_put_insn :: "nat \<Rightarrow> u64 \<Rightarrow> u8 list \<Rightarrow> nat \<Rightarrow> u8 list run" where
  "riscv_put_insn bits val contents off =
     (if bits \<in> {16, 32, 64} then put_at contents off (le_bytes (bits div 8) val) else Inl Panic)"

definition bfd_get :: "bool \<Rightarrow> nat \<Rightarrow> u8 list \<Rightarrow> nat \<Rightarrow> u64 run" where
  "bfd_get big bits contents off =
     (if bits \<in> {8, 16, 32, 64}
      then rbind (get_bytes contents off (bits div 8)) (\<lambda>bs. Inr (le_word (if big then rev bs else bs))) else Inl Panic)"

definition bfd_put :: "bool \<Rightarrow> nat \<Rightarrow> u64 \<Rightarrow> u8 list \<Rightarrow> nat \<Rightarrow> u8 list run" where
  "bfd_put big bits val contents off =
     (if bits \<in> {8, 16, 32, 64}
      then put_at contents off (let bs = le_bytes (bits div 8) val in if big then rev bs else bs) else Inl Panic)"

definition riscv_is_insn_reloc :: "reloc_howto \<Rightarrow> bool" where
  "riscv_is_insn_reloc h \<longleftrightarrow>
     h_bitsize h > 8 \<and> h_dst_mask h \<noteq> 0 \<and>
     NOT (h_dst_mask h OR (if h_bitsize h < 64 then push_bit (h_bitsize h) (- 1) else 0)) \<noteq> 0"

section \<open>Variable-length numbers\<close>

text \<open>
  \<^verbatim>\<open>_bfd_read_unsigned_leb128\<close>: the value and the number of bytes; the loop has no bound but the contents. Bits beyond the
  width of the result are dropped.
\<close>

fun uleb_read :: "nat \<Rightarrow> u8 list \<Rightarrow> (u64 \<times> nat) run" where
  "uleb_read shift [] = Inl Out_of_range"
| "uleb_read shift (b # bs) =
     (let part = (if shift < 64 then push_bit shift (ucast b AND 0x7f) else 0);
          shift' = (if shift < 64 then shift + 7 else shift)
      in if b AND 0x80 \<noteq> 0 then rbind (uleb_read shift' bs) (\<lambda>(result, n). Inr (part OR result, Suc n))
         else Inr (part, 1))"

function uleb_new_len :: "u32 \<Rightarrow> nat" where
  "uleb_new_len v = (let v' = drop_bit 7 v in if v' = 0 then 1 else Suc (uleb_new_len v'))"
  by pat_completeness auto
termination
proof (relation "measure unat", goal_cases)
  case (2 v v')
  then have "v \<noteq> 0" by auto
  then have "0 < unat v" by (simp add: unat_gt_0)
  then have "unat v div 2 ^ 7 < unat v" by simp
  with 2 show ?case by (simp add: drop_bit_eq_div unat_div)
qed simp

declare uleb_new_len.simps [simp del]

text \<open>\<^verbatim>\<open>_bfd_write_unsigned_leb128\<close> with \<open>n\<close> bytes of room: the bytes written, and whether the value was written to its end.\<close>

fun uleb_write :: "nat \<Rightarrow> u64 \<Rightarrow> u8 list \<times> bool" where
  "uleb_write 0 val = ([], False)"
| "uleb_write (Suc n) val =
     (let c = ucast (val AND 0x7f) :: u8; val' = drop_bit 7 val
      in if val' = 0 then ([c], True)
         else let (bs, done) = uleb_write n val' in ((c OR 0x80) # bs, done))"

section \<open>Encoding\<close>

definition RISCV_CONST_HIGH_PART :: "u64 \<Rightarrow> u64" where
  "RISCV_CONST_HIGH_PART v = (v + 0x800) AND NOT 0xfff"

datatype reloc_status =
    Reloc_ok | Reloc_overflow | Reloc_dangerous | Reloc_notsupported | Reloc_outofrange | Reloc_continue

text \<open>What the switch over the type does with the value.\<close>

datatype reloc_field =
    Field u64
  | Field_c_li
  | Field_uleb
  | Field_none reloc_status

definition upper_field :: "bool \<Rightarrow> u64 \<Rightarrow> u64 \<Rightarrow> reloc_field" where
  "upper_field arch64 value field =
     (if arch64 \<and> \<not> VALID_UTYPE_IMM (RISCV_CONST_HIGH_PART value) then Field_none Reloc_overflow else Field field)"

definition reloc_field :: "bool \<Rightarrow> nat \<Rightarrow> u64 \<Rightarrow> reloc_field" where
  "reloc_field arch64 r_type value =
     (let hi = RISCV_CONST_HIGH_PART value in
      if r_type \<in> {R_RISCV_HI20, R_RISCV_TPREL_HI20, R_RISCV_PCREL_HI20, R_RISCV_GOT_HI20, R_RISCV_TLS_GOT_HI20,
          R_RISCV_TLS_GD_HI20, R_RISCV_TLSDESC_HI20}
        then upper_field arch64 value (ENCODE_UTYPE_IMM hi)
      else if r_type \<in> {R_RISCV_LO12_I, R_RISCV_GPREL_I, R_RISCV_TPREL_LO12_I, R_RISCV_TPREL_I, R_RISCV_PCREL_LO12_I,
          R_RISCV_TLSDESC_LOAD_LO12, R_RISCV_TLSDESC_ADD_LO12}
        then Field (ENCODE_ITYPE_IMM value)
      else if r_type \<in> {R_RISCV_LO12_S, R_RISCV_GPREL_S, R_RISCV_TPREL_LO12_S, R_RISCV_TPREL_S, R_RISCV_PCREL_LO12_S}
        then Field (ENCODE_STYPE_IMM value)
      else if r_type \<in> {R_RISCV_CALL, R_RISCV_CALL_PLT}
        then upper_field arch64 value (ENCODE_UTYPE_IMM hi OR push_bit 32 (ENCODE_ITYPE_IMM value))
      else if r_type = R_RISCV_JAL
        then (if \<not> VALID_JTYPE_IMM value then Field_none Reloc_overflow else Field (ENCODE_JTYPE_IMM value))
      else if r_type = R_RISCV_BRANCH
        then (if \<not> VALID_BTYPE_IMM value then Field_none Reloc_overflow else Field (ENCODE_BTYPE_IMM value))
      else if r_type = R_RISCV_RVC_BRANCH
        then (if \<not> VALID_CBTYPE_IMM value then Field_none Reloc_overflow else Field (ENCODE_CBTYPE_IMM value))
      else if r_type = R_RISCV_RVC_JUMP
        then (if \<not> VALID_CJTYPE_IMM value then Field_none Reloc_overflow else Field (ENCODE_CJTYPE_IMM value))
      else if r_type = R_RISCV_RVC_LUI
        then (if hi = 0 then Field_c_li
              else if \<not> VALID_CITYPE_LUI_IMM hi then Field_none Reloc_overflow else Field (ENCODE_CITYPE_LUI_IMM hi))
      else if r_type = R_RISCV_SUB_ULEB128 then Field_uleb
      else if r_type \<in> {R_RISCV_32, R_RISCV_64, R_RISCV_ADD8, R_RISCV_ADD16, R_RISCV_ADD32, R_RISCV_ADD64, R_RISCV_SUB6,
          R_RISCV_SUB8, R_RISCV_SUB16, R_RISCV_SUB32, R_RISCV_SUB64, R_RISCV_SET6, R_RISCV_SET8, R_RISCV_SET16, R_RISCV_SET32,
          R_RISCV_32_PCREL, R_RISCV_TLS_DTPREL32, R_RISCV_TLS_DTPREL64}
        then Field value
      else if r_type = R_RISCV_DELETE then Field_none Reloc_ok
      else Field_none Reloc_notsupported)"

section \<open>Patching\<close>

text \<open>The bits of the destination mask are replaced.\<close>

definition patch :: "bool \<Rightarrow> reloc_howto \<Rightarrow> nat \<Rightarrow> u64 \<Rightarrow> u8 list \<Rightarrow> u8 list run" where
  "patch big h off value contents =
     rbind (if riscv_is_insn_reloc h then riscv_get_insn (h_bitsize h) contents off else bfd_get big (h_bitsize h) contents off)
       (\<lambda>word. let word' = (word AND NOT (h_dst_mask h)) OR (value AND h_dst_mask h)
               in if riscv_is_insn_reloc h then riscv_put_insn (h_bitsize h) word' contents off
                  else bfd_put big (h_bitsize h) word' contents off)"

abbreviation (input) MATCH_C_LUI :: u64 where "MATCH_C_LUI \<equiv> 0x6001"
abbreviation (input) MATCH_C_LI :: u64 where "MATCH_C_LI \<equiv> 0x4001"

text \<open>A compressed \<^verbatim>\<open>lui\<close> of zero becomes a \<^verbatim>\<open>li\<close>.\<close>

definition lui_to_li :: "reloc_howto \<Rightarrow> nat \<Rightarrow> u8 list \<Rightarrow> u8 list run" where
  "lui_to_li h off contents =
     rbind (riscv_get_insn (h_bitsize h) contents off) (\<lambda>insn.
       riscv_put_insn (h_bitsize h) ((insn AND NOT MATCH_C_LUI) OR MATCH_C_LI) contents off)"

text \<open>
  A variable-length difference keeps its length. The new length is computed from the value cut to 32 bits; when the value
  itself does not fit, the write fails and gives a null pointer. \<^verbatim>\<open>BFD_ASSERT\<close> only reports it; the code goes on to decrement
  and compare the null pointer, which C leaves undefined, and the model ends there.
\<close>

definition patch_uleb :: "nat \<Rightarrow> u64 \<Rightarrow> u8 list \<Rightarrow> (reloc_status \<times> u8 list) run" where
  "patch_uleb off value contents =
     rbind (uleb_read 0 (drop off contents)) (\<lambda>(old, len).
     rbind (put_at contents off (replicate (len - 1) 0x80 @ [0])) (\<lambda>cleared.
       if uleb_new_len (ucast value) > len then Inr (Reloc_dangerous, cleared)
       else
         (let (bs, done) = uleb_write len value; n = length bs in
          if \<not> done then Inl Assert_failed
          else rbind (put_at cleared off (if n < len then butlast bs @ [last bs OR 0x80] else bs)) (\<lambda>c. Inr (Reloc_ok, c)))))"

definition perform_relocation ::
  "bool \<Rightarrow> bool \<Rightarrow> reloc_howto \<Rightarrow> nat \<Rightarrow> nat \<Rightarrow> u64 \<Rightarrow> u64 \<Rightarrow> u64 \<Rightarrow> u8 list \<Rightarrow> (reloc_status \<times> u8 list) run" where
  "perform_relocation arch64 big h r_type r_offset r_addend value sec_addr contents =
     (let v1 = (if h_pc_relative h then value - (sec_addr + of_nat r_offset) else value);
          v2 = (if r_type \<noteq> R_RISCV_SUB_ULEB128 then v1 + r_addend else v1)
      in case reloc_field arch64 r_type v2 of
           Field_none status \<Rightarrow> Inr (status, contents)
         | Field_uleb \<Rightarrow> patch_uleb r_offset v2 contents
         | Field_c_li \<Rightarrow>
             rbind (lui_to_li h r_offset contents) (\<lambda>c.
             rbind (patch big h r_offset (ENCODE_CITYPE_IMM 0) c) (\<lambda>c'. Inr (Reloc_ok, c')))
         | Field v \<Rightarrow> rbind (patch big h r_offset v contents) (\<lambda>c. Inr (Reloc_ok, c)))"

section \<open>Difference relocations\<close>

text \<open>
  \<^verbatim>\<open>riscv_elf_add_sub_reloc\<close> on the final link: the value of the symbol with the addend is added to the location or
  subtracted from it. Relocatable output only moves the relocation.
\<close>

definition add_sub_value :: "reloc_howto \<Rightarrow> u64 \<Rightarrow> u64 \<Rightarrow> u64" where
  "add_sub_value h old_value relocation =
     (if h_type h \<in> {R_RISCV_ADD8, R_RISCV_ADD16, R_RISCV_ADD32, R_RISCV_ADD64} then old_value + relocation
      else if h_type h = R_RISCV_SUB6 then
        (old_value AND NOT (h_dst_mask h)) OR (((old_value AND h_dst_mask h) - relocation) AND h_dst_mask h)
      else if h_type h \<in> {R_RISCV_SUB8, R_RISCV_SUB16, R_RISCV_SUB32, R_RISCV_SUB64} then old_value - relocation
      else relocation)"

record reloc_entry =
  e_address :: nat
  e_addend :: u64
  e_howto :: reloc_howto

definition riscv_elf_add_sub_reloc ::
  "bool \<Rightarrow> bool \<Rightarrow> bool \<Rightarrow> nat \<Rightarrow> u64 \<Rightarrow> reloc_entry \<Rightarrow> u8 list \<Rightarrow> (reloc_status \<times> reloc_entry \<times> u8 list) run" where
  "riscv_elf_add_sub_reloc big relocatable section_sym output_offset symbol_address e contents =
     (if relocatable \<and> \<not> section_sym \<and> (\<not> h_partial_inplace (e_howto e) \<or> e_addend e = 0)
        then Inr (Reloc_ok, e\<lparr>e_address := e_address e + output_offset\<rparr>, contents)
      else if relocatable then Inr (Reloc_continue, e, contents)
      else if e_address e + h_size (e_howto e) > length contents then Inr (Reloc_outofrange, e, contents)
      else rbind (bfd_get big (h_bitsize (e_howto e)) contents (e_address e)) (\<lambda>old_value.
           rbind (bfd_put big (h_bitsize (e_howto e)) (add_sub_value (e_howto e) old_value (symbol_address + e_addend e))
                    contents (e_address e)) (\<lambda>c. Inr (Reloc_ok, e, c))))"

definition riscv_elf_ignore_reloc :: "bool \<Rightarrow> nat \<Rightarrow> reloc_entry \<Rightarrow> reloc_status \<times> reloc_entry" where
  "riscv_elf_ignore_reloc relocatable output_offset e =
     (Reloc_ok, if relocatable then e\<lparr>e_address := e_address e + output_offset\<rparr> else e)"

end
