(* ===== verification/Reloc_Props.thy ===== *)
theory Reloc_Props
  imports Riscv_Reloc
begin

text \<open>
  What a relocation does to an instruction: the immediate becomes the distance or the part of the address that the type asks
  for, the other bits of the instruction and the bytes around it stay, and a value that the format cannot hold is refused
  without a change.
\<close>

section \<open>Contents\<close>

lemma bit_le_word_high: "bit (le_word bs) i \<Longrightarrow> i < 8 * length bs"
proof (induction bs arbitrary: i)
  case (Cons b bs)
  show ?case
  proof (cases "bit b i")
    case True
    then show ?thesis using bit_imp_le_length [of b i] by simp
  next
    case False
    with Cons.prems have "8 \<le> i" "bit (le_word bs) (i - 8)" by (auto simp: bit_simps)
    with Cons.IH [of "i - 8"] show ?thesis by simp
  qed
qed simp

lemma take_bit_le_word: "length bs = n \<Longrightarrow> take_bit (8 * n) (le_word bs) = le_word bs"
  by (rule bit_eqI) (auto simp: bit_simps dest: bit_le_word_high)

lemma take_bit_diff_left: "take_bit n (take_bit n v - w) = take_bit n (v - w :: u64)"
proof -
  have "v = of_int (uint v)" "w = of_int (uint w)" by simp_all
  moreover have "take_bit n (take_bit n (of_int i) - of_int j) = take_bit n (of_int i - of_int j :: u64)" for i j
  proof -
    have "take_bit n (take_bit n (of_int i) - of_int j) = (of_int (take_bit n (take_bit n i - j)) :: u64)"
      by (simp only: take_bit_of_int of_int_diff flip: of_int_diff)
    also have "take_bit n (take_bit n i - j) = take_bit n (i - j)" by (simp add: take_bit_eq_mod mod_diff_left_eq)
    finally show ?thesis by (simp only: take_bit_of_int flip: of_int_diff)
  qed
  ultimately show ?thesis by metis
qed

lemma put_at_frame:
  assumes "put_at c off bs = Inr c'"
  shows "length c' = length c" "get_bytes c' off (length bs) = Inr bs"
    "\<And>o' n. o' + n \<le> off \<or> off + length bs \<le> o' \<Longrightarrow> get_bytes c' o' n = get_bytes c o' n"
proof -
  from assms have le: "off + length bs \<le> length c" and c': "c' = take off c @ bs @ drop (off + length bs) c"
    by (auto simp: put_at_def split: if_splits)
  show "length c' = length c" using le by (simp add: c')
  show "get_bytes c' off (length bs) = Inr bs" using le by (simp add: c' get_bytes_def)
  show "get_bytes c' o' n = get_bytes c o' n" if "o' + n \<le> off \<or> off + length bs \<le> o'" for o' n
  proof -
    have "take n (drop o' c') = take n (drop o' c)"
    proof (rule nth_equalityI)
      show "length (take n (drop o' c')) = length (take n (drop o' c))" using \<open>length c' = length c\<close> by simp
      show "take n (drop o' c') ! i = take n (drop o' c) ! i" if "i < length (take n (drop o' c'))" for i
        using that \<open>o' + n \<le> off \<or> off + length bs \<le> o'\<close> le by (auto simp: c' nth_append)
    qed
    then show ?thesis using le by (simp add: get_bytes_def c')
  qed
qed

lemma get_insn_put:
  assumes "bits \<in> {16, 32, 64}" "off + bits div 8 \<le> length c"
  shows "\<exists>c'. riscv_put_insn bits w c off = Inr c' \<and> length c' = length c \<and> riscv_get_insn bits c' off = Inr (take_bit bits w) \<and>
    (\<forall>o' n. o' + n \<le> off \<or> off + bits div 8 \<le> o' \<longrightarrow> get_bytes c' o' n = get_bytes c o' n)"
proof -
  let ?n = "bits div 8"
  let ?c = "take off c @ le_bytes ?n w @ drop (off + ?n) c"
  have put: "put_at c off (le_bytes ?n w) = Inr ?c" using assms(2) by (simp add: put_at_def)
  note f = put_at_frame [OF put]
  have "8 * ?n = bits" using assms(1) by auto
  with f(2) have "riscv_get_insn bits ?c off = Inr (take_bit bits w)"
    using assms(1) le_word_le_bytes_take_bit [of ?n w] by (simp add: riscv_get_insn_def)
  then show ?thesis using put f assms(1) by (auto simp: riscv_put_insn_def)
qed

lemma bfd_get_put:
  assumes "bits \<in> {8, 16, 32, 64}" "off + bits div 8 \<le> length c"
  shows "\<exists>c'. bfd_put big bits w c off = Inr c' \<and> length c' = length c \<and> bfd_get big bits c' off = Inr (take_bit bits w) \<and>
    (\<forall>o' n. o' + n \<le> off \<or> off + bits div 8 \<le> o' \<longrightarrow> get_bytes c' o' n = get_bytes c o' n)"
proof -
  let ?n = "bits div 8"
  let ?bs = "if big then rev (le_bytes ?n w) else le_bytes ?n w"
  let ?c = "take off c @ ?bs @ drop (off + ?n) c"
  have len: "length ?bs = ?n" by simp
  have put: "put_at c off ?bs = Inr ?c" using assms(2) by (simp add: put_at_def)
  note f = put_at_frame [OF put, unfolded len]
  have "8 * ?n = bits" using assms(1) by auto
  with f(2) have "bfd_get big bits ?c off = Inr (take_bit bits w)"
    using assms(1) le_word_le_bytes_take_bit [of ?n w] by (simp add: bfd_get_def)
  then show ?thesis using put f assms(1) by (auto simp: bfd_put_def Let_def)
qed

lemma get_insn_bits:
  assumes "riscv_get_insn bits c off = Inr w" shows "take_bit bits w = w"
proof -
  from assms have b: "bits \<in> {16, 32, 64}" and w: "off + bits div 8 \<le> length c" "w = le_word (take (bits div 8) (drop off c))"
    by (auto simp: riscv_get_insn_def get_bytes_def split: if_splits)
  have "8 * (bits div 8) = bits" using b by auto
  with take_bit_le_word [of "take (bits div 8) (drop off c)" "bits div 8"] w show ?thesis by (simp add: min_absorb1 le_diff_conv2 add.commute)
qed

section \<open>Patching an instruction\<close>

text \<open>What is left of a patched instruction: the field and the rest of the word, and nothing beside the word changes.\<close>

definition patched :: "nat \<Rightarrow> u64 \<Rightarrow> nat \<Rightarrow> u64 \<Rightarrow> u8 list \<Rightarrow> u8 list \<Rightarrow> bool" where
  "patched bits m off v c c' \<longleftrightarrow>
     length c' = length c \<and>
     (\<exists>w w'. riscv_get_insn bits c off = Inr w \<and> riscv_get_insn bits c' off = Inr w' \<and>
        w' AND m = v AND m \<and> w' AND NOT m = w AND NOT m) \<and>
     (\<forall>o' n. o' + n \<le> off \<or> off + bits div 8 \<le> o' \<longrightarrow> get_bytes c' o' n = get_bytes c o' n)"

lemma patch_insn:
  assumes "riscv_is_insn_reloc h" "h_bitsize h \<in> {16, 32, 64}" "take_bit (h_bitsize h) (h_dst_mask h) = h_dst_mask h"
    and "off + h_bitsize h div 8 \<le> length c"
  shows "\<exists>c'. patch big h off v c = Inr c' \<and> patched (h_bitsize h) (h_dst_mask h) off v c c'"
proof -
  let ?b = "h_bitsize h" and ?m = "h_dst_mask h"
  obtain w where w: "riscv_get_insn ?b c off = Inr w" using assms(2,4) by (auto simp: riscv_get_insn_def get_bytes_def)
  let ?w = "(w AND NOT ?m) OR (v AND ?m)"
  from get_insn_put [OF assms(2,4), of ?w] obtain c' where c': "riscv_put_insn ?b ?w c off = Inr c'" "length c' = length c"
    "riscv_get_insn ?b c' off = Inr (take_bit ?b ?w)"
    "\<forall>o' n. o' + n \<le> off \<or> off + ?b div 8 \<le> o' \<longrightarrow> get_bytes c' o' n = get_bytes c o' n" by blast
  have "take_bit ?b ?w = ?w"
  proof -
    have "take_bit ?b ?w = (take_bit ?b w AND NOT ?m) OR (v AND take_bit ?b ?m)"
      by (rule bit_eqI) (auto simp: bit_simps)
    then show ?thesis by (simp only: get_insn_bits [OF w] assms(3))
  qed
  moreover have "?w AND ?m = v AND ?m" "?w AND NOT ?m = w AND NOT ?m" by (auto simp: bit_eq_iff bit_simps)
  ultimately have "patched ?b ?m off v c c'" using c' w unfolding patched_def by metis
  moreover have "patch big h off v c = Inr c'" using assms(1) w c'(1) by (simp add: patch_def)
  ultimately show ?thesis by blast
qed

section \<open>Immediates\<close>

lemma relocated_field:
  assumes "field_codec enc ext m" "patched bits m off (enc d) c c'"
  shows "\<exists>w'. riscv_get_insn bits c' off = Inr w' \<and> ext w' = ext (enc d)"
proof -
  from assms(2) obtain w' where w': "riscv_get_insn bits c' off = Inr w'" "w' AND m = enc d AND m"
    unfolding patched_def by blast
  then have "ext w' = ext (enc d)" using field_codec.ext_local [OF assms(1)] by metis
  with w'(1) show ?thesis by blast
qed

lemmas codec_masks = dst_mask_def src_mask_def RV_X_def mask_eq_exp_minus_1

lemma jtype_facts:
  "dst_mask [(1, 10, 21), (11, 1, 20), (12, 8, 12), (20, 1, 31)] = ENCODE_JTYPE_IMM 0xffffffff"
  "VALID_JTYPE_IMM d \<longleftrightarrow> take_bit 1 d = 0 \<and> - (2 ^ 20) \<le> sint d \<and> sint d < 2 ^ 20"
  using jtype_imm.holds_iff [of 1 d] by (simp_all add: codec_masks ENCODE_JTYPE_IMM_def VALID_JTYPE_IMM_def)

lemma btype_facts:
  "dst_mask [(1, 4, 8), (5, 6, 25), (11, 1, 7), (12, 1, 31)] = ENCODE_BTYPE_IMM 0xffffffff"
  "VALID_BTYPE_IMM d \<longleftrightarrow> take_bit 1 d = 0 \<and> - (2 ^ 12) \<le> sint d \<and> sint d < 2 ^ 12"
  using btype_imm.holds_iff [of 1 d] by (simp_all add: codec_masks ENCODE_BTYPE_IMM_def VALID_BTYPE_IMM_def)

lemma cbtype_facts:
  "dst_mask [(1, 2, 3), (3, 2, 10), (5, 1, 2), (6, 2, 5), (8, 1, 12)] = ENCODE_CBTYPE_IMM 0xffffffff"
  "VALID_CBTYPE_IMM d \<longleftrightarrow> take_bit 1 d = 0 \<and> - (2 ^ 8) \<le> sint d \<and> sint d < 2 ^ 8"
  using cbtype_imm.holds_iff [of 1 d] by (simp_all add: codec_masks ENCODE_CBTYPE_IMM_def VALID_CBTYPE_IMM_def)

lemma cjtype_facts:
  "dst_mask [(1, 3, 3), (4, 1, 11), (5, 1, 2), (6, 1, 7), (7, 1, 6), (8, 2, 9), (10, 1, 8), (11, 1, 12)] = ENCODE_CJTYPE_IMM 0xffffffff"
  "VALID_CJTYPE_IMM d \<longleftrightarrow> take_bit 1 d = 0 \<and> - (2 ^ 11) \<le> sint d \<and> sint d < 2 ^ 11"
  using cjtype_imm.holds_iff [of 1 d] by (simp_all add: codec_masks ENCODE_CJTYPE_IMM_def VALID_CJTYPE_IMM_def)

lemma utype_facts:
  "dst_mask [(12, 20, 12)] = ENCODE_UTYPE_IMM 0xffffffff"
  "VALID_UTYPE_IMM d \<longleftrightarrow> take_bit 12 d = 0 \<and> - (2 ^ 31) \<le> sint d \<and> sint d < 2 ^ 31"
  using utype_imm.holds_iff [of 12 d] by (simp_all add: codec_masks ENCODE_UTYPE_IMM_def VALID_UTYPE_IMM_def)

lemma itype_facts: "dst_mask [(0, 12, 20)] = ENCODE_ITYPE_IMM 0xffffffff"
  by (simp add: codec_masks ENCODE_ITYPE_IMM_def)

section \<open>The tables\<close>

lemma howto_table_length: "length howto_table = R_RISCV_max" "length howto_table_internal = 6"
  by (simp_all add: howto_table_def howto_table_1_def howto_table_2_def howto_table_3_def howto_table_4_def howto_table_5_def
    howto_table_6_def howto_table_internal_def)

lemma HOWTO_fields:
  "h_type (HOWTO t rs sz bs pc bp ov sf n pin sm dm po) = t" "h_bitsize (HOWTO t rs sz bs pc bp ov sf n pin sm dm po) = bs"
  "h_pc_relative (HOWTO t rs sz bs pc bp ov sf n pin sm dm po) = pc" "h_dst_mask (HOWTO t rs sz bs pc bp ov sf n pin sm dm po) = dm"
  "h_name (HOWTO t rs sz bs pc bp ov sf n pin sm dm po) = Some n" "h_size (HOWTO t rs sz bs pc bp ov sf n pin sm dm po) = sz" "h_type (EMPTY_HOWTO t) = t" "h_name (EMPTY_HOWTO t) = None"
  by (simp_all add: HOWTO_def EMPTY_HOWTO_def)













text \<open>Width, program-counter relativity and mask of the relocations of instructions.\<close>

definition howto_shape :: "nat \<Rightarrow> nat \<Rightarrow> bool \<Rightarrow> u64 \<Rightarrow> bool" where
  "howto_shape r_type bits pc m \<longleftrightarrow>
     (\<exists>h. riscv_elf_rtype_to_howto r_type = Some h \<and> h_bitsize h = bits \<and> h_pc_relative h = pc \<and> h_dst_mask h = m)"

lemma howto_shapes:
  "howto_shape R_RISCV_BRANCH 32 True (ENCODE_BTYPE_IMM 0xffffffff)"
  "howto_shape R_RISCV_JAL 32 True (ENCODE_JTYPE_IMM 0xffffffff)"
  "howto_shape R_RISCV_RVC_BRANCH 16 True (ENCODE_CBTYPE_IMM 0xffffffff)"
  "howto_shape R_RISCV_RVC_JUMP 16 True (ENCODE_CJTYPE_IMM 0xffffffff)"
  "howto_shape R_RISCV_HI20 32 False (ENCODE_UTYPE_IMM 0xffffffff)"
  "howto_shape R_RISCV_LO12_I 32 False (ENCODE_ITYPE_IMM 0xffffffff)"
  "howto_shape R_RISCV_PCREL_HI20 32 True (ENCODE_UTYPE_IMM 0xffffffff)"
  "howto_shape R_RISCV_SUB_ULEB128 0 False 0"
  unfolding howto_shape_def riscv_elf_rtype_to_howto_def howto_table_length
  unfolding howto_table_def howto_table_1_def howto_table_2_def howto_table_3_def howto_table_4_def howto_table_5_def howto_table_6_def
  by (simp_all add: HOWTO_fields)

text \<open>The relocations of a difference and their width.\<close>

definition diff_format :: "nat \<Rightarrow> nat \<Rightarrow> nat \<Rightarrow> bool" where
  "diff_format add sub bits \<longleftrightarrow>
     (add, sub, bits) \<in> {(R_RISCV_ADD8, R_RISCV_SUB8, 8), (R_RISCV_ADD16, R_RISCV_SUB16, 16), (R_RISCV_ADD32, R_RISCV_SUB32, 32),
       (R_RISCV_ADD64, R_RISCV_SUB64, 64)}"

lemma diff_howtos:
  "list_all (\<lambda>(t, bits). \<exists>h. riscv_elf_rtype_to_howto t = Some h \<and> h_type h = t \<and> h_bitsize h = bits \<and> h_size h = bits div 8)
     [(R_RISCV_ADD8, 8), (R_RISCV_ADD16, 16), (R_RISCV_ADD32, 32), (R_RISCV_ADD64, 64),
      (R_RISCV_SUB8, 8), (R_RISCV_SUB16, 16), (R_RISCV_SUB32, 32), (R_RISCV_SUB64, 64)]"
  unfolding riscv_elf_rtype_to_howto_def howto_table_length
  unfolding howto_table_def howto_table_1_def howto_table_2_def howto_table_3_def howto_table_4_def howto_table_5_def howto_table_6_def
  by (simp add: HOWTO_fields)

lemma diff_shape:
  assumes "diff_format a s bits" "riscv_elf_rtype_to_howto a = Some ha" "riscv_elf_rtype_to_howto s = Some hs"
  shows "bits \<in> {8, 16, 32, 64}" "h_bitsize ha = bits" "h_bitsize hs = bits" "h_size ha = bits div 8" "h_size hs = bits div 8"
    "add_sub_value ha old r = old + r" "add_sub_value hs old r = old - r"
  using assms diff_howtos by (auto simp: diff_format_def add_sub_value_def)

section \<open>Branches and jumps\<close>

lemma insn_mask_reloc:
  assumes "h_bitsize h \<in> {16, 32}" "h_dst_mask h \<noteq> 0" "take_bit (h_bitsize h) (h_dst_mask h) = h_dst_mask h" "\<not> bit (h_dst_mask h) 0"
  shows "riscv_is_insn_reloc h"
proof -
  have "bit (NOT (h_dst_mask h OR push_bit (h_bitsize h) (- 1))) 0" using assms(1,4) by (auto simp: bit_simps)
  then show ?thesis using assms(1,2) by (auto simp: riscv_is_insn_reloc_def)
qed

lemma patch_field:
  assumes "h_bitsize h \<in> {16, 32}" "h_dst_mask h \<noteq> 0" "take_bit (h_bitsize h) (h_dst_mask h) = h_dst_mask h" "\<not> bit (h_dst_mask h) 0"
    and "off + h_bitsize h div 8 \<le> length c"
  shows "\<exists>c'. patch big h off v c = Inr c' \<and> patched (h_bitsize h) (h_dst_mask h) off v c c'"
  by (rule patch_insn [OF insn_mask_reloc [OF assms(1-4)] _ assms(3,5)]) (use assms(1) in auto)

text \<open>
  The four formats: relocation type, width, encoder, decoder and number of bits of the distance.
\<close>

definition branch_format :: "nat \<Rightarrow> nat \<Rightarrow> (u64 \<Rightarrow> u64) \<Rightarrow> (u64 \<Rightarrow> u64) \<Rightarrow> nat \<Rightarrow> bool" where
  "branch_format r_type bits enc ext reach \<longleftrightarrow>
     (r_type, bits, enc, ext, reach) \<in>
       {(R_RISCV_JAL, 32, ENCODE_JTYPE_IMM, EXTRACT_JTYPE_IMM, 20), (R_RISCV_BRANCH, 32, ENCODE_BTYPE_IMM, EXTRACT_BTYPE_IMM, 12),
        (R_RISCV_RVC_BRANCH, 16, ENCODE_CBTYPE_IMM, EXTRACT_CBTYPE_IMM, 8), (R_RISCV_RVC_JUMP, 16, ENCODE_CJTYPE_IMM, EXTRACT_CJTYPE_IMM, 11)}"

definition in_reach :: "nat \<Rightarrow> u64 \<Rightarrow> bool" where
  "in_reach reach d \<longleftrightarrow> take_bit 1 d = 0 \<and> - (2 ^ reach) \<le> sint d \<and> sint d < 2 ^ reach"

lemma branch_format_facts:
  assumes "branch_format r_type bits enc ext reach"
  shows "howto_shape r_type bits True (enc 0xffffffff)" "field_codec enc ext (enc 0xffffffff)"
    "reloc_field arch64 r_type d = (if in_reach reach d then Field (enc d) else Field_none Reloc_overflow)"
    "in_reach reach d \<Longrightarrow> ext (enc d) = d" "bits \<in> {16, 32}" "enc 0xffffffff \<noteq> 0"
    "take_bit bits (enc 0xffffffff) = enc 0xffffffff" "\<not> bit (enc 0xffffffff) 0"
proof -
  from assms consider "r_type = R_RISCV_JAL" "bits = 32" "enc = ENCODE_JTYPE_IMM" "ext = EXTRACT_JTYPE_IMM" "reach = 20"
    | "r_type = R_RISCV_BRANCH" "bits = 32" "enc = ENCODE_BTYPE_IMM" "ext = EXTRACT_BTYPE_IMM" "reach = 12"
    | "r_type = R_RISCV_RVC_BRANCH" "bits = 16" "enc = ENCODE_CBTYPE_IMM" "ext = EXTRACT_CBTYPE_IMM" "reach = 8"
    | "r_type = R_RISCV_RVC_JUMP" "bits = 16" "enc = ENCODE_CJTYPE_IMM" "ext = EXTRACT_CJTYPE_IMM" "reach = 11"
    by (auto simp: branch_format_def)
  then have "howto_shape r_type bits True (enc 0xffffffff) \<and> field_codec enc ext (enc 0xffffffff) \<and>
    reloc_field arch64 r_type d = (if in_reach reach d then Field (enc d) else Field_none Reloc_overflow) \<and>
    (in_reach reach d \<longrightarrow> ext (enc d) = d) \<and> bits \<in> {16, 32} \<and> enc 0xffffffff \<noteq> 0 \<and>
    take_bit bits (enc 0xffffffff) = enc 0xffffffff \<and> \<not> bit (enc 0xffffffff) 0"
  proof cases
    case 1
    then show ?thesis using howto_shapes(2) jtype_imm.field_codec_axioms jtype_facts
      by (simp add: reloc_field_def in_reach_def VALID_JTYPE_IMM_def) (simp add: ENCODE_JTYPE_IMM_def codec_masks take_bit_eq_mask)
  next
    case 2
    then show ?thesis using howto_shapes(1) btype_imm.field_codec_axioms btype_facts
      by (simp add: reloc_field_def in_reach_def VALID_BTYPE_IMM_def) (simp add: ENCODE_BTYPE_IMM_def codec_masks take_bit_eq_mask)
  next
    case 3
    then show ?thesis using howto_shapes(3) cbtype_imm.field_codec_axioms cbtype_facts
      by (simp add: reloc_field_def in_reach_def VALID_CBTYPE_IMM_def) (simp add: ENCODE_CBTYPE_IMM_def codec_masks take_bit_eq_mask)
  next
    case 4
    then show ?thesis using howto_shapes(4) cjtype_imm.field_codec_axioms cjtype_facts
      by (simp add: reloc_field_def in_reach_def VALID_CJTYPE_IMM_def) (simp add: ENCODE_CJTYPE_IMM_def codec_masks take_bit_eq_mask)
  qed
  then show "howto_shape r_type bits True (enc 0xffffffff)" "field_codec enc ext (enc 0xffffffff)"
    "reloc_field arch64 r_type d = (if in_reach reach d then Field (enc d) else Field_none Reloc_overflow)"
    "in_reach reach d \<Longrightarrow> ext (enc d) = d" "bits \<in> {16, 32}" "enc 0xffffffff \<noteq> 0"
    "take_bit bits (enc 0xffffffff) = enc 0xffffffff" "\<not> bit (enc 0xffffffff) 0" by blast+
qed

section \<open>Addresses in two parts\<close>

lemma signed_low_part: "signed_take_bit 11 (v :: u64) = take_bit 12 (v + 0x800) - 0x800"
proof -
  have "signed_take_bit 11 v = of_int (signed_take_bit 11 (sint v))"
    by (simp add: sint_signed_take_bit [symmetric])
  also have "signed_take_bit 11 (sint v) = take_bit 12 (sint v + 0x800) - 0x800"
    by (simp add: signed_take_bit_eq_take_bit_shift)
  also have "of_int (take_bit 12 (sint v + 0x800) - 0x800) = take_bit 12 (v + 0x800) - (0x800 :: u64)"
    by (simp add: take_bit_of_int [symmetric])
  finally show ?thesis .
qed

lemma itype_low: "EXTRACT_ITYPE_IMM (ENCODE_ITYPE_IMM v) = signed_take_bit 11 v"
proof -
  have "EXTRACT_ITYPE_IMM (ENCODE_ITYPE_IMM v) = signed_take_bit 11 (gather [(0, 12, 20)] (scatter [(0, 12, 20)] v))"
    by (simp add: itype_imm.ext_gather itype_imm.enc_scatter)
  also have "gather [(0, 12, 20)] (scatter [(0, 12, 20)] v) = v AND mask 12"
    using gather_scatter [OF itype_imm.ok] by (simp add: src_mask_def)
  finally show ?thesis by (simp add: take_bit_eq_mask [symmetric] signed_take_bit_take_bit)
qed

lemma high_low_parts: "RISCV_CONST_HIGH_PART v + EXTRACT_ITYPE_IMM (ENCODE_ITYPE_IMM v) = v"
proof -
  have "x AND NOT 0xfff = x - take_bit 12 x" for x :: u64
  proof -
    have "(0xfff :: u64) = mask 12" by (simp add: mask_eq_exp_minus_1)
    moreover have "(x AND NOT (mask 12)) + take_bit 12 x = (x AND NOT (mask 12)) OR take_bit 12 x"
      by (rule disjunctive_add) (auto simp: bit_simps)
    moreover have "(x AND NOT (mask 12)) OR take_bit 12 x = x" by (auto simp: bit_eq_iff bit_simps)
    ultimately show ?thesis by (simp add: algebra_simps)
  qed
  then show ?thesis by (simp add: RISCV_CONST_HIGH_PART_def itype_low signed_low_part)
qed

lemma high_part_low_bits: "take_bit 12 (RISCV_CONST_HIGH_PART v) = 0"
proof -
  have "(0xfff :: u64) = mask 12" by (simp add: mask_eq_exp_minus_1)
  then show ?thesis unfolding RISCV_CONST_HIGH_PART_def by (auto simp: bit_eq_iff bit_simps)
qed

section \<open>Variable-length numbers\<close>

lemma uleb_write_room: "0 < n \<Longrightarrow> snd (uleb_write n v) \<longleftrightarrow> drop_bit (7 * n) v = 0"
proof (induction n v rule: uleb_write.induct)
  case (2 n v)
  have e: "drop_bit (7 * Suc n) v = drop_bit (7 * n) (drop_bit 7 v)" by (simp add: ac_simps)
  show ?case
  proof (cases "drop_bit 7 v = 0")
    case True
    then show ?thesis unfolding e by simp
  next
    case False
    show ?thesis
    proof (cases "n = 0")
      case True
      with False show ?thesis by simp
    next
      case n: False
      with False 2(1) [OF refl refl False] show ?thesis
        unfolding e by (cases "uleb_write n (drop_bit 7 v)") (simp add: Let_def)
    qed
  qed
qed simp

text \<open>A number in exactly \<open>n\<close> bytes.\<close>

fun uleb_pad :: "nat \<Rightarrow> u64 \<Rightarrow> u8 list" where
  "uleb_pad 0 v = []"
| "uleb_pad (Suc n) v =
     (let c = ucast (v AND 0x7f) :: u8 in if n = 0 then [c] else (c OR 0x80) # uleb_pad n (drop_bit 7 v))"

lemma length_uleb_pad [simp]: "length (uleb_pad n v) = n"
  by (induction n v rule: uleb_pad.induct) (auto simp: Let_def)

lemma uleb_pad_zero: "uleb_pad (Suc n) 0 = replicate n 0x80 @ [0]"
  by (induction n) simp_all

lemma length_uleb_write: "length (fst (uleb_write n v)) \<le> n"
  by (induction n v rule: uleb_write.induct) (auto simp: Let_def split: prod.splits)

lemma uleb_write_pad:
  assumes "uleb_write n v = (bs, True)"
  shows "(if length bs < n then butlast bs @ [last bs OR 0x80] else bs) @ drop (length bs) (replicate (n - 1) 0x80 @ [0]) = uleb_pad n v"
  using assms
proof (induction n v arbitrary: bs rule: uleb_write.induct)
  case (2 n v)
  let ?c = "ucast (v AND 0x7f) :: u8"
  show ?case
  proof (cases "drop_bit 7 v = 0")
    case True
    with 2(2) have "bs = [?c]" by simp
    moreover have "uleb_pad n (drop_bit 7 v) = replicate (n - 1) 0x80 @ [0]" if "n \<noteq> 0"
      using that True uleb_pad_zero [of "n - 1"] by simp
    ultimately show ?thesis by (cases n) (simp_all only: uleb_pad.simps Let_def, simp_all)
  next
    case False
    with 2(2) obtain bs' where b: "uleb_write n (drop_bit 7 v) = (bs', True)" "bs = (?c OR 0x80) # bs'"
      by (auto simp: Let_def split: prod.splits)
    from b(1) obtain m where n: "n = Suc m" by (cases n) auto
    from b(1) have ne: "bs' \<noteq> []" by (auto simp: n Let_def split: if_splits prod.splits)
    have "length bs' \<le> n" using length_uleb_write [of n "drop_bit 7 v"] b(1) by simp
    with 2(1) [OF refl refl False b(1)] ne show ?thesis by (cases m) (auto simp: b(2) n Let_def le_Suc_eq)
  qed
qed simp

lemma bit_0x80: "bit (0x80 :: u8) n \<longleftrightarrow> n = 7"
  using bit_exp_iff [where 'a = "8 word", of 7 n] by auto

lemma low_seven_bits:
  assumes "\<And>n. bit (k :: u8) n \<longleftrightarrow> n = 7"
  shows "ucast (ucast (v AND mask 7 :: u64) :: u8) AND mask 7 = (v AND mask 7 :: u64)"
    "ucast ((ucast (v AND mask 7 :: u64) :: u8) OR k) AND mask 7 = (v AND mask 7 :: u64)"
    "(ucast (v AND mask 7 :: u64) :: u8) AND k = 0" "((ucast (v AND mask 7 :: u64) :: u8) OR k) AND k = k"
  by (rule bit_eqI, auto simp: bit_simps assms)+

lemma mask_7: "(mask 7 :: u64) = 0x7f"
  by (simp add: mask_eq_exp_minus_1)

lemmas low_seven = low_seven_bits [OF bit_0x80, unfolded mask_7]

lemma uleb_read_pad:
  assumes "0 < n" "drop_bit (7 * n) v = 0"
  shows "uleb_read s (uleb_pad n v @ rest) = Inr (if s < 64 then push_bit s v else 0, n)"
  using assms
proof (induction n v arbitrary: s rule: uleb_pad.induct)
  case (2 n v)
  have m: "(0x7f :: u64) = mask 7" by (simp add: mask_eq_exp_minus_1)
  show ?case
  proof (cases "n = 0")
    case True
    then have v: "v AND 0x7f = v"
      using 2(3) unfolding m by (metis mult.right_neutral One_nat_def take_bit_eq_mask take_bit_eq_self_iff_drop_bit_eq_0)
    have "ucast (ucast v :: u8) AND 0x7f = v" "(ucast v :: u8) AND 0x80 = 0" using low_seven(1,3) [of v] v by simp_all
    with True v show ?thesis by (simp del: push_bit_and)
  next
    case False
    have "drop_bit (7 * n) (drop_bit 7 v) = 0" using 2(3) by (simp add: ac_simps)
    with False 2(1) have IH: "uleb_read s' (uleb_pad n (drop_bit 7 v) @ rest) = Inr (if s' < 64 then push_bit s' (drop_bit 7 v) else 0, n)" for s'
      by simp
    have "push_bit s (v AND 0x7f) OR (if s + 7 < 64 then push_bit (s + 7) (drop_bit 7 v) else 0) = push_bit s v"
    proof (rule bit_eqI)
      fix i
      have "7 + (i - (s + 7)) = i - s" if "\<not> i - s < 7" using that by arith
      then show "bit (push_bit s (v AND 0x7f) OR (if s + 7 < 64 then push_bit (s + 7) (drop_bit 7 v) else 0)) i \<longleftrightarrow> bit (push_bit s v) i"
        unfolding m by (cases "i - s < 7") (auto simp: bit_simps)
    qed
    with False show ?thesis by (cases "s + 7 < 64") (simp_all add: IH low_seven Let_def del: push_bit_and)
  qed
qed simp

lemma uleb_read_pos: "uleb_read s bs = Inr (v, n) \<Longrightarrow> 0 < n"
  by (cases bs) (auto simp: Let_def rbind_Inr_iff split: if_splits)

lemma uleb_read_length: "uleb_read s bs = Inr (v, n) \<Longrightarrow> n \<le> length bs"
  by (induction s bs arbitrary: v n rule: uleb_read.induct) (fastforce simp: Let_def rbind_Inr_iff split: if_splits)+

lemma put_at_cover:
  assumes "put_at c off xs = Inr c1" "put_at c1 off ys = Inr c2" "length ys \<le> length xs"
  shows "c2 = take off c @ ys @ drop (length ys) xs @ drop (off + length xs) c"
    "off + length xs \<le> length c"
  using assms by (auto simp: put_at_def split: if_splits)

text \<open>Clearing the bytes of a number and writing another over them gives the padded number.\<close>

lemma uleb_patched:
  assumes "put_at c off (replicate (len - 1) 0x80 @ [0]) = Inr c1" "uleb_write len value = (bs, True)"
    and "put_at c1 off (if length bs < len then butlast bs @ [last bs OR 0x80] else bs) = Inr c'" "0 < len"
  shows "put_at c off (uleb_pad len value) = Inr c'"
proof -
  have l: "length bs \<le> len" using length_uleb_write [of len "value"] assms(2) by simp
  have ne: "bs \<noteq> []" using assms(2,4) by (cases len) (auto simp: Let_def split: if_splits prod.splits)
  let ?ys = "if length bs < len then butlast bs @ [last bs OR 0x80] else bs"
  have ly: "length ?ys = length bs" using ne by (cases bs rule: rev_cases) auto
  have lx: "length (replicate (len - 1) (0x80 :: u8) @ [0]) = len" using assms(4) by simp
  have "length ?ys \<le> length (replicate (len - 1) (0x80 :: u8) @ [0])" unfolding lx ly by (rule l)
  note p = put_at_cover [OF assms(1,3) this, unfolded lx ly]
  have "c' = take off c @ (?ys @ drop (length bs) (replicate (len - 1) 0x80 @ [0])) @ drop (off + len) c"
    unfolding p(1) by (simp only: append_assoc)
  then have "c' = take off c @ uleb_pad len value @ drop (off + len) c" unfolding uleb_write_pad [OF assms(2)] .
  then show ?thesis using p(2) by (simp add: put_at_def)
qed

section \<open>Properties\<close>


text \<open>
  C16. A branch or jump, compressed or not, reaches its target: when the distance from the instruction to the target with the addend
  is even and within the range of the format, the relocation puts exactly this distance into the instruction, and changes neither
  the other bits of the instruction nor any byte beside it; otherwise it reports an overflow and changes nothing.
\<close>

theorem branch_relocation:
  assumes "branch_format r_type bits enc ext reach" "riscv_elf_rtype_to_howto r_type = Some h" "off + bits div 8 \<le> length c"
    and "d = target - (sec + of_nat off) + addend"
  shows "if in_reach reach d
    then \<exists>c' w'. perform_relocation arch64 big h r_type off addend target sec c = Inr (Reloc_ok, c') \<and>
      riscv_get_insn bits c' off = Inr w' \<and> ext w' = d \<and> patched bits (enc 0xffffffff) off (enc d) c c'
    else perform_relocation arch64 big h r_type off addend target sec c = Inr (Reloc_overflow, c)"
proof -
  note f = branch_format_facts [OF assms(1)]
  from f(1) assms(2) have h: "h_bitsize h = bits" "h_pc_relative h" "h_dst_mask h = enc 0xffffffff"
    by (auto simp: howto_shape_def)
  have ty: "r_type \<noteq> R_RISCV_SUB_ULEB128" using assms(1) by (auto simp: branch_format_def)
  show ?thesis
  proof (cases "in_reach reach d")
    case False
    then show ?thesis using h(2) ty by (simp add: perform_relocation_def f(3) assms(4) [symmetric])
  next
    case True
    from patch_field [of h off c big "enc d"] f(5-8) h assms(3) obtain c' where
      c': "patch big h off (enc d) c = Inr c'" "patched bits (enc 0xffffffff) off (enc d) c c'" by auto
    with relocated_field [OF f(2) c'(2)] f(4) [OF True] True h(2) ty show ?thesis
      by (simp add: perform_relocation_def f(3) assms(4) [symmetric])
  qed
qed

theorem branch_relocation_witness:
  "\<exists>h c' w'. riscv_elf_rtype_to_howto R_RISCV_BRANCH = Some h \<and>
     perform_relocation True False h R_RISCV_BRANCH 0 0 0x1010 0x1000 [0x63, 0, 0, 0] = Inr (Reloc_ok, c') \<and>
     riscv_get_insn 32 c' 0 = Inr w' \<and> EXTRACT_BTYPE_IMM w' = 0x10"
proof -
  obtain h where h: "riscv_elf_rtype_to_howto R_RISCV_BRANCH = Some h" using howto_shapes(1) by (auto simp: howto_shape_def)
  have "branch_format R_RISCV_BRANCH 32 ENCODE_BTYPE_IMM EXTRACT_BTYPE_IMM 12" by (simp add: branch_format_def)
  moreover have "in_reach 12 0x10" by (simp add: in_reach_def take_bit_eq_mask mask_eq_exp_minus_1)
  ultimately show ?thesis using branch_relocation [of R_RISCV_BRANCH 32 ENCODE_BTYPE_IMM EXTRACT_BTYPE_IMM 12 h 0 "[0x63, 0, 0, 0]"
      "0x10" "0x1010" "0x1000" 0 True False] h by auto
qed

text \<open>
  C15. An address loaded in two parts is whole again: when the rounded high part of the value with its addend is a signed 32-bit
  number, the high part goes into a \<^verbatim>\<open>lui\<close>, the low part into the immediate of an instruction elsewhere, and the sum of the two
  immediates, as the processor extends them, is the value with its addend. Otherwise the first relocation overflows and changes
  nothing.
\<close>

theorem address_in_two_parts:
  assumes "riscv_elf_rtype_to_howto R_RISCV_HI20 = Some hh" "riscv_elf_rtype_to_howto R_RISCV_LO12_I = Some hl"
    and "off + 4 \<le> length c" "off' + 4 \<le> length c" "off + 4 \<le> off' \<or> off' + 4 \<le> off"
  shows "if - (2 ^ 31) \<le> sint (RISCV_CONST_HIGH_PART (value + addend)) \<and> sint (RISCV_CONST_HIGH_PART (value + addend)) < 2 ^ 31
    then \<exists>c1 c2 w w'. perform_relocation True big hh R_RISCV_HI20 off addend value sec c = Inr (Reloc_ok, c1) \<and>
      perform_relocation True big hl R_RISCV_LO12_I off' addend value sec c1 = Inr (Reloc_ok, c2) \<and>
      riscv_get_insn 32 c2 off = Inr w \<and> riscv_get_insn 32 c2 off' = Inr w' \<and>
      EXTRACT_UTYPE_IMM w + EXTRACT_ITYPE_IMM w' = value + addend
    else perform_relocation True big hh R_RISCV_HI20 off addend value sec c = Inr (Reloc_overflow, c)"
proof -
  let ?v = "value + addend" and ?U = "ENCODE_UTYPE_IMM 0xffffffff" and ?I = "ENCODE_ITYPE_IMM 0xffffffff"
  let ?H = "RISCV_CONST_HIGH_PART (value + addend)"
  have h: "h_bitsize hh = 32" "\<not> h_pc_relative hh" "h_dst_mask hh = ?U" "h_bitsize hl = 32" "\<not> h_pc_relative hl" "h_dst_mask hl = ?I"
    using howto_shapes(5,6) assms(1,2) by (auto simp: howto_shape_def)
  have masks: "?U = 0xfffff000" "?I = 0xfff00000" by (simp_all add: ENCODE_UTYPE_IMM_def ENCODE_ITYPE_IMM_def codec_masks)
  have fits: "VALID_UTYPE_IMM ?H \<longleftrightarrow> - (2 ^ 31) \<le> sint ?H \<and> sint ?H < 2 ^ 31" by (simp add: utype_facts(2) high_part_low_bits)
  show ?thesis
  proof (cases "VALID_UTYPE_IMM ?H")
    case False
    then show ?thesis using h(2) unfolding fits [symmetric] by (simp add: perform_relocation_def reloc_field_def upper_field_def)
  next
    case True
    obtain c1 where p1: "patch big hh off (ENCODE_UTYPE_IMM ?H) c = Inr c1" and c1: "patched 32 ?U off (ENCODE_UTYPE_IMM ?H) c c1"
      using patch_field [of hh off c big "ENCODE_UTYPE_IMM ?H"] assms(3) by (auto simp: h masks take_bit_eq_mask mask_eq_exp_minus_1)
    then have "length c1 = length c" by (simp add: patched_def)
    with patch_field [of hl off' c1 big "ENCODE_ITYPE_IMM ?v"] assms(4) obtain c2 where
      p2: "patch big hl off' (ENCODE_ITYPE_IMM ?v) c1 = Inr c2" and c2: "patched 32 ?I off' (ENCODE_ITYPE_IMM ?v) c1 c2"
      by (auto simp: h masks take_bit_eq_mask mask_eq_exp_minus_1)
    from relocated_field [OF utype_imm.field_codec_axioms [unfolded utype_facts(1)] c1] True obtain w where
      w: "riscv_get_insn 32 c1 off = Inr w" "EXTRACT_UTYPE_IMM w = ?H" by (auto simp: VALID_UTYPE_IMM_def)
    from relocated_field [OF itype_imm.field_codec_axioms [unfolded itype_facts(1)] c2] obtain w' where
      w': "riscv_get_insn 32 c2 off' = Inr w'" "EXTRACT_ITYPE_IMM w' = EXTRACT_ITYPE_IMM (ENCODE_ITYPE_IMM ?v)" by blast
    have "get_bytes c2 off 4 = get_bytes c1 off 4" using c2 assms(5) by (auto simp: patched_def)
    with w(1) have "riscv_get_insn 32 c2 off = Inr w" by (simp add: riscv_get_insn_def)
    moreover have "perform_relocation True big hh R_RISCV_HI20 off addend value sec c = Inr (Reloc_ok, c1)"
      using p1 h(2) True by (simp add: perform_relocation_def reloc_field_def upper_field_def)
    moreover have "perform_relocation True big hl R_RISCV_LO12_I off' addend value sec c1 = Inr (Reloc_ok, c2)"
      using p2 h(5) by (simp add: perform_relocation_def reloc_field_def)
    moreover have "EXTRACT_UTYPE_IMM w + EXTRACT_ITYPE_IMM w' = ?v" by (simp add: w(2) w'(2) high_low_parts)
    ultimately show ?thesis using w'(1) True unfolding fits by auto
  qed
qed

theorem address_in_two_parts_witness:
  "\<exists>hh hl c1 c2 w w'. perform_relocation True False hh R_RISCV_HI20 0 0 0x12345fff 0 [0x37, 5, 0, 0, 0x13, 5, 5, 0] = Inr (Reloc_ok, c1) \<and>
     perform_relocation True False hl R_RISCV_LO12_I 4 0 0x12345fff 0 c1 = Inr (Reloc_ok, c2) \<and>
     riscv_get_insn 32 c2 0 = Inr w \<and> riscv_get_insn 32 c2 4 = Inr w' \<and>
     EXTRACT_UTYPE_IMM w + EXTRACT_ITYPE_IMM w' = 0x12345fff"
proof -
  obtain hh hl where h: "riscv_elf_rtype_to_howto R_RISCV_HI20 = Some hh" "riscv_elf_rtype_to_howto R_RISCV_LO12_I = Some hl"
    using howto_shapes(5,6) by (auto simp: howto_shape_def)
  have "RISCV_CONST_HIGH_PART (0x12345fff + 0) = 0x12346000" by (simp add: RISCV_CONST_HIGH_PART_def)
  with address_in_two_parts [OF h, of 0 "[0x37, 5, 0, 0, 0x13, 5, 5, 0]" 4 "0x12345fff" 0 False 0] show ?thesis by fastforce
qed

text \<open>
  C37. A variable-length difference is read back: when the relocation succeeds, reading the number at its offset gives exactly the
  difference, in as many bytes as the number had before, and the bytes around it are as they were.
\<close>

theorem uleb_difference_is_read_back:
  assumes "perform_relocation arch64 big h R_RISCV_SUB_ULEB128 off addend value sec c = Inr (Reloc_ok, c')"
    and "\<not> h_pc_relative h" "uleb_read 0 (drop off c) = Inr (old, len)"
  shows "length c' = length c \<and> uleb_read 0 (drop off c') = Inr (value, len) \<and>
    (\<forall>o' n. o' + n \<le> off \<or> off + len \<le> o' \<longrightarrow> get_bytes c' o' n = get_bytes c o' n)"
proof -
  have field: "reloc_field arch64 R_RISCV_SUB_ULEB128 value = Field_uleb" by (simp add: reloc_field_def)
  have "patch_uleb off value c = Inr (Reloc_ok, c')" using assms(1,2) by (simp add: perform_relocation_def field)
  with assms(3) obtain c1 bs where c1: "put_at c off (replicate (len - 1) 0x80 @ [0]) = Inr c1"
    and bs: "uleb_write len value = (bs, True)"
    and c2: "put_at c1 off (if length bs < len then butlast bs @ [last bs OR 0x80] else bs) = Inr c'"
    by (auto simp: patch_uleb_def rbind_Inr_iff Let_def split: if_splits prod.splits)
  have pos: "0 < len" by (rule uleb_read_pos [OF assms(3)])
  note p = put_at_frame [OF uleb_patched [OF c1 bs c2 pos], simplified]
  have le: "off + len \<le> length c'" using p(2) by (auto simp: get_bytes_def split: if_splits)
  with p(2) obtain rest where rest: "drop off c' = uleb_pad len value @ rest"
    by (metis append_take_drop_id get_bytes_def sum.inject(2))
  have "drop_bit (7 * len) value = 0" using uleb_write_room [OF pos, of "value"] bs by simp
  with pos have "uleb_read 0 (drop off c') = Inr (value, len)" unfolding rest by (simp add: uleb_read_pad)
  with p show ?thesis by blast
qed

theorem uleb_difference_is_read_back_witness:
  "\<exists>h c'. riscv_elf_rtype_to_howto R_RISCV_SUB_ULEB128 = Some h \<and>
     perform_relocation True False h R_RISCV_SUB_ULEB128 1 0 0x1f4 0x1000 [7, 0x80, 0x80, 0, 9] = Inr (Reloc_ok, c') \<and>
     uleb_read 0 (drop 1 c') = Inr (0x1f4, 3)"
proof -
  obtain h where h: "riscv_elf_rtype_to_howto R_RISCV_SUB_ULEB128 = Some h" "\<not> h_pc_relative h"
    using howto_shapes(8) by (auto simp: howto_shape_def)
  have len: "uleb_new_len 0x1f4 = 2" by (simp add: uleb_new_len.simps Let_def)
  have field: "reloc_field True R_RISCV_SUB_ULEB128 0x1f4 = Field_uleb" by (simp add: reloc_field_def)
  have old: "uleb_read 0 (drop 1 [7, 0x80, 0x80, 0, 9]) = Inr (0, 3)" by simp
  have "uleb_write (Suc (Suc (Suc 0))) 0x1f4 = ([0xf4, 3], True)" by (simp add: Let_def)
  then have w: "uleb_write 3 0x1f4 = ([0xf4, 3], True)" by (simp add: numeral_3_eq_3)
  have uleb: "patch_uleb 1 0x1f4 [7, 0x80, 0x80, 0, 9] = Inr (Reloc_ok, [7, 0xf4, 0x83, 0, 9])"
    unfolding patch_uleb_def old by (simp add: len w put_at_def)
  have "perform_relocation True False h R_RISCV_SUB_ULEB128 1 0 0x1f4 0x1000 [7, 0x80, 0x80, 0, 9] = Inr (Reloc_ok, [7, 0xf4, 0x83, 0, 9])"
    using h(2) by (simp add: perform_relocation_def field uleb del: One_nat_def)
  with uleb_difference_is_read_back [OF this h(2) old] h(1) show ?thesis by blast
qed

text \<open>
  A difference that needs more than the bytes of the number while its low 32 bits do not is not refused: the check of the
  length looks at the low 32 bits only, and the code goes on with the null pointer that the writing of the number returned.
\<close>

theorem uleb_check_misses_wide_difference:
  assumes "\<not> h_pc_relative h" "uleb_read 0 (drop off c) = Inr (old, len)" "uleb_new_len (ucast value) \<le> len"
    and "drop_bit (7 * len) value \<noteq> 0"
  shows "perform_relocation arch64 big h R_RISCV_SUB_ULEB128 off addend value sec c = Inl Assert_failed"
proof -
  have field: "reloc_field arch64 R_RISCV_SUB_ULEB128 value = Field_uleb" by (simp add: reloc_field_def)
  have pos: "0 < len" by (rule uleb_read_pos [OF assms(2)])
  have "len \<le> length (drop off c)" by (rule uleb_read_length [OF assms(2)])
  then have "off + len \<le> length c" using pos by simp
  with pos have "\<exists>c1. put_at c off (replicate (len - 1) 0x80 @ [0]) = Inr c1" by (simp add: put_at_def)
  moreover have "\<exists>bs. uleb_write len value = (bs, False)"
    using uleb_write_room [OF pos, of "value"] assms(4) by (cases "uleb_write len value") auto
  ultimately show ?thesis using assms(1-3) by (auto simp: perform_relocation_def field patch_uleb_def)
qed

theorem uleb_check_misses_wide_difference_witness:
  "\<exists>h. riscv_elf_rtype_to_howto R_RISCV_SUB_ULEB128 = Some h \<and>
     perform_relocation True False h R_RISCV_SUB_ULEB128 0 0 0x100000001 0 [0x80, 0] = Inl Assert_failed"
proof -
  obtain h where h: "riscv_elf_rtype_to_howto R_RISCV_SUB_ULEB128 = Some h" "\<not> h_pc_relative h"
    using howto_shapes(8) by (auto simp: howto_shape_def)
  have "uleb_new_len (ucast (0x100000001 :: u64)) \<le> 2" by (simp add: uleb_new_len.simps Let_def)
  with uleb_check_misses_wide_difference [of h 0 "[0x80, 0]" 0 2 "0x100000001" True False 0 0] h show ?thesis by simp
qed

text \<open>
  C38. The pair of relocations of a difference leaves the difference: adding the first symbol and subtracting the second, each with
  its addend, turns the number in the section into itself plus the difference, cut to the width of the relocation, in either byte
  order, and changes nothing beside it.
\<close>

theorem difference_relocations:
  assumes "diff_format a s bits" "riscv_elf_rtype_to_howto a = Some ha" "riscv_elf_rtype_to_howto s = Some hs"
    and "off + bits div 8 \<le> length c" "bfd_get big bits c off = Inr old"
  shows "\<exists>c1 c2. riscv_elf_add_sub_reloc big False sec 0 x \<lparr>e_address = off, e_addend = ax, e_howto = ha\<rparr> c =
      Inr (Reloc_ok, \<lparr>e_address = off, e_addend = ax, e_howto = ha\<rparr>, c1) \<and>
    riscv_elf_add_sub_reloc big False sec' 0 y \<lparr>e_address = off, e_addend = ay, e_howto = hs\<rparr> c1 =
      Inr (Reloc_ok, \<lparr>e_address = off, e_addend = ay, e_howto = hs\<rparr>, c2) \<and>
    bfd_get big bits c2 off = Inr (take_bit bits (old + ((x + ax) - (y + ay)))) \<and>
    (\<forall>o' n. o' + n \<le> off \<or> off + bits div 8 \<le> o' \<longrightarrow> get_bytes c2 o' n = get_bytes c o' n)"
proof -
  note d = diff_shape [OF assms(1-3)]
  let ?v = "old + (x + ax)" and ?w = "take_bit bits (old + (x + ax)) - (y + ay)"
  from bfd_get_put [OF d(1) assms(4), of big ?v] obtain c1 where c1: "bfd_put big bits ?v c off = Inr c1" "length c1 = length c"
    "bfd_get big bits c1 off = Inr (take_bit bits ?v)"
    "\<And>o' n. o' + n \<le> off \<or> off + bits div 8 \<le> o' \<Longrightarrow> get_bytes c1 o' n = get_bytes c o' n" by blast
  from bfd_get_put [OF d(1), of off c1 big ?w] assms(4) c1(2) obtain c2 where c2: "bfd_put big bits ?w c1 off = Inr c2"
    "bfd_get big bits c2 off = Inr (take_bit bits ?w)"
    "\<And>o' n. o' + n \<le> off \<or> off + bits div 8 \<le> o' \<Longrightarrow> get_bytes c2 o' n = get_bytes c1 o' n" by auto
  have "take_bit bits ?w = take_bit bits (old + ((x + ax) - (y + ay)))"
    by (simp add: take_bit_diff_left add_diff_eq)
  with c1 c2 assms(4,5) d show ?thesis
    by (intro exI [of _ c1] exI [of _ c2]) (auto simp: riscv_elf_add_sub_reloc_def)
qed

theorem difference_relocations_witness:
  "\<exists>ha hs c1 c2. riscv_elf_rtype_to_howto R_RISCV_ADD16 = Some ha \<and> riscv_elf_rtype_to_howto R_RISCV_SUB16 = Some hs \<and>
     riscv_elf_add_sub_reloc True False False 0 0x2010 \<lparr>e_address = 0, e_addend = 4, e_howto = ha\<rparr> [0, 1] =
       Inr (Reloc_ok, \<lparr>e_address = 0, e_addend = 4, e_howto = ha\<rparr>, c1) \<and>
     riscv_elf_add_sub_reloc True False False 0 0x2000 \<lparr>e_address = 0, e_addend = 0, e_howto = hs\<rparr> c1 =
       Inr (Reloc_ok, \<lparr>e_address = 0, e_addend = 0, e_howto = hs\<rparr>, c2) \<and>
     bfd_get True 16 c2 0 = Inr 0x15"
proof -
  obtain ha hs where h: "riscv_elf_rtype_to_howto R_RISCV_ADD16 = Some ha" "riscv_elf_rtype_to_howto R_RISCV_SUB16 = Some hs"
    using diff_howtos by auto
  have "bfd_get True 16 [0, 1] 0 = Inr 1" by (simp add: bfd_get_def get_bytes_def)
  moreover have "diff_format R_RISCV_ADD16 R_RISCV_SUB16 16" by (simp add: diff_format_def)
  moreover have "take_bit 16 (0x15 :: u64) = 0x15" by (simp add: take_bit_eq_mask mask_eq_exp_minus_1)
  ultimately show ?thesis
    using difference_relocations [OF _ h, of 16 0 "[0, 1]" True 1 False "0x2010" 4 False "0x2000" 0] h by fastforce
qed

end
