(* ===== verification/Gas_Macro.thy ===== *)
theory Gas_Macro
  imports Gas_Assemble Riscv_Howto Imc_Ops
begin

text \<open>
  The macro instructions of the assembler (\<^verbatim>\<open>macro\<close> of \<^verbatim>\<open>gas/config/tc-riscv.c\<close> and the functions it calls): constants of any width,
  addresses, calls, extensions and the vector comparison that has no instruction of its own.

  An expansion is the list of what it emits, in order: lines of text for the instruction parser, instructions that are built
  from the table with their relocation, and error messages. The flag that marks the running macro is not part of the model.
\<close>

section \<open>Expressions\<close>

datatype (plugins only: code) operatorT =
    O_illegal | O_absent | O_constant | O_symbol | O_symbol_rva | O_secidx | O_register | O_big | O_uminus | O_bit_not
  | O_logical_not | O_multiply | O_divide | O_modulus | O_left_shift | O_right_shift | O_bit_inclusive_or | O_bit_or_not
  | O_bit_exclusive_or | O_bit_and | O_add | O_subtract | O_eq | O_ne | O_lt | O_le | O_ge | O_gt | O_logical_and | O_logical_or
  | O_index | O_md nat

text \<open>A symbol of the program, or the label that an expansion makes at its own start.\<close>

datatype asm_symbol = Named string | Internal_label

record expressionS =
  X_add_symbol :: "asm_symbol option"
  X_add_number :: u64
  X_op :: operatorT

definition IS_SEXT_32BIT_NUM :: "u64 \<Rightarrow> bool" where
  "IS_SEXT_32BIT_NUM x \<longleftrightarrow> x AND NOT 0x7fffffff = 0 \<or> x AND NOT 0x7fffffff = NOT 0x7fffffff"

definition IS_ZEXT_32BIT_NUM :: "u64 \<Rightarrow> bool" where
  "IS_ZEXT_32BIT_NUM x \<longleftrightarrow> x AND NOT 0xffffffff = 0 \<or> x AND NOT 0xffffffff = NOT 0xffffffff"

definition normalize_constant_expr :: "nat \<Rightarrow> expressionS \<Rightarrow> expressionS" where
  "normalize_constant_expr xlen ex =
     (if xlen > 32 then ex
      else if (X_op ex = O_constant \<or> X_op ex = O_symbol) \<and> IS_ZEXT_32BIT_NUM (X_add_number ex)
        then ex\<lparr>X_add_number := ((X_add_number ex AND 0xffffffff) XOR 0x80000000) - 0x80000000\<rparr>
      else ex)"

section \<open>What an expansion emits\<close>

datatype asm_line =
    Asm_shift string nat nat nat
  | Asm_add string nat nat u64
  | Asm_lui nat u64

datatype emitted =
    Em_line asm_line
  | Em_insn insn_t "bfd_reloc option" "expressionS option"
  | Em_error string

definition eseq :: "emitted list run \<Rightarrow> emitted list run \<Rightarrow> emitted list run" where
  "eseq a b = rbind a (\<lambda>x. rbind b (\<lambda>y. Inr (x @ y)))"

section \<open>Instructions from the table\<close>

text \<open>The variable arguments: numbers and relocation codes.\<close>

datatype macro_arg = Ma_int int | Ma_reloc bfd_reloc

definition macro_vector :: "char \<Rightarrow> insn_t \<Rightarrow> int \<Rightarrow> insn_t run" where
  "macro_vector d w v =
     (if d = CHR ''d'' then Inr (INSERT_OPERAND OP_VD w (nat v))
      else if d = CHR ''s'' then Inr (INSERT_OPERAND OP_VS1 w (nat v))
      else if d = CHR ''t'' then Inr (INSERT_OPERAND OP_VS2 w (nat v))
      else if d = CHR ''m'' then
        (if v = -1 then Inr (INSERT_OPERAND OP_VMASK w 1) else if v = 0 then Inr (INSERT_OPERAND OP_VMASK w 0) else Inl Panic)
      else Inl Panic)"

text \<open>The operand format; an argument of the wrong kind or too few of them is a read outside the arguments.\<close>

fun macro_format :: "bool \<Rightarrow> string \<Rightarrow> macro_arg list \<Rightarrow> insn_t \<Rightarrow> bfd_reloc option \<Rightarrow> (insn_t \<times> bfd_reloc option) run" where
  "macro_format has_ep [] as w r = Inr (w, r)"
| "macro_format has_ep (c # cs) as w r =
     (if c = CHR ''V'' then
        (case cs of
           [] \<Rightarrow> Inl Panic
         | d # ds \<Rightarrow>
             (case as of
                Ma_int v # as' \<Rightarrow> rbind (macro_vector d w v) (\<lambda>w'. macro_format has_ep ds as' w' r)
              | _ \<Rightarrow> Inl Out_of_range))
      else if c = CHR ''d'' \<or> c = CHR ''s'' \<or> c = CHR ''t'' then
        (case as of
           Ma_int v # as' \<Rightarrow>
             macro_format has_ep cs as'
               (INSERT_OPERAND (if c = CHR ''d'' then OP_RD else if c = CHR ''s'' then OP_RS1 else OP_RS2) w (nat v)) r
         | _ \<Rightarrow> Inl Out_of_range)
      else if c = CHR ''j'' \<or> c = CHR ''u'' \<or> c = CHR ''q'' then
        (if \<not> has_ep then Inl Assert_failed
         else case as of Ma_reloc rl # as' \<Rightarrow> macro_format has_ep cs as' w (Some rl) | _ \<Rightarrow> Inl Out_of_range)
      else if c = CHR '','' then macro_format has_ep cs as w r
      else Inl Panic)"

text \<open>The first entry of the name that is not compressed.\<close>

definition macro_entry :: "riscv_opcode list \<Rightarrow> (string \<rightharpoonup> nat) \<Rightarrow> string \<Rightarrow> riscv_opcode run" where
  "macro_entry ops hash name =
     (case hash name of
        None \<Rightarrow> Inl Assert_failed
      | Some i \<Rightarrow>
          (case dropWhile (\<lambda>mo. riscv_insn_length (op_match mo) < 4) (drop i ops) of
             [] \<Rightarrow> Inl Out_of_range
           | mo # _ \<Rightarrow> if op_name mo = name then Inr mo else Inl Assert_failed))"

definition macro_build ::
  "riscv_opcode list \<Rightarrow> (string \<rightharpoonup> nat) \<Rightarrow> expressionS option \<Rightarrow> string \<Rightarrow> string \<Rightarrow> macro_arg list \<Rightarrow> emitted list run" where
  "macro_build ops hash ep name fmt args =
     rbind (macro_entry ops hash name) (\<lambda>mo.
     rbind (macro_format (ep \<noteq> None) fmt args (op_match mo) None) (\<lambda>(w, r).
       if (r = None) = (ep = None) then Inr [Em_insn w r ep] else Inl Assert_failed))"

section \<open>Addresses and calls\<close>

definition pcrel_access ::
  "riscv_opcode list \<Rightarrow> (string \<rightharpoonup> nat) \<Rightarrow> nat \<Rightarrow> nat \<Rightarrow> expressionS \<Rightarrow> string \<Rightarrow> string \<Rightarrow> bfd_reloc \<Rightarrow> bfd_reloc \<Rightarrow> emitted list run" where
  "pcrel_access ops hash destreg tempreg ep lo_insn lo_pattern hi_reloc lo_reloc =
     (let ep2 = \<lparr>X_add_symbol = Some Internal_label, X_add_number = 0, X_op = O_symbol\<rparr> in
      eseq (macro_build ops hash (Some ep) ''auipc'' ''d,u'' [Ma_int (int tempreg), Ma_reloc hi_reloc])
        (macro_build ops hash (Some ep2) lo_insn lo_pattern [Ma_int (int destreg), Ma_int (int tempreg), Ma_reloc lo_reloc]))"

definition pcrel_load ::
  "riscv_opcode list \<Rightarrow> (string \<rightharpoonup> nat) \<Rightarrow> nat \<Rightarrow> nat \<Rightarrow> expressionS \<Rightarrow> string \<Rightarrow> bfd_reloc \<Rightarrow> bfd_reloc \<Rightarrow> emitted list run" where
  "pcrel_load ops hash destreg tempreg ep lo_insn hi_reloc lo_reloc =
     pcrel_access ops hash destreg tempreg ep lo_insn ''d,s,j'' hi_reloc lo_reloc"

definition pcrel_store ::
  "riscv_opcode list \<Rightarrow> (string \<rightharpoonup> nat) \<Rightarrow> nat \<Rightarrow> nat \<Rightarrow> expressionS \<Rightarrow> string \<Rightarrow> bfd_reloc \<Rightarrow> bfd_reloc \<Rightarrow> emitted list run" where
  "pcrel_store ops hash srcreg tempreg ep lo_insn hi_reloc lo_reloc =
     pcrel_access ops hash srcreg tempreg ep lo_insn ''t,s,q'' hi_reloc lo_reloc"

definition riscv_call ::
  "riscv_opcode list \<Rightarrow> (string \<rightharpoonup> nat) \<Rightarrow> nat \<Rightarrow> nat \<Rightarrow> expressionS \<Rightarrow> bfd_reloc \<Rightarrow> emitted list run" where
  "riscv_call ops hash destreg tempreg ep reloc =
     eseq (macro_build ops hash (Some ep) ''auipc'' ''d,u'' [Ma_int (int tempreg), Ma_reloc reloc])
       (macro_build ops hash None ''jalr'' ''d,s'' [Ma_int (int destreg), Ma_int (int tempreg)])"

section \<open>Constants\<close>

text \<open>
  The loop that looks for the lowest one above the low part. A shift by 64 or more is undefined in C, and the loop has no
  other bound: the model has no result then.
\<close>

function find_shift :: "u64 \<Rightarrow> nat \<Rightarrow> nat option" where
  "find_shift upper shift =
     (if shift \<ge> 64 then None
      else if signed_drop_bit shift upper AND 1 = 0 then find_shift upper (Suc shift)
      else Some shift)"
  by pat_completeness auto
termination by (relation "measure (\<lambda>(upper, shift). 64 - shift)") auto

declare find_shift.simps [simp del]

definition ADD32_INSN :: "nat \<Rightarrow> string" where
  "ADD32_INSN xlen = (if xlen = 64 then ''addiw'' else ''addi'')"

definition LOAD_ADDRESS_INSN :: "nat \<Rightarrow> string" where
  "LOAD_ADDRESS_INSN abi_xlen = (if abi_xlen = 64 then ''ld'' else ''lw'')"

text \<open>The low twelve bits as a signed number.\<close>

definition const_low :: "u64 \<Rightarrow> u64" where
  "const_low x = ((x AND 0xfff) XOR 0x800) - 0x800"

definition load_const32 :: "nat \<Rightarrow> nat \<Rightarrow> u64 \<Rightarrow> u64 \<Rightarrow> emitted list" where
  "load_const32 xlen reg upper lower =
     (let hi_reg = (if upper \<noteq> 0 then reg else 0) in
      (if upper \<noteq> 0 then [Em_line (Asm_lui reg (drop_bit 12 (take_bit 32 upper)))] else []) @
      (if lower \<noteq> 0 \<or> hi_reg = 0 then [Em_line (Asm_add (ADD32_INSN xlen) reg hi_reg lower)] else []))"

partial_function (option) load_const :: "nat \<Rightarrow> nat \<Rightarrow> expressionS \<Rightarrow> emitted list run option" where
  "load_const xlen reg ep =
     (let x = X_add_number ep; lower = const_low x in
      case s64 (sint x - sint lower) of
        Inl e \<Rightarrow> Some (Inl e)
      | Inr upper \<Rightarrow>
          if X_op ep \<noteq> O_constant then Some (Inr [Em_error ''unsupported large constant''])
          else if xlen > 32 \<and> \<not> IS_SEXT_32BIT_NUM x then
            (case find_shift upper 12 of
               None \<Rightarrow> None
             | Some shift \<Rightarrow>
                 Option.bind (load_const xlen reg (ep\<lparr>X_add_number := signed_drop_bit shift upper\<rparr>)) (\<lambda>r.
                   Some (rbind r (\<lambda>es.
                     Inr (es @ [Em_line (Asm_shift ''slli'' reg reg shift)] @
                       (if lower \<noteq> 0 then [Em_line (Asm_add ''addi'' reg reg lower)] else []))))))
          else Some (Inr (load_const32 xlen reg upper lower)))"

section \<open>Extensions\<close>

definition riscv_ext :: "nat \<Rightarrow> nat \<Rightarrow> nat \<Rightarrow> bool \<Rightarrow> emitted list" where
  "riscv_ext destreg srcreg shift sign =
     [Em_line (Asm_shift ''slli'' destreg srcreg shift),
      Em_line (Asm_shift (if sign then ''srai'' else ''srli'') destreg destreg shift)]"

section \<open>Vector comparison\<close>

abbreviation (input) M_LA :: insn_t where "M_LA \<equiv> 0"
abbreviation (input) M_LLA :: insn_t where "M_LLA \<equiv> 1"
abbreviation (input) M_LGA :: insn_t where "M_LGA \<equiv> 2"
abbreviation (input) M_LA_TLS_GD :: insn_t where "M_LA_TLS_GD \<equiv> 3"
abbreviation (input) M_LA_TLS_IE :: insn_t where "M_LA_TLS_IE \<equiv> 4"
abbreviation (input) M_Lx :: insn_t where "M_Lx \<equiv> 5"
abbreviation (input) M_FLx :: insn_t where "M_FLx \<equiv> 6"
abbreviation (input) M_Sx_FSx :: insn_t where "M_Sx_FSx \<equiv> 7"
abbreviation (input) M_CALL :: insn_t where "M_CALL \<equiv> 8"
abbreviation (input) M_LI :: insn_t where "M_LI \<equiv> 10"
abbreviation (input) M_EXTH :: insn_t where "M_EXTH \<equiv> 11"
abbreviation (input) M_ZEXTW :: insn_t where "M_ZEXTW \<equiv> 12"
abbreviation (input) M_SEXTB :: insn_t where "M_SEXTB \<equiv> 13"
abbreviation (input) M_VMSGE :: insn_t where "M_VMSGE \<equiv> 14"

definition vector_macro :: "riscv_opcode list \<Rightarrow> (string \<rightharpoonup> nat) \<Rightarrow> riscv_opcode \<Rightarrow> insn_t \<Rightarrow> emitted list run" where
  "vector_macro ops hash mo w =
     (let vd = int (EXTRACT_OPERAND OP_VD w); vs1 = int (EXTRACT_OPERAND OP_VS1 w); vs2 = int (EXTRACT_OPERAND OP_VS2 w);
          vm = int (EXTRACT_OPERAND OP_VMASK w); vtemp = int (EXTRACT_OPERAND OP_VFUNCT6 w);
          vmslt_vx = (if op_match mo \<noteq> 0 then ''vmsltu.vx'' else ''vmslt.vx'');
          slt = (\<lambda>d m. macro_build ops hash None vmslt_vx ''Vd,Vt,sVm'' [Ma_int d, Ma_int vs2, Ma_int vs1, Ma_int m]);
          mm = (\<lambda>name d t s. macro_build ops hash None name ''Vd,Vt,Vs'' [Ma_int d, Ma_int t, Ma_int s])
      in if op_mask mo \<noteq> M_VMSGE then Inr []
         else if vm \<noteq> 0 then eseq (slt vd (- 1)) (mm ''vmnand.mm'' vd vd vd)
         else if vtemp \<noteq> 0 then
           (if vd = vm then eseq (slt vtemp (- 1)) (mm ''vmandnot.mm'' vd vm vtemp)
            else eseq (slt vtemp (- 1)) (eseq (mm ''vmandnot.mm'' vtemp vm vtemp)
                   (eseq (mm ''vmandnot.mm'' vd vd vm) (mm ''vmor.mm'' vd vtemp vd))))
         else if vd \<noteq> vm then eseq (slt vd vm) (mm ''vmxor.mm'' vd vd vm)
         else Inr [Em_error ''must provide temp if destination overlaps mask''])"

section \<open>Macros\<close>

record macro_config =
  mc_xlen :: nat
  mc_abi_xlen :: nat
  mc_pic :: bool

text \<open>The relocation that the parser of the operand left is only used by calls.\<close>

definition macro ::
  "macro_config \<Rightarrow> riscv_opcode list \<Rightarrow> (string \<rightharpoonup> nat) \<Rightarrow> riscv_opcode \<Rightarrow> insn_t \<Rightarrow> expressionS \<Rightarrow> bfd_reloc \<Rightarrow> emitted list run option" where
  "macro cfg ops hash mo w imm_expr imm_reloc =
     (let rd = EXTRACT_OPERAND OP_RD w; rs1 = EXTRACT_OPERAND OP_RS1 w; rs2 = EXTRACT_OPERAND OP_RS2 w;
          mask = op_mask mo; xlen = mc_xlen cfg; load = pcrel_load ops hash rd
      in if mask = M_LI then load_const xlen rd imm_expr
         else if mask = M_LA \<or> mask = M_LLA \<or> mask = M_LGA then
           map_option (eseq (Inr (if \<not> IS_SEXT_32BIT_NUM (X_add_number imm_expr) then [Em_error ''offset too large''] else [])))
             (if X_op imm_expr = O_constant then load_const xlen rd imm_expr
              else if mc_pic cfg \<and> mask = M_LA \<or> mask = M_LGA then
                Some (load rd imm_expr (LOAD_ADDRESS_INSN (mc_abi_xlen cfg)) BFD_RELOC_RISCV_GOT_HI20 BFD_RELOC_RISCV_PCREL_LO12_I)
              else Some (load rd imm_expr ''addi'' BFD_RELOC_RISCV_PCREL_HI20 BFD_RELOC_RISCV_PCREL_LO12_I))
         else if mask = M_LA_TLS_GD then
           Some (load rd imm_expr ''addi'' BFD_RELOC_RISCV_TLS_GD_HI20 BFD_RELOC_RISCV_PCREL_LO12_I)
         else if mask = M_LA_TLS_IE then
           Some (load rd imm_expr (LOAD_ADDRESS_INSN (mc_abi_xlen cfg)) BFD_RELOC_RISCV_TLS_GOT_HI20 BFD_RELOC_RISCV_PCREL_LO12_I)
         else if mask = M_Lx then
           Some (load rd imm_expr (op_name mo) BFD_RELOC_RISCV_PCREL_HI20 BFD_RELOC_RISCV_PCREL_LO12_I)
         else if mask = M_FLx then
           Some (load rs1 imm_expr (op_name mo) BFD_RELOC_RISCV_PCREL_HI20 BFD_RELOC_RISCV_PCREL_LO12_I)
         else if mask = M_Sx_FSx then
           Some (pcrel_store ops hash rs2 rs1 imm_expr (op_name mo) BFD_RELOC_RISCV_PCREL_HI20 BFD_RELOC_RISCV_PCREL_LO12_S)
         else if mask = M_CALL then Some (riscv_call ops hash rd rs1 imm_expr imm_reloc)
         else if mask = M_EXTH then Some (Inr (riscv_ext rd rs1 (xlen - 16) (take 1 (op_name mo) = ''s'')))
         else if mask = M_ZEXTW then Some (Inr (riscv_ext rd rs1 (xlen - 32) False))
         else if mask = M_SEXTB then Some (Inr (riscv_ext rd rs1 (xlen - 8) True))
         else if mask = M_VMSGE then Some (vector_macro ops hash mo w)
         else Some (Inr [Em_error (''internal: macro '' @ op_name mo @ '' not implemented'')]))"

end
