(* ===== verification/Macro_Props.thy ===== *)
theory Macro_Props
  imports Gas_Macro
begin

text \<open>
  The constants that the assembler builds: the expansion of \<^verbatim>\<open>li\<close> always ends, has at most eight lines, each with an immediate
  that its instruction can hold, and leaves the constant in the register. The meaning of the lines is that of the architecture
  manual; on RV32 a register holds the sign-extended 32-bit value.
\<close>

section \<open>What the lines compute\<close>

definition xreg :: "nat \<Rightarrow> u64 \<Rightarrow> u64" where
  "xreg xlen v = (if xlen = 32 then signed_take_bit 31 v else v)"

definition reg_value :: "(nat \<Rightarrow> u64) \<Rightarrow> nat \<Rightarrow> u64" where
  "reg_value regs r = (if r = 0 then 0 else regs r)"

definition set_reg :: "nat \<Rightarrow> u64 \<Rightarrow> (nat \<Rightarrow> u64) \<Rightarrow> nat \<Rightarrow> u64" where
  "set_reg r v regs = (if r = 0 then regs else regs(r := v))"

fun exec_line :: "nat \<Rightarrow> asm_line \<Rightarrow> (nat \<Rightarrow> u64) \<Rightarrow> (nat \<Rightarrow> u64) option" where
  "exec_line xlen (Asm_lui rd i) regs =
     (if i < 2 ^ 20 then Some (set_reg rd (signed_take_bit 31 (push_bit 12 i)) regs) else None)"
| "exec_line xlen (Asm_add n rd rs i) regs =
     (let v = reg_value regs rs + i in
      if \<not> (- (2 ^ 11) \<le> sint i \<and> sint i < 2 ^ 11) then None
      else if n = ''addi'' then Some (set_reg rd (xreg xlen v) regs)
      else if n = ''addiw'' \<and> xlen = 64 then Some (set_reg rd (signed_take_bit 31 v) regs) else None)"
| "exec_line xlen (Asm_shift n rd rs sh) regs =
     (let v = reg_value regs rs in
      if sh \<ge> xlen then None
      else if n = ''slli'' then Some (set_reg rd (xreg xlen (push_bit sh v)) regs)
      else if n = ''srli'' then Some (set_reg rd (xreg xlen (drop_bit sh (take_bit xlen v))) regs)
      else if n = ''srai'' then Some (set_reg rd (signed_drop_bit sh v) regs) else None)"

fun exec_all :: "nat \<Rightarrow> emitted list \<Rightarrow> (nat \<Rightarrow> u64) \<Rightarrow> (nat \<Rightarrow> u64) option" where
  "exec_all xlen [] regs = Some regs"
| "exec_all xlen (Em_line l # es) regs = Option.bind (exec_line xlen l regs) (exec_all xlen es)"
| "exec_all xlen (_ # es) regs = None"

lemma exec_all_append: "exec_all xlen (es @ fs) regs = Option.bind (exec_all xlen es regs) (exec_all xlen fs)"
  by (induction xlen es regs rule: exec_all.induct) (auto split: bind_splits)

section \<open>Signed parts of a word\<close>

lemma mask_numerals: "(0xfff :: u64) = mask 12" "(0x800 :: u64) = 2 ^ 11" "(0x7fffffff :: u64) = mask 31"
  by (simp_all add: mask_eq_exp_minus_1)

lemma xor_exp_minus:
  fixes a :: u64
  assumes "n < 64"
  shows "(take_bit (Suc n) a XOR 2 ^ n) - 2 ^ n = signed_take_bit n a"
proof (cases "bit a n")
  case True
  have "take_bit (Suc n) a XOR 2 ^ n = take_bit n a"
    by (rule bit_eqI) (use True assms in \<open>auto simp: bit_simps less_Suc_eq\<close>)
  moreover have "take_bit n a + NOT (mask n) = take_bit n a OR NOT (mask n)"
    by (rule disjunctive_add) (auto simp: bit_simps)
  ultimately show ?thesis using True by (simp add: signed_take_bit_def not_eq_complement mask_eq_exp_minus_1)
next
  case False
  have "take_bit (Suc n) a XOR 2 ^ n = take_bit n a OR 2 ^ n"
    by (rule bit_eqI) (use False assms in \<open>auto simp: bit_simps less_Suc_eq\<close>)
  moreover have "take_bit n a OR 2 ^ n = take_bit n a + 2 ^ n"
    by (rule disjunctive_add [symmetric]) (auto simp: bit_simps)
  ultimately show ?thesis using False by (simp add: signed_take_bit_def)
qed

lemma const_low_signed: "const_low x = signed_take_bit 11 x"
  using xor_exp_minus [of 11 x] by (simp only: const_low_def mask_numerals take_bit_eq_mask [symmetric]) simp

lemma signed_take_bit_add_left:
  "signed_take_bit n (signed_take_bit n a + b) = signed_take_bit n (a + b :: u64)"
proof -
  have "signed_take_bit n (signed_take_bit n (of_int i) + of_int j) = signed_take_bit n (of_int i + of_int j :: u64)" for i j
  proof -
    have "signed_take_bit n (signed_take_bit n i + j) = signed_take_bit n (i + j)"
      using signed_take_bit_add [of n "signed_take_bit n i" j] signed_take_bit_add [of n i j] by simp
    then show ?thesis by (metis of_int_add signed_take_bit_of_int)
  qed
  from this [of "uint a" "uint b"] show ?thesis by simp
qed

lemma high_zeros: "x AND NOT (mask n) = 0 \<longleftrightarrow> (\<forall>i. n \<le> i \<longrightarrow> \<not> bit (x :: u64) i)"
  by (subst bit_eq_iff) (use bit_imp_le_length [of x] in \<open>auto simp: bit_simps not_less\<close>)

lemma high_ones: "x AND NOT (mask n) = NOT (mask n) \<longleftrightarrow> (\<forall>i. n \<le> i \<and> i < 64 \<longrightarrow> bit (x :: u64) i)"
  by (subst bit_eq_iff) (auto simp: bit_simps not_less)

lemma sext_32_iff: "IS_SEXT_32BIT_NUM x \<longleftrightarrow> signed_take_bit 31 x = x"
proof
  assume "IS_SEXT_32BIT_NUM x"
  then consider "\<forall>i. 31 \<le> i \<longrightarrow> \<not> bit x i" | "\<forall>i. 31 \<le> i \<and> i < 64 \<longrightarrow> bit x i"
    by (auto simp: IS_SEXT_32BIT_NUM_def mask_numerals high_zeros high_ones)
  then show "signed_take_bit 31 x = x"
  proof cases
    case 1
    show ?thesis by (rule bit_eqI) (use 1 in \<open>auto simp: bit_simps min_def\<close>)
  next
    case 2
    show ?thesis by (rule bit_eqI) (use 2 in \<open>auto simp: bit_simps min_def\<close>)
  qed
next
  assume e: "signed_take_bit 31 x = x"
  have b: "bit x i = bit x 31" if "31 \<le> i" "i < 64" for i
    using arg_cong [OF e, of "\<lambda>w. bit w i"] that by (simp add: bit_simps min_def)
  show "IS_SEXT_32BIT_NUM x"
    unfolding IS_SEXT_32BIT_NUM_def mask_numerals high_zeros high_ones using b bit_imp_le_length by (cases "bit x 31") force+
qed

section \<open>The parts of a constant\<close>

lemma const_parts:
  fixes x :: u64
  assumes "sint x < 2 ^ 63 - 2 ^ 11"
  shows "s64 (sint x - sint (const_low x)) = Inr (x - const_low x)"
    "sint (x - const_low x) = sint x - sint (const_low x)"
    "- (2 ^ 11) \<le> sint (const_low x)" "sint (const_low x) < 2 ^ 11" "2 ^ 12 dvd sint (x - const_low x)"
proof -
  have low: "sint (const_low x) = signed_take_bit 11 (sint x)" by (simp add: const_low_signed sint_signed_take_bit)
  show r: "- (2 ^ 11) \<le> sint (const_low x)" "sint (const_low x) < 2 ^ 11"
    unfolding low by (rule signed_take_bit_int_greater_eq_minus_exp, rule signed_take_bit_int_less_exp)
  have d: "2 ^ 12 dvd sint x - signed_take_bit 11 (sint x)"
    using take_bit_signed_take_bit [of 12 11 "sint x"] by (simp add: take_bit_eq_mod mod_eq_dvd_iff dvd_diff_commute)
  have "- (2 ^ 63) \<le> sint x - sint (const_low x)"
  proof (rule ccontr)
    assume "\<not> ?thesis"
    then have neg: "sint x - sint (const_low x) + 2 ^ 63 < 0" by simp
    have "(2 :: int) ^ 12 dvd 2 ^ 63" by (simp add: le_imp_power_dvd)
    with d obtain q where q: "sint x - sint (const_low x) + 2 ^ 63 = 2 ^ 12 * q" unfolding low by (meson dvd_add dvdE)
    with neg have "q \<le> - 1" by simp
    with q have "sint x - sint (const_low x) + 2 ^ 63 \<le> - (2 ^ 12)" by simp
    then show False using r(2) sint_range_64 [of x] by simp
  qed
  moreover have "sint x - sint (const_low x) < 2 ^ 63" using r(1) assms by simp
  moreover have "word_of_int (sint x - sint (const_low x)) = x - const_low x" by simp
  ultimately show "s64 (sint x - sint (const_low x)) = Inr (x - const_low x)"
    "sint (x - const_low x) = sint x - sint (const_low x)"
    using sint_of_int_64 [of "sint x - sint (const_low x)"] by (simp_all add: s64_Inr del: sint_of_int_64)
  then show "2 ^ 12 dvd sint (x - const_low x)" using d by (simp add: low)
qed

text \<open>The low part of the highest constants is negative, and the difference leaves the range of a signed word.\<close>

lemma const_overflow:
  fixes x :: u64
  assumes "\<not> sint x < 2 ^ 63 - 2 ^ 11"
  shows "s64 (sint x - sint (const_low x)) = Inl Signed_overflow"
proof -
  have r: "2 ^ 63 - 2 ^ 11 \<le> sint x" "sint x < 2 ^ 63" using assms sint_range_64 [of x] by simp_all
  have low: "sint (const_low x) = signed_take_bit 11 (sint x)" by (simp add: const_low_signed sint_signed_take_bit)
  have "sint (const_low x) = sint x - 2 ^ 63"
  proof -
    have e: "(2 :: int) ^ 63 = 2 ^ Suc 11 * 2 ^ 51" by simp
    have "take_bit (Suc 11) (k + 2 ^ 63) = take_bit (Suc 11) k" for k :: int
      by (simp only: take_bit_eq_mod e mod_mult_self2)
    from this [of "sint x - 2 ^ 63"] have "signed_take_bit 11 (sint x) = signed_take_bit 11 (sint x - 2 ^ 63)"
      unfolding signed_take_bit_eq_iff_take_bit_eq by simp
    moreover have "signed_take_bit 11 (sint x - 2 ^ 63) = sint x - 2 ^ 63" using r by (simp add: signed_take_bit_int_eq_self_iff)
    ultimately show ?thesis by (simp add: low)
  qed
  then show ?thesis by (simp add: s64_def)
qed

lemma find_shift_spec:
  assumes "bit upper k" "shift \<le> k" "\<forall>i < shift. \<not> bit upper i"
  shows "\<exists>s. find_shift upper shift = Some s \<and> shift \<le> s \<and> s < 64 \<and> bit upper s \<and> (\<forall>i < s. \<not> bit upper i)"
  using assms
proof (induction upper shift rule: find_shift.induct)
  case (1 upper shift)
  have k: "k < 64" using bit_imp_le_length [OF 1(2)] by simp
  have test: "signed_drop_bit shift upper AND 1 = 0 \<longleftrightarrow> \<not> bit upper shift"
    using 1(3) k bit_signed_drop_bit_iff [of shift upper 0] by (auto simp: and_one_eq bit_0 even_iff_mod_2_eq_zero [symmetric])
  show ?case
  proof (cases "bit upper shift")
    case True
    then show ?thesis using 1(3,4) k by (subst find_shift.simps) (auto simp: test)
  next
    case False
    have "Suc shift \<le> k" using False 1(2,3) by (metis Suc_leI le_neq_implies_less)
    moreover have "\<forall>i < Suc shift. \<not> bit upper i" using False 1(4) by (auto simp: less_Suc_eq)
    ultimately have "\<exists>s. find_shift upper (Suc shift) = Some s \<and> Suc shift \<le> s \<and> s < 64 \<and> bit upper s \<and> (\<forall>i < s. \<not> bit upper i)"
      using 1(1,2) False 1(3) k test by auto
    moreover have "find_shift upper shift = find_shift upper (Suc shift)"
      using False test 1(3) k by (subst find_shift.simps) simp
    ultimately show ?thesis by (metis Suc_leD)
  qed
qed

lemma shifted_back:
  assumes "s < 64" "\<forall>i < s. \<not> bit (u :: u64) i"
  shows "push_bit s (signed_drop_bit s u) = u"
proof (rule bit_word_eqI)
  fix i
  assume "i < LENGTH(64)"
  then show "bit (push_bit s (signed_drop_bit s u)) i = bit u i"
    using assms by (cases "s \<le> i") (auto simp: bit_simps)
qed

lemma odd_shifted: "s < 64 \<Longrightarrow> odd (sint (signed_drop_bit s (u :: u64))) \<longleftrightarrow> bit u s"
  using bit_signed_drop_bit_iff [of s u 0] by (simp add: bit_0 [symmetric] bit_sint_iff)

text \<open>One round brings the constant twelve bits closer.\<close>

lemma round_bounds:
  fixes N u x l :: int
  assumes "u = x - l" "- (2 ^ 11) \<le> l" "l < 2 ^ 11" "2 ^ 12 dvd u" "2 ^ 12 * - N \<le> x" "x < 2 ^ 12 * N" "even N" "12 \<le> s"
    and "odd (u div 2 ^ s)" "0 < N"
  shows "- N \<le> u div 2 ^ s \<and> u div 2 ^ s < N"
proof -
  from assms(4) obtain v where v: "u = 2 ^ 12 * v" by (elim dvdE)
  have vN: "- N \<le> v" "v \<le> N" using assms(1-3,5,6) v by simp_all
  have div: "u div 2 ^ s = v div 2 ^ (s - 12)"
  proof -
    have "(2 :: int) ^ s = 2 ^ 12 * 2 ^ (s - 12)" by (metis assms(8) le_add_diff_inverse power_add)
    then show ?thesis by (simp add: v)
  qed
  let ?p = "(2 :: int) ^ (s - 12)"
  have "N \<le> N * ?p" using assms(10) by simp
  with vN have p: "- N * ?p \<le> v" "v \<le> N * ?p" by simp_all
  moreover have "- N * ?p div ?p = - N" "N * ?p div ?p = N" by (rule nonzero_mult_div_cancel_right, simp)+
  ultimately have "- N \<le> v div ?p" "v div ?p \<le> N" using zdiv_mono1 [OF p(1), of ?p] zdiv_mono1 [OF p(2), of ?p] by simp_all
  moreover have "v div ?p \<noteq> N" using assms(7,9) by (auto simp: div)
  ultimately show ?thesis by (simp add: div)
qed

section \<open>Constants\<close>

lemma set_reg_twice: "set_reg r v (set_reg r w regs) = set_reg r v regs"
  by (simp add: set_reg_def)

lemma reg_value_set: "0 < r \<Longrightarrow> reg_value (set_reg r v regs) r = v"
  by (simp add: reg_value_def set_reg_def)

lemma lui_part:
  assumes "take_bit 12 u = 0"
  shows "signed_take_bit 31 (push_bit 12 (drop_bit 12 (take_bit 32 u))) = signed_take_bit 31 (u :: u64)"
proof (rule bit_eqI)
  have low: "\<not> bit u i" if "i < 12" for i using arg_cong [OF assms, of "\<lambda>w. bit w i"] that by (simp add: bit_simps)
  fix i
  show "bit (signed_take_bit 31 (push_bit 12 (drop_bit 12 (take_bit 32 u)))) i = bit (signed_take_bit 31 u) i"
    using low [of i] by (cases "i < 12") (auto simp: bit_simps min_def)
qed

lemma upper_imm_small: "drop_bit 12 (take_bit 32 (u :: u64)) < 2 ^ 20"
proof -
  have "drop_bit 12 (take_bit 32 u) = take_bit 20 (drop_bit 12 u)" by (simp add: drop_bit_take_bit)
  moreover have "uint (take_bit 20 (drop_bit 12 u)) < 2 ^ 20" unfolding unsigned_take_bit_eq by (rule take_bit_int_less_exp)
  ultimately show ?thesis by (simp add: word_less_def)
qed

lemma load_const32_computes:
  assumes "xlen = 32 \<or> xlen = 64" "0 < reg" "take_bit 12 u = 0" "- (2 ^ 11) \<le> sint l" "sint l < 2 ^ 11"
  shows "exec_all xlen (load_const32 xlen reg u l) regs = Some (set_reg reg (signed_take_bit 31 (u + l)) regs)"
    "length (load_const32 xlen reg u l) \<le> 2"
proof -
  have add: "exec_line xlen (Asm_add (ADD32_INSN xlen) reg r l) rs = Some (set_reg reg (signed_take_bit 31 (reg_value rs r + l)) rs)" for r rs
    using assms(1,4,5) by (auto simp: ADD32_INSN_def xreg_def)
  have lui: "exec_line xlen (Asm_lui reg (drop_bit 12 (take_bit 32 u))) regs = Some (set_reg reg (signed_take_bit 31 u) regs)"
    using upper_imm_small [of u] by (simp add: lui_part [OF assms(3)])
  show "exec_all xlen (load_const32 xlen reg u l) regs = Some (set_reg reg (signed_take_bit 31 (u + l)) regs)"
  proof (cases "u = 0")
    case True
    then show ?thesis by (simp add: load_const32_def add reg_value_def del: exec_line.simps)
  next
    case u: False
    then show ?thesis using assms(2)
      by (cases "l = 0") (simp_all add: load_const32_def lui add reg_value_set set_reg_twice signed_take_bit_add_left del: exec_line.simps)
  qed
  show "length (load_const32 xlen reg u l) \<le> 2" by (simp add: load_const32_def Let_def)
qed

lemma low_bits_zero: "2 ^ 12 dvd sint u \<longleftrightarrow> take_bit 12 (u :: u64) = 0"
proof -
  have "take_bit 12 u = of_int (take_bit 12 (sint u))" by (simp add: take_bit_of_int [symmetric])
  moreover have "of_int t = (0 :: u64) \<longleftrightarrow> t = 0" if "0 \<le> t" "t < 2 ^ 12" for t
    using that zdvd_not_zless [of t "2 ^ 64"] by (cases "t = 0") (auto simp: word_of_int_eq_0_iff)
  from this [OF _ take_bit_int_less_exp, of "sint u"] have "of_int (take_bit 12 (sint u)) = (0 :: u64) \<longleftrightarrow> take_bit 12 (sint u) = 0"
    by simp
  ultimately have "take_bit 12 u = 0 \<longleftrightarrow> take_bit 12 (sint u) = 0" by simp
  then show ?thesis by (simp add: take_bit_eq_0_iff)
qed

lemma load_const_short:
  assumes "xlen = 32 \<or> xlen = 64" "0 < reg" "X_op ep = O_constant" "sint (X_add_number ep) < 2 ^ 63 - 2 ^ 11"
    and "xlen = 32 \<or> IS_SEXT_32BIT_NUM (X_add_number ep)"
  shows "\<exists>es. load_const xlen reg ep = Some (Inr es) \<and> length es \<le> 2 \<and>
    (\<forall>regs. exec_all xlen es regs = Some (set_reg reg (xreg xlen (X_add_number ep)) regs))"
proof -
  let ?x = "X_add_number ep"
  note parts = const_parts [OF assms(4)]
  have "load_const xlen reg ep = Some (Inr (load_const32 xlen reg (?x - const_low ?x) (const_low ?x)))"
    using assms(3,5) by (subst load_const.simps) (auto simp: parts(1) Let_def)
  moreover have "xreg xlen ?x = signed_take_bit 31 ?x" using assms(1,5) by (auto simp: xreg_def sext_32_iff)
  ultimately show ?thesis
    using load_const32_computes [OF assms(1,2) parts(5) [unfolded low_bits_zero] parts(3,4)] by simp
qed

lemma load_const_round:
  assumes "0 < reg" "X_op ep = O_constant" "sint (X_add_number ep) < 2 ^ 63 - 2 ^ 11" "\<not> IS_SEXT_32BIT_NUM (X_add_number ep)"
    and "- (2 ^ (31 + 12 * Suc k)) \<le> sint (X_add_number ep)" "sint (X_add_number ep) < 2 ^ (31 + 12 * Suc k)"
  obtains y tail where "- (2 ^ (31 + 12 * k)) \<le> sint y" "sint y < 2 ^ (31 + 12 * k)" "length tail \<le> 2"
    "load_const 64 reg ep = Option.bind (load_const 64 reg (ep\<lparr>X_add_number := y\<rparr>)) (\<lambda>r. Some (rbind r (\<lambda>es. Inr (es @ tail))))"
    "\<And>regs. exec_all 64 tail (set_reg reg y regs) = Some (set_reg reg (X_add_number ep) regs)"
proof -
  let ?x = "X_add_number ep"
  let ?l = "const_low ?x"
  let ?u = "?x - const_low ?x"
  note parts = const_parts [OF assms(3)]
  have "?u \<noteq> 0"
  proof
    assume "?u = 0"
    then have "sint ?x = sint ?l" by simp
    then have "IS_SEXT_32BIT_NUM ?x" using parts(3,4) by (simp add: sext_32_iff signed_take_bit_self_iff)
    with assms(4) show False ..
  qed
  then obtain i where i: "bit ?u i" by (auto simp: bit_eq_iff)
  have low: "\<forall>j < 12. \<not> bit ?u j" using parts(5) [unfolded low_bits_zero] by (auto simp: bit_eq_iff bit_simps)
  with i have "12 \<le> i" by (meson not_less)
  from find_shift_spec [OF i this low] obtain s where s: "find_shift ?u 12 = Some s" "12 \<le> s" "s < 64" "bit ?u s"
    "\<forall>j < s. \<not> bit ?u j" by blast
  let ?y = "signed_drop_bit s ?u"
  let ?t = "Em_line (Asm_shift ''slli'' reg reg s) # (if ?l \<noteq> 0 then [Em_line (Asm_add ''addi'' reg reg ?l)] else [])"
  have y: "sint ?y = (sint ?x - sint ?l) div 2 ^ s" by (simp only: sint_signed_drop_bit_eq drop_bit_eq_div parts(2))
  have "- (2 ^ (31 + 12 * k)) \<le> sint ?y \<and> sint ?y < 2 ^ (31 + 12 * k)"
    unfolding y by (rule round_bounds [OF refl parts(3,4)])
      (use parts(5) assms(5,6) s(2) odd_shifted [OF s(3), of ?u] s(4) in \<open>simp_all add: parts(2) y power_add\<close>)
  moreover have "load_const 64 reg ep =
      Option.bind (load_const 64 reg (ep\<lparr>X_add_number := ?y\<rparr>)) (\<lambda>r. Some (rbind r (\<lambda>es. Inr (es @ ?t))))"
    using assms(2,4) by (subst load_const.simps) (simp add: parts(1) Let_def s(1))
  moreover have "exec_all 64 ?t (set_reg reg ?y regs) = Some (set_reg reg ?x regs)" for regs
  proof -
    have "exec_line 64 (Asm_shift ''slli'' reg reg s) (set_reg reg ?y regs) = Some (set_reg reg ?u regs)"
      using s(3) by (simp add: reg_value_set assms(1) set_reg_twice xreg_def shifted_back [OF s(3,5)])
    moreover have "exec_line 64 (Asm_add ''addi'' reg reg ?l) (set_reg reg ?u regs) = Some (set_reg reg ?x regs)"
      using parts(3,4) by (simp add: reg_value_set assms(1) set_reg_twice xreg_def)
    ultimately show ?thesis by (simp del: exec_line.simps)
  qed
  moreover have "length ?t \<le> 2" by simp
  ultimately show thesis using that by blast
qed

text \<open>A constant of \<open>31 + 12 k\<close> bits and a sign takes at most \<open>k\<close> rounds.\<close>

lemma load_const_computes:
  assumes "xlen = 32 \<or> xlen = 64" "0 < reg" "X_op ep = O_constant" "sint (X_add_number ep) < 2 ^ 63 - 2 ^ 11"
    and "- (2 ^ (31 + 12 * k)) \<le> sint (X_add_number ep)" "sint (X_add_number ep) < 2 ^ (31 + 12 * k)" "k \<le> 3"
  shows "\<exists>es. load_const xlen reg ep = Some (Inr es) \<and> length es \<le> 2 + 2 * k \<and>
    (\<forall>regs. exec_all xlen es regs = Some (set_reg reg (xreg xlen (X_add_number ep)) regs))"
  using assms(3-)
proof (induction k arbitrary: ep)
  case 0
  then have "IS_SEXT_32BIT_NUM (X_add_number ep)" by (simp add: sext_32_iff signed_take_bit_self_iff)
  with load_const_short [OF assms(1,2) 0(1,2)] show ?case by simp
next
  case (Suc k)
  show ?case
  proof (cases "xlen = 32 \<or> IS_SEXT_32BIT_NUM (X_add_number ep)")
    case True
    with load_const_short [OF assms(1,2) Suc(2,3)] show ?thesis by fastforce
  next
    case False
    then have x: "xlen = 64" "\<not> IS_SEXT_32BIT_NUM (X_add_number ep)" using assms(1) by auto
    obtain y tail where y: "- (2 ^ (31 + 12 * k)) \<le> sint y" "sint y < 2 ^ (31 + 12 * k)" "length tail \<le> 2"
      and l: "load_const 64 reg ep = Option.bind (load_const 64 reg (ep\<lparr>X_add_number := y\<rparr>)) (\<lambda>r. Some (rbind r (\<lambda>es. Inr (es @ tail))))"
      and t: "\<And>regs. exec_all 64 tail (set_reg reg y regs) = Some (set_reg reg (X_add_number ep) regs)"
      using load_const_round [OF assms(2) Suc(2,3) x(2) Suc(4,5)] by blast
    have "(2 :: int) ^ (31 + 12 * k) \<le> 2 ^ 55" using Suc(6) by (intro power_increasing) auto
    with y(2) have "sint y < 2 ^ 63 - 2 ^ 11" by simp
    with Suc(1) [of "ep\<lparr>X_add_number := y\<rparr>"] y Suc(2,6) obtain es where
      "load_const 64 reg (ep\<lparr>X_add_number := y\<rparr>) = Some (Inr es)" "length es \<le> 2 + 2 * k"
      "\<And>regs. exec_all 64 es regs = Some (set_reg reg y regs)" by (auto simp: x(1) xreg_def)
    then show ?thesis using l t y(3) by (simp add: x(1) exec_all_append xreg_def)
  qed
qed

section \<open>Extensions\<close>

lemma ext_bits:
  assumes "xlen = 32 \<or> xlen = 64" "0 < n" "n < xlen"
  shows "xreg xlen (drop_bit (xlen - n) (take_bit xlen (xreg xlen (push_bit (xlen - n) v)))) = take_bit n v"
    "signed_drop_bit (xlen - n) (xreg xlen (push_bit (xlen - n) v)) = signed_take_bit (n - 1) v"
proof -
  have "xreg xlen (drop_bit (xlen - n) (take_bit xlen (xreg xlen (push_bit (xlen - n) v)))) = take_bit n v"
  proof (rule bit_word_eqI)
    fix i
    show "bit (xreg xlen (drop_bit (xlen - n) (take_bit xlen (xreg xlen (push_bit (xlen - n) v))))) i = bit (take_bit n v) i"
      using assms by (cases "i = n - 1") (auto simp: xreg_def bit_simps min_def)
  qed
  moreover have "signed_drop_bit (xlen - n) (xreg xlen (push_bit (xlen - n) v)) = signed_take_bit (n - 1) v"
  proof (rule bit_word_eqI)
    fix i
    assume "i < LENGTH(64)"
    then show "bit (signed_drop_bit (xlen - n) (xreg xlen (push_bit (xlen - n) v))) i = bit (signed_take_bit (n - 1) v) i"
      using assms by (cases "i = n - 1") (auto simp: xreg_def bit_simps min_def)
  qed
  ultimately show "xreg xlen (drop_bit (xlen - n) (take_bit xlen (xreg xlen (push_bit (xlen - n) v)))) = take_bit n v"
    "signed_drop_bit (xlen - n) (xreg xlen (push_bit (xlen - n) v)) = signed_take_bit (n - 1) v" .
qed

text \<open>The pair of shifts leaves the low bits of the source, extended with zeros or with their sign.\<close>

lemma extension_is_computed:
  assumes "xlen = 32 \<or> xlen = 64" "0 < n" "n < xlen" "0 < rd"
  shows "exec_all xlen (riscv_ext rd rs (xlen - n) sign) regs =
    Some (set_reg rd (if sign then signed_take_bit (n - 1) (reg_value regs rs) else take_bit n (reg_value regs rs)) regs)"
  using assms by (simp add: riscv_ext_def Let_def reg_value_set set_reg_twice ext_bits)

section \<open>Properties\<close>

text \<open>
  C17. The expansion of \<^verbatim>\<open>li\<close> ends for every constant from which the low part can be subtracted: it emits at most eight lines, each
  of them encodable, and executing them leaves the constant in the destination register and every other register as it was. The
  constants of the highest 2 KiB overflow the signed subtraction of the low part instead.
\<close>

theorem constant_is_loaded:
  assumes "op_mask mo = M_LI" "mc_xlen cfg = 32 \<or> mc_xlen cfg = 64" "0 < EXTRACT_OPERAND OP_RD w" "X_op ep = O_constant"
  shows "if sint (X_add_number ep) < 2 ^ 63 - 2 ^ 11
    then \<exists>es. macro cfg ops hash mo w ep rl = Some (Inr es) \<and> length es \<le> 8 \<and>
      (\<forall>regs. exec_all (mc_xlen cfg) es regs = Some (regs(EXTRACT_OPERAND OP_RD w := xreg (mc_xlen cfg) (X_add_number ep))))
    else macro cfg ops hash mo w ep rl = Some (Inl Signed_overflow)"
proof (cases "sint (X_add_number ep) < 2 ^ 63 - 2 ^ 11")
  case True
  have "- (2 ^ (31 + 12 * 3)) \<le> sint (X_add_number ep)" "sint (X_add_number ep) < 2 ^ (31 + 12 * 3)"
    using sint_range_64 [of "X_add_number ep"] by simp_all
  from load_const_computes [OF assms(2-4) True this] obtain es where "load_const (mc_xlen cfg) (EXTRACT_OPERAND OP_RD w) ep = Some (Inr es)"
    "length es \<le> 8" "\<And>regs. exec_all (mc_xlen cfg) es regs = Some (set_reg (EXTRACT_OPERAND OP_RD w) (xreg (mc_xlen cfg) (X_add_number ep)) regs)"
    by auto
  with True assms(1,3) show ?thesis by (simp add: macro_def set_reg_def)
next
  case False
  have "load_const (mc_xlen cfg) (EXTRACT_OPERAND OP_RD w) ep = Some (Inl Signed_overflow)"
    using const_overflow [OF False] by (subst load_const.simps) (simp add: Let_def)
  with False assms(1) show ?thesis by (simp add: macro_def)
qed

theorem constant_is_loaded_witness:
  "\<exists>es. macro \<lparr>mc_xlen = 64, mc_abi_xlen = 64, mc_pic = False\<rparr> [] (\<lambda>_. None) (opc ''li'' 0 0 ''d,I'' 0 M_LI None INSN_MACRO) 0x500
      \<lparr>X_add_symbol = None, X_add_number = 0x123456789abcdef0, X_op = O_constant\<rparr> BFD_RELOC_NONE = Some (Inr es) \<and> length es \<le> 8 \<and>
    (\<forall>regs. exec_all 64 es regs = Some (regs(10 := 0x123456789abcdef0)))"
proof -
  have "EXTRACT_OPERAND OP_RD 0x500 = 10" by (simp add: EXTRACT_OPERAND_def EXTRACT_BITS_def)
  moreover have "sint (0x123456789abcdef0 :: u64) = 0x123456789abcdef0" by simp
  ultimately show ?thesis
    using constant_is_loaded [of "opc ''li'' 0 0 ''d,I'' 0 M_LI None INSN_MACRO" "\<lparr>mc_xlen = 64, mc_abi_xlen = 64, mc_pic = False\<rparr>" "0x500"
      "\<lparr>X_add_symbol = None, X_add_number = 0x123456789abcdef0, X_op = O_constant\<rparr>" "[]" "\<lambda>_. None" BFD_RELOC_NONE]
    by (simp add: opc_def xreg_def)
qed

end
