(* ===== verification/Spec2Isabelle.thy ===== *)
theory Spec2Isabelle
  imports Imc_Cpu Mem_Functional Arch_Print Gas_Props Reloc_Props Macro_Props
begin

text \<open>
  A verification development for the in-memory-computing fork of the gem5 simulator and its RISC-V toolchain.

  \<^bold>\<open>The program.\<close> The repository adds six instructions to RISC-V (\<^verbatim>\<open>addmod\<close>, \<^verbatim>\<open>submod\<close>, \<^verbatim>\<open>mulmod\<close>, \<^verbatim>\<open>mulimc\<close>, \<^verbatim>\<open>invmod\<close>, \<^verbatim>\<open>cmpimc\<close>)
  whose operands are addresses and whose work is done by the memory controller. A program reaches the memory in this way: the
  assembler (\<^verbatim>\<open>gas/config/tc-riscv.c\<close> with the tables of \<^verbatim>\<open>opcodes/riscv-opc.c\<close> and the ISA strings of \<^verbatim>\<open>bfd/elfxx-riscv.c\<close>) turns
  the text into a word; the linker applies relocations (\<^verbatim>\<open>bfd/elfnn-riscv.c\<close>); the disassembler (\<^verbatim>\<open>opcodes/riscv-dis.c\<close>) prints the word
  back; the simulated processor (\<^verbatim>\<open>gem5/src/arch/riscv/isa/decoder.isa\<close>) decodes it, translates the operand addresses and sends a
  packet with a request flag; the controller (\<^verbatim>\<open>gem5/src/mem/simple_mem.cc\<close> on \<^verbatim>\<open>abstract_mem.cc\<close>) recognises the flag and computes
  on its backing store. Paths of the toolchain are relative to \<^verbatim>\<open>src/riscv-gnu-toolchain/binutils\<close>.

  \<^bold>\<open>The simulator.\<close>
    \<^item> \<open>Imc_Prelude\<close>: machine types, the type \<open>run\<close> of a result or a fault, little-endian bytes. A fault is what ends the run of the
      modelled program: a division by zero, a signed overflow, an access outside an array, a failing assertion, a panic.
    \<^item> \<open>Host_Store\<close>: the host array behind a memory; the locale \<open>cell_store\<close> is the contract of its eight-byte cells, interpreted on
      the loads and stores of the controller.
    \<^item> \<open>Imc_Ops\<close>: the six operations on values, at the width and signedness of the C++ code; the loop of \<^verbatim>\<open>invmod\<close> is a total function
      and its result is the inverse for moduli below 2^31.
    \<^item> \<open>Gem5_Packet\<close>: the commands with their attributes, the request flags, packets (\<^verbatim>\<open>mem/packet.hh\<close>, \<^verbatim>\<open>packet.cc\<close>, \<^verbatim>\<open>request.hh\<close>).
    \<^item> \<open>Gem5_Request\<close>: a request with its virtual and physical address and the flags that say which of them is valid; \<^verbatim>\<open>getPaddr\<close> asserts.
    \<^item> \<open>Simple_Memory\<close>: the state of the controller as the record \<open>mem_ctrl\<close>, access to the store with locked addresses, the dispatch of
      in-memory requests, the response queue, and the handlers of the port and the event queue.
    \<^item> \<open>Mem_Ctrl_Props\<close>: what the operations on the store and the queue keep; the locale \<open>keyed_queue\<close> is the contract of a queue in which an element
      does not overtake one of the same key, interpreted on the response queue.
    \<^item> \<open>Mem_Ctrl_Machine\<close>: the step relation of the controller against an arbitrary peer, which may refuse a response and may send requests from within
      \<^verbatim>\<open>sendTimingResp\<close> and \<^verbatim>\<open>sendRetryReq\<close>; its invariant by rule induction, and the order of the responses.
    \<^item> \<open>Imc_Requests\<close>: what each request does to the memory, refusals, liveness and order of the responses, and that the event handlers meet no assertion.
    \<^item> \<open>Mem_Functional\<close>: the functional path, \<^verbatim>\<open>recvFunctional\<close> with \<^verbatim>\<open>trySatisfyFunctional\<close>: a read after a write returns what was written, and
      what a read returns while responses are queued.
    \<^item> \<open>Imc_Decode\<close>: the decode branch of the six instructions, the requests of their operands and the execution up to the port, with the errors of both.
    \<^item> \<open>Imc_Cpu\<close>: the data port of \<^verbatim>\<open>TimingSimpleCPU\<close>: an in-memory instruction that is refused leaves the processor owed a retry, and the retry
      meets the assertion on the packet that the processor does not keep.

  \<^bold>\<open>The opcode library and the assembler.\<close>
    \<^item> \<open>Riscv_Fields\<close>, \<open>Riscv_Imm\<close>: the immediate formats of \<^verbatim>\<open>include/opcode/riscv.h\<close>; each is an interpretation of the locale \<open>signed_codec\<close> or
      \<open>unsigned_codec\<close>, from which come the round trip of encoding and decoding and the range of the validity test.
    \<^item> \<open>Riscv_Opc\<close>, \<open>Opc_Table_1\<close> to \<open>Opc_Table_4\<close>, \<open>Riscv_Opcodes\<close>: the fields, the match functions and both tables, entry by entry.
    \<^item> \<open>Gas_Validate\<close>, \<open>Opc_Checks\<close>, \<open>Opc_Names\<close>, \<open>Gas_Hash\<close>: the start-up of the assembler; the tables pass its check and are indexed by name.
    \<^item> \<open>Riscv_Ext\<close>, \<open>Riscv_Arch\<close>, \<open>Arch_Closure\<close>, \<open>Arch_Props\<close>, \<open>Arch_Print\<close>: the list of extensions as a sorted list that behaves as a set, the
      parser of ISA strings, the closure under implied extensions (locale \<open>rule_pass\<close>), the printed form and its buffer.
    \<^item> \<open>Gas_Assemble\<close>, \<open>Gas_Props\<close>: the parser of one instruction, and what it makes of the in-memory instructions.
    \<^item> \<open>Gas_Macro\<close>, \<open>Macro_Props\<close>: the macro instructions; the expansion of \<^verbatim>\<open>li\<close> ends, is short and computes the constant.
    \<^item> \<open>Riscv_Csr\<close>, \<open>Riscv_Dis\<close>, \<open>Dis_Search\<close>, \<open>Dis_Checks\<close>, \<open>Dis_Props\<close>: the disassembler; its hashed search is the search of the whole table,
      the printer has a case for every operand of what the search finds, and it prints the in-memory instructions back.
    \<^item> \<open>Riscv_Howto\<close>, \<open>Riscv_Reloc\<close>, \<open>Reloc_Props\<close>: the relocation tables with their lookups by type, code and name, and the application of a relocation; branches get their distance,
      addresses in two parts are whole, differences are differences.

  \<^bold>\<open>This theory\<close> holds what spans both halves: the processor executes the word the assembler makes as that operation on those registers,
  and an \<^verbatim>\<open>addmod\<close> goes from its text to the sum in memory.

  \<^bold>\<open>Correspondence.\<close> A record or datatype has the fields and constructors of its source; a function has the name of the C or C++
  function where one function models it, and a descriptive name where it models a part of a long function (a case of a switch, a
  loop). The state is passed explicitly. Every assertion, panic and early return of a modelled function is a branch.

  \<^bold>\<open>Bounds and termination.\<close> There is no fuel. Loops are structural recursion, or functions with a measure: the length of the text for the parsers,
  the second operand for \<^verbatim>\<open>invmod\<close>, the distance to the width of a word for shifts. The recursion of \<^verbatim>\<open>load_const\<close> is a partial function
  whose termination is proved with its result. Shifts and sums that C leaves undefined are faults or have no result. Files, sections and
  texts are lists of any length; the sizes of packets are natural numbers.

  \<^bold>\<open>Parameters.\<close> The register file and the address translation of the processor, the latency of the memory and the time a packet occupies it, the
  requests and answers of the peer of the port, and the atomic operation of an AMO packet are arguments of the definitions.

  \<^bold>\<open>Not modelled.\<close> The rest of the simulator: the processor apart from the retry of its data port (split and local accesses are left out there too), caches and crossbars, translation tables, the other
  architectures and memories, statistics, configuration scripts; the fork does not change them. The controller \<^verbatim>\<open>pim_mem.cc\<close>, which
  \<^verbatim>\<open>configs/learning_gem5/part1/simple-riscv.py\<close> instantiates as \<^verbatim>\<open>PIMCtrl\<close>, is the text of \<^verbatim>\<open>simple_mem.cc\<close> under another class name, except that its
  \<^verbatim>\<open>recvFunctional\<close> has no in-memory branches: what is proved of the timing path holds of both. The variants \<^verbatim>\<open>imc_sram.cc\<close> and \<^verbatim>\<open>IMCMemory.cc\<close> are left out. Of the memory, masked writes, the backdoor and the printing of debug requests. Of
  the assembler, the expression parser with the operands that need it, fragments, fix-ups and directives. Of the linker, symbols, dynamic
  linking, attributes and relaxation. The other targets of binutils, gdb and the instruction-set simulators are vendored code. The
  compiler and the C libraries are submodules that are not in the repository. The test programs are straight-line code over the modelled operations.
\<close>

section \<open>From the assembler to the processor\<close>

lemma field_from_match:
  assumes "(w XOR m) AND k = 0" "k AND push_bit lo (mask (hi + 1 - lo)) = push_bit lo (mask (hi + 1 - lo))"
  shows "insn_bits_of hi lo w = insn_bits_of hi lo m"
proof -
  have d: "take_bit (hi + 1 - lo) (drop_bit lo x) = drop_bit lo (x AND push_bit lo (mask (hi + 1 - lo)))" for x :: u64
    by (rule bit_eqI) (auto simp: bit_simps dest: bit_imp_le_length)
  show ?thesis unfolding insn_bits_of_def d masked_eq [OF assms] ..
qed

definition imc_table :: "(riscv_opcode \<times> imc_inst) list" where
  "imc_table = zip imc_entries [Addmod, Submod, Mulmod, Mulimc, Invmod, Cmpimc]"

definition inst_fits :: "riscv_opcode \<Rightarrow> imc_inst \<Rightarrow> bool" where
  "inst_fits op i \<longleftrightarrow>
     imc_opcode (op_match op) = Some i \<and> (imc_four i \<longleftrightarrow> op_args op = ''s,t,r,l'') \<and>
     list_all (\<lambda>(hi, lo). op_mask op AND push_bit lo (mask (hi + 1 - lo)) = push_bit lo (mask (hi + 1 - lo)))
       [(1, 0), (6, 2), (14, 12), if imc_four i then (26, 25) else (31, 25)] \<and>
     FUNCT3 (op_match op) = (if imc_four i then 0 else 1)"

lemma imc_table_fits: "list_all (\<lambda>(op, i). inst_fits op i) imc_table"
  unfolding imc_table_def imc_entries_def
  by (simp add: inst_fits_def imc_opcode_def imc_four_def opc_def field_eval)

lemma decode_match:
  assumes "inst_fits op i" "match_opcode op w"
  shows "imc_opcode w = Some i"
proof -
  note f = field_from_match [OF assms(2) [unfolded match_opcode_def]]
  have eq: "QUADRANT w = QUADRANT (op_match op)" "OPCODE5 w = OPCODE5 (op_match op)" "FUNCT3 w = FUNCT3 (op_match op)"
    using assms(1) by (simp_all add: inst_fits_def QUADRANT_def OPCODE5_def FUNCT3_def f)
  show ?thesis
  proof (cases "imc_four i")
    case True
    then have f2: "FUNCT2 w = FUNCT2 (op_match op)" and z: "FUNCT3 (op_match op) = 0"
      using assms(1) by (simp_all add: inst_fits_def FUNCT2_def f)
    have "imc_opcode w = imc_opcode (op_match op)" unfolding imc_opcode_def eq f2 z by simp
    with assms(1) show ?thesis by (simp add: inst_fits_def)
  next
    case False
    then have f7: "FUNCT7 w = FUNCT7 (op_match op)" and z: "FUNCT3 (op_match op) = 1"
      using assms(1) by (simp_all add: inst_fits_def FUNCT7_def f)
    have "imc_opcode w = imc_opcode (op_match op)" unfolding imc_opcode_def eq f7 z by simp
    with assms(1) show ?thesis by (simp add: inst_fits_def)
  qed
qed

lemma operand_field:
  assumes "reg_field f" shows "EXTRACT_OPERAND f w = insn_bits_of (snd f + 4) (snd f) w"
proof -
  have "EXTRACT_BITS w f = take_bit 5 (drop_bit (snd f) w)"
    using assms by (simp add: EXTRACT_BITS_def reg_field_def take_bit_eq_mask)
  moreover have "unat (take_bit 5 (drop_bit (snd f) w)) < 2 ^ 5" using take_bit_nat_less_exp [of 5] by (simp only: unsigned_take_bit_eq)
  ultimately show ?thesis by (simp add: EXTRACT_OPERAND_def insn_bits_of_def)
qed

lemma decode_registers:
  assumes "inst_fits op i" shows "imc_regs i w = map (\<lambda>f. EXTRACT_OPERAND f w) (imc_fields op)"
  using assms operand_field [of OP_RS1 w] operand_field [of OP_RS2 w] operand_field [of OP_RS3 w] operand_field [of OP_RD w]
  by (auto simp: imc_regs_def imc_fields_def inst_fits_def RS1_def RS2_def RS3_def RS4_def)

text \<open>What the decoder makes of an assembled instruction.\<close>

lemma imc_word_decodes:
  assumes "(op, i) \<in> set imc_table" "length ns = length (imc_fields op)" "\<forall>n \<in> set ns. n < 32"
  shows "imc_opcode (imc_word op ns) = Some i" "imc_regs i (imc_word op ns) = ns"
proof -
  have fit: "inst_fits op i" and op: "op \<in> set imc_entries"
    using assms(1) imc_table_fits by (auto simp: list_all_iff imc_table_def dest: set_zip_leftD)
  show "imc_opcode (imc_word op ns) = Some i" by (rule decode_match [OF fit imc_word_matches [OF op]])
  show "imc_regs i (imc_word op ns) = ns"
    unfolding decode_registers [OF fit] by (rule imc_word_extract [OF assms(2,3)])
qed

lemma gpr_numbers: "list_all2 gpr_named ns names \<Longrightarrow> \<forall>n \<in> set ns. n < 32"
  by (auto simp: list_all2_conv_all_nth gpr_named_def in_set_conv_nth)

text \<open>
  C2. Toolchain and simulator agree on the in-memory instructions: the word that the assembler makes of an instruction is
  executed by the processor as the operation of that name, on the registers of the text in their order; the processor
  translates the addresses in them and the memory receives the write with the operation's flag and the translated addresses
  as payload.
\<close>

theorem assembled_instruction_executes:
  assumes "init_opcode_hash riscv_opcodes False = Inr hash" "reg_names_hash = Inr (as_regs cfg)"
    and "riscv_multi_subset_supports (as_subsets cfg) INSN_CLASS_C = Inr True"
    and "(op, i) \<in> set imc_table" "list_all2 gpr_named ns names" "length ns = length (imc_fields op)"
    and "as_supports cfg ''e'' \<longrightarrow> (\<forall>n \<in> set ns. n \<le> 15)"
    and "list_all2 (\<lambda>a pa. mmu a = Some pa) (map regs ns) operands"
  shows "\<exists>word. riscv_ip cfg riscv_opcodes hash (op_name op @ CHR '' '' # join_commas names) = Ip_done op word False \<and>
    imc_execute mmu ctx regs word s lat =
      Some (rbind (recvTimingReq s (imc_packet ctx i operands) lat) (\<lambda>(s', accepted). Inr s'))"
proof -
  have op: "op \<in> set imc_entries" using assms(4) by (auto simp: imc_table_def dest: set_zip_leftD)
  note dec = imc_word_decodes [OF assms(4,6) gpr_numbers [OF assms(5)]]
  have "imc_execute mmu ctx regs (imc_word op ns) s lat =
    Some (rbind (recvTimingReq s (imc_packet ctx i operands) lat) (\<lambda>(s', accepted). Inr s'))"
    using assms(8) translate_all_Inr [of mmu "map regs ns" operands] by (simp add: imc_execute_def dec)
  with imc_assembles [OF assms(1-3) op assms(5-7)] show ?thesis by blast
qed

text \<open>Registers that point to the cells of a small memory, and an identity translation.\<close>

definition sample_regs :: "nat \<Rightarrow> u64" where
  "sample_regs n = (if n = 11 then 0x100 else if n = 12 then 0x108 else if n = 13 then 0x110 else if n = 10 then 0x118 else 0)"

lemma sample_operands: "list_all2 (\<lambda>a pa. Some a = Some pa) (map sample_regs [11, 12, 13, 10]) [0x100, 0x108, 0x110, 0x118]"
  by (simp add: sample_regs_def)

lemma sample_table: "(imc_entries ! 0, Addmod) \<in> set imc_table"
  by (simp add: imc_table_def imc_entries_def)

theorem assembled_instruction_executes_witness:
  "\<exists>hash h word. riscv_ip (sample_as_config h) riscv_opcodes hash ''addmod a1,a2,a3,a0'' = Ip_done (imc_entries ! 0) word False \<and>
     imc_execute Some 0 sample_regs word (sample_ctrl [5, 9, 11, 0]) 0 =
       Some (rbind (recvTimingReq (sample_ctrl [5, 9, 11, 0]) (imc_packet 0 Addmod [0x100, 0x108, 0x110, 0x118]) 0) (\<lambda>(s', accepted). Inr s'))"
proof -
  obtain hash h where "init_opcode_hash riscv_opcodes False = Inr hash" "reg_names_hash = Inr (as_regs (sample_as_config h))"
    by (rule start_up_hashes)
  from assembled_instruction_executes [OF this sample_as_facts(1) sample_table sample_as_facts(3,4,2) sample_operands]
  show ?thesis unfolding sample_as_facts(5) by (intro exI [of _ hash] exI [of _ h])
qed

text \<open>
  C1. The whole path of an addition: \<^verbatim>\<open>addmod ra,rb,rc,rd\<close> assembles to a word that, executed while the memory is idle, leaves
  the sum of the cells that \<^verbatim>\<open>ra\<close> and \<^verbatim>\<open>rb\<close> point to, modulo the cell that \<^verbatim>\<open>rc\<close> points to, in the cell that \<^verbatim>\<open>rd\<close> points
  to, and changes no cell apart from it, provided the modulus is not zero and the sum fits 64 bits.
\<close>

theorem addmod_end_to_end:
  assumes "init_opcode_hash riscv_opcodes False = Inr hash" "reg_names_hash = Inr (as_regs cfg)"
    and "riscv_multi_subset_supports (as_subsets cfg) INSN_CLASS_C = Inr True"
    and "list_all2 gpr_named [na, nb, nc, nd] [ra, rb, rc, rd]"
    and "as_supports cfg ''e'' \<longrightarrow> (\<forall>n \<in> set [na, nb, nc, nd]. n \<le> 15)"
    and "mmu (regs na) = Some a" "mmu (regs nb) = Some b" "mmu (regs nc) = Some c" "mmu (regs nd) = Some d"
    and "ctrl_reachable s" "\<not> isBusy s" "cell s a = Inr va" "cell s b = Inr vb" "cell s c = Inr vc"
    and "in_store (rangeStart s) (pmem s) d" "vc \<noteq> 0" "unat va + unat vb < 2 ^ 64"
  shows "\<exists>word s' r. riscv_ip cfg riscv_opcodes hash (''addmod '' @ join_commas [ra, rb, rc, rd]) = Ip_done (imc_entries ! 0) word False \<and>
    imc_execute mmu ctx regs word s lat = Some (Inr s') \<and> cell s' d = Inr r \<and> unat r = (unat va + unat vb) mod unat vc \<and>
    (\<forall>x. cells_disjoint (rangeStart s) d x \<longrightarrow> cell s' x = cell s x)"
proof -
  let ?op = "imc_entries ! 0" and ?ns = "[na, nb, nc, nd]"
  have op: "(?op, Addmod) \<in> set imc_table" "length ?ns = length (imc_fields ?op)"
    "op_name ?op @ CHR '' '' # join_commas [ra, rb, rc, rd] = ''addmod '' @ join_commas [ra, rb, rc, rd]"
    by (simp_all add: imc_table_def imc_entries_def imc_fields_def opc_def)
  note asm = imc_assembles [OF assms(1-3) imc_entries_nth assms(4) op(2) assms(5), unfolded op(3)]
  note dec = imc_word_decodes [OF op(1,2) gpr_numbers [OF assms(4)]]
  have tr: "list_all2 (\<lambda>a pa. mmu a = Some pa) (map regs (imc_regs Addmod (imc_word ?op ?ns))) [a, b, c, d]"
    using assms(6-9) by (simp add: dec)
  obtain r where r: "imc_addmod va vb vc = Inr r" "unat r = (unat va + unat vb) mod unat vc"
    using addmod_exact [OF assms(16,17)] by blast
  have req: "imc_request (imc_packet ctx Addmod [a, b, c, d]) ADDMOD [a, b, c, d]"
    using imc_packet_request [of ctx Addmod] by simp
  have "stores_result s (imc_packet ctx Addmod [a, b, c, d]) lat d r"
    by (rule stores_result_ternary [OF ctrl_inv_reachable [OF assms(10)] assms(11) req imc_dispatch_flags(1) assms(12-15) r(1)])
  from imc_execute_stores [OF dec(1) tr this] asm r(2) show ?thesis by blast
qed

theorem addmod_end_to_end_witness:
  "\<exists>hash h word s' r. riscv_ip (sample_as_config h) riscv_opcodes hash (''addmod '' @ join_commas [''a1'', ''a2'', ''a3'', ''a0'']) =
       Ip_done (imc_entries ! 0) word False \<and>
     imc_execute Some 0 sample_regs word (sample_ctrl [5, 9, 11, 0]) 0 = Some (Inr s') \<and> cell s' 0x118 = Inr r \<and>
     unat r = (unat (5 :: u64) + unat (9 :: u64)) mod unat (11 :: u64) \<and>
     (\<forall>x. cells_disjoint (rangeStart (sample_ctrl [5, 9, 11, 0])) 0x118 x \<longrightarrow> cell s' x = cell (sample_ctrl [5, 9, 11, 0]) x)"
proof -
  obtain hash h where h: "init_opcode_hash riscv_opcodes False = Inr hash" "reg_names_hash = Inr (as_regs (sample_as_config h))"
    by (rule start_up_hashes)
  have tr: "Some (sample_regs 11) = Some 0x100" "Some (sample_regs 12) = Some 0x108" "Some (sample_regs 13) = Some 0x110"
    "Some (sample_regs 10) = Some 0x118" by (simp_all add: sample_regs_def)
  have v: "(11 :: u64) \<noteq> 0" "unat (5 :: u64) + unat (9 :: u64) < 2 ^ 64" by simp_all
  from addmod_end_to_end [OF h sample_as_facts(1,3,2) tr sample_reachable sample_idle sample_cells sample_dest v]
  show ?thesis by (intro exI [of _ hash] exI [of _ h])
qed

end
